(* ===== verification/Models.thy ===== *)
theory Models imports Prelude begin

text \<open>
  The data of the program that several components share: JSON values, networks and their
  recovery settings, monitors and their conditions, triggers' script languages, matches and
  processed blocks (src/src/models). A struct is a record whose fields carry a short prefix,
  because HOL records share one name space; an enum is a datatype.
\<close>

section \<open>JSON values\<close>

text \<open>\<open>serde_json::Value\<close>. A number is an unsigned or a negative 64-bit integer or a float,
  the float by its printed form. A map lists its entries in iteration order, which is key
  order (a \<open>BTreeMap\<close>: the crate is built without \<open>preserve_order\<close>).\<close>

datatype json_number = PosInt u64 | NegInt u64 | Float string

datatype json =
    JNull
  | JBool bool
  | JNumber json_number
  | JString string
  | JArray "json list"
  | JObject "(string \<times> json) list"

fun json_is_array :: "json \<Rightarrow> bool" where
  "json_is_array (JArray _) = True"
| "json_is_array _ = False"

section \<open>Networks\<close>

datatype blockchain_type = EVM | Stellar | Midnight | Solana

record signature_rules =
  requires_parentheses :: bool

fun signature_rules_of :: "blockchain_type \<Rightarrow> signature_rules" where
  "signature_rules_of EVM = \<lparr>requires_parentheses = True\<rparr>"
| "signature_rules_of Stellar = \<lparr>requires_parentheses = True\<rparr>"
| "signature_rules_of Midnight = \<lparr>requires_parentheses = True\<rparr>"
| "signature_rules_of Solana = \<lparr>requires_parentheses = False\<rparr>"

fun show_blockchain_type :: "blockchain_type \<Rightarrow> string" where
  "show_blockchain_type EVM = ''EVM''"
| "show_blockchain_type Stellar = ''Stellar''"
| "show_blockchain_type Midnight = ''Midnight''"
| "show_blockchain_type Solana = ''Solana''"

datatype secret_value = Plain string | Environment string | HashicorpCloudVault string

fun secret_as_str :: "secret_value \<Rightarrow> string" where
  "secret_as_str (Plain s) = s"
| "secret_as_str (Environment s) = s"
| "secret_as_str (HashicorpCloudVault s) = s"

fun secret_starts_with :: "secret_value \<Rightarrow> string \<Rightarrow> bool" where
  "secret_starts_with (Plain s) p = prefix p s"
| "secret_starts_with (Environment s) p = prefix p s"
| "secret_starts_with (HashicorpCloudVault s) p = prefix p s"

record block_recovery_config =
  rc_enabled :: bool
  rc_cron_schedule :: string
  rc_max_blocks_per_run :: u64
  rc_max_block_age :: u64
  rc_max_retries :: u32
  rc_retry_delay_ms :: u64

record rpc_url =
  rpc_type :: string
  rpc_location :: secret_value
  rpc_weight :: u32

record network =
  network_type :: blockchain_type
  slug :: string
  network_name :: string
  rpc_urls :: "rpc_url list"
  chain_id :: "u64 option"
  network_passphrase :: "string option"
  block_time_ms :: u64
  confirmation_blocks :: u64
  cron_schedule :: string
  max_past_blocks :: "u64 option"
  store_blocks :: "bool option"
  recovery_config :: "block_recovery_config option"

section \<open>Monitors\<close>

datatype transaction_status = AnyStatus | Success | Failure

record function_condition =
  fc_signature :: string
  fc_expression :: "string option"

record event_condition =
  ec_signature :: string
  ec_expression :: "string option"

record transaction_condition =
  tc_status :: transaction_status
  tc_expression :: "string option"

record match_conditions =
  mc_functions :: "function_condition list"
  mc_events :: "event_condition list"
  mc_transactions :: "transaction_condition list"

datatype script_language = JavaScript | Python | Bash

definition script_language_extensions :: "(script_language \<times> string) list" where
  "script_language_extensions = [(Python, ''py''), (JavaScript, ''js''), (Bash, ''sh'')]"

record trigger_condition =
  tr_script_path :: string
  tr_arguments :: "string list option"
  tr_language :: script_language
  tr_timeout_ms :: u32

text \<open>A contract specification: an EVM ABI, or the specification of another chain as its
  JSON value. \<open>'abi\<close> is the ABI library's type (\<open>alloy::json_abi::JsonAbi\<close>).\<close>

datatype 'abi contract_spec = SpecEVM 'abi | SpecStellar json | SpecMidnight | SpecSolana json

record 'abi address_with_spec =
  aw_address :: string
  aw_contract_spec :: "'abi contract_spec option"

text \<open>The chain configurations of a monitor only matter to Midnight, as viewing keys.\<close>

record chain_configuration =
  cc_midnight_viewing_keys :: "secret_value list option"

record 'abi monitor =
  mon_name :: string
  mon_networks :: "string list"
  mon_paused :: bool
  mon_addresses :: "'abi address_with_spec list"
  mon_match_conditions :: match_conditions
  mon_trigger_conditions :: "trigger_condition list"
  mon_triggers :: "string list"
  mon_chain_configurations :: "chain_configuration list"

section \<open>Matches\<close>

record match_param_entry =
  pe_name :: string
  pe_value :: string
  pe_indexed :: bool
  pe_kind :: string

record match_params_map =
  pm_signature :: string
  pm_args :: "match_param_entry list option"
  pm_hex_signature :: "string option"

record match_arguments =
  ma_functions :: "match_params_map list option"
  ma_events :: "match_params_map list option"

text \<open>What the trigger pipeline passes from block processing to trigger execution.
  \<open>'m\<close> is the type of matches.\<close>

record 'm processed_block =
  pb_block_number :: u64
  pb_network_slug :: string
  pb_results :: "'m list"

end
