(* ===== verification/Tracker.thy ===== *)
theory Tracker imports Models begin

text \<open>
  The block tracker (src/src/services/blockwatcher/tracker.rs): the per-network history of
  executed blocks and the number expected next, gap detection in a fetched batch, and the
  check that classifies each executed block. The two mutex-guarded hash maps are maps from
  slugs; each operation is one critical section and so one state transition.
\<close>

section \<open>State and operations\<close>

datatype block_check_result =
    CheckOk
  | Duplicate (last_seen: u64)
  | OutOfOrder (expected: u64) (received: u64)

record block_tracker =
  processed_history :: "string \<rightharpoonup> u64 list"
  expected_next :: "string \<rightharpoonup> u64"
  history_size :: nat

definition new_tracker :: "nat \<Rightarrow> block_tracker" where
  "new_tracker k = \<lparr>processed_history = Map.empty, expected_next = Map.empty, history_size = k\<rparr>"

definition get_last_block :: "block_tracker \<Rightarrow> string \<Rightarrow> u64 option" where
  "get_last_block t s = (case processed_history t s of None \<Rightarrow> None
     | Some h \<Rightarrow> if h = [] then None else Some (Max (set h)))"

text \<open>\<open>first..=last\<close>, a range that includes its upper end.\<close>

definition inclusive_range :: "u64 \<Rightarrow> u64 \<Rightarrow> u64 list" where
  "inclusive_range a b = map word_of_nat [unat a ..< Suc (unat b)]"

definition detect_missing_blocks :: "('b \<Rightarrow> u64 option) \<Rightarrow> 'b list \<Rightarrow> u64 list" where
  "detect_missing_blocks number blocks =
     (let fetched = set (List.map_filter number blocks) in
      if fetched = {} then []
      else filter (\<lambda>n. n \<notin> fetched) (inclusive_range (Min fetched) (Max fetched)))"

text \<open>The history is a queue, oldest entry first; \<open>pop_front\<close> runs until it has at most
  \<open>history_size\<close> entries.\<close>

fun pop_while_over :: "nat \<Rightarrow> 'a list \<Rightarrow> 'a list" where
  "pop_while_over k [] = []"
| "pop_while_over k (x # h) = (if k < length (x # h) then pop_while_over k h else x # h)"

definition check_processed_block :: "block_tracker \<Rightarrow> string \<Rightarrow> u64 \<Rightarrow> block_check_result \<times> block_tracker" where
  "check_processed_block t s n =
     (let h = entry_or (processed_history t) s [];
          e = entry_or (expected_next t) s n;
          t1 = t\<lparr>processed_history := (processed_history t)(s \<mapsto> h),
                 expected_next := (expected_next t)(s \<mapsto> e)\<rparr>
      in if n \<in> set h then (Duplicate (if h = [] then n else last h), t1)
         else let r = (if n < e then OutOfOrder e n else CheckOk);
                  e' = (if e \<le> n then n + 1 else e);
                  h' = pop_while_over (history_size t) (h @ [n])
              in (r, t1\<lparr>processed_history := (processed_history t1)(s \<mapsto> h'),
                        expected_next := (expected_next t1)(s \<mapsto> e')\<rparr>))"

definition reset_expected_next :: "block_tracker \<Rightarrow> string \<Rightarrow> u64 \<Rightarrow> block_tracker" where
  "reset_expected_next t s start = (case expected_next t s of
       Some e \<Rightarrow> if start < e then t\<lparr>expected_next := (expected_next t)(s \<mapsto> start)\<rparr> else t
     | None \<Rightarrow> t\<lparr>expected_next := (expected_next t)(s \<mapsto> start)\<rparr>)"

section \<open>Invariant\<close>

text \<open>No history is longer than its bound.\<close>

definition tracker_inv :: "block_tracker \<Rightarrow> bool" where
  "tracker_inv t \<longleftrightarrow> (\<forall>s h. processed_history t s = Some h \<longrightarrow> length h \<le> history_size t)"

abbreviation history_of :: "block_tracker \<Rightarrow> string \<Rightarrow> u64 list" where
  "history_of t s \<equiv> entry_or (processed_history t) s []"

lemma pop_while_over_drop: "pop_while_over k h = drop (length h - k) h"
proof (induction h)
  case (Cons x h)
  then show ?case by (cases "length h - k") (auto simp: Suc_diff_le not_less)
qed simp

lemma length_pop_while_over: "length (pop_while_over k h) \<le> k"
  by (simp add: pop_while_over_drop)

lemma set_pop_while_over: "set (pop_while_over k h) \<subseteq> set h"
  by (simp add: pop_while_over_drop set_drop_subset)

lemma tracker_inv_new [simp]: "tracker_inv (new_tracker k)"
  by (simp add: tracker_inv_def new_tracker_def)

lemma history_size_check [simp]:
  "history_size (snd (check_processed_block t s n)) = history_size t"
  by (simp add: check_processed_block_def Let_def)

lemma tracker_inv_check: "tracker_inv t \<Longrightarrow> tracker_inv (snd (check_processed_block t s n))"
  by (auto simp: tracker_inv_def check_processed_block_def Let_def length_pop_while_over entry_or_def
      split: option.splits)

lemma tracker_inv_reset: "tracker_inv t \<Longrightarrow> tracker_inv (reset_expected_next t s n)"
  by (auto simp: tracker_inv_def reset_expected_next_def split: option.splits)

lemma history_check:
  "history_of (snd (check_processed_block t s n)) s =
    (if n \<in> set (history_of t s) then history_of t s
     else pop_while_over (history_size t) (history_of t s @ [n]))"
  by (simp add: check_processed_block_def Let_def)

lemma history_check_other:
  "s' \<noteq> s \<Longrightarrow> processed_history (snd (check_processed_block t s n)) s' = processed_history t s'"
  by (simp add: check_processed_block_def Let_def)

lemma expected_check_other:
  "s' \<noteq> s \<Longrightarrow> expected_next (snd (check_processed_block t s n)) s' = expected_next t s'"
  by (simp add: check_processed_block_def Let_def)

lemma reset_other:
  "s' \<noteq> s \<Longrightarrow> expected_next (reset_expected_next t s n) s' = expected_next t s'"
  by (simp add: reset_expected_next_def split: option.splits)

lemma history_reset [simp]: "processed_history (reset_expected_next t s n) = processed_history t"
  by (simp add: reset_expected_next_def split: option.splits)

lemma expected_reset:
  "\<exists>e. expected_next (reset_expected_next t s n) s = Some e \<and> e \<le> n"
  by (auto simp: reset_expected_next_def split: option.splits)

section \<open>Gap detection\<close>

lemma unat_word_of_nat_le: "k \<le> unat (b :: u64) \<Longrightarrow> unat (word_of_nat k :: u64) = k"
  using unat_lt2p_u64 [of b] by (simp add: unat_of_nat take_bit_eq_mod)

lemma set_inclusive_range: "set (inclusive_range a b) = {a..b}"
proof
  show "set (inclusive_range a b) \<subseteq> {a..b}"
    by (auto simp del: upt_Suc
        simp: inclusive_range_def word_le_nat_alt unat_word_of_nat_le [of _ b] less_Suc_eq_le)
  show "{a..b} \<subseteq> set (inclusive_range a b)"
  proof
    fix n assume "n \<in> {a..b}"
    then have "unat n \<in> {unat a ..< Suc (unat b)}" by (auto simp: word_le_nat_alt)
    then have "word_of_nat (unat n) \<in> set (inclusive_range a b)"
      unfolding inclusive_range_def set_map set_upt by (rule imageI)
    then show "n \<in> set (inclusive_range a b)" by simp
  qed
qed

lemma sorted_inclusive_range: "sorted_wrt (<) (inclusive_range a b)"
proof -
  have "word_of_nat i < (word_of_nat j :: u64)" if "i < j" "j \<le> unat b" for i j
    using that unat_lt2p_u64 [of b] by (simp add: word_less_nat_alt unat_of_nat take_bit_eq_mod)
  then show ?thesis
    unfolding inclusive_range_def sorted_wrt_map
    by (intro sorted_wrt_mono_rel [OF _ sorted_wrt_upt]) auto
qed

lemma sorted_detect: "sorted_wrt (<) (detect_missing_blocks number blocks)"
  by (simp add: detect_missing_blocks_def Let_def sorted_wrt_filter sorted_inclusive_range)

lemma distinct_detect: "distinct (detect_missing_blocks number blocks)"
  using sorted_detect [of number blocks] by (simp add: strict_sorted_iff)

lemma set_detect:
  "set (detect_missing_blocks number blocks) =
    {n. n \<notin> set (List.map_filter number blocks) \<and>
        (\<exists>a \<in> set (List.map_filter number blocks). a < n) \<and>
        (\<exists>b \<in> set (List.map_filter number blocks). n < b)}"
proof (cases "set (List.map_filter number blocks) = {}")
  case True
  then show ?thesis by (simp add: detect_missing_blocks_def)
next
  case False
  define F where "F = set (List.map_filter number blocks)"
  have F: "finite F" "F \<noteq> {}" using False by (auto simp: F_def)
  then have le: "Min F \<le> Max F" by (meson Max_ge Min_in)
  have "set (detect_missing_blocks number blocks) = {n \<in> {Min F..Max F}. n \<notin> F}"
    using F le by (simp add: detect_missing_blocks_def Let_def set_inclusive_range flip: F_def)
  also have "\<dots> = {n. n \<notin> F \<and> (\<exists>a \<in> F. a < n) \<and> (\<exists>b \<in> F. n < b)}"
    using F by (auto simp: Min_le_iff Max_ge_iff) (metis order_le_less)+
  finally show ?thesis by (simp add: F_def)
qed

section \<open>Classification of executed blocks\<close>

lemma check_result:
  "fst (check_processed_block t s n) =
    (if n \<in> set (history_of t s) then Duplicate (last (history_of t s))
     else if n < entry_or (expected_next t) s n then OutOfOrder (entry_or (expected_next t) s n) n
     else CheckOk)"
  by (auto simp: check_processed_block_def Let_def)

lemma expected_check:
  "expected_next (snd (check_processed_block t s n)) s = Some (
     let e = entry_or (expected_next t) s n in
     if n \<notin> set (history_of t s) \<and> e \<le> n then n + 1 else e)"
  by (auto simp: check_processed_block_def Let_def)

text \<open>Running the check over a list of block numbers, as the trigger stage does.\<close>

fun check_all :: "block_tracker \<Rightarrow> string \<Rightarrow> u64 list \<Rightarrow> block_check_result list \<times> block_tracker" where
  "check_all t s [] = ([], t)"
| "check_all t s (n # ns) = (let (r, t') = check_processed_block t s n;
     (rs, t'') = check_all t' s ns in (r # rs, t''))"

lemma check_all_ascending_ok:
  assumes "sorted_wrt (<) ns" "set ns \<inter> set (history_of t s) = {}"
    "expected_next t s = Some e" "\<forall>n \<in> set ns. e \<le> n" "- 1 \<notin> set ns"
  shows "set (fst (check_all t s ns)) \<subseteq> {CheckOk}"
  using assms
proof (induction ns arbitrary: t e)
  case (Cons n ns)
  let ?t = "snd (check_processed_block t s n)"
  have n: "n \<notin> set (history_of t s)" "e \<le> n" "n \<noteq> - 1" using Cons.prems by auto
  have r: "fst (check_processed_block t s n) = CheckOk"
    using n Cons.prems(3) by (simp add: check_result not_less)
  have e: "expected_next ?t s = Some (n + 1)"
    using n Cons.prems(3) by (simp add: expected_check)
  have "set (history_of ?t s) \<subseteq> insert n (set (history_of t s))"
    using n(1) set_pop_while_over [of "history_size t" "history_of t s @ [n]"]
    by (simp add: history_check)
  then have h: "set ns \<inter> set (history_of ?t s) = {}"
    using Cons.prems(1,2) by auto
  have "\<forall>m \<in> set ns. n + 1 \<le> m"
    using Cons.prems(1) by (auto intro: less_imp_plus_one_le)
  then have "set (fst (check_all ?t s ns)) \<subseteq> {CheckOk}"
    using Cons.prems(1,5) by (intro Cons.IH [OF _ h e]) auto
  with r show ?case by (simp add: case_prod_beta Let_def)
qed simp

section \<open>Properties\<close>

text \<open>The trackers that the program can build: a new one, and what any operation on any network
  makes of one.\<close>

inductive tracker_reach :: "nat \<Rightarrow> block_tracker \<Rightarrow> bool" for k where
  reach_new: "tracker_reach k (new_tracker k)"
| reach_check: "tracker_reach k t \<Longrightarrow> tracker_reach k (snd (check_processed_block t s n))"
| reach_reset: "tracker_reach k t \<Longrightarrow> tracker_reach k (reset_expected_next t s n)"

lemma history_check_any:
  "history_of (snd (check_processed_block t s n)) s' =
    (if s' = s \<and> n \<notin> set (history_of t s) then pop_while_over (history_size t) (history_of t s @ [n])
     else history_of t s')"
  by (auto simp: check_processed_block_def Let_def)

lemma distinct_pop_while_over: "distinct h \<Longrightarrow> distinct (pop_while_over k h)"
  by (simp add: pop_while_over_drop)

lemma reach_size: "tracker_reach k t \<Longrightarrow> history_size t = k"
  by (induction rule: tracker_reach.induct)
    (simp_all add: new_tracker_def reset_expected_next_def split: option.splits)

text \<open>C8. Gap detection is exact: \<open>detect_missing_blocks\<close> reports, in ascending order and once
  each, precisely the block numbers that lie strictly between two fetched blocks and were not
  fetched.\<close>

theorem detect_missing_blocks_exact:
  "set (detect_missing_blocks number blocks) =
     {n. n \<notin> set (List.map_filter number blocks) \<and>
        (\<exists>a \<in> set (List.map_filter number blocks). a < n) \<and>
        (\<exists>b \<in> set (List.map_filter number blocks). n < b)}
   \<and> sorted_wrt (<) (detect_missing_blocks number blocks)
   \<and> distinct (detect_missing_blocks number blocks)"
  using set_detect sorted_detect distinct_detect by blast

text \<open>In every tracker the program can build with history size \<open>k\<close>, the history of each
  network holds at most \<open>k\<close> block numbers and none of them twice.\<close>

theorem tracker_history_bounded:
  assumes "tracker_reach k t"
  shows "length (history_of t s) \<le> k \<and> distinct (history_of t s)"
  using assms
proof (induction rule: tracker_reach.induct)
  case reach_new
  then show ?case by (simp add: new_tracker_def entry_or_def)
next
  case (reach_check t s' n)
  then show ?case
    using reach_size [OF reach_check.hyps]
    by (auto simp: history_check_any length_pop_while_over intro: distinct_pop_while_over)
next
  case (reach_reset t s' n)
  then show ?case by simp
qed

theorem tracker_history_bounded_witness:
  "length (history_of (snd (check_processed_block (new_tracker 2) ''eth'' 5)) ''eth'') \<le> 2
   \<and> distinct (history_of (snd (check_processed_block (new_tracker 2) ''eth'' 5)) ''eth'')"
  by (rule tracker_history_bounded [OF reach_check [OF reach_new]])

text \<open>Executing a block right after it was executed is reported as a duplicate of itself, and
  the tracker is not changed by the second report, whatever was processed before, as long as
  the history has room for at least one block.\<close>

theorem check_again_is_duplicate:
  assumes "0 < history_size t" "n \<notin> set (history_of t s)"
  shows "fst (check_processed_block (snd (check_processed_block t s n)) s n) = Duplicate n
   \<and> history_of (snd (check_processed_block (snd (check_processed_block t s n)) s n)) s =
       history_of (snd (check_processed_block t s n)) s"
proof -
  let ?t = "snd (check_processed_block t s n)"
  have h: "history_of ?t s = pop_while_over (history_size t) (history_of t s @ [n])"
    using assms by (simp add: history_check)
  with assms(1) have ne: "history_of ?t s \<noteq> []" and l: "last (history_of ?t s) = n"
    by (auto simp: pop_while_over_drop last_drop)
  then have "n \<in> set (history_of ?t s)" using last_in_set by metis
  with l show ?thesis by (simp add: check_result history_check)
qed

theorem check_again_is_duplicate_witness:
  "fst (check_processed_block (snd (check_processed_block (new_tracker 1) ''eth'' 7)) ''eth'' 7) = Duplicate 7"
  using check_again_is_duplicate [of "new_tracker 1" 7 "''eth''"] by (simp add: new_tracker_def entry_or_def)

end
