(* ===== verification/Pipeline.thy ===== *)
theory Pipeline imports Tracker begin

text \<open>
  The trigger stage of the block pipeline (src/src/services/blockwatcher/service.rs, the second
  task spawned by \<open>process_new_blocks\<close>): processed blocks arrive in any order, wait in an
  ordered map, and are executed in block order. The stage's local variables are a record; the
  blocks handed to the trigger handler and the tracker's answers are kept as traces.
\<close>

section \<open>The stage\<close>

record 'm trigger_state =
  tg_pending :: "(u64, 'm processed_block) btree"
  tg_next :: "u64 option"
  tg_tracker :: block_tracker
  tg_fired :: "'m processed_block list"
  tg_checks :: "block_check_result list"

text \<open>Check the execution order, whose outcome is only logged, and hand the block on.\<close>

definition check_and_fire :: "string \<Rightarrow> u64 \<Rightarrow> 'm processed_block \<Rightarrow> 'm trigger_state \<Rightarrow> 'm trigger_state" where
  "check_and_fire sl n blk st = (case check_processed_block (tg_tracker st) sl n of (r, t) \<Rightarrow>
     st\<lparr>tg_tracker := t, tg_checks := tg_checks st @ [r], tg_fired := tg_fired st @ [blk]\<rparr>)"

lemma pending_check_and_fire [simp]: "tg_pending (check_and_fire sl n blk st) = tg_pending st"
  by (simp add: check_and_fire_def split: prod.splits)

lemma next_check_and_fire [simp]: "tg_next (check_and_fire sl n blk st) = tg_next st"
  by (simp add: check_and_fire_def split: prod.splits)

lemma fired_check_and_fire [simp]: "tg_fired (check_and_fire sl n blk st) = tg_fired st @ [blk]"
  by (simp add: check_and_fire_def split: prod.splits)

text \<open>As long as the next expected block is there, take it out, execute it and expect its
  successor.\<close>

function run_ready :: "string \<Rightarrow> 'm trigger_state \<Rightarrow> 'm trigger_state" where
  "run_ready sl st = (case tg_next st of
       None \<Rightarrow> st
     | Some e \<Rightarrow> (case map_of (tg_pending st) e of
         None \<Rightarrow> st
       | Some blk \<Rightarrow> run_ready sl
           ((check_and_fire sl e blk (st\<lparr>tg_pending := bt_remove e (tg_pending st)\<rparr>))\<lparr>tg_next := Some (e + 1)\<rparr>)))"
  by auto
termination
  by (relation "measure (\<lambda>(sl, st). length (tg_pending st))") (auto intro: length_bt_remove)

declare run_ready.simps [simp del]

definition receive_block :: "string \<Rightarrow> 'm processed_block \<Rightarrow> 'm trigger_state \<Rightarrow> 'm trigger_state" where
  "receive_block sl blk st = run_ready sl (st\<lparr>tg_pending := bt_insert (pb_block_number blk) blk (tg_pending st)\<rparr>)"

text \<open>Once the channel is closed: the remaining blocks, smallest number first.\<close>

function drain_pending :: "string \<Rightarrow> 'm trigger_state \<Rightarrow> 'm trigger_state" where
  "drain_pending sl st = (case tg_pending st of
       [] \<Rightarrow> st
     | (k, blk) # _ \<Rightarrow> drain_pending sl
         (check_and_fire sl k blk (st\<lparr>tg_pending := bt_remove k (tg_pending st)\<rparr>)))"
  by auto
termination
  by (relation "measure (\<lambda>(sl, st). length (tg_pending st))") auto

declare drain_pending.simps [simp del]

definition trigger_stage :: "string \<Rightarrow> u64 \<Rightarrow> block_tracker \<Rightarrow> 'm processed_block list \<Rightarrow> 'm trigger_state" where
  "trigger_stage sl start tracker blocks = drain_pending sl (fold (receive_block sl) blocks
     \<lparr>tg_pending = [], tg_next = Some start, tg_tracker = tracker, tg_fired = [], tg_checks = []\<rparr>)"

section \<open>Invariant\<close>

abbreviation fired_numbers :: "'m trigger_state \<Rightarrow> u64 list" where
  "fired_numbers st \<equiv> map pb_block_number (tg_fired st)"

text \<open>The executed blocks are those from \<open>start\<close> up to the expected one, in order; the
  waiting ones are not smaller; and nothing received is lost or doubled.\<close>

definition stage_inv :: "u64 \<Rightarrow> 'm processed_block multiset \<Rightarrow> 'm trigger_state \<Rightarrow> bool" where
  "stage_inv start recv st \<longleftrightarrow> (\<exists>e. tg_next st = Some e \<and> start \<le> e
     \<and> set (fired_numbers st) = {start..<e} \<and> sorted_wrt (<) (fired_numbers st)
     \<and> bt_ok (tg_pending st) \<and> (\<forall>(k, blk) \<in> set (tg_pending st). k = pb_block_number blk \<and> e \<le> k \<and> k \<noteq> - 1)
     \<and> mset (tg_fired st) + image_mset snd (mset (tg_pending st)) = recv)"

lemma less_plus_one: "e \<noteq> (- 1 :: u64) \<Longrightarrow> n < e + 1 \<longleftrightarrow> n \<le> e"
  using unat_Suc_word [of e] by (simp add: word_less_nat_alt word_le_nat_alt less_Suc_eq_le)

lemma stage_inv_step:
  assumes inv: "stage_inv start recv st" and e: "tg_next st = Some e" "map_of (tg_pending st) e = Some blk"
  shows "stage_inv start recv
    ((check_and_fire sl e blk (st\<lparr>tg_pending := bt_remove e (tg_pending st)\<rparr>))\<lparr>tg_next := Some (e + 1)\<rparr>)"
proof -
  from inv e have i: "start \<le> e" "set (fired_numbers st) = {start..<e}" "sorted_wrt (<) (fired_numbers st)"
    "bt_ok (tg_pending st)" "\<forall>(k, b) \<in> set (tg_pending st). k = pb_block_number b \<and> e \<le> k \<and> k \<noteq> - 1"
    "mset (tg_fired st) + image_mset snd (mset (tg_pending st)) = recv"
    by (auto simp: stage_inv_def)
  have mem: "(e, blk) \<in> set (tg_pending st)" using e(2) by (rule map_of_SomeD)
  with i(5) have blk: "pb_block_number blk = e" "e \<noteq> - 1" by auto
  have "{start..<e + 1} = insert e {start..<e}"
    unfolding set_eq_iff atLeastLessThan_iff insert_iff less_plus_one [OF blk(2)]
    using i(1) by (metis order_le_less)
  moreover have "\<forall>(k, b) \<in> set (bt_remove e (tg_pending st)). k = pb_block_number b \<and> e + 1 \<le> k \<and> k \<noteq> - 1"
  proof (intro ballI)
    fix p assume p: "p \<in> set (bt_remove e (tg_pending st))"
    obtain k b where kb: "p = (k, b)" by (cases p)
    have "map_of (bt_remove e (tg_pending st)) e = None"
      using map_of_bt_remove [OF i(4), of e] by simp
    then have "e \<notin> fst ` set (bt_remove e (tg_pending st))" by (simp add: map_of_eq_None_iff)
    with p kb have "k \<noteq> e" by force
    moreover have "k = pb_block_number b \<and> e \<le> k \<and> k \<noteq> - 1"
      using p kb i(5) set_bt_remove_subset [of e "tg_pending st"] by auto
    ultimately show "case p of (k, b) \<Rightarrow> k = pb_block_number b \<and> e + 1 \<le> k \<and> k \<noteq> - 1"
      using kb less_imp_plus_one_le by auto
  qed
  moreover have "start \<le> e + 1"
    using i(1) less_plus_one [OF blk(2), of start] by (simp add: order_less_imp_le)
  ultimately show ?thesis
    using i mset_bt_remove [OF e(2)] blk(1) by (auto simp: stage_inv_def sorted_wrt_append)
qed

lemma stage_inv_run_ready: "stage_inv start recv st \<Longrightarrow> stage_inv start recv (run_ready sl st)"
proof (induction sl st rule: run_ready.induct)
  case (1 sl st)
  show ?case
  proof (cases "\<exists>e blk. tg_next st = Some e \<and> map_of (tg_pending st) e = Some blk")
    case True
    then obtain e blk where e: "tg_next st = Some e" "map_of (tg_pending st) e = Some blk" by auto
    from "1.IH" [OF e stage_inv_step [OF "1.prems" e]] show ?thesis
      using e by (subst run_ready.simps) simp
  next
    case False
    then have "run_ready sl st = st"
      by (subst run_ready.simps) (auto split: option.splits)
    with "1.prems" show ?thesis by simp
  qed
qed

lemma stage_inv_receive:
  assumes inv: "stage_inv start recv st" and n: "start \<le> pb_block_number blk" "pb_block_number blk \<noteq> - 1"
    and new: "pb_block_number blk \<notin> pb_block_number ` set_mset recv"
  shows "stage_inv start (add_mset blk recv) (receive_block sl blk st)"
proof -
  let ?n = "pb_block_number blk"
  from inv obtain e where i: "tg_next st = Some e" "start \<le> e" "set (fired_numbers st) = {start..<e}"
    "sorted_wrt (<) (fired_numbers st)" "bt_ok (tg_pending st)"
    "\<forall>(k, b) \<in> set (tg_pending st). k = pb_block_number b \<and> e \<le> k \<and> k \<noteq> - 1"
    "mset (tg_fired st) + image_mset snd (mset (tg_pending st)) = recv"
    by (auto simp: stage_inv_def)
  have recv: "set_mset recv = set (tg_fired st) \<union> snd ` set (tg_pending st)"
    by (simp add: i(7) [symmetric])
  have "?n \<notin> fst ` set (tg_pending st)" using new i(6) by (force simp: recv)
  note ms = mset_bt_insert_new [OF this, of blk]
  have "?n \<notin> {start..<e}" using new by (auto simp: recv i(3) [symmetric])
  with n(1) have "e \<le> ?n" by (simp add: not_less)
  moreover have "set (bt_insert ?n blk (tg_pending st)) = insert (?n, blk) (set (tg_pending st))"
    using arg_cong [OF ms, of set_mset] by simp
  ultimately have "stage_inv start (add_mset blk recv) (st\<lparr>tg_pending := bt_insert ?n blk (tg_pending st)\<rparr>)"
    using i n(2) ms by (auto simp: stage_inv_def)
  then show ?thesis unfolding receive_block_def by (rule stage_inv_run_ready)
qed

lemma stage_inv_receive_all:
  assumes "stage_inv start recv st" "\<forall>b \<in> set bs. start \<le> pb_block_number b \<and> pb_block_number b \<noteq> - 1"
    "distinct (map pb_block_number bs)" "pb_block_number ` set bs \<inter> pb_block_number ` set_mset recv = {}"
  shows "stage_inv start (mset bs + recv) (fold (receive_block sl) bs st)"
  using assms
proof (induction bs arbitrary: recv st)
  case (Cons b bs)
  have "stage_inv start (add_mset b recv) (receive_block sl b st)"
    using Cons.prems by (intro stage_inv_receive) auto
  from Cons.IH [OF this] Cons.prems show ?case by auto
qed simp

lemma drain_fired: "bt_ok (tg_pending st) \<Longrightarrow>
  tg_fired (drain_pending sl st) = tg_fired st @ map snd (tg_pending st)"
proof (induction sl st rule: drain_pending.induct)
  case (1 sl st)
  show ?case
  proof (cases "tg_pending st")
    case Nil
    then show ?thesis by (subst drain_pending.simps) simp
  next
    case (Cons p m)
    obtain k blk where p: "p = (k, blk)" by (cases p)
    with Cons "1.prems" have "bt_ok m" by (simp add: bt_ok_Cons)
    with "1.IH" [OF Cons p [symmetric]] Cons p show ?thesis by (subst drain_pending.simps) simp
  qed
qed

section \<open>The tracker's answers\<close>

lemma check_all_snoc:
  "check_all t s (ns @ [n]) = (let (rs, t') = check_all t s ns; (r, t'') = check_processed_block t' s n in (rs @ [r], t''))"
  by (induction ns arbitrary: t) (auto simp: Let_def split: prod.splits)

text \<open>The stage's tracker and answers are those of checking the executed numbers in turn.\<close>

definition checks_match :: "block_tracker \<Rightarrow> string \<Rightarrow> 'm trigger_state \<Rightarrow> bool" where
  "checks_match t0 sl st \<longleftrightarrow> check_all t0 sl (fired_numbers st) = (tg_checks st, tg_tracker st)
     \<and> (\<forall>(k, blk) \<in> set (tg_pending st). k = pb_block_number blk)"

lemma checks_match_fire:
  assumes "checks_match t0 sl st" "n = pb_block_number blk" "set m \<subseteq> set (tg_pending st)"
  shows "checks_match t0 sl ((check_and_fire sl n blk (st\<lparr>tg_pending := m\<rparr>))\<lparr>tg_next := x\<rparr>)"
    and "checks_match t0 sl (check_and_fire sl n blk (st\<lparr>tg_pending := m\<rparr>))"
  using assms by (auto simp: checks_match_def check_and_fire_def check_all_snoc Let_def split: prod.splits)

lemma checks_match_run_ready: "checks_match t0 sl st \<Longrightarrow> checks_match t0 sl (run_ready sl st)"
proof (induction sl st rule: run_ready.induct)
  case (1 sl st)
  show ?case
  proof (cases "\<exists>e blk. tg_next st = Some e \<and> map_of (tg_pending st) e = Some blk")
    case True
    then obtain e blk where e: "tg_next st = Some e" "map_of (tg_pending st) e = Some blk" by auto
    with "1.prems" have "e = pb_block_number blk"
      by (auto simp: checks_match_def dest!: map_of_SomeD)
    from checks_match_fire(1) [OF "1.prems" this set_bt_remove_subset] "1.IH" [OF e]
    show ?thesis using e by (subst run_ready.simps) simp
  next
    case False
    then have "run_ready sl st = st"
      by (subst run_ready.simps) (auto split: option.splits)
    with "1.prems" show ?thesis by simp
  qed
qed

lemma set_bt_insert_subset: "set (bt_insert k v m) \<subseteq> insert (k, v) (set m)"
  by (induction m rule: bt_insert.induct) auto

lemma checks_match_receive:
  assumes "checks_match t0 sl st"
  shows "checks_match t0 sl (receive_block sl blk st)"
  unfolding receive_block_def
proof (rule checks_match_run_ready)
  show "checks_match t0 sl (st\<lparr>tg_pending := bt_insert (pb_block_number blk) blk (tg_pending st)\<rparr>)"
    using assms set_bt_insert_subset [of "pb_block_number blk" blk "tg_pending st"]
    by (auto simp: checks_match_def)
qed

lemma checks_match_receive_all:
  "checks_match t0 sl st \<Longrightarrow> checks_match t0 sl (fold (receive_block sl) bs st)"
  by (induction bs arbitrary: st) (simp_all add: checks_match_receive)

lemma checks_match_drain: "checks_match t0 sl st \<Longrightarrow> checks_match t0 sl (drain_pending sl st)"
proof (induction sl st rule: drain_pending.induct)
  case (1 sl st)
  show ?case
  proof (cases "tg_pending st")
    case Nil
    with "1.prems" show ?thesis by (subst drain_pending.simps) simp
  next
    case (Cons p m)
    obtain k blk where p: "p = (k, blk)" by (cases p)
    with Cons "1.prems" have "k = pb_block_number blk" by (auto simp: checks_match_def)
    from "1.IH" [OF Cons p [symmetric] checks_match_fire(2) [OF "1.prems" this set_bt_remove_subset]]
    show ?thesis using Cons p by (subst drain_pending.simps) simp
  qed
qed

lemma stage_checks:
  "check_all tracker sl (fired_numbers (trigger_stage sl start tracker bs)) =
     (tg_checks (trigger_stage sl start tracker bs), tg_tracker (trigger_stage sl start tracker bs))"
proof -
  have "checks_match tracker sl (trigger_stage sl start tracker bs)"
    unfolding trigger_stage_def
    by (intro checks_match_drain checks_match_receive_all) (simp add: checks_match_def)
  then show ?thesis by (simp add: checks_match_def)
qed

section \<open>Execution order\<close>

lemma stage_sorted:
  assumes "\<forall>b \<in> set bs. start \<le> pb_block_number b \<and> pb_block_number b \<noteq> - 1"
    "distinct (map pb_block_number bs)"
  shows "tg_fired (trigger_stage sl start tracker bs) = sort_key pb_block_number bs"
proof -
  let ?st0 = "\<lparr>tg_pending = [], tg_next = Some start, tg_tracker = tracker, tg_fired = [], tg_checks = []\<rparr>"
  define st where "st = fold (receive_block sl) bs ?st0"
  have "stage_inv start {#} ?st0" by (simp add: stage_inv_def)
  from stage_inv_receive_all [OF this assms] have inv: "stage_inv start (mset bs) st"
    by (simp add: st_def)
  then obtain e where i: "set (fired_numbers st) = {start..<e}" "sorted_wrt (<) (fired_numbers st)"
    "bt_ok (tg_pending st)" "\<forall>(k, b) \<in> set (tg_pending st). k = pb_block_number b \<and> e \<le> k \<and> k \<noteq> - 1"
    "mset (tg_fired st) + image_mset snd (mset (tg_pending st)) = mset bs"
    by (auto simp: stage_inv_def)
  have fired: "tg_fired (trigger_stage sl start tracker bs) = tg_fired st @ map snd (tg_pending st)"
    using drain_fired [OF i(3), of sl] by (simp add: trigger_stage_def st_def)
  have nums: "map (pb_block_number \<circ> snd) (tg_pending st) = map fst (tg_pending st)"
    using i(4) by (intro map_cong) auto
  have less: "a < b" if "a \<in> set (fired_numbers st)" "b \<in> set (map fst (tg_pending st))" for a b
    using that i(1,4) by fastforce
  have "sorted_wrt (<) (map pb_block_number (tg_fired st @ map snd (tg_pending st)))"
    using i(2,3) less unfolding bt_ok_def
    by (simp add: sorted_wrt_append nums del: set_map)
  then have "sorted (map pb_block_number (tg_fired st @ map snd (tg_pending st)))"
    unfolding strict_sorted_iff by simp
  moreover have "mset (sort_key pb_block_number bs) = mset (tg_fired st @ map snd (tg_pending st))"
    using i(5) by simp
  moreover have "distinct (map pb_block_number (sort_key pb_block_number bs))"
    using assms(2) by (simp add: distinct_map)
  ultimately have "sort_key pb_block_number bs = tg_fired st @ map snd (tg_pending st)"
    by (intro sorted_key_unique [where key = pb_block_number]) simp_all
  with fired show ?thesis by simp
qed

end
