(* ===== verification/File_System.thy ===== *)
theory File_System imports Models begin

text \<open>
  The world of the storage code: the files of the storage directory by name, the outcome of
  each coming I/O operation and the readings of the clock. \<open>fs_outcomes s n\<close> says how the
  \<open>n\<close>-th operation on the directory goes: it works, it fails and changes nothing, or it fails
  having left other bytes in the file it was writing. \<open>fs_clock s n\<close> is what the \<open>n\<close>-th call of
  \<open>Utc::now().timestamp()\<close> returns. Nothing is assumed of either.
\<close>

datatype io_outcome = IoOk | IoFail | IoTorn string

record fs =
  fs_files :: "(string \<times> string) list"
  fs_outcomes :: "nat \<Rightarrow> io_outcome"
  fs_io :: nat
  fs_clock :: "nat \<Rightarrow> int"
  fs_ticks :: nat

datatype storage_error =
    Read_error string
  | Parse_error string
  | Write_error string
  | Delete_error string
  | Serialize_error string

type_synonym 'a io = "fs \<Rightarrow> (storage_error + 'a) \<times> fs"

definition io_return :: "'a \<Rightarrow> 'a io" where
  "io_return x = (\<lambda>s. (Inr x, s))"

definition io_raise :: "storage_error \<Rightarrow> 'a io" where
  "io_raise e = (\<lambda>s. (Inl e, s))"

definition io_bind :: "'a io \<Rightarrow> ('a \<Rightarrow> 'b io) \<Rightarrow> 'b io" where
  "io_bind m f = (\<lambda>s. case m s of (Inl e, s') \<Rightarrow> (Inl e, s') | (Inr x, s') \<Rightarrow> f x s')"

text \<open>The outcome of the next operation, and the world after it.\<close>

definition next_outcome :: "fs \<Rightarrow> io_outcome \<times> fs" where
  "next_outcome s = (fs_outcomes s (fs_io s), s\<lparr>fs_io := Suc (fs_io s)\<rparr>)"

definition timestamp :: "fs \<Rightarrow> int \<times> fs" where
  "timestamp s = (fs_clock s (fs_ticks s), s\<lparr>fs_ticks := Suc (fs_ticks s)\<rparr>)"

text \<open>\<open>Path::exists\<close> answers \<open>false\<close> when it cannot tell.\<close>

definition file_exists :: "string \<Rightarrow> fs \<Rightarrow> bool \<times> fs" where
  "file_exists p s = (case next_outcome s of (oc, s') \<Rightarrow>
     (oc = IoOk \<and> map_of (fs_files s) p \<noteq> None, s'))"

definition read_file :: "string \<Rightarrow> string io" where
  "read_file p s = (case next_outcome s of (oc, s') \<Rightarrow>
     (case (oc, map_of (fs_files s) p) of
        (IoOk, Some c) \<Rightarrow> (Inr c, s')
      | _ \<Rightarrow> (Inl (Read_error p), s')))"

definition write_file :: "string \<Rightarrow> string \<Rightarrow> unit io" where
  "write_file p c s = (case next_outcome s of (oc, s') \<Rightarrow>
     (case oc of
        IoOk \<Rightarrow> (Inr (), s'\<lparr>fs_files := AList.update p c (fs_files s)\<rparr>)
      | IoFail \<Rightarrow> (Inl (Write_error p), s')
      | IoTorn c' \<Rightarrow> (Inl (Write_error p), s'\<lparr>fs_files := AList.update p c' (fs_files s)\<rparr>)))"

definition remove_file :: "string \<Rightarrow> unit io" where
  "remove_file p s = (case next_outcome s of (oc, s') \<Rightarrow>
     (if oc = IoOk \<and> map_of (fs_files s) p \<noteq> None
      then (Inr (), s'\<lparr>fs_files := AList.delete p (fs_files s)\<rparr>)
      else (Inl (Delete_error p), s')))"

section \<open>Behaviour when nothing fails\<close>

definition io_ok :: "fs \<Rightarrow> bool" where
  "io_ok s \<longleftrightarrow> (\<forall>n \<ge> fs_io s. fs_outcomes s n = IoOk)"

abbreviation file_at :: "fs \<Rightarrow> string \<Rightarrow> string option" where
  "file_at s \<equiv> map_of (fs_files s)"

text \<open>What an operation may do to the rest of the world: count operations and clock readings.\<close>

definition same_world :: "fs \<Rightarrow> fs \<Rightarrow> bool" where
  "same_world s s' \<longleftrightarrow> fs_outcomes s' = fs_outcomes s \<and> fs_clock s' = fs_clock s \<and> fs_io s \<le> fs_io s'"

lemma same_world_refl [simp, intro]: "same_world s s"
  by (simp add: same_world_def)

lemma same_world_trans: "same_world s s' \<Longrightarrow> same_world s' s'' \<Longrightarrow> same_world s s''"
  by (simp add: same_world_def)

lemma io_ok_same_world: "io_ok s \<Longrightarrow> same_world s s' \<Longrightarrow> io_ok s'"
  by (auto simp: io_ok_def same_world_def)

lemma next_outcome_ok: "io_ok s \<Longrightarrow> next_outcome s = (IoOk, s\<lparr>fs_io := Suc (fs_io s)\<rparr>)"
  by (simp add: next_outcome_def io_ok_def)

lemma same_world_tick [simp]:
  "same_world s (s\<lparr>fs_io := Suc (fs_io s)\<rparr>)"
  "same_world s (s\<lparr>fs_io := Suc (fs_io s), fs_files := x\<rparr>)"
  "same_world s (s\<lparr>fs_files := x, fs_io := Suc (fs_io s)\<rparr>)"
  "same_world s (s\<lparr>fs_ticks := k\<rparr>)"
  by (simp_all add: same_world_def)

lemma file_exists_ok:
  "io_ok s \<Longrightarrow> file_exists p s = (file_at s p \<noteq> None, s\<lparr>fs_io := Suc (fs_io s)\<rparr>)"
  by (simp add: file_exists_def next_outcome_ok)

lemma read_file_ok:
  "io_ok s \<Longrightarrow> file_at s p = Some c \<Longrightarrow> read_file p s = (Inr c, s\<lparr>fs_io := Suc (fs_io s)\<rparr>)"
  by (simp add: read_file_def next_outcome_ok)

lemma write_file_ok:
  "io_ok s \<Longrightarrow> write_file p c s =
    (Inr (), s\<lparr>fs_io := Suc (fs_io s), fs_files := AList.update p c (fs_files s)\<rparr>)"
  by (simp add: write_file_def next_outcome_ok)

lemma remove_file_ok:
  "io_ok s \<Longrightarrow> file_at s p \<noteq> None \<Longrightarrow> remove_file p s =
    (Inr (), s\<lparr>fs_io := Suc (fs_io s), fs_files := AList.delete p (fs_files s)\<rparr>)"
  by (simp add: remove_file_def next_outcome_ok)

lemma io_ok_tick [simp]: "io_ok s \<Longrightarrow> io_ok (s\<lparr>fs_io := Suc (fs_io s)\<rparr>)"
  by (simp add: io_ok_def)

lemma io_ok_files [simp]: "io_ok (s\<lparr>fs_files := x\<rparr>) = io_ok s"
  by (simp add: io_ok_def)

lemma io_ok_ticks [simp]: "io_ok (s\<lparr>fs_ticks := k\<rparr>) = io_ok s"
  by (simp add: io_ok_def)

lemma io_ok_io_files [simp]:
  "io_ok s \<Longrightarrow> io_ok (s\<lparr>fs_io := Suc (fs_io s), fs_files := x\<rparr>)"
  by (simp add: io_ok_def)

lemma io_bind_Inr: "m s = (Inr x, s') \<Longrightarrow> io_bind m f s = f x s'"
  by (simp add: io_bind_def)

lemma io_bind_Inl: "m s = (Inl e, s') \<Longrightarrow> io_bind m f s = (Inl e, s')"
  by (simp add: io_bind_def)

end
