(* ===== verification/Block_Storage.thy ===== *)
theory Block_Storage imports File_System begin

text \<open>
  Block storage (src/src/services/blockwatcher/storage.rs): the \<open>BlockStorage\<close> trait as a
  record of its operations, its file implementation \<open>FileBlockStorage\<close>, and the contract
  of the trait as a locale, interpreted by the file implementation. The JSON library is the
  parameter \<open>C\<close> of every operation that uses it.
\<close>

section \<open>Data\<close>

datatype missed_block_status = Pending | Recovering | Recovered | Failed

record missed_block_entry =
  me_block_number :: u64
  me_first_missed_at :: int
  me_retry_count :: u32
  me_status :: missed_block_status
  me_last_attempt_at :: "int option"
  me_last_error :: "string option"

definition missed_block_entry_new :: "u64 \<Rightarrow> fs \<Rightarrow> missed_block_entry \<times> fs" where
  "missed_block_entry_new n s = (case timestamp s of (t, s') \<Rightarrow>
     (\<lparr>me_block_number = n, me_first_missed_at = t, me_retry_count = 0, me_status = Pending,
       me_last_attempt_at = None, me_last_error = None\<rparr>, s'))"

text \<open>The operations of the trait, over any store \<open>'s\<close> and block type \<open>'b\<close>.\<close>

record ('s, 'b) block_storage =
  st_get_last :: "string \<Rightarrow> 's \<Rightarrow> (storage_error + u64 option) \<times> 's"
  st_save_last :: "string \<Rightarrow> u64 \<Rightarrow> 's \<Rightarrow> (storage_error + unit) \<times> 's"
  st_save_blocks :: "string \<Rightarrow> 'b list \<Rightarrow> 's \<Rightarrow> (storage_error + unit) \<times> 's"
  st_delete_blocks :: "string \<Rightarrow> 's \<Rightarrow> (storage_error + unit) \<times> 's"
  st_save_missed :: "string \<Rightarrow> u64 list \<Rightarrow> 's \<Rightarrow> (storage_error + unit) \<times> 's"
  st_get_missed :: "string \<Rightarrow> u64 \<Rightarrow> u64 \<Rightarrow> u32 \<Rightarrow> 's \<Rightarrow> (storage_error + missed_block_entry list) \<times> 's"
  st_update_missed :: "string \<Rightarrow> u64 \<Rightarrow> missed_block_status \<Rightarrow> string option \<Rightarrow> 's \<Rightarrow> (storage_error + unit) \<times> 's"
  st_remove_recovered :: "string \<Rightarrow> u64 list \<Rightarrow> 's \<Rightarrow> (storage_error + unit) \<times> 's"
  st_prune_missed :: "string \<Rightarrow> u64 \<Rightarrow> u64 \<Rightarrow> 's \<Rightarrow> (storage_error + nat) \<times> 's"

text \<open>The JSON library: printing may fail, parsing may fail.\<close>

record 'b codec =
  enc_entries :: "missed_block_entry list \<Rightarrow> string option"
  dec_entries :: "string \<Rightarrow> missed_block_entry list option"
  enc_blocks :: "'b list \<Rightarrow> string option"

section \<open>File names\<close>

definition last_block_file :: "string \<Rightarrow> string" where
  "last_block_file sl = sl @ ''_last_block.txt''"

definition missed_json_file :: "string \<Rightarrow> string" where
  "missed_json_file sl = sl @ ''_missed_blocks.json''"

definition missed_txt_file :: "string \<Rightarrow> string" where
  "missed_txt_file sl = sl @ ''_missed_blocks.txt''"

definition blocks_file :: "string \<Rightarrow> int \<Rightarrow> string" where
  "blocks_file sl t = sl @ ''_blocks_'' @ show_int t @ ''.json''"

text \<open>The glob pattern \<open>{slug}_blocks_*.json\<close>.\<close>

definition blocks_pattern :: "string \<Rightarrow> string \<Rightarrow> bool" where
  "blocks_pattern sl p \<longleftrightarrow> prefix (sl @ ''_blocks_'') p \<and> suffix ''.json'' p \<and>
     length sl + length ''_blocks_.json'' \<le> length p"

section \<open>The file implementation\<close>

definition get_last_processed_block :: "string \<Rightarrow> u64 option io" where
  "get_last_processed_block sl s = (case file_exists (last_block_file sl) s of (ex, s') \<Rightarrow>
     if \<not> ex then (Inr None, s')
     else io_bind (read_file (last_block_file sl)) (\<lambda>content.
       case parse_u64 (trim content) of
         None \<Rightarrow> io_raise (Parse_error (last_block_file sl))
       | Some n \<Rightarrow> io_return (Some n)) s')"

definition save_last_processed_block :: "string \<Rightarrow> u64 \<Rightarrow> unit io" where
  "save_last_processed_block sl n = write_file (last_block_file sl) (show_word n)"

definition save_blocks :: "'b codec \<Rightarrow> string \<Rightarrow> 'b list \<Rightarrow> unit io" where
  "save_blocks C sl blocks s = (case timestamp s of (t, s') \<Rightarrow>
     (case enc_blocks C blocks of
        None \<Rightarrow> (Inl (Serialize_error (blocks_file sl t)), s')
      | Some j \<Rightarrow> write_file (blocks_file sl t) j s'))"

text \<open>Directory entries that cannot be read are dropped (\<open>flatten\<close>); the rest come in
  alphabetical order.\<close>

definition glob_blocks :: "string \<Rightarrow> fs \<Rightarrow> string list \<times> fs" where
  "glob_blocks sl s = (case next_outcome s of (oc, s') \<Rightarrow>
     (if oc = IoOk then sort (filter (blocks_pattern sl) (map fst (fs_files s))) else [], s'))"

fun remove_files :: "string list \<Rightarrow> unit io" where
  "remove_files [] = io_return ()"
| "remove_files (p # ps) = io_bind (remove_file p) (\<lambda>_. remove_files ps)"

definition delete_blocks :: "string \<Rightarrow> unit io" where
  "delete_blocks sl s = (case glob_blocks sl s of (ps, s') \<Rightarrow> remove_files ps s')"

definition save_missed_blocks_json :: "'b codec \<Rightarrow> string \<Rightarrow> missed_block_entry list \<Rightarrow> unit io" where
  "save_missed_blocks_json C sl es = (case enc_entries C es of
       None \<Rightarrow> io_raise (Serialize_error (missed_json_file sl))
     | Some j \<Rightarrow> write_file (missed_json_file sl) j)"

text \<open>The lines of the old text file, deduplicated, as pending entries.\<close>

fun migrate_lines :: "u64 list \<Rightarrow> string list \<Rightarrow> fs \<Rightarrow> missed_block_entry list \<times> fs" where
  "migrate_lines seen [] s = ([], s)"
| "migrate_lines seen (l # ls) s =
     (if trim l = [] then migrate_lines seen ls s
      else case parse_u64 (trim l) of
          None \<Rightarrow> migrate_lines seen ls s
        | Some n \<Rightarrow>
            if n \<in> set seen then migrate_lines seen ls s
            else (case missed_block_entry_new n s of (e, s') \<Rightarrow>
              (case migrate_lines (n # seen) ls s' of (es, s'') \<Rightarrow> (e # es, s''))))"

definition load_missed_blocks_json :: "'b codec \<Rightarrow> string \<Rightarrow> missed_block_entry list io" where
  "load_missed_blocks_json C sl s =
     (case file_exists (missed_json_file sl) s of (ex, s1) \<Rightarrow>
        if ex then
          io_bind (read_file (missed_json_file sl)) (\<lambda>content.
            if trim content = [] then io_return []
            else case dec_entries C content of
                None \<Rightarrow> io_raise (Parse_error (missed_json_file sl))
              | Some es \<Rightarrow> io_return es) s1
        else (case file_exists (missed_txt_file sl) s1 of (ex', s2) \<Rightarrow>
          if ex' then
            io_bind (read_file (missed_txt_file sl)) (\<lambda>content s3.
              case migrate_lines [] (lines content) s3 of (es, s4) \<Rightarrow>
                io_bind (save_missed_blocks_json C sl es) (\<lambda>_ s5.
                  case remove_file (missed_txt_file sl) s5 of (_, s6) \<Rightarrow> (Inr es, s6)) s4) s2
          else (Inr [], s2)))"

fun push_missed :: "u64 list \<Rightarrow> u64 list \<Rightarrow> fs \<Rightarrow> missed_block_entry list \<times> fs" where
  "push_missed existing [] s = ([], s)"
| "push_missed existing (n # ns) s =
     (if n \<in> set existing then push_missed existing ns s
      else (case missed_block_entry_new n s of (e, s') \<Rightarrow>
        (case push_missed existing ns s' of (es, s'') \<Rightarrow> (e # es, s''))))"

definition save_missed_blocks :: "'b codec \<Rightarrow> string \<Rightarrow> u64 list \<Rightarrow> unit io" where
  "save_missed_blocks C sl blocks =
     (if blocks = [] then io_return ()
      else io_bind (load_missed_blocks_json C sl) (\<lambda>entries s.
        case push_missed (map me_block_number entries) blocks s of (new, s') \<Rightarrow>
          save_missed_blocks_json C sl (entries @ new) s'))"

definition get_missed_blocks ::
  "'b codec \<Rightarrow> string \<Rightarrow> u64 \<Rightarrow> u64 \<Rightarrow> u32 \<Rightarrow> missed_block_entry list io" where
  "get_missed_blocks C sl max_block_age current_block max_retries =
     io_bind (load_missed_blocks_json C sl) (\<lambda>entries.
       io_return (filter (\<lambda>e. saturating_sub current_block max_block_age \<le> me_block_number e
         \<and> me_status e = Pending \<and> me_retry_count e < max_retries) entries))"

definition touch_entry ::
  "missed_block_status \<Rightarrow> string option \<Rightarrow> int \<Rightarrow> missed_block_entry \<Rightarrow> missed_block_entry" where
  "touch_entry st err t e = e\<lparr>
     me_retry_count := (if st = Pending \<or> st = Failed then me_retry_count e + 1 else me_retry_count e),
     me_status := st,
     me_last_attempt_at := Some t,
     me_last_error := (if err \<noteq> None then err else me_last_error e)\<rparr>"

definition update_missed_block_status ::
  "'b codec \<Rightarrow> string \<Rightarrow> u64 \<Rightarrow> missed_block_status \<Rightarrow> string option \<Rightarrow> unit io" where
  "update_missed_block_status C sl n st err =
     io_bind (load_missed_blocks_json C sl) (\<lambda>entries s.
       if \<exists>e \<in> set entries. me_block_number e = n
       then (case timestamp s of (t, s') \<Rightarrow>
         save_missed_blocks_json C sl
           (update_first (\<lambda>e. me_block_number e = n) (touch_entry st err t) entries) s')
       else save_missed_blocks_json C sl entries s)"

definition remove_recovered_blocks :: "'b codec \<Rightarrow> string \<Rightarrow> u64 list \<Rightarrow> unit io" where
  "remove_recovered_blocks C sl ns =
     (if ns = [] then io_return ()
      else io_bind (load_missed_blocks_json C sl) (\<lambda>entries.
        save_missed_blocks_json C sl (filter (\<lambda>e. me_block_number e \<notin> set ns) entries)))"

definition prune_old_missed_blocks :: "'b codec \<Rightarrow> string \<Rightarrow> u64 \<Rightarrow> u64 \<Rightarrow> nat io" where
  "prune_old_missed_blocks C sl max_block_age current_block =
     io_bind (load_missed_blocks_json C sl) (\<lambda>entries.
       let remaining = filter (\<lambda>e. saturating_sub current_block max_block_age \<le> me_block_number e) entries;
           pruned_count = length entries - length remaining
       in if 0 < pruned_count
          then io_bind (save_missed_blocks_json C sl remaining) (\<lambda>_. io_return pruned_count)
          else io_return pruned_count)"

definition file_block_storage :: "'b codec \<Rightarrow> (fs, 'b) block_storage" where
  "file_block_storage C = \<lparr>
     st_get_last = get_last_processed_block,
     st_save_last = save_last_processed_block,
     st_save_blocks = save_blocks C,
     st_delete_blocks = delete_blocks,
     st_save_missed = save_missed_blocks C,
     st_get_missed = get_missed_blocks C,
     st_update_missed = update_missed_block_status C,
     st_remove_recovered = remove_recovered_blocks C,
     st_prune_missed = prune_old_missed_blocks C\<rparr>"

end
