(* ===== verification/Storage_Contract.thy ===== *)
theory Storage_Contract imports Block_Storage begin

text \<open>
  What the \<open>BlockStorage\<close> trait promises its clients, per network: a last processed block and
  a list of missed blocks with retry counts and states, on which the operations act as the
  pure functions below. Time stamps and error texts are left out of the abstraction. The
  locale \<open>block_store\<close> states the promise, and the file implementation is shown to keep it.
\<close>

section \<open>The abstract missed-block list\<close>

type_synonym missed_core = "u64 \<times> u32 \<times> missed_block_status"

definition core :: "missed_block_entry \<Rightarrow> missed_core" where
  "core e = (me_block_number e, me_retry_count e, me_status e)"

definition spec_save :: "u64 list \<Rightarrow> missed_core list \<Rightarrow> missed_core list" where
  "spec_save ns ms = ms @ map (\<lambda>n. (n, 0, Pending)) (filter (\<lambda>n. n \<notin> fst ` set ms) ns)"

definition eligible_core :: "u64 \<Rightarrow> u64 \<Rightarrow> u32 \<Rightarrow> missed_core \<Rightarrow> bool" where
  "eligible_core age cur maxr m = (case m of (n, r, st) \<Rightarrow>
     saturating_sub cur age \<le> n \<and> st = Pending \<and> r < maxr)"

definition touch_core :: "missed_block_status \<Rightarrow> missed_core \<Rightarrow> missed_core" where
  "touch_core st m = (case m of (n, r, _) \<Rightarrow> (n, if st = Pending \<or> st = Failed then r + 1 else r, st))"

definition spec_update :: "u64 \<Rightarrow> missed_block_status \<Rightarrow> missed_core list \<Rightarrow> missed_core list" where
  "spec_update n st = update_first (\<lambda>m. fst m = n) (touch_core st)"

definition spec_remove :: "u64 list \<Rightarrow> missed_core list \<Rightarrow> missed_core list" where
  "spec_remove ns = filter (\<lambda>m. fst m \<notin> set ns)"

definition spec_prune :: "u64 \<Rightarrow> u64 \<Rightarrow> missed_core list \<Rightarrow> missed_core list" where
  "spec_prune age cur = filter (\<lambda>m. saturating_sub cur age \<le> fst m)"

lemma fst_core [simp]: "fst (core e) = me_block_number e"
  by (simp add: core_def)

lemma core_touch_entry: "core (touch_entry st err t e) = touch_core st (core e)"
  by (simp add: core_def touch_core_def touch_entry_def)

lemma map_core_filter: "map core (filter (\<lambda>e. P (me_block_number e)) es) = filter (\<lambda>m. P (fst m)) (map core es)"
  by (induction es) auto

lemma map_core_update_first:
  "map core (update_first (\<lambda>e. me_block_number e = n) (touch_entry st err t) es) = spec_update n st (map core es)"
  by (induction es) (auto simp: spec_update_def core_touch_entry)

lemma update_first_none: "\<forall>x \<in> set xs. \<not> p x \<Longrightarrow> update_first p f xs = xs"
  by (induction xs) auto

lemma map_fst_spec_update [simp]: "map fst (spec_update n st ms) = map fst ms"
  unfolding spec_update_def
  by (rule update_first_map_invariant) (auto simp: touch_core_def split: prod.splits)

lemma fst_set_spec_save: "fst ` set (spec_save ns ms) = fst ` set ms \<union> set ns"
  by (auto simp: spec_save_def image_Un image_image)

section \<open>The contract\<close>

text \<open>\<open>ready sl s\<close>: the store can serve network \<open>sl\<close> in state \<open>s\<close>, now and after each of its
  own operations on that network.\<close>

locale block_store =
  fixes ops :: "('s, 'b) block_storage"
    and ready :: "string \<Rightarrow> 's \<Rightarrow> bool"
    and last_of :: "string \<Rightarrow> 's \<Rightarrow> u64 option"
    and missed_of :: "string \<Rightarrow> 's \<Rightarrow> missed_core list"
  assumes get_last: "ready sl s \<Longrightarrow> \<exists>s'. st_get_last ops sl s = (Inr (last_of sl s), s')
      \<and> ready sl s' \<and> last_of sl s' = last_of sl s \<and> missed_of sl s' = missed_of sl s"
    and save_last: "ready sl s \<Longrightarrow> \<exists>s'. st_save_last ops sl n s = (Inr (), s')
      \<and> ready sl s' \<and> last_of sl s' = Some n \<and> missed_of sl s' = missed_of sl s"
    and save_blocks: "ready sl s \<Longrightarrow> \<exists>r s'. st_save_blocks ops sl bs s = (r, s')
      \<and> ready sl s' \<and> last_of sl s' = last_of sl s \<and> missed_of sl s' = missed_of sl s"
    and delete_blocks: "ready sl s \<Longrightarrow> \<exists>r s'. st_delete_blocks ops sl s = (r, s')
      \<and> ready sl s' \<and> last_of sl s' = last_of sl s \<and> missed_of sl s' = missed_of sl s"
    and save_missed: "ready sl s \<Longrightarrow> \<exists>s'. st_save_missed ops sl ns s = (Inr (), s')
      \<and> ready sl s' \<and> last_of sl s' = last_of sl s \<and> missed_of sl s' = spec_save ns (missed_of sl s)"
    and get_missed: "ready sl s \<Longrightarrow> \<exists>es s'. st_get_missed ops sl age cur maxr s = (Inr es, s')
      \<and> map core es = filter (eligible_core age cur maxr) (missed_of sl s)
      \<and> ready sl s' \<and> last_of sl s' = last_of sl s \<and> missed_of sl s' = missed_of sl s"
    and update_missed: "ready sl s \<Longrightarrow> \<exists>s'. st_update_missed ops sl n st err s = (Inr (), s')
      \<and> ready sl s' \<and> last_of sl s' = last_of sl s \<and> missed_of sl s' = spec_update n st (missed_of sl s)"
    and remove_recovered: "ready sl s \<Longrightarrow> \<exists>s'. st_remove_recovered ops sl ns s = (Inr (), s')
      \<and> ready sl s' \<and> last_of sl s' = last_of sl s \<and> missed_of sl s' = spec_remove ns (missed_of sl s)"
    and prune_missed: "ready sl s \<Longrightarrow>
      \<exists>s'. st_prune_missed ops sl age cur s =
        (Inr (length (missed_of sl s) - length (spec_prune age cur (missed_of sl s))), s')
      \<and> ready sl s' \<and> last_of sl s' = last_of sl s \<and> missed_of sl s' = spec_prune age cur (missed_of sl s)"

section \<open>The file implementation keeps the contract\<close>

text \<open>What the code relies on of the JSON library for its entries: printing works, prints
  something that is not blank, and parses back.\<close>

definition codec_ok :: "'b codec \<Rightarrow> bool" where
  "codec_ok C \<longleftrightarrow> (\<forall>es. \<exists>j. enc_entries C es = Some j \<and> trim j \<noteq> [] \<and> dec_entries C j = Some es)"

definition parse_last :: "string option \<Rightarrow> u64 option" where
  "parse_last c = (case c of None \<Rightarrow> None | Some c \<Rightarrow> parse_u64 (trim c))"

definition decode_missed :: "'b codec \<Rightarrow> string option \<Rightarrow> missed_block_entry list option" where
  "decode_missed C c = (case c of None \<Rightarrow> Some []
     | Some c \<Rightarrow> if trim c = [] then Some [] else dec_entries C c)"

definition file_last :: "string \<Rightarrow> fs \<Rightarrow> u64 option" where
  "file_last sl s = parse_last (file_at s (last_block_file sl))"

definition file_entries :: "'b codec \<Rightarrow> string \<Rightarrow> fs \<Rightarrow> missed_block_entry list" where
  "file_entries C sl s = (case decode_missed C (file_at s (missed_json_file sl)) of
     None \<Rightarrow> [] | Some es \<Rightarrow> es)"

definition file_missed :: "'b codec \<Rightarrow> string \<Rightarrow> fs \<Rightarrow> missed_core list" where
  "file_missed C sl s = map core (file_entries C sl s)"

text \<open>No coming operation fails, no file in the old text format is left, and the network's
  files, where present, parse.\<close>

definition file_ready :: "'b codec \<Rightarrow> string \<Rightarrow> fs \<Rightarrow> bool" where
  "file_ready C sl s \<longleftrightarrow> codec_ok C \<and> io_ok s \<and> file_at s (missed_txt_file sl) = None
     \<and> (\<forall>c. file_at s (last_block_file sl) = Some c \<longrightarrow> parse_u64 (trim c) \<noteq> None)
     \<and> decode_missed C (file_at s (missed_json_file sl)) \<noteq> None"

lemmas file_defs = last_block_file_def missed_json_file_def missed_txt_file_def blocks_file_def

lemma last_neq: "last xs \<noteq> last ys \<Longrightarrow> xs \<noteq> ys"
  by auto

lemma file_names_differ [simp]:
  "last_block_file a \<noteq> missed_json_file b" "missed_json_file b \<noteq> last_block_file a"
  "missed_txt_file a \<noteq> missed_json_file b" "missed_json_file b \<noteq> missed_txt_file a"
  by (simp_all add: file_defs last_neq)

lemma last_block_file_txt [simp]:
  "last_block_file a \<noteq> missed_txt_file a" "missed_txt_file a \<noteq> last_block_file a"
  by (simp_all add: file_defs)

lemma file_names_inj [simp]:
  "last_block_file a = last_block_file b \<longleftrightarrow> a = b"
  "missed_json_file a = missed_json_file b \<longleftrightarrow> a = b"
  "missed_txt_file a = missed_txt_file b \<longleftrightarrow> a = b"
  by (simp_all add: file_defs)

lemma blocks_file_differs [simp]:
  "blocks_file a t \<noteq> last_block_file b" "blocks_file a t \<noteq> missed_txt_file b"
  "blocks_file a t \<noteq> missed_json_file a"
  by (simp_all add: file_defs last_neq)

lemmas blocks_file_differs' [simp] = blocks_file_differs [symmetric]

lemma not_blocks_pattern [simp]:
  "\<not> blocks_pattern sl (last_block_file sl')"
  "\<not> blocks_pattern sl (missed_txt_file sl')"
  "\<not> blocks_pattern sl (missed_json_file sl)"
  by (auto simp: blocks_pattern_def file_defs suffix_def dest: arg_cong [where f = last])

text \<open>Two worlds that agree on a network's files agree on the network, if no failure comes.\<close>

lemma ready_files_agree:
  assumes "file_ready C sl s" "io_ok s'"
    "file_at s' (missed_txt_file sl) = file_at s (missed_txt_file sl)"
    "file_at s' (last_block_file sl) = file_at s (last_block_file sl)"
    "file_at s' (missed_json_file sl) = file_at s (missed_json_file sl)"
  shows "file_ready C sl s'" "file_last sl s' = file_last sl s" "file_entries C sl s' = file_entries C sl s"
  using assms by (simp_all add: file_ready_def file_last_def file_entries_def)

lemma file_ready_io_ok: "file_ready C sl s \<Longrightarrow> io_ok s"
  by (simp add: file_ready_def)

lemma load_ready:
  assumes "file_ready C sl s"
  obtains s' where "load_missed_blocks_json C sl s = (Inr (file_entries C sl s), s')"
    "io_ok s'" "fs_files s' = fs_files s"
proof (cases "file_at s (missed_json_file sl)")
  case None
  with assms have "load_missed_blocks_json C sl s =
      (Inr (file_entries C sl s), s\<lparr>fs_io := Suc (Suc (fs_io s))\<rparr>)"
    by (auto simp: load_missed_blocks_json_def file_exists_ok file_ready_def
        file_entries_def decode_missed_def)
  then show ?thesis using file_ready_io_ok [OF assms]
    by (intro that [of "s\<lparr>fs_io := Suc (Suc (fs_io s))\<rparr>"]) (auto simp: io_ok_def)
next
  case (Some c)
  have io: "io_ok s" using assms by (rule file_ready_io_ok)
  from assms Some obtain es where "decode_missed C (Some c) = Some es"
    by (auto simp: file_ready_def)
  then have "load_missed_blocks_json C sl s =
      (Inr (file_entries C sl s), s\<lparr>fs_io := Suc (Suc (fs_io s))\<rparr>)"
    using io Some by (auto simp: load_missed_blocks_json_def file_exists_ok io_bind_def read_file_ok
        decode_missed_def file_entries_def io_return_def split: if_splits)
  then show ?thesis using io
    by (intro that [of "s\<lparr>fs_io := Suc (Suc (fs_io s))\<rparr>"]) (auto simp: io_ok_def)
qed

lemma save_json_ready:
  assumes "file_ready C sl s" "io_ok s1" "fs_files s1 = fs_files s"
  obtains s' where "save_missed_blocks_json C sl es s1 = (Inr (), s')"
    "file_ready C sl s'" "file_last sl s' = file_last sl s" "file_entries C sl s' = es"
proof -
  from assms(1) obtain j where j: "enc_entries C es = Some j" "trim j \<noteq> []" "dec_entries C j = Some es"
    unfolding file_ready_def codec_ok_def by blast
  let ?s = "s1\<lparr>fs_io := Suc (fs_io s1), fs_files := AList.update (missed_json_file sl) j (fs_files s1)\<rparr>"
  have "save_missed_blocks_json C sl es s1 = (Inr (), ?s)"
    using assms(2) j by (simp add: save_missed_blocks_json_def write_file_ok)
  moreover have "file_ready C sl ?s"
    using assms j by (auto simp: file_ready_def update_conv' decode_missed_def)
  moreover have "file_last sl ?s = file_last sl s" "file_entries C sl ?s = es"
    using assms j by (auto simp: file_last_def file_entries_def update_conv' decode_missed_def)
  ultimately show ?thesis by (rule that)
qed

lemma push_missed_core:
  "\<exists>new k. push_missed ex ns s = (new, s\<lparr>fs_ticks := k\<rparr>)
     \<and> map core new = map (\<lambda>n. (n, 0, Pending)) (filter (\<lambda>n. n \<notin> set ex) ns)"
proof (induction ns arbitrary: s)
  case Nil
  show ?case by (rule exI [where x = "[]"], rule exI [where x = "fs_ticks s"]) simp
next
  case (Cons n ns)
  show ?case
  proof (cases "n \<in> set ex")
    case True
    with Cons show ?thesis by simp
  next
    case False
    obtain e k where e: "missed_block_entry_new n s = (e, s\<lparr>fs_ticks := k\<rparr>)" "core e = (n, 0, Pending)"
      by (simp add: missed_block_entry_new_def timestamp_def core_def)
    obtain new k' where "push_missed ex ns (s\<lparr>fs_ticks := k\<rparr>) = (new, s\<lparr>fs_ticks := k'\<rparr>)"
        "map core new = map (\<lambda>n. (n, 0, Pending)) (filter (\<lambda>n. n \<notin> set ex) ns)"
      using Cons.IH [of "s\<lparr>fs_ticks := k\<rparr>"] by auto
    with e False show ?thesis by (intro exI [where x = "e # new"] exI [where x = k']) simp
  qed
qed

section \<open>The operations\<close>

lemma file_get_last:
  assumes "file_ready C sl s"
  shows "\<exists>s'. get_last_processed_block sl s = (Inr (file_last sl s), s')
    \<and> file_ready C sl s' \<and> file_last sl s' = file_last sl s \<and> file_missed C sl s' = file_missed C sl s"
proof -
  have io: "io_ok s" using assms by (rule file_ready_io_ok)
  have "\<exists>k \<ge> fs_io s. get_last_processed_block sl s = (Inr (file_last sl s), s\<lparr>fs_io := k\<rparr>)"
  proof (cases "file_at s (last_block_file sl)")
    case None
    then show ?thesis using io
      by (auto simp: get_last_processed_block_def file_exists_ok file_last_def parse_last_def
          intro!: exI [where x = "Suc (fs_io s)"])
  next
    case (Some c)
    with assms obtain n where "parse_u64 (trim c) = Some n" by (auto simp: file_ready_def)
    with Some io show ?thesis
      by (auto simp: get_last_processed_block_def file_exists_ok read_file_ok io_bind_def
          io_return_def file_last_def parse_last_def intro!: exI [where x = "Suc (Suc (fs_io s))"])
  qed
  then obtain k where k: "k \<ge> fs_io s" "get_last_processed_block sl s = (Inr (file_last sl s), s\<lparr>fs_io := k\<rparr>)"
    by blast
  have "io_ok (s\<lparr>fs_io := k\<rparr>)" using io k(1) by (simp add: io_ok_def)
  then have "file_ready C sl (s\<lparr>fs_io := k\<rparr>) \<and> file_last sl (s\<lparr>fs_io := k\<rparr>) = file_last sl s
      \<and> file_missed C sl (s\<lparr>fs_io := k\<rparr>) = file_missed C sl s"
    using ready_files_agree [OF assms] by (simp add: file_missed_def)
  with k(2) show ?thesis by blast
qed

lemma file_save_last:
  assumes "file_ready C sl s"
  shows "\<exists>s'. save_last_processed_block sl n s = (Inr (), s')
    \<and> file_ready C sl s' \<and> file_last sl s' = Some n \<and> file_missed C sl s' = file_missed C sl s"
  using assms by (auto simp: save_last_processed_block_def write_file_ok file_ready_def update_conv'
      file_last_def parse_last_def file_missed_def file_entries_def)

lemma file_save_blocks:
  assumes "file_ready C sl s"
  shows "\<exists>r s'. save_blocks C sl bs s = (r, s')
    \<and> file_ready C sl s' \<and> file_last sl s' = file_last sl s \<and> file_missed C sl s' = file_missed C sl s"
proof -
  let ?p = "blocks_file sl (fs_clock s (fs_ticks s))"
  have io: "io_ok s" using assms by (rule file_ready_io_ok)
  have "\<exists>r s'. save_blocks C sl bs s = (r, s') \<and> io_ok s' \<and> (\<forall>q. q \<noteq> ?p \<longrightarrow> file_at s' q = file_at s q)"
    using io by (cases "enc_blocks C bs")
      (auto simp: save_blocks_def timestamp_def write_file_def next_outcome_def io_ok_def update_conv')
  then obtain r s' where s': "save_blocks C sl bs s = (r, s')" "io_ok s'"
    "\<forall>q. q \<noteq> ?p \<longrightarrow> file_at s' q = file_at s q" by blast
  then show ?thesis
    using ready_files_agree [OF assms s'(2)] by (simp add: file_missed_def)
qed

lemma remove_files_keeps:
  assumes "io_ok s" "\<forall>p \<in> set ps. blocks_pattern sl p"
  shows "\<exists>r s'. remove_files ps s = (r, s') \<and> io_ok s'
    \<and> (\<forall>q. \<not> blocks_pattern sl q \<longrightarrow> file_at s' q = file_at s q)"
  using assms
proof (induction ps arbitrary: s)
  case Nil
  then show ?case by (auto simp: io_return_def)
next
  case (Cons p ps)
  show ?case
  proof (cases "file_at s p")
    case None
    with Cons.prems show ?thesis
      by (auto simp: io_bind_def remove_file_def next_outcome_ok)
  next
    case (Some c)
    let ?s = "s\<lparr>fs_io := Suc (fs_io s), fs_files := AList.delete p (fs_files s)\<rparr>"
    have "io_ok ?s" using Cons.prems(1) by simp
    from Cons.IH [OF this] Cons.prems(2) obtain r s' where s': "remove_files ps ?s = (r, s')" "io_ok s'"
      "\<forall>q. \<not> blocks_pattern sl q \<longrightarrow> file_at s' q = file_at ?s q" by auto
    have "file_at ?s q = file_at s q" if "\<not> blocks_pattern sl q" for q
      using that Cons.prems(2) by (auto simp: delete_conv')
    with s' Cons.prems(1) Some show ?thesis
      by (auto simp: io_bind_def remove_file_ok)
  qed
qed

lemma file_delete_blocks:
  assumes "file_ready C sl s"
  shows "\<exists>r s'. delete_blocks sl s = (r, s')
    \<and> file_ready C sl s' \<and> file_last sl s' = file_last sl s \<and> file_missed C sl s' = file_missed C sl s"
proof -
  let ?s = "s\<lparr>fs_io := Suc (fs_io s)\<rparr>"
  have io: "io_ok s" using assms by (rule file_ready_io_ok)
  then obtain ps where ps: "glob_blocks sl s = (ps, ?s)" "\<forall>p \<in> set ps. blocks_pattern sl p"
    by (auto simp: glob_blocks_def next_outcome_ok)
  obtain r s' where s': "remove_files ps ?s = (r, s')" "io_ok s'"
      "\<forall>q. \<not> blocks_pattern sl q \<longrightarrow> file_at s' q = file_at ?s q"
    using remove_files_keeps [of ?s ps sl] ps(2) io by auto
  show ?thesis
    using ready_files_agree [OF assms s'(2)] s' ps(1) by (auto simp: delete_blocks_def file_missed_def)
qed

lemma file_save_missed:
  assumes "file_ready C sl s"
  shows "\<exists>s'. save_missed_blocks C sl ns s = (Inr (), s')
    \<and> file_ready C sl s' \<and> file_last sl s' = file_last sl s
    \<and> file_missed C sl s' = spec_save ns (file_missed C sl s)"
proof (cases "ns = []")
  case True
  with assms show ?thesis by (auto simp: save_missed_blocks_def io_return_def spec_save_def)
next
  case False
  from assms obtain s1 where s1: "load_missed_blocks_json C sl s = (Inr (file_entries C sl s), s1)"
    "io_ok s1" "fs_files s1 = fs_files s" by (rule load_ready)
  obtain new k where new: "push_missed (map me_block_number (file_entries C sl s)) ns s1 = (new, s1\<lparr>fs_ticks := k\<rparr>)"
    "map core new = map (\<lambda>n. (n, 0, Pending)) (filter (\<lambda>n. n \<notin> me_block_number ` set (file_entries C sl s)) ns)"
    using push_missed_core [of "map me_block_number (file_entries C sl s)" ns s1] by auto
  obtain s' where s': "save_missed_blocks_json C sl (file_entries C sl s @ new) (s1\<lparr>fs_ticks := k\<rparr>) = (Inr (), s')"
    "file_ready C sl s'" "file_last sl s' = file_last sl s" "file_entries C sl s' = file_entries C sl s @ new"
    using save_json_ready [OF assms, of "s1\<lparr>fs_ticks := k\<rparr>"] s1 by auto
  have "file_missed C sl s' = spec_save ns (file_missed C sl s)"
    using new s' by (simp add: file_missed_def spec_save_def image_image)
  with False s1 new s' show ?thesis by (auto simp: save_missed_blocks_def io_bind_def)
qed

lemma file_get_missed:
  assumes "file_ready C sl s"
  shows "\<exists>es s'. get_missed_blocks C sl age cur maxr s = (Inr es, s')
    \<and> map core es = filter (eligible_core age cur maxr) (file_missed C sl s)
    \<and> file_ready C sl s' \<and> file_last sl s' = file_last sl s \<and> file_missed C sl s' = file_missed C sl s"
proof -
  from assms obtain s1 where s1: "load_missed_blocks_json C sl s = (Inr (file_entries C sl s), s1)"
    "io_ok s1" "fs_files s1 = fs_files s" by (rule load_ready)
  have "map core (filter (\<lambda>e. saturating_sub cur age \<le> me_block_number e
         \<and> me_status e = Pending \<and> me_retry_count e < maxr) es) =
       filter (eligible_core age cur maxr) (map core es)" for es
    by (induction es) (auto simp: core_def eligible_core_def)
  with s1 show ?thesis using ready_files_agree [OF assms s1(2)]
    by (auto simp: get_missed_blocks_def io_bind_def io_return_def file_missed_def)
qed

lemma file_update_missed:
  assumes "file_ready C sl s"
  shows "\<exists>s'. update_missed_block_status C sl n st err s = (Inr (), s')
    \<and> file_ready C sl s' \<and> file_last sl s' = file_last sl s
    \<and> file_missed C sl s' = spec_update n st (file_missed C sl s)"
proof -
  let ?es = "file_entries C sl s"
  from assms obtain s1 where s1: "load_missed_blocks_json C sl s = (Inr ?es, s1)"
    "io_ok s1" "fs_files s1 = fs_files s" by (rule load_ready)
  show ?thesis
  proof (cases "\<exists>e \<in> set ?es. me_block_number e = n")
    case True
    let ?new = "update_first (\<lambda>e. me_block_number e = n) (touch_entry st err (fs_clock s1 (fs_ticks s1))) ?es"
    obtain s' where "save_missed_blocks_json C sl ?new (s1\<lparr>fs_ticks := Suc (fs_ticks s1)\<rparr>) = (Inr (), s')"
      "file_ready C sl s'" "file_last sl s' = file_last sl s" "file_entries C sl s' = ?new"
      using save_json_ready [OF assms, of "s1\<lparr>fs_ticks := Suc (fs_ticks s1)\<rparr>"] s1 by auto
    with True s1 show ?thesis
      by (auto simp: update_missed_block_status_def io_bind_def timestamp_def file_missed_def
          map_core_update_first)
  next
    case False
    obtain s' where "save_missed_blocks_json C sl ?es s1 = (Inr (), s')"
      "file_ready C sl s'" "file_last sl s' = file_last sl s" "file_entries C sl s' = ?es"
      using save_json_ready [OF assms, of s1] s1 by auto
    moreover have "spec_update n st (map core ?es) = map core ?es"
      using False by (auto simp: spec_update_def core_def intro!: update_first_none)
    ultimately show ?thesis using False s1
      by (auto simp: update_missed_block_status_def io_bind_def file_missed_def)
  qed
qed

lemma file_remove_recovered:
  assumes "file_ready C sl s"
  shows "\<exists>s'. remove_recovered_blocks C sl ns s = (Inr (), s')
    \<and> file_ready C sl s' \<and> file_last sl s' = file_last sl s
    \<and> file_missed C sl s' = spec_remove ns (file_missed C sl s)"
proof (cases "ns = []")
  case True
  with assms show ?thesis by (auto simp: remove_recovered_blocks_def io_return_def spec_remove_def)
next
  case False
  let ?es = "file_entries C sl s"
  let ?new = "filter (\<lambda>e. me_block_number e \<notin> set ns) ?es"
  from assms obtain s1 where s1: "load_missed_blocks_json C sl s = (Inr ?es, s1)"
    "io_ok s1" "fs_files s1 = fs_files s" by (rule load_ready)
  obtain s' where "save_missed_blocks_json C sl ?new s1 = (Inr (), s')"
    "file_ready C sl s'" "file_last sl s' = file_last sl s" "file_entries C sl s' = ?new"
    using save_json_ready [OF assms, of s1] s1 by auto
  with False s1 show ?thesis
    by (auto simp: remove_recovered_blocks_def io_bind_def file_missed_def spec_remove_def
        map_core_filter [where P = "\<lambda>n. n \<notin> set ns"])
qed

lemma file_prune_missed:
  assumes "file_ready C sl s"
  shows "\<exists>s'. prune_old_missed_blocks C sl age cur s =
      (Inr (length (file_missed C sl s) - length (spec_prune age cur (file_missed C sl s))), s')
    \<and> file_ready C sl s' \<and> file_last sl s' = file_last sl s
    \<and> file_missed C sl s' = spec_prune age cur (file_missed C sl s)"
proof -
  let ?es = "file_entries C sl s"
  let ?P = "\<lambda>n. saturating_sub cur age \<le> n"
  let ?new = "filter (\<lambda>e. ?P (me_block_number e)) ?es"
  from assms obtain s1 where s1: "load_missed_blocks_json C sl s = (Inr ?es, s1)"
    "io_ok s1" "fs_files s1 = fs_files s" by (rule load_ready)
  have new: "map core ?new = spec_prune age cur (file_missed C sl s)"
    by (simp add: spec_prune_def file_missed_def map_core_filter [where P = ?P])
  then have len: "length ?new = length (spec_prune age cur (file_missed C sl s))"
    by (metis length_map)
  show ?thesis
  proof (cases "0 < length ?es - length ?new")
    case True
    obtain s' where "save_missed_blocks_json C sl ?new s1 = (Inr (), s')"
      "file_ready C sl s'" "file_last sl s' = file_last sl s" "file_entries C sl s' = ?new"
      using save_json_ready [OF assms, of s1] s1 by auto
    with True s1 new len show ?thesis
      by (auto simp: prune_old_missed_blocks_def io_bind_def io_return_def file_missed_def Let_def)
  next
    case False
    then have "length ?es \<le> length ?new" by simp
    then have "?new = ?es" by (metis filter_id_conv length_filter_le length_filter_less linorder_not_le)
    with s1 new len show ?thesis using ready_files_agree [OF assms s1(2)]
      by (auto simp: prune_old_missed_blocks_def io_bind_def io_return_def file_missed_def Let_def)
  qed
qed

interpretation file_store: block_store "file_block_storage C" "file_ready C" file_last "file_missed C"
  for C :: "'b codec"
  by standard (simp_all add: file_block_storage_def file_get_last file_save_last file_save_blocks
      file_delete_blocks file_save_missed file_get_missed file_update_missed file_remove_recovered
      file_prune_missed)

end
