(* ===== verification/Sample_Codec.thy ===== *)
theory Sample_Codec imports Storage_Contract begin

text \<open>
  A concrete codec for missed-block entries, with its round trip. The program prints entries
  with a JSON library; this one only shows that the contract the storage code relies on
  (\<open>codec_ok\<close>) can be met, and the witnesses of the storage properties run on it.
\<close>

type_synonym 'a reader = "string \<Rightarrow> ('a \<times> string) option"

definition reads :: "('a \<Rightarrow> string) \<Rightarrow> 'a reader \<Rightarrow> bool" where
  "reads put get \<longleftrightarrow> (\<forall>x rest. get (put x @ rest) = Some (x, rest))"

fun put_nat :: "nat \<Rightarrow> string" where
  "put_nat 0 = ''.''"
| "put_nat (Suc n) = CHR ''1'' # put_nat n"

fun get_nat :: "nat reader" where
  "get_nat [] = None"
| "get_nat (c # cs) = (if c = CHR ''.'' then Some (0, cs)
     else case get_nat cs of None \<Rightarrow> None | Some (n, r) \<Rightarrow> Some (Suc n, r))"

lemma reads_nat: "reads put_nat get_nat"
proof -
  have "get_nat (put_nat n @ rest) = Some (n, rest)" for n rest by (induction n) auto
  then show ?thesis by (simp add: reads_def)
qed

definition put_map :: "('b \<Rightarrow> 'a) \<Rightarrow> ('a \<Rightarrow> string) \<Rightarrow> 'b \<Rightarrow> string" where
  "put_map f put x = put (f x)"

definition get_map :: "('a \<Rightarrow> 'b) \<Rightarrow> 'a reader \<Rightarrow> 'b reader" where
  "get_map g get s = (case get s of None \<Rightarrow> None | Some (x, r) \<Rightarrow> Some (g x, r))"

lemma reads_map: "reads put get \<Longrightarrow> (\<And>x. g (f x) = x) \<Longrightarrow> reads (put_map f put) (get_map g get)"
  by (simp add: reads_def put_map_def get_map_def)

definition put_pair :: "('a \<Rightarrow> string) \<Rightarrow> ('b \<Rightarrow> string) \<Rightarrow> 'a \<times> 'b \<Rightarrow> string" where
  "put_pair pa pb p = pa (fst p) @ pb (snd p)"

definition get_pair :: "'a reader \<Rightarrow> 'b reader \<Rightarrow> ('a \<times> 'b) reader" where
  "get_pair ga gb s = (case ga s of None \<Rightarrow> None | Some (a, r) \<Rightarrow>
     (case gb r of None \<Rightarrow> None | Some (b, r') \<Rightarrow> Some ((a, b), r')))"

lemma reads_pair: "reads pa ga \<Longrightarrow> reads pb gb \<Longrightarrow> reads (put_pair pa pb) (get_pair ga gb)"
  by (simp add: reads_def put_pair_def get_pair_def)

fun get_times :: "nat \<Rightarrow> 'a reader \<Rightarrow> 'a list reader" where
  "get_times 0 g s = Some ([], s)"
| "get_times (Suc n) g s = (case g s of None \<Rightarrow> None | Some (x, r) \<Rightarrow>
     (case get_times n g r of None \<Rightarrow> None | Some (xs, r') \<Rightarrow> Some (x # xs, r')))"

definition put_list :: "('a \<Rightarrow> string) \<Rightarrow> 'a list \<Rightarrow> string" where
  "put_list p xs = put_nat (length xs) @ concat (map p xs)"

definition get_list :: "'a reader \<Rightarrow> 'a list reader" where
  "get_list g s = (case get_nat s of None \<Rightarrow> None | Some (n, r) \<Rightarrow> get_times n g r)"

lemma reads_list: "reads p g \<Longrightarrow> reads (put_list p) (get_list g)"
proof -
  assume p: "reads p g"
  have "get_times (length xs) g (concat (map p xs) @ rest) = Some (xs, rest)" for xs rest
    using p by (induction xs) (auto simp: reads_def)
  then show ?thesis using reads_nat by (simp add: reads_def put_list_def get_list_def)
qed

definition put_char :: "char \<Rightarrow> string" where
  "put_char c = [c]"

fun get_char :: "char reader" where
  "get_char [] = None"
| "get_char (c # cs) = Some (c, cs)"

lemma reads_char: "reads put_char get_char"
  by (simp add: reads_def put_char_def)

fun option_to_list :: "'a option \<Rightarrow> 'a list" where
  "option_to_list None = []"
| "option_to_list (Some x) = [x]"

fun list_to_option :: "'a list \<Rightarrow> 'a option" where
  "list_to_option [] = None"
| "list_to_option (x # xs) = Some x"

lemma list_to_option_to_list [simp]: "list_to_option (option_to_list x) = x"
  by (cases x) auto

fun status_code :: "missed_block_status \<Rightarrow> nat" where
  "status_code Pending = 0"
| "status_code Recovering = 1"
| "status_code Recovered = 2"
| "status_code Failed = 3"

definition status_of_code :: "nat \<Rightarrow> missed_block_status" where
  "status_of_code n = (if n = 0 then Pending else if n = 1 then Recovering else if n = 2 then Recovered else Failed)"

lemma status_of_code_code [simp]: "status_of_code (status_code s) = s"
  by (cases s) (auto simp: status_of_code_def)

fun nats_to_int :: "nat \<times> nat \<Rightarrow> int" where
  "nats_to_int (p, n) = int p - int n"

definition int_to_nats :: "int \<Rightarrow> nat \<times> nat" where
  "int_to_nats i = (nat i, nat (- i))"

lemma nats_to_int_to_nats [simp]: "nats_to_int (int_to_nats i) = i"
  by (simp add: int_to_nats_def)

definition put_int :: "int \<Rightarrow> string" where
  "put_int = put_map int_to_nats (put_pair put_nat put_nat)"

definition get_int :: "int reader" where
  "get_int = get_map nats_to_int (get_pair get_nat get_nat)"

definition put_word :: "'a::len word \<Rightarrow> string" where
  "put_word = put_map unat put_nat"

definition get_word :: "'a::len word reader" where
  "get_word = get_map word_of_nat get_nat"

lemma reads_int: "reads put_int get_int"
  unfolding put_int_def get_int_def by (intro reads_map reads_pair reads_nat) simp

lemma reads_word: "reads (put_word :: 'a::len word \<Rightarrow> string) get_word"
  unfolding put_word_def get_word_def by (intro reads_map reads_nat) simp

definition entry_tuple where
  "entry_tuple e = (me_block_number e, me_first_missed_at e, me_retry_count e, status_code (me_status e),
     option_to_list (me_last_attempt_at e), option_to_list (me_last_error e))"

fun tuple_entry where
  "tuple_entry (n, t, r, s, a, er) = \<lparr>me_block_number = n, me_first_missed_at = t, me_retry_count = r,
     me_status = status_of_code s, me_last_attempt_at = list_to_option a, me_last_error = list_to_option er\<rparr>"

definition put_entries :: "missed_block_entry list \<Rightarrow> string" where
  "put_entries = put_list (put_map entry_tuple (put_pair put_word (put_pair put_int (put_pair put_word
     (put_pair put_nat (put_pair (put_list put_int) (put_list (put_list put_char))))))))"

definition get_entries :: "missed_block_entry list reader" where
  "get_entries = get_list (get_map tuple_entry (get_pair get_word (get_pair get_int (get_pair get_word
     (get_pair get_nat (get_pair (get_list get_int) (get_list (get_list get_char))))))))"

lemma reads_entries: "reads put_entries get_entries"
  unfolding put_entries_def get_entries_def
  by (intro reads_list reads_map reads_pair reads_word reads_int reads_nat reads_char)
    (simp add: entry_tuple_def)

definition sample_codec :: "u64 codec" where
  "sample_codec = \<lparr>
     enc_entries = (\<lambda>es. Some (CHR ''v'' # put_entries es)),
     dec_entries = (\<lambda>s. case s of [] \<Rightarrow> None | _ # r \<Rightarrow> map_option fst (get_entries r)),
     enc_blocks = (\<lambda>bs. Some ''[]'')\<rparr>"

lemma trim_v [simp]: "trim (CHR ''v'' # s) \<noteq> []"
  by (auto simp: trim_def is_ws_def char_code_def)

lemma get_entries_put: "get_entries (put_entries es) = Some (es, [])"
  using reads_entries unfolding reads_def by (metis append_Nil2)

lemma sample_codec_ok: "codec_ok sample_codec"
  by (simp add: codec_ok_def sample_codec_def get_entries_put)

text \<open>A directory in which nothing fails, with the files given.\<close>

definition sample_fs :: "(string \<times> string) list \<Rightarrow> fs" where
  "sample_fs files = \<lparr>fs_files = files, fs_outcomes = (\<lambda>_. IoOk), fs_io = 0, fs_clock = (\<lambda>n. int n), fs_ticks = 0\<rparr>"

text \<open>The directory of one network with a last processed block and missed blocks.\<close>

definition sample_net_fs :: "string \<Rightarrow> u64 \<Rightarrow> missed_block_entry list \<Rightarrow> fs" where
  "sample_net_fs sl n es = sample_fs
     [(last_block_file sl, show_word n), (missed_json_file sl, CHR ''v'' # put_entries es)]"

definition sample_entry :: "missed_core \<Rightarrow> missed_block_entry" where
  "sample_entry m = \<lparr>me_block_number = fst m, me_first_missed_at = 0, me_retry_count = fst (snd m),
     me_status = snd (snd m), me_last_attempt_at = None, me_last_error = None\<rparr>"

lemma core_sample_entry [simp]: "core (sample_entry m) = m"
  by (simp add: core_def sample_entry_def)

lemma sample_net_ready:
  "file_ready sample_codec sl (sample_net_fs sl n es)"
  "file_last sl (sample_net_fs sl n es) = Some n"
  "file_missed sample_codec sl (sample_net_fs sl n es) = map core es"
  by (simp_all add: file_ready_def sample_codec_ok sample_net_fs_def sample_fs_def io_ok_def
      decode_missed_def file_last_def parse_last_def file_missed_def file_entries_def)
    (simp_all add: sample_codec_def get_entries_put)

end
