(* ===== verification/Storage_Properties.thy ===== *)
theory Storage_Properties imports Sample_Codec begin

text \<open>
  What the file storage guarantees, as properties of its operations: durability of the last
  processed block, the missed-block list as a set of pending work, the move from the old text
  format, the behaviour on failing writes, and where deletion reaches too far.
\<close>

section \<open>The last processed block\<close>

lemma get_last_after_write:
  assumes "io_ok s" "file_at s (last_block_file sl) = Some (show_word n)"
  shows "fst (get_last_processed_block sl s) = Inr (Some n)"
proof -
  have "io_ok (s\<lparr>fs_io := Suc (fs_io s)\<rparr>)" using assms(1) by simp
  then show ?thesis using assms
    by (simp add: get_last_processed_block_def file_exists_ok io_bind_def read_file_ok io_return_def)
qed

text \<open>What was saved as the last processed block is what the next read returns, for every block
  number and whatever the directory held before.\<close>

theorem last_block_roundtrip:
  assumes "io_ok s"
  shows "fst (get_last_processed_block sl (snd (save_last_processed_block sl n s))) = Inr (Some n)"
  using assms by (intro get_last_after_write) (simp_all add: save_last_processed_block_def write_file_ok update_conv')

theorem last_block_roundtrip_witness:
  "fst (get_last_processed_block ''eth'' (snd (save_last_processed_block ''eth'' 123 (sample_fs [])))) = Inr (Some 123)"
  by (rule last_block_roundtrip) (simp add: sample_fs_def io_ok_def)

section \<open>The missed-block list\<close>

text \<open>Saving missed blocks adds exactly the numbers that were not listed yet, as pending with no
  retries, after the old entries, which keep their state; numbers stay unique, and the last
  processed block is not touched.\<close>

theorem save_missed_blocks_adds:
  assumes "file_ready C sl s" "distinct ns" "distinct (map fst (file_missed C sl s))"
  shows "\<exists>s'. save_missed_blocks C sl ns s = (Inr (), s')
    \<and> file_missed C sl s' = file_missed C sl s
        @ map (\<lambda>n. (n, 0, Pending)) (filter (\<lambda>n. n \<notin> fst ` set (file_missed C sl s)) ns)
    \<and> fst ` set (file_missed C sl s') = fst ` set (file_missed C sl s) \<union> set ns
    \<and> distinct (map fst (file_missed C sl s'))
    \<and> file_last sl s' = file_last sl s"
proof -
  let ?new = "filter (\<lambda>n. n \<notin> fst ` set (file_missed C sl s)) ns"
  obtain s' where s': "save_missed_blocks C sl ns s = (Inr (), s')" "file_last sl s' = file_last sl s"
    "file_missed C sl s' = file_missed C sl s @ map (\<lambda>n. (n, 0, Pending)) ?new"
    using file_save_missed [OF assms(1), of ns] by (auto simp: spec_save_def)
  have "map fst (file_missed C sl s') = map fst (file_missed C sl s) @ ?new"
    by (simp add: s'(3) comp_def)
  with assms have "distinct (map fst (file_missed C sl s'))" by auto
  with s' show ?thesis by (auto simp: image_Un image_image)
qed

theorem save_missed_blocks_adds_witness:
  "\<exists>s'. save_missed_blocks sample_codec ''eth'' [5, 7]
        (sample_net_fs ''eth'' 9 [sample_entry (5, 2, Pending)]) = (Inr (), s')
    \<and> file_missed sample_codec ''eth'' s' = [(5, 2, Pending), (7, 0, Pending)]"
  using save_missed_blocks_adds [OF sample_net_ready(1) [of "''eth''" 9 "[sample_entry (5, 2, Pending)]"], of "[5, 7]"]
  by (auto simp: sample_net_ready)

text \<open>Recovery candidates: \<open>get_missed_blocks\<close> returns exactly the listed blocks that are
  pending, young enough and have retries left, in list order, and changes nothing.\<close>

theorem get_missed_blocks_eligible:
  assumes "file_ready C sl s"
  shows "\<exists>es s'. get_missed_blocks C sl age cur maxr s = (Inr es, s')
    \<and> map core es = filter (\<lambda>(n, r, st). unat cur - unat age \<le> unat n \<and> st = Pending \<and> r < maxr)
        (file_missed C sl s)
    \<and> file_missed C sl s' = file_missed C sl s \<and> file_last sl s' = file_last sl s"
proof -
  have "eligible_core age cur maxr = (\<lambda>(n, r, st). unat cur - unat age \<le> unat n \<and> st = Pending \<and> r < maxr)"
    by (auto simp: eligible_core_def fun_eq_iff word_le_nat_alt unat_saturating_sub)
  with file_get_missed [OF assms, of age cur maxr] show ?thesis by auto
qed

theorem get_missed_blocks_eligible_witness:
  "\<exists>es s'. get_missed_blocks sample_codec ''eth'' 10 100 3
        (sample_net_fs ''eth'' 9 (map sample_entry [(5, 0, Pending), (95, 3, Pending), (96, 2, Pending), (97, 0, Recovering)]))
      = (Inr es, s') \<and> map core es = [(96, 2, Pending)]"
  using get_missed_blocks_eligible [OF sample_net_ready(1) [of "''eth''" 9
      "map sample_entry [(5, 0, Pending), (95, 3, Pending), (96, 2, Pending), (97, 0, Recovering)]"], of 10 100 3]
  by (auto simp: sample_net_ready comp_def)

section \<open>The old text format\<close>

fun dedup :: "u64 list \<Rightarrow> u64 list \<Rightarrow> u64 list" where
  "dedup seen [] = []"
| "dedup seen (n # ns) = (if n \<in> set seen then dedup seen ns else n # dedup (n # seen) ns)"

lemma set_dedup: "set (dedup seen ns) = set ns - set seen"
  by (induction ns arbitrary: seen) auto

lemma distinct_dedup: "distinct (dedup seen ns)"
  by (induction ns arbitrary: seen) (auto simp: set_dedup)

definition text_numbers :: "string \<Rightarrow> u64 list" where
  "text_numbers c = List.map_filter (\<lambda>l. parse_u64 (trim l)) (lines c)"

lemma parse_u64_Nil [simp]: "parse_u64 [] = None"
  by (simp add: parse_u64_def strip_plus_def)

lemma migrate_lines_core:
  "\<exists>es k. migrate_lines seen ls s = (es, s\<lparr>fs_ticks := k\<rparr>)
     \<and> map core es = map (\<lambda>n. (n, 0, Pending)) (dedup seen (List.map_filter (\<lambda>l. parse_u64 (trim l)) ls))"
proof (induction ls arbitrary: seen s)
  case Nil
  show ?case by (rule exI [where x = "[]"], rule exI [where x = "fs_ticks s"]) (simp add: map_filter_def)
next
  case (Cons l ls)
  show ?case
  proof (cases "parse_u64 (trim l)")
    case None
    with Cons [of seen s] show ?thesis by (simp add: map_filter_def)
  next
    case (Some n)
    then have ne: "trim l \<noteq> []" by auto
    obtain e k where e: "missed_block_entry_new n s = (e, s\<lparr>fs_ticks := k\<rparr>)" "core e = (n, 0, Pending)"
      by (simp add: missed_block_entry_new_def timestamp_def core_def)
    show ?thesis
    proof (cases "n \<in> set seen")
      case True
      with Some ne Cons [of seen s] show ?thesis by (simp add: map_filter_def)
    next
      case False
      obtain es k' where "migrate_lines (n # seen) ls (s\<lparr>fs_ticks := k\<rparr>) = (es, s\<lparr>fs_ticks := k'\<rparr>)"
        "map core es = map (\<lambda>n. (n, 0, Pending)) (dedup (n # seen) (List.map_filter (\<lambda>l. parse_u64 (trim l)) ls))"
        using Cons.IH [of "n # seen" "s\<lparr>fs_ticks := k\<rparr>"] by auto
      with Some ne False e show ?thesis
        by (intro exI [where x = "e # es"] exI [where x = k']) (simp add: map_filter_def)
    qed
  qed
qed

text \<open>The first load of a network whose missed blocks are still in the old text file returns one
  pending entry per number that file lists (blank and unreadable lines skipped, repetitions
  dropped), leaves them in the JSON file and removes the text file.\<close>

theorem legacy_file_migrated:
  assumes "codec_ok C" "io_ok s" "file_at s (missed_json_file sl) = None" "file_at s (missed_txt_file sl) = Some c"
  shows "\<exists>es s'. load_missed_blocks_json C sl s = (Inr es, s')
    \<and> map core es = map (\<lambda>n. (n, 0, Pending)) (dedup [] (text_numbers c))
    \<and> file_entries C sl s' = es \<and> file_at s' (missed_txt_file sl) = None"
proof -
  let ?s2 = "s\<lparr>fs_io := Suc (Suc (Suc (fs_io s)))\<rparr>"
  obtain es k where es: "migrate_lines [] (lines c) ?s2 = (es, ?s2\<lparr>fs_ticks := k\<rparr>)"
    "map core es = map (\<lambda>n. (n, 0, Pending)) (dedup [] (text_numbers c))"
    using migrate_lines_core [of "[]" "lines c" ?s2] unfolding text_numbers_def by auto
  obtain j where j: "enc_entries C es = Some j" "trim j \<noteq> []" "dec_entries C j = Some es"
    using assms(1) unfolding codec_ok_def by blast
  have io: "fs_outcomes s n = IoOk" if "fs_io s \<le> n" for n using assms(2) that by (simp add: io_ok_def)
  let ?s3 = "?s2\<lparr>fs_ticks := k, fs_io := Suc (Suc (fs_io ?s2)),
    fs_files := AList.delete (missed_txt_file sl) (AList.update (missed_json_file sl) j (fs_files s))\<rparr>"
  have "load_missed_blocks_json C sl s = (Inr es, ?s3)"
    using assms(3,4) es(1) j(1)
    by (simp add: load_missed_blocks_json_def file_exists_def next_outcome_def io io_bind_def read_file_def
        save_missed_blocks_json_def write_file_def remove_file_def update_conv')
  moreover have "file_entries C sl ?s3 = es" "file_at ?s3 (missed_txt_file sl) = None"
    using j by (simp_all add: file_entries_def decode_missed_def update_conv' delete_conv')
  ultimately show ?thesis using es(2) by blast
qed

theorem legacy_file_migrated_witness:
  "\<exists>es s'. load_missed_blocks_json sample_codec ''eth''
        (sample_fs [(missed_txt_file ''eth'', [CHR ''7'', CHR 0x0A, CHR ''x'', CHR 0x0A, CHR ''7''])]) = (Inr es, s')
    \<and> map core es = [(7, 0, Pending)]"
proof -
  have "dedup [] (text_numbers ([CHR ''7'', CHR 0x0A, CHR ''x'', CHR 0x0A, CHR ''7''])) = [7]"
    by (simp add: text_numbers_def lines_def strip_cr_def trim_def is_ws_def char_code_def parse_u64_def
        strip_plus_def is_digit_def digits_value_def digit_val_def map_filter_def)
  then show ?thesis
    using legacy_file_migrated [of sample_codec "sample_fs [(missed_txt_file ''eth'', [CHR ''7'', CHR 0x0A, CHR ''x'', CHR 0x0A, CHR ''7''])]" "''eth''"]
    by (auto simp: sample_codec_ok sample_fs_def io_ok_def)
qed

section \<open>Failing writes and deletion\<close>

text \<open>A write of the last processed block that is interrupted leaves the network unable to
  start: if what the interruption left in the file is not a number (a file truncated to
  nothing, for one), every later read fails, and nothing but a save repairs it.\<close>

theorem torn_last_block_unreadable:
  assumes "fs_outcomes s (fs_io s) = IoTorn c" "parse_u64 (trim c) = None"
    "fs_outcomes s (Suc (fs_io s)) = IoOk" "fs_outcomes s (Suc (Suc (fs_io s))) = IoOk"
  shows "fst (save_last_processed_block sl n s) = Inl (Write_error (last_block_file sl))
    \<and> fst (get_last_processed_block sl (snd (save_last_processed_block sl n s))) =
        Inl (Parse_error (last_block_file sl))"
  using assms by (simp add: save_last_processed_block_def write_file_def next_outcome_def update_conv'
      get_last_processed_block_def file_exists_def read_file_def io_bind_def io_raise_def)

theorem torn_last_block_unreadable_witness:
  "fst (get_last_processed_block ''eth'' (snd (save_last_processed_block ''eth'' 8
     ((sample_fs [(last_block_file ''eth'', ''7'')])\<lparr>fs_outcomes := (\<lambda>n. if n = 0 then IoTorn [] else IoOk)\<rparr>))))
   = Inl (Parse_error (last_block_file ''eth''))"
  using torn_last_block_unreadable [of "(sample_fs [(last_block_file ''eth'', ''7'')])\<lparr>fs_outcomes := (\<lambda>n. if n = 0 then IoTorn [] else IoOk)\<rparr>"
      "[]" "''eth''" 8]
  by (simp add: sample_fs_def trim_def)

text \<open>Deleting a network's stored blocks never touches its own last processed block or missed
  blocks, nor any file outside the pattern \<open>{slug}_blocks_*.json\<close>.\<close>

theorem delete_blocks_stays_in_pattern:
  assumes "io_ok s"
  shows "\<exists>r s'. delete_blocks sl s = (r, s')
    \<and> (\<forall>p. \<not> blocks_pattern sl p \<longrightarrow> file_at s' p = file_at s p)
    \<and> file_at s' (last_block_file sl) = file_at s (last_block_file sl)
    \<and> file_at s' (missed_json_file sl) = file_at s (missed_json_file sl)"
proof -
  let ?s = "s\<lparr>fs_io := Suc (fs_io s)\<rparr>"
  obtain ps where ps: "glob_blocks sl s = (ps, ?s)" "\<forall>p \<in> set ps. blocks_pattern sl p"
    using assms by (auto simp: glob_blocks_def next_outcome_ok)
  obtain r s' where "remove_files ps ?s = (r, s')" "\<forall>q. \<not> blocks_pattern sl q \<longrightarrow> file_at s' q = file_at s q"
    using remove_files_keeps [of ?s ps sl] ps(2) assms by auto
  then show ?thesis using ps(1) not_blocks_pattern by (auto simp: delete_blocks_def)
qed

theorem delete_blocks_stays_in_pattern_witness:
  "file_at (snd (delete_blocks ''eth'' (sample_fs [(last_block_file ''eth'', ''7''), (blocks_file ''eth'' 3, ''[]'')])))
     (last_block_file ''eth'') = Some ''7''"
  using delete_blocks_stays_in_pattern [of "sample_fs [(last_block_file ''eth'', ''7''), (blocks_file ''eth'' 3, ''[]'')]" "''eth''"]
  by (auto simp: sample_fs_def io_ok_def)

text \<open>The pattern is not confined to the network: the list of missed blocks of a network whose
  slug continues \<open>{slug}_blocks_\<close> matches it, and is deleted with the stored blocks of the
  shorter slug.\<close>

theorem delete_blocks_reaches_other_network:
  "blocks_pattern sl (missed_json_file (sl @ ''_blocks_'' @ x))
   \<and> file_at (snd (delete_blocks sl (sample_fs [(missed_json_file (sl @ ''_blocks_'' @ x), c)])))
       (missed_json_file (sl @ ''_blocks_'' @ x)) = None"
proof -
  let ?p = "missed_json_file (sl @ ''_blocks_'' @ x)"
  have "suffix ''.json'' ?p"
    unfolding suffix_def missed_json_file_def
    by (rule exI [where x = "sl @ ''_blocks_'' @ x @ ''_missed_blocks''"]) simp
  then have pat: "blocks_pattern sl ?p"
    by (simp add: blocks_pattern_def missed_json_file_def)
  then have "delete_blocks sl (sample_fs [(?p, c)]) = remove_files [?p] (sample_fs [(?p, c)]\<lparr>fs_io := 1\<rparr>)"
    by (simp add: delete_blocks_def glob_blocks_def next_outcome_def sample_fs_def)
  then show ?thesis using pat
    by (simp add: remove_file_def next_outcome_def sample_fs_def io_bind_def io_return_def)
qed

end
