(* ===== verification/Recovery.thy ===== *)
theory Recovery imports Sample_Codec begin

text \<open>
  The recovery job for missed blocks (src/src/services/blockwatcher/recovery.rs). It is
  written against any implementation \<open>ops\<close> of the storage trait and any chain client; its
  lemmas are proved once under the storage contract and then hold for the file storage.
\<close>

section \<open>The chain client\<close>

text \<open>What the watcher asks of a chain client. The first argument of each operation counts the
  requests made before, so that two equal requests may be answered differently. An error is
  its text.\<close>

record 'b rpc_client =
  rpc_latest :: "nat \<Rightarrow> string + u64"
  rpc_blocks :: "nat \<Rightarrow> u64 \<Rightarrow> u64 option \<Rightarrow> string + 'b list"

datatype block_watcher_error =
    Scheduler_error string
  | Network_error string
  | Processing_error string
  | Block_storage_error string
  | Block_tracker_error string
  | Recovery_error string
  | Other_error string

section \<open>The job\<close>

record recovery_result =
  rr_attempted :: nat
  rr_recovered :: nat
  rr_failed :: nat
  rr_pruned :: nat

text \<open>The state of a run: the storage, the requests made, the blocks handed to the trigger
  handler in order, and the local variables \<open>recovered_blocks\<close> and \<open>result\<close>.\<close>

record ('s, 'm) recovery_run =
  run_store :: 's
  run_requests :: nat
  run_triggered :: "'m processed_block list"
  run_recovered :: "u64 list"
  run_result :: recovery_result

definition retry_status :: "block_recovery_config \<Rightarrow> missed_block_entry \<Rightarrow> missed_block_status" where
  "retry_status cfg e = (if rc_max_retries cfg \<le> me_retry_count e + 1 then Failed else Pending)"

definition recovery_failure :: "('s, 'b) block_storage \<Rightarrow> network \<Rightarrow> block_recovery_config \<Rightarrow>
  missed_block_entry \<Rightarrow> string \<Rightarrow> ('s, 'm) recovery_run \<Rightarrow> ('s, 'm) recovery_run" where
  "recovery_failure ops net cfg e msg run = run\<lparr>
     run_store := snd (st_update_missed ops (slug net) (me_block_number e) (retry_status cfg e)
       (Some msg) (run_store run)),
     run_result := (run_result run)\<lparr>rr_failed :=
       rr_failed (run_result run) + (if retry_status cfg e = Failed then 1 else 0)\<rparr>\<rparr>"

definition recover_entry :: "('s, 'b) block_storage \<Rightarrow> network \<Rightarrow> block_recovery_config \<Rightarrow>
  'b rpc_client \<Rightarrow> ('b \<Rightarrow> network \<Rightarrow> 'm processed_block) \<Rightarrow>
  missed_block_entry \<Rightarrow> ('s, 'm) recovery_run \<Rightarrow> ('s, 'm) recovery_run" where
  "recover_entry ops net cfg client handler e run =
    (let n = me_block_number e;
         run1 = run\<lparr>
           run_result := (run_result run)\<lparr>rr_attempted := Suc (rr_attempted (run_result run))\<rparr>,
           run_store := snd (st_update_missed ops (slug net) n Recovering None (run_store run)),
           run_requests := Suc (run_requests run)\<rparr>
     in case rpc_blocks client (run_requests run) n (Some n) of
          Inr (b # _) \<Rightarrow> run1\<lparr>
            run_triggered := run_triggered run1 @ [handler b net],
            run_store := snd (st_update_missed ops (slug net) n Recovered None (run_store run1)),
            run_recovered := run_recovered run1 @ [n],
            run_result := (run_result run1)\<lparr>rr_recovered := Suc (rr_recovered (run_result run1))\<rparr>\<rparr>
        | Inr [] \<Rightarrow> recovery_failure ops net cfg e ''Block not found in RPC response'' run1
        | Inl msg \<Rightarrow> recovery_failure ops net cfg e msg run1)"

definition process_missed_blocks :: "('s, 'b) block_storage \<Rightarrow> network \<Rightarrow> block_recovery_config \<Rightarrow>
  'b rpc_client \<Rightarrow> ('b \<Rightarrow> network \<Rightarrow> 'm processed_block) \<Rightarrow> 's \<Rightarrow>
  (block_watcher_error + recovery_result) \<times> ('s, 'm) recovery_run" where
  "process_missed_blocks ops net cfg client handler s =
    (let run = \<lparr>run_store = s, run_requests = 1, run_triggered = [], run_recovered = [],
         run_result = \<lparr>rr_attempted = 0, rr_recovered = 0, rr_failed = 0, rr_pruned = 0\<rparr>\<rparr>
     in case rpc_latest client 0 of
       Inl _ \<Rightarrow> (Inl (Other_error ''Failed to get latest block number for recovery''), run)
     | Inr current_block \<Rightarrow>
       let confirmed = saturating_sub current_block (confirmation_blocks net)
       in case st_prune_missed ops (slug net) (rc_max_block_age cfg) confirmed s of
         (Inl _, s1) \<Rightarrow> (Inl (Other_error ''Failed to prune old missed blocks''), run\<lparr>run_store := s1\<rparr>)
       | (Inr pruned, s1) \<Rightarrow>
         (case st_get_missed ops (slug net) (rc_max_block_age cfg) confirmed (rc_max_retries cfg) s1 of
           (Inl _, s2) \<Rightarrow>
             (Inl (Other_error ''Failed to get missed blocks for recovery''), run\<lparr>run_store := s2\<rparr>)
         | (Inr missed, s2) \<Rightarrow>
           let chosen = take (unat (rc_max_blocks_per_run cfg)) (sort_key me_block_number missed);
               run1 = run\<lparr>run_store := s2, run_result := (run_result run)\<lparr>rr_pruned := pruned\<rparr>\<rparr>
           in if chosen = [] then (Inr (run_result run1), run1)
              else let run2 = fold (recover_entry ops net cfg client handler) chosen run1;
                       run3 = (if run_recovered run2 = [] then run2
                         else run2\<lparr>run_store := snd (st_remove_recovered ops (slug net)
                           (run_recovered run2) (run_store run2))\<rparr>)
                   in (Inr (run_result run3), run3)))"

section \<open>What a run does, on the abstract list\<close>

definition fetched :: "'b rpc_client \<Rightarrow> nat \<times> u64 \<Rightarrow> 'b option" where
  "fetched client req = (case req of (k, n) \<Rightarrow>
     (case rpc_blocks client k n (Some n) of Inr (b # _) \<Rightarrow> Some b | _ \<Rightarrow> None))"

text \<open>Of the blocks \<open>ns\<close> requested one after the other from request number \<open>k\<close> on: those that
  were found, and the processed blocks they give.\<close>

definition recovered_of :: "'b rpc_client \<Rightarrow> nat \<Rightarrow> u64 list \<Rightarrow> u64 list" where
  "recovered_of client k ns = map snd (filter (\<lambda>req. fetched client req \<noteq> None) (enumerate k ns))"

definition triggered_of :: "'b rpc_client \<Rightarrow> ('b \<Rightarrow> network \<Rightarrow> 'm processed_block) \<Rightarrow> network \<Rightarrow>
  nat \<Rightarrow> u64 list \<Rightarrow> 'm processed_block list" where
  "triggered_of client handler net k ns =
     map (\<lambda>b. handler b net) (List.map_filter (fetched client) (enumerate k ns))"

definition chosen_cores :: "block_recovery_config \<Rightarrow> u64 \<Rightarrow> missed_core list \<Rightarrow> missed_core list" where
  "chosen_cores cfg confirmed ms = take (unat (rc_max_blocks_per_run cfg)) (sort_key fst
     (filter (eligible_core (rc_max_block_age cfg) confirmed (rc_max_retries cfg)) ms))"

definition failed_core :: "block_recovery_config \<Rightarrow> missed_core \<Rightarrow> missed_core" where
  "failed_core cfg m = (case m of (n, r, _) \<Rightarrow>
     (n, r + 1, if rc_max_retries cfg \<le> r + 1 then Failed else Pending))"

text \<open>The list after a run: old entries pruned, found blocks gone, every other chosen block
  with one more retry, all other entries as they were.\<close>

definition spec_recovery :: "block_recovery_config \<Rightarrow> u64 \<Rightarrow> 'b rpc_client \<Rightarrow> missed_core list \<Rightarrow> missed_core list" where
  "spec_recovery cfg confirmed client ms =
    (let kept = spec_prune (rc_max_block_age cfg) confirmed ms;
         chosen = chosen_cores cfg confirmed kept;
         found = recovered_of client 1 (map fst chosen)
     in map (\<lambda>m. if m \<in> set chosen then failed_core cfg m else m)
          (filter (\<lambda>m. fst m \<notin> set found) kept))"

lemma recovered_of_Nil [simp]: "recovered_of client k [] = []"
  by (simp add: recovered_of_def)

lemma recovered_of_Cons: "recovered_of client k (n # ns) =
    (if fetched client (k, n) \<noteq> None then n # recovered_of client (Suc k) ns
     else recovered_of client (Suc k) ns)"
  by (simp add: recovered_of_def)

lemma triggered_of_Nil [simp]: "triggered_of client handler net k [] = []"
  by (simp add: triggered_of_def map_filter_def)

lemma triggered_of_Cons: "triggered_of client handler net k (n # ns) =
    (case fetched client (k, n) of
       Some b \<Rightarrow> handler b net # triggered_of client handler net (Suc k) ns
     | None \<Rightarrow> triggered_of client handler net (Suc k) ns)"
  by (simp add: triggered_of_def map_filter_def split: option.splits)

lemma set_recovered_of: "set (recovered_of client k ns) \<subseteq> set ns"
proof (induction ns arbitrary: k)
  case (Cons n ns)
  then show ?case using Cons [of "Suc k"] by (auto simp: recovered_of_Cons)
qed simp

lemma length_triggered_of [simp]:
  "length (triggered_of client handler net k ns) = length (recovered_of client k ns)"
  by (induction ns arbitrary: k) (auto simp: triggered_of_Cons recovered_of_Cons split: option.splits)

lemma length_recovered_of: "length (recovered_of client k ns) \<le> length ns"
proof (induction ns arbitrary: k)
  case (Cons n ns)
  show ?case using Cons [of "Suc k"] by (simp add: recovered_of_Cons)
qed simp

section \<open>One entry and the loop, under the storage contract\<close>

text \<open>The effect of one entry on the abstract list, and on a member of it.\<close>

definition entry_status :: "block_recovery_config \<Rightarrow> bool \<Rightarrow> missed_block_entry \<Rightarrow> missed_block_status" where
  "entry_status cfg found e = (if found then Recovered else retry_status cfg e)"

definition abs_entry :: "block_recovery_config \<Rightarrow> bool \<Rightarrow> missed_block_entry \<Rightarrow> missed_core list \<Rightarrow> missed_core list" where
  "abs_entry cfg found e ms = spec_update (me_block_number e) (entry_status cfg found e)
     (spec_update (me_block_number e) Recovering ms)"

fun abs_loop :: "block_recovery_config \<Rightarrow> 'b rpc_client \<Rightarrow> nat \<Rightarrow> missed_block_entry list \<Rightarrow>
  missed_core list \<Rightarrow> missed_core list" where
  "abs_loop cfg client k [] ms = ms"
| "abs_loop cfg client k (e # es) ms = abs_loop cfg client (Suc k) es
     (abs_entry cfg (fetched client (k, me_block_number e) \<noteq> None) e ms)"

definition failures :: "block_recovery_config \<Rightarrow> 'b rpc_client \<Rightarrow> nat \<Rightarrow> missed_block_entry list \<Rightarrow> nat" where
  "failures cfg client k es = length (filter (\<lambda>(i, e). fetched client (i, me_block_number e) = None
     \<and> retry_status cfg e = Failed) (enumerate k es))"

lemma failures_simps [simp]:
  "failures cfg client k [] = 0"
  "failures cfg client k (e # es) =
     (if fetched client (k, me_block_number e) = None \<and> retry_status cfg e = Failed then 1 else 0)
     + failures cfg client (Suc k) es"
  by (simp_all add: failures_def)

context block_store
begin

lemma recover_entry_effect:
  fixes run :: "('s, 'm) recovery_run" and handler :: "'b \<Rightarrow> network \<Rightarrow> 'm processed_block"
    and net :: network and cfg :: block_recovery_config and client :: "'b rpc_client"
    and e :: missed_block_entry
  assumes "ready (slug net) (run_store run)"
  defines "run' \<equiv> recover_entry ops net cfg client handler e run"
  defines "b \<equiv> fetched client (run_requests run, me_block_number e)"
  shows "ready (slug net) (run_store run')"
    and "last_of (slug net) (run_store run') = last_of (slug net) (run_store run)"
    and "missed_of (slug net) (run_store run') = abs_entry cfg (b \<noteq> None) e (missed_of (slug net) (run_store run))"
    and "run_requests run' = Suc (run_requests run)"
    and "run_triggered run' = run_triggered run @ (case b of None \<Rightarrow> [] | Some x \<Rightarrow> [handler x net])"
    and "run_recovered run' = run_recovered run @ (case b of None \<Rightarrow> [] | Some x \<Rightarrow> [me_block_number e])"
    and "run_result run' = (run_result run)\<lparr>
        rr_attempted := Suc (rr_attempted (run_result run)),
        rr_recovered := rr_recovered (run_result run) + (if b = None then 0 else 1),
        rr_failed := rr_failed (run_result run)
          + (if b = None \<and> retry_status cfg e = Failed then 1 else 0)\<rparr>"
proof -
  obtain s1 where s1: "st_update_missed ops (slug net) (me_block_number e) Recovering None (run_store run) = (Inr (), s1)"
    "ready (slug net) s1" "last_of (slug net) s1 = last_of (slug net) (run_store run)"
    "missed_of (slug net) s1 = spec_update (me_block_number e) Recovering (missed_of (slug net) (run_store run))"
    using update_missed [OF assms(1)] by blast
  have upd: "\<exists>s2. st_update_missed ops (slug net) (me_block_number e) st err s1 = (Inr (), s2)
      \<and> ready (slug net) s2 \<and> last_of (slug net) s2 = last_of (slug net) s1
      \<and> missed_of (slug net) s2 = spec_update (me_block_number e) st (missed_of (slug net) s1)" for st err
    using update_missed [OF s1(2)] by blast
  note defs = run'_def b_def recover_entry_def recovery_failure_def fetched_def Let_def abs_entry_def entry_status_def
  have "ready (slug net) (run_store run')
    \<and> last_of (slug net) (run_store run') = last_of (slug net) (run_store run)
    \<and> missed_of (slug net) (run_store run') = abs_entry cfg (b \<noteq> None) e (missed_of (slug net) (run_store run))"
  proof (cases "rpc_blocks client (run_requests run) (me_block_number e) (Some (me_block_number e))")
    case (Inl msg)
    with s1 show ?thesis using upd [of "retry_status cfg e" "Some msg"] by (auto simp: defs)
  next
    case (Inr bs)
    show ?thesis
    proof (cases bs)
      case Nil
      with Inr s1 show ?thesis
        using upd [of "retry_status cfg e" "Some ''Block not found in RPC response''"] by (auto simp: defs)
    next
      case (Cons x xs)
      with Inr s1 show ?thesis using upd [of Recovered None] by (auto simp: defs)
    qed
  qed
  then show "ready (slug net) (run_store run')"
    "last_of (slug net) (run_store run') = last_of (slug net) (run_store run)"
    "missed_of (slug net) (run_store run') = abs_entry cfg (b \<noteq> None) e (missed_of (slug net) (run_store run))"
    by simp_all
  show "run_requests run' = Suc (run_requests run)"
    "run_triggered run' = run_triggered run @ (case b of None \<Rightarrow> [] | Some x \<Rightarrow> [handler x net])"
    "run_recovered run' = run_recovered run @ (case b of None \<Rightarrow> [] | Some x \<Rightarrow> [me_block_number e])"
    "run_result run' = (run_result run)\<lparr>
        rr_attempted := Suc (rr_attempted (run_result run)),
        rr_recovered := rr_recovered (run_result run) + (if b = None then 0 else 1),
        rr_failed := rr_failed (run_result run)
          + (if b = None \<and> retry_status cfg e = Failed then 1 else 0)\<rparr>"
    by (auto simp: defs split: sum.split list.split)
qed

lemma recover_loop_effect:
  fixes run :: "('s, 'm) recovery_run"
  assumes "ready (slug net) (run_store run)"
  shows "\<exists>run'. fold (recover_entry ops net cfg client handler) es run = run'
    \<and> ready (slug net) (run_store run')
    \<and> last_of (slug net) (run_store run') = last_of (slug net) (run_store run)
    \<and> missed_of (slug net) (run_store run') =
        abs_loop cfg client (run_requests run) es (missed_of (slug net) (run_store run))
    \<and> run_triggered run' = run_triggered run
        @ triggered_of client handler net (run_requests run) (map me_block_number es)
    \<and> run_recovered run' = run_recovered run
        @ recovered_of client (run_requests run) (map me_block_number es)
    \<and> run_result run' = (run_result run)\<lparr>
        rr_attempted := rr_attempted (run_result run) + length es,
        rr_recovered := rr_recovered (run_result run)
          + length (recovered_of client (run_requests run) (map me_block_number es)),
        rr_failed := rr_failed (run_result run) + failures cfg client (run_requests run) es\<rparr>"
  using assms
proof (induction es arbitrary: run)
  case (Cons e es)
  let ?run = "recover_entry ops net cfg client handler e run"
  note eff = recover_entry_effect [OF Cons.prems, of cfg client handler e]
  show ?case
    using Cons.IH [OF eff(1)] unfolding eff(2-7)
    by (cases "fetched client (run_requests run, me_block_number e)")
      (simp_all add: triggered_of_Cons recovered_of_Cons eff(2-7))
qed simp

end

section \<open>The loop on distinct entries\<close>

definition loop_core :: "block_recovery_config \<Rightarrow> u64 list \<Rightarrow> u64 list \<Rightarrow> missed_core \<Rightarrow> missed_core" where
  "loop_core cfg ns found m = (if fst m \<notin> set ns then m
     else if fst m \<in> set found then (fst m, fst (snd m), Recovered) else failed_core cfg m)"

definition attempt_core :: "block_recovery_config \<Rightarrow> u64 \<Rightarrow> bool \<Rightarrow> missed_core \<Rightarrow> missed_core" where
  "attempt_core cfg n found m = (if fst m = n
     then (if found then (fst m, fst (snd m), Recovered) else failed_core cfg m) else m)"

lemma fst_failed_core [simp]: "fst (failed_core cfg m) = fst m"
  by (simp add: failed_core_def split: prod.splits)

lemma fst_attempt_core [simp]: "fst (attempt_core cfg n found m) = fst m"
  by (simp add: attempt_core_def)

lemma attempt_core_other [simp]: "fst m \<noteq> n \<Longrightarrow> attempt_core cfg n found m = m"
  by (simp add: attempt_core_def)

lemma abs_entry_map:
  assumes "distinct (map fst ms)"
    "\<forall>m \<in> set ms. fst m = me_block_number e \<longrightarrow> fst (snd m) = me_retry_count e"
  shows "abs_entry cfg found e ms = map (attempt_core cfg (me_block_number e) found) ms"
proof -
  have "distinct (map fst (spec_update (me_block_number e) Recovering ms))"
    using assms(1) by simp
  then show ?thesis
    using assms unfolding abs_entry_def spec_update_def
    by (auto simp: update_first_eq_map touch_core_def entry_status_def retry_status_def
        attempt_core_def failed_core_def split: prod.splits)
qed

lemma abs_loop_map:
  assumes "distinct (map fst ms)" "distinct (map me_block_number es)"
    "\<forall>e \<in> set es. \<forall>m \<in> set ms. fst m = me_block_number e \<longrightarrow> fst (snd m) = me_retry_count e"
  shows "abs_loop cfg client k es ms =
    map (loop_core cfg (map me_block_number es) (recovered_of client k (map me_block_number es))) ms"
  using assms
proof (induction es arbitrary: k ms)
  case Nil
  then show ?case by (simp add: loop_core_def)
next
  case (Cons e es)
  let ?n = "me_block_number e" and ?ns = "map me_block_number es"
  let ?found = "fetched client (k, ?n) \<noteq> None"
  let ?f = "attempt_core cfg ?n ?found"
  have e: "abs_entry cfg ?found e ms = map ?f ms"
    using Cons.prems(1,3) by (intro abs_entry_map) auto
  have new: "?n \<notin> me_block_number ` set es" using Cons.prems(2) by simp
  have "abs_loop cfg client (Suc k) es (map ?f ms) =
      map (loop_core cfg ?ns (recovered_of client (Suc k) ?ns)) (map ?f ms)"
  proof (rule Cons.IH)
    show "distinct (map fst (map ?f ms))"
      using Cons.prems(1) by (simp add: comp_def)
    show "distinct ?ns" using Cons.prems(2) by simp
    show "\<forall>e' \<in> set es. \<forall>m \<in> set (map ?f ms). fst m = me_block_number e' \<longrightarrow> fst (snd m) = me_retry_count e'"
    proof (intro ballI impI)
      fix e' m assume e': "e' \<in> set es" and m: "m \<in> set (map ?f ms)" and eq: "fst m = me_block_number e'"
      from m have "m \<in> ?f ` set ms" by (simp only: set_map)
      then obtain m0 where m0: "m = ?f m0" "m0 \<in> set ms" by (rule imageE)
      with eq have eq0: "fst m0 = me_block_number e'" by simp
      with new e' have "m = m0" using m0 by (auto simp: image_iff)
      with eq0 m0 e' Cons.prems(3) show "fst (snd m) = me_retry_count e'" by simp
    qed
  qed
  moreover have "loop_core cfg ?ns (recovered_of client (Suc k) ?ns) (?f m) =
      loop_core cfg (map me_block_number (e # es)) (recovered_of client k (map me_block_number (e # es))) m" for m
    using new set_recovered_of [of client "Suc k" ?ns]
    by (cases "fst m = ?n") (auto simp: loop_core_def recovered_of_Cons attempt_core_def)
  ultimately show ?case unfolding abs_loop.simps e map_map comp_def by simp
qed

lemma failures_distinct:
  assumes "distinct (map me_block_number es)"
  shows "failures cfg client k es = length (filter (\<lambda>e. me_block_number e \<notin>
      set (recovered_of client k (map me_block_number es)) \<and> retry_status cfg e = Failed) es)"
  using assms
proof (induction es arbitrary: k)
  case (Cons e es)
  let ?R = "set (recovered_of client (Suc k) (map me_block_number es))"
  have "me_block_number e \<notin> ?R"
    using Cons.prems set_recovered_of [of client "Suc k" "map me_block_number es"] by auto
  moreover have "filter (\<lambda>x. me_block_number x \<notin> insert (me_block_number e) ?R \<and> retry_status cfg x = Failed) es
      = filter (\<lambda>x. me_block_number x \<notin> ?R \<and> retry_status cfg x = Failed) es"
    using Cons.prems by (intro filter_cong) (auto simp: image_iff)
  ultimately show ?case
    using Cons.IH [of "Suc k"] Cons.prems by (auto simp: recovered_of_Cons)
qed simp

lemma map_insort_key: "map f (insort_key (g \<circ> f) x xs) = insort_key g (f x) (map f xs)"
  by (induction xs) auto

lemma map_sort_key: "map f (sort_key (g \<circ> f) xs) = sort_key g (map f xs)"
proof (induction xs)
  case (Cons x xs)
  then show ?case by (simp add: map_insort_key del: comp_apply)
qed simp

lemma sort_entries_core: "map core (sort_key me_block_number es) = sort_key fst (map core es)"
proof -
  have "me_block_number = fst \<circ> core" by auto
  then show ?thesis by (metis map_sort_key)
qed

section \<open>The whole job\<close>

text \<open>Whether a missed entry, given up or not, is counted as failed by the run.\<close>

definition given_up :: "block_recovery_config \<Rightarrow> missed_core \<Rightarrow> bool" where
  "given_up cfg m = (rc_max_retries cfg \<le> fst (snd m) + 1)"

lemma failed_iff_given_up: "retry_status cfg e = Failed \<longleftrightarrow> given_up cfg (core e)"
  by (simp add: retry_status_def given_up_def core_def)

definition job_report :: "block_recovery_config \<Rightarrow> u64 \<Rightarrow> 'b rpc_client \<Rightarrow> missed_core list \<Rightarrow> recovery_result" where
  "job_report cfg confirmed client ms =
    (let kept = spec_prune (rc_max_block_age cfg) confirmed ms;
         chosen = chosen_cores cfg confirmed kept;
         found = recovered_of client 1 (map fst chosen)
     in \<lparr>rr_attempted = length chosen, rr_recovered = length found,
         rr_failed = length (filter (\<lambda>m. fst m \<notin> set found \<and> given_up cfg m) chosen),
         rr_pruned = length ms - length kept\<rparr>)"

definition job_triggers :: "block_recovery_config \<Rightarrow> u64 \<Rightarrow> 'b rpc_client \<Rightarrow>
  ('b \<Rightarrow> network \<Rightarrow> 'm processed_block) \<Rightarrow> network \<Rightarrow> missed_core list \<Rightarrow> 'm processed_block list" where
  "job_triggers cfg confirmed client handler net ms = triggered_of client handler net 1
     (map fst (chosen_cores cfg confirmed (spec_prune (rc_max_block_age cfg) confirmed ms)))"

lemma set_chosen_cores: "set (chosen_cores cfg confirmed ms) \<subseteq> set ms"
  by (auto simp: chosen_cores_def dest: in_set_takeD)

lemma chosen_cores_eligible:
  "m \<in> set (chosen_cores cfg confirmed ms) \<Longrightarrow>
   eligible_core (rc_max_block_age cfg) confirmed (rc_max_retries cfg) m"
  by (auto simp: chosen_cores_def dest: in_set_takeD)

lemma distinct_chosen_cores:
  assumes "distinct (map fst ms)"
  shows "distinct (map fst (chosen_cores cfg confirmed ms))"
proof -
  let ?el = "filter (eligible_core (rc_max_block_age cfg) confirmed (rc_max_retries cfg)) ms"
  have "distinct (map fst ?el)" using assms by (rule distinct_map_filter)
  then have "distinct (map fst (sort_key fst ?el))"
    by (simp add: distinct_map)
  then show ?thesis by (simp add: chosen_cores_def take_map [symmetric])
qed

lemma sorted_chosen_cores: "sorted (map fst (chosen_cores cfg confirmed ms))"
  by (simp add: chosen_cores_def take_map [symmetric] sorted_wrt_take)

lemma remove_loop_core:
  assumes "distinct (map fst ms)" "set chosen \<subseteq> set ms" "set found \<subseteq> fst ` set chosen"
  shows "spec_remove found (map (loop_core cfg (map fst chosen) found) ms) =
    map (\<lambda>m. if m \<in> set chosen then failed_core cfg m else m) (filter (\<lambda>m. fst m \<notin> set found) ms)"
proof -
  have fst_loop: "fst (loop_core cfg ns found m) = fst m" for ns m
    by (auto simp: loop_core_def failed_core_def split: prod.splits)
  have mem: "m \<in> set chosen \<longleftrightarrow> fst m \<in> fst ` set chosen" if "m \<in> set ms" for m
    using assms(1,2) that by (auto simp: distinct_map dest: inj_onD)
  have "spec_remove found (map (loop_core cfg (map fst chosen) found) ms) =
      map (loop_core cfg (map fst chosen) found) (filter (\<lambda>m. fst m \<notin> set found) ms)"
    by (simp add: spec_remove_def filter_map comp_def fst_loop)
  also have "\<dots> = map (\<lambda>m. if m \<in> set chosen then failed_core cfg m else m)
      (filter (\<lambda>m. fst m \<notin> set found) ms)"
    by (rule map_cong [OF refl]) (auto simp: loop_core_def mem)
  finally show ?thesis .
qed

context block_store
begin

lemma job_effect:
  fixes handler :: "'b \<Rightarrow> network \<Rightarrow> 'm processed_block"
  assumes ready: "ready (slug net) s" and dist: "distinct (map fst (missed_of (slug net) s))"
    and latest: "rpc_latest client 0 = Inr cur"
  defines "ms \<equiv> missed_of (slug net) s" and "confirmed \<equiv> saturating_sub cur (confirmation_blocks net)"
  shows "\<exists>run. process_missed_blocks ops net cfg client handler s =
      (Inr (job_report cfg confirmed client ms), run)
    \<and> ready (slug net) (run_store run)
    \<and> last_of (slug net) (run_store run) = last_of (slug net) s
    \<and> missed_of (slug net) (run_store run) = spec_recovery cfg confirmed client ms
    \<and> run_triggered run = job_triggers cfg confirmed client handler net ms"
proof -
  let ?age = "rc_max_block_age cfg" and ?sl = "slug net"
  define kept where "kept = spec_prune ?age confirmed ms"
  obtain s1 where s1: "st_prune_missed ops ?sl ?age confirmed s = (Inr (length ms - length kept), s1)"
    "ready ?sl s1" "last_of ?sl s1 = last_of ?sl s" "missed_of ?sl s1 = kept"
    using prune_missed [OF ready, of ?age confirmed] unfolding ms_def kept_def by blast
  obtain es s2 where s2: "st_get_missed ops ?sl ?age confirmed (rc_max_retries cfg) s1 = (Inr es, s2)"
    "map core es = filter (eligible_core ?age confirmed (rc_max_retries cfg)) kept"
    "ready ?sl s2" "last_of ?sl s2 = last_of ?sl s" "missed_of ?sl s2 = kept"
    using get_missed [OF s1(2), of ?age confirmed "rc_max_retries cfg"] s1(3,4) by auto
  define es' where "es' = take (unat (rc_max_blocks_per_run cfg)) (sort_key me_block_number es)"
  define chosen where "chosen = chosen_cores cfg confirmed kept"
  have cores: "map core es' = chosen"
    by (simp add: es'_def chosen_def chosen_cores_def take_map [symmetric] sort_entries_core s2(2))
  have nums: "map me_block_number es' = map fst chosen"
    by (simp add: cores [symmetric])
  have dist_kept: "distinct (map fst kept)"
    using dist unfolding kept_def spec_prune_def ms_def by (rule distinct_map_filter)
  have dist': "distinct (map fst chosen)"
    unfolding chosen_def by (rule distinct_chosen_cores [OF dist_kept])
  define found where "found = recovered_of client 1 (map fst chosen)"
  have spec: "spec_recovery cfg confirmed client ms =
      map (\<lambda>m. if m \<in> set chosen then failed_core cfg m else m) (filter (\<lambda>m. fst m \<notin> set found) kept)"
    by (simp add: spec_recovery_def Let_def kept_def chosen_def found_def)
  define run1 :: "('s, 'm) recovery_run" where "run1 = \<lparr>run_store = s2, run_requests = 1, run_triggered = [], run_recovered = [],
    run_result = \<lparr>rr_attempted = 0, rr_recovered = 0, rr_failed = 0, rr_pruned = length ms - length kept\<rparr>\<rparr>"
  define run2 where "run2 = fold (recover_entry ops net cfg client handler) es' run1"
  define run3 where "run3 = (if run_recovered run2 = [] then run2 else run2\<lparr>run_store :=
    snd (st_remove_recovered ops ?sl (run_recovered run2) (run_store run2))\<rparr>)"
  have job: "process_missed_blocks ops net cfg client handler s =
      (if es' = [] then (Inr (run_result run1), run1) else (Inr (run_result run3), run3))"
    using s1(1) s2(1) latest unfolding run3_def run2_def es'_def run1_def confirmed_def
    by (simp add: process_missed_blocks_def Let_def)
  have retries: "\<forall>e \<in> set es'. \<forall>m \<in> set kept. fst m = me_block_number e \<longrightarrow> fst (snd m) = me_retry_count e"
  proof (intro ballI impI)
    fix e m assume e: "e \<in> set es'" and m: "m \<in> set kept" "fst m = me_block_number e"
    have "core e \<in> set chosen" using e by (simp add: cores [symmetric])
    then have "core e \<in> set kept" using set_chosen_cores unfolding chosen_def by blast
    with m dist_kept have "m = core e"
      by (intro inj_onD [of fst "set kept"]) (auto simp: distinct_map)
    then show "fst (snd m) = me_retry_count e" by (simp add: core_def)
  qed
  have loop: "ready ?sl (run_store run2) \<and> last_of ?sl (run_store run2) = last_of ?sl s
      \<and> missed_of ?sl (run_store run2) = map (loop_core cfg (map fst chosen) found) kept
      \<and> run_triggered run2 = job_triggers cfg confirmed client handler net ms
      \<and> run_recovered run2 = found
      \<and> run_result run2 = job_report cfg confirmed client ms"
  proof -
    have fails: "length (filter (\<lambda>e. me_block_number e \<notin> set found \<and> retry_status cfg e = Failed) es') =
        length (filter (\<lambda>m. fst m \<notin> set found \<and> given_up cfg m) chosen)"
      by (simp add: cores [symmetric] filter_map comp_def failed_iff_given_up)
    have len: "length es' = length chosen" by (simp add: cores [symmetric])
    have r1: "run_store run1 = s2" "run_requests run1 = 1" "run_triggered run1 = []" "run_recovered run1 = []"
      "run_result run1 = \<lparr>rr_attempted = 0, rr_recovered = 0, rr_failed = 0, rr_pruned = length ms - length kept\<rparr>"
      by (simp_all add: run1_def)
    have dist_es: "distinct (map me_block_number es')" unfolding nums by (rule dist')
    have "abs_loop cfg client 1 es' kept = map (loop_core cfg (map fst chosen) found) kept"
      unfolding abs_loop_map [OF dist_kept dist_es retries] nums found_def ..
    moreover have "failures cfg client 1 es' = length (filter (\<lambda>m. fst m \<notin> set found \<and> given_up cfg m) chosen)"
      unfolding failures_distinct [OF dist_es] nums found_def [symmetric] by (rule fails)
    ultimately show ?thesis
      using recover_loop_effect [of net run1 cfg client handler es'] s2(3-5) s1(3) len
      unfolding run2_def [symmetric] r1 nums found_def [symmetric] job_report_def job_triggers_def Let_def
        kept_def [symmetric] chosen_def [symmetric]
      by simp
  qed
  have sub: "set chosen \<subseteq> set kept" "set found \<subseteq> fst ` set chosen"
    using set_chosen_cores set_recovered_of [of client 1 "map fst chosen"]
    unfolding chosen_def found_def by (blast, simp)
  have remove: "spec_remove found (map (loop_core cfg (map fst chosen) found) kept) = spec_recovery cfg confirmed client ms"
    unfolding spec by (rule remove_loop_core [OF dist_kept sub])
  show ?thesis
  proof (cases "es' = []")
    case True
    then have "chosen = []" using cores by simp
    with True job s2 s1(3) show ?thesis
      by (auto simp: run1_def job_report_def job_triggers_def Let_def spec found_def
          kept_def [symmetric] chosen_def [symmetric])
  next
    case False
    have "ready ?sl (run_store run3) \<and> last_of ?sl (run_store run3) = last_of ?sl s
      \<and> missed_of ?sl (run_store run3) = spec_recovery cfg confirmed client ms"
    proof (cases "found = []")
      case True
      then show ?thesis using loop remove by (simp add: run3_def spec_remove_def)
    next
      case False
      from loop obtain s3 where "st_remove_recovered ops ?sl found (run_store run2) = (Inr (), s3)"
        "ready ?sl s3" "last_of ?sl s3 = last_of ?sl s"
        "missed_of ?sl s3 = spec_recovery cfg confirmed client ms"
        using remove_recovered [of ?sl "run_store run2" found] remove by auto
      with False loop show ?thesis by (simp add: run3_def)
    qed
    moreover have "run_triggered run3 = run_triggered run2" "run_result run3 = run_result run2"
      by (simp_all add: run3_def)
    ultimately show ?thesis using False loop job by auto
  qed
qed

end

section \<open>Properties\<close>

text \<open>The counters of a run agree with its lists, whatever the storage and the client do.\<close>

definition counts_ok :: "('s, 'm) recovery_run \<Rightarrow> bool" where
  "counts_ok run \<longleftrightarrow> rr_recovered (run_result run) + rr_failed (run_result run) \<le> rr_attempted (run_result run)
     \<and> rr_recovered (run_result run) = length (run_recovered run)
     \<and> length (run_triggered run) = length (run_recovered run)"

lemma recover_entry_counts:
  "counts_ok run \<Longrightarrow> counts_ok (recover_entry ops net cfg client handler e run)"
  by (auto simp: counts_ok_def recover_entry_def recovery_failure_def Let_def split: sum.split list.split)

lemma recover_entry_attempted:
  "rr_attempted (run_result (recover_entry ops net cfg client handler e run)) = Suc (rr_attempted (run_result run))"
  by (auto simp: recover_entry_def recovery_failure_def Let_def split: sum.split list.split)

lemma recover_loop_counts:
  "counts_ok run \<Longrightarrow> counts_ok (fold (recover_entry ops net cfg client handler) es run)
    \<and> rr_attempted (run_result (fold (recover_entry ops net cfg client handler) es run))
      = rr_attempted (run_result run) + length es"
proof (induction es arbitrary: run)
  case (Cons e es)
  from Cons.IH [OF recover_entry_counts [OF Cons.prems, of ops net cfg client handler e]]
  show ?case by (simp add: recover_entry_attempted)
qed simp

text \<open>C7. One run of the recovery job on a readable storage whose listed numbers are distinct: it
  succeeds with the report and hands on the blocks that \<open>job_report\<close> and \<open>job_triggers\<close>
  say, leaves the last processed block alone, and turns the missed-block list into
  \<open>spec_recovery\<close>: entries older than the age limit gone, found blocks gone, every other
  attempted block with one more retry and failed once its retries are used up, and all other
  entries unchanged.\<close>

theorem recovery_run_refines:
  fixes client :: "'b rpc_client" and handler :: "'b \<Rightarrow> network \<Rightarrow> 'm processed_block"
  assumes "file_ready C (slug net) s" "distinct (map fst (file_missed C (slug net) s))"
    "rpc_latest client 0 = Inr cur"
  shows "\<exists>run. process_missed_blocks (file_block_storage C) net cfg client handler s =
      (Inr (job_report cfg (saturating_sub cur (confirmation_blocks net)) client (file_missed C (slug net) s)), run)
    \<and> file_missed C (slug net) (run_store run) =
        spec_recovery cfg (saturating_sub cur (confirmation_blocks net)) client (file_missed C (slug net) s)
    \<and> file_last (slug net) (run_store run) = file_last (slug net) s
    \<and> run_triggered run =
        job_triggers cfg (saturating_sub cur (confirmation_blocks net)) client handler net (file_missed C (slug net) s)"
  using file_store.job_effect [OF assms, of cfg handler] by blast

text \<open>The setting of the witnesses: a network, a configuration, a client that has block 95 only,
  and a handler that keeps block numbers.\<close>

definition sample_network :: network where
  "sample_network = \<lparr>network_type = EVM, slug = ''eth'', network_name = ''Ethereum'', rpc_urls = [],
     chain_id = Some 1, network_passphrase = None, block_time_ms = 12000, confirmation_blocks = 2,
     cron_schedule = ''0 * * * * *'', max_past_blocks = Some 10, store_blocks = Some False,
     recovery_config = None\<rparr>"

definition sample_recovery :: block_recovery_config where
  "sample_recovery = \<lparr>rc_enabled = True, rc_cron_schedule = ''0 */5 * * * *'', rc_max_blocks_per_run = 2,
     rc_max_block_age = 50, rc_max_retries = 3, rc_retry_delay_ms = 1000\<rparr>"

definition sample_client :: "u64 rpc_client" where
  "sample_client = \<lparr>rpc_latest = (\<lambda>_. Inr 102),
     rpc_blocks = (\<lambda>_ n _. if n = 95 then Inr [95] else Inl ''timeout'')\<rparr>"

definition sample_handler :: "u64 \<Rightarrow> network \<Rightarrow> unit processed_block" where
  "sample_handler n net = \<lparr>pb_block_number = n, pb_network_slug = slug net, pb_results = []\<rparr>"

definition sample_missed :: "missed_core list" where
  "sample_missed = [(95, 0, Pending), (20, 1, Pending), (90, 2, Pending), (99, 0, Pending), (80, 0, Recovering)]"

lemmas sample_defs = sample_network_def sample_recovery_def sample_client_def sample_handler_def

definition sample_state :: fs where
  "sample_state = sample_net_fs ''eth'' 100 (map sample_entry sample_missed)"

lemma slug_sample [simp]: "slug sample_network = ''eth''"
  by (simp add: sample_network_def)

lemma confirmations_sample [simp]: "confirmation_blocks sample_network = 2"
  by (simp add: sample_network_def)

lemma sample_ready:
  "file_ready sample_codec (slug sample_network) sample_state"
  "file_missed sample_codec ''eth'' sample_state = sample_missed"
  by (simp_all add: sample_state_def sample_net_ready comp_def)

lemma sample_hyps:
  "distinct (map fst (file_missed sample_codec (slug sample_network) sample_state))"
  "rpc_latest sample_client 0 = Inr 102" "saturating_sub (102::u64) 2 = 100"
  by (simp_all add: sample_ready sample_missed_def sample_client_def saturating_sub_def)

lemma less_imp_plus_one_le32: "(a::u32) < b \<Longrightarrow> a + 1 \<le> b"
  by (rule inc_le)

lemma sample_spec:
  "spec_recovery sample_recovery 100 sample_client sample_missed = [(90, 3, Failed), (99, 0, Pending), (80, 0, Recovering)]"
  by (simp add: spec_recovery_def Let_def sample_missed_def spec_prune_def sample_recovery_def
      saturating_sub_def chosen_cores_def eligible_core_def recovered_of_Cons fetched_def
      sample_client_def failed_core_def)

theorem recovery_run_refines_witness:
  "\<exists>rep run. process_missed_blocks (file_block_storage sample_codec) sample_network sample_recovery sample_client
        sample_handler sample_state = (Inr rep, run)
    \<and> file_missed sample_codec ''eth'' (run_store run) = [(90, 3, Failed), (99, 0, Pending), (80, 0, Recovering)]"
  using recovery_run_refines [OF sample_ready(1) sample_hyps(1,2), of sample_recovery sample_handler]
  by (auto simp: sample_ready sample_hyps(3) sample_spec)

text \<open>Statistics of any run that reaches its end, on any storage and client, faulty ones
  included: at most \<open>max_blocks_per_run\<close> blocks are attempted, the recovered and the given-up
  blocks are among the attempted ones, and exactly the recovered blocks were handed to the
  trigger handler.\<close>

theorem recovery_statistics:
  fixes handler :: "'b \<Rightarrow> network \<Rightarrow> 'm processed_block" and run :: "('s, 'm) recovery_run"
  assumes "process_missed_blocks ops net cfg client handler s = (Inr rep, run)"
  shows "rr_attempted rep \<le> unat (rc_max_blocks_per_run cfg)
    \<and> rr_recovered rep + rr_failed rep \<le> rr_attempted rep
    \<and> length (run_triggered run) = rr_recovered rep"
proof -
  obtain cur where cur: "rpc_latest client 0 = Inr cur"
    using assms by (auto simp: process_missed_blocks_def Let_def split: sum.splits)
  obtain pruned s1 where s1: "st_prune_missed ops (slug net) (rc_max_block_age cfg)
      (saturating_sub cur (confirmation_blocks net)) s = (Inr pruned, s1)"
    using assms cur by (auto simp: process_missed_blocks_def Let_def split: sum.splits prod.splits)
  obtain missed s2 where s2: "st_get_missed ops (slug net) (rc_max_block_age cfg)
      (saturating_sub cur (confirmation_blocks net)) (rc_max_retries cfg) s1 = (Inr missed, s2)"
    using assms cur s1 by (auto simp: process_missed_blocks_def Let_def split: sum.splits prod.splits)
  define chosen where "chosen = take (unat (rc_max_blocks_per_run cfg)) (sort_key me_block_number missed)"
  have len: "length chosen \<le> unat (rc_max_blocks_per_run cfg)" by (simp add: chosen_def)
  let ?run1 = "\<lparr>run_store = s2, run_requests = 1, run_triggered = [], run_recovered = [],
    run_result = \<lparr>rr_attempted = 0, rr_recovered = 0, rr_failed = 0, rr_pruned = pruned\<rparr>\<rparr> :: ('s, 'm) recovery_run"
  have "counts_ok ?run1" by (simp add: counts_ok_def)
  from recover_loop_counts [OF this, of ops net cfg client handler chosen] len
  show ?thesis
    using assms cur s1 s2 unfolding process_missed_blocks_def
    by (auto simp: Let_def chosen_def [symmetric] counts_ok_def split: if_splits)
qed

theorem recovery_statistics_witness:
  "\<exists>rep run. process_missed_blocks (file_block_storage sample_codec) sample_network sample_recovery sample_client
        sample_handler sample_state = (Inr rep, run) \<and> rr_attempted rep \<le> 2"
proof -
  obtain rep run where run: "process_missed_blocks (file_block_storage sample_codec) sample_network sample_recovery
      sample_client sample_handler sample_state = (Inr rep, run)"
    using file_store.job_effect [OF sample_ready(1) sample_hyps(1,2), of sample_recovery sample_handler] by blast
  from recovery_statistics [OF run] have "rr_attempted rep \<le> 2" by (simp add: sample_recovery_def)
  with run show ?thesis by blast
qed

text \<open>A block that the job has marked as being recovered is never tried again: whatever is
  still listed as \<open>Recovering\<close> when a run starts (because an earlier run was killed between its
  two status updates, or because the second update could not be written) and is not yet too
  old, is listed unchanged when the run ends.\<close>

theorem recovering_entry_stranded:
  fixes client :: "'b rpc_client" and handler :: "'b \<Rightarrow> network \<Rightarrow> 'm processed_block"
  assumes "file_ready C (slug net) s" "distinct (map fst (file_missed C (slug net) s))"
    "rpc_latest client 0 = Inr cur"
    "(n, r, Recovering) \<in> set (file_missed C (slug net) s)"
    "saturating_sub (saturating_sub cur (confirmation_blocks net)) (rc_max_block_age cfg) \<le> n"
  shows "(n, r, Recovering) \<in> set (file_missed C (slug net)
    (run_store (snd (process_missed_blocks (file_block_storage C) net cfg client handler s))))"
proof -
  let ?conf = "saturating_sub cur (confirmation_blocks net)" and ?ms = "file_missed C (slug net) s"
  define kept where "kept = spec_prune (rc_max_block_age cfg) ?conf ?ms"
  define chosen where "chosen = chosen_cores cfg ?conf kept"
  have m: "(n, r, Recovering) \<in> set kept" using assms(4,5) by (simp add: kept_def spec_prune_def)
  have out: "(n, r, Recovering) \<notin> set chosen"
    using chosen_cores_eligible unfolding chosen_def by (fastforce simp: eligible_core_def)
  have inj: "inj_on fst (set kept)"
    using assms(2) by (auto simp: kept_def spec_prune_def distinct_map inj_on_def)
  have "n \<notin> fst ` set chosen"
  proof
    assume "n \<in> fst ` set chosen"
    then obtain m' where "m' \<in> set chosen" "fst m' = n" by auto
    moreover from this have "m' \<in> set kept" using set_chosen_cores unfolding chosen_def by blast
    ultimately show False using inj m out by (metis fst_conv inj_onD)
  qed
  then have "n \<notin> set (recovered_of client 1 (map fst chosen))" using set_recovered_of by force
  with m out have "(n, r, Recovering) \<in> set (spec_recovery cfg ?conf client ?ms)"
    by (force simp: spec_recovery_def Let_def kept_def [symmetric] chosen_def [symmetric])
  then show ?thesis
    using file_store.job_effect [OF assms(1-3), of cfg handler] by auto
qed

theorem recovering_entry_stranded_witness:
  "(80, 0, Recovering) \<in> set (file_missed sample_codec ''eth'' (run_store (snd
     (process_missed_blocks (file_block_storage sample_codec) sample_network sample_recovery sample_client
        sample_handler sample_state))))"
  using recovering_entry_stranded [OF sample_ready(1) sample_hyps(1,2), of 80 0 sample_recovery sample_handler]
  by (simp add: sample_ready sample_missed_def sample_recovery_def saturating_sub_def)



end
