(* ===== verification/Watcher.thy ===== *)
theory Watcher imports Pipeline Recovery begin

text \<open>
  The block watcher (src/src/services/blockwatcher/service.rs): one run of
  \<open>process_new_blocks\<close> and the service that starts and stops the watchers of the networks.
  The cron library (\<open>interval\<close>), the chain client, the block handler and the order in which the
  concurrent stages deliver their results (\<open>arrival\<close>) are parameters.
\<close>

section \<open>The window of a run\<close>

text \<open>\<open>None\<close> is the panic of the division when the block time is zero.\<close>

definition get_recommended_past_blocks :: "(string \<Rightarrow> int option) \<Rightarrow> network \<Rightarrow> u64 option" where
  "get_recommended_past_blocks interval net =
     (let ms = (case interval (cron_schedule net) of None \<Rightarrow> 0 | Some i \<Rightarrow> word_of_int i)
      in if block_time_ms net = 0 then None
         else Some (ms div block_time_ms net + confirmation_blocks net + 1))"

text \<open>First block and last confirmed block of a run.\<close>

definition fetch_window :: "network \<Rightarrow> u64 \<Rightarrow> u64 \<Rightarrow> u64 \<Rightarrow> u64 \<times> u64" where
  "fetch_window net recommended last_block latest =
     (let confirmed = saturating_sub latest (confirmation_blocks net);
          max_past = (case max_past_blocks net of None \<Rightarrow> recommended | Some m \<Rightarrow> m)
      in (max (last_block + 1) (saturating_sub confirmed max_past), confirmed))"

definition fetch_blocks :: "'b rpc_client \<Rightarrow> nat \<Rightarrow> u64 \<Rightarrow> u64 \<Rightarrow> u64 \<Rightarrow> string + 'b list" where
  "fetch_blocks client k last_block start confirmed =
     (if last_block = 0 then
        (case rpc_blocks client k confirmed None of
           Inl _ \<Rightarrow> Inl (''Failed to get block '' @ show_word confirmed) | Inr bs \<Rightarrow> Inr bs)
      else if last_block < confirmed then
        (case rpc_blocks client k start (Some confirmed) of
           Inl _ \<Rightarrow> Inl (''Failed to get blocks from '' @ show_word start @ '' to '' @ show_word confirmed)
         | Inr bs \<Rightarrow> Inr bs)
      else Inr [])"

definition missed_enabled :: "network \<Rightarrow> bool" where
  "missed_enabled net \<longleftrightarrow> store_blocks net = Some True
     \<or> (case recovery_config net of None \<Rightarrow> False | Some c \<Rightarrow> rc_enabled c)"

section \<open>One run\<close>

text \<open>What is left of a run: the storage, the tracker, and the trace of the trigger stage.\<close>

record ('s, 'm) watch_run =
  wr_store :: 's
  wr_tracker :: block_tracker
  wr_fired :: "'m processed_block list"
  wr_checks :: "block_check_result list"

datatype watch_outcome = Panicked | Returned "block_watcher_error + unit"

definition record_missed :: "('s, 'b) block_storage \<Rightarrow> network \<Rightarrow> u64 list \<Rightarrow> 's \<Rightarrow> (storage_error + unit) \<times> 's" where
  "record_missed ops net missed s =
     (if missed \<noteq> [] \<and> missed_enabled net then st_save_missed ops (slug net) missed s else (Inr (), s))"

text \<open>The end of a run: replace the stored blocks, if blocks are stored, and move the last
  processed block.\<close>

definition finish_run :: "('s, 'b) block_storage \<Rightarrow> network \<Rightarrow> 'b list \<Rightarrow> u64 \<Rightarrow> 's \<Rightarrow>
  (block_watcher_error + unit) \<times> 's" where
  "finish_run ops net blocks confirmed s =
     (let save_last = (\<lambda>s. case st_save_last ops (slug net) confirmed s of
            (Inl _, s') \<Rightarrow> (Inl (Other_error ''Failed to save last processed block''), s')
          | (Inr _, s') \<Rightarrow> (Inr (), s'))
      in if store_blocks net = Some True then
           (case st_delete_blocks ops (slug net) s of
              (Inl _, s1) \<Rightarrow> (Inl (Other_error ''Failed to delete old blocks''), s1)
            | (Inr _, s1) \<Rightarrow> (case st_save_blocks ops (slug net) blocks s1 of
                (Inl _, s2) \<Rightarrow> (Inl (Other_error ''Failed to save blocks''), s2)
              | (Inr _, s2) \<Rightarrow> save_last s2))
         else save_last s)"

definition process_new_blocks :: "('s, 'b) block_storage \<Rightarrow> (string \<Rightarrow> int option) \<Rightarrow> ('b \<Rightarrow> u64 option) \<Rightarrow>
  network \<Rightarrow> 'b rpc_client \<Rightarrow> ('b \<Rightarrow> network \<Rightarrow> 'm processed_block) \<Rightarrow>
  ('m processed_block list \<Rightarrow> 'm processed_block list) \<Rightarrow> block_tracker \<Rightarrow> 's \<Rightarrow>
  watch_outcome \<times> ('s, 'm) watch_run" where
  "process_new_blocks ops interval number net client handler arrival tracker s =
     (let run = (\<lambda>s t. \<lparr>wr_store = s, wr_tracker = t, wr_fired = [], wr_checks = []\<rparr>);
          failed = (\<lambda>msg. Returned (Inl (Other_error msg)))
      in case st_get_last ops (slug net) s of
        (Inl _, s1) \<Rightarrow> (failed ''Failed to get last processed block'', run s1 tracker)
      | (Inr last_opt, s1) \<Rightarrow>
       (let last_block = (case last_opt of None \<Rightarrow> 0 | Some n \<Rightarrow> n)
        in case rpc_latest client 0 of
          Inl _ \<Rightarrow> (failed ''Failed to get latest block number'', run s1 tracker)
        | Inr latest \<Rightarrow>
         (case get_recommended_past_blocks interval net of
            None \<Rightarrow> (Panicked, run s1 tracker)
          | Some recommended \<Rightarrow>
           (let (start, confirmed) = fetch_window net recommended last_block latest
            in case fetch_blocks client 1 last_block start confirmed of
              Inl msg \<Rightarrow> (failed msg, run s1 tracker)
            | Inr blocks \<Rightarrow>
             (let tracker1 = reset_expected_next tracker (slug net) start;
                  missed = detect_missing_blocks number blocks
              in case record_missed ops net missed s1 of
                (Inl _, s2) \<Rightarrow> (failed (''Failed to save '' @ show_nat (length missed) @ '' missed blocks''),
                  run s2 tracker1)
              | (Inr _, s2) \<Rightarrow>
               (let stage = trigger_stage (slug net) start tracker1
                      (arrival (map (\<lambda>b. handler b net) blocks))
                in case finish_run ops net blocks confirmed s2 of (r, s3) \<Rightarrow>
                  (Returned r, \<lparr>wr_store = s3, wr_tracker = tg_tracker stage,
                     wr_fired = tg_fired stage, wr_checks = tg_checks stage\<rparr>)))))))"

section \<open>The service\<close>

text \<open>The scheduler library: creating a job from a cron expression, and the operations of
  \<open>JobSchedulerTrait\<close> on a scheduler \<open>'j\<close>, each of which may fail.\<close>

datatype watcher_job = Main_job network | Recovery_job network block_recovery_config

record 'j job_scheduler =
  js_cron_ok :: "string \<Rightarrow> bool"
  js_new :: "string + 'j"
  js_add :: "watcher_job \<Rightarrow> 'j \<Rightarrow> string + 'j"
  js_start :: "'j \<Rightarrow> string + 'j"
  js_shutdown :: "'j \<Rightarrow> string + 'j"

record 'j network_watcher =
  nw_network :: network
  nw_scheduler :: 'j

definition sched :: "string + 'a \<Rightarrow> block_watcher_error + 'a" where
  "sched r = (case r of Inl e \<Rightarrow> Inl (Scheduler_error e) | Inr x \<Rightarrow> Inr x)"

definition new_network_watcher :: "'j job_scheduler \<Rightarrow> network \<Rightarrow> block_watcher_error + 'j network_watcher" where
  "new_network_watcher js net =
     res_bind (sched (js_new js)) (\<lambda>j. Inr \<lparr>nw_network = net, nw_scheduler = j\<rparr>)"

definition start_main_watcher :: "'j job_scheduler \<Rightarrow> 'j network_watcher \<Rightarrow> block_watcher_error + 'j network_watcher" where
  "start_main_watcher js w =
     (if js_cron_ok js (cron_schedule (nw_network w))
      then res_bind (sched (js_add js (Main_job (nw_network w)) (nw_scheduler w)))
        (\<lambda>j. Inr (w\<lparr>nw_scheduler := j\<rparr>))
      else Inl (Other_error ''Failed to create main watcher job''))"

definition start_recovery_job :: "'j job_scheduler \<Rightarrow> 'j network_watcher \<Rightarrow> block_watcher_error + 'j network_watcher" where
  "start_recovery_job js w = (case recovery_config (nw_network w) of
       None \<Rightarrow> Inl (Recovery_error ''Recovery config is required but not found'')
     | Some cfg \<Rightarrow>
       if js_cron_ok js (rc_cron_schedule cfg)
       then res_bind (sched (js_add js (Recovery_job (nw_network w) cfg) (nw_scheduler w)))
         (\<lambda>j. Inr (w\<lparr>nw_scheduler := j\<rparr>))
       else Inl (Other_error ''Failed to create recovery job''))"

definition start_watcher :: "'j job_scheduler \<Rightarrow> 'j network_watcher \<Rightarrow> block_watcher_error + 'j network_watcher" where
  "start_watcher js w =
     res_bind (start_main_watcher js w) (\<lambda>w1.
     res_bind (case recovery_config (nw_network w1) of
         Some cfg \<Rightarrow> if rc_enabled cfg then start_recovery_job js w1 else Inr w1
       | None \<Rightarrow> Inr w1) (\<lambda>w2.
     res_bind (sched (js_start js (nw_scheduler w2))) (\<lambda>j. Inr (w2\<lparr>nw_scheduler := j\<rparr>))))"

definition stop_watcher :: "'j job_scheduler \<Rightarrow> 'j network_watcher \<Rightarrow> block_watcher_error + 'j network_watcher" where
  "stop_watcher js w = res_bind (sched (js_shutdown js (nw_scheduler w))) (\<lambda>j. Inr (w\<lparr>nw_scheduler := j\<rparr>))"

type_synonym 'j watchers = "string \<rightharpoonup> 'j network_watcher"

definition start_network_watcher :: "'j job_scheduler \<Rightarrow> network \<Rightarrow> 'j watchers \<Rightarrow>
  (block_watcher_error + unit) \<times> 'j watchers" where
  "start_network_watcher js net ws =
     (if ws (slug net) \<noteq> None then (Inr (), ws)
      else case res_bind (new_network_watcher js net) (start_watcher js) of
          Inl e \<Rightarrow> (Inl e, ws)
        | Inr w \<Rightarrow> (Inr (), ws(slug net \<mapsto> w)))"

definition stop_network_watcher :: "'j job_scheduler \<Rightarrow> string \<Rightarrow> 'j watchers \<Rightarrow>
  (block_watcher_error + unit) \<times> 'j watchers" where
  "stop_network_watcher js sl ws = (case ws sl of
       None \<Rightarrow> (Inr (), ws)
     | Some w \<Rightarrow> (case stop_watcher js w of
         Inl e \<Rightarrow> (Inl e, ws(sl := None))
       | Inr _ \<Rightarrow> (Inr (), ws(sl := None))))"

section \<open>A run under the storage contract\<close>

context block_store
begin

lemma record_missed_effect:
  assumes "ready (slug net) s"
  shows "\<exists>s'. record_missed ops net missed s = (Inr (), s') \<and> ready (slug net) s'
    \<and> last_of (slug net) s' = last_of (slug net) s
    \<and> missed_of (slug net) s' = (if missed_enabled net then spec_save missed (missed_of (slug net) s)
        else missed_of (slug net) s)"
proof (cases "missed \<noteq> [] \<and> missed_enabled net")
  case True
  then show ?thesis using save_missed [OF assms, of missed] by (auto simp: record_missed_def)
next
  case False
  moreover have "spec_save [] ms = ms" for ms by (simp add: spec_save_def)
  ultimately show ?thesis using assms by (auto simp: record_missed_def)
qed

lemma finish_run_effect:
  assumes "ready (slug net) s"
  shows "\<exists>r s'. finish_run ops net blocks confirmed s = (r, s') \<and> ready (slug net) s'
    \<and> last_of (slug net) s' = (if r = Inr () then Some confirmed else last_of (slug net) s)
    \<and> missed_of (slug net) s' = missed_of (slug net) s
    \<and> (store_blocks net \<noteq> Some True \<longrightarrow> r = Inr ())"
proof (cases "store_blocks net = Some True")
  case False
  then show ?thesis using save_last [OF assms, of confirmed] by (auto simp: finish_run_def Let_def)
next
  case True
  obtain r1 s1 where s1: "st_delete_blocks ops (slug net) s = (r1, s1)" "ready (slug net) s1"
    "last_of (slug net) s1 = last_of (slug net) s" "missed_of (slug net) s1 = missed_of (slug net) s"
    using delete_blocks [OF assms] by blast
  obtain r2 s2 where s2: "st_save_blocks ops (slug net) blocks s1 = (r2, s2)" "ready (slug net) s2"
    "last_of (slug net) s2 = last_of (slug net) s1" "missed_of (slug net) s2 = missed_of (slug net) s1"
    using save_blocks [OF s1(2)] by blast
  obtain s3 where s3: "st_save_last ops (slug net) confirmed s2 = (Inr (), s3)" "ready (slug net) s3"
    "last_of (slug net) s3 = Some confirmed" "missed_of (slug net) s3 = missed_of (slug net) s2"
    using save_last [OF s2(2), of confirmed] by blast
  show ?thesis using True s1 s2 s3
    by (cases r1; cases r2) (auto simp: finish_run_def Let_def)
qed

lemma run_effect:
  assumes "ready (slug net) s" "rpc_latest client 0 = Inr latest"
    "get_recommended_past_blocks interval net = Some recommended"
    "fetch_window net recommended (case last_of (slug net) s of None \<Rightarrow> 0 | Some n \<Rightarrow> n) latest = (start, confirmed)"
    "fetch_blocks client 1 (case last_of (slug net) s of None \<Rightarrow> 0 | Some n \<Rightarrow> n) start confirmed = Inr blocks"
  shows "\<exists>r s'. process_new_blocks ops interval number net client handler arrival tracker s = (Returned r,
      let stage = trigger_stage (slug net) start (reset_expected_next tracker (slug net) start)
        (arrival (map (\<lambda>b. handler b net) blocks))
      in \<lparr>wr_store = s', wr_tracker = tg_tracker stage, wr_fired = tg_fired stage, wr_checks = tg_checks stage\<rparr>)
    \<and> ready (slug net) s'
    \<and> last_of (slug net) s' = (if r = Inr () then Some confirmed else last_of (slug net) s)
    \<and> missed_of (slug net) s' = (if missed_enabled net
        then spec_save (detect_missing_blocks number blocks) (missed_of (slug net) s) else missed_of (slug net) s)
    \<and> (store_blocks net \<noteq> Some True \<longrightarrow> r = Inr ())"
proof -
  obtain s1 where s1: "st_get_last ops (slug net) s = (Inr (last_of (slug net) s), s1)" "ready (slug net) s1"
    "last_of (slug net) s1 = last_of (slug net) s" "missed_of (slug net) s1 = missed_of (slug net) s"
    using get_last [OF assms(1)] by blast
  obtain s2 where s2: "record_missed ops net (detect_missing_blocks number blocks) s1 = (Inr (), s2)"
    "ready (slug net) s2" "last_of (slug net) s2 = last_of (slug net) s1"
    "missed_of (slug net) s2 = (if missed_enabled net
        then spec_save (detect_missing_blocks number blocks) (missed_of (slug net) s1) else missed_of (slug net) s1)"
    using record_missed_effect [OF s1(2)] by blast
  obtain r s3 where s3: "finish_run ops net blocks confirmed s2 = (r, s3)" "ready (slug net) s3"
    "last_of (slug net) s3 = (if r = Inr () then Some confirmed else last_of (slug net) s2)"
    "missed_of (slug net) s3 = missed_of (slug net) s2" "store_blocks net \<noteq> Some True \<longrightarrow> r = Inr ()"
    using finish_run_effect [OF s2(2)] by blast
  have "process_new_blocks ops interval number net client handler arrival tracker s = (Returned r,
      let stage = trigger_stage (slug net) start (reset_expected_next tracker (slug net) start)
        (arrival (map (\<lambda>b. handler b net) blocks))
      in \<lparr>wr_store = s3, wr_tracker = tg_tracker stage, wr_fired = tg_fired stage, wr_checks = tg_checks stage\<rparr>)"
    using s1(1) assms(2-5) s2(1) s3(1) by (simp add: process_new_blocks_def Let_def)
  with s1 s2 s3 show ?thesis by auto
qed

end

section \<open>What the client and the pipeline deliver\<close>

text \<open>The client answers a request for the window with some of its blocks, each once.\<close>

definition blocks_in_window :: "('b \<Rightarrow> u64 option) \<Rightarrow> u64 \<Rightarrow> u64 \<Rightarrow> 'b list \<Rightarrow> bool" where
  "blocks_in_window number start confirmed blocks \<longleftrightarrow>
     list_all (\<lambda>b. case number b of None \<Rightarrow> False | Some n \<Rightarrow> start \<le> n \<and> n \<le> confirmed) blocks
     \<and> distinct (map number blocks)"

text \<open>The handler labels a processed block with the block's own number.\<close>

definition handler_keeps_number :: "('b \<Rightarrow> u64 option) \<Rightarrow> network \<Rightarrow> ('b \<Rightarrow> network \<Rightarrow> 'm processed_block) \<Rightarrow> bool" where
  "handler_keeps_number number net handler \<longleftrightarrow>
     (\<forall>b. pb_block_number (handler b net) = (case number b of None \<Rightarrow> 0 | Some n \<Rightarrow> n))"

text \<open>The concurrent processing stage delivers every result once, in some order.\<close>

definition delivers_all :: "('p list \<Rightarrow> 'p list) \<Rightarrow> bool" where
  "delivers_all arrival \<longleftrightarrow> (\<forall>xs. mset (arrival xs) = mset xs)"

lemma processed_numbers:
  assumes "blocks_in_window number start confirmed blocks" "handler_keeps_number number net handler"
  shows "map pb_block_number (map (\<lambda>b. handler b net) blocks) = map (the \<circ> number) blocks"
    and "set (map (the \<circ> number) blocks) \<subseteq> {start..confirmed}" "distinct (map (the \<circ> number) blocks)"
    and "List.map_filter number blocks = map (the \<circ> number) blocks"
proof -
  have some: "\<exists>n. number b = Some n \<and> start \<le> n \<and> n \<le> confirmed" if "b \<in> set blocks" for b
    using assms(1) that by (auto simp: blocks_in_window_def list_all_iff split: option.splits)
  show "map pb_block_number (map (\<lambda>b. handler b net) blocks) = map (the \<circ> number) blocks"
    using assms(2) some by (fastforce simp: handler_keeps_number_def)
  show "set (map (the \<circ> number) blocks) \<subseteq> {start..confirmed}" using some by fastforce
  have "inj_on the (number ` set blocks)" by (rule inj_onI) (auto dest!: some)
  then show "distinct (map (the \<circ> number) blocks)"
    using assms(1) by (simp add: blocks_in_window_def distinct_map comp_inj_on)
  show "List.map_filter number blocks = map (the \<circ> number) blocks"
    using some by (induction blocks) (fastforce simp: map_filter_def)+
qed

lemma stage_of_window:
  assumes "blocks_in_window number start confirmed blocks" "handler_keeps_number number net handler"
    "delivers_all arrival" "confirmed \<noteq> - 1"
  shows "tg_fired (trigger_stage sl start t (arrival (map (\<lambda>b. handler b net) blocks))) =
    sort_key pb_block_number (map (\<lambda>b. handler b net) blocks)"
proof -
  let ?ps = "map (\<lambda>b. handler b net) blocks"
  note nums = processed_numbers [OF assms(1,2)]
  have ms: "mset (arrival ?ps) = mset ?ps" using assms(3) by (simp add: delivers_all_def)
  then have same: "set (arrival ?ps) = set ?ps" by (rule mset_eq_setD)
  have dist: "distinct (map pb_block_number ?ps)" unfolding nums(1) by (rule nums(3))
  moreover have "mset (map pb_block_number (arrival ?ps)) = mset (map pb_block_number ?ps)"
    unfolding mset_map ms ..
  ultimately have dist': "distinct (map pb_block_number (arrival ?ps))"
    by (metis mset_eq_imp_distinct_iff)
  have max: "n \<noteq> - 1" if "n \<le> confirmed" for n :: u64
    using that assms(4) by (metis word_order.extremum_unique)
  have "set (map pb_block_number ?ps) \<subseteq> {start..confirmed}" unfolding nums(1) by (rule nums(2))
  then have "\<forall>b \<in> set (arrival ?ps). start \<le> pb_block_number b \<and> pb_block_number b \<noteq> - 1"
    using same max by fastforce
  from stage_sorted [OF this dist'] have "tg_fired (trigger_stage sl start t (arrival ?ps)) =
      sort_key pb_block_number (arrival ?ps)" .
  also have "\<dots> = sort_key pb_block_number ?ps"
    using ms dist' by (intro sorted_key_unique [where key = pb_block_number]) (simp_all add: distinct_map)
  finally show ?thesis .
qed

section \<open>Properties\<close>

abbreviation last_or_zero :: "string \<Rightarrow> fs \<Rightarrow> u64" where
  "last_or_zero sl s \<equiv> (case file_last sl s of None \<Rightarrow> 0 | Some n \<Rightarrow> n)"

text \<open>A client that has the blocks from 101 to 105 except 103, and delivers them last first; the
  pipeline reverses once more.\<close>

definition gap_client :: "u64 rpc_client" where
  "gap_client = \<lparr>rpc_latest = (\<lambda>_. Inr 107), rpc_blocks = (\<lambda>_ _ _. Inr [104, 105, 102, 101])\<rparr>"

definition recovering_network :: network where
  "recovering_network = sample_network\<lparr>recovery_config := Some sample_recovery\<rparr>"

lemma recovering_network_sel [simp]:
  "slug recovering_network = ''eth''" "confirmation_blocks recovering_network = 2"
  "max_past_blocks recovering_network = Some 10" "store_blocks recovering_network = Some False"
  "missed_enabled recovering_network" "block_time_ms recovering_network = 12000"
  by (simp_all add: recovering_network_def sample_network_def missed_enabled_def sample_recovery_def)

lemma sample_recommended:
  "get_recommended_past_blocks (\<lambda>_. Some 60000) recovering_network = Some 8"
  by (simp add: get_recommended_past_blocks_def Let_def)

lemma sample_window: "fetch_window recovering_network 8 100 107 = (101, 105)"
  by (simp add: fetch_window_def Let_def saturating_sub_def max_def)

lemma gap_fetch: "fetch_blocks gap_client k 100 101 105 = Inr [104, 105, 102, 101]"
  by (simp add: fetch_blocks_def gap_client_def)

lemma gap_blocks: "blocks_in_window Some 101 105 [104, 105, 102, 101]"
  by (simp add: blocks_in_window_def)

lemma sample_keeps: "handler_keeps_number Some net sample_handler"
  by (simp add: handler_keeps_number_def sample_handler_def)

lemma rev_delivers: "delivers_all rev"
  by (simp add: delivers_all_def)

lemma sample_state_files:
  "file_ready sample_codec (slug recovering_network) (sample_net_fs ''eth'' 100 [])"
  "file_last (slug recovering_network) (sample_net_fs ''eth'' 100 []) = Some 100"
  "file_missed sample_codec (slug recovering_network) (sample_net_fs ''eth'' 100 []) = []"
  by (simp_all add: sample_net_ready)

lemma latest_gap: "rpc_latest gap_client 0 = Inr 107"
  by (simp add: gap_client_def)



text \<open>No false alarm: if none of the answered blocks is in the tracker's history, the tracker
  classifies every executed block of the run as in order, neither duplicate nor out of order,
  in whatever order the processing stage delivers them.\<close>

theorem new_blocks_no_false_alarm:
  fixes client :: "'b rpc_client" and handler :: "'b \<Rightarrow> network \<Rightarrow> 'm processed_block"
  assumes "file_ready C (slug net) s" "rpc_latest client 0 = Inr latest"
    "get_recommended_past_blocks interval net = Some recommended"
    "fetch_window net recommended (last_or_zero (slug net) s) latest = (start, confirmed)"
    "fetch_blocks client 1 (last_or_zero (slug net) s) start confirmed = Inr blocks"
    "blocks_in_window number start confirmed blocks" "confirmed \<noteq> - 1"
    "handler_keeps_number number net handler" "delivers_all arrival"
    "set (List.map_filter number blocks) \<inter> set (history_of tracker (slug net)) = {}"
  shows "set (wr_checks (snd (process_new_blocks (file_block_storage C) interval number net client handler arrival tracker s)))
    \<subseteq> {CheckOk}"
proof -
  note nums = processed_numbers [OF assms(6,8)]
  let ?t = "reset_expected_next tracker (slug net) start"
  let ?stage = "trigger_stage (slug net) start ?t (arrival (map (\<lambda>b. handler b net) blocks))"
  let ?ns = "map pb_block_number (tg_fired ?stage)"
  have fired: "tg_fired ?stage = sort_key pb_block_number (map (\<lambda>b. handler b net) blocks)"
    by (rule stage_of_window [OF assms(6,8,9,7)])
  have set_ns: "set ?ns = set (map (the \<circ> number) blocks)"
    unfolding fired set_map set_sort using arg_cong [OF nums(1), of set] by (simp add: image_image)
  have "distinct (map pb_block_number (map (\<lambda>b. handler b net) blocks))"
    unfolding nums(1) by (rule nums(3))
  then have "distinct ?ns" unfolding fired distinct_map_sort_key .
  moreover have "sorted ?ns" unfolding fired by simp
  ultimately have sorted: "sorted_wrt (<) ?ns" by (simp add: strict_sorted_iff)
  have disjoint: "set ?ns \<inter> set (history_of ?t (slug net)) = {}"
    using assms(10) unfolding set_ns nums(4) by simp
  obtain e where e: "expected_next ?t (slug net) = Some e" "e \<le> start"
    using expected_reset by blast
  have sub: "set ?ns \<subseteq> {start..confirmed}" unfolding set_ns by (rule nums(2))
  have low: "\<forall>n \<in> set ?ns. e \<le> n"
  proof
    fix n assume "n \<in> set ?ns"
    with sub have "n \<in> {start..confirmed}" by (rule subsetD)
    with e(2) show "e \<le> n" by auto
  qed
  have "- 1 \<notin> set ?ns"
  proof
    assume "- 1 \<in> set ?ns"
    with sub have "- 1 \<in> {start..confirmed}" by (rule subsetD)
    then have "- 1 \<le> confirmed" by simp
    with assms(7) show False by (metis word_order.extremum_unique)
  qed
  from check_all_ascending_ok [OF sorted disjoint e(1) low this]
  have "set (tg_checks ?stage) \<subseteq> {CheckOk}" by (simp add: stage_checks)
  then show ?thesis
    using file_store.run_effect [OF assms(1-5), of number handler arrival tracker] by (auto simp: Let_def)
qed

theorem new_blocks_no_false_alarm_witness:
  "set (wr_checks (snd (process_new_blocks (file_block_storage sample_codec) (\<lambda>_. Some 60000) Some recovering_network
      gap_client sample_handler rev (new_tracker 10) (sample_net_fs ''eth'' 100 [])))) \<subseteq> {CheckOk}"
  by (rule new_blocks_no_false_alarm [OF sample_state_files(1) latest_gap sample_recommended _ _ gap_blocks _ sample_keeps rev_delivers])
    (simp_all add: sample_state_files[simplified] sample_window gap_fetch new_tracker_def entry_or_def)



lemma get_last_files: "fs_files (snd (get_last_processed_block sl s)) = fs_files s"
  by (simp add: get_last_processed_block_def file_exists_def next_outcome_def io_bind_def read_file_def
      io_raise_def io_return_def split: option.splits io_outcome.splits)

text \<open>A run that cannot read what it needs (the last processed block, the head of the chain, or
  the blocks of the window) has no effect: no file is changed, no block is handed on, and the
  tracker stays as it was, so that the next run repeats it. This holds whatever the storage
  does, failing operations included.\<close>

theorem failed_fetch_no_effect:
  fixes client :: "'b rpc_client" and handler :: "'b \<Rightarrow> network \<Rightarrow> 'm processed_block"
  assumes "fst (process_new_blocks (file_block_storage C) interval number net client handler arrival tracker s)
      = Returned (Inl (Other_error msg))" "prefix ''Failed to get'' msg"
  shows "fs_files (wr_store (snd (process_new_blocks (file_block_storage C) interval number net client handler arrival tracker s)))
      = fs_files s
    \<and> wr_fired (snd (process_new_blocks (file_block_storage C) interval number net client handler arrival tracker s)) = []
    \<and> wr_tracker (snd (process_new_blocks (file_block_storage C) interval number net client handler arrival tracker s)) = tracker"
proof -
  have no: "\<not> prefix ''Failed to get'' (''Failed to save '' @ x)"
    "\<not> prefix ''Failed to get'' ''Failed to delete old blocks''" "\<not> prefix ''Failed to get'' ''Failed to save blocks''"
    "\<not> prefix ''Failed to get'' ''Failed to save last processed block''" for x by simp_all
  have finish: "r \<noteq> Inl (Other_error msg)" if "finish_run ops net blocks confirmed st = (r, st')" for ops :: "(fs, 'b) block_storage" and blocks confirmed st st' r
    using that assms(2) no by (auto simp: finish_run_def Let_def split: if_splits prod.splits sum.splits)
  obtain res s1 where g: "get_last_processed_block (slug net) s = (res, s1)" "fs_files s1 = fs_files s"
    using get_last_files [of "slug net" s] by (cases "get_last_processed_block (slug net) s") auto
  note step = process_new_blocks_def Let_def file_block_storage_def g
  show ?thesis
  proof (cases "\<exists>n latest rec. res = Inr n \<and> rpc_latest client 0 = Inr latest
      \<and> get_recommended_past_blocks interval net = Some rec")
    case False
    then show ?thesis using g
      by (cases res; cases "rpc_latest client 0"; cases "get_recommended_past_blocks interval net")
        (simp_all add: step)
  next
    case True
    then obtain n latest rec where r: "res = Inr n" "rpc_latest client 0 = Inr latest"
      "get_recommended_past_blocks interval net = Some rec" by blast
    let ?last = "case n of None \<Rightarrow> 0 | Some n \<Rightarrow> n"
    obtain start confirmed where w: "fetch_window net rec ?last latest = (start, confirmed)"
      by (cases "fetch_window net rec ?last latest")
    show ?thesis
    proof (cases "fetch_blocks client 1 ?last start confirmed")
      case (Inl e)
      then show ?thesis using g r w by (simp add: step)
    next
      case (Inr blocks)
      let ?ops = "file_block_storage C"
      obtain q s2 where q: "record_missed ?ops net (detect_missing_blocks number blocks) s1 = (q, s2)"
        by (cases "record_missed ?ops net (detect_missing_blocks number blocks) s1")
      obtain r3 s3 where f: "finish_run ?ops net blocks confirmed s2 = (r3, s3)"
        by (cases "finish_run ?ops net blocks confirmed s2")
      have "fst (process_new_blocks ?ops interval number net client handler arrival tracker s) =
          (case q of Inl _ \<Rightarrow> Returned (Inl (Other_error (''Failed to save '' @
             show_nat (length (detect_missing_blocks number blocks)) @ '' missed blocks''))) | Inr _ \<Rightarrow> Returned r3)"
        using g r w Inr q f
        by (cases q) (simp_all add: process_new_blocks_def Let_def file_block_storage_def)
      with assms finish [OF f] no(1) have False by (cases q) auto
      then show ?thesis ..
    qed
  qed
qed

theorem failed_fetch_no_effect_witness:
  "fs_files (wr_store (snd (process_new_blocks (file_block_storage sample_codec) (\<lambda>_. None) Some sample_network
      (sample_client\<lparr>rpc_latest := (\<lambda>_. Inl ''timeout'')\<rparr>) sample_handler rev (new_tracker 10) (sample_fs [])))) = []"
  using failed_fetch_no_effect [of sample_codec "\<lambda>_. None" Some sample_network
      "sample_client\<lparr>rpc_latest := (\<lambda>_. Inl ''timeout'')\<rparr>" sample_handler rev "new_tracker 10" "sample_fs []"
      "''Failed to get latest block number''"]
  by (simp add: process_new_blocks_def Let_def file_block_storage_def get_last_processed_block_def
      file_exists_def next_outcome_def sample_fs_def)

text \<open>The last processed block can move backwards: when the head that a node reports is so low
  that its confirmed block lies below the last processed block \<open>l\<close>, the run executes nothing but
  still saves the lower number, and any later window that is not cut above \<open>l\<close> starts at or
  below \<open>l\<close>, so that blocks already executed are fetched and executed again.\<close>

theorem head_regression_rewinds:
  fixes client :: "'b rpc_client" and handler :: "'b \<Rightarrow> network \<Rightarrow> 'm processed_block"
  assumes "file_ready C (slug net) s" "file_last (slug net) s = Some l" "l \<noteq> 0"
    "rpc_latest client 0 = Inr latest" "get_recommended_past_blocks interval net = Some recommended"
    "saturating_sub latest (confirmation_blocks net) < l" "arrival [] = []" "store_blocks net \<noteq> Some True"
    "saturating_sub (saturating_sub later (confirmation_blocks net))
       (case max_past_blocks net of None \<Rightarrow> recommended | Some m \<Rightarrow> m) \<le> l"
  shows "\<exists>run. process_new_blocks (file_block_storage C) interval number net client handler arrival tracker s
      = (Returned (Inr ()), run) \<and> wr_fired run = []
    \<and> file_last (slug net) (wr_store run) = Some (saturating_sub latest (confirmation_blocks net))
    \<and> fst (fetch_window net recommended (saturating_sub latest (confirmation_blocks net)) later) \<le> l"
proof -
  let ?conf = "saturating_sub latest (confirmation_blocks net)"
  obtain start where w: "fetch_window net recommended (case file_last (slug net) s of None \<Rightarrow> 0 | Some n \<Rightarrow> n) latest = (start, ?conf)"
    by (simp add: fetch_window_def Let_def)
  have f: "fetch_blocks client 1 (case file_last (slug net) s of None \<Rightarrow> 0 | Some n \<Rightarrow> n) start ?conf = Inr []"
    using assms(2,3) order_less_not_sym [OF assms(6)] by (simp add: fetch_blocks_def)
  have "?conf + 1 \<le> l" using assms(6) by (rule less_imp_plus_one_le)
  then have "fst (fetch_window net recommended ?conf later) \<le> l"
    using assms(9) by (simp add: fetch_window_def Let_def)
  moreover have "tg_fired (trigger_stage (slug net) start t []) = []" for t :: block_tracker
    by (simp add: stage_sorted)
  ultimately show ?thesis
    using file_store.run_effect [OF assms(1,4,5) w f, of number handler arrival tracker] assms(7,8)
    by (auto simp: Let_def)
qed

theorem head_regression_rewinds_witness:
  "file_last ''eth'' (wr_store (snd (process_new_blocks (file_block_storage sample_codec) (\<lambda>_. Some 60000) Some
      recovering_network (gap_client\<lparr>rpc_latest := (\<lambda>_. Inr 97)\<rparr>) sample_handler rev (new_tracker 10)
      (sample_net_fs ''eth'' 100 [])))) = Some 95"
  using head_regression_rewinds [OF sample_state_files(1,2), of "gap_client\<lparr>rpc_latest := (\<lambda>_. Inr 97)\<rparr>" 97
      "\<lambda>_. Some 60000" 8 rev 107 Some sample_handler "new_tracker 10"]
  by (auto simp: sample_recommended saturating_sub_def)

text \<open>C2. Blocks missing at the end of the window are lost: a block above every block that the client
  answered is passed over for good. It is not executed, it is not recorded as missed, and yet
  the last processed block moves to the end of the window, at or above it. (The same holds
  below the lowest answered block; an empty answer loses the whole window.)\<close>

theorem trailing_gap_lost:
  fixes client :: "'b rpc_client" and handler :: "'b \<Rightarrow> network \<Rightarrow> 'm processed_block"
  assumes "file_ready C (slug net) s" "rpc_latest client 0 = Inr latest"
    "get_recommended_past_blocks interval net = Some recommended"
    "fetch_window net recommended (last_or_zero (slug net) s) latest = (start, confirmed)"
    "fetch_blocks client 1 (last_or_zero (slug net) s) start confirmed = Inr blocks"
    "blocks_in_window number start confirmed blocks" "confirmed \<noteq> - 1"
    "handler_keeps_number number net handler" "delivers_all arrival" "store_blocks net \<noteq> Some True"
    "\<forall>m \<in> set (List.map_filter number blocks). m < n" "n \<le> confirmed"
    "n \<notin> fst ` set (file_missed C (slug net) s)"
  shows "\<exists>run. process_new_blocks (file_block_storage C) interval number net client handler arrival tracker s
      = (Returned (Inr ()), run)
    \<and> n \<notin> pb_block_number ` set (wr_fired run)
    \<and> n \<notin> fst ` set (file_missed C (slug net) (wr_store run))
    \<and> file_last (slug net) (wr_store run) = Some confirmed \<and> n \<le> confirmed"
proof -
  note nums = processed_numbers [OF assms(6,8)]
  have "n \<notin> set (detect_missing_blocks number blocks)"
    using assms(11) by (auto simp: set_detect)
  then have missed: "n \<notin> fst ` set (spec_save (detect_missing_blocks number blocks) (file_missed C (slug net) s))"
    using assms(13) by (simp add: fst_set_spec_save)
  have "pb_block_number ` set (sort_key pb_block_number (map (\<lambda>b. handler b net) blocks)) = set (List.map_filter number blocks)"
    unfolding nums(4) nums(1) [symmetric] by (simp only: set_map set_sort)
  then have "n \<notin> pb_block_number ` set (sort_key pb_block_number (map (\<lambda>b. handler b net) blocks))"
    using assms(11) by fastforce
  then show ?thesis
    using file_store.run_effect [OF assms(1-5), of number handler arrival tracker] missed assms(10,12,13)
      stage_of_window [OF assms(6,8,9,7), of "slug net" "reset_expected_next tracker (slug net) start"]
    by (auto simp: Let_def simp del: set_sort set_map)
qed

definition short_client :: "u64 rpc_client" where
  "short_client = \<lparr>rpc_latest = (\<lambda>_. Inr 107), rpc_blocks = (\<lambda>_ _ _. Inr [101, 102])\<rparr>"

theorem trailing_gap_lost_witness:
  "\<exists>run. process_new_blocks (file_block_storage sample_codec) (\<lambda>_. Some 60000) Some recovering_network short_client
      sample_handler rev (new_tracker 10) (sample_net_fs ''eth'' 100 []) = (Returned (Inr ()), run)
    \<and> 104 \<notin> fst ` set (file_missed sample_codec ''eth'' (wr_store run))
    \<and> file_last ''eth'' (wr_store run) = Some 105"
proof -
  have "rpc_latest short_client 0 = Inr 107" "fetch_blocks short_client 1 100 101 105 = Inr [101, 102]"
    "blocks_in_window Some 101 105 [101, 102]"
    by (simp_all add: short_client_def fetch_blocks_def blocks_in_window_def)
  with trailing_gap_lost [OF sample_state_files(1) this(1) sample_recommended _ _ this(3) _ sample_keeps rev_delivers,
      of 104 "new_tracker 10"]
  show ?thesis by (auto simp: sample_state_files [simplified] sample_window map_filter_def)
qed

text \<open>The watcher service, for any scheduler library: a network is watched after a start exactly
  when the start succeeded (starting a watched network succeeds and changes nothing, a failing
  start leaves no watcher behind), other networks are not affected, and after a stop the network
  is no longer watched, even when shutting its scheduler down fails.\<close>

theorem watcher_service_lifecycle:
  "(snd (start_network_watcher js net ws) (slug net) \<noteq> None \<longleftrightarrow> is_ok (fst (start_network_watcher js net ws)))
   \<and> (snd (start_network_watcher js net ws))(slug net := ws (slug net)) = ws
   \<and> (case ws (slug net) of None \<Rightarrow> True | Some w \<Rightarrow> start_network_watcher js net ws = (Inr (), ws))
   \<and> snd (stop_network_watcher js sl ws) = ws(sl := None)"
  by (auto simp: start_network_watcher_def stop_network_watcher_def fun_upd_idem_iff split: sum.splits option.splits)

end
