(* ===== verification/Expression.thy ===== *)
theory Expression imports Models begin

text \<open>
  Filter expressions (src/src/services/filter/expression): their syntax tree (ast.rs), the
  evaluator interface of the chains (evaluation.rs), and their evaluation with JSON path
  traversal (helpers.rs, error.rs). The JSON library is the parameter \<open>jl\<close>; the parser
  (parsing.rs) is the theory Expression_Parser.
\<close>

section \<open>Syntax\<close>

datatype literal_value = LBool bool | LStr string | LNumber string

datatype comparison_operator =
  OpEq | OpNe | OpGt | OpGte | OpLt | OpLte | OpStartsWith | OpEndsWith | OpContains

datatype logical_operator = LAnd | LOr

datatype accessor = AIndex nat | AKey string

record variable_path =
  vp_base :: string
  vp_accessors :: "accessor list"

datatype condition_left = Simple string | Path variable_path

fun base_name :: "condition_left \<Rightarrow> string" where
  "base_name (Simple name) = name"
| "base_name (Path p) = vp_base p"

fun accessors_of :: "condition_left \<Rightarrow> accessor list" where
  "accessors_of (Simple _) = []"
| "accessors_of (Path p) = vp_accessors p"

record condition =
  cond_left :: condition_left
  cond_operator :: comparison_operator
  cond_right :: literal_value

datatype expression =
    Condition condition
  | Logical expression logical_operator expression

section \<open>Errors and the evaluator interface\<close>

text \<open>The texts of the errors are only logged. Those that describe a value by its debug print
  carry the rest of the text.\<close>

datatype evaluation_error =
    VariableNotFound string
  | TypeMismatch string
  | UnsupportedOperator string
  | ParseError string
  | IndexOutOfBounds string
  | FieldNotFound string

record condition_evaluator =
  get_base_param :: "string \<Rightarrow> evaluation_error + string \<times> string"
  compare_final_values :: "string \<Rightarrow> string \<Rightarrow> comparison_operator \<Rightarrow> literal_value \<Rightarrow> evaluation_error + bool"
  get_kind_from_json_value :: "json \<Rightarrow> string"

record json_lib =
  json_parse :: "string \<Rightarrow> json option"
  json_print :: "json \<Rightarrow> string"
  number_print :: "json_number \<Rightarrow> string"

section \<open>Path traversal\<close>

fun build_path_segments :: "string \<Rightarrow> accessor list \<Rightarrow> string list" where
  "build_path_segments base [] = []"
| "build_path_segments base (AIndex i # as) =
     (let p = base @ ''['' @ show_nat i @ '']'' in p # build_path_segments p as)"
| "build_path_segments base (AKey k # as) =
     (let p = base @ ''.'' @ k in p # build_path_segments p as)"

definition parse_base_value :: "json_lib \<Rightarrow> string \<Rightarrow> string \<Rightarrow> string \<Rightarrow> evaluation_error + json" where
  "parse_base_value jl val kind name = (case json_parse jl val of
       Some j \<Rightarrow> Inr j
     | None \<Rightarrow> Inl (ParseError (''Failed to parse value of base variable '' @ name @ '' (kind: '' @ kind
         @ '', value: '' @ val @ '') as JSON for path traversal'')))"

definition access_json_value :: "json \<Rightarrow> accessor \<Rightarrow> string \<Rightarrow> evaluation_error + json" where
  "access_json_value j a seg = (case a of
       AIndex i \<Rightarrow> (case j of
           JArray xs \<Rightarrow> if i < length xs then Inr (xs ! i)
             else Inl (IndexOutOfBounds (''Index '' @ show_nat i @ '' out of bounds for array of length ''
               @ show_nat (length xs) @ '' at '' @ seg))
         | _ \<Rightarrow> Inl (TypeMismatch (''Array access on non-array at '' @ seg)))
     | AKey k \<Rightarrow> (case j of
           JObject m \<Rightarrow> (case map_of m k of
               Some v \<Rightarrow> Inr v
             | None \<Rightarrow> Inl (FieldNotFound (''Key '' @ k @ '' not found at '' @ seg)))
         | _ \<Rightarrow> Inl (TypeMismatch (''Key access on non-object at '' @ seg))))"

fun access_all :: "(accessor \<times> string) list \<Rightarrow> json \<Rightarrow> evaluation_error + json" where
  "access_all [] j = Inr j"
| "access_all ((a, seg) # rest) j = res_bind (access_json_value j a seg) (access_all rest)"

definition resolve_path_to_json_value ::
  "json_lib \<Rightarrow> string \<Rightarrow> string \<Rightarrow> accessor list \<Rightarrow> string \<Rightarrow> evaluation_error + json" where
  "resolve_path_to_json_value jl val kind as name =
     res_bind (parse_base_value jl val kind name)
       (access_all (zip as (build_path_segments name as)))"

section \<open>Evaluation\<close>

definition json_value_text :: "json_lib \<Rightarrow> json \<Rightarrow> string" where
  "json_value_text jl j = (case j of
       JString s \<Rightarrow> s
     | JNumber n \<Rightarrow> number_print jl n
     | JBool b \<Rightarrow> show_bool b
     | JNull \<Rightarrow> ''null''
     | JArray _ \<Rightarrow> json_print jl j
     | JObject _ \<Rightarrow> json_print jl j)"

definition evaluate_condition :: "json_lib \<Rightarrow> condition_evaluator \<Rightarrow> condition \<Rightarrow> evaluation_error + bool" where
  "evaluate_condition jl ev c =
     (let name = base_name (cond_left c); as = accessors_of (cond_left c) in
      res_bind (get_base_param ev name) (\<lambda>(val, kind).
        if as = [] then compare_final_values ev kind val (cond_operator c) (cond_right c)
        else res_bind (resolve_path_to_json_value jl val kind as name) (\<lambda>j.
          compare_final_values ev (get_kind_from_json_value ev j) (json_value_text jl j)
            (cond_operator c) (cond_right c))))"

fun evaluate :: "json_lib \<Rightarrow> condition_evaluator \<Rightarrow> expression \<Rightarrow> evaluation_error + bool" where
  "evaluate jl ev (Condition c) = evaluate_condition jl ev c"
| "evaluate jl ev (Logical l LAnd r) =
     res_bind (evaluate jl ev l) (\<lambda>b. if \<not> b then Inr False else evaluate jl ev r)"
| "evaluate jl ev (Logical l LOr r) =
     res_bind (evaluate jl ev l) (\<lambda>b. if b then Inr True else evaluate jl ev r)"

text \<open>Comparison of any totally ordered type; \<open>ty\<close> is the name of the type, for the error.\<close>

definition compare_ordered_values ::
  "string \<Rightarrow> 'a::linorder \<Rightarrow> comparison_operator \<Rightarrow> 'a \<Rightarrow> evaluation_error + bool" where
  "compare_ordered_values ty l op r = (case op of
       OpEq \<Rightarrow> Inr (l = r)
     | OpNe \<Rightarrow> Inr (l \<noteq> r)
     | OpGt \<Rightarrow> Inr (r < l)
     | OpGte \<Rightarrow> Inr (r \<le> l)
     | OpLt \<Rightarrow> Inr (l < r)
     | OpLte \<Rightarrow> Inr (l \<le> r)
     | _ \<Rightarrow> Inl (UnsupportedOperator (''Unsupported operator for types: '' @ ty @ '' and '' @ ty)))"

section \<open>Reference semantics\<close>

text \<open>The conditions of an expression, and its truth value for given truth values of them.\<close>

fun conditions :: "expression \<Rightarrow> condition set" where
  "conditions (Condition c) = {c}"
| "conditions (Logical l op r) = conditions l \<union> conditions r"

fun holds :: "(condition \<Rightarrow> bool) \<Rightarrow> expression \<Rightarrow> bool" where
  "holds v (Condition c) = v c"
| "holds v (Logical l LAnd r) = (holds v l \<and> holds v r)"
| "holds v (Logical l LOr r) = (holds v l \<or> holds v r)"

text \<open>The conditions that evaluation looks at, from left to right, up to the first error.\<close>

fun visited :: "json_lib \<Rightarrow> condition_evaluator \<Rightarrow> expression \<Rightarrow> condition list" where
  "visited jl ev (Condition c) = [c]"
| "visited jl ev (Logical l op r) = visited jl ev l @
     (case evaluate jl ev l of Inl _ \<Rightarrow> []
      | Inr b \<Rightarrow> if b = (op = LAnd) then visited jl ev r else [])"

text \<open>The element that a path leads to.\<close>

fun json_at :: "json \<Rightarrow> accessor list \<Rightarrow> json option" where
  "json_at j [] = Some j"
| "json_at (JArray xs) (AIndex i # as) = (if i < length xs then json_at (xs ! i) as else None)"
| "json_at (JObject m) (AKey k # as) = (case map_of m k of None \<Rightarrow> None | Some v \<Rightarrow> json_at v as)"
| "json_at _ (_ # _) = None"

lemma length_build_path_segments [simp]: "length (build_path_segments base as) = length as"
  by (induction base as rule: build_path_segments.induct) (auto simp: Let_def)

lemma access_all_iff:
  "length segs = length as \<Longrightarrow> access_all (zip as segs) j = Inr v \<longleftrightarrow> json_at j as = Some v"
proof (induction as arbitrary: segs j)
  case (Cons a as)
  then obtain seg segs' where segs: "segs = seg # segs'" "length segs' = length as" by (cases segs) auto
  show ?case
    using Cons.IH [OF segs(2)]
    by (cases a; cases j) (auto simp: segs(1) access_json_value_def res_bind_Inr_iff split: option.splits)
qed auto

lemma evaluate_visited:
  "evaluate jl ev e = Inl err \<Longrightarrow>
     \<exists>cs c. visited jl ev e = cs @ [c] \<and> evaluate_condition jl ev c = Inl err
       \<and> (\<forall>c' \<in> set cs. is_ok (evaluate_condition jl ev c'))"
  "evaluate jl ev e = Inr b \<Longrightarrow> \<forall>c \<in> set (visited jl ev e). is_ok (evaluate_condition jl ev c)"
proof (induction e arbitrary: err b)
  case (Condition c)
  { case 1 then show ?case by (intro exI [where x = "[]"] exI [where x = c]) simp }
  { case 2 then show ?case by simp }
next
  case (Logical l op r)
  { case 1
    show ?case
    proof (cases "evaluate jl ev l")
      case (Inl e1)
      with 1 have "e1 = err" by (cases op) auto
      with Inl Logical.IH(1) [of err] show ?thesis by auto
    next
      case (Inr b1)
      with 1 have go: "b1 = (op = LAnd)" "evaluate jl ev r = Inl err"
        by (cases op; cases b1; simp)+
      from Logical.IH(3) [OF go(2)] obtain cs c where "visited jl ev r = cs @ [c]"
        "evaluate_condition jl ev c = Inl err" "\<forall>c' \<in> set cs. is_ok (evaluate_condition jl ev c')" by blast
      with Inr go Logical.IH(2) [OF Inr] show ?thesis
        by (intro exI [where x = "visited jl ev l @ cs"] exI [where x = c]) auto
    qed }
  { case 2
    then obtain b1 where b1: "evaluate jl ev l = Inr b1" by (cases op; cases "evaluate jl ev l") auto
    show ?case
    proof (cases "b1 = (op = LAnd)")
      case True
      with 2 b1 have "evaluate jl ev r = Inr b" by (cases op) auto
      with b1 True Logical.IH(2) [OF b1] Logical.IH(4) show ?thesis by auto
    next
      case False
      with b1 Logical.IH(2) [OF b1] show ?thesis by auto
    qed }
qed

section \<open>The interface of the chains' evaluators\<close>

text \<open>What the chains' evaluators promise beyond their types: inequality is the negation of
  equality on every kind of value, errors included, so that an expression may be negated at its
  conditions.\<close>

definition negate_result :: "evaluation_error + bool \<Rightarrow> evaluation_error + bool" where
  "negate_result r = res_bind r (\<lambda>b. Inr (\<not> b))"

lemma negate_result_simps [simp]:
  "negate_result (Inl e) = Inl e" "negate_result (Inr b) = Inr (\<not> b)"
  by (simp_all add: negate_result_def)

lemma negate_result_bind: "negate_result (res_bind r f) = res_bind r (\<lambda>x. negate_result (f x))"
  by (cases r) auto

locale chain_evaluator =
  fixes ev :: condition_evaluator
  assumes ne_negates_eq: "compare_final_values ev kind val OpNe lit =
    negate_result (compare_final_values ev kind val OpEq lit)"
begin

lemma condition_ne:
  "evaluate_condition jl ev (c\<lparr>cond_operator := OpNe\<rparr>) =
     negate_result (evaluate_condition jl ev (c\<lparr>cond_operator := OpEq\<rparr>))"
  by (auto simp: evaluate_condition_def Let_def negate_result_bind ne_negates_eq intro!: arg_cong2 [where f = res_bind])

lemma expression_ne:
  "evaluate jl ev (Condition (c\<lparr>cond_operator := OpNe\<rparr>)) =
     negate_result (evaluate jl ev (Condition (c\<lparr>cond_operator := OpEq\<rparr>)))"
  by (simp add: condition_ne)

text \<open>A conjunction of equalities against a disjunction of the inequalities.\<close>

lemma de_morgan_ne:
  "evaluate jl ev (Logical (Condition (c\<lparr>cond_operator := OpNe\<rparr>)) LOr (Condition (d\<lparr>cond_operator := OpNe\<rparr>))) =
     negate_result (evaluate jl ev (Logical (Condition (c\<lparr>cond_operator := OpEq\<rparr>)) LAnd (Condition (d\<lparr>cond_operator := OpEq\<rparr>))))"
  by (cases "evaluate_condition jl ev (c\<lparr>cond_operator := OpEq\<rparr>)") (auto simp: condition_ne)

end

section \<open>Properties\<close>

text \<open>Evaluation is Boolean logic: whenever every condition of an expression evaluates, the
  expression evaluates to the truth value that its connectives give.\<close>

theorem evaluate_boolean:
  assumes "\<forall>c \<in> conditions e. evaluate_condition jl ev c = Inr (v c)"
  shows "evaluate jl ev e = Inr (holds v e)"
  using assms
proof (induction e)
  case (Logical l op r)
  then show ?case by (cases op) auto
qed simp

text \<open>A JSON library that knows the constants only.\<close>

definition sample_json_lib :: json_lib where
  "sample_json_lib = \<lparr>json_parse = (\<lambda>s. if s = ''null'' then Some JNull else if s = ''true'' then Some (JBool True)
     else if s = ''[]'' then Some (JArray []) else None),
     json_print = (\<lambda>_. ''null''), number_print = (\<lambda>_. ''0'')\<rparr>"

text \<open>An evaluator with one variable, the string \<open>x\<close>, that compares texts.\<close>

definition sample_evaluator :: condition_evaluator where
  "sample_evaluator = \<lparr>
     get_base_param = (\<lambda>n. if n = ''x'' then Inr (''ab'', ''string'') else Inl (VariableNotFound n)),
     compare_final_values = (\<lambda>k v op lit. case lit of LStr s \<Rightarrow> compare_ordered_values ''str'' v op s
       | _ \<Rightarrow> Inl (TypeMismatch ''literal'')),
     get_kind_from_json_value = (\<lambda>_. ''string'')\<rparr>"

definition sample_condition :: "string \<Rightarrow> string \<Rightarrow> condition" where
  "sample_condition n s = \<lparr>cond_left = Simple n, cond_operator = OpEq, cond_right = LStr s\<rparr>"

lemma sample_condition_value:
  "evaluate_condition jl sample_evaluator (sample_condition ''x'' s) = Inr (s = ''ab'')"
  by (auto simp: evaluate_condition_def Let_def sample_condition_def sample_evaluator_def compare_ordered_values_def)

theorem evaluate_boolean_witness:
  "evaluate sample_json_lib sample_evaluator (Logical (Condition (sample_condition ''x'' ''ab'')) LAnd
     (Logical (Condition (sample_condition ''x'' ''c'')) LOr (Condition (sample_condition ''x'' ''ab'')))) = Inr True"
  using evaluate_boolean [of "Logical (Condition (sample_condition ''x'' ''ab'')) LAnd
     (Logical (Condition (sample_condition ''x'' ''c'')) LOr (Condition (sample_condition ''x'' ''ab'')))"
     sample_json_lib sample_evaluator "\<lambda>c. cond_right c = LStr ''ab''"]
  by (simp add: sample_condition_value)

text \<open>Evaluation is lazy from left to right: an expression fails exactly with the error of the
  last condition it visits, all conditions before it having evaluated, and conditions that are
  not visited do not matter, so an evaluator that differs only on them gives the same result.\<close>

theorem evaluate_short_circuit:
  assumes "\<forall>c \<in> set (visited jl ev e). evaluate_condition jl ev' c = evaluate_condition jl ev c"
  shows "evaluate jl ev' e = evaluate jl ev e
    \<and> (\<forall>err. evaluate jl ev e = Inl err \<longrightarrow> evaluate_condition jl ev (last (visited jl ev e)) = Inl err
        \<and> (\<forall>c \<in> set (butlast (visited jl ev e)). is_ok (evaluate_condition jl ev c)))"
proof
  show "evaluate jl ev' e = evaluate jl ev e"
    using assms
  proof (induction e)
    case (Logical l op r)
    then have l: "evaluate jl ev' l = evaluate jl ev l" by simp
    show ?case
    proof (cases "evaluate jl ev l")
      case (Inl err)
      with l show ?thesis by (cases op) auto
    next
      case (Inr b)
      with Logical l show ?thesis by (cases op; cases b) auto
    qed
  qed simp
  show "\<forall>err. evaluate jl ev e = Inl err \<longrightarrow> evaluate_condition jl ev (last (visited jl ev e)) = Inl err
        \<and> (\<forall>c \<in> set (butlast (visited jl ev e)). is_ok (evaluate_condition jl ev c))"
  proof (intro allI impI)
    fix err assume "evaluate jl ev e = Inl err"
    from evaluate_visited(1) [OF this] show "evaluate_condition jl ev (last (visited jl ev e)) = Inl err
        \<and> (\<forall>c \<in> set (butlast (visited jl ev e)). is_ok (evaluate_condition jl ev c))" by auto
  qed
qed

definition blind_evaluator :: condition_evaluator where
  "blind_evaluator = sample_evaluator\<lparr>get_base_param :=
     (\<lambda>n. if n = ''x'' then Inr (''ab'', ''string'') else Inr (''z'', ''string''))\<rparr>"

theorem evaluate_short_circuit_witness:
  "evaluate sample_json_lib blind_evaluator (Logical (Condition (sample_condition ''x'' ''ab'')) LOr (Condition (sample_condition ''y'' ''z'')))
   = Inr True"
proof -
  let ?e = "Logical (Condition (sample_condition ''x'' ''ab'')) LOr (Condition (sample_condition ''y'' ''z''))"
  have v: "visited sample_json_lib sample_evaluator ?e = [sample_condition ''x'' ''ab'']"
    by (simp add: sample_condition_value)
  have "evaluate_condition sample_json_lib blind_evaluator (sample_condition ''x'' ''ab'') = Inr True"
    by (simp add: evaluate_condition_def Let_def sample_condition_def blind_evaluator_def sample_evaluator_def
        compare_ordered_values_def)
  then show ?thesis
    using evaluate_short_circuit [of sample_json_lib sample_evaluator ?e blind_evaluator]
    by (simp add: sample_condition_value)
qed

text \<open>C38. A variable path resolves to a value exactly when the variable's text parses as JSON and the
  path leads to that value in it; otherwise the result is an error.\<close>

theorem resolve_path_correct:
  "resolve_path_to_json_value jl val kind as name = Inr v \<longleftrightarrow>
     (\<exists>j. json_parse jl val = Some j \<and> json_at j as = Some v)"
  by (auto simp: resolve_path_to_json_value_def res_bind_Inr_iff parse_base_value_def access_all_iff
      split: option.splits)

text \<open>Comparison of ordered values decides the order: exactly one of less, equal and greater
  holds, the other three operators are their negations, and the text operators are refused.\<close>

theorem compare_ordered_values_total:
  "(compare_ordered_values ty l OpLt r = Inr True \<or> compare_ordered_values ty l OpEq r = Inr True
      \<or> compare_ordered_values ty l OpGt r = Inr True)
   \<and> compare_ordered_values ty l OpNe r = negate_result (compare_ordered_values ty l OpEq r)
   \<and> compare_ordered_values ty l OpGte r = negate_result (compare_ordered_values ty l OpLt r)
   \<and> compare_ordered_values ty l OpLte r = negate_result (compare_ordered_values ty l OpGt r)
   \<and> compare_ordered_values ty l OpLt r = compare_ordered_values ty r OpGt l
   \<and> list_all (\<lambda>op. \<not> is_ok (compare_ordered_values ty l op r)) [OpStartsWith, OpEndsWith, OpContains]"
  by (auto simp: compare_ordered_values_def)

end
