(* ===== verification/Evm_Values.thy ===== *)
theory Evm_Values imports Models begin

text \<open>
  EVM values as text (src/src/services/filter/filters/evm/helpers.rs): printing decoded ABI
  values, and comparing addresses and signatures. Decoded values are the ABI library's
  \<open>DynSolValue\<close>; the number and hex printing and parsing of the libraries are the fields of
  the parameter \<open>el\<close>.
\<close>

datatype sol_value =
    SolBool bool
  | SolInt u256 nat
  | SolUint u256 nat
  | SolFixedBytes "byte list" nat
  | SolAddress "byte list"
  | SolFunction "byte list"
  | SolBytes "byte list"
  | SolString string
  | SolArray "sol_value list"
  | SolFixedArray "sol_value list"
  | SolTuple "sol_value list"

text \<open>\<open>decimal_eq a b\<close> is \<open>None\<close> unless both texts parse as decimals, and then says whether the
  decimals are equal. A 256-bit signed integer is its bit pattern.\<close>

record evm_lib =
  hex_encode :: "byte list \<Rightarrow> string"
  address_hex :: "byte list \<Rightarrow> string"
  u256_print :: "u256 \<Rightarrow> string"
  i256_print :: "u256 \<Rightarrow> string"
  u256_from_hex :: "string \<Rightarrow> u256 option"
  u256_from_str :: "string \<Rightarrow> u256 option"
  i256_from_str :: "string \<Rightarrow> u256 option"
  decimal_eq :: "string \<Rightarrow> string \<Rightarrow> bool option"

section \<open>Printing\<close>

definition b256_to_string :: "evm_lib \<Rightarrow> byte list \<Rightarrow> string" where
  "b256_to_string el h = ''0x'' @ hex_encode el h"

definition h160_to_string :: "evm_lib \<Rightarrow> byte list \<Rightarrow> string" where
  "h160_to_string el a = ''0x'' @ hex_encode el a"

definition quoted :: "string \<Rightarrow> string" where
  "quoted s = CHR 0x22 # s @ [CHR 0x22]"

fun dyn_value_to_string :: "evm_lib \<Rightarrow> sol_value \<Rightarrow> string" where
  "dyn_value_to_string el (SolBool b) = show_bool b"
| "dyn_value_to_string el (SolString s) = quoted s"
| "dyn_value_to_string el (SolAddress a) = quoted (''0x'' @ address_hex el a)"
| "dyn_value_to_string el (SolUint u _) = u256_print el u"
| "dyn_value_to_string el (SolInt i _) = i256_print el i"
| "dyn_value_to_string el (SolFixedBytes bs _) = quoted (''0x'' @ hex_encode el bs)"
| "dyn_value_to_string el (SolBytes bs) = quoted (''0x'' @ hex_encode el bs)"
| "dyn_value_to_string el (SolArray vs) = ''['' @ join_with '','' (map (dyn_value_to_string el) vs) @ '']''"
| "dyn_value_to_string el (SolFixedArray vs) = ''['' @ join_with '','' (map (dyn_value_to_string el) vs) @ '']''"
| "dyn_value_to_string el (SolTuple vs) = ''('' @ join_with '','' (map (dyn_value_to_string el) vs) @ '')''"
| "dyn_value_to_string el (SolFunction s) = quoted (''0x'' @ hex_encode el s)"

fun format_token_value :: "evm_lib \<Rightarrow> sol_value \<Rightarrow> string" where
  "format_token_value el (SolAddress a) = ''0x'' @ address_hex el a"
| "format_token_value el (SolFixedBytes bs _) = ''0x'' @ hex_encode el bs"
| "format_token_value el (SolBytes bs) = ''0x'' @ hex_encode el bs"
| "format_token_value el (SolInt i _) = i256_print el i"
| "format_token_value el (SolUint u _) = u256_print el u"
| "format_token_value el (SolBool b) = show_bool b"
| "format_token_value el (SolString s) = s"
| "format_token_value el (SolArray vs) = ''['' @ join_with '','' (map (dyn_value_to_string el) vs) @ '']''"
| "format_token_value el (SolFixedArray vs) = ''['' @ join_with '','' (map (dyn_value_to_string el) vs) @ '']''"
| "format_token_value el (SolTuple vs) = ''('' @ join_with '','' (map (dyn_value_to_string el) vs) @ '')''"
| "format_token_value el (SolFunction s) = ''0x'' @ hex_encode el s"

section \<open>Numbers\<close>

definition strip_0x :: "string \<Rightarrow> string option" where
  "strip_0x s = (case strip_prefix ''0x'' s of Some t \<Rightarrow> Some t | None \<Rightarrow> strip_prefix ''0X'' s)"

definition string_to_u256 :: "evm_lib \<Rightarrow> string \<Rightarrow> string + u256" where
  "string_to_u256 el v = (let t = trim v in
     if t = [] then Inl ''Input string is empty''
     else case strip_0x t of
         Some h \<Rightarrow> if h = [] then Inl ''Hex string '0x' is missing value digits''
           else (case u256_from_hex el h of Some u \<Rightarrow> Inr u | None \<Rightarrow> Inl (''Failed to parse hex '' @ h))
       | None \<Rightarrow> (case u256_from_str el t of Some u \<Rightarrow> Inr u | None \<Rightarrow> Inl (''Failed to parse decimal '' @ t)))"

definition string_to_i256 :: "evm_lib \<Rightarrow> string \<Rightarrow> string + u256" where
  "string_to_i256 el v = (let t = trim v in
     if t = [] then Inl ''Input string is empty''
     else case strip_0x t of
         Some h \<Rightarrow> if h = [] then Inl ''Hex string '0x' is missing value digits''
           else (case u256_from_hex el h of Some u \<Rightarrow> Inr u | None \<Rightarrow> Inl (''Failed to parse hex magnitude '' @ h))
       | None \<Rightarrow> (case i256_from_str el t of Some i \<Rightarrow> Inr i | None \<Rightarrow> Inl (''Failed to parse decimal '' @ t)))"

section \<open>Addresses and signatures\<close>

definition normalize_address :: "string \<Rightarrow> string" where
  "normalize_address a = to_lowercase (remove_ws (case strip_prefix ''0x'' a of Some t \<Rightarrow> t | None \<Rightarrow> a))"

definition are_same_address :: "string \<Rightarrow> string \<Rightarrow> bool" where
  "are_same_address a b \<longleftrightarrow> normalize_address a = normalize_address b"

definition normalize_signature :: "string \<Rightarrow> string" where
  "normalize_signature s = to_lowercase (remove_ws s)"

definition are_same_signature :: "string \<Rightarrow> string \<Rightarrow> bool" where
  "are_same_signature a b \<longleftrightarrow> normalize_signature a = normalize_signature b"

lemma are_same_address_refl [simp]: "are_same_address a a"
  by (simp add: are_same_address_def)

lemma are_same_address_sym: "are_same_address a b \<Longrightarrow> are_same_address b a"
  by (simp add: are_same_address_def)

lemma are_same_address_trans [trans]: "are_same_address a b \<Longrightarrow> are_same_address b c \<Longrightarrow> are_same_address a c"
  by (simp add: are_same_address_def)

lemma strip_prefix_append [simp]: "strip_prefix p (p @ s) = Some s"
  by (simp add: strip_prefix_def)

lemma normalize_address_0x: "normalize_address (''0x'' @ a) = to_lowercase (remove_ws a)"
  unfolding normalize_address_def strip_prefix_append by simp

lemma normalize_signature_idem [simp]: "normalize_signature (normalize_signature s) = normalize_signature s"
  by (simp add: normalize_signature_def remove_ws_to_lowercase)

section \<open>Properties\<close>

text \<open>Address comparison ignores the case of the digits, white space in them, and a leading
  \<open>0x\<close>: an address is the same as its upper-case, spaced-out and unprefixed forms.\<close>

theorem same_address_ignores_form:
  assumes "to_lowercase (remove_ws a) = to_lowercase (remove_ws b)" "\<not> prefix ''0x'' b"
  shows "are_same_address (''0x'' @ a) (''0x'' @ b) \<and> are_same_address (''0x'' @ a) b \<and> are_same_address b (''0x'' @ a)"
proof -
  have "normalize_address b = to_lowercase (remove_ws b)"
    using assms(2) by (simp add: normalize_address_def strip_prefix_def)
  then show ?thesis using assms(1) unfolding are_same_address_def normalize_address_0x by simp
qed

theorem same_address_ignores_form_witness:
  "are_same_address ''0xaB 1'' ''Ab1''"
proof -
  have "to_lowercase (remove_ws ''aB 1'') = to_lowercase (remove_ws ''Ab1'')" by code_simp
  from same_address_ignores_form [OF this] show ?thesis by simp
qed

text \<open>The prefix is only recognised in lower case and at the very start: \<open>0XAB\<close> is not the
  address \<open>ab\<close>, and neither is \<open>0xab\<close> after a blank.\<close>

theorem upper_case_prefix_kept:
  "\<not> are_same_address ''0XAB'' ''ab'' \<and> \<not> are_same_address '' 0xab'' ''ab'' \<and> are_same_address ''0xAB'' ''ab''"
  by code_simp

text \<open>Signature comparison ignores exactly case and white space.\<close>

theorem same_signature_iff:
  "are_same_signature a b \<longleftrightarrow>
     map lower_char (filter (\<lambda>c. \<not> is_ws c) a) = map lower_char (filter (\<lambda>c. \<not> is_ws c) b)"
  by (simp add: are_same_signature_def normalize_signature_def to_lowercase_def remove_ws_def)

end
