(* ===== verification/Evm_Evaluator.thy ===== *)
theory Evm_Evaluator imports Expression Evm_Values begin

text \<open>
  The condition evaluator of the EVM chains
  (src/src/services/filter/filters/evm/evaluator.rs): comparison of decoded parameter values,
  by kind, with the literals of filter expressions. Error texts keep their fixed part.
\<close>

section \<open>Kinds\<close>

definition unsigned_integer_kinds :: "string list" where
  "unsigned_integer_kinds = [''uint8'', ''uint16'', ''uint32'', ''uint64'', ''uint128'', ''uint256'', ''number'']"

definition signed_integer_kinds :: "string list" where
  "signed_integer_kinds = [''int8'', ''int16'', ''int32'', ''int64'', ''int128'', ''int256'']"

definition array_kinds :: "string list" where
  "array_kinds = [''array'', ''uint8[]'', ''uint16[]'', ''uint32[]'', ''uint64[]'', ''uint128[]'', ''uint256[]'',
     ''int8[]'', ''int16[]'', ''int32[]'', ''int64[]'', ''int128[]'', ''int256[]'', ''string[]'', ''address[]'',
     ''bool[]'', ''bytes[]'', ''bytes32[]'', ''tuple[]'']"

definition evm_kind_from_json_value :: "json \<Rightarrow> string" where
  "evm_kind_from_json_value j = (case j of
       JString s \<Rightarrow>
         if prefix ''0x'' (to_lowercase s) \<and> length s = 42 \<and> list_all is_hexdigit (drop 2 s) then ''address''
         else if prefix ''0x'' (to_lowercase s) \<and> list_all is_hexdigit (drop 2 s)
           then (if length s = 66 then ''bytes32'' else ''bytes'')
         else ''string''
     | JNumber n \<Rightarrow> (case n of NegInt _ \<Rightarrow> ''int64'' | _ \<Rightarrow> ''number'')
     | JBool _ \<Rightarrow> ''bool''
     | JArray _ \<Rightarrow> ''array''
     | JObject _ \<Rightarrow> ''map''
     | JNull \<Rightarrow> ''null'')"

section \<open>Searching JSON values\<close>

function check_json_value_matches_str :: "json_lib \<Rightarrow> evm_lib \<Rightarrow> json \<Rightarrow> string \<Rightarrow> bool" where
  "check_json_value_matches_str jl el (JString s) rhs =
     (if evm_kind_from_json_value (JString s) = ''address'' then are_same_address s rhs
      else to_lowercase s = to_lowercase rhs)"
| "check_json_value_matches_str jl el (JNumber n) rhs =
     (case decimal_eq el (number_print jl n) rhs of Some b \<Rightarrow> b | None \<Rightarrow> number_print jl n = rhs)"
| "check_json_value_matches_str jl el (JBool b) rhs = (to_lowercase (show_bool b) = to_lowercase rhs)"
| "check_json_value_matches_str jl el (JObject m) rhs =
     list_ex (\<lambda>p. check_json_value_matches_str jl el (snd p) rhs) m"
| "check_json_value_matches_str jl el (JArray xs) rhs =
     list_ex (\<lambda>x. check_json_value_matches_str jl el x rhs) xs"
| "check_json_value_matches_str jl el JNull rhs = (rhs = ''null'')"
  by pat_completeness auto

lemma size_json_object_value: "p \<in> set m \<Longrightarrow> size (snd p) < size (JObject m)"
proof (induction m)
  case (Cons q m)
  then show ?case by (cases q) fastforce
qed simp

lemma size_json_array_element: "x \<in> set xs \<Longrightarrow> size x < size (JArray xs)"
  by (induction xs) auto

termination check_json_value_matches_str
  by (relation "measure (\<lambda>(jl, el, j, rhs). size j)") (auto simp del: json.size simp: size_json_object_value size_json_array_element)

section \<open>Tuples\<close>

definition is_quote :: "char \<Rightarrow> bool" where
  "is_quote c \<longleftrightarrow> char_code c = 34 \<or> char_code c = 39"

definition is_backslash :: "char \<Rightarrow> bool" where
  "is_backslash c \<longleftrightarrow> char_code c = 92"

definition is_opening :: "char \<Rightarrow> bool" where
  "is_opening c \<longleftrightarrow> c = CHR ''['' \<or> c = CHR ''{'' \<or> c = CHR ''(''"

definition is_closing :: "char \<Rightarrow> bool" where
  "is_closing c \<longleftrightarrow> c = CHR '']'' \<or> c = CHR ''}'' \<or> c = CHR '')''"

text \<open>\<open>parse_single_element\<close>: the loop with its depth, the open quote (\<open>in_quotes\<close> holds exactly
  when there is one) and what was read so far; the result is the element and the rest.\<close>

definition next_quote :: "char option \<Rightarrow> string \<Rightarrow> char \<Rightarrow> char option" where
  "next_quote q cur ch = (if \<not> is_quote ch then q
     else case q of None \<Rightarrow> Some ch
       | Some c \<Rightarrow> if c = ch \<and> \<not> (cur \<noteq> [] \<and> is_backslash (last cur)) then None else q)"

definition next_depth :: "char option \<Rightarrow> int \<Rightarrow> char \<Rightarrow> int" where
  "next_depth q d ch = (if q \<noteq> None then d else if is_opening ch then d + 1
     else if is_closing ch then d - 1 else d)"

fun parse_single_element :: "int \<Rightarrow> char option \<Rightarrow> string \<Rightarrow> string \<Rightarrow> string \<times> string" where
  "parse_single_element d q cur [] = (cur, [])"
| "parse_single_element d q cur (ch # cs) =
     (if d = 0 \<and> q = None \<and> ch = CHR '','' then (cur, ch # cs)
      else parse_single_element (next_depth q d ch) (next_quote q cur ch) (cur @ [ch]) cs)"

lemma parse_single_element_append:
  "parse_single_element d q cur cs = (cur', rest) \<Longrightarrow> cur' @ rest = cur @ cs"
  by (induction d q cur cs rule: parse_single_element.induct) (auto split: if_splits)

lemma parse_single_element_rest:
  "parse_single_element d q cur cs = (cur', rest) \<Longrightarrow> rest \<noteq> [] \<Longrightarrow> hd rest = CHR '',''"
  by (induction d q cur cs rule: parse_single_element.induct) (auto split: if_splits)

definition skip_comma :: "string \<Rightarrow> string" where
  "skip_comma cs = (if cs \<noteq> [] \<and> hd cs = CHR '','' then tl cs else cs)"

lemma res_bind_cong [fundef_cong]:
  "r = r' \<Longrightarrow> (\<And>x. r' = Inr x \<Longrightarrow> f x = g x) \<Longrightarrow> res_bind r f = res_bind r' g"
  by (cases r') auto

lemma tuple_loop_termination:
  assumes "parse_single_element 0 None [] (c # cs) = (cur, rest)"
  shows "length (skip_comma rest) < Suc (length cs)"
    and "cur \<noteq> [] \<Longrightarrow> length (butlast (tl cur)) < Suc (length cs)"
proof -
  have app: "cur @ rest = c # cs" using parse_single_element_append [OF assms] by simp
  then have len: "length cur + length rest = Suc (length cs)" by (metis length_Cons length_append)
  show "length (skip_comma rest) < Suc (length cs)"
  proof (cases "cur = []")
    case True
    with app parse_single_element_rest [OF assms] show ?thesis by (auto simp: skip_comma_def)
  next
    case False
    with len have "length rest \<le> length cs" by (cases cur) auto
    then show ?thesis by (auto simp: skip_comma_def)
  qed
  assume "cur \<noteq> []"
  with len show "length (butlast (tl cur)) < Suc (length cs)" by (cases cur) auto
qed

text \<open>The loop of \<open>parse_tuple_elements\<close>; nested tuples are parsed by the same function.\<close>

function tuple_loop :: "json_lib \<Rightarrow> string \<Rightarrow> evaluation_error + json list" where
  "tuple_loop jl [] = Inr []"
| "tuple_loop jl (c # cs) = (case parse_single_element 0 None [] (c # cs) of (cur, rest) \<Rightarrow>
     if cur = [] then tuple_loop jl (skip_comma rest)
     else res_bind
       (if hd cur = CHR ''('' \<and> last cur = CHR '')'' then
          res_bind (if trim (butlast (tl cur)) = [] then Inr [] else tuple_loop jl (butlast (tl cur)))
            (\<lambda>es. Inr (JArray es))
        else if hd cur = CHR ''['' \<or> hd cur = CHR ''{'' then
          (case json_parse jl cur of Some j \<Rightarrow> Inr j
           | None \<Rightarrow> Inl (ParseError (''Failed to parse tuple element '' @ cur @ '' as JSON'')))
        else Inr (case json_parse jl cur of Some j \<Rightarrow> j | None \<Rightarrow> JString cur))
       (\<lambda>e. res_bind (tuple_loop jl (skip_comma rest)) (\<lambda>es. Inr (e # es))))"
  by pat_completeness auto
termination
  by (relation "measure (\<lambda>(jl, cs). length cs)")
    (auto simp del: parse_single_element.simps length_butlast dest: tuple_loop_termination [OF sym])

declare tuple_loop.simps(2) [simp del]

definition parse_tuple_elements :: "json_lib \<Rightarrow> string \<Rightarrow> evaluation_error + json list" where
  "parse_tuple_elements jl content = (if trim content = [] then Inr [] else tuple_loop jl content)"

fun normalize_tuple_ws :: "char option \<Rightarrow> string \<Rightarrow> string" where
  "normalize_tuple_ws q [] = []"
| "normalize_tuple_ws None (ch # cs) =
     (if is_quote ch then ch # normalize_tuple_ws (Some ch) cs
      else if is_ws ch then normalize_tuple_ws None cs
      else ch # normalize_tuple_ws None cs)"
| "normalize_tuple_ws (Some c) (ch # cs) =
     (if ch = c then ch # normalize_tuple_ws None cs else ch # normalize_tuple_ws (Some c) cs)"

definition normalize_tuple_whitespace :: "string \<Rightarrow> string" where
  "normalize_tuple_whitespace s = normalize_tuple_ws None s"

section \<open>Comparison by kind\<close>

text \<open>The right-hand side of the comparisons of arrays and tuples: a number only to search for.\<close>

definition collection_target :: "string \<Rightarrow> comparison_operator \<Rightarrow> literal_value \<Rightarrow> evaluation_error + string" where
  "collection_target what op lit = (case lit of
       LStr s \<Rightarrow> Inr s
     | LNumber s \<Rightarrow> if op = OpContains then Inr s
         else Inl (TypeMismatch (''Expected string literal for EVM '' @ what @ '' Eq/Ne comparison, found number''))
     | LBool _ \<Rightarrow> Inl (TypeMismatch (''Expected string literal for EVM '' @ what @ '' comparison'')))"

definition compare_array :: "json_lib \<Rightarrow> evm_lib \<Rightarrow> string \<Rightarrow> comparison_operator \<Rightarrow> literal_value \<Rightarrow> evaluation_error + bool" where
  "compare_array jl el lhs op lit = res_bind (collection_target ''array'' op lit) (\<lambda>rhs.
     if op = OpEq \<or> op = OpNe then
       (case json_parse jl (to_lowercase lhs) of
          None \<Rightarrow> Inl (ParseError (''Failed to parse LHS value '' @ lhs @ '' as JSON array for 'Eq/Ne' operator''))
        | Some l \<Rightarrow> (case json_parse jl (to_lowercase rhs) of
            None \<Rightarrow> Inl (ParseError (''Failed to parse RHS value '' @ rhs @ '' as JSON array for 'Eq/Ne' operator''))
          | Some r \<Rightarrow>
            if \<not> json_is_array l \<or> \<not> json_is_array r
            then Inl (TypeMismatch ''For 'array' Eq/Ne comparison, both sides must resolve to JSON arrays'')
            else Inr (if op = OpEq then l = r else l \<noteq> r)))
     else if op = OpContains then
       (case json_parse jl lhs of
          Some (JArray xs) \<Rightarrow> Inr (list_ex (\<lambda>x. check_json_value_matches_str jl el x rhs) xs)
        | _ \<Rightarrow> Inl (ParseError (''Failed to parse LHS value '' @ lhs @ '' as JSON array for 'contains' operator'')))
     else Inl (UnsupportedOperator ''Operator not supported for EVM 'array' type. Supported: Eq, Ne, Contains.''))"

definition compare_tuple :: "json_lib \<Rightarrow> evm_lib \<Rightarrow> string \<Rightarrow> comparison_operator \<Rightarrow> literal_value \<Rightarrow> evaluation_error + bool" where
  "compare_tuple jl el lhs op lit = res_bind (collection_target ''tuple'' op lit) (\<lambda>rhs.
     if op = OpEq \<or> op = OpNe then
       (let eq = (normalize_tuple_whitespace lhs = normalize_tuple_whitespace rhs)
        in Inr (if op = OpEq then eq else \<not> eq))
     else if op = OpContains then
       (if lhs = [] \<or> hd lhs \<noteq> CHR ''('' \<or> last lhs \<noteq> CHR '')''
        then Inl (ParseError (''Invalid tuple format: '' @ lhs))
        else res_bind (parse_tuple_elements jl (butlast (tl lhs))) (\<lambda>es.
          Inr (list_ex (\<lambda>e. check_json_value_matches_str jl el e rhs) es)))
     else Inl (UnsupportedOperator ''Operator not supported for EVM 'tuple' type.''))"

definition number_literal :: "literal_value \<Rightarrow> evaluation_error + string" where
  "number_literal lit = (case lit of
       LNumber s \<Rightarrow> Inr s
     | LStr s \<Rightarrow> Inr s
     | LBool _ \<Rightarrow> Inl (TypeMismatch ''Expected number or string literal for comparison''))"

definition compare_u256 :: "evm_lib \<Rightarrow> string \<Rightarrow> comparison_operator \<Rightarrow> literal_value \<Rightarrow> evaluation_error + bool" where
  "compare_u256 el lhs op lit = (case string_to_u256 el lhs of
       Inl _ \<Rightarrow> Inl (ParseError (''Failed to parse LHS value '' @ lhs @ '' as U256''))
     | Inr l \<Rightarrow> res_bind (number_literal lit) (\<lambda>rs. case string_to_u256 el rs of
         Inl _ \<Rightarrow> Inl (ParseError (''Failed to parse RHS value '' @ rs @ '' as U256''))
       | Inr r \<Rightarrow> compare_ordered_values ''U256'' l op r))"

definition compare_i256 :: "evm_lib \<Rightarrow> string \<Rightarrow> comparison_operator \<Rightarrow> literal_value \<Rightarrow> evaluation_error + bool" where
  "compare_i256 el lhs op lit = (case string_to_i256 el lhs of
       Inl _ \<Rightarrow> Inl (ParseError (''Failed to parse LHS value '' @ lhs @ '' as I256''))
     | Inr l \<Rightarrow> res_bind (number_literal lit) (\<lambda>rs. case string_to_i256 el rs of
         Inl _ \<Rightarrow> Inl (ParseError (''Failed to parse RHS value '' @ rs @ '' as I256''))
       | Inr r \<Rightarrow> compare_ordered_values ''I256'' (sint l) op (sint r)))"

definition compare_address :: "string \<Rightarrow> comparison_operator \<Rightarrow> literal_value \<Rightarrow> evaluation_error + bool" where
  "compare_address l op lit = (case lit of
       LStr r \<Rightarrow> (case op of
           OpEq \<Rightarrow> Inr (are_same_address l r)
         | OpNe \<Rightarrow> Inr (\<not> are_same_address l r)
         | _ \<Rightarrow> Inl (UnsupportedOperator ''Unsupported operator for address type''))
     | _ \<Rightarrow> Inl (TypeMismatch ''Expected string literal for address comparison''))"

definition compare_string :: "string \<Rightarrow> comparison_operator \<Rightarrow> literal_value \<Rightarrow> evaluation_error + bool" where
  "compare_string lhs op lit = (case lit of
       LStr s \<Rightarrow> (let l = to_lowercase lhs; r = to_lowercase s in case op of
           OpEq \<Rightarrow> Inr (l = r)
         | OpNe \<Rightarrow> Inr (l \<noteq> r)
         | OpStartsWith \<Rightarrow> Inr (prefix r l)
         | OpEndsWith \<Rightarrow> Inr (suffix r l)
         | OpContains \<Rightarrow> Inr (sublist r l)
         | _ \<Rightarrow> Inl (UnsupportedOperator ''Operator not supported for type String''))
     | _ \<Rightarrow> Inl (TypeMismatch ''Expected string literal for string comparison''))"

definition parse_bool :: "string \<Rightarrow> bool option" where
  "parse_bool s = (if s = ''true'' then Some True else if s = ''false'' then Some False else None)"

definition compare_boolean :: "string \<Rightarrow> comparison_operator \<Rightarrow> literal_value \<Rightarrow> evaluation_error + bool" where
  "compare_boolean lhs op lit = (case parse_bool lhs of
       None \<Rightarrow> Inl (ParseError (''Failed to parse LHS value '' @ lhs @ '' as bool''))
     | Some l \<Rightarrow> (case lit of
         LBool r \<Rightarrow> (case op of
             OpEq \<Rightarrow> Inr (l = r)
           | OpNe \<Rightarrow> Inr (l \<noteq> r)
           | _ \<Rightarrow> Inl (UnsupportedOperator ''Unsupported operator for EVM Bool comparison''))
       | _ \<Rightarrow> Inl (TypeMismatch ''Expected bool literal for EVM Bool comparison'')))"

section \<open>The evaluator\<close>

definition evm_get_base_param :: "match_param_entry list \<Rightarrow> string \<Rightarrow> evaluation_error + string \<times> string" where
  "evm_get_base_param args name = (case find (\<lambda>p. pe_name p = name) args of
       Some p \<Rightarrow> Inr (pe_value p, pe_kind p)
     | None \<Rightarrow> Inl (VariableNotFound (''Base parameter not found: '' @ name)))"

definition evm_compare_final_values :: "json_lib \<Rightarrow> evm_lib \<Rightarrow> string \<Rightarrow> string \<Rightarrow> comparison_operator \<Rightarrow>
  literal_value \<Rightarrow> evaluation_error + bool" where
  "evm_compare_final_values jl el kind_str val op lit =
     (let kind = to_lowercase kind_str in
      if kind \<in> set signed_integer_kinds then compare_i256 el val op lit
      else if kind \<in> set unsigned_integer_kinds then compare_u256 el val op lit
      else if kind \<in> set array_kinds then compare_array jl el val op lit
      else if kind = ''address'' then compare_address val op lit
      else if kind = ''string'' \<or> kind = ''bytes'' \<or> kind = ''bytes32'' then compare_string val op lit
      else if kind = ''bool'' then compare_boolean val op lit
      else if kind = ''tuple'' then compare_tuple jl el val op lit
      else Inl (TypeMismatch (''Unsupported EVM parameter kind for comparison: '' @ kind_str)))"

definition evm_evaluator :: "json_lib \<Rightarrow> evm_lib \<Rightarrow> match_param_entry list \<Rightarrow> condition_evaluator" where
  "evm_evaluator jl el args = \<lparr>
     get_base_param = evm_get_base_param args,
     compare_final_values = evm_compare_final_values jl el,
     get_kind_from_json_value = evm_kind_from_json_value\<rparr>"

end
