(* ===== verification/Evm_Evaluator_Properties.thy ===== *)
theory Evm_Evaluator_Properties imports Evm_Evaluator begin

text \<open>
  What the EVM evaluator guarantees: inequality negates equality on every kind (the interface of
  chain evaluators), printed tuples split back into their elements, and where printing or the
  list of kinds fall short.
\<close>

section \<open>The evaluator interface\<close>

lemma compare_ordered_ne: "compare_ordered_values ty l OpNe r = negate_result (compare_ordered_values ty l OpEq r)"
  by (simp add: compare_ordered_values_def)

lemma collection_target_ne: "collection_target w OpNe lit = collection_target w OpEq lit"
  by (simp add: collection_target_def split: literal_value.splits)

lemma compare_u256_ne: "compare_u256 el v OpNe lit = negate_result (compare_u256 el v OpEq lit)"
  by (auto simp: compare_u256_def compare_ordered_ne negate_result_bind intro!: arg_cong2 [where f = res_bind]
      split: sum.splits)

lemma compare_i256_ne: "compare_i256 el v OpNe lit = negate_result (compare_i256 el v OpEq lit)"
  by (auto simp: compare_i256_def compare_ordered_ne negate_result_bind intro!: arg_cong2 [where f = res_bind]
      split: sum.splits)

lemma compare_array_ne: "compare_array jl el v OpNe lit = negate_result (compare_array jl el v OpEq lit)"
  by (auto simp: compare_array_def collection_target_ne negate_result_bind intro!: arg_cong2 [where f = res_bind]
      split: option.splits)

lemma compare_tuple_ne: "compare_tuple jl el v OpNe lit = negate_result (compare_tuple jl el v OpEq lit)"
  by (auto simp: compare_tuple_def collection_target_ne negate_result_bind Let_def intro!: arg_cong2 [where f = res_bind])

lemma compare_simple_ne:
  "compare_address v OpNe lit = negate_result (compare_address v OpEq lit)"
  "compare_string v OpNe lit = negate_result (compare_string v OpEq lit)"
  "compare_boolean v OpNe lit = negate_result (compare_boolean v OpEq lit)"
  by (simp_all add: compare_address_def compare_string_def compare_boolean_def Let_def
      split: literal_value.splits option.splits)

lemmas compare_ne = compare_u256_ne compare_i256_ne compare_array_ne compare_tuple_ne compare_simple_ne

interpretation evm_chain: chain_evaluator "evm_evaluator jl el args" for jl el args
  by standard (simp add: evm_evaluator_def evm_compare_final_values_def Let_def compare_ne)

text \<open>On EVM values of every kind, with or without a path, a condition with \<open>!=\<close> gives the
  opposite of the same condition with \<open>==\<close>, and fails with the same error; so the inequality of
  one of two parameters is the negation of the equality of both.\<close>

theorem evm_inequality_negates:
  "evaluate jl (evm_evaluator jl el args) (Condition (c\<lparr>cond_operator := OpNe\<rparr>)) =
     negate_result (evaluate jl (evm_evaluator jl el args) (Condition (c\<lparr>cond_operator := OpEq\<rparr>)))
   \<and> evaluate jl (evm_evaluator jl el args)
       (Logical (Condition (c\<lparr>cond_operator := OpNe\<rparr>)) LOr (Condition (d\<lparr>cond_operator := OpNe\<rparr>))) =
     negate_result (evaluate jl (evm_evaluator jl el args)
       (Logical (Condition (c\<lparr>cond_operator := OpEq\<rparr>)) LAnd (Condition (d\<lparr>cond_operator := OpEq\<rparr>))))"
  using evm_chain.expression_ne evm_chain.de_morgan_ne by blast

section \<open>Splitting tuples\<close>

text \<open>The state of the element scanner after a text; \<open>None\<close> when it stops inside.\<close>

fun scan :: "int \<Rightarrow> char option \<Rightarrow> string \<Rightarrow> string \<Rightarrow> (int \<times> char option) option" where
  "scan d q cur [] = Some (d, q)"
| "scan d q cur (c # cs) = (if d = 0 \<and> q = None \<and> c = CHR '','' then None
     else scan (next_depth q d c) (next_quote q cur c) (cur @ [c]) cs)"

lemma scan_append: "scan d q cur (a @ b) =
  (case scan d q cur a of None \<Rightarrow> None | Some (d', q') \<Rightarrow> scan d' q' (cur @ a) b)"
  by (induction d q cur a rule: scan.induct) (auto split: option.split)

lemma parse_single_scan:
  "scan d q cur e = Some (0, None) \<Longrightarrow> rest = [] \<or> hd rest = CHR '','' \<Longrightarrow>
   parse_single_element d q cur (e @ rest) = (cur @ e, rest)"
proof (induction d q cur e rule: scan.induct)
  case (1 d q cur)
  then show ?case by (cases rest) auto
qed (auto split: if_splits)

text \<open>A text that brings the scanner back to where it was.\<close>

definition neutral :: "string \<Rightarrow> bool" where
  "neutral e \<longleftrightarrow> (\<forall>d \<ge> 0. \<forall>cur. scan d None cur e = Some (d, None))"

definition element_value :: "json_lib \<Rightarrow> string \<Rightarrow> evaluation_error + json" where
  "element_value jl cur =
     (if hd cur = CHR ''('' \<and> last cur = CHR '')'' then
        res_bind (parse_tuple_elements jl (butlast (tl cur))) (\<lambda>es. Inr (JArray es))
      else if hd cur = CHR ''['' \<or> hd cur = CHR ''{'' then
        (case json_parse jl cur of Some j \<Rightarrow> Inr j
         | None \<Rightarrow> Inl (ParseError (''Failed to parse tuple element '' @ cur @ '' as JSON'')))
      else Inr (case json_parse jl cur of Some j \<Rightarrow> j | None \<Rightarrow> JString cur))"

fun sequence :: "('e + 'a) list \<Rightarrow> 'e + 'a list" where
  "sequence [] = Inr []"
| "sequence (r # rs) = res_bind r (\<lambda>x. res_bind (sequence rs) (\<lambda>xs. Inr (x # xs)))"

lemma tuple_loop_element:
  assumes "e \<noteq> []" "neutral e" "rest = [] \<or> hd rest = CHR '',''"
  shows "tuple_loop jl (e @ rest) =
    res_bind (element_value jl e) (\<lambda>x. res_bind (tuple_loop jl (skip_comma rest)) (\<lambda>xs. Inr (x # xs)))"
proof -
  have "scan 0 None [] e = Some (0, None)" using assms(2) by (simp add: neutral_def)
  from parse_single_scan [OF this assms(3)] have p: "parse_single_element 0 None [] (e @ rest) = (e, rest)"
    by simp
  obtain c cs where e: "e = c # cs" using assms(1) by (cases e) auto
  show ?thesis
    using p unfolding e
    by (simp add: tuple_loop.simps(2) element_value_def parse_tuple_elements_def del: parse_single_element.simps)
qed

lemma tuple_loop_join:
  "list_all (\<lambda>e. e \<noteq> [] \<and> neutral e) es \<Longrightarrow>
   tuple_loop jl (join_with '','' es) = sequence (map (element_value jl) es)"
proof (induction es rule: induct_list012)
  case (2 e)
  then show ?case using tuple_loop_element [of e "[]" jl] by (simp add: skip_comma_def)
next
  case (3 e e' es)
  have "tuple_loop jl (e @ '','' @ join_with '','' (e' # es)) =
      res_bind (element_value jl e) (\<lambda>x. res_bind (tuple_loop jl (join_with '','' (e' # es))) (\<lambda>xs. Inr (x # xs)))"
    using 3(3) tuple_loop_element [of e "'','' @ join_with '','' (e' # es)" jl] by (simp add: skip_comma_def)
  with 3 show ?case by simp
qed simp

section \<open>Printed values are neutral\<close>

definition plain :: "char \<Rightarrow> bool" where
  "plain c \<longleftrightarrow> \<not> is_quote c \<and> \<not> is_backslash c \<and> \<not> is_opening c \<and> \<not> is_closing c \<and> c \<noteq> CHR '',''"

lemma scan_plain: "list_all plain s \<Longrightarrow> scan d None cur s = Some (d, None)"
  by (induction s arbitrary: cur) (auto simp: plain_def next_depth_def next_quote_def)

lemma neutral_plain: "list_all plain s \<Longrightarrow> neutral s"
  by (simp add: neutral_def scan_plain)

text \<open>A text without double quotes and backslashes.\<close>

definition unquoted :: "string \<Rightarrow> bool" where
  "unquoted s \<longleftrightarrow> list_all (\<lambda>c. char_code c \<noteq> 34 \<and> \<not> is_backslash c) s"

lemma scan_quoted: "unquoted s \<Longrightarrow> scan d (Some CHR 0x22) cur s = Some (d, Some CHR 0x22)"
  by (induction s arbitrary: cur) (auto simp: unquoted_def next_depth_def next_quote_def char_code_def)

lemma is_quote_dq [simp]: "is_quote CHR 0x22" "\<not> is_backslash CHR 0x22" "\<not> is_opening CHR 0x22" "\<not> is_closing CHR 0x22"
  by (simp_all add: is_quote_def is_backslash_def is_opening_def is_closing_def char_code_def)

lemma neutral_quoted:
  assumes "unquoted s"
  shows "neutral (quoted s)"
proof -
  have end_ok: "\<not> is_backslash (last (cur @ CHR 0x22 # s))" for cur
    using assms by (cases s rule: rev_cases) (auto simp: unquoted_def)
  have "scan d None cur (quoted s) = Some (d, None)" for d cur
    using scan_quoted [OF assms, of d "cur @ [CHR 0x22]"] end_ok [of cur]
    by (simp add: quoted_def scan_append next_depth_def next_quote_def)
  then show ?thesis by (simp add: neutral_def)
qed

lemma scan_inner:
  "list_all neutral es \<Longrightarrow> 0 < d \<Longrightarrow> scan d None cur (join_with '','' es) = Some (d, None)"
proof (induction es arbitrary: cur rule: induct_list012)
  case (3 e e' es)
  have "next_depth None d CHR '','' = d" "next_quote None x CHR '','' = None" for x
    by (simp_all add: next_depth_def next_quote_def is_opening_def is_closing_def is_quote_def char_code_def)
  with 3 show ?case by (simp add: scan_append neutral_def)
qed (auto simp: neutral_def)

lemma neutral_bracketed:
  assumes "list_all neutral es" "is_opening a" "is_closing b"
  shows "neutral (a # join_with '','' es @ [b])"
proof -
  have a: "next_depth None d a = d + 1" "next_quote None x a = None" "a \<noteq> CHR '',''" for d x
    using assms(2) by (auto simp: next_depth_def next_quote_def is_opening_def is_quote_def char_code_def)
  have b: "next_depth None d b = d - 1" "next_quote None x b = None" "b \<noteq> CHR '',''" for d x
    using assms(3) by (auto simp: next_depth_def next_quote_def is_opening_def is_closing_def is_quote_def char_code_def)
  show ?thesis using a b scan_inner [OF assms(1)] by (simp add: neutral_def scan_append)
qed

text \<open>What the number and hex printers of the libraries put out: something, and no quotes, brackets,
  backslashes, commas or blanks.\<close>

definition plain_printers :: "evm_lib \<Rightarrow> bool" where
  "plain_printers el \<longleftrightarrow> (\<forall>u. u256_print el u \<noteq> [] \<and> list_all (\<lambda>c. plain c \<and> \<not> is_ws c) (u256_print el u))
     \<and> (\<forall>u. i256_print el u \<noteq> [] \<and> list_all (\<lambda>c. plain c \<and> \<not> is_ws c) (i256_print el u))
     \<and> (\<forall>bs. list_all (\<lambda>c. plain c \<and> \<not> is_ws c) (hex_encode el bs))
     \<and> (\<forall>bs. list_all (\<lambda>c. plain c \<and> \<not> is_ws c) (address_hex el bs))"

fun safe_value :: "sol_value \<Rightarrow> bool" where
  "safe_value (SolString s) = unquoted s"
| "safe_value (SolArray vs) = list_all safe_value vs"
| "safe_value (SolFixedArray vs) = list_all safe_value vs"
| "safe_value (SolTuple vs) = list_all safe_value vs"
| "safe_value _ = True"

lemma plain_unquoted: "list_all plain s \<Longrightarrow> unquoted (''0x'' @ s)"
  by (auto simp: unquoted_def plain_def is_quote_def is_backslash_def char_code_def list_all_iff)

lemma list_all_conjD: "list_all (\<lambda>c. P c \<and> Q c) s \<Longrightarrow> list_all P s"
  by (simp add: list_all_iff)

lemma neutral_printed:
  assumes "plain_printers el"
  shows "neutral (quoted (''0x'' @ hex_encode el bs))" "neutral (quoted (''0x'' @ address_hex el bs))"
    "neutral (u256_print el u)" "neutral (i256_print el u)"
proof -
  have "list_all plain (hex_encode el bs)" "list_all plain (address_hex el bs)"
    "list_all plain (u256_print el u)" "list_all plain (i256_print el u)"
    using assms list_all_conjD [of plain "\<lambda>c. \<not> is_ws c"] by (auto simp: plain_printers_def)
  then show "neutral (quoted (''0x'' @ hex_encode el bs))" "neutral (quoted (''0x'' @ address_hex el bs))"
    "neutral (u256_print el u)" "neutral (i256_print el u)"
    by (blast intro: neutral_quoted plain_unquoted neutral_plain)+
qed

lemma neutral_list:
  assumes "list_all neutral es"
  shows "neutral (''['' @ join_with '','' es @ '']'')" "neutral (''('' @ join_with '','' es @ '')'')"
  using neutral_bracketed [OF assms] by (simp_all add: is_opening_def is_closing_def)

lemma neutral_bool: "neutral (show_bool b)"
  by (cases b) (simp_all add: neutral_plain show_bool_def plain_def is_quote_def is_backslash_def
      is_opening_def is_closing_def char_code_def)

lemma neutral_value: "plain_printers el \<Longrightarrow> safe_value v \<Longrightarrow> neutral (dyn_value_to_string el v)"
proof (induction v)
  case (SolArray vs)
  then show ?case unfolding dyn_value_to_string.simps by (intro neutral_list) (auto simp: list_all_iff)
next
  case (SolFixedArray vs)
  then show ?case unfolding dyn_value_to_string.simps by (intro neutral_list) (auto simp: list_all_iff)
next
  case (SolTuple vs)
  then show ?case unfolding dyn_value_to_string.simps by (intro neutral_list) (auto simp: list_all_iff)
qed (simp_all add: neutral_printed [simplified] neutral_bool neutral_quoted)

text \<open>Every printed value holds a character that is not white space.\<close>

lemma printed_not_blank:
  assumes "plain_printers el"
  shows "dyn_value_to_string el v \<noteq> [] \<and> list_ex (\<lambda>c. \<not> is_ws c) (dyn_value_to_string el v)"
proof -
  have ex: "list_ex (\<lambda>c. \<not> is_ws c) s" if "s \<noteq> []" "list_all (\<lambda>c. plain c \<and> \<not> is_ws c) s" for s
    using that by (cases s) auto
  have b: "list_ex (\<lambda>c. \<not> is_ws c) (show_bool x) \<and> show_bool x \<noteq> []" for x
    by (simp add: show_bool_def is_ws_def char_code_def)
  show ?thesis
    by (cases v) (use assms ex b in \<open>auto simp: plain_printers_def quoted_def is_ws_def char_code_def\<close>)
qed

lemma trim_not_blank: "list_ex (\<lambda>c. \<not> is_ws c) s \<Longrightarrow> trim s \<noteq> []"
  by (auto simp: trim_def list_ex_iff dropWhile_eq_Nil_conv dest: set_dropWhileD)
    (metis dropWhile_eq_Nil_conv hd_dropWhile hd_in_set)

lemma join_not_blank:
  "es \<noteq> [] \<Longrightarrow> list_ex (\<lambda>c. \<not> is_ws c) (hd es) \<Longrightarrow> list_ex (\<lambda>c. \<not> is_ws c) (join_with sep es)"
  by (cases es; cases "tl es") auto

lemma parse_printed_elements:
  assumes "plain_printers el" "list_all safe_value vs"
  shows "parse_tuple_elements jl (join_with '','' (map (dyn_value_to_string el) vs)) =
    sequence (map (element_value jl \<circ> dyn_value_to_string el) vs)"
proof (cases vs)
  case Nil
  then show ?thesis by (simp add: parse_tuple_elements_def trim_def)
next
  case (Cons v vs')
  have "trim (join_with '','' (map (dyn_value_to_string el) vs)) \<noteq> []"
    using printed_not_blank [OF assms(1)] by (intro trim_not_blank join_not_blank) (auto simp: Cons)
  moreover have "list_all (\<lambda>e. e \<noteq> [] \<and> neutral e) (map (dyn_value_to_string el) vs)"
    using assms neutral_value printed_not_blank by (auto simp: list_all_iff)
  ultimately show ?thesis by (simp add: parse_tuple_elements_def tuple_loop_join)
qed

lemma element_value_paren:
  "element_value jl (''('' @ s @ '')'') = res_bind (parse_tuple_elements jl s) (\<lambda>es. Inr (JArray es))"
  by (simp add: element_value_def)

lemma sequence_all: "list_all (\<lambda>x. f x = Inr (g x)) xs \<Longrightarrow> sequence (map f xs) = Inr (map g xs)"
  by (induction xs) auto

section \<open>Properties\<close>

text \<open>A library whose printers are plain, for the witnesses.\<close>

definition sample_evm_lib :: evm_lib where
  "sample_evm_lib = \<lparr>hex_encode = (\<lambda>_. ''ab''), address_hex = (\<lambda>_. ''cd''), u256_print = (\<lambda>_. ''7''),
     i256_print = (\<lambda>_. ''5''), u256_from_hex = (\<lambda>_. None), u256_from_str = (\<lambda>_. Some 7),
     i256_from_str = (\<lambda>_. None), decimal_eq = (\<lambda>_ _. None)\<rparr>"

lemma sample_plain: "plain_printers sample_evm_lib"
  by (simp add: plain_printers_def sample_evm_lib_def plain_def is_quote_def is_backslash_def
      is_opening_def is_closing_def is_ws_def char_code_def)

text \<open>Printing and splitting agree: the text of a decoded tuple, nested to any depth, splits into
  exactly the texts of its elements, provided no string in it holds a double quote or a
  backslash; and a search in it (\<open>contains\<close>) finds a target exactly when one of the elements
  matches it.\<close>

theorem tuple_print_split:
  assumes "plain_printers el" "list_all safe_value vs"
    "list_all (\<lambda>v. element_value jl (dyn_value_to_string el v) = Inr (val v)) vs"
  shows "parse_tuple_elements jl (butlast (tl (format_token_value el (SolTuple vs)))) = Inr (map val vs)
    \<and> compare_tuple jl el (format_token_value el (SolTuple vs)) OpContains (LStr t) =
        Inr (\<exists>v \<in> set vs. check_json_value_matches_str jl el (val v) t)"
proof -
  have "parse_tuple_elements jl (join_with '','' (map (dyn_value_to_string el) vs)) = Inr (map val vs)"
    using parse_printed_elements [OF assms(1,2), of jl] sequence_all [of "element_value jl \<circ> dyn_value_to_string el" val vs]
      assms(3) by (simp add: comp_def)
  then show ?thesis
    by (simp add: compare_tuple_def collection_target_def list_ex_iff Bex_def)
qed

theorem tuple_print_split_witness:
  "compare_tuple sample_json_lib sample_evm_lib
     (format_token_value sample_evm_lib (SolTuple [SolUint 7 256, SolTuple [SolBool True, SolString ''a,b'']]))
     OpContains (LStr ''TRUE'') = Inr True"
proof -
  let ?val = "\<lambda>v. case v of SolUint _ _ \<Rightarrow> JString ''7'' | _ \<Rightarrow> JArray [JBool True, JString (quoted ''a,b'')]"
  have quiet: "unquoted ''a,b''" by (simp add: unquoted_def is_backslash_def char_code_def)
  have inner: "element_value sample_json_lib (dyn_value_to_string sample_evm_lib (SolBool True)) = Inr (JBool True)"
    "element_value sample_json_lib (dyn_value_to_string sample_evm_lib (SolString ''a,b'')) = Inr (JString (quoted ''a,b''))"
    by (simp_all add: element_value_def sample_json_lib_def show_bool_def quoted_def)
  have "parse_tuple_elements sample_json_lib (join_with '','' (map (dyn_value_to_string sample_evm_lib) [SolBool True, SolString ''a,b'']))
      = Inr [JBool True, JString (quoted ''a,b'')]"
    using parse_printed_elements [OF sample_plain, of "[SolBool True, SolString ''a,b'']" sample_json_lib] quiet inner
    by (simp del: dyn_value_to_string.simps)
  then have "element_value sample_json_lib (dyn_value_to_string sample_evm_lib (SolTuple [SolBool True, SolString ''a,b'']))
      = Inr (JArray [JBool True, JString (quoted ''a,b'')])"
    unfolding dyn_value_to_string.simps(10) element_value_paren by (simp only: res_bind.simps)
  moreover have "element_value sample_json_lib (dyn_value_to_string sample_evm_lib (SolUint 7 256)) = Inr (JString ''7'')"
    by (simp add: element_value_def sample_json_lib_def sample_evm_lib_def)
  ultimately have "list_all (\<lambda>v. element_value sample_json_lib (dyn_value_to_string sample_evm_lib v) = Inr (?val v))
      [SolUint 7 256, SolTuple [SolBool True, SolString ''a,b'']]"
    by (simp del: dyn_value_to_string.simps)
  note all = tuple_print_split [OF sample_plain _ this, of "''TRUE''"]
  have "to_lowercase ''true'' = to_lowercase ''TRUE''" by code_simp
  then have "\<exists>v \<in> set [SolUint 7 256, SolTuple [SolBool True, SolString ''a,b'']].
      check_json_value_matches_str sample_json_lib sample_evm_lib (?val v) ''TRUE''"
    by (simp add: show_bool_def)
  with all quiet show ?thesis
    by (simp del: format_token_value.simps check_json_value_matches_str.simps)
qed

text \<open>Printing does not escape quotes: a string of the chain can imitate several elements. A tuple
  of one string that holds a quote, a comma and a quote prints exactly like the tuple of the two
  parts, so every condition sees them as the same.\<close>

theorem tuple_string_injection:
  "format_token_value el (SolTuple [SolString (x @ [CHR 0x22, CHR '','', CHR 0x22] @ y)]) =
     format_token_value el (SolTuple [SolString x, SolString y])
   \<and> compare_tuple jl el (format_token_value el (SolTuple [SolString (x @ [CHR 0x22, CHR '','', CHR 0x22] @ y)])) op lit =
     compare_tuple jl el (format_token_value el (SolTuple [SolString x, SolString y])) op lit"
  by (simp add: quoted_def)

text \<open>Only the listed widths are compared: values of every other kind, such as \<open>uint24\<close>,
  \<open>uint160\<close>, \<open>int24\<close>, \<open>bytes4\<close> or a fixed-size array, make every comparison fail.\<close>

theorem unlisted_kinds_fail:
  assumes "to_lowercase kind \<notin> set (signed_integer_kinds @ unsigned_integer_kinds @ array_kinds
    @ [''address'', ''string'', ''bytes'', ''bytes32'', ''bool'', ''tuple''])"
  shows "\<not> is_ok (evm_compare_final_values jl el kind val op lit)"
  using assms by (simp add: evm_compare_final_values_def Let_def)

theorem unlisted_kinds_fail_witness:
  "\<not> is_ok (evm_compare_final_values sample_json_lib sample_evm_lib ''uint24'' ''500'' OpEq (LNumber ''500''))
   \<and> \<not> is_ok (evm_compare_final_values sample_json_lib sample_evm_lib ''uint256[3]'' ''[1,2,3]'' OpContains (LNumber ''1''))"
proof -
  have "to_lowercase ''uint24'' \<notin> set (signed_integer_kinds @ unsigned_integer_kinds @ array_kinds
      @ [''address'', ''string'', ''bytes'', ''bytes32'', ''bool'', ''tuple''])"
    "to_lowercase ''uint256[3]'' \<notin> set (signed_integer_kinds @ unsigned_integer_kinds @ array_kinds
      @ [''address'', ''string'', ''bytes'', ''bytes32'', ''bool'', ''tuple''])"
    by (simp_all add: to_lowercase_def lower_char_def is_upper_def char_code_def signed_integer_kinds_def
        unsigned_integer_kinds_def array_kinds_def)
  then show ?thesis using unlisted_kinds_fail by blast
qed

text \<open>Integer comparison is numeric, at full width and with sign: whenever both sides parse, the
  kinds \<open>uintN\<close> compare the 256-bit unsigned and the kinds \<open>intN\<close> the 256-bit two's complement
  values, whatever the notation of the two sides.\<close>

theorem integer_comparison_numeric:
  assumes "string_to_u256 el a = Inr x" "string_to_u256 el b = Inr y"
    "string_to_i256 el a = Inr i" "string_to_i256 el b = Inr j"
  shows "list_all (\<lambda>k. evm_compare_final_values jl el k a OpLt (LNumber b) = Inr (unat x < unat y)
        \<and> evm_compare_final_values jl el k a OpEq (LNumber b) = Inr (unat x = unat y)
        \<and> evm_compare_final_values jl el k a OpGte (LStr b) = Inr (unat y \<le> unat x)) [''uint8'', ''uint64'', ''uint256'']
    \<and> list_all (\<lambda>k. evm_compare_final_values jl el k a OpLt (LNumber b) = Inr (sint i < sint j)
        \<and> evm_compare_final_values jl el k a OpEq (LNumber b) = Inr (sint i = sint j)
        \<and> evm_compare_final_values jl el k a OpGte (LStr b) = Inr (sint j \<le> sint i)) [''int8'', ''int64'', ''int256'']"
  using assms
  by (simp add: evm_compare_final_values_def Let_def to_lowercase_def lower_char_def is_upper_def char_code_def
      signed_integer_kinds_def unsigned_integer_kinds_def compare_u256_def compare_i256_def number_literal_def
      compare_ordered_values_def word_less_nat_alt word_le_nat_alt word_unat_eq_iff)

definition signed_evm_lib :: evm_lib where
  "signed_evm_lib = sample_evm_lib\<lparr>u256_from_hex := (\<lambda>h. if h = ''ff'' then Some (- 1) else None),
     u256_from_str := (\<lambda>_. Some 7), i256_from_str := (\<lambda>_. Some 7)\<rparr>"

theorem integer_comparison_numeric_witness:
  "evm_compare_final_values sample_json_lib signed_evm_lib ''int8'' ''0xff'' OpLt (LNumber ''7'') = Inr True
   \<and> evm_compare_final_values sample_json_lib signed_evm_lib ''uint8'' ''0xff'' OpLt (LNumber ''7'') = Inr False"
proof -
  have t: "trim ''0xff'' = ''0xff''" "trim ''7'' = ''7''"
    by (simp_all add: trim_def is_ws_def char_code_def)
  have "string_to_u256 signed_evm_lib ''0xff'' = Inr (- 1)" "string_to_u256 signed_evm_lib ''7'' = Inr 7"
    "string_to_i256 signed_evm_lib ''0xff'' = Inr (- 1)" "string_to_i256 signed_evm_lib ''7'' = Inr 7"
    by (simp_all add: string_to_u256_def string_to_i256_def Let_def t strip_0x_def strip_prefix_def
        signed_evm_lib_def sample_evm_lib_def)
  from integer_comparison_numeric [OF this] show ?thesis by (simp add: unsigned_minus_1_eq_mask mask_eq_exp_minus_1)
qed

lemma normalize_tuple_ws_idem: "normalize_tuple_ws q (normalize_tuple_ws q s) = normalize_tuple_ws q s"
  by (induction q s rule: normalize_tuple_ws.induct) auto

lemma normalize_tuple_ws_visible:
  "filter (\<lambda>c. \<not> is_ws c) (normalize_tuple_ws q s) = filter (\<lambda>c. \<not> is_ws c) s"
  by (induction q s rule: normalize_tuple_ws.induct) auto

text \<open>Tuple equality is an equivalence of texts that ignores white space outside quotes only: two
  texts that differ in a visible character are never equal, and a text equals its normal
  form.\<close>

theorem tuple_equality:
  "compare_tuple jl el a OpEq (LStr (normalize_tuple_whitespace a)) = Inr True
   \<and> (compare_tuple jl el a OpEq (LStr b) = Inr True \<longleftrightarrow> normalize_tuple_whitespace a = normalize_tuple_whitespace b)
   \<and> filter (\<lambda>c. \<not> is_ws c) (normalize_tuple_whitespace a) = filter (\<lambda>c. \<not> is_ws c) a"
  by (simp add: compare_tuple_def collection_target_def Let_def normalize_tuple_whitespace_def
      normalize_tuple_ws_idem normalize_tuple_ws_visible)

end
