(* ===== verification/Expression_Parser.thy ===== *)
theory Expression_Parser imports Expression begin

text \<open>
  The parser of the filter expressions (src/src/services/filter/expression/parsing.rs), one
  definition per parser function. A parser takes the input and gives a value with the rest of
  the input, or fails; the texts of its errors are left out.

  The source composes its parsers with the combinators of the crate winnow (\<open>alt\<close>,
  \<open>delimited\<close>, \<open>repeat\<close>, \<open>peek\<close>, \<open>take_while\<close> and so on). Their first group below says what
  their documentation says: alternatives in order, each from the same input; \<open>repeat\<close> up to the
  first failure, from which it backs off; \<open>peek\<close> without consuming. \<open>space0\<close> and \<open>space1\<close> are
  blanks and tabs, letters and digits are those of ASCII.
\<close>

section \<open>Combinators\<close>

type_synonym 'a parser = "string \<Rightarrow> ('a \<times> string) option"

definition bind_p :: "'a parser \<Rightarrow> ('a \<Rightarrow> 'b parser) \<Rightarrow> 'b parser" where
  "bind_p p f s = (case p s of None \<Rightarrow> None | Some (x, r) \<Rightarrow> f x r)"

definition return_p :: "'a \<Rightarrow> 'a parser" where
  "return_p x s = Some (x, s)"

definition fail_p :: "'a parser" where
  "fail_p s = None"

definition map_p :: "('a \<Rightarrow> 'b) \<Rightarrow> 'a parser \<Rightarrow> 'b parser" where
  "map_p f p = bind_p p (\<lambda>x. return_p (f x))"

definition alt_p :: "'a parser \<Rightarrow> 'a parser \<Rightarrow> 'a parser" where
  "alt_p p q s = (case p s of None \<Rightarrow> q s | Some xr \<Rightarrow> Some xr)"

definition verify_p :: "('a \<Rightarrow> bool) \<Rightarrow> 'a parser \<Rightarrow> 'a parser" where
  "verify_p P p = bind_p p (\<lambda>x r. if P x then Some (x, r) else None)"

definition literal_p :: "string \<Rightarrow> unit parser" where
  "literal_p t s = (if prefix t s then Some ((), drop (length t) s) else None)"

definition caseless_p :: "string \<Rightarrow> unit parser" where
  "caseless_p t s = (if to_lowercase (take (length t) s) = to_lowercase t
     then Some ((), drop (length t) s) else None)"

definition one_of_p :: "(char \<Rightarrow> bool) \<Rightarrow> char parser" where
  "one_of_p P s = (case s of c # r \<Rightarrow> if P c then Some (c, r) else None | [] \<Rightarrow> None)"

definition take_while0 :: "(char \<Rightarrow> bool) \<Rightarrow> string parser" where
  "take_while0 P s = Some (takeWhile P s, dropWhile P s)"

definition take_while1 :: "(char \<Rightarrow> bool) \<Rightarrow> string parser" where
  "take_while1 P = verify_p (\<lambda>t. t \<noteq> []) (take_while0 P)"

definition is_blank :: "char \<Rightarrow> bool" where
  "is_blank c \<longleftrightarrow> c = CHR '' '' \<or> c = CHR 0x09"

definition skip_blanks :: "string \<Rightarrow> string" where
  "skip_blanks = dropWhile is_blank"

definition blanks_then :: "'a parser \<Rightarrow> 'a parser" where
  "blanks_then p s = p (skip_blanks s)"

text \<open>\<open>delimited(space0, p, space0)\<close>.\<close>

definition spaced :: "'a parser \<Rightarrow> 'a parser" where
  "spaced p s = (case p (skip_blanks s) of None \<Rightarrow> None | Some (x, r) \<Rightarrow> Some (x, skip_blanks r))"

text \<open>\<open>repeat(0.., p).fold(acc, f)\<close>. A parser that succeeds without consuming is an error.\<close>

function repeat_fold :: "'a parser \<Rightarrow> ('b \<Rightarrow> 'a \<Rightarrow> 'b) \<Rightarrow> 'b \<Rightarrow> 'b parser" where
  "repeat_fold p f acc s = (case p s of
     None \<Rightarrow> Some (acc, s)
   | Some (x, r) \<Rightarrow> if length r < length s then repeat_fold p f (f acc x) r else None)"
  by pat_completeness auto
termination by (relation "measure (\<lambda>(p, f, acc, s). length s)") auto

declare repeat_fold.simps [simp del]

text \<open>\<open>p.take()\<close>: the text that \<open>p\<close> consumes.\<close>

definition taken :: "'a parser \<Rightarrow> string parser" where
  "taken p s = (case p s of None \<Rightarrow> None | Some (_, r) \<Rightarrow> Some (take (length s - length r) s, r))"

section \<open>Literals\<close>

definition is_keyword :: "string \<Rightarrow> bool" where
  "is_keyword ident \<longleftrightarrow> to_lowercase ident \<in>
     set [''true'', ''false'', ''and'', ''or'', ''contains'', ''starts_with'', ''ends_with'']"

definition common_delimiters :: string where
  "common_delimiters = '')(,=!><&|]''"

text \<open>\<open>peek(alt((space1, eof, one_of(COMMON_DELIMITERS))))\<close>.\<close>

definition delimited_here :: "string \<Rightarrow> bool" where
  "delimited_here s = (case s of [] \<Rightarrow> True | c # _ \<Rightarrow> is_blank c \<or> c \<in> set common_delimiters)"

definition peek_delimiter :: "unit parser" where
  "peek_delimiter s = (if delimited_here s then Some ((), s) else None)"

definition parse_boolean :: "literal_value parser" where
  "parse_boolean = alt_p
     (bind_p (literal_p ''true'') (\<lambda>_. map_p (\<lambda>_. LBool True) peek_delimiter))
     (bind_p (literal_p ''false'') (\<lambda>_. map_p (\<lambda>_. LBool False) peek_delimiter))"

definition opt_p :: "'a parser \<Rightarrow> 'a option parser" where
  "opt_p p = alt_p (map_p Some p) (return_p None)"

definition parse_number_or_fixed_str :: "literal_value parser" where
  "parse_number_or_fixed_str = map_p LNumber (taken
     (bind_p (opt_p (one_of_p (\<lambda>c. c = CHR ''+'' \<or> c = CHR ''-''))) (\<lambda>_.
      bind_p (take_while1 is_digit) (\<lambda>_.
      bind_p (opt_p (bind_p (literal_p ''.'') (\<lambda>_. take_while1 is_digit))) (\<lambda>_.
      peek_delimiter)))))"

definition parse_hex_string :: "literal_value parser" where
  "parse_hex_string = map_p LStr (taken
     (bind_p (alt_p (literal_p ''0x'') (literal_p ''0X'')) (\<lambda>_.
      bind_p (take_while1 is_hexdigit) (\<lambda>_.
      peek_delimiter))))"

abbreviation backslash :: char where "backslash \<equiv> CHR 0x5C"
abbreviation single_quote :: char where "single_quote \<equiv> CHR 0x27"
abbreviation double_quote :: char where "double_quote \<equiv> CHR 0x22"

definition character_or_escape :: "char \<Rightarrow> unit parser" where
  "character_or_escape open_quote = alt_p
     (bind_p (literal_p [backslash]) (\<lambda>_. map_p (\<lambda>_. ()) (one_of_p (\<lambda>c. c = open_quote \<or> c = backslash))))
     (map_p (\<lambda>_. ()) (take_while1 (\<lambda>c. c \<noteq> open_quote \<and> c \<noteq> backslash)))"

definition parse_quoted_string :: "literal_value parser" where
  "parse_quoted_string =
     bind_p (one_of_p (\<lambda>c. c = single_quote \<or> c = double_quote)) (\<lambda>open_quote.
     bind_p (taken (repeat_fold (character_or_escape open_quote) (\<lambda>_ _. ()) ())) (\<lambda>content.
     map_p (\<lambda>_. LStr content) (literal_p [open_quote])))"

definition unquoted_ok :: "string \<Rightarrow> bool" where
  "unquoted_ok w \<longleftrightarrow> \<not> is_keyword w
     \<and> \<not> list_all (\<lambda>c. is_digit c \<or> c = CHR ''+'' \<or> c = CHR ''-'') w
     \<and> \<not> ((prefix ''0x'' w \<or> prefix ''0X'' w) \<and> list_all is_hexdigit (drop 2 w))
     \<and> CHR ''.'' \<notin> set w"

definition parse_unquoted_string :: "literal_value parser" where
  "parse_unquoted_string = map_p LStr (verify_p unquoted_ok
     (take_while1 (\<lambda>c. is_alphanum c \<or> c = CHR ''_'' \<or> c = CHR ''-'')))"

definition parse_value :: "literal_value parser" where
  "parse_value = spaced (alt_p parse_quoted_string (alt_p parse_boolean (alt_p parse_hex_string
     (alt_p parse_number_or_fixed_str parse_unquoted_string))))"

section \<open>Variables\<close>

definition usize_of_digits :: "string \<Rightarrow> nat option" where
  "usize_of_digits ds = (let n = foldl (\<lambda>a c. 10 * a + int (digit_val c)) 0 ds in
     if n < 2 ^ 64 then Some (nat n) else None)"

definition index_parser :: "accessor parser" where
  "index_parser = bind_p (literal_p ''['') (\<lambda>_. bind_p (take_while1 is_digit) (\<lambda>ds.
     case usize_of_digits ds of None \<Rightarrow> fail_p
     | Some n \<Rightarrow> map_p (\<lambda>_. AIndex n) (literal_p '']'')))"

definition identifier_p :: "string parser" where
  "identifier_p = taken (bind_p (one_of_p (\<lambda>c. is_alpha c \<or> c = CHR ''_'')) (\<lambda>_.
     take_while0 (\<lambda>c. is_alphanum c \<or> c = CHR ''_'')))"

definition peek_after_key :: "unit parser" where
  "peek_after_key s = (case s of [] \<Rightarrow> Some ((), s)
     | c # _ \<Rightarrow> if is_blank c \<or> c \<in> set ''[.=!><)('' then Some ((), s) else None)"

definition key_parser :: "accessor parser" where
  "key_parser = bind_p (literal_p ''.'') (\<lambda>_.
     bind_p (alt_p identifier_p (take_while1 is_digit)) (\<lambda>k.
     map_p (\<lambda>_. AKey k) peek_after_key))"

definition parse_accessor :: "accessor parser" where
  "parse_accessor = alt_p index_parser key_parser"

definition peek_after_numeric_base :: "unit parser" where
  "peek_after_numeric_base s =
    (if s = [] \<or> is_blank (hd s) \<or> list_ex (\<lambda>t. prefix t s) [''['', ''.'', ''=='', ''!='', ''>='', ''<='', ''>'', ''<'']
     then Some ((), s) else None)"

definition parse_base_variable_name :: "string parser" where
  "parse_base_variable_name = verify_p (\<lambda>ident. \<not> is_keyword ident) (alt_p identifier_p
     (taken (bind_p (take_while1 is_digit) (\<lambda>_. peek_after_numeric_base))))"

definition parse_condition_lhs :: "condition_left parser" where
  "parse_condition_lhs = bind_p parse_base_variable_name (\<lambda>base.
     bind_p (repeat_fold parse_accessor (\<lambda>as a. as @ [a]) []) (\<lambda>as.
     return_p (if as = [] then Simple base else Path \<lparr>vp_base = base, vp_accessors = as\<rparr>)))"

section \<open>Conditions and expressions\<close>

definition operator_table :: "(unit parser \<times> comparison_operator) list" where
  "operator_table = [(caseless_p ''contains'', OpContains), (caseless_p ''starts_with'', OpStartsWith),
     (caseless_p ''ends_with'', OpEndsWith), (literal_p ''>='', OpGte), (literal_p ''<='', OpLte),
     (literal_p ''=='', OpEq), (literal_p ''!='', OpNe), (literal_p ''>'', OpGt), (literal_p ''<'', OpLt)]"

fun first_of :: "(unit parser \<times> 'a) list \<Rightarrow> 'a parser" where
  "first_of [] s = None"
| "first_of ((p, x) # ps) s = alt_p (map_p (\<lambda>_. x) p) (first_of ps) s"

definition parse_comparison_operator :: "comparison_operator parser" where
  "parse_comparison_operator = spaced (first_of operator_table)"

definition parse_condition :: "expression parser" where
  "parse_condition = bind_p parse_condition_lhs (\<lambda>l.
     bind_p parse_comparison_operator (\<lambda>op.
     map_p (\<lambda>r. Condition \<lparr>cond_left = l, cond_operator = op, cond_right = r\<rparr>) parse_value))"

text \<open>The parsers of the grammar's levels take the parser of a nested expression.\<close>

definition parse_parenthesised :: "expression parser \<Rightarrow> expression parser" where
  "parse_parenthesised pe = bind_p (literal_p ''('') (\<lambda>_. blanks_then
     (bind_p pe (\<lambda>e. blanks_then (map_p (\<lambda>_. e) (literal_p '')'')))))"

definition parse_term :: "expression parser \<Rightarrow> expression parser" where
  "parse_term pe = spaced (alt_p (parse_parenthesised pe) parse_condition)"

definition logical_operator_p :: "string \<Rightarrow> logical_operator \<Rightarrow> logical_operator parser" where
  "logical_operator_p t op = spaced (map_p (\<lambda>_. op) (caseless_p t))"

definition parse_chain :: "expression parser \<Rightarrow> logical_operator parser \<Rightarrow> expression parser" where
  "parse_chain p op = bind_p p (\<lambda>left.
     repeat_fold (bind_p op (\<lambda>x. map_p (Pair x) p)) (\<lambda>acc (x, right). Logical acc x right) left)"

definition parse_and_expression :: "expression parser \<Rightarrow> expression parser" where
  "parse_and_expression pe = parse_chain (parse_term pe) (logical_operator_p ''AND'' LAnd)"

definition parse_or_expression :: "expression parser \<Rightarrow> expression parser" where
  "parse_or_expression pe = parse_chain (parse_and_expression pe) (logical_operator_p ''OR'' LOr)"

text \<open>\<open>parse_expression\<close>, nested at most \<open>n\<close> deep. Every nesting takes an opening parenthesis, so
  the length of the input bounds it.\<close>

primrec parse_expression_to :: "nat \<Rightarrow> expression parser" where
  "parse_expression_to 0 s = None"
| "parse_expression_to (Suc n) s = spaced (parse_or_expression (parse_expression_to n)) s"

definition parse_expression :: "expression parser" where
  "parse_expression s = parse_expression_to (Suc (length s)) s"

definition parse_filter_expression :: "string \<Rightarrow> expression option" where
  "parse_filter_expression s = (case parse_expression s of
     Some (e, []) \<Rightarrow> Some e
   | _ \<Rightarrow> None)"

end
