(* ===== verification/Evm_Filter.thy ===== *)
theory Evm_Filter imports Evm_Evaluator_Properties Expression_Parser begin

text \<open>
  The EVM block filter (src/src/services/filter/filters/evm/filter.rs): which transactions of a
  block match which monitors. Hashes, addresses and blooms are lists of bytes. The ABI library and the node's answers are parameters.
  Rust's panics end the process (Cargo.toml: \<open>panic = 'abort'\<close>); where the code can panic, the
  result is an option and \<open>None\<close> is the panic.
\<close>

section \<open>Chain data\<close>

record evm_l2 =
  l2_deposit_receipt_version :: "u64 option"
  l2_source_hash :: "byte list option"
  l2_mint :: "u256 option"
  l2_y_parity :: "u64 option"

record evm_transaction =
  tx_hash :: "byte list"
  tx_nonce :: u256
  tx_block_hash :: "byte list option"
  tx_block_number :: "u64 option"
  tx_index :: "u64 option"
  tx_from :: "byte list option"
  tx_to :: "byte list option"
  tx_value :: u256
  tx_gas_price :: "u256 option"
  tx_gas :: u256
  tx_input :: "byte list"
  tx_v :: "u64 option"
  tx_r :: "u256 option"
  tx_s :: "u256 option"
  tx_raw :: "byte list option"
  tx_type :: "u64 option"
  tx_access_list :: "(byte list \<times> byte list list) list option"
  tx_max_fee_per_gas :: "u256 option"
  tx_max_priority_fee_per_gas :: "u256 option"
  tx_l2 :: evm_l2
  tx_extra :: "(string \<times> json) list"

record evm_log =
  lg_address :: "byte list"
  lg_topics :: "byte list list"
  lg_data :: "byte list"
  lg_block_hash :: "byte list option"
  lg_block_number :: "u64 option"
  lg_transaction_hash :: "byte list option"
  lg_transaction_index :: "u64 option"
  lg_log_index :: "u256 option"
  lg_transaction_log_index :: "u256 option"
  lg_log_type :: "string option"
  lg_removed :: "bool option"

record evm_receipt =
  rc_transaction_hash :: "byte list"
  rc_transaction_index :: u64
  rc_block_hash :: "byte list option"
  rc_block_number :: "u64 option"
  rc_from :: "byte list"
  rc_to :: "byte list option"
  rc_cumulative_gas_used :: u256
  rc_gas_used :: "u256 option"
  rc_contract_address :: "byte list option"
  rc_logs :: "evm_log list"
  rc_status :: "u64 option"
  rc_root :: "byte list option"
  rc_logs_bloom :: "byte list"
  rc_transaction_type :: "u64 option"
  rc_effective_gas_price :: "u256 option"

record evm_block =
  bl_hash :: "byte list option"
  bl_parent_hash :: "byte list"
  bl_uncles_hash :: "byte list"
  bl_author :: "byte list"
  bl_state_root :: "byte list"
  bl_transactions_root :: "byte list"
  bl_receipts_root :: "byte list"
  bl_number :: "u64 option"
  bl_gas_used :: u256
  bl_gas_limit :: u256
  bl_base_fee_per_gas :: "u256 option"
  bl_extra_data :: "byte list"
  bl_logs_bloom :: "byte list option"
  bl_timestamp :: u256
  bl_difficulty :: u256
  bl_total_difficulty :: "u256 option"
  bl_seal_fields :: "byte list list"
  bl_uncles :: "byte list list"
  bl_transactions :: "evm_transaction list"
  bl_size :: "u256 option"
  bl_mix_hash :: "byte list option"
  bl_nonce :: "byte list option"

datatype 'o block_type = BlockEVM evm_block | BlockOther 'o

text \<open>The data of the ABI library: functions and events with their selectors.\<close>

record abi_param =
  ap_name :: string
  ap_ty :: string
  ap_selector_type :: string
  ap_indexed :: bool

record abi_entry =
  ab_name :: string
  ab_inputs :: "abi_param list"
  ab_selector :: "byte list"

record abi_contract =
  ab_functions :: "abi_entry list"
  ab_events :: "abi_entry list"

record 'abi evm_env =
  env_json :: json_lib
  env_evm :: evm_lib
  env_u64_print :: "u64 \<Rightarrow> string"
  env_abi :: "'abi \<Rightarrow> abi_contract option"
  env_types_ok :: "string list \<Rightarrow> bool"
  env_decode_params :: "string list \<Rightarrow> byte list \<Rightarrow> sol_value list option"
  env_log_data_ok :: "byte list list \<Rightarrow> byte list \<Rightarrow> bool"
  env_decode_log :: "abi_entry \<Rightarrow> byte list list \<Rightarrow> byte list \<Rightarrow> (sol_value list \<times> sol_value list) option"

section \<open>Expressions\<close>

definition evaluate_expression :: "'abi evm_env \<Rightarrow> string \<Rightarrow> match_param_entry list \<Rightarrow> evaluation_error + bool" where
  "evaluate_expression env expr args =
     (if trim expr = [] then Inl (ParseError ''Expression cannot be empty'')
      else case parse_filter_expression expr of
          None \<Rightarrow> Inl (ParseError (''Failed to parse expression '' @ expr))
        | Some ast \<Rightarrow> evaluate (env_json env) (evm_evaluator (env_json env) (env_evm env) args) ast)"

section \<open>Transactions\<close>

definition entry :: "string \<Rightarrow> string \<Rightarrow> string \<Rightarrow> match_param_entry" where
  "entry n v k = \<lparr>pe_name = n, pe_value = v, pe_indexed = False, pe_kind = k\<rparr>"

definition or_zero :: "u256 option \<Rightarrow> u256" where
  "or_zero x = (case x of None \<Rightarrow> 0 | Some u \<Rightarrow> u)"

definition tx_params :: "'abi evm_env \<Rightarrow> evm_transaction \<Rightarrow> evm_receipt option \<Rightarrow> match_param_entry list" where
  "tx_params env tx receipt =
     (let el = env_evm env;
          addr = (\<lambda>a. case a of None \<Rightarrow> '''' | Some a \<Rightarrow> h160_to_string el a)
      in [entry ''value'' (u256_print el (tx_value tx)) ''uint256'',
          entry ''from'' (addr (tx_from tx)) ''address'',
          entry ''to'' (addr (tx_to tx)) ''address'',
          entry ''hash'' (b256_to_string el (tx_hash tx)) ''string'',
          entry ''gas_price'' (u256_print el (or_zero (tx_gas_price tx))) ''uint256'',
          entry ''max_fee_per_gas'' (u256_print el (or_zero (tx_max_fee_per_gas tx))) ''uint256'',
          entry ''max_priority_fee_per_gas'' (u256_print el (or_zero (tx_max_priority_fee_per_gas tx))) ''uint256'',
          entry ''gas_limit'' (u256_print el (tx_gas tx)) ''uint256'',
          entry ''nonce'' (u256_print el (tx_nonce tx)) ''uint256'',
          entry ''input'' (''0x'' @ hex_encode el (tx_input tx)) ''string'',
          entry ''gas_used'' (case receipt of None \<Rightarrow> '''' | Some r \<Rightarrow> u256_print el (or_zero (rc_gas_used r))) ''uint256'',
          entry ''transaction_index'' (case tx_index tx of None \<Rightarrow> ''0'' | Some i \<Rightarrow> env_u64_print env i) ''uint64''])"

fun match_transaction_conditions :: "'abi evm_env \<Rightarrow> transaction_status \<Rightarrow> evm_transaction \<Rightarrow> evm_receipt option \<Rightarrow>
  transaction_condition list \<Rightarrow> transaction_condition list" where
  "match_transaction_conditions env st tx receipt [] = []"
| "match_transaction_conditions env st tx receipt (c # cs) =
     (if tc_status c = AnyStatus \<or> tc_status c = st then
        (case tc_expression c of
           Some expr \<Rightarrow> (case evaluate_expression env expr (tx_params env tx receipt) of
               Inr True \<Rightarrow> [\<lparr>tc_status = st, tc_expression = Some expr\<rparr>]
             | _ \<Rightarrow> match_transaction_conditions env st tx receipt cs)
         | None \<Rightarrow> [\<lparr>tc_status = st, tc_expression = None\<rparr>])
      else match_transaction_conditions env st tx receipt cs)"

definition find_matching_transaction :: "'abi evm_env \<Rightarrow> transaction_status \<Rightarrow> evm_transaction \<Rightarrow> evm_receipt option \<Rightarrow>
  'abi monitor \<Rightarrow> transaction_condition list" where
  "find_matching_transaction env st tx receipt m =
     (let conds = mc_transactions (mon_match_conditions m) in
      if conds = [] then [\<lparr>tc_status = AnyStatus, tc_expression = None\<rparr>]
      else match_transaction_conditions env st tx receipt conds)"

section \<open>Functions\<close>

definition abi_signature :: "abi_entry \<Rightarrow> string" where
  "abi_signature f = ab_name f @ ''('' @ join_with '','' (map ap_selector_type (ab_inputs f)) @ '')''"

definition decoded_entries :: "'abi evm_env \<Rightarrow> abi_entry \<Rightarrow> sol_value list \<Rightarrow> match_param_entry list" where
  "decoded_entries env f vals =
     map (\<lambda>(p, v). entry (ap_name p) (format_token_value (env_evm env) v) (ap_ty p)) (zip (ab_inputs f) vals)"

fun match_function_conditions :: "'abi evm_env \<Rightarrow> abi_entry \<Rightarrow> byte list \<Rightarrow> function_condition list \<Rightarrow>
  (function_condition \<times> match_params_map) option" where
  "match_function_conditions env f input [] = None"
| "match_function_conditions env f input (c # cs) =
     (let sig = abi_signature f; types = map ap_selector_type (ab_inputs f) in
      if are_same_signature (fc_signature c) sig then
        (if \<not> env_types_ok env types then None
         else case env_decode_params env types (drop 4 input) of
             None \<Rightarrow> match_function_conditions env f input cs
           | Some vals \<Rightarrow>
             (let params = decoded_entries env f vals in
              case fc_expression c of
                Some expr \<Rightarrow> (case evaluate_expression env expr params of
                    Inr True \<Rightarrow> Some (\<lparr>fc_signature = sig, fc_expression = Some expr\<rparr>,
                      \<lparr>pm_signature = sig, pm_args = Some params,
                       pm_hex_signature = Some (''0x'' @ hex_encode (env_evm env) (ab_selector f))\<rparr>)
                  | _ \<Rightarrow> match_function_conditions env f input cs)
              | None \<Rightarrow> Some (\<lparr>fc_signature = sig, fc_expression = None\<rparr>,
                  \<lparr>pm_signature = sig, pm_args = Some params,
                   pm_hex_signature = Some (hex_encode (env_evm env) (ab_selector f))\<rparr>)))
      else match_function_conditions env f input cs)"

definition find_matching_functions_for_transaction :: "'abi evm_env \<Rightarrow> (string \<times> 'abi) list \<Rightarrow> evm_transaction \<Rightarrow>
  'abi monitor \<Rightarrow> (function_condition \<times> match_params_map) option" where
  "find_matching_functions_for_transaction env specs tx m =
     (if mc_functions (mon_match_conditions m) = [] then None
      else case find (\<lambda>a. case tx_to tx of None \<Rightarrow> False
             | Some t \<Rightarrow> are_same_address (aw_address a) (h160_to_string (env_evm env) t)) (mon_addresses m) of
          None \<Rightarrow> None
        | Some addr \<Rightarrow> (case find (\<lambda>(a, _). are_same_address a (aw_address addr)) specs of
            None \<Rightarrow> None
          | Some (_, abi) \<Rightarrow> (case env_abi env abi of
              None \<Rightarrow> None
            | Some contract \<Rightarrow>
              if length (tx_input tx) < 4 then None
              else (case find (\<lambda>f. ab_selector f = take 4 (tx_input tx)) (ab_functions contract) of
                  None \<Rightarrow> None
                | Some f \<Rightarrow> match_function_conditions env f (tx_input tx) (mc_functions (mon_match_conditions m))))))"

section \<open>Events\<close>

text \<open>The decoded values are pulled from the indexed and the body iterator in turn; an iterator that
  has run out gives the empty text.\<close>

fun pull_values :: "abi_param list \<Rightarrow> string list \<Rightarrow> string list \<Rightarrow> match_param_entry list" where
  "pull_values [] xs ys = []"
| "pull_values (p # ps) xs ys =
     (let (v, xs', ys') = (if ap_indexed p
        then (case xs of [] \<Rightarrow> ('''', [], ys) | x # xs'' \<Rightarrow> (x, xs'', ys))
        else (case ys of [] \<Rightarrow> ('''', xs, []) | y # ys'' \<Rightarrow> (y, xs, ys'')))
      in \<lparr>pe_name = ap_name p, pe_value = v, pe_indexed = ap_indexed p, pe_kind = ap_ty p\<rparr> # pull_values ps xs' ys')"

text \<open>The search for the event reads \<open>topics[0]\<close> for every event of the ABI, which panics on a log
  without topics. (When no event is found the code logs \<open>topics[0]\<close> at debug level; that
  reading is left out.)\<close>

definition decode_events :: "'abi evm_env \<Rightarrow> 'abi contract_spec \<Rightarrow> evm_log \<Rightarrow> match_params_map option option" where
  "decode_events env spec log = (case spec of
       SpecEVM abi \<Rightarrow> (case env_abi env abi of
           None \<Rightarrow> Some None
         | Some contract \<Rightarrow>
           if ab_events contract \<noteq> [] \<and> lg_topics log = [] then None
           else (case find (\<lambda>e. ab_selector e = hd (lg_topics log)) (ab_events contract) of
               None \<Rightarrow> Some None
             | Some e \<Rightarrow>
               if \<not> env_log_data_ok env (lg_topics log) (lg_data log) then Some None
               else (case env_decode_log env e (lg_topics log) (lg_data log) of
                   None \<Rightarrow> Some None
                 | Some (ix, body) \<Rightarrow> Some (Some
                     \<lparr>pm_signature = abi_signature e,
                      pm_args = Some (pull_values (ab_inputs e) (map (format_token_value (env_evm env)) ix)
                        (map (format_token_value (env_evm env)) body)),
                      pm_hex_signature = Some (''0x'' @ hex_encode (env_evm env) (ab_selector e))\<rparr>))))
     | _ \<Rightarrow> Some None)"

fun match_event_conditions :: "'abi evm_env \<Rightarrow> match_params_map \<Rightarrow> event_condition list \<Rightarrow> event_condition option" where
  "match_event_conditions env ev [] = None"
| "match_event_conditions env ev (c # cs) =
     (if are_same_signature (ec_signature c) (pm_signature ev) then
        (case ec_expression c of
           None \<Rightarrow> Some \<lparr>ec_signature = pm_signature ev, ec_expression = None\<rparr>
         | Some expr \<Rightarrow> (case evaluate_expression env expr (case pm_args ev of None \<Rightarrow> [] | Some a \<Rightarrow> a) of
               Inr True \<Rightarrow> Some \<lparr>ec_signature = pm_signature ev, ec_expression = Some expr\<rparr>
             | _ \<Rightarrow> match_event_conditions env ev cs))
      else match_event_conditions env ev cs)"

definition match_event :: "'abi evm_env \<Rightarrow> 'abi monitor \<Rightarrow> match_params_map \<Rightarrow> event_condition option" where
  "match_event env m ev =
     (let conds = mc_events (mon_match_conditions m) in
      if conds = [] then Some \<lparr>ec_signature = pm_signature ev, ec_expression = None\<rparr>
      else match_event_conditions env ev conds)"

text \<open>The matched events with their arguments, and the addresses of the monitored logs.\<close>

fun find_matching_events_for_transaction :: "'abi evm_env \<Rightarrow> evm_log list \<Rightarrow> 'abi monitor \<Rightarrow>
  ((event_condition \<times> match_params_map) list \<times> string list) option" where
  "find_matching_events_for_transaction env [] m = Some ([], [])"
| "find_matching_events_for_transaction env (log # logs) m =
     (case find (\<lambda>a. are_same_address (aw_address a) (h160_to_string (env_evm env) (lg_address log))) (mon_addresses m) of
        None \<Rightarrow> find_matching_events_for_transaction env logs m
      | Some addr \<Rightarrow>
        (case (case aw_contract_spec addr of None \<Rightarrow> Some None | Some spec \<Rightarrow> decode_events env spec log) of
           None \<Rightarrow> None
         | Some decoded \<Rightarrow>
           (case find_matching_events_for_transaction env logs m of
              None \<Rightarrow> None
            | Some (evs, addrs) \<Rightarrow> Some
                ((case decoded of None \<Rightarrow> evs | Some ev \<Rightarrow>
                    (case match_event env m ev of None \<Rightarrow> evs | Some c \<Rightarrow> (c, ev) # evs)),
                 h160_to_string (env_evm env) (lg_address log) # addrs))))"

section \<open>The block\<close>

definition needs_receipt :: "'abi monitor \<Rightarrow> evm_log list \<Rightarrow> bool" where
  "needs_receipt m logs \<longleftrightarrow> list_ex (\<lambda>c. (tc_status c \<noteq> AnyStatus \<and> logs = [])
     \<or> (case tc_expression c of None \<Rightarrow> False | Some e \<Rightarrow> sublist ''gas_used'' e)) (mc_transactions (mon_match_conditions m))"

definition tx_status_of :: "evm_receipt option \<Rightarrow> transaction_status" where
  "tx_status_of receipt = (case receipt of
       Some r \<Rightarrow> if rc_status r = Some 1 then Success else Failure
     | None \<Rightarrow> Success)"

definition log_hash :: "evm_lib \<Rightarrow> evm_log \<Rightarrow> string" where
  "log_hash el l = b256_to_string el (case lg_transaction_hash l of None \<Rightarrow> replicate 32 0 | Some h \<Rightarrow> h)"

definition group_logs :: "evm_lib \<Rightarrow> evm_log list \<Rightarrow> (string \<rightharpoonup> evm_log list)" where
  "group_logs el logs = fold (\<lambda>l m. m(log_hash el l \<mapsto> entry_or m (log_hash el l) [] @ [l])) logs Map.empty"

definition should_match :: "match_conditions \<Rightarrow> bool \<Rightarrow> bool \<Rightarrow> bool \<Rightarrow> bool" where
  "should_match mc has_event has_function has_transaction =
     (case (mc_events mc = [], mc_functions mc = [], mc_transactions mc = []) of
        (True, True, True) \<Rightarrow> True
      | (True, True, False) \<Rightarrow> has_transaction
      | (_, _, True) \<Rightarrow> has_event \<or> has_function
      | _ \<Rightarrow> (has_event \<or> has_function) \<and> has_transaction)"

record 'abi evm_monitor_match =
  em_monitor :: "'abi monitor"
  em_transaction :: evm_transaction
  em_receipt :: "evm_receipt option"
  em_logs :: "evm_log list option"
  em_network_slug :: string
  em_matched_on :: match_conditions
  em_matched_on_args :: "match_arguments option"

definition strip_specs :: "'abi monitor \<Rightarrow> 'abi monitor" where
  "strip_specs m = m\<lparr>mon_addresses := map (\<lambda>a. a\<lparr>aw_contract_spec := None\<rparr>) (mon_addresses m)\<rparr>"

text \<open>Sender, recipient and the emitters of the monitored logs, sorted and without repetitions.\<close>

definition involved_addresses :: "evm_lib \<Rightarrow> evm_transaction \<Rightarrow> string list \<Rightarrow> string list" where
  "involved_addresses el tx log_addrs = remdups_adj (sort
     ((case tx_from tx of None \<Rightarrow> [] | Some a \<Rightarrow> [h160_to_string el a])
      @ (case tx_to tx of None \<Rightarrow> [] | Some a \<Rightarrow> [h160_to_string el a]) @ log_addrs))"

definition has_address_match :: "'abi monitor \<Rightarrow> string list \<Rightarrow> bool" where
  "has_address_match m involved \<longleftrightarrow>
     list_ex (\<lambda>a. normalize_address (aw_address a) \<in> set (map normalize_address involved)) (mon_addresses m)"

definition build_match :: "network \<Rightarrow> 'abi monitor \<Rightarrow> evm_transaction \<Rightarrow> evm_receipt option \<Rightarrow> evm_log list \<Rightarrow>
  (event_condition \<times> match_params_map) list \<Rightarrow> (function_condition \<times> match_params_map) list \<Rightarrow>
  transaction_condition list \<Rightarrow> bool \<Rightarrow> bool \<Rightarrow> bool \<Rightarrow> 'abi evm_monitor_match" where
  "build_match net m tx receipt logs evs fns txs has_event has_function has_transaction =
     \<lparr>em_monitor = strip_specs m, em_transaction = tx, em_receipt = receipt, em_logs = Some logs,
      em_network_slug = slug net,
      em_matched_on = \<lparr>
        mc_functions = (if has_function then map fst fns else []),
        mc_events = (if has_event then map fst evs else []),
        mc_transactions = (if has_transaction then txs else [])\<rparr>,
      em_matched_on_args = Some \<lparr>
        ma_functions = (if has_function then Some (map snd fns) else None),
        ma_events = (if has_event then Some (map snd evs) else None)\<rparr>\<rparr>"

text \<open>One transaction and one monitor, the receipt fetched or not; \<open>None\<close> is a panic.\<close>

definition match_transaction :: "'abi evm_env \<Rightarrow> network \<Rightarrow> (string \<times> 'abi) list \<Rightarrow> 'abi monitor \<Rightarrow>
  evm_transaction \<Rightarrow> evm_receipt option \<Rightarrow> evm_log list \<Rightarrow> 'abi evm_monitor_match list option" where
  "match_transaction env net specs m tx receipt logs =
     (let mc = mon_match_conditions m;
          txs = find_matching_transaction env (tx_status_of receipt) tx receipt m
      in case find_matching_events_for_transaction env logs m of
        None \<Rightarrow> None
      | Some (evs, log_addrs) \<Rightarrow>
       (let fns = (case find_matching_functions_for_transaction env specs tx m of None \<Rightarrow> [] | Some f \<Rightarrow> [f]);
            has_event = (mc_events mc \<noteq> [] \<and> evs \<noteq> []);
            has_function = (mc_functions mc \<noteq> [] \<and> fns \<noteq> []);
            has_transaction = (mc_transactions mc \<noteq> [] \<and> txs \<noteq> [])
        in Some (if has_address_match m (involved_addresses (env_evm env) tx log_addrs)
             \<and> should_match mc has_event has_function has_transaction
           then [build_match net m tx receipt logs evs fns txs has_event has_function has_transaction] else [])))"

text \<open>The node's answers: the logs of a block and the receipt of a transaction.\<close>

record evm_node =
  get_logs_for_blocks :: "u64 \<Rightarrow> string + evm_log list"
  get_transaction_receipt :: "string \<Rightarrow> string + evm_receipt"

datatype filter_error = Block_type_mismatch string | Node_error string | Filter_internal_error string | Filter_network_error string

text \<open>Loops that collect results, stopping at the first error or panic.\<close>

fun collect :: "('x \<Rightarrow> ('e + 'y list) option) \<Rightarrow> 'x list \<Rightarrow> ('e + 'y list) option" where
  "collect f [] = Some (Inr [])"
| "collect f (x # xs) = (case f x of
       None \<Rightarrow> None
     | Some (Inl e) \<Rightarrow> Some (Inl e)
     | Some (Inr ys) \<Rightarrow> (case collect f xs of
         None \<Rightarrow> None
       | Some (Inl e) \<Rightarrow> Some (Inl e)
       | Some (Inr zs) \<Rightarrow> Some (Inr (ys @ zs))))"

definition filter_transaction :: "'abi evm_env \<Rightarrow> evm_node \<Rightarrow> network \<Rightarrow> (string \<times> 'abi) list \<Rightarrow> evm_log list \<Rightarrow>
  'abi monitor \<Rightarrow> evm_transaction \<Rightarrow> (filter_error + 'abi evm_monitor_match list) option" where
  "filter_transaction env node net specs all_logs m tx =
     (let h = b256_to_string (env_evm env) (tx_hash tx);
          logs = entry_or (group_logs (env_evm env) all_logs) h [];
          receipt = (if needs_receipt m all_logs then map_sum id Some (get_transaction_receipt node h) else Inr None)
      in case receipt of
        Inl e \<Rightarrow> Some (Inl (Node_error e))
      | Inr r \<Rightarrow> map_option Inr (match_transaction env net specs m tx r logs))"

definition evm_filter_block :: "'abi evm_env \<Rightarrow> evm_node \<Rightarrow> network \<Rightarrow> 'o block_type \<Rightarrow> 'abi monitor list \<Rightarrow>
  (string \<times> 'abi contract_spec) list option \<Rightarrow> (filter_error + 'abi evm_monitor_match list) option" where
  "evm_filter_block env node net block monitors specs = (case block of
       BlockOther _ \<Rightarrow> Some (Inl (Block_type_mismatch ''Expected EVM block''))
     | BlockEVM b \<Rightarrow>
       (case get_logs_for_blocks node (case bl_number b of None \<Rightarrow> 0 | Some n \<Rightarrow> n) of
          Inl e \<Rightarrow> Some (Inl (Node_error e))
        | Inr all_logs \<Rightarrow>
          (let evm_specs = List.map_filter (\<lambda>(a, s). case s of SpecEVM abi \<Rightarrow> Some (a, abi) | _ \<Rightarrow> None)
                 (case specs of None \<Rightarrow> [] | Some l \<Rightarrow> l)
           in collect (\<lambda>m. collect (filter_transaction env node net evm_specs all_logs m) (bl_transactions b)) monitors)))"

end
