(* ===== verification/Match_Handler.thy ===== *)
theory Match_Handler imports Evm_Filter begin

text \<open>
  From matches to template variables (src/src/services/filter/filter_match.rs): the data of a
  match as a JSON value, its flattening to dotted names, and the call of the trigger service.
  A JSON object is an association list with \<open>AList.update\<close> as its insertion.
\<close>

section \<open>Matches\<close>

text \<open>Matches of the other chains, with what the handler reads of them: the transaction is its
  hash or, on Solana, its signature.\<close>

record 'abi chain_match =
  cm_monitor :: "'abi monitor"
  cm_transaction :: string
  cm_network_slug :: string
  cm_matched_on :: match_conditions
  cm_matched_on_args :: "match_arguments option"

datatype 'abi monitor_match =
    MatchEVM "'abi evm_monitor_match"
  | MatchStellar "'abi chain_match"
  | MatchMidnight "'abi chain_match"
  | MatchSolana "'abi chain_match"

fun match_monitor :: "'abi monitor_match \<Rightarrow> 'abi monitor" where
  "match_monitor (MatchEVM m) = em_monitor m"
| "match_monitor (MatchStellar m) = cm_monitor m"
| "match_monitor (MatchMidnight m) = cm_monitor m"
| "match_monitor (MatchSolana m) = cm_monitor m"

section \<open>The data of a match\<close>

text \<open>The arguments of an entry: those of every recorded match with the same signature, inserted
  in order, so that a later value replaces an earlier one of the same name.\<close>

definition collect_args :: "string \<Rightarrow> match_params_map list \<Rightarrow> (string \<times> json) list" where
  "collect_args sig args = fold (\<lambda>fa obj. if pm_signature fa = sig
       then (case pm_args fa of
           None \<Rightarrow> obj
         | Some es \<Rightarrow> fold (\<lambda>e. AList.update (pe_name e) (JString (pe_value e))) es obj)
       else obj) args []"

definition matched_entry :: "match_params_map list \<Rightarrow> string \<Rightarrow> json" where
  "matched_entry args sig = JObject [(''signature'', JString sig), (''args'', JObject (collect_args sig args))]"

definition args_of :: "(match_arguments \<Rightarrow> match_params_map list option) \<Rightarrow> match_arguments option \<Rightarrow> match_params_map list" where
  "args_of sel args = (case args of None \<Rightarrow> [] | Some a \<Rightarrow> (case sel a of None \<Rightarrow> [] | Some l \<Rightarrow> l))"

definition match_json :: "string \<Rightarrow> (string \<times> json) list \<Rightarrow> match_conditions \<Rightarrow> match_arguments option \<Rightarrow> json" where
  "match_json name tx on args = JObject [
     (''monitor'', JObject [(''name'', JString name)]),
     (''transaction'', JObject tx),
     (''functions'', JArray (map (\<lambda>c. matched_entry (args_of ma_functions args) (fc_signature c)) (mc_functions on))),
     (''events'', JArray (map (\<lambda>c. matched_entry (args_of ma_events args) (ec_signature c)) (mc_events on)))]"

definition evm_transaction_json :: "evm_lib \<Rightarrow> evm_transaction \<Rightarrow> (string \<times> json) list" where
  "evm_transaction_json el tx =
     (let sender = (case tx_from tx of None \<Rightarrow> replicate 20 0 | Some a \<Rightarrow> a);
          base = [(''hash'', JString (b256_to_string el (tx_hash tx))),
                  (''from'', JString (h160_to_string el sender)),
                  (''value'', JString (u256_print el (tx_value tx)))]
      in case tx_to tx of None \<Rightarrow> base
         | Some to \<Rightarrow> AList.update ''to'' (JString (h160_to_string el to)) base)"

fun match_data :: "evm_lib \<Rightarrow> 'abi monitor_match \<Rightarrow> json" where
  "match_data el (MatchEVM m) = match_json (mon_name (em_monitor m)) (evm_transaction_json el (em_transaction m))
     (em_matched_on m) (em_matched_on_args m)"
| "match_data el (MatchStellar m) = match_json (mon_name (cm_monitor m)) [(''hash'', JString (cm_transaction m))]
     (cm_matched_on m) (cm_matched_on_args m)"
| "match_data el (MatchMidnight m) = match_json (mon_name (cm_monitor m)) [(''hash'', JString (cm_transaction m))]
     (cm_matched_on m) (cm_matched_on_args m)"
| "match_data el (MatchSolana m) = match_json (mon_name (cm_monitor m)) [(''signature'', JString (cm_transaction m))]
     (cm_matched_on m) (cm_matched_on_args m)"

section \<open>Flattening\<close>

definition insert_primitive :: "string \<Rightarrow> string \<Rightarrow> (string \<rightharpoonup> string) \<Rightarrow> (string \<rightharpoonup> string)" where
  "insert_primitive pfx v result = result((if pfx = [] then ''value'' else pfx) \<mapsto> v)"

definition dotted :: "string \<Rightarrow> string \<Rightarrow> string" where
  "dotted pfx key = pfx @ ''.'' @ key"

fun flatten_json_path :: "json_lib \<Rightarrow> json \<Rightarrow> string \<Rightarrow> (string \<rightharpoonup> string) \<Rightarrow> (string \<rightharpoonup> string)"
  and flatten_object :: "json_lib \<Rightarrow> (string \<times> json) list \<Rightarrow> string \<Rightarrow> (string \<rightharpoonup> string) \<Rightarrow> (string \<rightharpoonup> string)"
  and flatten_array :: "json_lib \<Rightarrow> nat \<Rightarrow> json list \<Rightarrow> string \<Rightarrow> (string \<rightharpoonup> string) \<Rightarrow> (string \<rightharpoonup> string)" where
  "flatten_json_path jl (JObject obj) pfx result = flatten_object jl obj pfx result"
| "flatten_json_path jl (JArray arr) pfx result = flatten_array jl 0 arr pfx result"
| "flatten_json_path jl (JString s) pfx result = insert_primitive pfx s result"
| "flatten_json_path jl (JNumber n) pfx result = insert_primitive pfx (number_print jl n) result"
| "flatten_json_path jl (JBool b) pfx result = insert_primitive pfx (show_bool b) result"
| "flatten_json_path jl JNull pfx result = insert_primitive pfx ''null'' result"
| "flatten_object jl [] pfx result = result"
| "flatten_object jl ((key, val) # obj) pfx result = flatten_object jl obj pfx
     (flatten_json_path jl val (if pfx = [] then key else dotted pfx key) result)"
| "flatten_array jl idx [] pfx result = result"
| "flatten_array jl idx (val # arr) pfx result = flatten_array jl (Suc idx) arr pfx
     (flatten_json_path jl val (dotted pfx (show_nat idx)) result)"

definition json_to_hashmap :: "json_lib \<Rightarrow> json \<Rightarrow> (string \<rightharpoonup> string)" where
  "json_to_hashmap jl j = flatten_json_path jl j [] Map.empty"

section \<open>The handler\<close>

type_synonym scripts = "string \<rightharpoonup> script_language \<times> string"

text \<open>The trigger service: trigger slugs, variables, match and scripts to a result; \<open>None\<close> is a call that
  never returns.\<close>

type_synonym ('e, 'abi, 's) trigger_exec =
  "string list \<Rightarrow> (string \<rightharpoonup> string) \<Rightarrow> 'abi monitor_match \<Rightarrow> scripts \<Rightarrow> 's \<Rightarrow> (('e + unit) \<times> 's) option"

definition handle_match :: "json_lib \<Rightarrow> evm_lib \<Rightarrow> ('e, 'abi, 's) trigger_exec \<Rightarrow> 'abi monitor_match \<Rightarrow> scripts \<Rightarrow> 's \<Rightarrow>
  ((filter_error + unit) \<times> 's) option" where
  "handle_match jl el exec m trigger_scripts s =
     (case exec (mon_triggers (match_monitor m)) (json_to_hashmap jl (match_data el m)) m trigger_scripts s of
        None \<Rightarrow> None
      | Some (_, s') \<Rightarrow> Some (Inr (), s'))"

end
