(* ===== verification/Script_Executor.thy ===== *)
theory Script_Executor imports Match_Handler begin

text \<open>
  Execution of scripts (src/src/services/trigger/script/): the three executors, the interaction
  with the child process and the reading of its output. The operating system is a parameter:
  what a spawned process does with its input and when and how it exits. \<open>None\<close> is a call that never
  returns.
\<close>

record process_output =
  po_success :: bool
  po_stdout :: string
  po_stderr :: string

text \<open>Writing to a pipe ends, fails (the reader is gone) or blocks (nobody reads and the pipe is full).\<close>

datatype write_result = Written | Write_failed string | Write_blocked

text \<open>A child process; \<open>ch_exit\<close> is the time in milliseconds after which it exits, and its output.\<close>

record child =
  ch_stdin :: bool
  ch_write :: "string \<Rightarrow> write_result"
  ch_shutdown :: "string option"
  ch_exit :: "(nat \<times> (string + process_output)) option"

record 'abi script_env =
  se_match_json :: "'abi monitor_match \<Rightarrow> json"
  se_print :: "json \<Rightarrow> string option"
  se_spawn :: "string \<Rightarrow> string list \<Rightarrow> string + child"

definition process_script_output :: "process_output \<Rightarrow> bool \<Rightarrow> string + bool" where
  "process_script_output out from_custom_notification =
     (if \<not> po_success out then Inl (''Script execution failed: '' @ po_stderr out)
      else if from_custom_notification then Inr True
      else if trim (po_stdout out) = [] then Inl ''Script produced no output''
      else if lines (po_stdout out) = [] then Inl ''No output from script''
      else let last_line = trim (last (lines (po_stdout out)));
               l = to_lowercase last_line
           in if l = ''true'' then Inr True
              else if l = ''false'' then Inr False
              else Inl (''Last line of output is not a valid boolean: '' @ last_line))"

definition process_command :: "child \<Rightarrow> string \<Rightarrow> u32 \<Rightarrow> bool \<Rightarrow> (string + bool) option" where
  "process_command cmd input_json timeout_ms from_custom_notification =
     (if \<not> ch_stdin cmd then Some (Inl ''Failed to get stdin handle'')
      else case ch_write cmd input_json of
          Write_failed e \<Rightarrow> Some (Inl (''Failed to write input to script: '' @ e))
        | Write_blocked \<Rightarrow> None
        | Written \<Rightarrow> (case ch_shutdown cmd of
            Some e \<Rightarrow> Some (Inl (''Failed to close stdin: '' @ e))
          | None \<Rightarrow> (case ch_exit cmd of
              None \<Rightarrow> Some (Inl ''Script execution timed out'')
            | Some (t, r) \<Rightarrow>
              if unat timeout_ms < t then Some (Inl ''Script execution timed out'')
              else Some (case r of
                  Inl e \<Rightarrow> Inl (''Failed to wait for script output: '' @ e)
                | Inr out \<Rightarrow> process_script_output out from_custom_notification))))"

text \<open>\<open>ScriptExecutorFactory::create\<close>: interpreter and option of a language.\<close>

fun script_command :: "script_language \<Rightarrow> string \<times> string" where
  "script_command Python = (''python3'', ''-c'')"
| "script_command JavaScript = (''node'', ''-e'')"
| "script_command Bash = (''sh'', ''-c'')"

definition script_input :: "'abi script_env \<Rightarrow> 'abi monitor_match \<Rightarrow> string list option \<Rightarrow> json" where
  "script_input env m args = JObject [(''monitor_match'', se_match_json env m),
     (''args'', case args of None \<Rightarrow> JNull | Some l \<Rightarrow> JArray (map JString l))]"

definition execute_script :: "'abi script_env \<Rightarrow> script_language \<Rightarrow> string \<Rightarrow> 'abi monitor_match \<Rightarrow> u32 \<Rightarrow> string list option \<Rightarrow>
  bool \<Rightarrow> (string + bool) option" where
  "execute_script env lang content m timeout_ms args from_custom_notification =
     (case se_print env (script_input env m args) of
        None \<Rightarrow> Some (Inl ''Failed to serialize monitor match and arguments'')
      | Some input_json \<Rightarrow> (case script_command lang of (prog, opt) \<Rightarrow>
          (case se_spawn env prog [opt, content] of
             Inl e \<Rightarrow> Some (Inl (''Failed to spawn '' @ prog @ '' process''))
           | Inr cmd \<Rightarrow> process_command cmd input_json timeout_ms from_custom_notification)))"

section \<open>Lemmas\<close>

lemma split_lf_subset: "l \<in> set (split_lf acc s) \<Longrightarrow> set l \<subseteq> set acc \<union> set s"
proof (induction acc s rule: split_lf.induct)
  case (2 acc c cs)
  have "set (strip_cr x) \<subseteq> set x" for x by (auto simp: strip_cr_def dest: in_set_butlastD)
  from this [of "rev acc"] 2 show ?case by (force split: if_split_asm)
qed (auto split: if_split_asm)

lemma trim_Nil: "trim s = [] \<longleftrightarrow> (\<forall>c \<in> set s. is_ws c)"
proof (cases "dropWhile is_ws s")
  case Nil
  then have "\<forall>c \<in> set s. is_ws c" by (simp only: dropWhile_eq_Nil_conv)
  then show ?thesis unfolding trim_def Nil by simp
next
  case (Cons c t)
  then have "\<not> is_ws c" using hd_dropWhile [of is_ws s] by simp
  moreover have "c \<in> set s" using Cons set_dropWhileD [of c is_ws s] by simp
  ultimately show ?thesis using Cons by (auto simp: trim_def)
qed

lemma blank_output:
  assumes "trim s = []" "lines s \<noteq> []"
  shows "trim (last (lines s)) = []"
  using split_lf_subset [of "last (lines s)" "[]" s] assms by (auto simp: trim_Nil lines_def)

lemma show_bool_cases: "l = show_bool b \<longleftrightarrow> (if b then l = ''true'' else l = ''false'')"
  by (simp add: show_bool_def)

section \<open>Properties\<close>

text \<open>A condition script decides by its last line: the answer is \<open>b\<close> exactly if the process succeeds and
  the last line of its output, trimmed and in lower case, is the text of \<open>b\<close>; a notification
  script answers yes exactly if it succeeds.\<close>

theorem script_output_meaning:
  "(process_script_output out False = Inr b \<longleftrightarrow>
      po_success out \<and> lines (po_stdout out) \<noteq> [] \<and> to_lowercase (trim (last (lines (po_stdout out)))) = show_bool b)
   \<and> (process_script_output out True = Inr b \<longleftrightarrow> po_success out \<and> b)"
proof -
  have "trim (po_stdout out) \<noteq> []" if "lines (po_stdout out) \<noteq> []"
    "to_lowercase (trim (last (lines (po_stdout out)))) = show_bool b"
    using blank_output [of "po_stdout out"] that by (auto simp: to_lowercase_def show_bool_def split: if_split_asm)
  then show ?thesis by (auto simp: process_script_output_def Let_def show_bool_cases)
qed

text \<open>The timeout bounds the wait for the script, not the writing of its input: once the input is
  written the call returns, and with an error if the script does not exit in time; but if the
  script does not read an input that does not fit the pipe, the call never returns, whatever
  the timeout and even if the script would exit.\<close>

theorem timeout_excludes_input:
  "(ch_stdin cmd \<and> ch_write cmd input_json = Write_blocked \<longrightarrow> process_command cmd input_json timeout_ms custom = None)
   \<and> (ch_write cmd input_json \<noteq> Write_blocked \<longrightarrow> process_command cmd input_json timeout_ms custom \<noteq> None)
   \<and> (ch_write cmd input_json = Written \<and> ch_exit cmd = None \<longrightarrow>
      (\<exists>e. process_command cmd input_json timeout_ms custom = Some (Inl e)))"
  by (cases "ch_write cmd input_json") (auto simp: process_command_def split: option.split sum.split)

definition sleeping_child :: child where
  "sleeping_child = \<lparr>ch_stdin = True, ch_write = (\<lambda>i. if length i < 4 then Written else Write_blocked),
     ch_shutdown = None, ch_exit = None\<rparr>"

theorem timeout_excludes_input_witness:
  "process_command sleeping_child ''{...}'' 1000 False = None
   \<and> process_command sleeping_child ''{}'' 1000 False \<noteq> None"
  using timeout_excludes_input [of sleeping_child "''{...}''" 1000 False] timeout_excludes_input [of sleeping_child "''{}''" 1000 False]
  by (simp add: sleeping_child_def)

end
