(* ===== verification/Template.thy ===== *)
theory Template imports Prelude begin

text \<open>
  Message templates (src/src/services/notification/template_formatter.rs): substitution of
  \<open>${name}\<close> by the variables of a match, and the sections that list the matched functions and
  events. The variables are a hash map, which is iterated in an arbitrary order: here a list of
  pairs with distinct names in the order of the iteration.
\<close>

section \<open>Text operations\<close>

text \<open>\<open>str::replace\<close> for a pattern that is not empty.\<close>

function replace_all :: "string \<Rightarrow> string \<Rightarrow> string \<Rightarrow> string" where
  "replace_all pat new [] = []"
| "replace_all pat new (c # s) =
     (if prefix pat (c # s) then new @ replace_all pat new (drop (length pat - 1) s) else c # replace_all pat new s)"
  by pat_completeness auto
termination
  by (relation "measure (\<lambda>(pat, new, s). length s)") auto

declare replace_all.simps(2) [simp del]

definition upper_char :: "char \<Rightarrow> char" where
  "upper_char c = (if is_lower c then char_of (char_code c - 32) else c)"

section \<open>Sections\<close>

type_synonym variables = "(string \<times> string) list"

definition newline :: string where
  "newline = [CHR 0x0A]"

text \<open>The indexes with a signature.\<close>

definition reason_indexes :: "variables \<Rightarrow> string \<Rightarrow> u64 list" where
  "reason_indexes vars pfx = List.map_filter (\<lambda>(key, _).
     if prefix (pfx @ ''.'') key \<and> suffix ''.signature'' key
     then Option.bind (Option.bind (strip_prefix (pfx @ ''.'') key) (strip_suffix ''.signature'')) parse_u64
     else None) vars"

definition reason_params :: "variables \<Rightarrow> string \<Rightarrow> u64 \<Rightarrow> (string \<times> string) list" where
  "reason_params vars pfx index = sort_key fst (List.map_filter (\<lambda>(key, value).
     map_option (\<lambda>name. (name, value)) (strip_prefix (pfx @ ''.'' @ show_word index @ ''.args.'') key)) vars)"

fun reason_texts :: "variables \<Rightarrow> string \<Rightarrow> u64 \<Rightarrow> nat \<Rightarrow> u64 list \<Rightarrow> string" where
  "reason_texts vars pfx last_index n [] = []"
| "reason_texts vars pfx last_index n (index # is) =
     (case map_of vars (pfx @ ''.'' @ show_word index @ ''.signature'') of
        None \<Rightarrow> []
      | Some signature \<Rightarrow>
          newline @ ''*Reason '' @ show_nat (n + 1) @ ''*'' @ newline
          @ newline @ ''*Signature:* `'' @ signature @ ''`'' @ newline
          @ newline @ ''*Params:*'' @ newline
          @ concat (map (\<lambda>(name, value). newline @ name @ '': `'' @ value @ ''`'') (reason_params vars pfx index))
          @ (if index \<noteq> last_index then newline else []))
     @ reason_texts vars pfx last_index (n + 1) is"

definition build_match_reasons :: "variables \<Rightarrow> string \<Rightarrow> string option" where
  "build_match_reasons vars pfx =
     (let indexes = reason_indexes vars pfx in
      if indexes = [] then None
      else let sorted = sort indexes;
               formatted = map upper_char (take 1 pfx) @ drop 1 pfx
           in Some (newline @ newline @ ''*Matched '' @ formatted @ '':*'' @ newline
                @ reason_texts vars pfx (last sorted) 0 sorted))"

section \<open>Templates\<close>

definition placeholder :: "string \<Rightarrow> string" where
  "placeholder key = ''${'' @ key @ ''}''"

definition substitute :: "variables \<Rightarrow> string \<Rightarrow> string" where
  "substitute vars template = fold (\<lambda>(key, value). replace_all (placeholder key) value) vars template"

definition insert_section :: "variables \<Rightarrow> string \<Rightarrow> string \<Rightarrow> string \<Rightarrow> string" where
  "insert_section vars template pfx message =
     (if sublist (placeholder pfx) template
      then replace_all (placeholder pfx) (case build_match_reasons vars pfx of None \<Rightarrow> [] | Some sec \<Rightarrow> sec) message
      else message)"

definition format_template :: "string \<Rightarrow> variables \<Rightarrow> string" where
  "format_template template vars =
     insert_section vars template ''events''
       (insert_section vars template ''functions'' (substitute vars template))"

section \<open>Replacement\<close>

lemma replace_all_skip:
  assumes "CHR ''$'' \<notin> set a" "hd pat = CHR ''$''" "pat \<noteq> []"
  shows "replace_all pat new (a @ s) = a @ replace_all pat new s"
  using assms(1)
proof (induction a)
  case (Cons c a)
  then have "\<not> prefix pat (c # a @ s)" using assms(2,3) by (cases pat) auto
  with Cons show ?case by (simp add: replace_all.simps(2))
qed simp

lemma placeholder_hd [simp]: "hd (placeholder k) = CHR ''$''" "placeholder k \<noteq> []"
  by (simp_all add: placeholder_def)

lemma replace_all_hit: "replace_all (placeholder k) new (placeholder k @ s) = new @ replace_all (placeholder k) new s"
proof -
  obtain c p where p: "placeholder k = c # p" by (cases "placeholder k") simp_all
  have "prefix (placeholder k) (placeholder k @ s)" by simp
  then show ?thesis by (simp add: p replace_all.simps(2))
qed

lemma key_before_brace:
  assumes "k @ CHR ''}'' # r = k' @ CHR ''}'' # r'" "CHR ''}'' \<notin> set k" "CHR ''}'' \<notin> set k'"
  shows "k = k'"
proof -
  have "takeWhile (\<lambda>c. c \<noteq> CHR ''}'') (x @ CHR ''}'' # y) = x" if "CHR ''}'' \<notin> set x" for x y
    using that by (induction x) auto
  with assms show ?thesis by metis
qed

definition plain_key :: "string \<Rightarrow> bool" where
  "plain_key k \<longleftrightarrow> CHR ''$'' \<notin> set k \<and> CHR ''}'' \<notin> set k"

lemma replace_all_miss:
  assumes "plain_key k" "plain_key k'" "k \<noteq> k'"
  shows "replace_all (placeholder k) new (placeholder k' @ s) = placeholder k' @ replace_all (placeholder k) new s"
proof -
  have "\<not> prefix (placeholder k) (placeholder k' @ s)"
  proof
    assume "prefix (placeholder k) (placeholder k' @ s)"
    then obtain r where "k' @ CHR ''}'' # s = k @ CHR ''}'' # r" by (auto simp: prefix_def placeholder_def)
    with assms show False using key_before_brace [of k' s k r] by (auto simp: plain_key_def)
  qed
  moreover have "CHR ''$'' \<notin> set (''{'' @ k' @ ''}'')" using assms(2) by (simp add: plain_key_def)
  ultimately show ?thesis
    using replace_all_skip [of "''{'' @ k' @ ''}''" "placeholder k" new s]
    by (simp add: placeholder_def replace_all.simps(2))
qed

section \<open>Templates as token lists\<close>

datatype token = Lit string | Var string

fun token_text :: "token \<Rightarrow> string" where
  "token_text (Lit s) = s"
| "token_text (Var k) = placeholder k"

fun token_ok :: "token \<Rightarrow> bool" where
  "token_ok (Lit s) \<longleftrightarrow> CHR ''$'' \<notin> set s"
| "token_ok (Var k) \<longleftrightarrow> plain_key k"

abbreviation render :: "token list \<Rightarrow> string" where
  "render toks \<equiv> concat (map token_text toks)"

fun subst_token :: "string \<Rightarrow> string \<Rightarrow> token \<Rightarrow> token" where
  "subst_token k v (Lit s) = Lit s"
| "subst_token k v (Var k') = (if k' = k then Lit v else Var k')"

lemma replace_render:
  assumes "list_all token_ok toks" "plain_key k"
  shows "replace_all (placeholder k) v (render toks) = render (map (subst_token k v) toks)"
  using assms(1)
proof (induction toks)
  case (Cons t toks)
  then show ?case
    by (cases t) (use assms(2) in \<open>auto simp: replace_all_skip replace_all_hit replace_all_miss\<close>)
qed simp

lemma subst_token_ok: "token_ok t \<Longrightarrow> CHR ''$'' \<notin> set v \<Longrightarrow> token_ok (subst_token k v t)"
  by (cases t) auto

definition plain_vars :: "variables \<Rightarrow> bool" where
  "plain_vars vars \<longleftrightarrow> list_all (\<lambda>(k, v). plain_key k \<and> CHR ''$'' \<notin> set v) vars"

fun value_token :: "variables \<Rightarrow> token \<Rightarrow> token" where
  "value_token vars (Lit s) = Lit s"
| "value_token vars (Var k) = (case map_of vars k of Some v \<Rightarrow> Lit v | None \<Rightarrow> Var k)"

lemma value_token_Cons: "value_token vars (subst_token k v t) = value_token ((k, v) # vars) t"
  by (cases t) auto

lemma substitute_render:
  "plain_vars vars \<Longrightarrow> list_all token_ok toks \<Longrightarrow>
     substitute vars (render toks) = render (map (value_token vars) toks) \<and> list_all token_ok (map (value_token vars) toks)"
proof (induction vars arbitrary: toks)
  case Nil
  have "map (value_token []) toks = toks" by (rule map_idI) (metis map_of.simps(1) option.simps(4) value_token.elims)
  with Nil show ?case by (simp add: substitute_def)
next
  case (Cons p vars)
  obtain k v where p: "p = (k, v)" by (cases p)
  with Cons.prems have k: "plain_key k" "CHR ''$'' \<notin> set v" "plain_vars vars" by (simp_all add: plain_vars_def)
  let ?toks = "map (subst_token k v) toks"
  have "list_all token_ok ?toks" using Cons.prems(2) subst_token_ok [OF _ k(2)] by (auto simp: list_all_iff)
  from Cons.IH [OF k(3) this] replace_render [OF Cons.prems(2) k(1), of v]
  show ?case by (simp add: substitute_def p comp_def value_token_Cons)
qed

text \<open>The sections hold no dollar sign if the variables hold none.\<close>

lemma show_nat_no_dollar: "CHR ''$'' \<notin> set (show_nat n)"
proof -
  have "\<not> is_digit (CHR ''$'')" by (simp add: is_digit_def char_code_def)
  then show ?thesis using show_nat_digits [of n] by (auto simp: list_all_iff)
qed

lemma reason_params_plain:
  assumes "plain_vars vars" "(name, value) \<in> set (reason_params vars pfx index)"
  shows "CHR ''$'' \<notin> set name \<and> CHR ''$'' \<notin> set value"
  using assms by (force simp: reason_params_def map_filter_def plain_vars_def list_all_iff plain_key_def
      strip_prefix_def split: if_split_asm dest: in_set_dropD)

lemma reason_texts_plain:
  "plain_vars vars \<Longrightarrow> CHR ''$'' \<notin> set (reason_texts vars pfx l n is)"
proof (induction "is" arbitrary: n)
  case (Cons i "is")
  have "CHR ''$'' \<notin> set v" if "map_of vars k = Some v" for k v
    using Cons.prems map_of_SomeD [OF that] by (auto simp: plain_vars_def list_all_iff)
  with Cons reason_params_plain [OF Cons.prems] show ?case
    by (fastforce simp: newline_def show_nat_no_dollar split: option.split)
qed simp

definition section_text :: "variables \<Rightarrow> string \<Rightarrow> string" where
  "section_text vars pfx = (case build_match_reasons vars pfx of None \<Rightarrow> [] | Some sec \<Rightarrow> sec)"

lemma section_text_plain:
  "plain_vars vars \<Longrightarrow> pfx \<in> {''functions'', ''events''} \<Longrightarrow> CHR ''$'' \<notin> set (section_text vars pfx)"
proof -
  have "CHR ''$'' \<notin> set (map upper_char (take 1 pfx) @ drop 1 pfx)" if "pfx \<in> {''functions'', ''events''}"
  proof -
    have "list_all (\<lambda>p. CHR ''$'' \<notin> set (map upper_char (take 1 p) @ drop 1 p)) [''functions'', ''events'']" by code_simp
    with that show ?thesis by auto
  qed
  then show "plain_vars vars \<Longrightarrow> pfx \<in> {''functions'', ''events''} \<Longrightarrow> CHR ''$'' \<notin> set (section_text vars pfx)"
    by (auto simp: section_text_def build_match_reasons_def Let_def newline_def reason_texts_plain)
qed

lemma insert_section_render:
  assumes "list_all token_ok toks" "plain_key pfx" "Var pfx \<in> set toks \<Longrightarrow> sublist (placeholder pfx) template"
  shows "insert_section vars template pfx (render toks) = render (map (subst_token pfx (section_text vars pfx)) toks)"
proof (cases "sublist (placeholder pfx) template")
  case True
  then show ?thesis using replace_render [OF assms(1,2)] by (simp add: insert_section_def section_text_def)
next
  case False
  with assms(3) have "Var pfx \<notin> set toks" by blast
  then have "map (subst_token pfx (section_text vars pfx)) toks = toks"
    by (intro map_idI) (metis subst_token.elims)
  with False show ?thesis by (simp add: insert_section_def)
qed

lemma sublist_render: "Var k \<in> set toks \<Longrightarrow> sublist (placeholder k) (render toks)"
proof -
  assume "Var k \<in> set toks"
  then obtain a b where "toks = a @ Var k # b" by (auto simp: in_set_conv_decomp)
  then show ?thesis by (auto simp: sublist_def)
qed

text \<open>The meaning of a template: literals stay, and a placeholder is the value of its variable, the
  section of its kind, or itself.\<close>

fun token_value :: "variables \<Rightarrow> token \<Rightarrow> string" where
  "token_value vars (Lit s) = s"
| "token_value vars (Var k) = (case map_of vars k of Some v \<Rightarrow> v
     | None \<Rightarrow> if k = ''functions'' \<or> k = ''events'' then section_text vars k else placeholder k)"

lemma format_template_tokens:
  assumes "plain_vars vars" "list_all token_ok toks"
  shows "format_template (render toks) vars = concat (map (token_value vars) toks)"
proof -
  let ?f = "\<lambda>p. subst_token p (section_text vars p)"
  let ?t1 = "map (value_token vars) toks"
  have keys: "plain_key ''functions''" "plain_key ''events''" by (simp_all add: plain_key_def)
  have t1: "substitute vars (render toks) = render ?t1" "list_all token_ok ?t1"
    using substitute_render [OF assms] by auto
  have orig: "Var k \<in> set ?t1 \<Longrightarrow> Var k \<in> set toks" for k
    by (auto elim!: value_token.elims [OF sym] split: option.split_asm)
  have s1: "insert_section vars (render toks) ''functions'' (render ?t1) = render (map (?f ''functions'') ?t1)"
    by (rule insert_section_render [OF t1(2) keys(1)]) (rule sublist_render [OF orig])
  have ok2: "list_all token_ok (map (?f ''functions'') ?t1)"
    using t1(2) subst_token_ok [OF _ section_text_plain [OF assms(1)]] by (simp add: list_all_iff)
  have orig2: "Var k \<in> set (map (?f ''functions'') ?t1) \<Longrightarrow> Var k \<in> set ?t1" for k
    by (auto elim!: subst_token.elims [OF sym] split: if_split_asm) (metis imageI)
  have s2: "insert_section vars (render toks) ''events'' (render (map (?f ''functions'') ?t1)) =
      render (map (?f ''events'') (map (?f ''functions'') ?t1))"
    by (rule insert_section_render [OF ok2 keys(2)]) (rule sublist_render [OF orig [OF orig2]])
  have "token_text (?f ''events'' (?f ''functions'' (value_token vars t))) = token_value vars t" for t
    by (cases t) (auto split: option.split)
  then have "render (map (?f ''events'') (map (?f ''functions'') ?t1)) = concat (map (token_value vars) toks)"
    by (simp add: comp_def)
  with s1 s2 t1(1) show ?thesis unfolding format_template_def by presburger
qed

section \<open>The order of the iteration\<close>

lemma mset_map_filter: "mset xs = mset ys \<Longrightarrow> mset (List.map_filter f xs) = mset (List.map_filter f ys)"
  by (simp add: map_filter_def)

lemma map_of_reorder: "mset xs = mset ys \<Longrightarrow> distinct (map fst xs) \<Longrightarrow> map_of xs = map_of ys"
  by (metis map_of_inject_set mset_eq_imp_distinct_iff mset_eq_setD mset_map)

lemma strip_prefix_inj: "strip_prefix p a = Some x \<Longrightarrow> strip_prefix p b = Some x \<Longrightarrow> a = b"
  by (auto simp: strip_prefix_def prefix_def split: if_split_asm)

lemma reason_params_reorder:
  assumes "mset vars = mset vars'" "distinct (map fst vars)"
  shows "reason_params vars pfx i = reason_params vars' pfx i"
proof -
  let ?f = "\<lambda>(key, value). map_option (\<lambda>name. (name, value)) (strip_prefix (pfx @ ''.'' @ show_word i @ ''.args.'') key)"
  have "distinct (map fst (List.map_filter ?f vars))"
    using assms(2)
  proof (induction vars)
    case (Cons p vars)
    obtain k v where p: "p = (k, v)" by (cases p)
    have "name \<notin> fst ` set (List.map_filter ?f vars)"
      if "strip_prefix (pfx @ ''.'' @ show_word i @ ''.args.'') k = Some name" for name
    proof
      assume "name \<in> fst ` set (List.map_filter ?f vars)"
      then obtain k' v' where "(k', v') \<in> set vars" "strip_prefix (pfx @ ''.'' @ show_word i @ ''.args.'') k' = Some name"
        by (auto simp: map_filter_def)
      with strip_prefix_inj [OF that] Cons.prems p show False by (force simp: image_iff)
    qed
    with Cons p show ?case by (simp add: map_filter_simps split: option.split)
  qed (simp add: map_filter_simps)
  then show ?thesis
    unfolding reason_params_def
    by (intro sorted_key_unique [where key = fst])
      (simp_all add: mset_map_filter [OF assms(1)] distinct_map_sort_key)
qed

lemma reason_texts_reorder:
  assumes "mset vars = mset vars'" "distinct (map fst vars)"
  shows "reason_texts vars pfx l n is = reason_texts vars' pfx l n is"
proof (induction "is" arbitrary: n)
  case (Cons i "is")
  show ?case
    unfolding reason_texts.simps map_of_reorder [OF assms] reason_params_reorder [OF assms] Cons ..
qed simp

lemma build_match_reasons_reorder:
  assumes "mset vars = mset vars'" "distinct (map fst vars)"
  shows "build_match_reasons vars pfx = build_match_reasons vars' pfx"
proof -
  have eq: "mset (reason_indexes vars pfx) = mset (reason_indexes vars' pfx)"
    unfolding reason_indexes_def by (rule mset_map_filter [OF assms(1)])
  then have "sort (reason_indexes vars pfx) = sort (reason_indexes vars' pfx)"
    by (metis mset_sort properties_for_sort sorted_sort)
  moreover have "reason_indexes vars pfx = [] \<longleftrightarrow> reason_indexes vars' pfx = []"
    using eq by (metis mset_zero_iff)
  ultimately show ?thesis
    unfolding build_match_reasons_def Let_def reason_texts_reorder [OF assms] by presburger
qed

lemma token_value_reorder:
  "mset vars = mset vars' \<Longrightarrow> distinct (map fst vars) \<Longrightarrow> token_value vars t = token_value vars' t"
  by (cases t) (auto simp: map_of_reorder section_text_def build_match_reasons_reorder split: option.split)

section \<open>Properties\<close>



text \<open>A value that holds a placeholder may be expanded, and whether it is depends on the order in which
  the hash map happens to be iterated: if the value of one variable is the placeholder of
  another, the same template gives the value of the other variable in one order and its
  placeholder in the other.\<close>

theorem placeholder_in_value_expanded:
  assumes "plain_key k" "plain_key k'" "k \<noteq> k'" "CHR ''$'' \<notin> set v" "k' \<notin> {''functions'', ''events''}"
  shows "substitute [(k, placeholder k'), (k', v)] (placeholder k) = v
    \<and> substitute [(k', v), (k, placeholder k')] (placeholder k) = placeholder k'"
  using replace_all_hit [of k _ "[]"] replace_all_hit [of k' _ "[]"] replace_all_miss [OF assms(2,1) assms(3) [symmetric], of v "[]"]
  by (simp add: substitute_def)

theorem placeholder_in_value_expanded_witness:
  "substitute [(''events.0.args.memo'', ''${transaction.hash}''), (''transaction.hash'', ''0xab'')] ''${events.0.args.memo}'' = ''0xab''"
  using placeholder_in_value_expanded [of "''events.0.args.memo''" "''transaction.hash''" "''0xab''"]
  by (simp add: plain_key_def placeholder_def)

text \<open>The sections of matched functions and events do not depend on the order of the iteration.\<close>

theorem sections_ignore_order:
  assumes "mset vars = mset vars'" "distinct (map fst vars)"
  shows "build_match_reasons vars pfx = build_match_reasons vars' pfx"
  by (rule build_match_reasons_reorder [OF assms])

theorem sections_ignore_order_witness:
  "build_match_reasons [(''events.0.signature'', ''A()''), (''x'', ''y'')] ''events''
     = build_match_reasons [(''x'', ''y''), (''events.0.signature'', ''A()'')] ''events''"
  by (rule sections_ignore_order) simp_all

end
