(* ===== verification/Notification.thy ===== *)
theory Notification imports Script_Executor Template begin

text \<open>
  Notifications (src/src/services/notification/): trigger configurations
  (src/src/models/core/trigger.rs), webhook components and payloads, the webhook, email and
  script notifiers, the client pool, and the service that chooses among them. Hash maps that
  are iterated are lists in the order of the iteration; the HTTP client, the SMTP client, the
  HMAC, the Markdown libraries and the clock are parameters. Error texts drop debug prints.
\<close>

section \<open>Trigger configurations\<close>

record notification_message =
  nm_title :: string
  nm_body :: string

datatype trigger_type = Slack | Email | Webhook | Telegram | Discord | Script

datatype payload_mode = TemplateMode | RawMode

text \<open>Durations in milliseconds.\<close>

record retry_config =
  rt_max_retries :: u32
  rt_base_for_backoff :: u32
  rt_initial_backoff :: nat
  rt_max_backoff :: nat
  rt_full_jitter :: bool

datatype trigger_config =
    CfgSlack secret_value notification_message retry_config
  | CfgEmail string "nat option" secret_value secret_value notification_message string "string list" retry_config
  | CfgWebhook secret_value "string option" "secret_value option" "variables option" notification_message payload_mode retry_config
  | CfgTelegram secret_value string "bool option" notification_message retry_config
  | CfgDiscord secret_value notification_message retry_config
  | CfgScript script_language string "string list option" u32

fun get_retry_policy :: "trigger_config \<Rightarrow> retry_config option" where
  "get_retry_policy (CfgSlack _ _ r) = Some r"
| "get_retry_policy (CfgDiscord _ _ r) = Some r"
| "get_retry_policy (CfgWebhook _ _ _ _ _ _ r) = Some r"
| "get_retry_policy (CfgTelegram _ _ _ _ r) = Some r"
| "get_retry_policy _ = None"

record trigger =
  tg_name :: string
  tg_type :: trigger_type
  tg_config :: trigger_config

datatype notification_error =
    Network_error string
  | Config_error string
  | Internal_error string
  | Execution_error string
  | Notify_failed string

section \<open>Environment\<close>

record webhook_request =
  rq_client :: retry_config
  rq_method :: string
  rq_url :: string
  rq_headers :: variables
  rq_body :: json

record smtp_config =
  sm_host :: string
  sm_port :: nat
  sm_username :: string
  sm_password :: string

record email =
  ml_client :: smtp_config
  ml_to :: "string list"
  ml_from :: string
  ml_subject :: string
  ml_body :: string

datatype smtp_outcome = Smtp_sent | Smtp_error bool string

text \<open>The requests and mails sent so far, the clients in the pool, and the number of clock readings.\<close>

record notify_state =
  ns_requests :: "webhook_request list"
  ns_mails :: "email list"
  ns_http_clients :: "string \<rightharpoonup> retry_config"
  ns_smtp_clients :: "string \<rightharpoonup> smtp_config"
  ns_ticks :: nat

text \<open>Answers may depend on how many requests were made before. A match of the Markdown pattern is its
  start, its end, and label and address if it is a link.\<close>

record 'abi notify_env =
  ne_order :: "(string \<rightharpoonup> string) \<Rightarrow> variables"
  ne_script :: "'abi script_env"
  ne_markdown_matches :: "string \<Rightarrow> (nat \<times> nat \<times> (string \<times> string) option) list"
  ne_markdown_html :: "string \<Rightarrow> string"
  ne_hmac_sha256 :: "string \<Rightarrow> string \<Rightarrow> string"
  ne_json_print :: "json \<Rightarrow> string option"
  ne_url_encode :: "string \<Rightarrow> string"
  ne_method_ok :: "string \<Rightarrow> bool"
  ne_header_name_ok :: "string \<Rightarrow> bool"
  ne_header_value_ok :: "string \<Rightarrow> bool"
  ne_clock :: "nat \<Rightarrow> int"
  ne_http_build :: "retry_config \<Rightarrow> string option"
  ne_http_send :: "nat \<Rightarrow> webhook_request \<Rightarrow> string + nat"
  ne_smtp_relay :: "string \<Rightarrow> string option"
  ne_smtp_send :: "nat \<Rightarrow> email \<Rightarrow> smtp_outcome"
  ne_debug_retry :: "retry_config \<Rightarrow> string"
  ne_debug_smtp :: "smtp_config \<Rightarrow> string"
  ne_mailboxes_ok :: "string \<Rightarrow> bool"
  ne_mailbox_ok :: "string \<Rightarrow> bool"
  ne_message_ok :: "email \<Rightarrow> bool"
  ne_backoffs :: nat

section \<open>Payloads\<close>

datatype payload_builder = SlackBuilder | DiscordBuilder | TelegramBuilder string bool | GenericBuilder

definition markdown_special :: "char list" where
  "markdown_special = ''_*[]()~`>#+-=|{}.!'' @ [CHR 0x5C]"

definition escape_special :: "string \<Rightarrow> string" where
  "escape_special s = concat (map (\<lambda>c. if c \<in> set markdown_special then [CHR 0x5C, c] else [c]) s)"

fun escape_matches :: "string \<Rightarrow> nat \<Rightarrow> (nat \<times> nat \<times> (string \<times> string) option) list \<Rightarrow> string" where
  "escape_matches text pos [] = escape_special (drop pos text)"
| "escape_matches text pos ((s, e, link) # ms) =
     escape_special (drop pos (take s text))
     @ (case link of
          Some (label, url) \<Rightarrow> ''['' @ escape_special label @ ''](''  @ escape_special url @ '')''
        | None \<Rightarrow> drop s (take e text))
     @ escape_matches text e ms"

definition escape_markdown_v2 :: "'abi notify_env \<Rightarrow> string \<Rightarrow> string" where
  "escape_markdown_v2 env text = escape_matches text 0 (ne_markdown_matches env text)"

definition bold_message :: "string \<Rightarrow> string \<Rightarrow> string \<Rightarrow> string" where
  "bold_message sep title body = ''*'' @ title @ ''*'' @ sep @ newline @ newline @ body"

fun build_payload :: "'abi notify_env \<Rightarrow> payload_builder \<Rightarrow> string \<Rightarrow> string \<Rightarrow> variables \<Rightarrow> json" where
  "build_payload env SlackBuilder title body vars = JObject [(''blocks'', JArray [JObject [
     (''type'', JString ''section''),
     (''text'', JObject [(''type'', JString ''mrkdwn''),
        (''text'', JString (bold_message [] (format_template title vars) (format_template body vars)))])]])]"
| "build_payload env DiscordBuilder title body vars = JObject [
     (''content'', JString (bold_message [] (format_template title vars) (format_template body vars)))]"
| "build_payload env (TelegramBuilder chat no_preview) title body vars = JObject [
     (''chat_id'', JString chat),
     (''text'', JString (bold_message '' '' (escape_markdown_v2 env (format_template title vars))
        (escape_markdown_v2 env (format_template body vars)))),
     (''parse_mode'', JString ''MarkdownV2''),
     (''disable_web_page_preview'', JBool no_preview)]"
| "build_payload env GenericBuilder title body vars = JObject [
     (''title'', JString (format_template title vars)), (''body'', JString (format_template body vars))]"

section \<open>Webhooks\<close>

record webhook_config =
  wc_url :: string
  wc_url_params :: "variables option"
  wc_title :: string
  wc_body_template :: string
  wc_method :: "string option"
  wc_secret :: "string option"
  wc_headers :: "variables option"

record webhook_components =
  wk_config :: webhook_config
  wk_retry_policy :: retry_config
  wk_builder :: payload_builder

fun webhook_parts :: "trigger_config \<Rightarrow> (string \<times> notification_message \<times> string option \<times> string option \<times>
  variables option \<times> payload_builder) option" where
  "webhook_parts (CfgWebhook url method secret headers msg _ _) =
     Some (secret_as_str url, msg, method, map_option secret_as_str secret, headers, GenericBuilder)"
| "webhook_parts (CfgDiscord url msg _) = Some (secret_as_str url, msg, Some ''POST'', None, None, DiscordBuilder)"
| "webhook_parts (CfgTelegram token chat no_preview msg _) =
     Some (''https://api.telegram.org/bot'' @ secret_as_str token @ ''/sendMessage'', msg, Some ''POST'', None, None,
       TelegramBuilder chat (case no_preview of None \<Rightarrow> False | Some b \<Rightarrow> b))"
| "webhook_parts (CfgSlack url msg _) = Some (secret_as_str url, msg, Some ''POST'', None, None, SlackBuilder)"
| "webhook_parts _ = None"

definition as_webhook_components :: "trigger_config \<Rightarrow> notification_error + webhook_components" where
  "as_webhook_components cfg = (case webhook_parts cfg of
       None \<Rightarrow> Inl (Config_error ''Trigger type is not webhook-compatible'')
     | Some (url, msg, method, secret, headers, builder) \<Rightarrow> (case get_retry_policy cfg of
         None \<Rightarrow> Inl (Config_error ''Webhook trigger config is unexpectedly missing a retry policy.'')
       | Some retry \<Rightarrow> Inr \<lparr>wk_config = \<lparr>wc_url = url, wc_url_params = None, wc_title = nm_title msg,
             wc_body_template = nm_body msg, wc_method = method, wc_secret = secret, wc_headers = headers\<rparr>,
           wk_retry_policy = retry, wk_builder = builder\<rparr>))"

record webhook_notifier =
  wn_url :: string
  wn_url_params :: "variables option"
  wn_title :: string
  wn_client :: retry_config
  wn_method :: "string option"
  wn_secret :: "string option"
  wn_headers :: "variables option"

definition webhook_notifier_new :: "webhook_config \<Rightarrow> retry_config \<Rightarrow> webhook_notifier" where
  "webhook_notifier_new cfg client =
     (let headers = (case wc_headers cfg of None \<Rightarrow> [] | Some h \<Rightarrow> h);
          headers' = (if ''Content-Type'' \<in> fst ` set headers then headers
            else headers @ [(''Content-Type'', ''application/json'')])
      in \<lparr>wn_url = wc_url cfg, wn_url_params = wc_url_params cfg, wn_title = wc_title cfg, wn_client = client,
          wn_method = Some (case wc_method cfg of None \<Rightarrow> ''POST'' | Some m \<Rightarrow> m),
          wn_secret = wc_secret cfg, wn_headers = Some headers'\<rparr>)"

text \<open>Signature and time stamp; reading the clock is an effect.\<close>

definition sign_payload :: "'abi notify_env \<Rightarrow> string \<Rightarrow> json \<Rightarrow> notify_state \<Rightarrow>
  (notification_error + string \<times> string) \<times> notify_state" where
  "sign_payload env secret payload st =
     (if secret = [] then (Inl (Notify_failed ''Invalid secret: cannot be empty.''), st)
      else let timestamp = ne_clock env (ns_ticks st); st' = st\<lparr>ns_ticks := Suc (ns_ticks st)\<rparr>
           in case ne_json_print env payload of
                None \<Rightarrow> (Inl (Internal_error ''Failed to serialize payload''), st')
              | Some text \<Rightarrow> (Inr (ne_hmac_sha256 env secret (text @ show_int timestamp), show_int timestamp), st'))"

text \<open>\<open>HeaderMap::insert\<close>: names are in lower case, a later value replaces an earlier one.\<close>

fun custom_headers :: "'abi notify_env \<Rightarrow> variables \<Rightarrow> variables \<Rightarrow> notification_error + variables" where
  "custom_headers env [] headers = Inr headers"
| "custom_headers env ((key, value) # rest) headers =
     (if \<not> ne_header_name_ok env key then Inl (Notify_failed (''Invalid header name: '' @ key))
      else if \<not> ne_header_value_ok env value then
        Inl (Notify_failed (''Invalid header value for '' @ key @ '': '' @ value))
      else custom_headers env rest (AList.update (to_lowercase key) value headers))"

definition signed_headers :: "'abi notify_env \<Rightarrow> webhook_notifier \<Rightarrow> json \<Rightarrow> notify_state \<Rightarrow>
  (notification_error + variables) \<times> notify_state" where
  "signed_headers env n payload st =
     (let base = [(''content-type'', ''application/json'')] in
      case wn_secret n of
        None \<Rightarrow> (Inr base, st)
      | Some secret \<Rightarrow> (case sign_payload env secret payload st of
          (Inl e, st') \<Rightarrow> (Inl (Internal_error ''Failed to sign payload''), st')
        | (Inr (signature, timestamp), st') \<Rightarrow>
          if \<not> ne_header_value_ok env signature then (Inl (Notify_failed ''Invalid signature value''), st')
          else if \<not> ne_header_value_ok env timestamp then (Inl (Notify_failed ''Invalid timestamp value''), st')
          else (Inr (base @ [(''x-signature'', signature), (''x-timestamp'', timestamp)]), st')))"

definition webhook_url :: "'abi notify_env \<Rightarrow> webhook_notifier \<Rightarrow> string" where
  "webhook_url env n = (case wn_url_params n of
       None \<Rightarrow> wn_url n
     | Some params \<Rightarrow> if params = [] then wn_url n
         else wn_url n @ ''?'' @ join_with ''&'' (map (\<lambda>(k, v). k @ ''='' @ ne_url_encode env v) params))"

definition notify_json :: "'abi notify_env \<Rightarrow> webhook_notifier \<Rightarrow> json \<Rightarrow> notify_state \<Rightarrow>
  (notification_error + unit) \<times> notify_state" where
  "notify_json env n payload st =
     (let m = (case wn_method n of None \<Rightarrow> ''POST'' | Some m \<Rightarrow> if ne_method_ok env m then m else ''POST'')
      in case signed_headers env n payload st of
        (Inl e, st1) \<Rightarrow> (Inl e, st1)
      | (Inr base, st1) \<Rightarrow>
        (case custom_headers env (case wn_headers n of None \<Rightarrow> [] | Some h \<Rightarrow> h) base of
           Inl e \<Rightarrow> (Inl e, st1)
         | Inr headers \<Rightarrow>
           (let req = \<lparr>rq_client = wn_client n, rq_method = m, rq_url = webhook_url env n, rq_headers = headers, rq_body = payload\<rparr>;
                st2 = st1\<lparr>ns_requests := ns_requests st1 @ [req]\<rparr>
            in case ne_http_send env (length (ns_requests st1)) req of
                 Inl e \<Rightarrow> (Inl (Notify_failed (''Failed to send webhook request: '' @ e)), st2)
               | Inr status \<Rightarrow> if 200 \<le> status \<and> status < 300 then (Inr (), st2)
                   else (Inl (Notify_failed (''Webhook request failed with status: '' @ show_nat status)), st2))))"

section \<open>The client pool\<close>

definition get_or_create_client :: "string \<Rightarrow> (string \<rightharpoonup> 'c) \<Rightarrow> (string + 'c) \<Rightarrow> (string + 'c) \<times> (string \<rightharpoonup> 'c)" where
  "get_or_create_client key clients created = (case clients key of
       Some c \<Rightarrow> (Inr c, clients)
     | None \<Rightarrow> (case created of Inl e \<Rightarrow> (Inl e, clients) | Inr c \<Rightarrow> (Inr c, clients(key \<mapsto> c))))"

definition get_or_create_http_client :: "'abi notify_env \<Rightarrow> retry_config \<Rightarrow> notify_state \<Rightarrow>
  (string + retry_config) \<times> notify_state" where
  "get_or_create_http_client env retry st =
     (case get_or_create_client (ne_debug_retry env retry) (ns_http_clients st)
         (case ne_http_build env retry of Some e \<Rightarrow> Inl e | None \<Rightarrow> Inr retry) of
        (r, clients) \<Rightarrow> (r, st\<lparr>ns_http_clients := clients\<rparr>))"

definition get_or_create_smtp_client :: "'abi notify_env \<Rightarrow> smtp_config \<Rightarrow> notify_state \<Rightarrow>
  (string + smtp_config) \<times> notify_state" where
  "get_or_create_smtp_client env cfg st =
     (case get_or_create_client (ne_debug_smtp env cfg) (ns_smtp_clients st)
         (case ne_smtp_relay env (sm_host cfg) of Some e \<Rightarrow> Inl e | None \<Rightarrow> Inr cfg) of
        (r, clients) \<Rightarrow> (r, st\<lparr>ns_smtp_clients := clients\<rparr>))"

section \<open>Email\<close>

text \<open>Sending with the delays that are left; a permanent SMTP error is not retried.\<close>

fun send_with_retries :: "'abi notify_env \<Rightarrow> email \<Rightarrow> nat \<Rightarrow> notify_state \<Rightarrow> (notification_error + unit) \<times> notify_state" where
  "send_with_retries env mail delays st =
     (let st' = st\<lparr>ns_mails := ns_mails st @ [mail]\<rparr> in
      case ne_smtp_send env (length (ns_mails st)) mail of
        Smtp_sent \<Rightarrow> (Inr (), st')
      | Smtp_error permanent e \<Rightarrow>
          if permanent then (Inl (Notify_failed (''Failed to send email: '' @ e)), st')
          else (case delays of
              0 \<Rightarrow> (Inl (Notify_failed (''Failed to send email: '' @ e)), st')
            | Suc d \<Rightarrow> send_with_retries env mail d st'))"

declare send_with_retries.simps [simp del]

definition notify_email :: "'abi notify_env \<Rightarrow> smtp_config \<Rightarrow> notification_message \<Rightarrow> string \<Rightarrow> string list \<Rightarrow> retry_config \<Rightarrow>
  string \<Rightarrow> notify_state \<Rightarrow> (notification_error + unit) \<times> notify_state" where
  "notify_email env client msg sender recipients retry body st =
     (if \<not> ne_mailboxes_ok env (join_with '', '' recipients) then (Inl (Notify_failed ''Failed to parse recipients''), st)
      else if \<not> ne_mailbox_ok env sender then (Inl (Notify_failed ''Failed to parse sender''), st)
      else let mail = \<lparr>ml_client = client, ml_to = recipients, ml_from = sender, ml_subject = nm_title msg, ml_body = body\<rparr>
           in if \<not> ne_message_ok env mail then (Inl (Notify_failed ''Failed to build email message''), st)
              else send_with_retries env mail (min (ne_backoffs env) (unat (rt_max_retries retry))) st)"

definition format_message :: "'abi notify_env \<Rightarrow> string \<Rightarrow> variables \<Rightarrow> string" where
  "format_message env body_template vars = ne_markdown_html env (format_template body_template vars)"

section \<open>Scripts\<close>

text \<open>The executor is that of the configured language, not of the language stored with the script.\<close>

definition script_notify :: "'abi notify_env \<Rightarrow> script_language \<Rightarrow> string list option \<Rightarrow> u32 \<Rightarrow> 'abi monitor_match \<Rightarrow>
  script_language \<times> string \<Rightarrow> (notification_error + unit) option" where
  "script_notify env language args timeout_ms m script =
     map_option (\<lambda>r. case r of
         Inr True \<Rightarrow> Inr ()
       | Inr False \<Rightarrow> Inl (Execution_error ''Trigger script execution failed'')
       | Inl e \<Rightarrow> Inl (Execution_error (''Trigger script execution error: '' @ e)))
       (execute_script (ne_script env) language (snd script) m timeout_ms args True)"

definition normalize_string :: "string \<Rightarrow> string" where
  "normalize_string s = to_lowercase (trim s)"

definition script_key :: "string \<Rightarrow> string \<Rightarrow> string" where
  "script_key name path = normalize_string name @ ''|'' @ path"

section \<open>The service\<close>

fun is_raw_mode :: "trigger_config \<Rightarrow> bool" where
  "is_raw_mode (CfgWebhook _ _ _ _ _ RawMode _) = True"
| "is_raw_mode _ = False"

definition execute_webhook :: "'abi notify_env \<Rightarrow> trigger_config \<Rightarrow> (string \<rightharpoonup> string) \<Rightarrow> 'abi monitor_match \<Rightarrow>
  notify_state \<Rightarrow> (notification_error + unit) \<times> notify_state" where
  "execute_webhook env cfg vars m st = (case as_webhook_components cfg of
       Inl e \<Rightarrow> (Inl e, st)
     | Inr wk \<Rightarrow> (case get_or_create_http_client env (wk_retry_policy wk) st of
         (Inl e, st1) \<Rightarrow> (Inl (Execution_error ''Failed to get or create HTTP client from pool''), st1)
       | (Inr client, st1) \<Rightarrow>
         (let payload = (if is_raw_mode cfg then se_match_json (ne_script env) m
              else build_payload env (wk_builder wk) (wc_title (wk_config wk)) (wc_body_template (wk_config wk)) (ne_order env vars))
          in notify_json env (webhook_notifier_new (wk_config wk) client) payload st1)))"

definition execute_email :: "'abi notify_env \<Rightarrow> trigger_config \<Rightarrow> (string \<rightharpoonup> string) \<Rightarrow> notify_state \<Rightarrow>
  (notification_error + unit) \<times> notify_state" where
  "execute_email env cfg vars st = (case cfg of
       CfgEmail host port username password msg sender recipients retry \<Rightarrow>
         (case get_or_create_smtp_client env \<lparr>sm_host = host, sm_port = (case port of None \<Rightarrow> 465 | Some p \<Rightarrow> p),
             sm_username = secret_as_str username, sm_password = secret_as_str password\<rparr> st of
            (Inl e, st1) \<Rightarrow> (Inl (Execution_error ''Failed to get SMTP client from pool''), st1)
          | (Inr client, st1) \<Rightarrow> notify_email env client msg sender recipients retry
              (format_message env (nm_body msg) (ne_order env vars)) st1)
     | _ \<Rightarrow> (Inl (Config_error ''Invalid email configuration''), st))"

definition execute_script_trigger :: "'abi notify_env \<Rightarrow> trigger_config \<Rightarrow> 'abi monitor_match \<Rightarrow> scripts \<Rightarrow>
  (notification_error + unit) option" where
  "execute_script_trigger env cfg m trigger_scripts = (case cfg of
       CfgScript language path args timeout_ms \<Rightarrow>
         (case trigger_scripts (script_key (mon_name (match_monitor m)) path) of
            None \<Rightarrow> Some (Inl (Config_error ''Script content not found''))
          | Some script \<Rightarrow> script_notify env language args timeout_ms m script)
     | _ \<Rightarrow> Some (Inl (Config_error ''Invalid script configuration'')))"

definition execute_notification :: "'abi notify_env \<Rightarrow> trigger \<Rightarrow> (string \<rightharpoonup> string) \<Rightarrow> 'abi monitor_match \<Rightarrow> scripts \<Rightarrow>
  notify_state \<Rightarrow> ((notification_error + unit) \<times> notify_state) option" where
  "execute_notification env t vars m trigger_scripts st =
     (if tg_type t \<in> {Slack, Discord, Webhook, Telegram} then Some (execute_webhook env (tg_config t) vars m st)
      else if tg_type t = Email then Some (execute_email env (tg_config t) vars st)
      else map_option (\<lambda>r. (r, st)) (execute_script_trigger env (tg_config t) m trigger_scripts))"

end
