(* ===== verification/Trigger_Execution.thy ===== *)
theory Trigger_Execution imports Notification begin

text \<open>
  The trigger execution service (src/src/services/trigger/service.rs): running the triggers of a
  match and loading the scripts of the active monitors. Triggers are looked up in a map by
  their identifier. The notifications of one match run concurrently; the order in which they
  take effect is a parameter. Files do not change while the scripts are loaded.
\<close>

datatype trigger_error =
    Trigger_not_found string
  | Trigger_execution string
  | Trigger_configuration string
  | Trigger_other string

text \<open>The notification service: a trigger, the variables, the match and the scripts to a result.\<close>

type_synonym ('abi, 's) notifier =
  "trigger \<Rightarrow> (string \<rightharpoonup> string) \<Rightarrow> 'abi monitor_match \<Rightarrow> scripts \<Rightarrow> 's \<Rightarrow> ((notification_error + unit) \<times> 's) option"

definition execute_trigger :: "(string \<rightharpoonup> trigger) \<Rightarrow> ('abi, 's) notifier \<Rightarrow> (string \<rightharpoonup> string) \<Rightarrow> 'abi monitor_match \<Rightarrow>
  scripts \<Rightarrow> string \<Rightarrow> 's \<Rightarrow> ((trigger_error + unit) \<times> 's) option" where
  "execute_trigger triggers notify vars m trigger_scripts tid s = (case triggers tid of
       None \<Rightarrow> Some (Inl (Trigger_not_found tid), s)
     | Some t \<Rightarrow> map_option (\<lambda>(r, s'). (case r of
           Inl _ \<Rightarrow> Inl (Trigger_execution ''notification failed'')
         | Inr _ \<Rightarrow> Inr (), s')) (notify t vars m trigger_scripts s))"

fun execute_each :: "(string \<rightharpoonup> trigger) \<Rightarrow> ('abi, 's) notifier \<Rightarrow> (string \<rightharpoonup> string) \<Rightarrow> 'abi monitor_match \<Rightarrow>
  scripts \<Rightarrow> string list \<Rightarrow> 's \<Rightarrow> (trigger_error list \<times> 's) option" where
  "execute_each triggers notify vars m trigger_scripts [] s = Some ([], s)"
| "execute_each triggers notify vars m trigger_scripts (tid # tids) s =
     (case execute_trigger triggers notify vars m trigger_scripts tid s of
        None \<Rightarrow> None
      | Some (r, s') \<Rightarrow> map_option (\<lambda>(errors, s''). (case r of Inl e \<Rightarrow> e # errors | Inr _ \<Rightarrow> errors, s''))
          (execute_each triggers notify vars m trigger_scripts tids s'))"

definition execute_triggers :: "(string list \<Rightarrow> string list) \<Rightarrow> (string \<rightharpoonup> trigger) \<Rightarrow> ('abi, 's) notifier \<Rightarrow>
  (trigger_error, 'abi, 's) trigger_exec" where
  "execute_triggers schedule triggers notify tids vars m trigger_scripts s =
     map_option (\<lambda>(errors, s').
       (if errors = [] then Inr ()
        else Inl (Trigger_execution (''Some trigger(s) failed ('' @ show_nat (length errors) @ '' failure(s))'')), s'))
       (execute_each triggers notify vars m trigger_scripts (schedule tids) s)"

section \<open>Scripts\<close>

fun load_condition_scripts :: "(string \<Rightarrow> string option) \<Rightarrow> string \<Rightarrow> trigger_condition list \<Rightarrow> scripts \<Rightarrow> trigger_error + scripts" where
  "load_condition_scripts read name [] scripts = Inr scripts"
| "load_condition_scripts read name (c # cs) scripts = (case read (tr_script_path c) of
       None \<Rightarrow> Inl (Trigger_other (''Failed to read script file: '' @ tr_script_path c))
     | Some content \<Rightarrow> load_condition_scripts read name cs
         (scripts(script_key name (tr_script_path c) \<mapsto> (tr_language c, content))))"

fun load_trigger_scripts :: "(string \<Rightarrow> string option) \<Rightarrow> (string \<rightharpoonup> trigger) \<Rightarrow> string \<Rightarrow> string list \<Rightarrow> scripts \<Rightarrow>
  trigger_error + scripts" where
  "load_trigger_scripts read triggers name [] scripts = Inr scripts"
| "load_trigger_scripts read triggers name (tid # tids) scripts = (case triggers tid of
       None \<Rightarrow> Inl (Trigger_configuration (''Failed to get trigger: '' @ tid))
     | Some t \<Rightarrow> (case tg_config t of
         CfgScript language path args timeout_ms \<Rightarrow> (case read path of
             None \<Rightarrow> Inl (Trigger_configuration (''Failed to read script file '' @ path))
           | Some content \<Rightarrow> load_trigger_scripts read triggers name tids
               (scripts(script_key name path \<mapsto> (language, content))))
       | _ \<Rightarrow> load_trigger_scripts read triggers name tids scripts))"

fun load_scripts_from :: "(string \<Rightarrow> string option) \<Rightarrow> (string \<rightharpoonup> trigger) \<Rightarrow> 'abi monitor list \<Rightarrow> scripts \<Rightarrow>
  trigger_error + scripts" where
  "load_scripts_from read triggers [] scripts = Inr scripts"
| "load_scripts_from read triggers (m # ms) scripts =
     (if mon_trigger_conditions m = [] \<and> mon_triggers m = [] then load_scripts_from read triggers ms scripts
      else res_bind (load_condition_scripts read (mon_name m) (mon_trigger_conditions m) scripts) (\<lambda>s1.
           res_bind (load_trigger_scripts read triggers (mon_name m) (mon_triggers m) s1) (\<lambda>s2.
             load_scripts_from read triggers ms s2)))"

definition load_scripts :: "(string \<Rightarrow> string option) \<Rightarrow> (string \<rightharpoonup> trigger) \<Rightarrow> 'abi monitor list \<Rightarrow> trigger_error + scripts" where
  "load_scripts read triggers monitors = load_scripts_from read triggers monitors Map.empty"

section \<open>Lemmas\<close>

text \<open>What loaded maps hold: under the key of a name and a path, the content of the path.\<close>

definition holds_scripts :: "(string \<Rightarrow> string option) \<Rightarrow> scripts \<Rightarrow> bool" where
  "holds_scripts read scripts \<longleftrightarrow> (\<forall>k lang content. scripts k = Some (lang, content) \<longrightarrow>
     (\<exists>name path. k = script_key name path \<and> CHR ''|'' \<notin> set name \<and> read path = Some content))"

lemma normalize_string_bar: "CHR ''|'' \<notin> set name \<Longrightarrow> CHR ''|'' \<notin> set (normalize_string name)"
proof
  assume "CHR ''|'' \<notin> set name" "CHR ''|'' \<in> set (normalize_string name)"
  then obtain c where c: "c \<in> set name" "CHR ''|'' = lower_char c"
    by (auto simp: normalize_string_def to_lowercase_def trim_def dest!: set_dropWhileD)
  moreover have "c \<noteq> CHR ''|''" using c(1) \<open>CHR ''|'' \<notin> set name\<close> by blast
  ultimately have "is_upper c" "CHR ''|'' = char_of (char_code c + 32)" by (auto simp: lower_char_def split: if_splits)
  then have "char_code (CHR ''|'') = char_code c + 32" "char_code c \<le> 90"
    by (auto simp: is_upper_def char_code_char_of dest: arg_cong [where f = char_code])
  then show False by (simp add: char_code_def)
qed

lemma script_key_inj:
  assumes "script_key a p = script_key b q" "CHR ''|'' \<notin> set a" "CHR ''|'' \<notin> set b"
  shows "p = q"
proof -
  have tw: "takeWhile (\<lambda>c. c \<noteq> CHR ''|'') (x @ CHR ''|'' # y) = x" if "CHR ''|'' \<notin> set x" for x y
    using that by (induction x) auto
  have eq: "normalize_string a @ CHR ''|'' # p = normalize_string b @ CHR ''|'' # q"
    using assms(1) by (simp add: script_key_def)
  then have "normalize_string a = normalize_string b"
    using tw [OF normalize_string_bar [OF assms(2)], of p] tw [OF normalize_string_bar [OF assms(3)], of q] by simp
  with eq show ?thesis by simp
qed

lemma holds_update:
  assumes "read path = Some content" "CHR ''|'' \<notin> set name" "holds_scripts read scripts"
  shows "holds_scripts read (scripts(script_key name path \<mapsto> (lang, content)))"
  unfolding holds_scripts_def
proof (intro allI impI)
  fix k l c
  assume k: "(scripts(script_key name path \<mapsto> (lang, content))) k = Some (l, c)"
  show "\<exists>name path. k = script_key name path \<and> CHR ''|'' \<notin> set name \<and> read path = Some c"
  proof (cases "k = script_key name path")
    case True
    with k assms(1,2) show ?thesis by auto
  next
    case False
    with k assms(3) show ?thesis unfolding holds_scripts_def by simp
  qed
qed

lemma load_condition_scripts_loaded:
  assumes "load_condition_scripts read name conds scripts = Inr scripts'" "CHR ''|'' \<notin> set name"
  shows "(holds_scripts read scripts \<longrightarrow> holds_scripts read scripts') \<and> dom scripts \<subseteq> dom scripts'
    \<and> (\<forall>c \<in> set conds. script_key name (tr_script_path c) \<in> dom scripts')"
  using assms(1)
proof (induction conds arbitrary: scripts)
  case (Cons c cs)
  then obtain content where "read (tr_script_path c) = Some content"
    "load_condition_scripts read name cs (scripts(script_key name (tr_script_path c) \<mapsto> (tr_language c, content))) = Inr scripts'"
    by (auto split: option.split_asm)
  moreover define s1 where "s1 = scripts(script_key name (tr_script_path c) \<mapsto> (tr_language c, content))"
  ultimately have s1: "read (tr_script_path c) = Some content" "load_condition_scripts read name cs s1 = Inr scripts'" by simp_all
  have "dom scripts \<subseteq> dom s1" "script_key name (tr_script_path c) \<in> dom s1" by (auto simp: s1_def)
  moreover have "holds_scripts read scripts \<longrightarrow> holds_scripts read s1"
    unfolding s1_def using holds_update [of read "tr_script_path c" content name scripts "tr_language c", OF s1(1) assms(2)] by blast
  ultimately show ?case using Cons.IH [OF s1(2)] by auto
qed simp

lemma load_trigger_scripts_loaded:
  assumes "load_trigger_scripts read triggers name tids scripts = Inr scripts'" "CHR ''|'' \<notin> set name"
  shows "(holds_scripts read scripts \<longrightarrow> holds_scripts read scripts') \<and> dom scripts \<subseteq> dom scripts'
    \<and> (\<forall>tid \<in> set tids. \<exists>t. triggers tid = Some t \<and> (case tg_config t of
          CfgScript language path args timeout_ms \<Rightarrow> script_key name path \<in> dom scripts' | _ \<Rightarrow> True))"
  using assms(1)
proof (induction tids arbitrary: scripts)
  case (Cons tid tids)
  then obtain t where t: "triggers tid = Some t" by (auto split: option.split_asm)
  show ?case
  proof (cases "\<exists>language path args timeout_ms. tg_config t = CfgScript language path args timeout_ms")
    case True
    then obtain language path args timeout_ms where cfg: "tg_config t = CfgScript language path args timeout_ms" by blast
    with Cons.prems t obtain content where "read path = Some content"
      "load_trigger_scripts read triggers name tids (scripts(script_key name path \<mapsto> (language, content))) = Inr scripts'"
      by (auto split: option.split_asm)
    moreover define s1 where "s1 = scripts(script_key name path \<mapsto> (language, content))"
    ultimately have s1: "read path = Some content" "load_trigger_scripts read triggers name tids s1 = Inr scripts'" by simp_all
    have "dom scripts \<subseteq> dom s1" "script_key name path \<in> dom s1" by (auto simp: s1_def)
    moreover have "holds_scripts read scripts \<longrightarrow> holds_scripts read s1"
      unfolding s1_def using holds_update [of read path content name scripts language, OF s1(1) assms(2)] by blast
    moreover note Cons.IH [OF s1(2)]
    ultimately have "holds_scripts read scripts \<longrightarrow> holds_scripts read scripts'" "dom scripts \<subseteq> dom scripts'"
      "script_key name path \<in> dom scripts'" by auto
    with Cons.IH [OF s1(2)] t cfg show ?thesis by simp
  next
    case False
    then have "load_trigger_scripts read triggers name tids scripts = Inr scripts'"
      using Cons.prems t by (auto split: trigger_config.split_asm)
    from Cons.IH [OF this] t False show ?thesis by (auto split: trigger_config.split)
  qed
qed simp

lemma load_scripts_from_loaded:
  assumes "load_scripts_from read triggers ms scripts = Inr scripts'" "\<forall>m \<in> set ms. CHR ''|'' \<notin> set (mon_name m)"
  shows "(holds_scripts read scripts \<longrightarrow> holds_scripts read scripts') \<and> dom scripts \<subseteq> dom scripts'
    \<and> (\<forall>m \<in> set ms. (\<forall>c \<in> set (mon_trigger_conditions m). script_key (mon_name m) (tr_script_path c) \<in> dom scripts')
        \<and> (\<forall>tid \<in> set (mon_triggers m). \<exists>t. triggers tid = Some t \<and> (case tg_config t of
            CfgScript language path args timeout_ms \<Rightarrow> script_key (mon_name m) path \<in> dom scripts' | _ \<Rightarrow> True)))"
  using assms
proof (induction ms arbitrary: scripts)
  case (Cons m ms)
  have name: "CHR ''|'' \<notin> set (mon_name m)" and rest: "\<forall>m \<in> set ms. CHR ''|'' \<notin> set (mon_name m)"
    using Cons.prems(2) by simp_all
  show ?case
  proof (cases "mon_trigger_conditions m = [] \<and> mon_triggers m = []")
    case True
    then have "load_scripts_from read triggers ms scripts = Inr scripts'" using Cons.prems(1) by simp
    from Cons.IH [OF this rest] True show ?thesis by simp
  next
    case False
    then obtain s1 s2 where s: "load_condition_scripts read (mon_name m) (mon_trigger_conditions m) scripts = Inr s1"
      "load_trigger_scripts read triggers (mon_name m) (mon_triggers m) s1 = Inr s2"
      "load_scripts_from read triggers ms s2 = Inr scripts'"
      using Cons.prems(1) by (auto simp: res_bind_Inr_iff)
    note l1 = load_condition_scripts_loaded [OF s(1) name]
      and l2 = load_trigger_scripts_loaded [OF s(2) name] and l3 = Cons.IH [OF s(3) rest]
    have "\<forall>tid \<in> set (mon_triggers m). \<exists>t. triggers tid = Some t \<and> (case tg_config t of
            CfgScript language path args timeout_ms \<Rightarrow> script_key (mon_name m) path \<in> dom scripts' | _ \<Rightarrow> True)"
    proof
      fix tid assume "tid \<in> set (mon_triggers m)"
      with l2 obtain t where "triggers tid = Some t" "case tg_config t of
            CfgScript language path args timeout_ms \<Rightarrow> script_key (mon_name m) path \<in> dom s2 | _ \<Rightarrow> True" by blast
      with l3 show "\<exists>t. triggers tid = Some t \<and> (case tg_config t of
            CfgScript language path args timeout_ms \<Rightarrow> script_key (mon_name m) path \<in> dom scripts' | _ \<Rightarrow> True)"
        by (cases "tg_config t") auto
    qed
    with l1 l2 l3 show ?thesis by (simp add: subset_iff)
  qed
qed simp

lemma loaded_content:
  assumes "load_scripts read triggers monitors = Inr scripts" "\<forall>m \<in> set monitors. CHR ''|'' \<notin> set (mon_name m)"
    "CHR ''|'' \<notin> set name" "script_key name path \<in> dom scripts"
  shows "\<exists>lang content. scripts (script_key name path) = Some (lang, content) \<and> read path = Some content"
proof -
  have "holds_scripts read scripts"
    using load_scripts_from_loaded [OF assms(1) [unfolded load_scripts_def] assms(2)] by (simp add: holds_scripts_def)
  moreover from assms(4) obtain lang content where "scripts (script_key name path) = Some (lang, content)" by auto
  ultimately show ?thesis unfolding holds_scripts_def using script_key_inj assms(3) by metis
qed

section \<open>Properties\<close>

text \<open>Once the scripts of the monitors are loaded, no script is missing: every trigger condition of a
  monitor finds its script, every trigger of a monitor exists, and a script trigger finds its
  script; and what they find is the content of the file at their path (if no name of a monitor
  holds a bar, which separates name and path in the keys).\<close>

theorem loaded_scripts_found:
  assumes "load_scripts read triggers monitors = Inr scripts" "\<forall>m \<in> set monitors. CHR ''|'' \<notin> set (mon_name m)"
    "m \<in> set monitors"
  shows "(\<forall>c \<in> set (mon_trigger_conditions m). \<exists>lang content.
        scripts (script_key (mon_name m) (tr_script_path c)) = Some (lang, content) \<and> read (tr_script_path c) = Some content)
    \<and> (\<forall>tid \<in> set (mon_triggers m). \<exists>t. triggers tid = Some t \<and> (\<forall>language path args timeout_ms.
        tg_config t = CfgScript language path args timeout_ms \<longrightarrow> (\<exists>lang content.
          scripts (script_key (mon_name m) path) = Some (lang, content) \<and> read path = Some content)))"
proof -
  have name: "CHR ''|'' \<notin> set (mon_name m)" using assms(2,3) by blast
  note found = loaded_content [OF assms(1,2) name]
  from load_scripts_from_loaded [OF assms(1) [unfolded load_scripts_def] assms(2)] assms(3)
  have "\<forall>c \<in> set (mon_trigger_conditions m). script_key (mon_name m) (tr_script_path c) \<in> dom scripts"
    "\<forall>tid \<in> set (mon_triggers m). \<exists>t. triggers tid = Some t \<and> (case tg_config t of
       CfgScript language path args timeout_ms \<Rightarrow> script_key (mon_name m) path \<in> dom scripts | _ \<Rightarrow> True)" by blast+
  then show ?thesis using found by fastforce
qed

text \<open>A monitor with a condition script and a script trigger.\<close>

definition scripted_monitor :: "unit monitor" where
  "scripted_monitor = \<lparr>mon_name = '' Big '', mon_networks = [''eth''], mon_paused = False, mon_addresses = [],
     mon_match_conditions = \<lparr>mc_functions = [], mc_events = [], mc_transactions = []\<rparr>,
     mon_trigger_conditions = [\<lparr>tr_script_path = ''c.py'', tr_arguments = None, tr_language = Python, tr_timeout_ms = 1000\<rparr>],
     mon_triggers = [''notify''], mon_chain_configurations = []\<rparr>"

definition script_trigger :: trigger where
  "script_trigger = \<lparr>tg_name = ''Notify'', tg_type = Script, tg_config = CfgScript Bash ''n.sh'' None 1000\<rparr>"

theorem loaded_scripts_found_witness:
  "\<exists>scripts. load_scripts (\<lambda>p. Some (''content of '' @ p)) [''notify'' \<mapsto> script_trigger] [scripted_monitor] = Inr scripts
     \<and> (\<exists>lang. scripts (script_key '' Big '' ''c.py'') = Some (lang, ''content of c.py''))"
proof -
  have "\<exists>scripts. load_scripts (\<lambda>p. Some (''content of '' @ p)) [''notify'' \<mapsto> script_trigger] [scripted_monitor] = Inr scripts"
    by (simp add: load_scripts_def scripted_monitor_def script_trigger_def)
  then obtain scripts where s: "load_scripts (\<lambda>p. Some (''content of '' @ p)) [''notify'' \<mapsto> script_trigger] [scripted_monitor]
      = Inr scripts" by blast
  from loaded_scripts_found [OF this, of scripted_monitor] s show ?thesis by (auto simp: scripted_monitor_def)
qed

end
