(* ===== verification/Evm_Filter_Properties.thy ===== *)
theory Evm_Filter_Properties imports Evm_Filter Recovery begin

text \<open>
  What the EVM filter guarantees about the matches it reports, and where its shortcuts lose
  matches or end the process.
\<close>

section \<open>Lemmas\<close>

lemma find_SomeD: "find P xs = Some x \<Longrightarrow> x \<in> set xs \<and> P x"
  by (auto simp: find_Some_iff)

lemma collect_sound:
  "collect f xs = Some (Inr ys) \<Longrightarrow> y \<in> set ys \<Longrightarrow> \<exists>x \<in> set xs. \<exists>zs. f x = Some (Inr zs) \<and> y \<in> set zs"
  by (induction xs arbitrary: ys) (auto split: option.splits sum.splits)

lemma collect_complete:
  "collect f xs = Some (Inr ys) \<Longrightarrow> x \<in> set xs \<Longrightarrow> \<exists>zs. f x = Some (Inr zs) \<and> set zs \<subseteq> set ys"
  by (induction xs arbitrary: ys) (auto split: option.split_asm sum.split_asm, blast?)

lemma collect_length:
  "collect f xs = Some (Inr ys) \<Longrightarrow> (\<And>x zs. x \<in> set xs \<Longrightarrow> f x = Some (Inr zs) \<Longrightarrow> length zs \<le> k) \<Longrightarrow>
   length ys \<le> length xs * k"
proof (induction xs arbitrary: ys)
  case (Cons x xs)
  then obtain zs ws where "f x = Some (Inr zs)" "collect f xs = Some (Inr ws)" "ys = zs @ ws"
    by (auto split: option.splits sum.splits)
  with Cons.IH [of ws] Cons.prems(2) show ?case by (fastforce intro: add_mono)
qed simp

lemma collect_empty:
  assumes "\<And>x. x \<in> set xs \<Longrightarrow> f x = None \<or> f x = Some (Inr [])"
  shows "collect f xs = None \<or> collect f xs = Some (Inr [])"
  using assms
proof (induction xs)
  case (Cons x xs)
  from Cons.prems [of x] Cons.IH Cons.prems show ?case by fastforce
qed simp

lemma evm_filter_block_collect:
  assumes "get_logs_for_blocks node (case bl_number b of None \<Rightarrow> 0 | Some n \<Rightarrow> n) = Inr all_logs"
  shows "\<exists>especs. evm_filter_block env node net (BlockEVM b) monitors specs =
    collect (\<lambda>m. collect (filter_transaction env node net especs all_logs m) (bl_transactions b)) monitors"
  unfolding evm_filter_block_def block_type.case assms sum.case Let_def by (rule exI) (rule refl)

text \<open>When a transaction condition accepts a transaction.\<close>

definition tx_accepts :: "'abi evm_env \<Rightarrow> transaction_status \<Rightarrow> evm_transaction \<Rightarrow> evm_receipt option \<Rightarrow>
  transaction_condition \<Rightarrow> bool" where
  "tx_accepts env st tx receipt c \<longleftrightarrow> (tc_status c = AnyStatus \<or> tc_status c = st)
     \<and> (case tc_expression c of None \<Rightarrow> True
        | Some e \<Rightarrow> evaluate_expression env e (tx_params env tx receipt) = Inr True)"

lemma match_transaction_step:
  "match_transaction_conditions env st tx receipt (c # cs) =
     (if tx_accepts env st tx receipt c then [\<lparr>tc_status = st, tc_expression = tc_expression c\<rparr>]
      else match_transaction_conditions env st tx receipt cs)"
  by (simp add: tx_accepts_def split: option.splits sum.splits bool.splits)

lemma match_transaction_conditions_find:
  "match_transaction_conditions env st tx receipt conds =
     (case find (tx_accepts env st tx receipt) conds of
        None \<Rightarrow> [] | Some c \<Rightarrow> [\<lparr>tc_status = st, tc_expression = tc_expression c\<rparr>])"
proof (induction conds)
  case (Cons c cs)
  then show ?case unfolding match_transaction_step by simp
qed simp

lemma should_match_iff:
  "should_match mc e f t \<longleftrightarrow> (mc_transactions mc = [] \<or> t) \<and>
     ((mc_events mc = [] \<and> mc_functions mc = []) \<or> e \<or> f)"
  by (auto simp: should_match_def split: bool.splits)

text \<open>The addresses a transaction involves for a monitor: sender, recipient, and the emitters of its
  logs that the monitor watches.\<close>

definition involves :: "evm_lib \<Rightarrow> evm_transaction \<Rightarrow> evm_log list \<Rightarrow> string \<Rightarrow> bool" where
  "involves el tx logs a \<longleftrightarrow> (\<exists>b. (tx_from tx = Some b \<or> tx_to tx = Some b \<or> b \<in> lg_address ` set logs)
     \<and> are_same_address a (h160_to_string el b))"

lemma find_events_addresses:
  "find_matching_events_for_transaction env logs m = Some (evs, addrs) \<Longrightarrow>
   set addrs \<subseteq> h160_to_string (env_evm env) ` lg_address ` set logs"
proof (induction logs arbitrary: evs addrs)
  case (Cons log logs)
  show ?case
  proof (cases "find_matching_events_for_transaction env logs m")
    case None
    with Cons.prems show ?thesis by (auto split: option.splits)
  next
    case (Some p)
    obtain evs' addrs' where p: "p = (evs', addrs')" by (cases p)
    have "set addrs' \<subseteq> h160_to_string (env_evm env) ` lg_address ` set logs"
      by (rule Cons.IH) (simp add: Some p)
    with Cons.prems Some p show ?thesis by (auto split: option.splits)
  qed
qed simp

lemma involved_addresses_iff:
  "s \<in> set (involved_addresses el tx addrs) \<longleftrightarrow>
     (\<exists>b. (tx_from tx = Some b \<or> tx_to tx = Some b) \<and> s = h160_to_string el b) \<or> s \<in> set addrs"
  by (cases "tx_from tx"; cases "tx_to tx") (auto simp: involved_addresses_def set_insort_key)

lemma match_transaction_sound:
  assumes "match_transaction env net specs m tx receipt logs = Some ms" "r \<in> set ms"
  shows "em_monitor r = strip_specs m \<and> em_transaction r = tx
    \<and> (\<exists>a \<in> set (mon_addresses m). involves (env_evm env) tx logs (aw_address a))
    \<and> (mc_transactions (mon_match_conditions m) = [] \<or> mc_transactions (em_matched_on r) \<noteq> [])
    \<and> ((mc_events (mon_match_conditions m) = [] \<and> mc_functions (mon_match_conditions m) = [])
        \<or> mc_events (em_matched_on r) \<noteq> [] \<or> mc_functions (em_matched_on r) \<noteq> [])"
proof -
  let ?el = "env_evm env" and ?mc = "mon_match_conditions m"
  define txs where "txs = find_matching_transaction env (tx_status_of receipt) tx receipt m"
  define fns where "fns = (case find_matching_functions_for_transaction env specs tx m of None \<Rightarrow> [] | Some f \<Rightarrow> [f])"
  obtain evs addrs where ev: "find_matching_events_for_transaction env logs m = Some (evs, addrs)"
    using assms(1) by (cases "find_matching_events_for_transaction env logs m") (auto simp: match_transaction_def Let_def)
  define e f t where eft: "e = (mc_events ?mc \<noteq> [] \<and> evs \<noteq> [])" "f = (mc_functions ?mc \<noteq> [] \<and> fns \<noteq> [])"
    "t = (mc_transactions ?mc \<noteq> [] \<and> txs \<noteq> [])"
  have ms: "ms = (if has_address_match m (involved_addresses ?el tx addrs) \<and> should_match ?mc e f t
      then [build_match net m tx receipt logs evs fns txs e f t] else [])"
    using assms(1) unfolding match_transaction_def Let_def ev option.case prod.case
      txs_def [symmetric] fns_def [symmetric] eft [symmetric] by simp
  with assms(2) have cond: "has_address_match m (involved_addresses ?el tx addrs)" "should_match ?mc e f t"
    and r: "r = build_match net m tx receipt logs evs fns txs e f t" by (auto split: if_splits)
  from cond(1) obtain a s where a: "a \<in> set (mon_addresses m)" "s \<in> set (involved_addresses ?el tx addrs)"
    "normalize_address (aw_address a) = normalize_address s" by (auto simp: has_address_match_def list_ex_iff)
  from a(2) have "\<exists>b. (tx_from tx = Some b \<or> tx_to tx = Some b \<or> b \<in> lg_address ` set logs) \<and> s = h160_to_string ?el b"
    using find_events_addresses [OF ev] unfolding involved_addresses_iff by blast
  with a have "\<exists>a \<in> set (mon_addresses m). involves ?el tx logs (aw_address a)"
    unfolding involves_def are_same_address_def by metis
  with cond(2) r show ?thesis
    unfolding should_match_iff by (auto simp: build_match_def eft)
qed

lemma unconditional_match:
  assumes "match_transaction env net specs m tx receipt logs = Some ms" "a \<in> set (mon_addresses m)"
    "tx_from tx = Some x \<or> tx_to tx = Some x" "are_same_address (aw_address a) (h160_to_string (env_evm env) x)"
    "mc_events (mon_match_conditions m) = []" "mc_functions (mon_match_conditions m) = []"
    "case mc_transactions (mon_match_conditions m) of [] \<Rightarrow> True
       | c # _ \<Rightarrow> tc_status c = AnyStatus \<and> tc_expression c = None"
  shows "\<exists>r \<in> set ms. em_monitor r = strip_specs m \<and> em_transaction r = tx \<and> em_network_slug r = slug net"
proof -
  have "has_address_match m (involved_addresses (env_evm env) tx addrs)" for addrs
  proof -
    have "h160_to_string (env_evm env) x \<in> set (involved_addresses (env_evm env) tx addrs)"
      using assms(3) unfolding involved_addresses_iff by blast
    with assms(2,4) show ?thesis
      unfolding has_address_match_def list_ex_iff are_same_address_def set_map by (metis imageI)
  qed
  moreover have "mc_transactions (mon_match_conditions m) = [] \<or>
      find_matching_transaction env st tx receipt m \<noteq> []" for st
    using assms(7) by (cases "mc_transactions (mon_match_conditions m)") (auto simp: find_matching_transaction_def)
  ultimately show ?thesis using assms(1,5,6)
    unfolding match_transaction_def Let_def should_match_iff
    by (cases "find_matching_events_for_transaction env logs m")
      (clarsimp simp: build_match_def)+
qed

lemma match_transaction_length:
  "match_transaction env net specs m tx receipt logs = Some ms \<Longrightarrow> length ms \<le> 1"
  by (cases "find_matching_events_for_transaction env logs m")
    (auto simp: match_transaction_def Let_def split: if_split_asm)

lemma filter_transaction_match:
  assumes "filter_transaction env node net specs all_logs m tx = Some (Inr ms)"
  obtains receipt where "match_transaction env net specs m tx receipt
    (entry_or (group_logs (env_evm env) all_logs) (b256_to_string (env_evm env) (tx_hash tx)) []) = Some ms"
  using assms by (auto simp: filter_transaction_def Let_def split: sum.splits if_splits)

lemma group_logs_fold:
  "entry_or (fold (\<lambda>l m. m(log_hash el l \<mapsto> entry_or m (log_hash el l) [] @ [l])) logs m0) h [] =
     entry_or m0 h [] @ filter (\<lambda>l. log_hash el l = h) logs"
  by (induction logs arbitrary: m0) auto

text \<open>The grouping by transaction keeps each transaction's logs, in order.\<close>

lemma group_logs_filter: "entry_or (group_logs el logs) h [] = filter (\<lambda>l. log_hash el l = h) logs"
  by (simp add: group_logs_def group_logs_fold)

text \<open>A function condition that gives a match on the call \<open>input\<close> of the ABI function \<open>f\<close>.\<close>

lemma match_function_conditions_sound:
  "match_function_conditions env f input conds = Some (fc, args) \<Longrightarrow>
   \<exists>c \<in> set conds. \<exists>vals. are_same_signature (fc_signature c) (abi_signature f)
     \<and> env_decode_params env (map ap_selector_type (ab_inputs f)) (drop 4 input) = Some vals
     \<and> pm_args args = Some (decoded_entries env f vals) \<and> pm_signature args = abi_signature f
     \<and> fc = \<lparr>fc_signature = abi_signature f, fc_expression = fc_expression c\<rparr>
     \<and> (case fc_expression c of None \<Rightarrow> True
        | Some e \<Rightarrow> evaluate_expression env e (decoded_entries env f vals) = Inr True)"
proof (induction conds)
  case (Cons c cs)
  then show ?case
    by (auto simp: Let_def split: if_split_asm option.split_asm sum.split_asm bool.split_asm)
qed simp

lemma match_event_sound:
  "match_event_conditions env ev conds = Some ec \<Longrightarrow> \<exists>c \<in> set conds.
     are_same_signature (ec_signature c) (pm_signature ev) \<and> ec_expression ec = ec_expression c
     \<and> (case ec_expression c of None \<Rightarrow> True
        | Some e \<Rightarrow> evaluate_expression env e (case pm_args ev of None \<Rightarrow> [] | Some a \<Rightarrow> a) = Inr True)"
  by (induction conds) (auto split: if_split_asm option.split_asm sum.split_asm bool.split_asm)

lemma match_event_signature: "match_event env m ev = Some ec \<Longrightarrow> ec_signature ec = pm_signature ev"
proof -
  have "match_event_conditions env ev conds = Some ec \<Longrightarrow> ec_signature ec = pm_signature ev" for conds
    by (induction conds) (auto split: if_split_asm option.split_asm sum.split_asm bool.split_asm)
  then show "match_event env m ev = Some ec \<Longrightarrow> ec_signature ec = pm_signature ev"
    by (auto simp: match_event_def Let_def split: if_split_asm)
qed

lemma find_events_sound:
  "find_matching_events_for_transaction env logs m = Some (evs, addrs) \<Longrightarrow> (ec, ev) \<in> set evs \<Longrightarrow>
   \<exists>log \<in> set logs. \<exists>a \<in> set (mon_addresses m). \<exists>spec.
     are_same_address (aw_address a) (h160_to_string (env_evm env) (lg_address log))
     \<and> aw_contract_spec a = Some spec \<and> decode_events env spec log = Some (Some ev) \<and> match_event env m ev = Some ec"
proof (induction logs arbitrary: evs addrs)
  case (Cons log logs)
  show ?case
  proof (cases "find (\<lambda>a. are_same_address (aw_address a) (h160_to_string (env_evm env) (lg_address log))) (mon_addresses m)")
    case None
    with Cons show ?thesis by fastforce
  next
    case (Some a)
    then have a: "a \<in> set (mon_addresses m)" "are_same_address (aw_address a) (h160_to_string (env_evm env) (lg_address log))"
      by (auto simp: find_Some_iff)
    from Cons.prems(1) Some obtain d evs' addrs' where
      d: "(case aw_contract_spec a of None \<Rightarrow> Some None | Some spec \<Rightarrow> decode_events env spec log) = Some d"
      and rest: "find_matching_events_for_transaction env logs m = Some (evs', addrs')"
      and evs: "evs = (case d of None \<Rightarrow> evs' | Some ev \<Rightarrow> (case match_event env m ev of None \<Rightarrow> evs' | Some c \<Rightarrow> (c, ev) # evs'))"
      by (auto split: option.split_asm prod.split_asm)
    show ?thesis
    proof (cases "(ec, ev) \<in> set evs'")
      case True
      from Cons.IH [OF rest this] show ?thesis by auto
    next
      case False
      with Cons.prems(2) evs have "d = Some ev" "match_event env m ev = Some ec"
        by (auto split: option.split_asm)
      with d a show ?thesis by (auto split: option.split_asm)
    qed
  qed
qed simp

lemma find_events_panic:
  assumes "log \<in> set logs" "lg_topics log = []"
    "find (\<lambda>a. are_same_address (aw_address a) (h160_to_string (env_evm env) (lg_address log))) (mon_addresses m) = Some a"
    "aw_contract_spec a = Some (SpecEVM abi)" "env_abi env abi = Some contract" "ab_events contract \<noteq> []"
  shows "find_matching_events_for_transaction env logs m = None"
  using assms
proof (induction logs)
  case (Cons l logs)
  then show ?case by (cases "l = log") (auto simp: decode_events_def split: option.splits)
qed simp

text \<open>A panic anywhere in a loop without errors is a panic of the loop.\<close>

lemma collect_panic:
  "x \<in> set xs \<Longrightarrow> f x = None \<Longrightarrow> (\<And>y e. y \<in> set xs \<Longrightarrow> f y \<noteq> Some (Inl e)) \<Longrightarrow> collect f xs = None"
  by (induction xs) (auto split: option.splits sum.splits)

lemma collect_no_error:
  "(\<And>x e. x \<in> set xs \<Longrightarrow> f x \<noteq> Some (Inl e)) \<Longrightarrow> collect f xs \<noteq> Some (Inl e)"
  by (induction xs) (auto split: option.splits sum.splits)

lemma filter_transaction_no_error:
  assumes "\<And>h. \<exists>r. get_transaction_receipt node h = Inr r"
  shows "filter_transaction env node net specs all_logs m tx \<noteq> Some (Inl e)"
proof -
  obtain r where "get_transaction_receipt node (b256_to_string (env_evm env) (tx_hash tx)) = Inr r" using assms by blast
  then show ?thesis by (simp add: filter_transaction_def Let_def)
qed

section \<open>A sample chain\<close>

text \<open>A chain to evaluate on: the hex text of a byte list are the characters of its bytes, every ABI
  is its own contract, and every call decodes to one number.\<close>

definition sample_env :: "abi_contract evm_env" where
  "sample_env = \<lparr>env_json = sample_json_lib,
     env_evm = sample_evm_lib\<lparr>hex_encode := map (\<lambda>b. char_of (unat b))\<rparr>,
     env_u64_print = show_word, env_abi = Some,
     env_types_ok = (\<lambda>_. True), env_decode_params = (\<lambda>_ _. Some [SolUint 7 256]),
     env_log_data_ok = (\<lambda>ts _. length ts \<le> 4), env_decode_log = (\<lambda>_ _ _. Some ([], [SolUint 7 256]))\<rparr>"

definition sample_tx :: evm_transaction where
  "sample_tx = \<lparr>tx_hash = [104], tx_nonce = 1, tx_block_hash = None, tx_block_number = None, tx_index = Some 0,
     tx_from = Some [97], tx_to = Some [98], tx_value = 5, tx_gas_price = None, tx_gas = 21000,
     tx_input = [1, 2, 3, 4, 9], tx_v = None, tx_r = None, tx_s = None, tx_raw = None, tx_type = None,
     tx_access_list = None, tx_max_fee_per_gas = None, tx_max_priority_fee_per_gas = None,
     tx_l2 = \<lparr>l2_deposit_receipt_version = None, l2_source_hash = None, l2_mint = None, l2_y_parity = None\<rparr>,
     tx_extra = []\<rparr>"

definition sample_log :: "byte list list \<Rightarrow> evm_log" where
  "sample_log ts = \<lparr>lg_address = [99], lg_topics = ts, lg_data = [], lg_block_hash = None, lg_block_number = None,
     lg_transaction_hash = Some [104], lg_transaction_index = None, lg_log_index = None,
     lg_transaction_log_index = None, lg_log_type = None, lg_removed = None\<rparr>"

definition sample_receipt :: "u64 \<Rightarrow> evm_receipt" where
  "sample_receipt status = \<lparr>rc_transaction_hash = [104], rc_transaction_index = 0, rc_block_hash = None,
     rc_block_number = None, rc_from = [97], rc_to = Some [98], rc_cumulative_gas_used = 0, rc_gas_used = None,
     rc_contract_address = None, rc_logs = [], rc_status = Some status, rc_root = None, rc_logs_bloom = [],
     rc_transaction_type = None, rc_effective_gas_price = None\<rparr>"

definition sample_abi :: abi_contract where
  "sample_abi = \<lparr>ab_functions = [\<lparr>ab_name = ''f'', ab_inputs = [\<lparr>ap_name = ''n'', ap_ty = ''uint256'',
       ap_selector_type = ''uint256'', ap_indexed = False\<rparr>], ab_selector = [1, 2, 3, 4]\<rparr>],
     ab_events = [\<lparr>ab_name = ''E'', ab_inputs = [\<lparr>ap_name = ''n'', ap_ty = ''uint256'',
       ap_selector_type = ''uint256'', ap_indexed = False\<rparr>], ab_selector = [7]\<rparr>]\<rparr>"

definition sample_monitor :: "string \<Rightarrow> match_conditions \<Rightarrow> abi_contract monitor" where
  "sample_monitor a mc = \<lparr>mon_name = ''m'', mon_networks = [''eth''], mon_paused = False,
     mon_addresses = [\<lparr>aw_address = a, aw_contract_spec = Some (SpecEVM sample_abi)\<rparr>],
     mon_match_conditions = mc, mon_trigger_conditions = [], mon_triggers = [], mon_chain_configurations = []\<rparr>"

definition no_conditions :: match_conditions where
  "no_conditions = \<lparr>mc_functions = [], mc_events = [], mc_transactions = []\<rparr>"

definition sample_node :: "evm_log list \<Rightarrow> evm_node" where
  "sample_node logs = \<lparr>get_logs_for_blocks = (\<lambda>_. Inr logs),
     get_transaction_receipt = (\<lambda>_. Inr (sample_receipt 1))\<rparr>"

definition sample_evm_block :: evm_block where
  "sample_evm_block = \<lparr>bl_hash = None, bl_parent_hash = [], bl_uncles_hash = [], bl_author = [], bl_state_root = [],
     bl_transactions_root = [], bl_receipts_root = [], bl_number = Some 100, bl_gas_used = 0, bl_gas_limit = 0,
     bl_base_fee_per_gas = None, bl_extra_data = [], bl_logs_bloom = None, bl_timestamp = 0, bl_difficulty = 0,
     bl_total_difficulty = None, bl_seal_fields = [], bl_uncles = [], bl_transactions = [sample_tx],
     bl_size = None, bl_mix_hash = None, bl_nonce = None\<rparr>"

definition sample_block :: "unit block_type" where
  "sample_block = BlockEVM sample_evm_block"

lemma sample_evm_block_sel [simp]: "bl_number sample_evm_block = Some 100" "bl_transactions sample_evm_block = [sample_tx]"
  by (simp_all add: sample_evm_block_def)

lemma sample_filter_runs:
  "evm_filter_block sample_env (sample_node []) sample_network sample_block [sample_monitor ''0xA'' no_conditions] None
     = Some (Inr [build_match sample_network (sample_monitor ''0xA'' no_conditions) sample_tx None [] [] []
         [\<lparr>tc_status = AnyStatus, tc_expression = None\<rparr>] False False False])"
  by code_simp

lemma sample_same: "normalize_address (h160_to_string (env_evm sample_env) [97]) = normalize_address ''0xA''"
  by code_simp

section \<open>Properties\<close>



text \<open>A monitor with no conditions, or whose first transaction condition accepts any status and has
  no expression, gets every transaction of the block that its address sends or receives.\<close>

theorem evm_filter_complete:
  fixes env :: "'abi evm_env"
  assumes "evm_filter_block env node net (BlockEVM b) monitors specs = Some (Inr ms)"
    "m \<in> set monitors" "tx \<in> set (bl_transactions b)" "a \<in> set (mon_addresses m)"
    "tx_from tx = Some x \<or> tx_to tx = Some x" "are_same_address (aw_address a) (h160_to_string (env_evm env) x)"
    "mc_events (mon_match_conditions m) = []" "mc_functions (mon_match_conditions m) = []"
    "case mc_transactions (mon_match_conditions m) of [] \<Rightarrow> True
       | c # _ \<Rightarrow> tc_status c = AnyStatus \<and> tc_expression c = None"
  shows "\<exists>r \<in> set ms. em_monitor r = strip_specs m \<and> em_transaction r = tx \<and> em_network_slug r = slug net"
proof -
  obtain especs all_logs where "collect (\<lambda>m. collect (filter_transaction env node net especs all_logs m) (bl_transactions b)) monitors
      = Some (Inr ms)"
    using assms(1) by (auto simp: evm_filter_block_def Let_def split: sum.split_asm)
  from collect_complete [OF this assms(2)] obtain zs where
    "collect (filter_transaction env node net especs all_logs m) (bl_transactions b) = Some (Inr zs)" "set zs \<subseteq> set ms"
    by blast
  moreover from collect_complete [OF this(1) assms(3)] obtain ws where
    w: "filter_transaction env node net especs all_logs m tx = Some (Inr ws)" "set ws \<subseteq> set zs" by blast
  moreover from w(1) obtain receipt logs where "match_transaction env net especs m tx receipt logs = Some ws"
    using filter_transaction_match by blast
  from unconditional_match [OF this assms(4-9)] obtain r where
    "r \<in> set ws" "em_monitor r = strip_specs m" "em_transaction r = tx" "em_network_slug r = slug net" by blast
  ultimately show ?thesis by blast
qed

theorem evm_filter_complete_witness:
  "\<exists>ms. evm_filter_block sample_env (sample_node []) sample_network sample_block
       [sample_monitor ''0xA'' no_conditions] None = Some (Inr ms) \<and> sample_tx \<in> em_transaction ` set ms"
  using evm_filter_complete [OF sample_filter_runs [unfolded sample_block_def], of _ sample_tx _ "[97]"]
    sample_filter_runs
  by (fastforce simp: sample_monitor_def no_conditions_def sample_tx_def are_same_address_def sample_same)


text \<open>C36. A reported event is one the monitor asked for: some log in the list was emitted by an address
  the monitor watches, decodes with the specification stored for that address to the reported
  name and arguments, and, if the monitor has event conditions, one of them has the same
  signature and no expression or an expression that is true of the arguments.\<close>

theorem event_matches_justified:
  assumes "find_matching_events_for_transaction env logs m = Some (evs, addrs)" "(ec, ev) \<in> set evs"
  shows "ec_signature ec = pm_signature ev
    \<and> (\<exists>log \<in> set logs. \<exists>a \<in> set (mon_addresses m). \<exists>spec.
        are_same_address (aw_address a) (h160_to_string (env_evm env) (lg_address log))
        \<and> aw_contract_spec a = Some spec \<and> decode_events env spec log = Some (Some ev))
    \<and> (mc_events (mon_match_conditions m) = [] \<or> (\<exists>c \<in> set (mc_events (mon_match_conditions m)).
        are_same_signature (ec_signature c) (pm_signature ev)
        \<and> (case ec_expression c of None \<Rightarrow> True
           | Some e \<Rightarrow> evaluate_expression env e (case pm_args ev of None \<Rightarrow> [] | Some a \<Rightarrow> a) = Inr True)))"
proof -
  from find_events_sound [OF assms] obtain log a spec where w: "log \<in> set logs" "a \<in> set (mon_addresses m)"
    "are_same_address (aw_address a) (h160_to_string (env_evm env) (lg_address log))" "aw_contract_spec a = Some spec"
    "decode_events env spec log = Some (Some ev)" "match_event env m ev = Some ec" by blast
  have "mc_events (mon_match_conditions m) = [] \<or> match_event_conditions env ev (mc_events (mon_match_conditions m)) = Some ec"
    using w(6) by (simp add: match_event_def Let_def split: if_split_asm)
  with w match_event_sound match_event_signature [OF w(6)] show ?thesis by blast
qed

text \<open>The monitor of the emitter of the sample log, with one condition on the event.\<close>

definition event_conditions :: match_conditions where
  "event_conditions = \<lparr>mc_functions = [], mc_events = [\<lparr>ec_signature = ''e( uint256 )'', ec_expression = None\<rparr>],
     mc_transactions = []\<rparr>"

theorem event_matches_justified_witness:
  "\<exists>ec ev. find_matching_events_for_transaction sample_env [sample_log [[7]]] (sample_monitor ''0xc'' event_conditions)
      = Some ([(ec, ev)], [''0xc'']) \<and> ec_signature ec = ''E(uint256)'' \<and> pm_signature ev = ''E(uint256)''"
proof -
  let ?ec = "\<lparr>ec_signature = ''E(uint256)'', ec_expression = None\<rparr>"
  let ?ev = "\<lparr>pm_signature = ''E(uint256)'', pm_args = Some [\<lparr>pe_name = ''n'', pe_value = ''7'', pe_indexed = False,
    pe_kind = ''uint256''\<rparr>], pm_hex_signature = Some (''0x'' @ [char_of (7::nat)])\<rparr>"
  have run: "find_matching_events_for_transaction sample_env [sample_log [[7]]] (sample_monitor ''0xc'' event_conditions)
      = Some ([(?ec, ?ev)], [''0xc''])" by code_simp
  from event_matches_justified [OF this, of ?ec ?ev] have "ec_signature ?ec = pm_signature ?ev" by simp
  with run show ?thesis by auto
qed

text \<open>C35. A reported function call is one the monitor asked for: it is sent to an address the monitor
  watches, its selector is that of a function of the ABI given for the address, its data
  decodes to the reported arguments, and one of the function conditions has the signature of
  the function and no expression or an expression that is true of the arguments.\<close>

theorem function_match_justified:
  assumes "find_matching_functions_for_transaction env specs tx m = Some (fc, args)"
  shows "\<exists>t. \<exists>a \<in> set (mon_addresses m). \<exists>(s, abi) \<in> set specs. \<exists>contract. \<exists>f \<in> set (ab_functions contract).
    \<exists>c \<in> set (mc_functions (mon_match_conditions m)). \<exists>vals.
      tx_to tx = Some t \<and> are_same_address (aw_address a) (h160_to_string (env_evm env) t)
      \<and> are_same_address s (aw_address a) \<and> env_abi env abi = Some contract
      \<and> ab_selector f = take 4 (tx_input tx) \<and> are_same_signature (fc_signature c) (abi_signature f)
      \<and> env_decode_params env (map ap_selector_type (ab_inputs f)) (drop 4 (tx_input tx)) = Some vals
      \<and> pm_args args = Some (decoded_entries env f vals)
      \<and> (case fc_expression c of None \<Rightarrow> True
         | Some e \<Rightarrow> evaluate_expression env e (decoded_entries env f vals) = Inr True)"
proof -
  let ?conds = "mc_functions (mon_match_conditions m)"
  from assms obtain a s abi contract f where w:
    "find (\<lambda>a. case tx_to tx of None \<Rightarrow> False
       | Some t \<Rightarrow> are_same_address (aw_address a) (h160_to_string (env_evm env) t)) (mon_addresses m) = Some a"
    "find (\<lambda>(s, _). are_same_address s (aw_address a)) specs = Some (s, abi)" "env_abi env abi = Some contract"
    "find (\<lambda>f. ab_selector f = take 4 (tx_input tx)) (ab_functions contract) = Some f"
    "match_function_conditions env f (tx_input tx) ?conds = Some (fc, args)"
    by (auto simp: find_matching_functions_for_transaction_def split: if_split_asm option.split_asm)
  from w(1) obtain t where t: "tx_to tx = Some t" "a \<in> set (mon_addresses m)"
    "are_same_address (aw_address a) (h160_to_string (env_evm env) t)"
    by (auto dest!: find_SomeD split: option.split_asm)
  from w(2) have s: "(s, abi) \<in> set specs" "are_same_address s (aw_address a)" by (auto dest!: find_SomeD)
  from w(4) have f: "f \<in> set (ab_functions contract)" "ab_selector f = take 4 (tx_input tx)" by (auto dest!: find_SomeD)
  from match_function_conditions_sound [OF w(5)] w(3) t s f show ?thesis by blast
qed

text \<open>The monitor of the recipient of the sample transaction, with one condition on the function.\<close>

definition function_conditions :: match_conditions where
  "function_conditions = \<lparr>mc_functions = [\<lparr>fc_signature = ''F(uint256)'', fc_expression = None\<rparr>], mc_events = [],
     mc_transactions = []\<rparr>"

theorem function_match_justified_witness:
  "find_matching_functions_for_transaction sample_env [(''0xB'', sample_abi)] sample_tx (sample_monitor ''b'' function_conditions)
     \<noteq> None \<and> tx_to sample_tx \<noteq> None"
proof -
  obtain fc args where "find_matching_functions_for_transaction sample_env [(''0xB'', sample_abi)] sample_tx
      (sample_monitor ''b'' function_conditions) = Some (fc, args)"
  proof -
    have "find_matching_functions_for_transaction sample_env [(''0xB'', sample_abi)] sample_tx
      (sample_monitor ''b'' function_conditions) \<noteq> None" by code_simp
    with that show thesis by auto
  qed
  with function_match_justified [OF this] show ?thesis by auto
qed


text \<open>Transaction conditions are alternatives, tried in order: the first one that accepts the
  transaction (its status fits, and it has no expression or one that is true of the transaction's
  fields) is reported, with the status found; a condition whose expression fails to parse or to
  evaluate does not accept. Without conditions every transaction is accepted.\<close>

theorem transaction_first_match:
  "find_matching_transaction env st tx receipt m =
     (let conds = mc_transactions (mon_match_conditions m) in
      if conds = [] then [\<lparr>tc_status = AnyStatus, tc_expression = None\<rparr>]
      else (case find (tx_accepts env st tx receipt) conds of
          None \<Rightarrow> []
        | Some c \<Rightarrow> [\<lparr>tc_status = st, tc_expression = tc_expression c\<rparr>]))"
  unfolding find_matching_transaction_def Let_def match_transaction_conditions_find ..

text \<open>Monitors of failed transactions find nothing in most blocks: as soon as any log was emitted in
  the block, receipts are not fetched (unless an expression mentions \<open>gas_used\<close>), every
  transaction is taken to have succeeded, and a monitor all of whose transaction conditions ask
  for failure reports no match, whatever the receipts say.\<close>

theorem failed_transactions_missed:
  fixes env :: "'abi evm_env" and block :: "'o block_type"
  assumes "get_logs_for_blocks node (case bl_number b of None \<Rightarrow> 0 | Some n \<Rightarrow> n) = Inr all_logs" "all_logs \<noteq> []"
    "mc_transactions (mon_match_conditions m) \<noteq> []"
    "list_all (\<lambda>c. tc_status c = Failure \<and> (case tc_expression c of None \<Rightarrow> True | Some e \<Rightarrow> \<not> sublist ''gas_used'' e))
       (mc_transactions (mon_match_conditions m))"
    "block = BlockEVM b" "evm_filter_block env node net block [m] specs = Some (Inr ms)"
  shows "ms = []"
proof -
  let ?conds = "mc_transactions (mon_match_conditions m)"
  have no_receipt: "\<not> needs_receipt m all_logs"
    using assms(2,4) by (auto simp: needs_receipt_def list_ex_iff list_all_iff split: option.split_asm)
  have none: "find (tx_accepts env Success tx None) ?conds = None" for tx
    using assms(4) by (auto simp: find_None_iff list_all_iff tx_accepts_def)
  have "find_matching_transaction env Success tx None m = []" for tx
    using assms(3) by (simp add: find_matching_transaction_def match_transaction_conditions_find none)
  then have "match_transaction env net especs m tx None logs = None \<or> match_transaction env net especs m tx None logs = Some []"
    for especs tx logs
    using assms(3) by (auto simp: match_transaction_def tx_status_of_def should_match_iff Let_def split: option.splits)
  then have "filter_transaction env node net especs all_logs m tx = None
      \<or> filter_transaction env node net especs all_logs m tx = Some (Inr [])" for especs tx
    using no_receipt by (auto simp: filter_transaction_def Let_def)
  then have inner: "collect (filter_transaction env node net especs all_logs m) txs = None
      \<or> collect (filter_transaction env node net especs all_logs m) txs = Some (Inr [])" for especs txs
    by (intro collect_empty)
  obtain especs where run: "evm_filter_block env node net block [m] specs =
      collect (\<lambda>m. collect (filter_transaction env node net especs all_logs m) (bl_transactions b)) [m]"
    unfolding assms(5) using evm_filter_block_collect [OF assms(1)] by blast
  from inner [of especs "bl_transactions b"] show ?thesis
  proof
    assume "collect (filter_transaction env node net especs all_logs m) (bl_transactions b) = None"
    with run assms(6) show ?thesis by simp
  next
    assume "collect (filter_transaction env node net especs all_logs m) (bl_transactions b) = Some (Inr [])"
    with run assms(6) show ?thesis by simp
  qed
qed

text \<open>A transaction that fails in a block in which another one emitted a log.\<close>

definition failure_conditions :: match_conditions where
  "failure_conditions = \<lparr>mc_functions = [], mc_events = [],
     mc_transactions = [\<lparr>tc_status = Failure, tc_expression = None\<rparr>]\<rparr>"

definition failing_node :: "evm_log list \<Rightarrow> evm_node" where
  "failing_node logs = \<lparr>get_logs_for_blocks = (\<lambda>_. Inr logs),
     get_transaction_receipt = (\<lambda>_. Inr (sample_receipt 0))\<rparr>"

theorem failed_transactions_missed_witness:
  "(\<exists>ms. evm_filter_block sample_env (failing_node [sample_log [[7]]]) sample_network sample_block
       [sample_monitor ''0xA'' failure_conditions] None = Some (Inr ms) \<and> ms = [])
   \<and> (\<exists>ms. evm_filter_block sample_env (failing_node []) sample_network sample_block
       [sample_monitor ''0xA'' failure_conditions] None = Some (Inr ms) \<and> ms \<noteq> [])"
proof -
  let ?f = "\<lambda>logs. evm_filter_block sample_env (failing_node logs) sample_network sample_block
       [sample_monitor ''0xA'' failure_conditions] None"
  have "(case ?f [sample_log [[7]]] of Some (Inr _) \<Rightarrow> True | _ \<Rightarrow> False)" by code_simp
  then obtain ms where ms: "?f [sample_log [[7]]] = Some (Inr ms)" by (auto split: option.split_asm sum.split_asm)
  have "ms = []"
    by (rule failed_transactions_missed [OF _ _ _ _ sample_block_def ms, of "[sample_log [[7]]]"])
      (simp_all add: failing_node_def sample_monitor_def failure_conditions_def)
  moreover have "(case ?f [] of Some (Inr (_ # _)) \<Rightarrow> True | _ \<Rightarrow> False)" by code_simp
  then obtain m ms where "?f [] = Some (Inr (m # ms))" by (auto split: option.split_asm sum.split_asm list.split_asm)
  ultimately show ?thesis using ms by blast
qed

text \<open>One anonymous log ends the process: if a log without topics was emitted in a transaction of the
  block by an address for which a monitor stores an ABI that declares an event, the filter
  panics (if the node answers every request for a receipt).\<close>

theorem anonymous_log_panics:
  fixes env :: "'abi evm_env"
  assumes "get_logs_for_blocks node (case bl_number b of None \<Rightarrow> 0 | Some n \<Rightarrow> n) = Inr all_logs"
    "\<And>h. \<exists>r. get_transaction_receipt node h = Inr r" "m \<in> set monitors" "tx \<in> set (bl_transactions b)"
    "log \<in> set all_logs" "lg_topics log = []" "lg_transaction_hash log = Some (tx_hash tx)"
    "find (\<lambda>a. are_same_address (aw_address a) (h160_to_string (env_evm env) (lg_address log))) (mon_addresses m) = Some a"
    "aw_contract_spec a = Some (SpecEVM abi)" "env_abi env abi = Some contract" "ab_events contract \<noteq> []"
  shows "evm_filter_block env node net (BlockEVM b) monitors specs = None"
proof -
  let ?hash = "b256_to_string (env_evm env) (tx_hash tx)"
  have "log \<in> set (entry_or (group_logs (env_evm env) all_logs) ?hash [])"
    using assms(5,7) by (simp add: group_logs_filter log_hash_def)
  from find_events_panic [OF this assms(6,8-11)]
  have "match_transaction env net especs m tx r (entry_or (group_logs (env_evm env) all_logs) ?hash []) = None" for especs r
    by (simp add: match_transaction_def Let_def)
  then have "filter_transaction env node net especs all_logs m tx = None" for especs
    using assms(2) [of ?hash] by (auto simp: filter_transaction_def Let_def)
  then have inner: "collect (filter_transaction env node net especs all_logs m) (bl_transactions b) = None" for especs
    by (intro collect_panic [of tx]) (simp_all add: assms(4) filter_transaction_no_error [OF assms(2)])
  have "collect (filter_transaction env node net especs all_logs m') (bl_transactions b) \<noteq> Some (Inl e)" for especs m' e
    by (intro collect_no_error filter_transaction_no_error assms(2))
  with inner have "collect (\<lambda>m. collect (filter_transaction env node net especs all_logs m) (bl_transactions b)) monitors = None" for especs
    by (intro collect_panic [of m]) (use assms(3) in auto)
  with evm_filter_block_collect [OF assms(1)] show ?thesis by metis
qed

theorem anonymous_log_panics_witness:
  "evm_filter_block sample_env (sample_node [sample_log []]) sample_network sample_block
     [sample_monitor ''0xc'' no_conditions] None = None"
  unfolding sample_block_def
proof (rule anonymous_log_panics [of _ _ "[sample_log []]" _ _ sample_tx "sample_log []" _ _ sample_abi sample_abi])
  let ?a = "\<lparr>aw_address = ''0xc'', aw_contract_spec = Some (SpecEVM sample_abi)\<rparr>"
  show "find (\<lambda>a. are_same_address (aw_address a) (h160_to_string (env_evm sample_env) (lg_address (sample_log []))))
      (mon_addresses (sample_monitor ''0xc'' no_conditions)) = Some ?a" by code_simp
qed (simp_all add: sample_node_def sample_log_def sample_tx_def sample_env_def sample_abi_def)

text \<open>The selector of a matched function is reported with the prefix \<open>0x\<close> only if the condition
  has an expression; without one the same call is reported without the prefix.\<close>

theorem selector_prefix_depends_on_expression:
  assumes "are_same_signature sig (abi_signature f)" "env_types_ok env (map ap_selector_type (ab_inputs f))"
    "env_decode_params env (map ap_selector_type (ab_inputs f)) (drop 4 input) = Some vals"
    "evaluate_expression env e (decoded_entries env f vals) = Inr True"
  shows "map_option (pm_hex_signature \<circ> snd) (match_function_conditions env f input [\<lparr>fc_signature = sig, fc_expression = Some e\<rparr>])
      = Some (Some (''0x'' @ hex_encode (env_evm env) (ab_selector f)))
    \<and> map_option (pm_hex_signature \<circ> snd) (match_function_conditions env f input [\<lparr>fc_signature = sig, fc_expression = None\<rparr>])
      = Some (Some (hex_encode (env_evm env) (ab_selector f)))"
  using assms by (simp add: Let_def)

theorem selector_prefix_depends_on_expression_witness:
  "map_option (pm_hex_signature \<circ> snd) (match_function_conditions
      sample_env (hd (ab_functions sample_abi)) [1, 2, 3, 4]
      [\<lparr>fc_signature = ''f(uint256)'', fc_expression = None\<rparr>]) = Some (Some (map char_of [1::nat, 2, 3, 4]))"
proof -
  let ?env = sample_env and ?f = "hd (ab_functions sample_abi)"
  have "evaluate_expression ?env ''n == 7'' (decoded_entries ?env ?f [SolUint 7 256]) = Inr True"
    "are_same_signature ''f(uint256)'' (abi_signature ?f)"
    "hex_encode (env_evm ?env) (ab_selector ?f) = map char_of [1::nat, 2, 3, 4]"
    "env_types_ok ?env (map ap_selector_type (ab_inputs ?f))"
    by code_simp+
  with selector_prefix_depends_on_expression [of "''f(uint256)''" ?f ?env "[1, 2, 3, 4]" "[SolUint 7 256]" "''n == 7''"]
  show ?thesis by (simp add: sample_env_def)
qed

end
