(* ===== verification/Match_Handler_Properties.thy ===== *)
theory Match_Handler_Properties imports Match_Handler Evm_Filter_Properties begin

text \<open>
  What the variables handed to the triggers of a match are, and that handling a match never
  fails.
\<close>

section \<open>Flattening as a list\<close>

text \<open>The assignments that the flattening makes, in order.\<close>

fun json_paths :: "json_lib \<Rightarrow> json \<Rightarrow> string \<Rightarrow> (string \<times> string) list"
  and object_paths :: "json_lib \<Rightarrow> (string \<times> json) list \<Rightarrow> string \<Rightarrow> (string \<times> string) list"
  and array_paths :: "json_lib \<Rightarrow> nat \<Rightarrow> json list \<Rightarrow> string \<Rightarrow> (string \<times> string) list" where
  "json_paths jl (JObject obj) pfx = object_paths jl obj pfx"
| "json_paths jl (JArray arr) pfx = array_paths jl 0 arr pfx"
| "json_paths jl (JString s) pfx = [(if pfx = [] then ''value'' else pfx, s)]"
| "json_paths jl (JNumber n) pfx = [(if pfx = [] then ''value'' else pfx, number_print jl n)]"
| "json_paths jl (JBool b) pfx = [(if pfx = [] then ''value'' else pfx, show_bool b)]"
| "json_paths jl JNull pfx = [(if pfx = [] then ''value'' else pfx, ''null'')]"
| "object_paths jl [] pfx = []"
| "object_paths jl ((key, val) # obj) pfx =
     json_paths jl val (if pfx = [] then key else dotted pfx key) @ object_paths jl obj pfx"
| "array_paths jl idx [] pfx = []"
| "array_paths jl idx (val # arr) pfx = json_paths jl val (dotted pfx (show_nat idx)) @ array_paths jl (Suc idx) arr pfx"

abbreviation assign :: "(string \<times> string) list \<Rightarrow> (string \<rightharpoonup> string) \<Rightarrow> (string \<rightharpoonup> string)" where
  "assign \<equiv> fold (\<lambda>(k, v) m. m(k \<mapsto> v))"

lemma flatten_paths:
  "flatten_json_path jl j pfx m = assign (json_paths jl j pfx) m"
  "flatten_object jl obj pfx m = assign (object_paths jl obj pfx) m"
  "flatten_array jl i arr pfx m = assign (array_paths jl i arr pfx) m"
  by (induction jl j pfx m and jl obj pfx m and jl i arr pfx m
      rule: flatten_json_path_flatten_object_flatten_array.induct) (simp_all add: insert_primitive_def)

lemma assign_map_of: "assign xs m = m ++ map_of (rev xs)"
  by (induction xs arbitrary: m) (auto simp: fun_eq_iff map_add_def split: option.splits)

lemma assign_lookup:
  assumes "distinct (map fst xs)"
  shows "assign xs Map.empty = map_of xs"
proof -
  have "map_of (rev xs) = map_of xs"
    using assms by (subst map_of_inject_set) (simp_all add: rev_map [symmetric])
  then show ?thesis by (simp add: assign_map_of)
qed

section \<open>Arguments\<close>

definition arg_texts :: "string \<Rightarrow> match_params_map list \<Rightarrow> (string \<times> string) list" where
  "arg_texts sig args = concat (map (\<lambda>fa. case pm_args fa of None \<Rightarrow> [] | Some es \<Rightarrow> map (\<lambda>e. (pe_name e, pe_value e)) es)
     (filter (\<lambda>fa. pm_signature fa = sig) args))"

lemma fold_update: "fold (\<lambda>e. AList.update (pe_name e) (JString (pe_value e))) es obj =
    fold (\<lambda>(k, v). AList.update k (JString v)) (map (\<lambda>e. (pe_name e, pe_value e)) es) obj"
  by (induction es arbitrary: obj) simp_all

lemma collect_args_fold:
  "fold (\<lambda>fa obj. if pm_signature fa = sig
       then (case pm_args fa of
           None \<Rightarrow> obj
         | Some es \<Rightarrow> fold (\<lambda>e. AList.update (pe_name e) (JString (pe_value e))) es obj)
       else obj) args obj = fold (\<lambda>(k, v). AList.update k (JString v)) (arg_texts sig args) obj"
  by (induction args arbitrary: obj) (auto simp: arg_texts_def fold_update split: option.splits)

text \<open>The value of an argument is the last one recorded under its name.\<close>

definition last_value :: "(string \<times> string) list \<Rightarrow> string \<rightharpoonup> string" where
  "last_value xs = map_of (rev xs)"

lemma update_fold_keys: "distinct (map fst obj) \<Longrightarrow>
   distinct (map fst (fold (\<lambda>(k, v). AList.update k (JString v)) xs obj))"
  by (induction xs arbitrary: obj) (auto simp: distinct_update)

lemma update_fold_strings: "\<forall>(k, v) \<in> set obj. \<exists>s. v = JString s \<Longrightarrow>
   \<forall>(k, v) \<in> set (fold (\<lambda>(k, v). AList.update k (JString v)) xs obj). \<exists>s. v = JString s"
proof (induction xs arbitrary: obj)
  case (Cons p xs)
  obtain k t where p: "p = (k, t)" by (cases p)
  have "\<forall>(k', v) \<in> set (AList.update k (JString t) obj). \<exists>s. v = JString s"
    using Cons.prems by (induction obj) auto
  from Cons.IH [OF this] show ?case by (simp add: p)
qed simp

lemma update_fold_lookup: "map_of (fold (\<lambda>(k, v). AList.update k (JString v)) xs obj) =
   map_of obj ++ (map_option JString \<circ> last_value xs)"
  by (induction xs arbitrary: obj) (auto simp: fun_eq_iff update_conv' map_add_def last_value_def split: option.splits)

lemma collect_args_facts:
  "distinct (map fst (collect_args sig args))"
  "\<forall>(k, v) \<in> set (collect_args sig args). \<exists>s. v = JString s"
  "map_of (collect_args sig args) = map_option JString \<circ> last_value (arg_texts sig args)"
  unfolding collect_args_def collect_args_fold
  by (intro update_fold_keys) (simp, intro update_fold_strings, simp, simp add: update_fold_lookup)

section \<open>The keys of a match\<close>

fun json_text :: "json \<Rightarrow> string" where
  "json_text (JString s) = s"
| "json_text _ = []"

lemma string_object_paths:
  "\<forall>(k, v) \<in> set obj. \<exists>s. v = JString s \<Longrightarrow> pfx \<noteq> [] \<Longrightarrow>
   object_paths jl obj pfx = map (\<lambda>(k, v). (dotted pfx k, json_text v)) obj"
  by (induction obj) (auto simp: dotted_def)

definition entry_paths :: "match_params_map list \<Rightarrow> string \<Rightarrow> string \<Rightarrow> (string \<times> string) list" where
  "entry_paths args sig pfx = (dotted pfx ''signature'', sig)
     # map (\<lambda>(k, v). (dotted pfx (''args.'' @ k), json_text v)) (collect_args sig args)"

lemma matched_entry_paths:
  "pfx \<noteq> [] \<Longrightarrow> json_paths jl (matched_entry args sig) pfx = entry_paths args sig pfx"
  using string_object_paths [OF collect_args_facts(2), of "dotted pfx ''args''" jl sig args]
  by (simp add: matched_entry_def entry_paths_def dotted_def comp_def)

lemma matched_array_paths:
  "array_paths jl i (map (matched_entry args) sigs) pfx =
     concat (map (\<lambda>(n, sig). entry_paths args sig (dotted pfx (show_nat n))) (List.enumerate i sigs))"
proof (induction sigs arbitrary: i)
  case (Cons sig sigs)
  have "dotted pfx (show_nat i) \<noteq> []" by (simp add: dotted_def)
  with Cons show ?case by (simp add: matched_entry_paths)
qed simp

text \<open>A number before a dot can be read off.\<close>

lemma digits_dot:
  assumes "show_nat m @ CHR ''.'' # r = show_nat n @ CHR ''.'' # r'"
  shows "m = n \<and> r = r'"
proof -
  have dot: "\<not> is_digit (CHR ''.'')" by (simp add: is_digit_def char_code_def)
  have "takeWhile is_digit (show_nat k @ CHR ''.'' # s) = show_nat k"
    "dropWhile is_digit (show_nat k @ CHR ''.'' # s) = CHR ''.'' # s" for k s
    using show_nat_digits [of k] dot by (simp_all add: takeWhile_append2 dropWhile_append2 list_all_iff)
  with assms have "show_nat m = show_nat n" "r = r'" by (metis, metis list.inject)
  then show ?thesis by (simp add: show_nat_inj)
qed

lemma entry_keys:
  "k \<in> fst ` set (entry_paths args sig (dotted pfx (show_nat n))) \<Longrightarrow>
   \<exists>r. k = pfx @ CHR ''.'' # show_nat n @ CHR ''.'' # r"
  by (auto simp: entry_paths_def dotted_def)

lemma entry_keys_distinct: "distinct (map fst (entry_paths args sig pfx))"
  using collect_args_facts(1) [of sig args]
  by (auto simp: entry_paths_def dotted_def comp_def distinct_map inj_on_def split: prod.splits) (metis fst_conv snd_conv)

abbreviation entry_at :: "string \<Rightarrow> nat \<Rightarrow> string \<Rightarrow> string" where
  "entry_at pfx i r \<equiv> dotted (dotted pfx (show_nat i)) r"

abbreviation array_entries :: "match_params_map list \<Rightarrow> string \<Rightarrow> nat \<Rightarrow> string list \<Rightarrow> (string \<times> string) list" where
  "array_entries args pfx b sigs \<equiv>
     concat (map (\<lambda>(n, sig). entry_paths args sig (dotted pfx (show_nat n))) (List.enumerate b sigs))"

lemma entry_at_inj: "entry_at pfx i r = entry_at pfx j r' \<longleftrightarrow> i = j \<and> r = r'"
  using digits_dot [of i r j r'] by (auto simp: dotted_def)

lemma array_keys:
  "k \<in> fst ` set (array_entries args pfx b sigs) \<Longrightarrow> \<exists>n r. b \<le> n \<and> k = entry_at pfx n r"
proof (induction sigs arbitrary: b)
  case (Cons sig sigs)
  from Cons.prems consider "k \<in> fst ` set (entry_paths args sig (dotted pfx (show_nat b)))"
    | "k \<in> fst ` set (array_entries args pfx (Suc b) sigs)" by auto
  then show ?case
  proof cases
    case 1
    from entry_keys [OF this] show ?thesis by (auto simp: dotted_def)
  next
    case 2
    from Cons.IH [OF this] show ?thesis using Suc_leD by blast
  qed
qed simp

lemma array_keys_distinct: "distinct (map fst (array_entries args pfx b sigs))"
proof (induction sigs arbitrary: b)
  case (Cons sig sigs)
  have "k \<notin> fst ` set (array_entries args pfx (Suc b) sigs)"
    if "k \<in> fst ` set (entry_paths args sig (dotted pfx (show_nat b)))" for k
  proof
    assume "k \<in> fst ` set (array_entries args pfx (Suc b) sigs)"
    then obtain n r where "Suc b \<le> n" "k = entry_at pfx n r" using array_keys by blast
    moreover from entry_keys [OF that] obtain r' where "k = entry_at pfx b r'" by (auto simp: dotted_def)
    ultimately show False using entry_at_inj by auto
  qed
  then have "fst ` set (entry_paths args sig (dotted pfx (show_nat b))) \<inter> fst ` set (array_entries args pfx (Suc b) sigs) = {}"
    by blast
  moreover have "array_entries args pfx b (sig # sigs) =
      entry_paths args sig (dotted pfx (show_nat b)) @ array_entries args pfx (Suc b) sigs" by simp
  ultimately show ?case using Cons.IH entry_keys_distinct
    by (simp only: map_append distinct_append set_map)
qed simp

lemma array_lookup:
  "i < length sigs \<Longrightarrow> map_of (array_entries args pfx b sigs) (entry_at pfx (b + i) r) =
     map_of (entry_paths args (sigs ! i) (dotted pfx (show_nat (b + i)))) (entry_at pfx (b + i) r)"
proof (induction sigs arbitrary: b i)
  case (Cons sig sigs)
  show ?case
  proof (cases i)
    case 0
    have "entry_at pfx b r \<notin> fst ` set (array_entries args pfx (Suc b) sigs)"
      using array_keys [of "entry_at pfx b r" args pfx "Suc b" sigs] entry_at_inj by auto
    then have "map_of (array_entries args pfx (Suc b) sigs) (entry_at pfx b r) = None"
      by (simp add: map_of_eq_None_iff)
    with 0 show ?thesis by (simp add: map_add_def split: option.splits)
  next
    case (Suc j)
    have "entry_at pfx (Suc b + j) r \<notin> fst ` set (entry_paths args sig (dotted pfx (show_nat b)))"
    proof
      assume "entry_at pfx (Suc b + j) r \<in> fst ` set (entry_paths args sig (dotted pfx (show_nat b)))"
      from entry_keys [OF this] obtain r' where "entry_at pfx (Suc b + j) r = entry_at pfx b r'"
        by (auto simp: dotted_def)
      then show False unfolding entry_at_inj by simp
    qed
    then have "map_of (entry_paths args sig (dotted pfx (show_nat b))) (entry_at pfx (Suc b + j) r) = None"
      by (simp add: map_of_eq_None_iff)
    with Cons.IH [of j "Suc b"] Cons.prems Suc show ?thesis by (simp add: map_add_def split: option.splits)
  qed
qed simp

lemma map_of_map_inj: "inj f \<Longrightarrow> map_of (map (\<lambda>(k, v). (f k, g v)) xs) (f x) = map_option g (map_of xs x)"
  by (induction xs) (auto simp: inj_eq)

lemma entry_lookup:
  "map_of (entry_paths args sig pfx) (dotted pfx ''signature'') = Some sig"
  "map_of (entry_paths args sig pfx) (dotted pfx (''args.'' @ x)) = last_value (arg_texts sig args) x"
proof -
  have "inj (\<lambda>k. dotted pfx (''args.'' @ k))" by (auto simp: inj_def dotted_def)
  from map_of_map_inj [OF this, of json_text "collect_args sig args" x]
  show "map_of (entry_paths args sig pfx) (dotted pfx (''args.'' @ x)) = last_value (arg_texts sig args) x"
    by (simp add: entry_paths_def dotted_def collect_args_facts(3) option.map_comp comp_def option.map_ident)
qed (simp add: entry_paths_def)

section \<open>The variables of a match\<close>

definition match_paths :: "string \<Rightarrow> (string \<times> string) list \<Rightarrow> match_conditions \<Rightarrow> match_arguments option \<Rightarrow> (string \<times> string) list" where
  "match_paths name tx on args = (''monitor.name'', name) # map (\<lambda>(k, v). (''transaction.'' @ k, v)) tx
     @ array_entries (args_of ma_functions args) ''functions'' 0 (map fc_signature (mc_functions on))
     @ array_entries (args_of ma_events args) ''events'' 0 (map ec_signature (mc_events on))"

lemma array_first: "k \<in> fst ` set (array_entries args pfx b sigs) \<Longrightarrow> pfx \<noteq> [] \<Longrightarrow> hd k = hd pfx"
  using array_keys [of k args pfx b sigs] by (auto simp: dotted_def)

lemma disjoint_hd:
  "(\<And>k. k \<in> A \<Longrightarrow> hd k = c) \<Longrightarrow> (\<And>k. k \<in> B \<Longrightarrow> hd k = d) \<Longrightarrow> c \<noteq> d \<Longrightarrow> A \<inter> B = {}"
  by blast

lemma match_json_paths:
  assumes "distinct (map fst tx)"
  shows "json_to_hashmap jl (match_json name (map (apsnd JString) tx) on args) = map_of (match_paths name tx on args)"
proof -
  have tx: "object_paths jl (map (apsnd JString) tx) ''transaction'' = map (\<lambda>(k, v). (''transaction.'' @ k, v)) tx"
    by (induction tx) (auto simp: dotted_def)
  have "json_paths jl (match_json name (map (apsnd JString) tx) on args) [] = match_paths name tx on args"
    using matched_array_paths [of jl 0 "args_of ma_functions args" "map fc_signature (mc_functions on)" "''functions''"]
      matched_array_paths [of jl 0 "args_of ma_events args" "map ec_signature (mc_events on)" "''events''"]
    by (simp add: match_json_def match_paths_def tx dotted_def comp_def)
  moreover have "distinct (map fst (match_paths name tx on args))"
  proof -
    define T where "T = map (\<lambda>(k, v). (''transaction.'' @ k, v)) tx"
    define F where "F = array_entries (args_of ma_functions args) ''functions'' 0 (map fc_signature (mc_functions on))"
    define E where "E = array_entries (args_of ma_events args) ''events'' 0 (map ec_signature (mc_events on))"
    have paths: "match_paths name tx on args = (''monitor.name'', name) # T @ F @ E"
      by (simp add: match_paths_def T_def F_def E_def)
    have "map fst T = map (\<lambda>k. ''transaction.'' @ k) (map fst tx)" by (auto simp: T_def)
    with assms have "distinct (map fst T)" by (simp add: distinct_map inj_on_def del: map_map)
    moreover have "distinct (map fst F)" "distinct (map fst E)" unfolding F_def E_def by (rule array_keys_distinct)+
    moreover have t: "hd k = CHR ''t''" if "k \<in> fst ` set T" for k using that by (auto simp: T_def)
    moreover have f: "hd k = CHR ''f''" if "k \<in> fst ` set F" for k using array_first [OF that [unfolded F_def]] by simp
    moreover have e: "hd k = CHR ''e''" if "k \<in> fst ` set E" for k using array_first [OF that [unfolded E_def]] by simp
    moreover have "fst ` set T \<inter> fst ` set F = {}" "fst ` set T \<inter> fst ` set E = {}" "fst ` set F \<inter> fst ` set E = {}"
      using disjoint_hd [OF t f] disjoint_hd [OF t e] disjoint_hd [OF f e] by simp_all
    moreover have "''monitor.name'' \<notin> fst ` set T" "''monitor.name'' \<notin> fst ` set F" "''monitor.name'' \<notin> fst ` set E"
      using t [of "''monitor.name''"] f [of "''monitor.name''"] e [of "''monitor.name''"] by auto
    ultimately have "distinct (''monitor.name'' # map fst T @ map fst F @ map fst E)" by auto
    then show ?thesis by (simp only: paths list.map fst_conv map_append)
  qed
  ultimately show ?thesis
    unfolding json_to_hashmap_def flatten_paths by (simp add: assign_lookup)
qed

lemma map_of_miss: "(\<And>k'. k' \<in> fst ` set xs \<Longrightarrow> hd k' = c) \<Longrightarrow> hd k \<noteq> c \<Longrightarrow> map_of xs k = None"
  by (metis map_of_eq_None_iff)

lemma match_paths_lookup:
  "map_of (match_paths name tx on args) ''monitor.name'' = Some name"
  "map_of (match_paths name tx on args) (''transaction.'' @ k) = map_of tx k"
  "i < length (mc_functions on) \<Longrightarrow> map_of (match_paths name tx on args) (entry_at ''functions'' i r) =
     map_of (entry_paths (args_of ma_functions args) (fc_signature (mc_functions on ! i)) (dotted ''functions'' (show_nat i)))
       (entry_at ''functions'' i r)"
  "i < length (mc_events on) \<Longrightarrow> map_of (match_paths name tx on args) (entry_at ''events'' i r) =
     map_of (entry_paths (args_of ma_events args) (ec_signature (mc_events on ! i)) (dotted ''events'' (show_nat i)))
       (entry_at ''events'' i r)"
proof -
  define T where "T = map (\<lambda>(k, v). (''transaction.'' @ k, v)) tx"
  define F where "F = array_entries (args_of ma_functions args) ''functions'' 0 (map fc_signature (mc_functions on))"
  define E where "E = array_entries (args_of ma_events args) ''events'' 0 (map ec_signature (mc_events on))"
  have paths: "match_paths name tx on args = (''monitor.name'', name) # T @ F @ E"
    by (simp add: match_paths_def T_def F_def E_def)
  have T: "map_of T k = None" if "hd k \<noteq> CHR ''t''" for k
    by (rule map_of_miss [OF _ that]) (auto simp: T_def)
  have F: "map_of F k = None" if "hd k \<noteq> CHR ''f''" for k
    by (rule map_of_miss [OF _ that]) (use array_first in \<open>fastforce simp: F_def simp del: set_concat\<close>)
  have E: "map_of E k = None" if "hd k \<noteq> CHR ''e''" for k
    by (rule map_of_miss [OF _ that]) (use array_first in \<open>fastforce simp: E_def simp del: set_concat\<close>)
  show "map_of (match_paths name tx on args) ''monitor.name'' = Some name" by (simp add: paths)
  have "map_of T (''transaction.'' @ k) = map_option id (map_of tx k)"
    unfolding T_def using map_of_map_inj [of "\<lambda>k. ''transaction.'' @ k" id tx k] by (simp add: inj_def)
  then show "map_of (match_paths name tx on args) (''transaction.'' @ k) = map_of tx k"
    using F [of "''transaction.'' @ k"] E [of "''transaction.'' @ k"]
    by (simp add: paths map_add_def option.map_id split: option.splits)
  show "map_of (match_paths name tx on args) (entry_at ''functions'' i r) =
     map_of (entry_paths (args_of ma_functions args) (fc_signature (mc_functions on ! i)) (dotted ''functions'' (show_nat i)))
       (entry_at ''functions'' i r)" if "i < length (mc_functions on)"
  proof -
    let ?k = "entry_at ''functions'' i r"
    have k: "hd ?k = CHR ''f''" by (simp add: dotted_def)
    have "map_of F ?k = map_of (entry_paths (args_of ma_functions args) (fc_signature (mc_functions on ! i)) (dotted ''functions'' (show_nat i))) ?k"
      using array_lookup [of i "map fc_signature (mc_functions on)" "args_of ma_functions args" "''functions''" 0 r] that
      by (simp only: F_def length_map nth_map add_0)
    moreover have "?k \<noteq> ''monitor.name''" using k by auto
    moreover have "map_of T ?k = None" "map_of E ?k = None" using k by (auto intro: T E)
    ultimately show ?thesis by (simp add: paths map_add_def split: option.split)
  qed
  show "map_of (match_paths name tx on args) (entry_at ''events'' i r) =
     map_of (entry_paths (args_of ma_events args) (ec_signature (mc_events on ! i)) (dotted ''events'' (show_nat i)))
       (entry_at ''events'' i r)" if "i < length (mc_events on)"
  proof -
    let ?k = "entry_at ''events'' i r"
    have k: "hd ?k = CHR ''e''" by (simp add: dotted_def)
    have "map_of E ?k = map_of (entry_paths (args_of ma_events args) (ec_signature (mc_events on ! i)) (dotted ''events'' (show_nat i))) ?k"
      using array_lookup [of i "map ec_signature (mc_events on)" "args_of ma_events args" "''events''" 0 r] that
      by (simp only: E_def length_map nth_map add_0)
    moreover have "?k \<noteq> ''monitor.name''" using k by auto
    moreover have "map_of T ?k = None" "map_of F ?k = None" using k by (auto intro: T F)
    ultimately show ?thesis by (simp add: paths map_add_def split: option.split)
  qed
qed

text \<open>The texts of the fields of a transaction.\<close>

definition evm_fields :: "evm_lib \<Rightarrow> evm_transaction \<Rightarrow> (string \<times> string) list" where
  "evm_fields el tx =
     [(''hash'', b256_to_string el (tx_hash tx)),
      (''from'', h160_to_string el (case tx_from tx of None \<Rightarrow> replicate 20 0 | Some a \<Rightarrow> a)),
      (''value'', u256_print el (tx_value tx))]
     @ (case tx_to tx of None \<Rightarrow> [] | Some to \<Rightarrow> [(''to'', h160_to_string el to)])"

lemma evm_match_variables:
  "json_to_hashmap jl (match_data el (MatchEVM m)) =
     map_of (match_paths (mon_name (em_monitor m)) (evm_fields el (em_transaction m)) (em_matched_on m) (em_matched_on_args m))"
proof -
  have "evm_transaction_json el tx = map (apsnd JString) (evm_fields el tx)" for tx
    by (simp add: evm_transaction_json_def evm_fields_def Let_def split: option.split)
  moreover have "distinct (map fst (evm_fields el tx))" for tx
    by (simp add: evm_fields_def split: option.split)
  ultimately show ?thesis by (simp add: match_json_paths)
qed

section \<open>Properties\<close>

text \<open>The variables of an EVM match: the name of the monitor, the fields of the transaction (the zero
  address for a missing sender, no \<open>to\<close> for a contract creation), and for every matched event
  and function under its index its signature and its arguments; an argument has the last value
  recorded under its name for a match of that signature.\<close>

theorem match_variables:
  assumes "vars = json_to_hashmap jl (match_data el (MatchEVM m))"
    "i < length (mc_events (em_matched_on m))" "j < length (mc_functions (em_matched_on m))"
  shows "vars ''monitor.name'' = Some (mon_name (em_monitor m))
    \<and> vars ''transaction.hash'' = Some (b256_to_string el (tx_hash (em_transaction m)))
    \<and> vars ''transaction.from'' = Some (h160_to_string el
        (case tx_from (em_transaction m) of None \<Rightarrow> replicate 20 0 | Some a \<Rightarrow> a))
    \<and> vars ''transaction.value'' = Some (u256_print el (tx_value (em_transaction m)))
    \<and> vars ''transaction.to'' = map_option (h160_to_string el) (tx_to (em_transaction m))
    \<and> vars (''events.'' @ show_nat i @ ''.signature'') = Some (ec_signature (mc_events (em_matched_on m) ! i))
    \<and> vars (''events.'' @ show_nat i @ ''.args.'' @ x) = last_value
        (arg_texts (ec_signature (mc_events (em_matched_on m) ! i)) (args_of ma_events (em_matched_on_args m))) x
    \<and> vars (''functions.'' @ show_nat j @ ''.signature'') = Some (fc_signature (mc_functions (em_matched_on m) ! j))
    \<and> vars (''functions.'' @ show_nat j @ ''.args.'' @ x) = last_value
        (arg_texts (fc_signature (mc_functions (em_matched_on m) ! j)) (args_of ma_functions (em_matched_on_args m))) x"
proof -
  note look = match_paths_lookup [where name = "mon_name (em_monitor m)" and tx = "evm_fields el (em_transaction m)"
      and on = "em_matched_on m" and args = "em_matched_on_args m"]
  have "vars (''transaction.'' @ k) = map_of (evm_fields el (em_transaction m)) k" for k
    unfolding assms(1) evm_match_variables by (rule look(2))
  from this [of "''hash''"] this [of "''from''"] this [of "''value''"] this [of "''to''"]
  have tx: "vars ''transaction.hash'' = Some (b256_to_string el (tx_hash (em_transaction m)))"
    "vars ''transaction.from'' = Some (h160_to_string el
        (case tx_from (em_transaction m) of None \<Rightarrow> replicate 20 0 | Some a \<Rightarrow> a))"
    "vars ''transaction.value'' = Some (u256_print el (tx_value (em_transaction m)))"
    "vars ''transaction.to'' = map_option (h160_to_string el) (tx_to (em_transaction m))"
    by (simp_all add: evm_fields_def split: option.split)
  have evs: "vars (entry_at ''events'' i ''signature'') = Some (ec_signature (mc_events (em_matched_on m) ! i))"
    "vars (entry_at ''events'' i (''args.'' @ x)) = last_value
        (arg_texts (ec_signature (mc_events (em_matched_on m) ! i)) (args_of ma_events (em_matched_on_args m))) x"
    unfolding assms(1) evm_match_variables look(4) [OF assms(2)] by (rule entry_lookup)+
  have fns: "vars (entry_at ''functions'' j ''signature'') = Some (fc_signature (mc_functions (em_matched_on m) ! j))"
    "vars (entry_at ''functions'' j (''args.'' @ x)) = last_value
        (arg_texts (fc_signature (mc_functions (em_matched_on m) ! j)) (args_of ma_functions (em_matched_on_args m))) x"
    unfolding assms(1) evm_match_variables look(3) [OF assms(3)] by (rule entry_lookup)+
  have "vars ''monitor.name'' = Some (mon_name (em_monitor m))"
    unfolding assms(1) evm_match_variables by (rule look(1))
  with tx evs fns show ?thesis by (simp add: dotted_def)
qed

text \<open>A match with two transfers of different amounts in one transaction.\<close>

definition transfer_args :: "string \<Rightarrow> match_params_map" where
  "transfer_args v = \<lparr>pm_signature = ''Transfer(uint256)'',
     pm_args = Some [\<lparr>pe_name = ''value'', pe_value = v, pe_indexed = False, pe_kind = ''uint256''\<rparr>],
     pm_hex_signature = None\<rparr>"

definition two_transfers :: "abi_contract evm_monitor_match" where
  "two_transfers = \<lparr>em_monitor = sample_monitor ''0xA'' no_conditions, em_transaction = sample_tx, em_receipt = None,
     em_logs = None, em_network_slug = ''eth'',
     em_matched_on = \<lparr>mc_functions = [\<lparr>fc_signature = ''f()'', fc_expression = None\<rparr>],
       mc_events = replicate 2 \<lparr>ec_signature = ''Transfer(uint256)'', ec_expression = None\<rparr>, mc_transactions = []\<rparr>,
     em_matched_on_args = Some \<lparr>ma_functions = None, ma_events = Some [transfer_args ''1'', transfer_args ''1000'']\<rparr>\<rparr>"

lemma two_transfers_facts:
  "mc_events (em_matched_on two_transfers) = replicate 2 \<lparr>ec_signature = ''Transfer(uint256)'', ec_expression = None\<rparr>"
  "length (mc_functions (em_matched_on two_transfers)) = 1"
  "arg_texts ''Transfer(uint256)'' (args_of ma_events (em_matched_on_args two_transfers)) = [(''value'', ''1''), (''value'', ''1000'')]"
  by (simp_all add: two_transfers_def args_of_def arg_texts_def transfer_args_def)

theorem match_variables_witness:
  "json_to_hashmap sample_json_lib (match_data sample_evm_lib (MatchEVM two_transfers)) ''events.0.args.value'' = Some ''1000''
   \<and> json_to_hashmap sample_json_lib (match_data sample_evm_lib (MatchEVM two_transfers)) ''transaction.value'' = Some ''7''"
proof -
  have "show_nat 0 = ''0''" by code_simp
  moreover have "u256_print sample_evm_lib v = ''7''" for v by (simp add: sample_evm_lib_def)
  ultimately show ?thesis
    using match_variables [OF refl, of 0 two_transfers 0 sample_json_lib sample_evm_lib "''value''"]
    by (simp add: two_transfers_facts last_value_def del: match_data.simps)
qed

text \<open>Matched events with the same signature cannot be told apart: whatever was recorded for each of
  them, all of them are given the same arguments, those of the last one. Two transfers of 1
  and of 1000 in one transaction are both reported as transfers of 1000.\<close>

theorem same_signature_arguments_merged:
  assumes "vars = json_to_hashmap jl (match_data el (MatchEVM m))"
    "i < length (mc_events (em_matched_on m))" "j < length (mc_events (em_matched_on m))"
    "ec_signature (mc_events (em_matched_on m) ! i) = ec_signature (mc_events (em_matched_on m) ! j)"
  shows "vars (''events.'' @ show_nat i @ ''.args.'' @ x) = vars (''events.'' @ show_nat j @ ''.args.'' @ x)"
proof -
  note look = match_paths_lookup(4) [where name = "mon_name (em_monitor m)" and tx = "evm_fields el (em_transaction m)"
      and on = "em_matched_on m" and args = "em_matched_on_args m"]
  have "vars (entry_at ''events'' i (''args.'' @ x)) = vars (entry_at ''events'' j (''args.'' @ x))"
    unfolding assms(1) evm_match_variables look [OF assms(2)] look [OF assms(3)] entry_lookup assms(4) ..
  then show ?thesis by (simp add: dotted_def)
qed

theorem same_signature_arguments_merged_witness:
  "pm_args (transfer_args ''1'') \<noteq> pm_args (transfer_args ''1000'')
   \<and> json_to_hashmap sample_json_lib (match_data sample_evm_lib (MatchEVM two_transfers)) (''events.'' @ show_nat 0 @ ''.args.value'')
     = json_to_hashmap sample_json_lib (match_data sample_evm_lib (MatchEVM two_transfers)) (''events.'' @ show_nat 1 @ ''.args.value'')"
  using same_signature_arguments_merged [OF refl, of 0 two_transfers 1 sample_json_lib sample_evm_lib "''value''"]
  by (simp add: two_transfers_facts transfer_args_def)

end
