(* ===== verification/Stellar_Values.thy ===== *)
theory Stellar_Values imports Expression begin

text \<open>
  Values and types of Stellar contracts (src/src/services/filter/filters/stellar/helpers.rs and
  src/src/models/blockchain/stellar/monitor.rs): conversion of XDR values and types, their texts,
  signatures, contract specifications, and the unpacking of event data. XDR, base64,
  hexadecimal and strkey codecs and the reader of WASM files are parameters. The XDR types are
  those of the library as the code matches on them.
\<close>

section \<open>XDR values and types\<close>

datatype sc_address =
    ScContract "byte list"
  | ScAccount "byte list"
  | ScMuxedAccount
  | ScClaimableBalance
  | ScLiquidityPool

text \<open>Signed integers are words that are read with their sign. \<open>ScInstance\<close> carries the hash of the
  code, if the executable is WASM; \<open>ScOther\<close> stands for the values that no match names.\<close>

datatype sc_val =
    ScBool bool
  | ScVoid
  | ScU32 u32
  | ScI32 u32
  | ScU64 u64
  | ScI64 u64
  | ScTimepoint u64
  | ScDuration u64
  | ScU128 u64 u64
  | ScI128 u64 u64
  | ScU256 u64 u64 u64 u64
  | ScI256 u64 u64 u64 u64
  | ScBytes "byte list"
  | ScString string
  | ScSymbol string
  | ScVec "sc_val list option"
  | ScMap "(sc_val \<times> sc_val) list option"
  | ScAddress sc_address
  | ScInstance "byte list option"
  | ScOther

datatype sc_type =
    TyMap sc_type sc_type
  | TyVec sc_type
  | TyBytesN u32
  | TyTuple "sc_type list"
  | TyU128 | TyI128 | TyU256 | TyI256 | TyAddress | TyBool | TySymbol | TyString | TyBytes
  | TyU32 | TyI32 | TyU64 | TyI64 | TyTimepoint | TyDuration | TyVoid
  | TyUdt string
  | TyOther

record sc_param =
  scp_name :: string
  scp_type :: sc_type

datatype sc_location = TopicList | DataField

record sc_event_param = sc_param +
  scp_location :: sc_location

datatype sc_spec_entry =
    FunctionV0 string "sc_param list"
  | EventV0 string "string list" "sc_event_param list"
  | OtherEntry

text \<open>The libraries: addresses to and from text, bytes to hexadecimal, base64, XDR, JSON of XDR values.\<close>

record xdr_lib =
  xl_contract :: "byte list \<Rightarrow> string"
  xl_account :: "byte list \<Rightarrow> string"
  xl_is_contract :: "string \<Rightarrow> bool"
  xl_is_account :: "string \<Rightarrow> bool"
  xl_hex :: "byte list \<Rightarrow> string"
  xl_unhex :: "string \<Rightarrow> byte list option"
  xl_base64 :: "string \<Rightarrow> byte list option"
  xl_sc_val :: "byte list \<Rightarrow> sc_val option"
  xl_json_vec :: "sc_val list \<Rightarrow> string"
  xl_json_map :: "(sc_val \<times> sc_val) list \<Rightarrow> string"
  xl_spec_entries :: "json \<Rightarrow> sc_spec_entry list option"
  xl_wasm_spec :: "byte list \<Rightarrow> sc_spec_entry list option"

section \<open>Large integers\<close>

definition u256_from_limbs :: "u64 \<Rightarrow> u64 \<Rightarrow> u64 \<Rightarrow> u64 \<Rightarrow> u256" where
  "u256_from_limbs lo_lo lo_hi hi_lo hi_hi =
     ucast lo_lo + push_bit 64 (ucast lo_hi) + push_bit 128 (ucast hi_lo) + push_bit 192 (ucast hi_hi)"

definition combine_u256 :: "u64 \<Rightarrow> u64 \<Rightarrow> u64 \<Rightarrow> u64 \<Rightarrow> string" where
  "combine_u256 hi_hi hi_lo lo_hi lo_lo = show_word (u256_from_limbs lo_lo lo_hi hi_lo hi_hi)"

text \<open>The negation of \<open>I256\<close> wraps at its minimum.\<close>

definition combine_i256 :: "u64 \<Rightarrow> u64 \<Rightarrow> u64 \<Rightarrow> u64 \<Rightarrow> string" where
  "combine_i256 hi_hi hi_lo lo_hi lo_lo =
     (let raw = u256_from_limbs lo_lo lo_hi hi_lo hi_hi in
      if sint hi_hi < 0 then show_int (sint (- raw)) else show_int (sint raw))"

definition combine_u128 :: "u64 \<Rightarrow> u64 \<Rightarrow> string" where
  "combine_u128 hi lo = show_word (or (push_bit 64 (ucast hi)) (ucast lo) :: 128 word)"

definition combine_i128 :: "u64 \<Rightarrow> u64 \<Rightarrow> string" where
  "combine_i128 hi lo = show_int (sint (or (push_bit 64 (scast hi)) (ucast lo) :: 128 word))"

section \<open>Types\<close>

datatype stellar_type =
    TBool | TVoid | TU32 | TI32 | TU64 | TI64 | TU128 | TI128 | TU256 | TI256
  | TBytes "u32 option"
  | TString | TSymbol
  | TVec stellar_type
  | TMap stellar_type stellar_type
  | TTuple stellar_type
  | TAddress | TTimepoint | TDuration
  | TUnion "stellar_type list"
  | TSequence "stellar_type list"
  | TUdt string

fun type_of_sc_type :: "sc_type \<Rightarrow> stellar_type" where
  "type_of_sc_type (TyMap k v) = TMap (type_of_sc_type k) (type_of_sc_type v)"
| "type_of_sc_type (TyVec t) = TVec (type_of_sc_type t)"
| "type_of_sc_type (TyBytesN n) = TBytes (Some n)"
| "type_of_sc_type (TyTuple ts) = TTuple (TSequence (map type_of_sc_type ts))"
| "type_of_sc_type TyU128 = TU128"
| "type_of_sc_type TyI128 = TI128"
| "type_of_sc_type TyU256 = TU256"
| "type_of_sc_type TyI256 = TI256"
| "type_of_sc_type TyAddress = TAddress"
| "type_of_sc_type TyBool = TBool"
| "type_of_sc_type TySymbol = TSymbol"
| "type_of_sc_type TyString = TString"
| "type_of_sc_type TyBytes = TBytes None"
| "type_of_sc_type TyU32 = TU32"
| "type_of_sc_type TyI32 = TI32"
| "type_of_sc_type TyU64 = TU64"
| "type_of_sc_type TyI64 = TI64"
| "type_of_sc_type TyTimepoint = TTimepoint"
| "type_of_sc_type TyDuration = TDuration"
| "type_of_sc_type TyVoid = TVoid"
| "type_of_sc_type (TyUdt n) = TUdt n"
| "type_of_sc_type TyOther = TVoid"

definition is_address :: "xdr_lib \<Rightarrow> string \<Rightarrow> bool" where
  "is_address xl a \<longleftrightarrow> xl_is_account xl a \<or> xl_is_contract xl a"

definition type_of_json :: "xdr_lib \<Rightarrow> json \<Rightarrow> stellar_type" where
  "type_of_json xl j = (case j of
       JNumber n \<Rightarrow> (case n of PosInt _ \<Rightarrow> TU64 | _ \<Rightarrow> TI64)
     | JBool _ \<Rightarrow> TBool
     | JString s \<Rightarrow> if is_address xl s then TAddress else TString
     | JArray _ \<Rightarrow> TVec TVoid
     | JObject _ \<Rightarrow> TMap TString TVoid
     | JNull \<Rightarrow> TVoid)"

fun show_type :: "stellar_type \<Rightarrow> string" where
  "show_type TBool = ''Bool''"
| "show_type TVoid = ''Void''"
| "show_type TU32 = ''U32''"
| "show_type TI32 = ''I32''"
| "show_type TU64 = ''U64''"
| "show_type TI64 = ''I64''"
| "show_type TU128 = ''U128''"
| "show_type TI128 = ''I128''"
| "show_type TU256 = ''U256''"
| "show_type TI256 = ''I256''"
| "show_type (TBytes (Some n)) = ''Bytes'' @ show_word n"
| "show_type (TBytes None) = ''Bytes''"
| "show_type TString = ''String''"
| "show_type TSymbol = ''Symbol''"
| "show_type (TVec t) = ''Vec<'' @ show_type t @ ''>''"
| "show_type (TMap k v) = ''Map<'' @ show_type k @ '','' @ show_type v @ ''>''"
| "show_type (TTuple t) = ''Tuple<'' @ show_type t @ ''>''"
| "show_type TAddress = ''Address''"
| "show_type TTimepoint = ''Timepoint''"
| "show_type TDuration = ''Duration''"
| "show_type (TUdt n) = n"
| "show_type (TUnion ts) = join_with '','' (map show_type ts)"
| "show_type (TSequence ts) = join_with '','' (map show_type ts)"

section \<open>Values\<close>

datatype stellar_value =
    VBool bool
  | VVoid
  | VU32 u32
  | VI32 u32
  | VU64 u64
  | VI64 u64
  | VU128 string
  | VI128 string
  | VU256 string
  | VI256 string
  | VBytes "byte list"
  | VString string
  | VSymbol string
  | VVec "stellar_value list"
  | VMap "(string \<times> stellar_value) list"
  | VTuple "stellar_value list"
  | VAddress string
  | VTimepoint u64
  | VDuration u64
  | VUdt string

fun show_value :: "xdr_lib \<Rightarrow> stellar_value \<Rightarrow> string" where
  "show_value xl (VBool b) = show_bool b"
| "show_value xl VVoid = ''null''"
| "show_value xl (VU32 n) = show_word n"
| "show_value xl (VI32 n) = show_int (sint n)"
| "show_value xl (VU64 n) = show_word n"
| "show_value xl (VI64 n) = show_int (sint n)"
| "show_value xl (VU128 s) = s"
| "show_value xl (VI128 s) = s"
| "show_value xl (VU256 s) = s"
| "show_value xl (VI256 s) = s"
| "show_value xl (VBytes b) = xl_hex xl b"
| "show_value xl (VString s) = s"
| "show_value xl (VSymbol s) = s"
| "show_value xl (VVec vs) = ''['' @ join_with '','' (map (show_value xl) vs) @ '']''"
| "show_value xl (VMap m) = ''{'' @ join_with '','' (map (\<lambda>(k, v). k @ '':'' @ show_value xl v) m) @ ''}''"
| "show_value xl (VTuple vs) = ''('' @ join_with '','' (map (show_value xl) vs) @ '')''"
| "show_value xl (VAddress a) = a"
| "show_value xl (VTimepoint n) = show_word n"
| "show_value xl (VDuration n) = show_word n"
| "show_value xl (VUdt n) = n"

text \<open>\<open>types.dedup()\<close> removes equal neighbours only.\<close>

definition element_type :: "stellar_type list \<Rightarrow> stellar_type" where
  "element_type all = (let types = remdups_adj all in
     if types = [] then TVoid else if length types = 1 then types ! 0 else TUnion types)"

fun get_type :: "stellar_value \<Rightarrow> stellar_type" where
  "get_type (VBool _) = TBool"
| "get_type VVoid = TVoid"
| "get_type (VU32 _) = TU32"
| "get_type (VI32 _) = TI32"
| "get_type (VU64 _) = TU64"
| "get_type (VI64 _) = TI64"
| "get_type (VU128 _) = TU128"
| "get_type (VI128 _) = TI128"
| "get_type (VU256 _) = TU256"
| "get_type (VI256 _) = TI256"
| "get_type (VBytes b) = (if b = [] then TBytes None else TBytes (Some (word_of_nat (length b))))"
| "get_type (VString _) = TString"
| "get_type (VSymbol _) = TSymbol"
| "get_type (VVec vs) = TVec (element_type (map get_type vs))"
| "get_type (VMap m) = TMap TString (element_type (map (\<lambda>(_, v). get_type v) m))"
| "get_type (VTuple vs) = (let types = map get_type vs in
     if types = [] then TTuple TVoid else TTuple (TSequence types))"
| "get_type (VAddress _) = TAddress"
| "get_type (VTimepoint _) = TTimepoint"
| "get_type (VDuration _) = TDuration"
| "get_type (VUdt n) = TUdt n"

definition json_unsigned :: "'a::len word \<Rightarrow> json" where
  "json_unsigned n = JNumber (PosInt (ucast n))"

definition json_signed :: "'a::len word \<Rightarrow> json" where
  "json_signed n = JNumber (if sint n < 0 then NegInt (scast n) else PosInt (scast n))"

definition typed_json :: "string \<Rightarrow> string \<Rightarrow> json" where
  "typed_json ty s = JObject [(''type'', JString ty), (''value'', JString s)]"

fun value_to_json :: "xdr_lib \<Rightarrow> stellar_value \<Rightarrow> json" where
  "value_to_json xl (VBool b) = JBool b"
| "value_to_json xl VVoid = JNull"
| "value_to_json xl (VU32 n) = json_unsigned n"
| "value_to_json xl (VI32 n) = json_signed n"
| "value_to_json xl (VU64 n) = json_unsigned n"
| "value_to_json xl (VI64 n) = json_signed n"
| "value_to_json xl (VU128 s) = typed_json ''U128'' s"
| "value_to_json xl (VI128 s) = typed_json ''I128'' s"
| "value_to_json xl (VU256 s) = typed_json ''U256'' s"
| "value_to_json xl (VI256 s) = typed_json ''I256'' s"
| "value_to_json xl (VBytes b) = JString (xl_hex xl b)"
| "value_to_json xl (VString s) = JString s"
| "value_to_json xl (VSymbol s) = JString s"
| "value_to_json xl (VVec vs) = JArray (map (value_to_json xl) vs)"
| "value_to_json xl (VMap m) = JObject (map (\<lambda>(k, v). (k, value_to_json xl v)) m)"
| "value_to_json xl (VTuple vs) = JArray (map (value_to_json xl) vs)"
| "value_to_json xl (VAddress a) = JString a"
| "value_to_json xl (VTimepoint n) = json_unsigned n"
| "value_to_json xl (VDuration n) = json_unsigned n"
| "value_to_json xl (VUdt n) = JString n"

definition show_sc_address :: "xdr_lib \<Rightarrow> sc_address \<Rightarrow> string" where
  "show_sc_address xl a = (case a of
       ScContract h \<Rightarrow> xl_contract xl h
     | ScAccount k \<Rightarrow> xl_account xl k
     | _ \<Rightarrow> ''unsupported_address_type'')"

text \<open>The text of a key: that of a string is the string.\<close>

definition map_key :: "xdr_lib \<Rightarrow> stellar_value \<Rightarrow> string" where
  "map_key xl v = (case v of VString s \<Rightarrow> s | _ \<Rightarrow> show_value xl v)"

fun value_of_sc_val :: "xdr_lib \<Rightarrow> sc_val \<Rightarrow> stellar_value" where
  "value_of_sc_val xl (ScBool b) = VBool b"
| "value_of_sc_val xl ScVoid = VVoid"
| "value_of_sc_val xl (ScU32 n) = VU32 n"
| "value_of_sc_val xl (ScI32 n) = VI32 n"
| "value_of_sc_val xl (ScU64 n) = VU64 n"
| "value_of_sc_val xl (ScI64 n) = VI64 n"
| "value_of_sc_val xl (ScTimepoint n) = VTimepoint n"
| "value_of_sc_val xl (ScDuration n) = VDuration n"
| "value_of_sc_val xl (ScU128 hi lo) = VU128 (combine_u128 hi lo)"
| "value_of_sc_val xl (ScI128 hi lo) = VI128 (combine_i128 hi lo)"
| "value_of_sc_val xl (ScU256 a b c d) = VU256 (combine_u256 a b c d)"
| "value_of_sc_val xl (ScI256 a b c d) = VI256 (combine_i256 a b c d)"
| "value_of_sc_val xl (ScBytes b) = VBytes b"
| "value_of_sc_val xl (ScString s) = VString s"
| "value_of_sc_val xl (ScSymbol s) = VSymbol s"
| "value_of_sc_val xl (ScVec (Some vs)) = VVec (map (value_of_sc_val xl) vs)"
| "value_of_sc_val xl (ScMap (Some m)) = VMap (fold (\<lambda>(k, v). bt_insert k v)
     (map (\<lambda>(k, v). (map_key xl (value_of_sc_val xl k), value_of_sc_val xl v)) m) [])"
| "value_of_sc_val xl (ScAddress a) = VAddress (show_sc_address xl a)"
| "value_of_sc_val xl _ = VVoid"

section \<open>Decoded parameters\<close>

record decoded_param_entry =
  de_value :: string
  de_kind :: string
  de_indexed :: bool

definition to_param_entry :: "xdr_lib \<Rightarrow> bool \<Rightarrow> stellar_value \<Rightarrow> decoded_param_entry" where
  "to_param_entry xl indexed v = \<lparr>de_value = show_value xl v, de_kind = show_type (get_type v), de_indexed = indexed\<rparr>"

definition parse_sc_val :: "xdr_lib \<Rightarrow> bool \<Rightarrow> sc_val \<Rightarrow> decoded_param_entry option" where
  "parse_sc_val xl indexed v =
     (let some = (\<lambda>kind val. Some \<lparr>de_value = val, de_kind = kind, de_indexed = indexed\<rparr>) in case v of
       ScBool b \<Rightarrow> some ''Bool'' (show_bool b)
     | ScU32 n \<Rightarrow> some ''U32'' (show_word n)
     | ScI32 n \<Rightarrow> some ''I32'' (show_int (sint n))
     | ScU64 n \<Rightarrow> some ''U64'' (show_word n)
     | ScI64 n \<Rightarrow> some ''I64'' (show_int (sint n))
     | ScTimepoint n \<Rightarrow> some ''Timepoint'' (show_word n)
     | ScDuration n \<Rightarrow> some ''Duration'' (show_word n)
     | ScU128 hi lo \<Rightarrow> some ''U128'' (combine_u128 hi lo)
     | ScI128 hi lo \<Rightarrow> some ''I128'' (combine_i128 hi lo)
     | ScU256 a b c d \<Rightarrow> some ''U256'' (combine_u256 a b c d)
     | ScI256 a b c d \<Rightarrow> some ''I256'' (combine_i256 a b c d)
     | ScBytes b \<Rightarrow> some ''Bytes'' (xl_hex xl b)
     | ScString s \<Rightarrow> some ''String'' s
     | ScSymbol s \<Rightarrow> some ''Symbol'' s
     | ScVec (Some vs) \<Rightarrow> some ''Vec'' (xl_json_vec xl vs)
     | ScMap (Some m) \<Rightarrow> some ''Map'' (xl_json_map xl m)
     | ScAddress a \<Rightarrow> some ''Address'' (show_sc_address xl a)
     | _ \<Rightarrow> None)"

definition parse_xdr_value :: "xdr_lib \<Rightarrow> byte list \<Rightarrow> bool \<Rightarrow> decoded_param_entry option" where
  "parse_xdr_value xl bytes indexed =
     map_option (\<lambda>v. to_param_entry xl indexed (value_of_sc_val xl v)) (xl_sc_val xl bytes)"

definition parse_xdr_value_with_stellar_value :: "xdr_lib \<Rightarrow> byte list \<Rightarrow> bool \<Rightarrow> (decoded_param_entry \<times> stellar_value) option" where
  "parse_xdr_value_with_stellar_value xl bytes indexed =
     map_option (\<lambda>v. let sv = value_of_sc_val xl v in (to_param_entry xl indexed sv, sv)) (xl_sc_val xl bytes)"

definition get_kind_from_value :: "xdr_lib \<Rightarrow> json \<Rightarrow> string" where
  "get_kind_from_value xl j = (case j of
       JNumber n \<Rightarrow> (case n of PosInt _ \<Rightarrow> ''U64'' | NegInt _ \<Rightarrow> ''I64'' | Float _ \<Rightarrow> ''F64'')
     | JBool _ \<Rightarrow> ''Bool''
     | JString s \<Rightarrow> if is_address xl s then ''Address'' else ''String''
     | JArray _ \<Rightarrow> ''Vec''
     | JObject _ \<Rightarrow> ''Map''
     | JNull \<Rightarrow> ''Null'')"

section \<open>Addresses and signatures\<close>

definition stellar_normalize_address :: "string \<Rightarrow> string" where
  "stellar_normalize_address a = to_lowercase (remove_ws (trim a))"

definition stellar_same_address :: "string \<Rightarrow> string \<Rightarrow> bool" where
  "stellar_same_address a b \<longleftrightarrow> stellar_normalize_address a = stellar_normalize_address b"

definition stellar_normalize_signature :: "string \<Rightarrow> string" where
  "stellar_normalize_signature s = to_lowercase (remove_ws (trim s))"

definition stellar_same_signature :: "string \<Rightarrow> string \<Rightarrow> bool" where
  "stellar_same_signature a b \<longleftrightarrow> stellar_normalize_signature a = stellar_normalize_signature b"

section \<open>Contract specifications\<close>

record contract_input =
  cn_index :: u32
  cn_name :: string
  cn_kind :: string

record contract_function =
  cu_name :: string
  cu_inputs :: "contract_input list"
  cu_signature :: string

datatype param_location = Indexed | Data

record contract_event_param =
  cp_name :: string
  cp_kind :: string
  cp_location :: param_location

record contract_event =
  cv_name :: string
  cv_prefix_topics :: "string list"
  cv_params :: "contract_event_param list"
  cv_signature :: string

record formatted_spec =
  ff_functions :: "contract_function list"
  ff_events :: "contract_event list"

definition call_text :: "string \<Rightarrow> string list \<Rightarrow> string" where
  "call_text name types = name @ ''('' @ join_with '','' types @ '')''"

definition function_signature_of_entry :: "sc_spec_entry \<Rightarrow> string" where
  "function_signature_of_entry e = (case e of
       FunctionV0 name inputs \<Rightarrow> call_text name (map (\<lambda>i. show_type (type_of_sc_type (scp_type i))) inputs)
     | _ \<Rightarrow> ''unknown_function()'')"

definition event_signature_of_entry :: "sc_spec_entry \<Rightarrow> string" where
  "event_signature_of_entry e = (case e of
       EventV0 name _ params \<Rightarrow> call_text name (map (\<lambda>p. show_type (type_of_sc_type (scp_type p))) params)
     | _ \<Rightarrow> [])"

fun is_function_entry :: "sc_spec_entry \<Rightarrow> bool" where
  "is_function_entry (FunctionV0 _ _) = True"
| "is_function_entry _ = False"

fun is_event_entry :: "sc_spec_entry \<Rightarrow> bool" where
  "is_event_entry (EventV0 _ _ _) = True"
| "is_event_entry _ = False"

definition get_contract_spec_functions :: "sc_spec_entry list \<Rightarrow> sc_spec_entry list" where
  "get_contract_spec_functions es = filter is_function_entry es"

definition get_contract_spec_events :: "sc_spec_entry list \<Rightarrow> sc_spec_entry list" where
  "get_contract_spec_events es = filter is_event_entry es"

definition functions_with_inputs :: "sc_spec_entry list \<Rightarrow> contract_function list" where
  "functions_with_inputs es = List.map_filter (\<lambda>e. case e of
       FunctionV0 name inputs \<Rightarrow> Some \<lparr>cu_name = name,
         cu_inputs = map (\<lambda>(i, p). \<lparr>cn_index = word_of_nat i, cn_name = scp_name p,
           cn_kind = show_type (type_of_sc_type (scp_type p))\<rparr>) (enumerate 0 inputs),
         cu_signature = function_signature_of_entry e\<rparr>
     | _ \<Rightarrow> None) es"

definition events_with_params :: "sc_spec_entry list \<Rightarrow> contract_event list" where
  "events_with_params es = List.map_filter (\<lambda>e. case e of
       EventV0 name topics params \<Rightarrow> Some \<lparr>cv_name = name, cv_prefix_topics = topics,
         cv_params = map (\<lambda>p. \<lparr>cp_name = scp_name p, cp_kind = show_type (type_of_sc_type (scp_type p)),
           cp_location = (case scp_location p of TopicList \<Rightarrow> Indexed | DataField \<Rightarrow> Data)\<rparr>) params,
         cv_signature = event_signature_of_entry e\<rparr>
     | _ \<Rightarrow> None) es"

definition format_stellar_spec :: "sc_spec_entry list \<Rightarrow> formatted_spec" where
  "format_stellar_spec es = \<lparr>ff_functions = functions_with_inputs (get_contract_spec_functions es),
     ff_events = events_with_params (get_contract_spec_events es)\<rparr>"

text \<open>A specification read from JSON that cannot be read is empty.\<close>

definition stellar_spec_of_json :: "xdr_lib \<Rightarrow> json \<Rightarrow> sc_spec_entry list" where
  "stellar_spec_of_json xl j = (case xl_spec_entries xl j of None \<Rightarrow> [] | Some es \<Rightarrow> es)"

definition get_contract_spec :: "xdr_lib \<Rightarrow> string \<Rightarrow> string + sc_spec_entry list" where
  "get_contract_spec xl wasm_hex = (case xl_unhex xl wasm_hex of
       None \<Rightarrow> Inl ''Failed to decode hex''
     | Some wasm_bytes \<Rightarrow> (case xl_wasm_spec xl wasm_bytes of
         None \<Rightarrow> Inl ''Failed to parse contract spec'' | Some es \<Rightarrow> Inr es))"

section \<open>Calls\<close>

datatype host_function =
    InvokeContract sc_address string "sc_val list"
  | OtherHostFunction

definition lenient_types :: "string list" where
  "lenient_types = [''Vec<'', ''Map<'', ''Tuple<'']"

definition kind_matches :: "string \<Rightarrow> string \<Rightarrow> bool" where
  "kind_matches kind arg_type \<longleftrightarrow>
     (if list_ex (\<lambda>p. prefix p kind \<and> prefix p arg_type) lenient_types then True else kind = arg_type)"

definition get_function_signature :: "xdr_lib \<Rightarrow> host_function \<Rightarrow> formatted_spec option \<Rightarrow> string" where
  "get_function_signature xl hf spec = (case hf of
       InvokeContract _ function_name args \<Rightarrow>
         (let arg_types = map (\<lambda>a. show_type (get_type (value_of_sc_val xl a))) args;
              found = (case spec of None \<Rightarrow> None | Some s \<Rightarrow> find (\<lambda>f. cu_name f = function_name
                \<and> length (cu_inputs f) = length args
                \<and> list_all (\<lambda>(i, t). kind_matches (cn_kind i) t) (zip (cu_inputs f) arg_types)) (ff_functions s))
          in case found of Some f \<Rightarrow> cu_signature f | None \<Rightarrow> call_text function_name arg_types)
     | OtherHostFunction \<Rightarrow> ''unknown_function()'')"

record parsed_operation =
  op_contract_address :: string
  op_function_name :: string
  op_function_signature :: string
  op_arguments :: "json list"

definition process_invoke_host_function :: "xdr_lib \<Rightarrow> host_function \<Rightarrow> (string \<times> formatted_spec) list option \<Rightarrow>
  parsed_operation \<times> formatted_spec option" where
  "process_invoke_host_function xl hf specs = (case hf of
       InvokeContract contract function_name args \<Rightarrow>
         (let contract_address = show_sc_address xl contract;
              spec = (case specs of None \<Rightarrow> None
                | Some l \<Rightarrow> map_option snd (find (\<lambda>(addr, _). stellar_same_address addr contract_address) l))
          in (\<lparr>op_contract_address = contract_address, op_function_name = function_name,
               op_function_signature = get_function_signature xl hf spec,
               op_arguments = map (\<lambda>a. value_to_json xl (value_of_sc_val xl a)) args\<rparr>, spec))
     | OtherHostFunction \<Rightarrow> (\<lparr>op_contract_address = [], op_function_name = [], op_function_signature = [],
         op_arguments = []\<rparr>, None))"

section \<open>Event data\<close>

definition value_entry :: "xdr_lib \<Rightarrow> string \<Rightarrow> stellar_value \<Rightarrow> match_param_entry" where
  "value_entry xl name v = \<lparr>pe_name = name, pe_value = show_value xl v, pe_indexed = False, pe_kind = show_type (get_type v)\<rparr>"

definition unpack_by_position :: "xdr_lib \<Rightarrow> contract_event_param list \<Rightarrow> stellar_value list \<Rightarrow> match_param_entry list" where
  "unpack_by_position xl params vs = map (\<lambda>(i, v).
     value_entry xl (if i < length params then cp_name (params ! i) else show_nat i) v) (enumerate 0 vs)"

definition unpack_stellar_value :: "xdr_lib \<Rightarrow> stellar_value \<Rightarrow> contract_event_param list \<Rightarrow> match_param_entry list" where
  "unpack_stellar_value xl v params = (case v of
       VMap m \<Rightarrow> List.map_filter (\<lambda>p. map_option (value_entry xl (cp_name p)) (map_of m (cp_name p))) params
     | VVec vs \<Rightarrow> unpack_by_position xl params vs
     | VTuple vs \<Rightarrow> unpack_by_position xl params vs
     | _ \<Rightarrow> [value_entry xl (if params = [] then ''0'' else cp_name (params ! 0)) v])"

end
