(* ===== verification/Bootstrap.thy ===== *)
theory Bootstrap imports Trigger_Execution Match_Handler_Properties Stellar_Values begin

text \<open>
  The wiring of the program (src/src/bootstrap/mod.rs): which monitors apply to a network, the
  contract specifications of the monitors, the handler that filters a block and the handler
  that triggers its matches. The client pool is a parameter; so are the filters of the chains
  other than EVM and the shutdown signal. Hash maps are lists in the order of the iteration.
\<close>

section \<open>Monitors\<close>

definition has_active_monitors :: "'abi monitor list \<Rightarrow> string \<Rightarrow> bool" where
  "has_active_monitors monitors network_slug \<longleftrightarrow>
     list_ex (\<lambda>m. network_slug \<in> set (mon_networks m) \<and> \<not> mon_paused m) monitors"

definition filter_active_monitors :: "'abi monitor list \<Rightarrow> 'abi monitor list" where
  "filter_active_monitors monitors = filter (\<lambda>m. \<not> mon_paused m) monitors"

definition filter_network_monitors :: "'abi monitor list \<Rightarrow> string \<Rightarrow> 'abi monitor list" where
  "filter_network_monitors monitors network_slug = filter (\<lambda>m. network_slug \<in> set (mon_networks m)) monitors"

section \<open>Contract specifications\<close>

text \<open>The Stellar client: \<open>None\<close> if there is none, else the specification of an address.\<close>

record 'abi spec_clients =
  sc_stellar :: "network \<Rightarrow> (string \<Rightarrow> string + 'abi contract_spec) option"

definition stellar_specs :: "'abi spec_clients \<Rightarrow> network \<Rightarrow> 'abi monitor \<Rightarrow> (string \<times> 'abi contract_spec) list" where
  "stellar_specs sc net m =
     (let configured = List.map_filter (\<lambda>a. case aw_contract_spec a of
            Some (SpecStellar s) \<Rightarrow> Some (stellar_normalize_address (aw_address a), SpecStellar s) | _ \<Rightarrow> None) (mon_addresses m);
          missing = map aw_address (filter (\<lambda>a. aw_contract_spec a = None) (mon_addresses m))
      in if missing = [] then configured
         else case sc_stellar sc net of
             None \<Rightarrow> []
           | Some fetch \<Rightarrow> configured @ List.map_filter (\<lambda>a. case fetch a of Inl _ \<Rightarrow> None | Inr s \<Rightarrow> Some (a, s)) missing)"

definition evm_specs :: "'abi monitor \<Rightarrow> (string \<times> 'abi contract_spec) list" where
  "evm_specs m = List.map_filter (\<lambda>a. case aw_contract_spec a of
     Some (SpecEVM s) \<Rightarrow> Some (''0x'' @ normalize_address (aw_address a), SpecEVM s) | _ \<Rightarrow> None) (mon_addresses m)"

definition monitor_specs :: "'abi spec_clients \<Rightarrow> network \<Rightarrow> 'abi monitor \<Rightarrow> (string \<times> 'abi contract_spec) list" where
  "monitor_specs sc net m = (case network_type net of
     Stellar \<Rightarrow> stellar_specs sc net m | EVM \<Rightarrow> evm_specs m | _ \<Rightarrow> [])"

definition get_contract_specs :: "'abi spec_clients \<Rightarrow> (network \<times> 'abi monitor list) list \<Rightarrow> (string \<times> 'abi contract_spec) list" where
  "get_contract_specs sc network_monitors =
     concat (map (\<lambda>(net, monitors). concat (map (monitor_specs sc net) monitors)) network_monitors)"

section \<open>Blocks\<close>

text \<open>What the block handler depends on: whether the pool has a client for the network, the node behind
  it, and the number and the filter of the blocks of other chains.\<close>

record ('abi, 'o) chain_env =
  ch_evm :: "'abi evm_env"
  ch_client_ok :: "network \<Rightarrow> bool"
  ch_node :: "network \<Rightarrow> evm_node"
  ch_other_number :: "'o \<Rightarrow> u64 option"
  ch_other_filter :: "network \<Rightarrow> 'o block_type \<Rightarrow> 'abi monitor list \<Rightarrow> (string \<times> 'abi contract_spec) list option \<Rightarrow>
    (filter_error + 'abi monitor_match list) option"

definition block_number :: "('abi, 'o) chain_env \<Rightarrow> 'o block_type \<Rightarrow> u64 option" where
  "block_number env block = (case block of BlockEVM b \<Rightarrow> bl_number b | BlockOther b \<Rightarrow> ch_other_number env b)"

text \<open>\<open>FilterService::filter_block\<close>: the filter of the client's chain.\<close>

definition filter_service_block :: "('abi, 'o) chain_env \<Rightarrow> network \<Rightarrow> 'o block_type \<Rightarrow> 'abi monitor list \<Rightarrow>
  (string \<times> 'abi contract_spec) list option \<Rightarrow> (filter_error + 'abi monitor_match list) option" where
  "filter_service_block env net block monitors specs = (case network_type net of
       EVM \<Rightarrow> map_option (map_sum id (map MatchEVM)) (evm_filter_block (ch_evm env) (ch_node env net) net block monitors specs)
     | _ \<Rightarrow> ch_other_filter env net block monitors specs)"

text \<open>The result of the filter, unless the shutdown signal comes first.\<close>

definition process_block :: "('abi, 'o) chain_env \<Rightarrow> bool \<Rightarrow> network \<Rightarrow> 'o block_type \<Rightarrow> 'abi monitor list \<Rightarrow>
  (string \<times> 'abi contract_spec) list option \<Rightarrow> 'abi monitor_match list option option" where
  "process_block env shutdown net block monitors specs =
     (if shutdown then Some None
      else map_option (\<lambda>r. case r of Inl _ \<Rightarrow> None | Inr ms \<Rightarrow> Some ms) (filter_service_block env net block monitors specs))"

definition block_handler :: "('abi, 'o) chain_env \<Rightarrow> bool \<Rightarrow> 'abi monitor list \<Rightarrow> (string \<times> 'abi contract_spec) list \<Rightarrow>
  'o block_type \<Rightarrow> network \<Rightarrow> 'abi monitor_match processed_block option" where
  "block_handler env shutdown active_monitors specs block net =
     (let applicable = filter_network_monitors active_monitors (slug net);
          processed = (\<lambda>ms. \<lparr>pb_block_number = (case block_number env block of None \<Rightarrow> 0 | Some n \<Rightarrow> n),
            pb_network_slug = slug net, pb_results = ms\<rparr>)
      in if applicable = [] then Some (processed [])
         else if \<not> ch_client_ok env net then Some (processed [])
         else map_option (\<lambda>r. processed (case r of None \<Rightarrow> [] | Some ms \<Rightarrow> ms))
                (process_block env shutdown net block applicable (Some specs)))"

section \<open>Trigger conditions\<close>

definition execute_trigger_condition :: "'abi script_env \<Rightarrow> trigger_condition \<Rightarrow> 'abi monitor_match \<Rightarrow>
  script_language \<times> string \<Rightarrow> bool option" where
  "execute_trigger_condition env c m script =
     map_option (\<lambda>r. r = Inr True) (execute_script env (fst script) (snd script) m (tr_timeout_ms c) (tr_arguments c) False)"

fun any_condition :: "'abi script_env \<Rightarrow> scripts \<Rightarrow> 'abi monitor_match \<Rightarrow> trigger_condition list \<Rightarrow> bool option" where
  "any_condition env trigger_scripts m [] = Some False"
| "any_condition env trigger_scripts m (c # cs) =
     (case trigger_scripts (script_key (mon_name (match_monitor m)) (tr_script_path c)) of
        None \<Rightarrow> any_condition env trigger_scripts m cs
      | Some script \<Rightarrow> (case execute_trigger_condition env c m script of
          None \<Rightarrow> None
        | Some True \<Rightarrow> Some True
        | Some False \<Rightarrow> any_condition env trigger_scripts m cs))"

fun run_trigger_filters :: "'abi script_env \<Rightarrow> scripts \<Rightarrow> 'abi monitor_match list \<Rightarrow> 'abi monitor_match list option" where
  "run_trigger_filters env trigger_scripts [] = Some []"
| "run_trigger_filters env trigger_scripts (m # ms) =
     (case any_condition env trigger_scripts m (mon_trigger_conditions (match_monitor m)) of
        None \<Rightarrow> None
      | Some is_filtered \<Rightarrow> map_option (\<lambda>kept. if is_filtered then kept else m # kept)
          (run_trigger_filters env trigger_scripts ms))"

section \<open>Triggers\<close>

fun handle_matches :: "json_lib \<Rightarrow> evm_lib \<Rightarrow> ('e, 'abi, 's) trigger_exec \<Rightarrow> scripts \<Rightarrow> 'abi monitor_match list \<Rightarrow> 's \<Rightarrow> 's option" where
  "handle_matches jl el exec trigger_scripts [] s = Some s"
| "handle_matches jl el exec trigger_scripts (m # ms) s = (case handle_match jl el exec m trigger_scripts s of
       None \<Rightarrow> None
     | Some (_, s') \<Rightarrow> handle_matches jl el exec trigger_scripts ms s')"

text \<open>\<open>shutdown = Some k\<close>: the signal comes when \<open>k\<close> matches have been handled.\<close>

definition trigger_handler :: "json_lib \<Rightarrow> evm_lib \<Rightarrow> 'abi script_env \<Rightarrow> ('e, 'abi, 's) trigger_exec \<Rightarrow> scripts \<Rightarrow> nat option \<Rightarrow>
  'abi monitor_match processed_block \<Rightarrow> 's \<Rightarrow> 's option" where
  "trigger_handler jl el env exec trigger_scripts shutdown block s =
     (if pb_results block = [] then Some s
      else case run_trigger_filters env trigger_scripts (pb_results block) of
          None \<Rightarrow> None
        | Some kept \<Rightarrow> handle_matches jl el exec trigger_scripts
            (case shutdown of None \<Rightarrow> kept | Some k \<Rightarrow> take k kept) s)"

section \<open>Lemmas\<close>

text \<open>Whether a condition script of a match says that the match is to be dropped.\<close>

definition condition_holds :: "'abi script_env \<Rightarrow> scripts \<Rightarrow> 'abi monitor_match \<Rightarrow> trigger_condition \<Rightarrow> bool" where
  "condition_holds env trigger_scripts m c =
     (case trigger_scripts (script_key (mon_name (match_monitor m)) (tr_script_path c)) of
        None \<Rightarrow> False
      | Some (lang, content) \<Rightarrow>
          execute_script env lang content m (tr_timeout_ms c) (tr_arguments c) False = Some (Inr True))"

lemma any_condition_returns:
  assumes "\<And>lang content t args. execute_script env lang content m t args False \<noteq> None"
  shows "any_condition env trigger_scripts m conds = Some (list_ex (condition_holds env trigger_scripts m) conds)"
proof (induction conds)
  case (Cons c cs)
  show ?case
  proof (cases "trigger_scripts (script_key (mon_name (match_monitor m)) (tr_script_path c))")
    case (Some script)
    obtain lang content where script: "script = (lang, content)" by (cases script)
    obtain r where "execute_script env lang content m (tr_timeout_ms c) (tr_arguments c) False = Some r"
      using assms by fastforce
    with Some script Cons show ?thesis
      by (cases "r = Inr True") (simp_all add: execute_trigger_condition_def condition_holds_def)
  qed (simp add: Cons condition_holds_def)
qed simp

lemma run_trigger_filters_returns:
  assumes "\<And>m lang content t args. execute_script env lang content m t args False \<noteq> None"
  shows "run_trigger_filters env trigger_scripts ms = Some (filter (\<lambda>m.
     \<not> list_ex (condition_holds env trigger_scripts m) (mon_trigger_conditions (match_monitor m))) ms)"
  by (induction ms) (simp_all add: any_condition_returns [OF assms])

text \<open>A service that records its calls and answers anything.\<close>

lemma handle_matches_calls:
  assumes "\<And>tids vars m sc s. exec tids vars m sc s = Some (answer tids m s, s @ [(tids, vars, m)])"
  shows "handle_matches jl el exec trigger_scripts ms s =
    Some (s @ map (\<lambda>m. (mon_triggers (match_monitor m), json_to_hashmap jl (match_data el m), m)) ms)"
  by (induction ms arbitrary: s) (simp_all add: handle_match_def assms)

lemma are_same_address_0x: "are_same_address (''0x'' @ normalize_address a) a"
  unfolding are_same_address_def normalize_address_0x
  by (simp add: normalize_address_def remove_ws_to_lowercase [symmetric] del: remove_ws_to_lowercase)

text \<open>Where a match of the EVM filter comes from.\<close>

lemma evm_filter_origin:
  assumes "evm_filter_block env node net (BlockEVM b) monitors specs = Some (Inr ms)" "r \<in> set ms"
  shows "\<exists>m \<in> set monitors. \<exists>tx \<in> set (bl_transactions b). em_monitor r = strip_specs m \<and> em_transaction r = tx
    \<and> em_network_slug r = slug net"
proof -
  obtain especs all_logs where "collect (\<lambda>m. collect (filter_transaction env node net especs all_logs m) (bl_transactions b)) monitors
      = Some (Inr ms)"
    using assms(1) by (auto simp: evm_filter_block_def Let_def split: sum.split_asm)
  from collect_sound [OF this assms(2)] obtain m zs where m: "m \<in> set monitors" "r \<in> set zs"
    "collect (filter_transaction env node net especs all_logs m) (bl_transactions b) = Some (Inr zs)" by blast
  from collect_sound [OF m(3,2)] obtain tx ws where tx: "tx \<in> set (bl_transactions b)" "r \<in> set ws"
    "filter_transaction env node net especs all_logs m tx = Some (Inr ws)" by blast
  from filter_transaction_match [OF tx(3)] obtain receipt logs where "match_transaction env net especs m tx receipt logs = Some ws"
    by blast
  with tx(2) have "em_monitor r = strip_specs m \<and> em_transaction r = tx \<and> em_network_slug r = slug net"
    by (auto simp: match_transaction_def Let_def build_match_def split: option.split_asm if_split_asm)
  with m(1) tx(1) show ?thesis by blast
qed

lemma map_sum_InrE: "map_sum f g x = Inr y \<Longrightarrow> (\<And>z. x = Inr z \<Longrightarrow> y = g z \<Longrightarrow> thesis) \<Longrightarrow> thesis"
  by (cases x) auto

lemma block_handler_result:
  assumes "block_handler env shutdown active specs block net = Some pb" "r \<in> set (pb_results pb)"
  shows "\<exists>ms. filter_service_block env net block (filter_network_monitors active (slug net)) (Some specs) = Some (Inr ms)
    \<and> r \<in> set ms"
proof (cases "filter_service_block env net block (filter_network_monitors active (slug net)) (Some specs)")
  case None
  with assms show ?thesis by (auto simp: block_handler_def process_block_def Let_def split: if_split_asm)
next
  case (Some res)
  with assms show ?thesis
    by (cases res) (auto simp: block_handler_def process_block_def Let_def split: if_split_asm)
qed

section \<open>A sample setting\<close>

definition sample_chain :: "evm_node \<Rightarrow> (abi_contract, unit) chain_env" where
  "sample_chain node = \<lparr>ch_evm = sample_env, ch_client_ok = (\<lambda>_. True), ch_node = (\<lambda>_. node),
     ch_other_number = (\<lambda>_. None), ch_other_filter = (\<lambda>_ _ _ _. None)\<rparr>"

text \<open>A node that has no receipts.\<close>

definition lossy_node :: evm_node where
  "lossy_node = \<lparr>get_logs_for_blocks = (\<lambda>_. Inr []), get_transaction_receipt = (\<lambda>_. Inl ''timeout'')\<rparr>"

text \<open>A system without interpreters.\<close>

definition sample_scripts :: "abi_contract script_env" where
  "sample_scripts = \<lparr>se_match_json = (\<lambda>_. JNull), se_print = (\<lambda>_. Some ''{}''), se_spawn = (\<lambda>_ _. Inl ''not found'')\<rparr>"

lemma sample_scripts_return: "execute_script sample_scripts lang content m t args custom \<noteq> None"
  by (simp add: execute_script_def sample_scripts_def split: prod.split)

definition sample_results :: "abi_contract monitor_match processed_block" where
  "sample_results = \<lparr>pb_block_number = 100, pb_network_slug = ''eth'', pb_results = [MatchEVM two_transfers]\<rparr>"

section \<open>Properties\<close>

text \<open>Only monitors that are active and watch the network have matches: every match that the block
  handler reports for an EVM network belongs to a monitor that is not paused and lists the
  network, to a transaction of the block, and names the network.\<close>

theorem handler_matches_applicable:
  fixes block :: "'o block_type"
  assumes "block_handler env shutdown (filter_active_monitors monitors) specs block net = Some pb"
    "network_type net = EVM" "block = BlockEVM b" "r \<in> set (pb_results pb)"
  shows "\<exists>e m. r = MatchEVM e \<and> m \<in> set monitors \<and> \<not> mon_paused m \<and> slug net \<in> set (mon_networks m)
    \<and> em_monitor e = strip_specs m \<and> em_transaction e \<in> set (bl_transactions b) \<and> em_network_slug e = slug net"
proof -
  let ?applicable = "filter_network_monitors (filter_active_monitors monitors) (slug net)"
  from block_handler_result [OF assms(1,4)] obtain ms where
    ms: "filter_service_block env net block ?applicable (Some specs) = Some (Inr ms)" "r \<in> set ms" by blast
  with assms(2,3) obtain es where "evm_filter_block (ch_evm env) (ch_node env net) net block ?applicable (Some specs) = Some (Inr es)"
    "ms = map MatchEVM es" by (auto simp: filter_service_block_def elim!: map_sum_InrE)
  with ms(2) evm_filter_origin [OF this(1) [unfolded assms(3)]] show ?thesis
    by (fastforce simp: filter_network_monitors_def filter_active_monitors_def)
qed

theorem handler_matches_applicable_witness:
  "\<exists>pb e. block_handler (sample_chain (sample_node [])) False (filter_active_monitors [sample_monitor ''0xA'' no_conditions])
      [] sample_block sample_network = Some pb
    \<and> MatchEVM e \<in> set (pb_results pb) \<and> em_network_slug e = ''eth''"
proof -
  let ?h = "block_handler (sample_chain (sample_node [])) False (filter_active_monitors [sample_monitor ''0xA'' no_conditions])
      [] sample_block sample_network"
  have "(case ?h of Some pb \<Rightarrow> pb_results pb \<noteq> [] | None \<Rightarrow> False)" by code_simp
  then obtain pb r where pb: "?h = Some pb" "r \<in> set (pb_results pb)" by (cases ?h) (auto dest: hd_in_set)
  from handler_matches_applicable [OF pb(1) _ sample_block_def pb(2)] pb
  show ?thesis by (auto simp: sample_network_def)
qed

text \<open>An error of the filter is lost: if it fails, for example because one receipt cannot be fetched,
  the handler returns the same processed block as if nothing had matched, so the block counts as
  processed, no trigger runs and the matches of the block are never found.\<close>

theorem filter_error_swallowed:
  assumes "filter_service_block env net block (filter_network_monitors monitors (slug net)) (Some specs) = Some (Inl e)"
    "block_number env block = Some n"
  shows "block_handler env False monitors specs block net = Some \<lparr>pb_block_number = n, pb_network_slug = slug net, pb_results = []\<rparr>
    \<and> trigger_handler jl el senv exec trigger_scripts None \<lparr>pb_block_number = n, pb_network_slug = slug net, pb_results = []\<rparr> s = Some s"
  using assms by (auto simp: block_handler_def process_block_def trigger_handler_def Let_def)

theorem filter_error_swallowed_witness:
  "block_handler (sample_chain lossy_node) False [sample_monitor ''0xA'' failure_conditions] [] sample_block sample_network
     = Some \<lparr>pb_block_number = 100, pb_network_slug = ''eth'', pb_results = []\<rparr>
   \<and> block_handler (sample_chain (failing_node [])) False [sample_monitor ''0xA'' failure_conditions] [] sample_block sample_network
     \<noteq> Some \<lparr>pb_block_number = 100, pb_network_slug = ''eth'', pb_results = []\<rparr>"
proof -
  have fs: "filter_service_block (sample_chain lossy_node) sample_network sample_block
      (filter_network_monitors [sample_monitor ''0xA'' failure_conditions] (slug sample_network)) (Some [])
      = Some (Inl (Node_error ''timeout''))" by code_simp
  have bn: "block_number (sample_chain lossy_node) sample_block = Some 100"
    by (simp add: block_number_def sample_block_def)
  have "block_handler (sample_chain lossy_node) False
      [sample_monitor ''0xA'' failure_conditions] [] sample_block sample_network
      = Some \<lparr>pb_block_number = 100, pb_network_slug = ''eth'', pb_results = []\<rparr>"
    using filter_error_swallowed [OF fs bn, THEN conjunct1] unfolding slug_sample .
  moreover have "(case block_handler (sample_chain (failing_node [])) False [sample_monitor ''0xA'' failure_conditions] []
      sample_block sample_network of Some pb \<Rightarrow> pb_results pb \<noteq> [] | None \<Rightarrow> False)" by code_simp
  ultimately show ?thesis by auto
qed

text \<open>Triggers are isolated from one another: if the condition scripts return, the handler calls the
  trigger service exactly once for every match that no condition script of its monitor drops, in
  order and with the variables of the match, whatever the service answers.\<close>

theorem every_kept_match_triggered:
  assumes "\<And>m lang content t args. execute_script env lang content m t args False \<noteq> None"
    "\<And>tids vars m sc s. exec tids vars m sc s = Some (answer tids m s, s @ [(tids, vars, m)])"
  shows "trigger_handler jl el env exec trigger_scripts None block s = Some (s @
    map (\<lambda>m. (mon_triggers (match_monitor m), json_to_hashmap jl (match_data el m), m))
      (filter (\<lambda>m. \<not> list_ex (condition_holds env trigger_scripts m) (mon_trigger_conditions (match_monitor m)))
        (pb_results block)))"
  using assms by (simp add: trigger_handler_def run_trigger_filters_returns handle_matches_calls)

theorem every_kept_match_triggered_witness:
  "trigger_handler sample_json_lib sample_evm_lib sample_scripts
     (\<lambda>tids vars m sc s. Some (Inl ''service down'' :: string + unit, s @ [(tids, vars, m)])) Map.empty None sample_results []
   = Some [([], json_to_hashmap sample_json_lib (match_data sample_evm_lib (MatchEVM two_transfers)), MatchEVM two_transfers)]"
  using every_kept_match_triggered [OF sample_scripts_return, of
      "\<lambda>tids vars m sc s. Some (Inl ''service down'' :: string + unit, s @ [(tids, vars, m)])" "\<lambda>_ _ _. Inl ''service down''"
      sample_json_lib sample_evm_lib Map.empty sample_results "[]"]
  by (simp add: sample_results_def two_transfers_def sample_monitor_def)

text \<open>Functions are decoded with the wrong ABI when two monitors share an address: the specifications of
  all networks and monitors are one list, so a monitor of the address, even on another network,
  is filtered as if its own ABI were that of the first monitor.\<close>

theorem first_abi_used:
  assumes "network_type net = EVM" "mon_addresses m1 = a1 # as1" "aw_contract_spec a1 = Some (SpecEVM abi1)"
    "mon_addresses m2 = [a2]" "are_same_address (aw_address a1) (aw_address a2)"
    "especs = List.map_filter (\<lambda>(a, s). case s of SpecEVM abi \<Rightarrow> Some (a, abi) | _ \<Rightarrow> None)
       (get_contract_specs sc ((net, m1 # ms) # rest))"
  shows "find_matching_functions_for_transaction env especs tx m2 =
    find_matching_functions_for_transaction env [(aw_address a2, abi1)] tx m2"
proof -
  have same: "are_same_address (''0x'' @ normalize_address (aw_address a1)) (aw_address a2)"
    using are_same_address_0x assms(5) by (rule are_same_address_trans)
  obtain tl where "get_contract_specs sc ((net, m1 # ms) # rest) = (''0x'' @ normalize_address (aw_address a1), SpecEVM abi1) # tl"
    using assms(1-3) by (simp add: get_contract_specs_def monitor_specs_def evm_specs_def map_filter_simps)
  then obtain tl' where especs: "especs = (''0x'' @ normalize_address (aw_address a1), abi1) # tl'"
    using assms(6) by (simp add: map_filter_simps)
  have "find (\<lambda>(a, _). are_same_address a (aw_address a2)) especs = Some (''0x'' @ normalize_address (aw_address a1), abi1)"
    using same by (simp add: especs)
  then show ?thesis
    using assms(4) by (auto simp: find_matching_functions_for_transaction_def split: option.split)
qed

theorem first_abi_used_witness:
  "find_matching_functions_for_transaction sample_env
     [(''0xb'', sample_abi\<lparr>ab_functions := []\<rparr>), (''0xb'', sample_abi)] sample_tx (sample_monitor ''b'' function_conditions) =
   find_matching_functions_for_transaction sample_env [(''b'', sample_abi\<lparr>ab_functions := []\<rparr>)] sample_tx
     (sample_monitor ''b'' function_conditions)
   \<and> find_matching_functions_for_transaction sample_env [(''b'', sample_abi)] sample_tx (sample_monitor ''b'' function_conditions) \<noteq> None
   \<and> find_matching_functions_for_transaction sample_env [(''b'', sample_abi\<lparr>ab_functions := []\<rparr>)] sample_tx
     (sample_monitor ''b'' function_conditions) = None"
proof -
  let ?m1 = "(sample_monitor ''0xB'' no_conditions)\<lparr>mon_addresses :=
    [\<lparr>aw_address = ''0xB'', aw_contract_spec = Some (SpecEVM (sample_abi\<lparr>ab_functions := []\<rparr>))\<rparr>]\<rparr>"
  let ?m2 = "sample_monitor ''b'' function_conditions"
  let ?sc = "\<lparr>sc_stellar = (\<lambda>_. None)\<rparr>"
  have specs: "List.map_filter (\<lambda>(a, s). case s of SpecEVM abi \<Rightarrow> Some (a, abi) | _ \<Rightarrow> None)
      (get_contract_specs ?sc ((sample_network, ?m1 # [?m2]) # []))
      = [(''0xb'', sample_abi\<lparr>ab_functions := []\<rparr>), (''0xb'', sample_abi)]" by code_simp
  have "are_same_address ''0xB'' ''b''" by code_simp
  then have "find_matching_functions_for_transaction sample_env
      [(''0xb'', sample_abi\<lparr>ab_functions := []\<rparr>), (''0xb'', sample_abi)] sample_tx ?m2 =
    find_matching_functions_for_transaction sample_env [(''b'', sample_abi\<lparr>ab_functions := []\<rparr>)] sample_tx ?m2"
    using first_abi_used [OF _ _ _ _ _ specs [symmetric], of
        "\<lparr>aw_address = ''0xB'', aw_contract_spec = Some (SpecEVM (sample_abi\<lparr>ab_functions := []\<rparr>))\<rparr>" "[]"
        "sample_abi\<lparr>ab_functions := []\<rparr>" ?m2 "\<lparr>aw_address = ''b'', aw_contract_spec = Some (SpecEVM sample_abi)\<rparr>" sample_env sample_tx]
    by (simp add: sample_network_def sample_monitor_def)
  moreover have "find_matching_functions_for_transaction sample_env [(''b'', sample_abi)] sample_tx ?m2 \<noteq> None" by code_simp
  moreover have "find_matching_functions_for_transaction sample_env [(''b'', sample_abi\<lparr>ab_functions := []\<rparr>)] sample_tx ?m2 = None"
    by code_simp
  ultimately show ?thesis by blast
qed

end
