(* ===== verification/Endpoints.thy ===== *)
theory Endpoints imports Models begin

text \<open>
  The list of endpoints a transport rotates through, and the interface between an endpoint
  manager and its transport (the trait \<open>RotatingTransport\<close> of
  src/src/services/blockchain/transports/mod.rs): \<open>try_connect\<close> and \<open>update_client\<close>. The HTTP
  manager (transports/http/endpoint_manager.rs) and the WebSocket manager
  (transports/ws/endpoint_manager.rs) share the state of this theory and extend it with their own.
  The locale states what a transport owes its manager; what rotation does to the ring of
  endpoints is proved once inside it.

  The manager holds a lock for the whole of a rotation, so one rotation is one step here.
\<close>

section \<open>State and errors\<close>

text \<open>The reasons of a failed rotation carry the data that the code formats into its messages.\<close>

datatype rotation_failure =
    NoFallback string "string list"
  | ConnectFailed string string
  | UpdateFailed string string
  | ReconnectFailed u32

datatype transport_error =
    HttpError "16 word" string string "transport_error option"
  | NetworkError string "transport_error option"
  | ResponseParse string
  | RequestSerialization string
  | UrlRotation rotation_failure

record endpoints =
  active_url :: string
  fallback_urls :: "string list"

definition ring :: "'z endpoints_scheme \<Rightarrow> string list" where
  "ring s = active_url s # fallback_urls s"

type_synonym 'z connects = "string \<Rightarrow> 'z endpoints_scheme \<Rightarrow> (string + unit) \<times> 'z endpoints_scheme"

lemma ring_cong:
  assumes "active_url s' = active_url s" "fallback_urls s' = fallback_urls s"
  shows "ring s' = ring s"
  using assms by (simp add: ring_def)

section \<open>Rotation of the HTTP manager\<close>

text \<open>\<open>try_rotate_url\<close>: the first fallback that is not the active URL is the only candidate.\<close>

definition try_rotate_url ::
    "'z connects \<Rightarrow> 'z connects \<Rightarrow> 'z endpoints_scheme
      \<Rightarrow> (transport_error + string) \<times> 'z endpoints_scheme" where
  "try_rotate_url try_connect update_client s =
    (let initial = active_url s in
     case find (\<lambda>u. u \<noteq> initial) (fallback_urls s) of
       None \<Rightarrow> (Inl (UrlRotation (NoFallback initial (fallback_urls s))), s)
     | Some new_url \<Rightarrow>
         (case try_connect new_url s of
            (Inl e, s1) \<Rightarrow> (Inl (UrlRotation (ConnectFailed new_url e)), s1)
          | (Inr _, s1) \<Rightarrow>
              (case update_client new_url s1 of
                 (Inl e, s2) \<Rightarrow> (Inl (UrlRotation (UpdateFailed new_url e)), s2)
               | (Inr _, s2) \<Rightarrow>
                   (Inr new_url,
                    s2\<lparr>active_url := new_url,
                       fallback_urls := filter (\<lambda>u. u \<noteq> new_url) (fallback_urls s2) @ [initial]\<rparr>))))"

section \<open>Rotation of the WebSocket manager\<close>

text \<open>\<open>rotate_url\<close>: one candidate is taken out of the fallbacks per attempt, and put back at their
  end when it cannot be reached. \<open>left\<close> counts the attempts left of
  \<open>max_reconnect_attempts\<close>. \<open>connect\<close> is \<open>try_connect\<close> under the connection timeout.\<close>

definition take_fallback :: "string \<Rightarrow> string list \<Rightarrow> (string \<times> string list) option" where
  "take_fallback current urls =
    (case find (\<lambda>u. u \<noteq> current) urls of None \<Rightarrow> None | Some u \<Rightarrow> Some (u, remove1 u urls))"

primrec rotate_attempts ::
    "'z connects \<Rightarrow> 'z connects \<Rightarrow> u32 \<Rightarrow> string \<Rightarrow> nat \<Rightarrow> 'z endpoints_scheme
      \<Rightarrow> (rotation_failure + unit) \<times> 'z endpoints_scheme" where
  "rotate_attempts connect update_client max_attempts current 0 s =
     (Inl (ReconnectFailed max_attempts), s)"
| "rotate_attempts connect update_client max_attempts current (Suc left) s =
    (case take_fallback current (fallback_urls s) of
       None \<Rightarrow> (Inl (NoFallback current (fallback_urls s)), s)
     | Some (new_url, rest) \<Rightarrow>
         (case connect new_url (s\<lparr>fallback_urls := rest\<rparr>) of
            (Inr _, s1) \<Rightarrow>
              (case update_client new_url s1 of
                 (Inl e, s2) \<Rightarrow> (Inl (UpdateFailed new_url e), s2)
               | (Inr _, s2) \<Rightarrow>
                   (Inr (), s2\<lparr>fallback_urls := fallback_urls s2 @ [current], active_url := new_url\<rparr>))
          | (Inl _, s1) \<Rightarrow>
              rotate_attempts connect update_client max_attempts current left
                (s1\<lparr>fallback_urls := fallback_urls s1 @ [new_url]\<rparr>)))"

definition rotate_url ::
    "'z connects \<Rightarrow> 'z connects \<Rightarrow> u32 \<Rightarrow> 'z endpoints_scheme
      \<Rightarrow> (rotation_failure + unit) \<times> 'z endpoints_scheme" where
  "rotate_url connect update_client max_attempts s =
    rotate_attempts connect update_client max_attempts (active_url s) (unat max_attempts) s"

section \<open>What a transport owes its manager\<close>

lemma find_other:
  assumes "a \<notin> set us"
  shows "find (\<lambda>u. u \<noteq> a) us = (case us of [] \<Rightarrow> None | u # _ \<Rightarrow> Some u)"
  using assms by (cases us) auto

lemma filter_other:
  assumes "u \<notin> set us"
  shows "filter (\<lambda>v. v \<noteq> u) us = us"
  using assms by (induction us) auto

locale rotating_transport =
  fixes try_connect :: "'z connects"
    and update_client :: "'z connects"
  assumes connect_active: "try_connect u s = (r, s') \<Longrightarrow> active_url s' = active_url s"
    and connect_fallbacks: "try_connect u s = (r, s') \<Longrightarrow> fallback_urls s' = fallback_urls s"
    and update_fallbacks: "update_client u s = (r, s') \<Longrightarrow> fallback_urls s' = fallback_urls s"
    and update_failed: "update_client u s = (Inl e, s') \<Longrightarrow> active_url s' = active_url s"
begin

lemma rotate_failed_ring:
  assumes "try_rotate_url try_connect update_client s = (Inl e, s')"
  shows "ring s' = ring s"
  using assms connect_active connect_fallbacks update_fallbacks update_failed
  by (fastforce simp: try_rotate_url_def Let_def ring_def split: option.splits prod.splits sum.splits)

lemma rotate_done:
  assumes "try_rotate_url try_connect update_client s = (Inr u, s')"
  shows "find (\<lambda>v. v \<noteq> active_url s) (fallback_urls s) = Some u"
    and "ring s' = u # filter (\<lambda>v. v \<noteq> u) (fallback_urls s) @ [active_url s]"
  using assms connect_fallbacks update_fallbacks
  by (fastforce simp: try_rotate_url_def Let_def ring_def split: option.splits prod.splits sum.splits)+

lemma rotate_ring:
  assumes rot: "try_rotate_url try_connect update_client s = (Inr u, s')"
    and d: "distinct (ring s)"
  shows "ring s' = rotate1 (ring s)"
proof -
  have "active_url s \<notin> set (fallback_urls s)" using d by (simp add: ring_def)
  then obtain us where "fallback_urls s = u # us"
    using rotate_done(1) [OF rot] by (auto simp: find_other split: list.splits)
  moreover have "u \<notin> set us" using d calculation by (simp add: ring_def)
  ultimately show ?thesis
    using rotate_done(2) [OF rot] by (simp add: ring_def filter_other)
qed

lemma rotate_same_urls:
  assumes "try_rotate_url try_connect update_client s = (r, s')"
  shows "set (ring s') = set (ring s)"
proof (cases r)
  case (Inl e)
  then show ?thesis using rotate_failed_ring assms by metis
next
  case (Inr u)
  have rot: "try_rotate_url try_connect update_client s = (Inr u, s')" using assms Inr by simp
  have "u \<in> set (fallback_urls s)"
    using rotate_done(1) [OF rot] by (auto simp: find_Some_iff)
  then show ?thesis using rotate_done(2) [OF rot] by (auto simp: ring_def)
qed

lemma take_fallback_Some:
  assumes "take_fallback current us = Some (u, rest)"
  shows "u \<in> set us" "u \<noteq> current" "mset us = add_mset u (mset rest)"
  using assms by (auto simp: take_fallback_def find_Some_iff split: option.splits)

lemma attempts_done:
  assumes "rotate_attempts try_connect update_client m current n s = (Inr (), s')"
  shows "mset (ring s') = add_mset current (mset (fallback_urls s))"
  using assms
proof (induction n arbitrary: s)
  case 0
  then show ?case by simp
next
  case (Suc n)
  obtain u rest where t: "take_fallback current (fallback_urls s) = Some (u, rest)"
    using Suc.prems by (auto split: option.splits)
  obtain r s1 where c: "try_connect u (s\<lparr>fallback_urls := rest\<rparr>) = (r, s1)" by fastforce
  have f1: "fallback_urls s1 = rest" using connect_fallbacks [OF c] by simp
  show ?case
  proof (cases r)
    case (Inl e)
    then show ?thesis
      using Suc.prems Suc.IH [of "s1\<lparr>fallback_urls := fallback_urls s1 @ [u]\<rparr>"] t c f1
        take_fallback_Some(3) [OF t] by simp
  next
    case (Inr x)
    then show ?thesis
      using Suc.prems t c f1 take_fallback_Some(3) [OF t] update_fallbacks [of u s1]
      by (auto simp: ring_def split: prod.splits sum.splits)
  qed
qed

text \<open>The fallbacks that cannot be reached are passed over, in order, as long as attempts are
  left: they move behind the ones that were not tried.\<close>

lemma attempts_reach:
  assumes "\<And>u s. u \<in> set dead \<Longrightarrow> \<exists>e s'. try_connect u s = (Inl e, s')"
    and "\<And>s. \<exists>s'. try_connect live s = (Inr (), s')"
    and "\<And>s. \<exists>s'. update_client live s = (Inr (), s')"
    and "fallback_urls s = dead @ live # rest" "current \<notin> set (dead @ [live])"
    and "length dead < n"
  shows "\<exists>s'. rotate_attempts try_connect update_client m current n s = (Inr (), s')
    \<and> ring s' = live # rest @ dead @ [current]"
  using assms
proof (induction dead arbitrary: s n rest)
  case Nil
  obtain k where n: "n = Suc k" using Nil.prems(6) by (cases n) auto
  have t: "take_fallback current (fallback_urls s) = Some (live, rest)"
    using Nil.prems(4,5) by (auto simp: take_fallback_def)
  obtain s1 where c: "try_connect live (s\<lparr>fallback_urls := rest\<rparr>) = (Inr (), s1)"
    using Nil.prems(2) by blast
  obtain s2 where u: "update_client live s1 = (Inr (), s2)" using Nil.prems(3) by blast
  show ?case
    using n t c u connect_fallbacks [OF c] update_fallbacks [OF u] by (simp add: ring_def)
next
  case (Cons d dead)
  obtain k where n: "n = Suc k" using Cons.prems(6) by (cases n) auto
  have t: "take_fallback current (fallback_urls s) = Some (d, dead @ live # rest)"
    using Cons.prems(4,5) by (auto simp: take_fallback_def)
  obtain e s1 where c: "try_connect d (s\<lparr>fallback_urls := dead @ live # rest\<rparr>) = (Inl e, s1)"
    using Cons.prems(1) by force
  define s2 where "s2 = s1\<lparr>fallback_urls := fallback_urls s1 @ [d]\<rparr>"
  have f: "fallback_urls s2 = dead @ live # (rest @ [d])"
    using connect_fallbacks [OF c] by (simp add: s2_def)
  have "\<exists>s'. rotate_attempts try_connect update_client m current k s2 = (Inr (), s')
      \<and> ring s' = live # (rest @ [d]) @ dead @ [current]"
    using Cons.IH [of s2 "rest @ [d]" k] Cons.prems f n by simp
  then show ?case using n t c by (simp add: s2_def)
qed

end

end
