(* ===== verification/Http_Transport.thy ===== *)
theory Http_Transport imports Endpoints begin

text \<open>
  The HTTP transport (src/src/services/blockchain/transports/http/transport.rs) and the request
  loop of its endpoint manager (http/endpoint_manager.rs): connecting to the first endpoint
  that answers, sending a JSON-RPC request, and rotating on a rate limit or a network error.
  EVMTransportClient and StellarTransportClient (evm/http.rs, stellar/http.rs) wrap it with their
  own connection test.

  The outside is a parameter, \<open>http_env\<close>: the URL parser (crate url), the JSON reader and
  writer (serde_json) and the servers behind the HTTP client and its retry middleware, as a
  function of the request's number, the URL and the body. The request counter and the metrics
  (utils/metrics) are part of the state.
\<close>

section \<open>The outside\<close>

text \<open>The body of a response is \<open>None\<close> when it cannot be read.\<close>

datatype http_reply =
    HttpResponse "16 word" "string option"
  | SendFailed string

record http_env =
  he_client_builds :: bool
  he_parse_url :: "string \<Rightarrow> string option"
  he_host :: "string \<Rightarrow> string option"
  he_read_json :: "string \<Rightarrow> json option"
  he_write_json :: "json \<Rightarrow> string + string"
  he_post :: "nat \<Rightarrow> string \<Rightarrow> string \<Rightarrow> http_reply"

datatype rpc_event =
    RpcMetricsInit string
  | RpcRequest string string
  | RpcDuration string
  | RpcError string string string
  | RateLimited string string
  | EndpointRotation string string

record http_transport = endpoints +
  ht_network_slug :: string
  ht_test_payload :: "string option"
  ht_clock :: nat
  ht_metrics :: "rpc_event list"

definition record_event :: "rpc_event \<Rightarrow> http_transport \<Rightarrow> http_transport" where
  "record_event e s = s\<lparr>ht_metrics := ht_metrics s @ [e]\<rparr>"

definition is_success :: "16 word \<Rightarrow> bool" where
  "is_success status \<longleftrightarrow> 200 \<le> status \<and> status < 300"

definition rotate_on_error_codes :: "16 word list" where
  "rotate_on_error_codes = [429]"

section \<open>Connecting\<close>

definition jsonrpc_request :: "string \<Rightarrow> json \<Rightarrow> json" where
  "jsonrpc_request method_name params = JObject
    [(''id'', JNumber (PosInt 1)), (''jsonrpc'', JString ''2.0''),
     (''method'', JString method_name), (''params'', params)]"

definition test_request :: "http_env \<Rightarrow> string option \<Rightarrow> json option" where
  "test_request env payload = (case payload of
     Some t \<Rightarrow> he_read_json env t
   | None \<Rightarrow> Some (jsonrpc_request ''net_version'' (JArray [])))"

definition post_json :: "http_env \<Rightarrow> nat \<Rightarrow> string \<Rightarrow> json \<Rightarrow> http_reply" where
  "post_json env clock url v = (case he_write_json env v of
     Inl e \<Rightarrow> SendFailed e
   | Inr body \<Rightarrow> he_post env clock url body)"

definition http_try_connect :: "http_env \<Rightarrow> string \<Rightarrow> http_transport
    \<Rightarrow> (string + unit) \<times> http_transport" where
  "http_try_connect env url s = (case he_parse_url env url of
     None \<Rightarrow> (Inl (''Invalid URL: '' @ url), s)
   | Some parsed \<Rightarrow>
       (case test_request env (ht_test_payload s) of
          None \<Rightarrow> (Inl ''Failed to parse test payload as JSON'', s)
        | Some v \<Rightarrow>
            (let s1 = s\<lparr>ht_clock := ht_clock s + 1\<rparr> in
             case post_json env (ht_clock s) parsed v of
               HttpResponse status _ \<Rightarrow>
                 if \<not> is_success status
                 then (Inl (''Failed to connect to '' @ parsed @ '': '' @ show_nat (unat status)), s1)
                 else (Inr (), s1)
             | SendFailed e \<Rightarrow> (Inl (''Failed to connect to '' @ parsed @ '': '' @ e), s1))))"

definition trim_end_slashes :: "string \<Rightarrow> string" where
  "trim_end_slashes s = rev (dropWhile (\<lambda>c. c = CHR ''/'') (rev s))"

definition http_update_client :: "http_env \<Rightarrow> string \<Rightarrow> http_transport
    \<Rightarrow> (string + unit) \<times> http_transport" where
  "http_update_client env url s = (case he_parse_url env url of
     None \<Rightarrow> (Inl (''Invalid URL: '' @ url), s)
   | Some parsed \<Rightarrow> (Inr (), s\<lparr>active_url := trim_end_slashes parsed\<rparr>))"

text \<open>\<open>HttpTransportClient::new\<close>: the endpoints of type rpc with a positive weight, heaviest
  first (\<open>sort_by\<close> is stable), up to the first that answers the connection test.\<close>

definition weighted_urls :: "string \<Rightarrow> network \<Rightarrow> rpc_url list" where
  "weighted_urls type_name net =
    sort_key (\<lambda>r. - uint (rpc_weight r))
      (filter (\<lambda>r. rpc_type r = type_name \<and> rpc_weight r > 0) (rpc_urls net))"

fun connect_first :: "http_env \<Rightarrow> network \<Rightarrow> string option \<Rightarrow> rpc_url list \<Rightarrow> rpc_url list \<Rightarrow> nat
    \<Rightarrow> string + http_transport" where
  "connect_first env net payload urls [] clock = Inl ''All RPC URLs failed to connect''"
| "connect_first env net payload urls (r # rest) clock =
    (case he_parse_url env (secret_as_str (rpc_location r)) of
       None \<Rightarrow> connect_first env net payload urls rest clock
     | Some parsed \<Rightarrow>
         (case test_request env payload of
            None \<Rightarrow> Inl ''Failed to parse test payload as JSON''
          | Some v \<Rightarrow>
              (case post_json env clock parsed v of
                 SendFailed _ \<Rightarrow> connect_first env net payload urls rest (clock + 1)
               | HttpResponse status _ \<Rightarrow>
                   if \<not> is_success status
                   then connect_first env net payload urls rest (clock + 1)
                   else Inr \<lparr>active_url = secret_as_str (rpc_location r),
                     fallback_urls = map (\<lambda>u. secret_as_str (rpc_location u))
                       (filter (\<lambda>u. rpc_location u \<noteq> rpc_location r) urls),
                     ht_network_slug = slug net, ht_test_payload = payload,
                     ht_clock = clock + 1, ht_metrics = [RpcMetricsInit (slug net)]\<rparr>)))"

definition http_transport_new :: "http_env \<Rightarrow> network \<Rightarrow> string option \<Rightarrow> nat
    \<Rightarrow> string + http_transport" where
  "http_transport_new env net payload clock =
    (if \<not> he_client_builds env then Inl ''Failed to create base HTTP client''
     else let urls = weighted_urls ''rpc'' net in connect_first env net payload urls urls clock)"

definition evm_test_payload :: string where
  "evm_test_payload = ''{\"id\":1,\"jsonrpc\":\"2.0\",\"method\":\"net_version\",\"params\":[]}''"

definition stellar_test_payload :: string where
  "stellar_test_payload = ''{\"id\":1,\"jsonrpc\":\"2.0\",\"method\":\"getNetwork\",\"params\":[]}''"

definition evm_transport_new :: "http_env \<Rightarrow> network \<Rightarrow> nat \<Rightarrow> string + http_transport" where
  "evm_transport_new env net = http_transport_new env net (Some evm_test_payload)"

definition stellar_transport_new :: "http_env \<Rightarrow> network \<Rightarrow> nat \<Rightarrow> string + http_transport" where
  "stellar_transport_new env net = http_transport_new env net (Some stellar_test_payload)"

section \<open>Requests\<close>

text \<open>\<open>customize_request\<close>, its default in the trait \<open>BlockchainTransport\<close>.\<close>

definition customize_request :: "string \<Rightarrow> json option \<Rightarrow> json" where
  "customize_request method_name params =
    jsonrpc_request method_name (case params of None \<Rightarrow> JNull | Some p \<Rightarrow> p)"

datatype attempt_outcome =
    Answered "16 word" "string option"
  | AttemptNetworkError string
  | AttemptSerializationError transport_error

definition try_request_on_url :: "http_env \<Rightarrow> string \<Rightarrow> string \<Rightarrow> json option \<Rightarrow> http_transport
    \<Rightarrow> attempt_outcome \<times> http_transport" where
  "try_request_on_url env url method_name params s =
    (case he_write_json env (customize_request method_name params) of
       Inl e \<Rightarrow> (AttemptSerializationError (RequestSerialization ''Failed to serialize request JSON''), s)
     | Inr body \<Rightarrow>
         (let s1 = s\<lparr>ht_clock := ht_clock s + 1\<rparr> in
          case he_post env (ht_clock s) url body of
            HttpResponse status text \<Rightarrow> (Answered status text, s1)
          | SendFailed e \<Rightarrow> (AttemptNetworkError e, s1)))"

text \<open>One turn of the loop of \<open>send_raw_request\<close>: it returns, or goes on with the state after a
  rotation.\<close>

datatype 'a turn = Return 'a | Continue

definition http_rotate :: "http_env \<Rightarrow> http_transport \<Rightarrow> (transport_error + string) \<times> http_transport" where
  "http_rotate env = try_rotate_url (http_try_connect env) (http_update_client env)"

definition request_turn :: "http_env \<Rightarrow> string \<Rightarrow> json option \<Rightarrow> http_transport
    \<Rightarrow> (transport_error + json) turn \<times> http_transport" where
  "request_turn env method_name params s =
    (let net = ht_network_slug s; url = active_url s;
         s0 = record_event (RpcRequest net method_name) s in
     case try_request_on_url env url method_name params s0 of
       (Answered status text, s1) \<Rightarrow>
         if is_success status
         then (Return (case Option.bind text (he_read_json env) of
                 None \<Rightarrow> Inl (ResponseParse ''Failed to parse JSON response'')
               | Some v \<Rightarrow> Inr v), record_event (RpcDuration net) s1)
         else
           (let error_body = (case text of None \<Rightarrow> '''' | Some b \<Rightarrow> b);
                s2 = record_event (RpcError net (show_nat (unat status)) ''http'') s1 in
            if status \<in> set rotate_on_error_codes
            then
              (let host = (case he_host env url of None \<Rightarrow> ''unknown'' | Some h \<Rightarrow> h);
                   s3 = record_event (EndpointRotation net ''rate_limit'')
                          (record_event (RateLimited net host) s2) in
               case http_rotate env s3 of
                 (Inr _, s4) \<Rightarrow> (Continue, s4)
               | (Inl e, s4) \<Rightarrow> (Return (Inl (HttpError status url error_body (Some e))), s4))
            else (Return (Inl (HttpError status url error_body None)), s2))
     | (AttemptNetworkError msg, s1) \<Rightarrow>
         (let s2 = record_event (EndpointRotation net ''network_error'')
                     (record_event (RpcError net ''0'' ''network'') s1) in
          case http_rotate env s2 of
            (Inr _, s3) \<Rightarrow> (Continue, s3)
          | (Inl e, s3) \<Rightarrow> (Return (Inl (NetworkError msg (Some e))), s3))
     | (AttemptSerializationError e, s1) \<Rightarrow> (Return (Inl e), s1))"

text \<open>\<open>send_raw_request\<close>. The loop has no bound of its own: \<open>None\<close> is a call that never
  returns.\<close>

partial_function (option) send_raw_request :: "http_env \<Rightarrow> string \<Rightarrow> json option \<Rightarrow> http_transport
    \<Rightarrow> ((transport_error + json) \<times> http_transport) option" where
  "send_raw_request env method_name params s =
    (case request_turn env method_name params s of
       (Return r, s') \<Rightarrow> Some (r, s')
     | (Continue, s') \<Rightarrow> send_raw_request env method_name params s')"

lemmas [code] = send_raw_request.simps

end
