(* ===== verification/Http_Transport_Properties.thy ===== *)
theory Http_Transport_Properties imports Http_Transport begin

text \<open>
  What the HTTP transport guarantees: the ring of endpoints is only ever rotated, an answer
  comes from the endpoint that is active afterwards, a request reaches the first endpoint that
  answers when the ones before it hand over; and the two ways in which it does not: a first
  fallback that is down hides all others, and a request that every endpoint limits never returns.
\<close>

section \<open>The transport keeps the contract of the endpoint manager\<close>

interpretation http: rotating_transport "http_try_connect env" "http_update_client env" for env
  by unfold_locales
    (auto simp: http_try_connect_def http_update_client_def Let_def
      split: option.splits http_reply.splits if_splits)

lemma http_connect_keeps:
  assumes "http_try_connect env u s = (r, s')"
  shows "ht_network_slug s' = ht_network_slug s" "ht_test_payload s' = ht_test_payload s"
  using assms by (auto simp: http_try_connect_def Let_def split: option.splits http_reply.splits if_splits)

lemma http_update_keeps:
  assumes "http_update_client env u s = (r, s')"
  shows "ht_network_slug s' = ht_network_slug s" "ht_test_payload s' = ht_test_payload s"
  using assms by (auto simp: http_update_client_def split: option.splits)

lemma http_rotate_keeps:
  assumes "http_rotate env s = (r, s')"
  shows "ht_network_slug s' = ht_network_slug s" "ht_test_payload s' = ht_test_payload s"
  using assms http_connect_keeps http_update_keeps
  by (fastforce simp: http_rotate_def try_rotate_url_def Let_def split: option.splits prod.splits sum.splits)+

lemma record_event_sel [simp]:
  "active_url (record_event e s) = active_url s" "fallback_urls (record_event e s) = fallback_urls s"
  "ring (record_event e s) = ring s" "ht_network_slug (record_event e s) = ht_network_slug s"
  "ht_test_payload (record_event e s) = ht_test_payload s" "ht_clock (record_event e s) = ht_clock s"
  by (simp_all add: record_event_def ring_def)

lemma ring_clock [simp]: "ring (s\<lparr>ht_clock := t\<rparr>) = ring s"
  by (simp add: ring_def)

section \<open>One turn of the request loop\<close>

lemma try_request_keeps:
  assumes "try_request_on_url env url m p s = (out, s')"
  shows "ring s' = ring s" "active_url s' = active_url s"
    "ht_network_slug s' = ht_network_slug s" "ht_test_payload s' = ht_test_payload s"
  using assms by (auto simp: try_request_on_url_def Let_def split: sum.splits http_reply.splits)

text \<open>The states in which a turn rotates.\<close>

definition limited_state :: "http_env \<Rightarrow> string \<Rightarrow> string \<Rightarrow> 16 word \<Rightarrow> http_transport \<Rightarrow> http_transport" where
  "limited_state env net url status s =
    record_event (EndpointRotation net ''rate_limit'')
      (record_event (RateLimited net (case he_host env url of None \<Rightarrow> ''unknown'' | Some h \<Rightarrow> h))
        (record_event (RpcError net (show_nat (unat status)) ''http'') s))"

definition broken_state :: "string \<Rightarrow> http_transport \<Rightarrow> http_transport" where
  "broken_state net s = record_event (EndpointRotation net ''network_error'')
     (record_event (RpcError net ''0'' ''network'') s)"

lemma rotating_state_sel [simp]:
  "ring (limited_state env net url st s) = ring s" "ring (broken_state net s) = ring s"
  "active_url (limited_state env net url st s) = active_url s" "active_url (broken_state net s) = active_url s"
  "fallback_urls (limited_state env net url st s) = fallback_urls s"
  "fallback_urls (broken_state net s) = fallback_urls s"
  "ht_test_payload (limited_state env net url st s) = ht_test_payload s"
  "ht_test_payload (broken_state net s) = ht_test_payload s"
  by (simp_all add: limited_state_def broken_state_def)

lemma turn_limited:
  assumes "try_request_on_url env (active_url s) m p (record_event (RpcRequest (ht_network_slug s) m) s)
      = (Answered status content, s0)"
    and "\<not> is_success status"
  shows "request_turn env m p s =
    (if status \<in> set rotate_on_error_codes then
       (case http_rotate env (limited_state env (ht_network_slug s) (active_url s) status s0) of
          (Inr _, s4) \<Rightarrow> (Continue, s4)
        | (Inl e, s4) \<Rightarrow> (Return (Inl (HttpError status (active_url s)
            (case content of None \<Rightarrow> '''' | Some b \<Rightarrow> b) (Some e))), s4))
     else (Return (Inl (HttpError status (active_url s) (case content of None \<Rightarrow> '''' | Some b \<Rightarrow> b) None)),
       record_event (RpcError (ht_network_slug s) (show_nat (unat status)) ''http'') s0))"
  using assms by (simp add: request_turn_def Let_def limited_state_def)

lemma turn_broken:
  assumes "try_request_on_url env (active_url s) m p (record_event (RpcRequest (ht_network_slug s) m) s)
      = (AttemptNetworkError msg, s0)"
  shows "request_turn env m p s = (case http_rotate env (broken_state (ht_network_slug s) s0) of
      (Inr _, s3) \<Rightarrow> (Continue, s3)
    | (Inl e, s3) \<Rightarrow> (Return (Inl (NetworkError msg (Some e))), s3))"
  using assms by (simp add: request_turn_def Let_def broken_state_def)

lemma turn_answered:
  assumes "try_request_on_url env (active_url s) m p (record_event (RpcRequest (ht_network_slug s) m) s)
      = (Answered status content, s0)"
    and "is_success status"
  shows "request_turn env m p s = (Return (case Option.bind content (he_read_json env) of
      None \<Rightarrow> Inl (ResponseParse ''Failed to parse JSON response'') | Some v \<Rightarrow> Inr v),
      record_event (RpcDuration (ht_network_slug s)) s0)"
  using assms by (simp add: request_turn_def Let_def)

lemma turn_unwritable:
  assumes "try_request_on_url env (active_url s) m p (record_event (RpcRequest (ht_network_slug s) m) s)
      = (AttemptSerializationError e, s0)"
  shows "request_turn env m p s = (Return (Inl e), s0)"
  using assms by (simp add: request_turn_def Let_def)

lemma attempt_cases:
  obtains (Success) status content s0 where "try_request_on_url env (active_url s) m p
      (record_event (RpcRequest (ht_network_slug s) m) s) = (Answered status content, s0)" "is_success status"
  | (Status) status content s0 where "try_request_on_url env (active_url s) m p
      (record_event (RpcRequest (ht_network_slug s) m) s) = (Answered status content, s0)" "\<not> is_success status"
  | (Broken) msg s0 where "try_request_on_url env (active_url s) m p
      (record_event (RpcRequest (ht_network_slug s) m) s) = (AttemptNetworkError msg, s0)"
  | (Unwritable) e s0 where "try_request_on_url env (active_url s) m p
      (record_event (RpcRequest (ht_network_slug s) m) s) = (AttemptSerializationError e, s0)"
  by (metis attempt_outcome.exhaust surj_pair)

lemma turn_continues:
  assumes "request_turn env m p s = (Continue, s')"
  obtains s1 u where "ring s1 = ring s" "ht_test_payload s1 = ht_test_payload s" "http_rotate env s1 = (Inr u, s')"
proof (cases rule: attempt_cases [of env s m p])
  case (Success status content s0)
  then show ?thesis using assms turn_answered by simp
next
  case (Status status content s0)
  then show ?thesis
    using assms that [of "limited_state env (ht_network_slug s) (active_url s) status s0"]
      try_request_keeps [OF Status(1)] turn_limited [OF Status]
    by (auto split: if_splits prod.splits sum.splits)
next
  case (Broken msg s0)
  then show ?thesis
    using assms that [of "broken_state (ht_network_slug s) s0"] try_request_keeps [OF Broken]
      turn_broken [OF Broken]
    by (auto split: prod.splits sum.splits)
next
  case (Unwritable e s0)
  then show ?thesis using assms turn_unwritable by simp
qed

lemma turn_returns_ring:
  assumes "request_turn env m p s = (Return r, s')"
  shows "ring s' = ring s"
proof (cases rule: attempt_cases [of env s m p])
  case (Success status content s0)
  then show ?thesis using assms turn_answered [OF Success] try_request_keeps [OF Success(1)] by auto
next
  case (Status status content s0)
  then show ?thesis
    using assms turn_limited [OF Status] try_request_keeps [OF Status(1)] http.rotate_failed_ring
    by (fastforce simp: http_rotate_def split: if_splits prod.splits sum.splits)
next
  case (Broken msg s0)
  then show ?thesis
    using assms turn_broken [OF Broken] try_request_keeps [OF Broken] http.rotate_failed_ring
    by (fastforce simp: http_rotate_def split: prod.splits sum.splits)
next
  case (Unwritable e s0)
  then show ?thesis using assms turn_unwritable [OF Unwritable] try_request_keeps [OF Unwritable] by auto
qed

lemma turn_answers:
  assumes "request_turn env m p s = (Return (Inr v), s')"
  shows "active_url s' = active_url s \<and> (\<exists>t body status text. he_write_json env (customize_request m p) = Inr body
      \<and> he_post env t (active_url s) body = HttpResponse status (Some text) \<and> is_success status
      \<and> he_read_json env text = Some v)"
proof (cases rule: attempt_cases [of env s m p])
  case (Success status content s0)
  obtain t where t: "content = Some t" "he_read_json env t = Some v"
    and s': "s' = record_event (RpcDuration (ht_network_slug s)) s0"
    using assms turn_answered [OF Success] by (auto simp: bind_eq_Some_conv split: option.splits)
  obtain body where "he_write_json env (customize_request m p) = Inr body"
    and "he_post env (ht_clock s) (active_url s) body = HttpResponse status content"
    using Success by (auto simp: try_request_on_url_def Let_def split: sum.splits http_reply.splits)
  then show ?thesis using t s' Success(2) try_request_keeps(2) [OF Success(1)] by auto
qed (use assms turn_limited turn_broken turn_unwritable in
    \<open>force split: if_splits prod.splits sum.splits\<close>)+

lemma send_turn:
  "send_raw_request env m p s = (case request_turn env m p s of
     (Return r, s') \<Rightarrow> Some (r, s') | (Continue, s') \<Rightarrow> send_raw_request env m p s')"
  by (rule send_raw_request.simps)

lemma send_induct [consumes 1, case_names Return Continue]:
  assumes "send_raw_request env m p s = Some (r, s')"
    and "\<And>s r s'. request_turn env m p s = (Return r, s') \<Longrightarrow> P s r s'"
    and "\<And>s s1 r s'. request_turn env m p s = (Continue, s1) \<Longrightarrow> P s1 r s' \<Longrightarrow> P s r s'"
  shows "P s r s'"
proof -
  have "env = env \<and> m = m \<and> p = p \<longrightarrow> P s (fst (r, s')) (snd (r, s'))"
  proof (rule send_raw_request.raw_induct [where P = "\<lambda>e m' p' s z. e = env \<and> m' = m \<and> p' = p
      \<longrightarrow> P s (fst z) (snd z)", OF _ assms(1)])
    fix send e m' p' s z
    assume IH: "\<And>e m' p' s z. send e m' p' s = Some z \<Longrightarrow> e = env \<and> m' = m \<and> p' = p \<longrightarrow> P s (fst z) (snd z)"
      and run: "(case request_turn e m' p' s of (Return r, s') \<Rightarrow> Some (r, s')
        | (Continue, s') \<Rightarrow> send e m' p' s') = Some z"
    show "e = env \<and> m' = m \<and> p' = p \<longrightarrow> P s (fst z) (snd z)"
      using run IH assms(2,3) by (auto split: prod.splits turn.splits)
  qed
  then show ?thesis by simp
qed

section \<open>Endpoints that answer, hand over or can be reached\<close>

definition hands_over :: "http_env \<Rightarrow> string \<Rightarrow> string \<Rightarrow> bool" where
  "hands_over env body u \<longleftrightarrow> (\<forall>t. case he_post env t u body of
     HttpResponse status _ \<Rightarrow> status \<in> set rotate_on_error_codes | SendFailed _ \<Rightarrow> True)"

definition answers :: "http_env \<Rightarrow> string \<Rightarrow> json \<Rightarrow> string \<Rightarrow> bool" where
  "answers env body v u \<longleftrightarrow> (\<forall>t. case he_post env t u body of
     HttpResponse status content \<Rightarrow> is_success status \<and> Option.bind content (he_read_json env) = Some v
   | SendFailed _ \<Rightarrow> False)"

definition connects :: "http_env \<Rightarrow> string option \<Rightarrow> string \<Rightarrow> bool" where
  "connects env payload u \<longleftrightarrow> (case (he_parse_url env u, test_request env payload) of
     (Some parsed, Some v) \<Rightarrow>
       (\<forall>t. case post_json env t parsed v of HttpResponse status _ \<Rightarrow> is_success status | SendFailed _ \<Rightarrow> False)
   | _ \<Rightarrow> False)"

definition refuses :: "http_env \<Rightarrow> string option \<Rightarrow> string \<Rightarrow> bool" where
  "refuses env payload u \<longleftrightarrow> (case (he_parse_url env u, test_request env payload) of
     (Some parsed, Some v) \<Rightarrow>
       (\<forall>t. case post_json env t parsed v of HttpResponse status _ \<Rightarrow> \<not> is_success status | SendFailed _ \<Rightarrow> True)
   | _ \<Rightarrow> True)"

lemma connects_try_connect:
  assumes "connects env (ht_test_payload s) u"
  shows "http_try_connect env u s = (Inr (), s\<lparr>ht_clock := ht_clock s + 1\<rparr>)"
  using assms
  by (auto simp: connects_def http_try_connect_def Let_def split: option.splits http_reply.splits
      dest: spec [of _ "ht_clock s"])

lemma connects_update:
  assumes "connects env payload u"
  shows "\<exists>s'. http_update_client env u s = (Inr (), s')"
  using assms by (auto simp: connects_def http_update_client_def split: option.splits)

lemma connects_rotate:
  assumes "connects env (ht_test_payload s) u" "ring s = a # u # us" "distinct (ring s)"
  shows "\<exists>s'. http_rotate env s = (Inr u, s') \<and> ring s' = u # us @ [a]
    \<and> ht_test_payload s' = ht_test_payload s"
proof -
  obtain s2 where u: "http_update_client env u (s\<lparr>ht_clock := ht_clock s + 1\<rparr>) = (Inr (), s2)"
    using connects_update [OF assms(1)] by blast
  have "find (\<lambda>v. v \<noteq> active_url s) (fallback_urls s) = Some u" using assms(2,3) by (auto simp: ring_def)
  then have "\<exists>s'. http_rotate env s = (Inr u, s')"
    using connects_try_connect [OF assms(1)] u by (simp add: http_rotate_def try_rotate_url_def Let_def)
  then show ?thesis
    using http.rotate_ring [of env s u] http_rotate_keeps(2) assms(2,3) by (fastforce simp: http_rotate_def)
qed

lemma turn_hands_over:
  assumes body: "he_write_json env (customize_request m p) = Inr body"
    and h: "hands_over env body (active_url s)" and c: "connects env (ht_test_payload s) u"
    and r: "ring s = a # u # us" and d: "distinct (ring s)"
  shows "\<exists>s'. request_turn env m p s = (Continue, s') \<and> ring s' = u # us @ [a]
    \<and> ht_test_payload s' = ht_test_payload s"
proof (cases "he_post env (ht_clock s) (active_url s) body")
  case (HttpResponse status content)
  define s0 where "s0 = (record_event (RpcRequest (ht_network_slug s) m) s)\<lparr>ht_clock := ht_clock s + 1\<rparr>"
  have t: "try_request_on_url env (active_url s) m p (record_event (RpcRequest (ht_network_slug s) m) s)
      = (Answered status content, s0)"
    using body HttpResponse by (simp add: try_request_on_url_def s0_def)
  have st: "status \<in> set rotate_on_error_codes" "\<not> is_success status"
    using h HttpResponse by (auto simp: hands_over_def rotate_on_error_codes_def is_success_def
        dest: spec [of _ "ht_clock s"])
  let ?s1 = "limited_state env (ht_network_slug s) (active_url s) status s0"
  show ?thesis
    using connects_rotate [of env ?s1 u a us] turn_limited [OF t st(2)] st(1) c r d by (auto simp: s0_def)
next
  case (SendFailed msg)
  define s0 where "s0 = (record_event (RpcRequest (ht_network_slug s) m) s)\<lparr>ht_clock := ht_clock s + 1\<rparr>"
  have t: "try_request_on_url env (active_url s) m p (record_event (RpcRequest (ht_network_slug s) m) s)
      = (AttemptNetworkError msg, s0)"
    using body SendFailed by (simp add: try_request_on_url_def s0_def)
  let ?s1 = "broken_state (ht_network_slug s) s0"
  show ?thesis
    using connects_rotate [of env ?s1 u a us] turn_broken [OF t] c r d by (auto simp: s0_def)
qed

lemma turn_gets_answer:
  assumes body: "he_write_json env (customize_request m p) = Inr body"
    and a: "answers env body v (active_url s)"
  shows "\<exists>s'. request_turn env m p s = (Return (Inr v), s') \<and> ring s' = ring s"
proof -
  obtain status content where post: "he_post env (ht_clock s) (active_url s) body = HttpResponse status content"
    and ok: "is_success status" "Option.bind content (he_read_json env) = Some v"
    using a by (cases "he_post env (ht_clock s) (active_url s) body")
      (auto simp: answers_def dest: spec [of _ "ht_clock s"])
  define s0 where "s0 = (record_event (RpcRequest (ht_network_slug s) m) s)\<lparr>ht_clock := ht_clock s + 1\<rparr>"
  have "try_request_on_url env (active_url s) m p (record_event (RpcRequest (ht_network_slug s) m) s)
      = (Answered status content, s0)"
    using body post by (simp add: try_request_on_url_def s0_def)
  then show ?thesis using ok by (simp add: turn_answered s0_def)
qed

section \<open>A small world\<close>

text \<open>URLs parse as they are, JSON is written as the empty text, and an endpoint's first letter
  says how it behaves: g(ood) answers, l(imited) answers the test but limits requests,
  d(own) never answers. A request has an endpoint of its own for the test: the empty path.\<close>

definition small_post :: "nat \<Rightarrow> string \<Rightarrow> string \<Rightarrow> http_reply" where
  "small_post t url body =
    (if prefix ''g'' url then HttpResponse 200 (Some ''null'')
     else if prefix ''l'' url then HttpResponse (if body = ''test'' then 200 else 429) (Some ''null'')
     else SendFailed ''refused'')"

definition small_http_env :: http_env where
  "small_http_env = \<lparr>he_client_builds = True, he_parse_url = Some, he_host = Some,
    he_read_json = (\<lambda>s. Some JNull),
    he_write_json = (\<lambda>v. Inr (if v = JNull then ''test'' else ''call'')),
    he_post = small_post\<rparr>"

definition small_http :: "string list \<Rightarrow> http_transport" where
  "small_http urls = \<lparr>active_url = hd urls, fallback_urls = tl urls, ht_network_slug = ''net'',
    ht_test_payload = Some ''null'', ht_clock = 0, ht_metrics = []\<rparr>"

lemmas small_http_facts = small_http_env_def small_http_def small_post_def customize_request_def
  jsonrpc_request_def ring_def connects_def refuses_def answers_def hands_over_def test_request_def post_json_def
  rotate_on_error_codes_def is_success_def

section \<open>The properties\<close>

text \<open>A request that succeeds was answered, with a success status and a body that
  parses to the result, by the endpoint that is active when the call returns.\<close>

lemma response_from_active_endpoint:
  assumes "send_raw_request env method_name params s = Some (Inr v, s')"
  shows "\<exists>t body status content. he_write_json env (customize_request method_name params) = Inr body
    \<and> he_post env t (active_url s') body = HttpResponse status (Some content)
    \<and> is_success status \<and> he_read_json env content = Some v"
proof -
  have "r = Inr v \<Longrightarrow> \<exists>t body status content. he_write_json env (customize_request method_name params) = Inr body
    \<and> he_post env t (active_url s') body = HttpResponse status (Some content)
    \<and> is_success status \<and> he_read_json env content = Some v"
    if "send_raw_request env method_name params s = Some (r, s')" for r
    using that by (induction rule: send_induct) (metis turn_answers, blast)
  then show ?thesis using assms by blast
qed

lemma small_http_run:
  "send_raw_request small_http_env ''m'' None (small_http [''down'', ''good''])
    = Some (Inr JNull, \<lparr>active_url = ''good'', fallback_urls = [''down''], ht_network_slug = ''net'',
        ht_test_payload = Some ''null'', ht_clock = 3,
        ht_metrics = [RpcRequest ''net'' ''m'', RpcError ''net'' ''0'' ''network'', EndpointRotation ''net'' ''network_error'',
          RpcRequest ''net'' ''m'', RpcDuration ''net'']\<rparr>)"
  by code_simp

lemma response_from_active_endpoint_witness:
  "\<exists>t body status content. he_write_json small_http_env (customize_request ''m'' None) = Inr body
    \<and> he_post small_http_env t ''good'' body = HttpResponse status (Some content)
    \<and> is_success status \<and> he_read_json small_http_env content = Some JNull"
  using response_from_active_endpoint [OF small_http_run] by simp

text \<open>A call only ever rotates the ring of endpoints: none is lost or added, their cyclic order
  stays, and whatever the call returns the active endpoint is one of them.\<close>

lemma requests_rotate_endpoints:
  assumes "send_raw_request env method_name params s = Some (r, s')" "distinct (ring s)"
  shows "\<exists>k. ring s' = rotate k (ring s)"
  using assms
proof (induction rule: send_induct)
  case (Return s r s')
  then show ?case using turn_returns_ring by (metis rotate0 id_apply)
next
  case (Continue s s1 r s')
  obtain s0 u where "ring s0 = ring s" "http_rotate env s0 = (Inr u, s1)"
    using Continue.hyps by (rule turn_continues)
  then have "ring s1 = rotate1 (ring s)"
    using http.rotate_ring Continue.prems by (metis http_rotate_def)
  then obtain k where "ring s' = rotate k (rotate1 (ring s))"
    using Continue.IH Continue.prems by auto
  then have "ring s' = rotate (Suc k) (ring s)" by (simp add: rotate1_rotate_swap)
  then show ?case by blast
qed

lemma requests_rotate_endpoints_witness:
  "\<exists>k. [''good'', ''down''] = rotate k [''down'', ''good'']"
  using requests_rotate_endpoints [OF small_http_run] by (simp add: ring_def small_http_def)



text \<open>Only the first fallback is ever tried: while it cannot be connected to, a request that
  the active endpoint limits or does not answer fails and leaves the ring as it was, so every
  later one fails too, whatever the endpoints behind the first fallback would answer.\<close>

lemma first_fallback_blocks_rotation:
  assumes "he_write_json env (customize_request method_name params) = Inr body"
    and "ring s = a # u # us" "distinct (ring s)"
    and "hands_over env body a" "refuses env (ht_test_payload s) u"
  shows "\<exists>e s'. send_raw_request env method_name params s = Some (Inl e, s')
    \<and> ring s' = ring s \<and> ht_test_payload s' = ht_test_payload s"
proof -
  have a: "active_url s = a" using assms(2) by (simp add: ring_def)
  have fail: "\<exists>e s'. http_rotate env s1 = (Inl e, s') \<and> ring s' = ring s \<and> ht_test_payload s' = ht_test_payload s"
    if "ring s1 = ring s" "ht_test_payload s1 = ht_test_payload s" for s1
  proof -
    have "\<exists>e s'. http_try_connect env u s1 = (Inl e, s')"
      using assms(5) that(2) by (auto simp: refuses_def http_try_connect_def Let_def
          split: option.splits http_reply.splits dest: spec [of _ "ht_clock s1"])
    moreover have "find (\<lambda>v. v \<noteq> active_url s1) (fallback_urls s1) = Some u"
      using assms(2,3) that(1) by (auto simp: ring_def)
    ultimately obtain e s' where "http_rotate env s1 = (Inl e, s')"
      by (auto simp: http_rotate_def try_rotate_url_def Let_def)
    then show ?thesis
      using http.rotate_failed_ring http_rotate_keeps(2) that by (fastforce simp: http_rotate_def)
  qed
  show ?thesis
  proof (cases "he_post env (ht_clock s) a body")
    case (HttpResponse status content)
    define s0 where "s0 = (record_event (RpcRequest (ht_network_slug s) method_name) s)\<lparr>ht_clock := ht_clock s + 1\<rparr>"
    have t: "try_request_on_url env (active_url s) method_name params
        (record_event (RpcRequest (ht_network_slug s) method_name) s) = (Answered status content, s0)"
      using assms(1) HttpResponse a by (simp add: try_request_on_url_def s0_def)
    have st: "status \<in> set rotate_on_error_codes" "\<not> is_success status"
      using assms(4) HttpResponse by (auto simp: hands_over_def rotate_on_error_codes_def is_success_def
          dest: spec [of _ "ht_clock s"])
    show ?thesis
      using fail [of "limited_state env (ht_network_slug s) (active_url s) status s0"]
        turn_limited [OF t st(2)] st(1) by (subst send_turn) (auto simp: s0_def)
  next
    case (SendFailed msg)
    define s0 where "s0 = (record_event (RpcRequest (ht_network_slug s) method_name) s)\<lparr>ht_clock := ht_clock s + 1\<rparr>"
    have t: "try_request_on_url env (active_url s) method_name params
        (record_event (RpcRequest (ht_network_slug s) method_name) s) = (AttemptNetworkError msg, s0)"
      using assms(1) SendFailed a by (simp add: try_request_on_url_def s0_def)
    show ?thesis
      using fail [of "broken_state (ht_network_slug s) s0"] turn_broken [OF t]
      by (subst send_turn) (auto simp: s0_def)
  qed
qed

lemma first_fallback_blocks_rotation_witness:
  "answers small_http_env ''call'' JNull ''good'' \<and>
   (\<exists>e s'. send_raw_request small_http_env ''m'' None (small_http [''limited'', ''down'', ''good'']) = Some (Inl e, s')
      \<and> ring s' = [''limited'', ''down'', ''good''])"
  using first_fallback_blocks_rotation [of small_http_env "''m''" None "''call''"
      "small_http [''limited'', ''down'', ''good'']" "''limited''" "''down''" "[''good'']"]
  by (simp add: small_http_facts) blast



text \<open>What \<open>connect_first\<close> returns for the endpoints \<open>rest\<close> still to try.\<close>

abbreviation location :: "rpc_url \<Rightarrow> string" where
  "location r \<equiv> secret_as_str (rpc_location r)"

definition chose :: "http_env \<Rightarrow> string option \<Rightarrow> rpc_url list \<Rightarrow> rpc_url list \<Rightarrow> http_transport \<Rightarrow> bool" where
  "chose env payload urls rest tr \<longleftrightarrow> (\<exists>before r after. rest = before @ r # after
     \<and> connects env payload (location r) \<and> (\<forall>q\<in>set before. \<not> connects env payload (location q))
     \<and> active_url tr = location r
     \<and> fallback_urls tr = map location (filter (\<lambda>u. rpc_location u \<noteq> rpc_location r) urls))"

lemma chose_later:
  assumes "chose env payload urls rest tr" "\<not> connects env payload (location r)"
  shows "chose env payload urls (r # rest) tr"
proof -
  obtain before q after where "rest = before @ q # after"
    and "connects env payload (location q)" "\<forall>q\<in>set before. \<not> connects env payload (location q)"
    and "active_url tr = location q"
    and "fallback_urls tr = map location (filter (\<lambda>u. rpc_location u \<noteq> rpc_location q) urls)"
    using assms(1) unfolding chose_def by blast
  then show ?thesis
    using assms(2) unfolding chose_def by (intro exI [of _ "r # before"] exI [of _ q] exI [of _ after]) simp
qed

lemma connect_first_here:
  assumes "connects env payload (location r)"
  shows "\<exists>tr. connect_first env net payload urls (r # rest) clock = Inr tr \<and> active_url tr = location r
    \<and> fallback_urls tr = map location (filter (\<lambda>u. rpc_location u \<noteq> rpc_location r) urls)"
proof -
  obtain parsed v where p: "he_parse_url env (location r) = Some parsed" "test_request env payload = Some v"
    and t: "\<forall>t. case post_json env t parsed v of HttpResponse status _ \<Rightarrow> is_success status | SendFailed _ \<Rightarrow> False"
    using assms by (auto simp: connects_def split: option.splits)
  then show ?thesis using spec [OF t, of clock] by (auto split: http_reply.splits)
qed

lemma connect_first_refused:
  assumes "refuses env payload (location r)"
  shows "(\<exists>c. connect_first env net payload urls (r # rest) clock = connect_first env net payload urls rest c)
    \<or> (test_request env payload = None \<and> (\<exists>e. connect_first env net payload urls (r # rest) clock = Inl e))"
proof (cases "he_parse_url env (location r)")
  case None
  then show ?thesis by auto
next
  case (Some parsed)
  show ?thesis
  proof (cases "test_request env payload")
    case None
    then show ?thesis using Some by simp
  next
    case (Some v)
    have t: "\<forall>t. case post_json env t parsed v of HttpResponse status _ \<Rightarrow> \<not> is_success status | SendFailed _ \<Rightarrow> True"
      using assms Some \<open>he_parse_url env (location r) = Some parsed\<close> by (simp add: refuses_def)
    then show ?thesis
      using spec [OF t, of clock] Some \<open>he_parse_url env (location r) = Some parsed\<close>
      by (cases "post_json env clock parsed v") (simp_all, blast+)
  qed
qed

lemma connect_first_spec:
  assumes "\<forall>r\<in>set rest. connects env payload (location r) \<or> refuses env payload (location r)"
  shows "case connect_first env net payload urls rest clock of
      Inl _ \<Rightarrow> \<forall>r\<in>set rest. \<not> connects env payload (location r)
    | Inr tr \<Rightarrow> chose env payload urls rest tr"
  using assms
proof (induction rest arbitrary: clock)
  case Nil
  then show ?case by simp
next
  case (Cons r rest)
  show ?case
  proof (cases "connects env payload (location r)")
    case True
    then obtain tr where "connect_first env net payload urls (r # rest) clock = Inr tr"
      and "active_url tr = location r"
        "fallback_urls tr = map location (filter (\<lambda>u. rpc_location u \<noteq> rpc_location r) urls)"
      using connect_first_here by blast
    moreover have "r # rest = [] @ r # rest" by simp
    ultimately show ?thesis using True unfolding chose_def by fastforce
  next
    case False
    have none: "test_request env payload = None \<Longrightarrow> \<not> connects env payload u" for u
      by (auto simp: connects_def split: option.splits)
    have "refuses env payload (location r)" using Cons.prems False by simp
    then show ?thesis
    proof (rule disjE [OF connect_first_refused])
      assume "\<exists>c. connect_first env net payload urls (r # rest) clock = connect_first env net payload urls rest c"
      then obtain c where c: "connect_first env net payload urls (r # rest) clock
          = connect_first env net payload urls rest c" by blast
      show ?thesis using Cons.IH [of c] Cons.prems False chose_later unfolding c by (auto split: sum.splits)
    qed (use none in auto)
  qed
qed

text \<open>A new transport connects to a heaviest endpoint among those that pass the connection
  test, and the others stay reachable through its ring; it fails only when none passes.\<close>

lemma transport_connects_heaviest:
  assumes "he_client_builds env"
    and "\<forall>r\<in>set (weighted_urls ''rpc'' net). connects env payload (location r) \<or> refuses env payload (location r)"
  shows "case http_transport_new env net payload clock of
      Inl _ \<Rightarrow> \<forall>r\<in>set (weighted_urls ''rpc'' net). \<not> connects env payload (location r)
    | Inr tr \<Rightarrow> (\<exists>r\<in>set (weighted_urls ''rpc'' net). active_url tr = location r
          \<and> connects env payload (location r)
          \<and> (\<forall>q\<in>set (weighted_urls ''rpc'' net). connects env payload (location q) \<longrightarrow> rpc_weight q \<le> rpc_weight r))
        \<and> set (ring tr) = location ` set (weighted_urls ''rpc'' net)"
proof (cases "http_transport_new env net payload clock")
  case (Inl e)
  then show ?thesis
    using connect_first_spec [OF assms(2), where net = net and urls = "weighted_urls ''rpc'' net" and clock = clock] assms(1)
    by (simp add: http_transport_new_def Let_def)
next
  case (Inr tr)
  let ?urls = "weighted_urls ''rpc'' net"
  have "chose env payload ?urls ?urls tr"
    using connect_first_spec [OF assms(2), where net = net and urls = ?urls and clock = clock] Inr assms(1)
    by (simp add: http_transport_new_def Let_def)
  then obtain before r after where split: "?urls = before @ r # after"
    and r: "connects env payload (location r)" "\<forall>q\<in>set before. \<not> connects env payload (location q)"
    and tr: "active_url tr = location r"
      "fallback_urls tr = map location (filter (\<lambda>u. rpc_location u \<noteq> rpc_location r) ?urls)"
    unfolding chose_def by blast
  have "sorted (map (\<lambda>r. - uint (rpc_weight r)) ?urls)" by (simp add: weighted_urls_def)
  then have "\<forall>q\<in>set after. rpc_weight q \<le> rpc_weight r"
    unfolding split by (auto simp: sorted_append word_le_def)
  then have "\<forall>q\<in>set ?urls. connects env payload (location q) \<longrightarrow> rpc_weight q \<le> rpc_weight r"
    using r(2) unfolding split by auto
  moreover have rin: "r \<in> set ?urls" unfolding split by simp
  moreover have "set (ring tr) = location ` set ?urls"
    using rin by (auto simp: ring_def tr)
  ultimately show ?thesis using Inr tr(1) r(1) by auto
qed

definition small_net :: network where
  "small_net = \<lparr>network_type = EVM, slug = ''net'', network_name = ''Net'',
    rpc_urls = [\<lparr>rpc_type = ''rpc'', rpc_location = Plain ''good'', rpc_weight = 50\<rparr>,
      \<lparr>rpc_type = ''ws_rpc'', rpc_location = Plain ''g-socket'', rpc_weight = 100\<rparr>,
      \<lparr>rpc_type = ''rpc'', rpc_location = Plain ''g-light'', rpc_weight = 10\<rparr>,
      \<lparr>rpc_type = ''rpc'', rpc_location = Plain ''g-off'', rpc_weight = 0\<rparr>,
      \<lparr>rpc_type = ''rpc'', rpc_location = Plain ''down'', rpc_weight = 100\<rparr>],
    chain_id = None, network_passphrase = None, block_time_ms = 0, confirmation_blocks = 0,
    cron_schedule = '''', max_past_blocks = None, store_blocks = None, recovery_config = None\<rparr>"

lemma small_net_urls: "weighted_urls ''rpc'' small_net =
  [\<lparr>rpc_type = ''rpc'', rpc_location = Plain ''down'', rpc_weight = 100\<rparr>,
   \<lparr>rpc_type = ''rpc'', rpc_location = Plain ''good'', rpc_weight = 50\<rparr>,
   \<lparr>rpc_type = ''rpc'', rpc_location = Plain ''g-light'', rpc_weight = 10\<rparr>]"
  by code_simp

lemma transport_connects_heaviest_witness:
  "case http_transport_new small_http_env small_net (Some ''null'') 0 of
     Inl _ \<Rightarrow> False
   | Inr tr \<Rightarrow> active_url tr = ''good'' \<and> set (ring tr) = {''down'', ''good'', ''g-light''}"
proof -
  have stable: "\<forall>r\<in>set (weighted_urls ''rpc'' small_net). connects small_http_env (Some ''null'') (location r)
      \<or> refuses small_http_env (Some ''null'') (location r)"
    unfolding small_net_urls by (simp add: small_http_facts)
  have "connects small_http_env (Some ''null'') ''good''" "\<not> connects small_http_env (Some ''null'') ''down''"
    by (simp_all add: small_http_facts)
  moreover have "he_client_builds small_http_env" by (simp add: small_http_facts)
  ultimately show ?thesis
    using transport_connects_heaviest [OF _ stable, of 0] unfolding small_net_urls
    by (cases "http_transport_new small_http_env small_net (Some ''null'') 0") auto
qed

end
