(* ===== verification/Ws_Transport.thy ===== *)
theory Ws_Transport imports Http_Transport begin

text \<open>
  The WebSocket transport (src/src/services/blockchain/transports/ws): its configuration
  (config.rs), the connection's state (connection.rs), connecting, and the request loop of
  transport.rs, which rotates through the endpoint manager (endpoint_manager.rs) when the
  connection breaks. MidnightTransportClient (midnight/ws.rs) wraps it.

  The sockets are a parameter, \<open>ws_env\<close>, as functions of the number of the operation: what a
  connection attempt, a send, a pong and the wait for the next message give.
\<close>

section \<open>Configuration and connection state\<close>

text \<open>Durations in milliseconds.\<close>

record ws_config =
  wc_heartbeat_interval :: nat
  wc_reconnect_timeout :: nat
  wc_max_reconnect_attempts :: u32
  wc_connection_timeout :: nat
  wc_message_timeout :: nat

definition ws_config_default :: ws_config where
  "ws_config_default = \<lparr>wc_heartbeat_interval = 30000, wc_reconnect_timeout = 5000,
     wc_max_reconnect_attempts = 3, wc_connection_timeout = 10000, wc_message_timeout = 5000\<rparr>"

definition ws_config_single_attempt :: ws_config where
  "ws_config_single_attempt = \<lparr>wc_heartbeat_interval = 30000, wc_reconnect_timeout = 1000,
     wc_max_reconnect_attempts = 1, wc_connection_timeout = 1000, wc_message_timeout = 1000\<rparr>"

definition ws_config_from_network :: "network \<Rightarrow> ws_config" where
  "ws_config_from_network _ = ws_config_default"

text \<open>An open stream is known by the URL it is connected to.\<close>

record ws_transport = endpoints +
  ws_stream :: "string option"
  ws_healthy :: bool
  ws_configuration :: ws_config
  ws_next_id :: u64
  ws_clock :: nat

definition is_connected :: "ws_transport \<Rightarrow> bool" where
  "is_connected s \<longleftrightarrow> ws_stream s \<noteq> None \<and> ws_healthy s"

section \<open>The outside\<close>

datatype ws_connect_outcome = WsConnected | WsRefused string | WsConnectTimeout

datatype ws_incoming = WsText string | WsPing string | WsOther | WsReadFailed string

record ws_env =
  we_connect :: "nat \<Rightarrow> nat \<Rightarrow> string \<Rightarrow> ws_connect_outcome"
  we_elapsed :: "nat \<Rightarrow> bool"
  we_send :: "nat \<Rightarrow> string \<Rightarrow> string \<Rightarrow> string option"
  we_pong :: "nat \<Rightarrow> string \<Rightarrow> string \<Rightarrow> string option"
  we_next :: "nat \<Rightarrow> nat \<Rightarrow> string \<Rightarrow> ws_incoming"
  we_read_json :: "string \<Rightarrow> json option"
  we_write_json :: "json \<Rightarrow> string"

definition ws_tick :: "ws_transport \<Rightarrow> ws_transport" where
  "ws_tick s = s\<lparr>ws_clock := ws_clock s + 1\<rparr>"

section \<open>Connecting\<close>

definition ws_try_connect :: "ws_env \<Rightarrow> string \<Rightarrow> ws_transport \<Rightarrow> (string + unit) \<times> ws_transport" where
  "ws_try_connect env url s =
    (case we_connect env (ws_clock s) (wc_connection_timeout (ws_configuration s)) url of
       WsConnected \<Rightarrow> (Inr (), (ws_tick s)\<lparr>ws_stream := Some url, ws_healthy := True\<rparr>)
     | WsRefused e \<Rightarrow> (Inl (''Failed to connect: '' @ e), (ws_tick s)\<lparr>ws_healthy := False\<rparr>)
     | WsConnectTimeout \<Rightarrow> (Inl ''Connection timeout'', (ws_tick s)\<lparr>ws_healthy := False\<rparr>))"

definition ws_update_client :: "string \<Rightarrow> ws_transport \<Rightarrow> (string + unit) \<times> ws_transport" where
  "ws_update_client url s = (Inr (), s\<lparr>active_url := url\<rparr>)"

text \<open>During a rotation the attempt runs under a timeout of its own, which drops it as it is.\<close>

definition ws_timeout_connect :: "ws_env \<Rightarrow> string \<Rightarrow> ws_transport \<Rightarrow> (string + unit) \<times> ws_transport" where
  "ws_timeout_connect env url s =
    (if we_elapsed env (ws_clock s) then (Inl ''Connection timeout during rotation'', ws_tick s)
     else ws_try_connect env url s)"

definition get_active_url :: "'z endpoints_scheme \<Rightarrow> string + string" where
  "get_active_url s = (if active_url s = [] then Inl ''No active URL set'' else Inr (active_url s))"

definition ws_connect :: "ws_env \<Rightarrow> ws_transport \<Rightarrow> (string + unit) \<times> ws_transport" where
  "ws_connect env s = (case get_active_url s of
     Inl e \<Rightarrow> (Inl e, s)
   | Inr url \<Rightarrow> ws_try_connect env url s)"

text \<open>The first URL that can be connected to, the others in order as fallbacks, and the
  operation counter.\<close>

fun choose_active :: "ws_env \<Rightarrow> nat \<Rightarrow> string list \<Rightarrow> string option \<Rightarrow> string list \<Rightarrow> nat
    \<Rightarrow> string option \<times> string list \<times> nat" where
  "choose_active env limit [] active fallbacks clock = (active, fallbacks, clock)"
| "choose_active env limit (url # urls) active fallbacks clock =
    (if active = None then
       (case we_connect env clock limit url of
          WsConnected \<Rightarrow> choose_active env limit urls (Some url) fallbacks (clock + 1)
        | _ \<Rightarrow> choose_active env limit urls None (fallbacks @ [url]) (clock + 1))
     else choose_active env limit urls active (fallbacks @ [url]) clock)"

definition ws_transport_new :: "ws_env \<Rightarrow> network \<Rightarrow> ws_config option \<Rightarrow> nat \<Rightarrow> string + ws_transport" where
  "ws_transport_new env net config clock =
    (let cfg = (case config of None \<Rightarrow> ws_config_from_network net | Some c \<Rightarrow> c);
         urls = weighted_urls ''ws_rpc'' net in
     if urls = [] then Inl ''No WebSocket URLs available''
     else
       (case choose_active env (wc_connection_timeout cfg)
               (map (\<lambda>r. secret_as_str (rpc_location r)) urls) None [] clock of
          (None, _, _) \<Rightarrow> Inl ''Failed to connect to any WebSocket URL''
        | (Some url, fallbacks, t) \<Rightarrow>
            (case ws_connect env \<lparr>active_url = url, fallback_urls = fallbacks, ws_stream = None,
                    ws_healthy = False, ws_configuration = cfg, ws_next_id = 1, ws_clock = t\<rparr> of
               (Inl e, _) \<Rightarrow> Inl e
             | (Inr _, s) \<Rightarrow> Inr s)))"

section \<open>Requests\<close>

definition ws_request :: "string \<Rightarrow> u64 \<Rightarrow> json option \<Rightarrow> json" where
  "ws_request method_name request_id params = JObject
    [(''id'', JNumber (PosInt request_id)), (''jsonrpc'', JString ''2.0''),
     (''method'', JString method_name), (''params'', case params of None \<Rightarrow> JNull | Some p \<Rightarrow> p)]"

text \<open>\<open>response.get("id").and_then(as_u64)\<close>.\<close>

definition response_id :: "json \<Rightarrow> u64 option" where
  "response_id v = (case v of
     JObject entries \<Rightarrow> (case map_of entries ''id'' of Some (JNumber (PosInt n)) \<Rightarrow> Some n | _ \<Rightarrow> None)
   | _ \<Rightarrow> None)"

definition handle_connection_error :: "ws_transport \<Rightarrow> ws_transport" where
  "handle_connection_error s = s\<lparr>ws_healthy := False, ws_stream := None\<rparr>"

definition should_rotate :: "'z endpoints_scheme \<Rightarrow> bool" where
  "should_rotate s \<longleftrightarrow> fallback_urls s \<noteq> []"

definition ws_rotate :: "ws_env \<Rightarrow> ws_transport \<Rightarrow> (rotation_failure + unit) \<times> ws_transport" where
  "ws_rotate env s = rotate_url (ws_timeout_connect env) ws_update_client
     (wc_max_reconnect_attempts (ws_configuration s)) s"

text \<open>What every broken connection leads to: the error, when there is nowhere to rotate to or the
  rotation fails, or another turn of the loop.\<close>

definition connection_lost :: "ws_env \<Rightarrow> string \<Rightarrow> ws_transport
    \<Rightarrow> (transport_error + json) turn \<times> ws_transport" where
  "connection_lost env msg s =
    (let s1 = handle_connection_error s in
     if \<not> should_rotate s1 then (Return (Inl (NetworkError msg None)), s1)
     else case ws_rotate env s1 of
       (Inl e, s2) \<Rightarrow> (Return (Inl (UrlRotation e)), s2)
     | (Inr _, s2) \<Rightarrow> (Continue, s2))"

text \<open>The inner loop: messages up to the response with the request's identifier, or the first
  one with none. Other responses and answered pings are skipped without limit.\<close>

partial_function (option) await_response :: "ws_env \<Rightarrow> string \<Rightarrow> u64 \<Rightarrow> ws_transport
    \<Rightarrow> ((transport_error + json) turn \<times> ws_transport) option" where
  "await_response env url request_id s =
    (let s1 = ws_tick s in
     case we_next env (ws_clock s) (wc_message_timeout (ws_configuration s)) url of
       WsText body \<Rightarrow>
         (case we_read_json env body of
            None \<Rightarrow> Some (Return (Inl (ResponseParse ''Failed to parse response'')), s1)
          | Some v \<Rightarrow>
              (case response_id v of
                 Some i \<Rightarrow> if i = request_id then Some (Return (Inr v), s1)
                   else await_response env url request_id s1
               | None \<Rightarrow> Some (Return (Inr v), s1)))
     | WsPing data \<Rightarrow>
         (case we_pong env (ws_clock s1) url data of
            Some e \<Rightarrow> Some (connection_lost env ''Failed to send pong'' (ws_tick s1))
          | None \<Rightarrow> await_response env url request_id (ws_tick s1))
     | WsOther \<Rightarrow> Some (connection_lost env ''Unexpected message type'' s1)
     | WsReadFailed e \<Rightarrow> Some (connection_lost env ''Failed to handle response'' s1))"

definition ws_turn :: "ws_env \<Rightarrow> string \<Rightarrow> json option \<Rightarrow> ws_transport
    \<Rightarrow> ((transport_error + json) turn \<times> ws_transport) option" where
  "ws_turn env method_name params s =
    (if \<not> is_connected s then Some (Return (Inl (NetworkError ''Not connected'' None)), s)
     else (case ws_stream s of
         None \<Rightarrow> Some (connection_lost env ''Not connected'' s)
       | Some url \<Rightarrow>
           (let request_id = ws_next_id s;
                s1 = (ws_tick s)\<lparr>ws_next_id := ws_next_id s + 1\<rparr> in
            case we_send env (ws_clock s) url (we_write_json env (ws_request method_name request_id params)) of
              Some e \<Rightarrow> Some (connection_lost env (''Failed to send request: '' @ e) s1)
            | None \<Rightarrow> await_response env url request_id s1)))"

partial_function (option) ws_send_raw_request :: "ws_env \<Rightarrow> string \<Rightarrow> json option \<Rightarrow> ws_transport
    \<Rightarrow> ((transport_error + json) \<times> ws_transport) option" where
  "ws_send_raw_request env method_name params s =
    Option.bind (ws_turn env method_name params s) (\<lambda>(t, s'). case t of
       Return r \<Rightarrow> Some (r, s')
     | Continue \<Rightarrow> ws_send_raw_request env method_name params s')"

lemmas [code] = await_response.simps ws_send_raw_request.simps

end
