(* ===== verification/Ws_Transport_Properties.thy ===== *)
theory Ws_Transport_Properties imports Ws_Transport begin

text \<open>
  What the WebSocket transport guarantees: the stream of a connected transport leads to its
  active endpoint and no endpoint is lost, rotation passes over the fallbacks that are down,
  a response belongs to the last request sent; and what it does not: once a request has
  failed on the connection, every later one fails.
\<close>

interpretation ws: rotating_transport "ws_timeout_connect env" ws_update_client for env
  by unfold_locales
    (auto simp: ws_timeout_connect_def ws_try_connect_def ws_update_client_def ws_tick_def
      split: if_splits ws_connect_outcome.splits)

section \<open>Attempts to connect and rotations\<close>

lemma timeout_connect_done:
  assumes "ws_timeout_connect env u s = (Inr x, s')"
  shows "ws_stream s' = Some u" "ws_healthy s'"
  using assms by (auto simp: ws_timeout_connect_def ws_try_connect_def split: if_splits ws_connect_outcome.splits)

lemma timeout_connect_failed:
  assumes "ws_timeout_connect env u s = (Inl e, s')"
  shows "ws_stream s' = ws_stream s"
  using assms by (auto simp: ws_timeout_connect_def ws_try_connect_def ws_tick_def
      split: if_splits ws_connect_outcome.splits)

lemma timeout_connect_keeps:
  assumes "ws_timeout_connect env u s = (r, s')"
  shows "ws_next_id s' = ws_next_id s" "ws_configuration s' = ws_configuration s"
    "active_url s' = active_url s" "fallback_urls s' = fallback_urls s"
  using assms by (auto simp: ws_timeout_connect_def ws_try_connect_def ws_tick_def
      split: if_splits ws_connect_outcome.splits)

lemma ws_attempts_done:
  assumes "rotate_attempts (ws_timeout_connect env) ws_update_client m current n s = (Inr (), s')"
  shows "ws_stream s' = Some (active_url s') \<and> ws_healthy s' \<and> ws_next_id s' = ws_next_id s"
  using assms
proof (induction n arbitrary: s)
  case 0
  then show ?case by simp
next
  case (Suc n)
  obtain u rest where t: "take_fallback current (fallback_urls s) = Some (u, rest)"
    using Suc.prems by (auto split: option.splits)
  obtain r s1 where c: "ws_timeout_connect env u (s\<lparr>fallback_urls := rest\<rparr>) = (r, s1)" by fastforce
  show ?case
    using Suc.prems Suc.IH t c timeout_connect_keeps [OF c] timeout_connect_done [of env u "s\<lparr>fallback_urls := rest\<rparr>"]
    by (cases r) (auto simp: ws_update_client_def)
qed

lemma ws_attempts_failed:
  assumes "rotate_attempts (ws_timeout_connect env) ws_update_client m current n s = (Inl e, s')"
  shows "ws_stream s' = ws_stream s \<and> active_url s' = active_url s
    \<and> mset (fallback_urls s') = mset (fallback_urls s)"
  using assms
proof (induction n arbitrary: s)
  case 0
  then show ?case by simp
next
  case (Suc n)
  show ?case
  proof (cases "take_fallback current (fallback_urls s)")
    case None
    then show ?thesis using Suc.prems by simp
  next
    case (Some ur)
    obtain u rest where t: "take_fallback current (fallback_urls s) = Some (u, rest)"
      using Some by (cases ur) auto
    obtain r s1 where c: "ws_timeout_connect env u (s\<lparr>fallback_urls := rest\<rparr>) = (r, s1)" by fastforce
    show ?thesis
    proof (cases r)
      case (Inl x)
      let ?s = "s1\<lparr>fallback_urls := fallback_urls s1 @ [u]\<rparr>"
      have "rotate_attempts (ws_timeout_connect env) ws_update_client m current n ?s = (Inl e, s')"
        using Suc.prems t c Inl by simp
      from Suc.IH [OF this] show ?thesis
        using timeout_connect_keeps(3,4) [OF c] timeout_connect_failed [OF c [unfolded Inl]]
          ws.take_fallback_Some(3) [OF t] by simp
    next
      case (Inr x)
      then show ?thesis
        using Suc.prems by (simp only: rotate_attempts.simps t c option.case prod.case sum.case
            ws_update_client_def Inr) simp
    qed
  qed
qed

lemmas ws_attempts_endpoints = ws.attempts_done

section \<open>A broken connection\<close>

lemma broken_sel [simp]:
  "ring (handle_connection_error s) = ring s" "ws_stream (handle_connection_error s) = None"
  "ws_next_id (handle_connection_error s) = ws_next_id s"
  "active_url (handle_connection_error s) = active_url s"
  "fallback_urls (handle_connection_error s) = fallback_urls s"
  by (simp_all add: handle_connection_error_def ring_def)

lemma tick_sel [simp]:
  "ring (ws_tick s) = ring s" "ws_stream (ws_tick s) = ws_stream s" "ws_healthy (ws_tick s) = ws_healthy s"
  "ws_next_id (ws_tick s) = ws_next_id s" "active_url (ws_tick s) = active_url s"
  "is_connected (ws_tick s) = is_connected s"
  by (simp_all add: ws_tick_def ring_def is_connected_def)

text \<open>Afterwards the transport is connected to its active endpoint and goes on, or it has no
  stream and fails.\<close>

lemma lost_cases:
  assumes "connection_lost env msg s = (t, s')"
  shows "mset (ring s') = mset (ring s)
    \<and> (t = Continue \<and> ws_stream s' = Some (active_url s') \<or>
       (\<exists>e. t = Return (Inl e)) \<and> ws_stream s' = None)"
proof (cases "should_rotate s")
  case False
  then show ?thesis using assms by (auto simp: connection_lost_def should_rotate_def)
next
  case True
  let ?s = "handle_connection_error s"
  obtain r s2 where r: "ws_rotate env ?s = (r, s2)" by fastforce
  show ?thesis
  proof (cases r)
    case (Inl e)
    then show ?thesis
      using assms True r ws_attempts_failed [where s = ?s and e = e and s' = s2]
      by (auto simp: connection_lost_def should_rotate_def ws_rotate_def rotate_url_def ring_def)
  next
    case (Inr x)
    then show ?thesis
      using assms True r ws_attempts_done [where s = ?s and s' = s2] ws_attempts_endpoints [where s = ?s and s' = s2]
      by (auto simp: connection_lost_def should_rotate_def ws_rotate_def rotate_url_def ring_def)
  qed
qed

text \<open>What one turn of the request loop leads to.\<close>

definition turn_outcome :: "u64 \<Rightarrow> ws_transport \<Rightarrow> (transport_error + json) turn \<Rightarrow> ws_transport \<Rightarrow> bool" where
  "turn_outcome i s t s' \<longleftrightarrow> mset (ring s') = mset (ring s) \<and>
    (case t of
       Continue \<Rightarrow> ws_stream s' = Some (active_url s')
     | Return (Inr v) \<Rightarrow> response_id v \<in> {None, Some i} \<and> ws_next_id s' = i + 1
         \<and> ws_stream s' = ws_stream s \<and> active_url s' = active_url s
     | Return (Inl e) \<Rightarrow> ws_stream s' = None \<or>
         ((\<exists>msg. e = ResponseParse msg) \<and> ws_stream s' = ws_stream s \<and> active_url s' = active_url s))"

lemma lost_outcome:
  assumes "connection_lost env msg s1 = (t, s')" "ring s1 = ring s"
  shows "turn_outcome i s t s'"
  using lost_cases [OF assms(1)] assms(2) by (auto simp: turn_outcome_def)

lemma await_outcome:
  assumes "await_response env url i s1 = Some (t, s')"
    and "ring s1 = ring s" "ws_stream s1 = ws_stream s" "ws_next_id s1 = i + 1"
  shows "turn_outcome i s t s'"
proof -
  have "i = i \<and> ring s1 = ring s \<and> ws_stream s1 = ws_stream s \<and> ws_next_id s1 = i + 1
      \<longrightarrow> turn_outcome i s (fst (t, s')) (snd (t, s'))"
  proof (rule await_response.raw_induct [where P = "\<lambda>env url j s1 z. j = i \<and> ring s1 = ring s
      \<and> ws_stream s1 = ws_stream s \<and> ws_next_id s1 = i + 1 \<longrightarrow> turn_outcome i s (fst z) (snd z)", OF _ assms(1)])
    fix await env url j s1 z
    assume IH: "\<And>env url j s1 z. await env url j s1 = Some z \<Longrightarrow> j = i \<and> ring s1 = ring s
        \<and> ws_stream s1 = ws_stream s \<and> ws_next_id s1 = i + 1 \<longrightarrow> turn_outcome i s (fst z) (snd z)"
      and run: "(let s1' = ws_tick s1 in
         case we_next env (ws_clock s1) (wc_message_timeout (ws_configuration s1)) url of
           WsText body \<Rightarrow>
             (case we_read_json env body of
                None \<Rightarrow> Some (Return (Inl (ResponseParse ''Failed to parse response'')), s1')
              | Some v \<Rightarrow>
                  (case response_id v of
                     Some i \<Rightarrow> if i = j then Some (Return (Inr v), s1') else await env url j s1'
                   | None \<Rightarrow> Some (Return (Inr v), s1')))
         | WsPing data \<Rightarrow>
             (case we_pong env (ws_clock s1') url data of
                Some e \<Rightarrow> Some (connection_lost env ''Failed to send pong'' (ws_tick s1'))
              | None \<Rightarrow> await env url j (ws_tick s1'))
         | WsOther \<Rightarrow> Some (connection_lost env ''Unexpected message type'' s1')
         | WsReadFailed e \<Rightarrow> Some (connection_lost env ''Failed to handle response'' s1')) = Some z"
    have lost: "turn_outcome i s (fst z) (snd z)" if "connection_lost env msg s2 = z" "ring s2 = ring s" for msg s2
      using lost_outcome [of env msg s2 "fst z" "snd z" s i] that by simp
    have same: "active_url s1 = active_url s" if "ring s1 = ring s" using that by (simp add: ring_def)
    show "j = i \<and> ring s1 = ring s \<and> ws_stream s1 = ws_stream s \<and> ws_next_id s1 = i + 1
        \<longrightarrow> turn_outcome i s (fst z) (snd z)"
    proof (intro impI, elim conjE)
      assume s1: "j = i" "ring s1 = ring s" "ws_stream s1 = ws_stream s" "ws_next_id s1 = i + 1"
      show "turn_outcome i s (fst z) (snd z)"
      proof (cases "we_next env (ws_clock s1) (wc_message_timeout (ws_configuration s1)) url")
        case (WsText body)
        show ?thesis
        proof (cases "we_read_json env body")
          case None
          then show ?thesis using run WsText s1 same by (auto simp: Let_def turn_outcome_def)
        next
          case (Some v)
          show ?thesis
          proof (cases "response_id v = None \<or> response_id v = Some i")
            case True
            then have "z = (Return (Inr v), ws_tick s1)" using run WsText Some s1(1) by (auto simp: Let_def)
            then show ?thesis using True s1 same by (auto simp: turn_outcome_def)
          next
            case False
            then obtain k where "response_id v = Some k" "k \<noteq> i" by auto
            then have "await env url j (ws_tick s1) = Some z" using run WsText Some s1(1) by (simp add: Let_def)
            then show ?thesis using IH s1 by fastforce
          qed
        qed
      next
        case (WsPing data)
        then show ?thesis
          using run s1 IH [of env url j "ws_tick (ws_tick s1)" z] lost [of "''Failed to send pong''" "ws_tick (ws_tick s1)"]
          by (cases "we_pong env (ws_clock (ws_tick s1)) url data") (auto simp: Let_def)
      next
        case WsOther
        then show ?thesis using run s1 lost [of "''Unexpected message type''" "ws_tick s1"] by (simp add: Let_def)
      next
        case (WsReadFailed e)
        then show ?thesis using run s1 lost [of "''Failed to handle response''" "ws_tick s1"] by (simp add: Let_def)
      qed
    qed
  qed
  then show ?thesis using assms by simp
qed

lemma turn_outcome_holds:
  assumes "ws_turn env m p s = Some (t, s')" "is_connected s"
  shows "turn_outcome (ws_next_id s) s t s'"
proof -
  obtain url where url: "ws_stream s = Some url" using assms(2) by (auto simp: is_connected_def)
  define s1 where "s1 = (ws_tick s)\<lparr>ws_next_id := ws_next_id s + 1\<rparr>"
  have s1: "ring s1 = ring s" "ws_stream s1 = ws_stream s" "ws_next_id s1 = ws_next_id s + 1"
    by (simp_all add: s1_def ring_def ws_tick_def)
  show ?thesis
  proof (cases "we_send env (ws_clock s) url (we_write_json env (ws_request m (ws_next_id s) p))")
    case None
    then have "await_response env url (ws_next_id s) s1 = Some (t, s')"
      using assms url by (simp add: ws_turn_def Let_def s1_def)
    then show ?thesis using await_outcome s1 by blast
  next
    case (Some e)
    then have "connection_lost env (''Failed to send request: '' @ e) s1 = (t, s')"
      using assms url by (simp add: ws_turn_def Let_def s1_def)
    then show ?thesis using lost_outcome s1(1) by blast
  qed
qed

lemma turn_disconnected:
  assumes "\<not> is_connected s"
  shows "ws_turn env m p s = Some (Return (Inl (NetworkError ''Not connected'' None)), s)"
  using assms by (simp add: ws_turn_def)

lemma ws_send_turn:
  "ws_send_raw_request env m p s = Option.bind (ws_turn env m p s) (\<lambda>(t, s'). case t of
     Return r \<Rightarrow> Some (r, s') | Continue \<Rightarrow> ws_send_raw_request env m p s')"
  by (rule ws_send_raw_request.simps)

lemma ws_send_induct [consumes 1, case_names Return Continue]:
  assumes "ws_send_raw_request env m p s = Some (r, s')"
    and "\<And>s r s'. ws_turn env m p s = Some (Return r, s') \<Longrightarrow> P s r s'"
    and "\<And>s s1 r s'. ws_turn env m p s = Some (Continue, s1) \<Longrightarrow> P s1 r s' \<Longrightarrow> P s r s'"
  shows "P s r s'"
proof -
  have "env = env \<and> m = m \<and> p = p \<longrightarrow> P s (fst (r, s')) (snd (r, s'))"
  proof (rule ws_send_raw_request.raw_induct [where P = "\<lambda>e m' p' s z. e = env \<and> m' = m \<and> p' = p
      \<longrightarrow> P s (fst z) (snd z)", OF _ assms(1)])
    fix send e m' p' s z
    assume IH: "\<And>e m' p' s z. send e m' p' s = Some z \<Longrightarrow> e = env \<and> m' = m \<and> p' = p \<longrightarrow> P s (fst z) (snd z)"
      and run: "Option.bind (ws_turn e m' p' s) (\<lambda>(t, s'). case t of
        Return r \<Rightarrow> Some (r, s') | Continue \<Rightarrow> send e m' p' s') = Some z"
    show "e = env \<and> m' = m \<and> p' = p \<longrightarrow> P s (fst z) (snd z)"
    proof (intro impI, elim conjE)
      assume [simp]: "e = env" "m' = m" "p' = p"
      obtain t s1 where t: "ws_turn env m p s = Some (t, s1)" using run by (auto simp: bind_eq_Some_conv)
      show "P s (fst z) (snd z)"
        using run IH [of env m p s1 z] assms(2,3) t by (cases t) auto
    qed
  qed
  then show ?thesis by simp
qed

section \<open>A small world\<close>

text \<open>An endpoint whose URL starts with g accepts connections; the connection breaks at the first
  message, and every later message is the response null.\<close>

definition small_ws_env :: ws_env where
  "small_ws_env = \<lparr>we_connect = (\<lambda>_ _ u. if prefix ''g'' u then WsConnected else WsRefused ''down''),
    we_elapsed = (\<lambda>_. False), we_send = (\<lambda>_ _ _. None), we_pong = (\<lambda>_ _ _. None),
    we_next = (\<lambda>t _ _. if t = 1 then WsReadFailed ''closed'' else WsText ''null''),
    we_read_json = (\<lambda>_. Some JNull), we_write_json = (\<lambda>_. '''')\<rparr>"

definition small_ws :: "string list \<Rightarrow> ws_transport" where
  "small_ws urls = \<lparr>active_url = hd urls, fallback_urls = tl urls, ws_stream = Some (hd urls),
    ws_healthy = True, ws_configuration = ws_config_default, ws_next_id = 1, ws_clock = 0\<rparr>"

section \<open>The properties\<close>

definition stream_to_active :: "ws_transport \<Rightarrow> bool" where
  "stream_to_active s \<longleftrightarrow> (is_connected s \<longrightarrow> ws_stream s = Some (active_url s))"

text \<open>A request, whatever it returns, loses and adds no endpoint, and the connection it leaves
  behind, if any, leads to the endpoint that is then active.\<close>

lemma ws_requests_keep_endpoints:
  assumes "ws_send_raw_request env method_name params s = Some (r, s')" "stream_to_active s"
  shows "mset (ring s') = mset (ring s) \<and> stream_to_active s'"
  using assms
proof (induction rule: ws_send_induct)
  case (Return s r s')
  show ?case
  proof (cases "is_connected s")
    case True
    then show ?thesis
      using turn_outcome_holds [OF Return(1) True] Return(2)
      by (auto simp: turn_outcome_def stream_to_active_def is_connected_def split: sum.splits)
  next
    case False
    then show ?thesis using Return turn_disconnected by auto
  qed
next
  case (Continue s s1 r s')
  have "is_connected s" using Continue.hyps turn_disconnected by force
  then show ?case
    using turn_outcome_holds [OF Continue.hyps(1)] Continue.IH Continue.prems
    by (auto simp: turn_outcome_def stream_to_active_def)
qed

lemma attempts_three: "rotate_attempts c u m a 3 = rotate_attempts c u m a (Suc (Suc (Suc 0)))"
  by (simp add: numeral_3_eq_3)

lemmas small_run_facts = small_ws_env_def small_ws_def ws_turn_def is_connected_def ws_tick_def
  connection_lost_def handle_connection_error_def should_rotate_def ws_rotate_def rotate_url_def
  ws_config_default_def take_fallback_def ws_timeout_connect_def ws_try_connect_def ws_update_client_def
  response_id_def Let_def attempts_three

lemma small_ws_run:
  "ws_send_raw_request small_ws_env ''m'' None (small_ws [''gone'', ''down'', ''good''])
    = Some (Inr JNull, \<lparr>active_url = ''good'', fallback_urls = [''down'', ''gone''], ws_stream = Some ''good'',
        ws_healthy = True, ws_configuration = ws_config_default, ws_next_id = 3, ws_clock = 6\<rparr>)"
proof -
  have "ws_turn small_ws_env ''m'' None (small_ws [''gone'', ''down'', ''good''])
    = Some (Continue, \<lparr>active_url = ''good'', fallback_urls = [''down'', ''gone''], ws_stream = Some ''good'',
        ws_healthy = True, ws_configuration = ws_config_default, ws_next_id = 2, ws_clock = 4\<rparr>)"
    by (simp add: small_run_facts await_response.simps)
  moreover have "ws_turn small_ws_env ''m'' None \<lparr>active_url = ''good'', fallback_urls = [''down'', ''gone''],
        ws_stream = Some ''good'', ws_healthy = True, ws_configuration = ws_config_default, ws_next_id = 2, ws_clock = 4\<rparr>
    = Some (Return (Inr JNull), \<lparr>active_url = ''good'', fallback_urls = [''down'', ''gone''], ws_stream = Some ''good'',
        ws_healthy = True, ws_configuration = ws_config_default, ws_next_id = 3, ws_clock = 6\<rparr>)"
    by (simp add: small_run_facts await_response.simps)
  ultimately show ?thesis by (subst ws_send_turn, simp, subst ws_send_turn, simp)
qed

lemma ws_requests_keep_endpoints_witness:
  "\<exists>s'. ws_send_raw_request small_ws_env ''m'' None (small_ws [''gone'', ''down'', ''good'']) = Some (Inr JNull, s')
    \<and> mset (ring s') = {#''gone'', ''down'', ''good''#} \<and> stream_to_active s'"
  using ws_requests_keep_endpoints [OF small_ws_run] small_ws_run
  by (auto simp: small_ws_def stream_to_active_def ring_def)

text \<open>Unlike the HTTP manager, the WebSocket manager passes over fallbacks that are down: if a
  fallback accepts connections and fewer than \<open>max_reconnect_attempts\<close> come before it, the
  rotation ends connected to it.\<close>

definition accepts :: "ws_env \<Rightarrow> string \<Rightarrow> bool" where
  "accepts env u \<longleftrightarrow> (\<forall>t limit. \<not> we_elapsed env t \<and> we_connect env t limit u = WsConnected)"

definition rejects :: "ws_env \<Rightarrow> string \<Rightarrow> bool" where
  "rejects env u \<longleftrightarrow> (\<forall>t limit. we_elapsed env t \<or> we_connect env t limit u \<noteq> WsConnected)"

lemma ws_rotation_skips_dead:
  assumes "ring s = active # dead @ live # rest" "active \<notin> set (dead @ [live])"
    and "\<forall>u\<in>set dead. rejects env u" "accepts env live"
    and "length dead < unat (wc_max_reconnect_attempts (ws_configuration s))"
  shows "\<exists>s'. ws_rotate env s = (Inr (), s') \<and> ring s' = live # rest @ dead @ [active]
    \<and> is_connected s' \<and> ws_stream s' = Some live"
proof -
  have "\<exists>e s'. ws_timeout_connect env u s = (Inl e, s')" if "u \<in> set dead" for u s
    using assms(3) that
    by (auto simp: rejects_def ws_timeout_connect_def ws_try_connect_def split: ws_connect_outcome.splits)
  moreover have "\<exists>s'. ws_timeout_connect env live s = (Inr (), s')" for s
    using assms(4) by (auto simp: accepts_def ws_timeout_connect_def ws_try_connect_def)
  moreover have "\<exists>s'. ws_update_client live s = (Inr (), s')" for s
    by (simp add: ws_update_client_def)
  moreover have "active_url s = active" "fallback_urls s = dead @ live # rest"
    using assms(1) by (simp_all add: ring_def)
  ultimately obtain s' where s': "rotate_attempts (ws_timeout_connect env) ws_update_client
      (wc_max_reconnect_attempts (ws_configuration s)) active
      (unat (wc_max_reconnect_attempts (ws_configuration s))) s = (Inr (), s')"
    "ring s' = live # rest @ dead @ [active]"
    using ws.attempts_reach [where dead = dead and env = env and live = live and s = s and rest = rest
        and current = active] assms(2,5) by metis
  then show ?thesis
    using ws_attempts_done [OF s'(1)] \<open>active_url s = active\<close>
    by (auto simp: ws_rotate_def rotate_url_def ring_def is_connected_def)
qed

lemma ws_rotation_skips_dead_witness:
  "\<exists>s'. ws_rotate small_ws_env (small_ws [''gone'', ''down'', ''off'', ''good'', ''other'']) = (Inr (), s')
    \<and> ring s' = [''good'', ''other'', ''down'', ''off'', ''gone''] \<and> is_connected s' \<and> ws_stream s' = Some ''good''"
  using ws_rotation_skips_dead [of "small_ws [''gone'', ''down'', ''off'', ''good'', ''other'']"
      "''gone''" "[''down'', ''off'']" "''good''" "[''other'']" small_ws_env]
  by (simp add: small_ws_def small_ws_env_def rejects_def accepts_def ring_def ws_config_default_def)

text \<open>A failed request is final: unless only the response's text did not parse, the transport
  has no stream afterwards, and every later request fails at once with Not connected,
  although its endpoints may be back; nothing connects it again.\<close>

lemma ws_failure_is_final:
  assumes "ws_send_raw_request env method_name params s = Some (Inl e, s')"
    and "\<forall>msg. e \<noteq> ResponseParse msg"
  shows "ws_send_raw_request env' method_name' params' s'
    = Some (Inl (NetworkError ''Not connected'' None), s')"
proof -
  have "r = Inl e \<longrightarrow> \<not> is_connected s'" if "ws_send_raw_request env method_name params s = Some (r, s')" for r
    using that
  proof (induction rule: ws_send_induct)
    case (Return s r s')
    show ?case
    proof (cases "is_connected s")
      case True
      then show ?thesis
        using turn_outcome_holds [OF Return True] assms(2) by (auto simp: turn_outcome_def is_connected_def)
    next
      case False
      then show ?thesis using Return turn_disconnected by auto
    qed
  qed
  then have "\<not> is_connected s'" using assms(1) by blast
  then show ?thesis by (subst ws_send_turn) (simp add: turn_disconnected)
qed

lemma ws_failure_is_final_witness:
  "accepts small_ws_env ''gone'' \<and>
   (\<exists>s'. ws_send_raw_request small_ws_env ''m'' None (small_ws [''gone'']) = Some (Inl (NetworkError ''Failed to handle response'' None), s')
     \<and> ws_send_raw_request small_ws_env ''m'' None s' = Some (Inl (NetworkError ''Not connected'' None), s'))"
proof -
  have run: "ws_send_raw_request small_ws_env ''m'' None (small_ws [''gone''])
    = Some (Inl (NetworkError ''Failed to handle response'' None), \<lparr>active_url = ''gone'', fallback_urls = [],
        ws_stream = None, ws_healthy = False, ws_configuration = ws_config_default, ws_next_id = 2, ws_clock = 2\<rparr>)"
    by (subst ws_send_turn) (simp add: small_run_facts await_response.simps)
  show ?thesis
    using ws_failure_is_final [OF run, of small_ws_env "''m''" None] run
    by (simp add: accepts_def small_ws_env_def)
qed

text \<open>The response of a successful request carries no identifier or the one of the last
  request sent, so a late answer to an earlier request is never taken for it.\<close>

lemma ws_response_matches_request:
  assumes "ws_send_raw_request env method_name params s = Some (Inr v, s')"
  shows "response_id v = None \<or> response_id v = Some (ws_next_id s' - 1)"
proof -
  have "r = Inr v \<longrightarrow> response_id v = None \<or> response_id v = Some (ws_next_id s' - 1)"
    if "ws_send_raw_request env method_name params s = Some (r, s')" for r
    using that
  proof (induction rule: ws_send_induct)
    case (Return s r s')
    show ?case
    proof (cases "is_connected s")
      case True
      then show ?thesis using turn_outcome_holds [OF Return True] by (auto simp: turn_outcome_def)
    next
      case False
      then show ?thesis using Return turn_disconnected by auto
    qed
  qed
  then show ?thesis using assms by blast
qed

lemma ws_response_matches_request_witness:
  "\<exists>v s'. ws_send_raw_request small_ws_env ''m'' None (small_ws [''gone'', ''down'', ''good'']) = Some (Inr v, s')
    \<and> (response_id v = None \<or> response_id v = Some (ws_next_id s' - 1))"
  using small_ws_run ws_response_matches_request [OF small_ws_run] by blast

end
