(* ===== verification/Expression_Parser_Properties.thy ===== *)
theory Expression_Parser_Properties imports Expression_Parser begin

text \<open>
  The expression parser against the grammar it implements: which syntax trees it can produce,
  a printer for them, and that parsing a printed tree gives it back; the precedence and
  grouping of the logical operators; and that the bound on the nesting is never reached.
\<close>

section \<open>Combinators on concrete texts\<close>

named_theorems parser_simps

declare bind_p_def [parser_simps] return_p_def [parser_simps] fail_p_def [parser_simps] map_p_def [parser_simps]
  alt_p_def [parser_simps] verify_p_def [parser_simps] opt_p_def [parser_simps] blanks_then_def [parser_simps]
  spaced_def [parser_simps]

lemma literal_p_simps [parser_simps]:
  "literal_p [] s = Some ((), s)"
  "literal_p (c # t) [] = None"
  "literal_p (c # t) (d # s) = (if c = d then literal_p t s else None)"
  by (auto simp: literal_p_def)

lemma caseless_p_simps [parser_simps]:
  "caseless_p [] s = Some ((), s)"
  "caseless_p (c # t) [] = None"
  "caseless_p (c # t) (d # s) = (if lower_char d = lower_char c then caseless_p t s else None)"
  by (auto simp: caseless_p_def to_lowercase_def)

lemma one_of_p_simps [parser_simps]:
  "one_of_p P [] = None"
  "one_of_p P (c # s) = (if P c then Some (c, s) else None)"
  by (auto simp: one_of_p_def)

definition stops :: "(char \<Rightarrow> bool) \<Rightarrow> string \<Rightarrow> bool" where
  "stops P s \<longleftrightarrow> (case s of [] \<Rightarrow> True | c # _ \<Rightarrow> \<not> P c)"

lemma stops_simps [simp]: "stops P []" "stops P (c # s) \<longleftrightarrow> \<not> P c"
  by (simp_all add: stops_def)

lemma take_while0_append:
  assumes "list_all P t" "stops P r"
  shows "take_while0 P (t @ r) = Some (t, r)"
  using assms by (cases r) (auto simp: take_while0_def list_all_iff takeWhile_append dropWhile_append)

lemma take_while1_append:
  assumes "list_all P t" "t \<noteq> []" "stops P r"
  shows "take_while1 P (t @ r) = Some (t, r)"
  using assms by (simp add: take_while1_def parser_simps take_while0_append)

lemma take_while1_none:
  assumes "stops P r"
  shows "take_while1 P r = None"
  using assms by (cases r) (simp_all add: take_while1_def parser_simps take_while0_def)

lemma taken_append:
  assumes "p (t @ r) = Some (x, r)"
  shows "taken p (t @ r) = Some (t, r)"
  using assms by (simp add: taken_def)

lemma skip_blanks_none:
  assumes "stops is_blank s"
  shows "skip_blanks s = s"
  using assms by (cases s) (simp_all add: skip_blanks_def)

lemma skip_blanks_idem [simp]: "skip_blanks (skip_blanks s) = skip_blanks s"
  by (simp add: skip_blanks_def)

lemma skip_blanks_Nil [simp]: "skip_blanks [] = []"
  by (simp add: skip_blanks_def)

lemma skip_blanks_space [simp]: "skip_blanks (CHR '' '' # s) = skip_blanks s"
  by (simp add: skip_blanks_def is_blank_def)

section \<open>The grammar's trees and their texts\<close>

definition name_char :: "char \<Rightarrow> bool" where
  "name_char c \<longleftrightarrow> is_alphanum c \<or> c = CHR ''_''"

definition is_ident :: "string \<Rightarrow> bool" where
  "is_ident s \<longleftrightarrow> (case s of [] \<Rightarrow> False | c # cs \<Rightarrow> (is_alpha c \<or> c = CHR ''_'') \<and> list_all name_char cs)"

definition is_digits :: "string \<Rightarrow> bool" where
  "is_digits s \<longleftrightarrow> s \<noteq> [] \<and> list_all is_digit s"

definition base_ok :: "string \<Rightarrow> bool" where
  "base_ok s \<longleftrightarrow> (is_ident s \<or> is_digits s) \<and> \<not> is_keyword s"

fun accessor_ok :: "accessor \<Rightarrow> bool" where
  "accessor_ok (AIndex n) \<longleftrightarrow> int n < 2 ^ 64"
| "accessor_ok (AKey k) \<longleftrightarrow> is_ident k \<or> is_digits k"

fun left_ok :: "condition_left \<Rightarrow> bool" where
  "left_ok (Simple b) \<longleftrightarrow> base_ok b"
| "left_ok (Path p) \<longleftrightarrow> base_ok (vp_base p) \<and> vp_accessors p \<noteq> [] \<and> list_all accessor_ok (vp_accessors p)"

definition unsigned_part :: "string \<Rightarrow> string" where
  "unsigned_part s = (case s of c # cs \<Rightarrow> if c = CHR ''+'' \<or> c = CHR ''-'' then cs else s | [] \<Rightarrow> [])"

definition number_ok :: "string \<Rightarrow> bool" where
  "number_ok s \<longleftrightarrow> (let t = unsigned_part s; i = takeWhile is_digit t; f = dropWhile is_digit t in
     i \<noteq> [] \<and> (f = [] \<or> hd f = CHR ''.'' \<and> is_digits (tl f)))"

text \<open>The text of a string literal keeps its escapes; it can stand between quotes of one kind.\<close>

fun quotable :: "char \<Rightarrow> string \<Rightarrow> bool" where
  "quotable q [] = True"
| "quotable q (c # cs) = (if c = backslash
     then (case cs of d # ds \<Rightarrow> (d = q \<or> d = backslash) \<and> quotable q ds | [] \<Rightarrow> False)
     else c \<noteq> q \<and> quotable q cs)"

fun value_ok :: "literal_value \<Rightarrow> bool" where
  "value_ok (LBool b) = True"
| "value_ok (LNumber s) = number_ok s"
| "value_ok (LStr s) \<longleftrightarrow> quotable single_quote s \<or> quotable double_quote s"

fun expression_ok :: "expression \<Rightarrow> bool" where
  "expression_ok (Condition c) \<longleftrightarrow> left_ok (cond_left c) \<and> value_ok (cond_right c)"
| "expression_ok (Logical l op r) \<longleftrightarrow> expression_ok l \<and> expression_ok r"

fun print_accessor :: "accessor \<Rightarrow> string" where
  "print_accessor (AIndex n) = ''['' @ show_nat n @ '']''"
| "print_accessor (AKey k) = ''.'' @ k"

definition print_left :: "condition_left \<Rightarrow> string" where
  "print_left l = base_name l @ concat (map print_accessor (accessors_of l))"

fun print_operator :: "comparison_operator \<Rightarrow> string" where
  "print_operator OpEq = ''==''"
| "print_operator OpNe = ''!=''"
| "print_operator OpGt = ''>''"
| "print_operator OpGte = ''>=''"
| "print_operator OpLt = ''<''"
| "print_operator OpLte = ''<=''"
| "print_operator OpStartsWith = ''starts_with''"
| "print_operator OpEndsWith = ''ends_with''"
| "print_operator OpContains = ''contains''"

definition quote_for :: "string \<Rightarrow> char" where
  "quote_for s = (if quotable single_quote s then single_quote else double_quote)"

fun print_value :: "literal_value \<Rightarrow> string" where
  "print_value (LBool b) = show_bool b"
| "print_value (LNumber s) = s"
| "print_value (LStr s) = quote_for s # s @ [quote_for s]"

definition print_condition :: "condition \<Rightarrow> string" where
  "print_condition c = print_left (cond_left c) @ '' '' @ print_operator (cond_operator c)
     @ '' '' @ print_value (cond_right c)"

fun print_logical :: "logical_operator \<Rightarrow> string" where
  "print_logical LAnd = ''AND''"
| "print_logical LOr = ''OR''"

definition parens :: "expression \<Rightarrow> string \<Rightarrow> string" where
  "parens e s = (case e of Condition _ \<Rightarrow> s | Logical _ _ _ \<Rightarrow> ''('' @ s @ '')'')"

fun print_expression :: "expression \<Rightarrow> string" where
  "print_expression (Condition c) = print_condition c"
| "print_expression (Logical l op r) = parens l (print_expression l) @ '' '' @ print_logical op
     @ '' '' @ parens r (print_expression r)"

section \<open>Literals\<close>

text \<open>What may follow a value or a term in a printed expression.\<close>

definition rest_ok :: "string \<Rightarrow> bool" where
  "rest_ok r \<longleftrightarrow> (case r of [] \<Rightarrow> True | c # _ \<Rightarrow> c = CHR '' '' \<or> c = CHR '')'')"

lemma rest_ok_cases:
  assumes "rest_ok r"
  obtains "r = []" | s where "r = CHR '' '' # s" | s where "r = CHR '')'' # s"
  using assms by (cases r) (auto simp: rest_ok_def)

lemma rest_ok_delimited:
  assumes "rest_ok r"
  shows "peek_delimiter r = Some ((), r)"
  using assms by (rule rest_ok_cases) (auto simp: peek_delimiter_def delimited_here_def is_blank_def common_delimiters_def)

lemma char_classes:
  "is_digit c \<Longrightarrow> is_alphanum c" "is_alpha c \<Longrightarrow> is_alphanum c"
  "\<not> is_digit CHR '' ''" "\<not> is_digit CHR '')''" "\<not> is_digit CHR ''.''" "\<not> is_digit CHR '']''"  "\<not> is_digit CHR ''[''"
  "\<not> is_alphanum CHR '' ''" "\<not> is_alphanum CHR '')''" "\<not> is_alphanum CHR ''.''" "\<not> is_alphanum CHR ''[''"
  "\<not> is_digit CHR ''+''" "\<not> is_digit CHR ''-''" "\<not> is_digit single_quote" "\<not> is_digit double_quote"
  "\<not> is_digit CHR ''t''" "\<not> is_digit CHR ''f''" "\<not> is_digit CHR ''x''" "\<not> is_digit CHR ''X''" "\<not> is_digit CHR ''_''"
  by (auto simp: is_alphanum_def is_alpha_def is_upper_def is_lower_def is_digit_def char_code_def)

lemma rest_ok_stops:
  assumes "rest_ok r"
  shows "stops is_digit r" "stops name_char r"
  using assms by (rule rest_ok_cases; simp add: char_classes name_char_def)+

lemma parse_printed_bool:
  assumes "rest_ok r"
  shows "parse_boolean (show_bool b @ r) = Some (LBool b, r)"
  using rest_ok_delimited [OF assms]
  by (cases b) (simp_all add: parse_boolean_def show_bool_def parser_simps)

lemma number_parts:
  "number_ok n \<longleftrightarrow> (\<exists>sg i f. n = sg @ i @ f \<and> sg \<in> {[], ''+'', ''-''} \<and> is_digits i
     \<and> (f = [] \<or> (\<exists>d. f = CHR ''.'' # d \<and> is_digits d)))" (is "?l \<longleftrightarrow> ?r")
proof
  assume n: ?l
  define t i f where "t = unsigned_part n" and "i = takeWhile is_digit t" and "f = dropWhile is_digit t"
  have "t = i @ f" by (simp add: i_def f_def)
  moreover have "is_digits i" "f = [] \<or> (\<exists>d. f = CHR ''.'' # d \<and> is_digits d)"
  proof -
    have "i \<noteq> []" and f: "f = [] \<or> hd f = CHR ''.'' \<and> is_digits (tl f)"
      using n by (simp_all add: number_ok_def Let_def t_def i_def f_def)
    moreover have "list_all is_digit i" unfolding i_def list_all_iff by (blast dest: set_takeWhileD)
    ultimately show "is_digits i" by (simp add: is_digits_def)
    show "f = [] \<or> (\<exists>d. f = CHR ''.'' # d \<and> is_digits d)"
      using f by (cases f) simp_all
  qed
  moreover have "n = t \<or> n = CHR ''+'' # t \<or> n = CHR ''-'' # t"
    by (auto simp: t_def unsigned_part_def split: list.splits)
  ultimately have "n = [] @ i @ f \<or> n = ''+'' @ i @ f \<or> n = ''-'' @ i @ f" by simp
  then obtain sg where "n = sg @ i @ f" "sg \<in> {[], ''+'', ''-''}" by blast
  then show ?r
    using \<open>is_digits i\<close> \<open>f = [] \<or> (\<exists>d. f = CHR ''.'' # d \<and> is_digits d)\<close> by blast
next
  assume ?r
  then obtain sg i f where n: "n = sg @ i @ f" "sg \<in> {[], ''+'', ''-''}" "is_digits i"
    and f: "f = [] \<or> (\<exists>d. f = CHR ''.'' # d \<and> is_digits d)" by blast
  obtain c cs where i: "i = c # cs" "is_digit c" using n(3) by (cases i) (auto simp: is_digits_def)
  have u: "unsigned_part n = i @ f"
    using n i is_digit_not_sign [OF i(2)] by (auto simp: unsigned_part_def)
  have "takeWhile is_digit (i @ f) = i" "dropWhile is_digit (i @ f) = f"
    using n(3) f by (auto simp: is_digits_def list_all_iff takeWhile_append dropWhile_append char_classes)
  then show ?l using u f i by (auto simp: number_ok_def Let_def)
qed

lemma digits_head:
  assumes "is_digits i"
  obtains c cs where "i = c # cs" "is_digit c"
  using assms by (cases i) (auto simp: is_digits_def)

lemma fraction_parsed:
  assumes "f = [] \<or> (\<exists>d. f = CHR ''.'' # d \<and> is_digits d)" "rest_ok r"
  shows "\<exists>x. opt_p (bind_p (literal_p ''.'') (\<lambda>_. take_while1 is_digit)) (f @ r) = Some (x, r)"
proof (cases "f = []")
  case True
  then show ?thesis using assms(2) by (auto simp: parser_simps elim!: rest_ok_cases)
next
  case False
  then obtain d where "f = CHR ''.'' # d" "is_digits d" using assms(1) by auto
  then show ?thesis
    using take_while1_append [of is_digit d r] rest_ok_stops(1) [OF assms(2)]
    by (simp add: parser_simps is_digits_def)
qed

lemma parse_printed_number:
  assumes "number_ok n" "rest_ok r"
  shows "parse_number_or_fixed_str (n @ r) = Some (LNumber n, r)"
proof -
  obtain sg i f where n: "n = sg @ i @ f" "sg \<in> {[], ''+'', ''-''}" "is_digits i"
    and f: "f = [] \<or> (\<exists>d. f = CHR ''.'' # d \<and> is_digits d)" using assms(1) number_parts by blast
  obtain c cs where i: "i = c # cs" "is_digit c" using n(3) by (rule digits_head)
  have "stops is_digit (f @ r)" using f rest_ok_stops(1) [OF assms(2)] by (auto simp: char_classes)
  then have d: "take_while1 is_digit (i @ f @ r) = Some (i, f @ r)"
    using n(3) by (intro take_while1_append) (auto simp: is_digits_def)
  have s: "\<exists>x. opt_p (one_of_p (\<lambda>c. c = CHR ''+'' \<or> c = CHR ''-'')) (n @ r) = Some (x, i @ f @ r)"
    using n(1,2) i is_digit_not_sign [OF i(2)] by (auto simp: parser_simps)
  obtain x y where x: "opt_p (one_of_p (\<lambda>c. c = CHR ''+'' \<or> c = CHR ''-'')) (n @ r) = Some (x, i @ f @ r)"
    and y: "opt_p (bind_p (literal_p ''.'') (\<lambda>_. take_while1 is_digit)) (f @ r) = Some (y, r)"
    using s fraction_parsed [OF f assms(2)] by blast
  show ?thesis
    unfolding parse_number_or_fixed_str_def map_p_def bind_p_def
    by (subst taken_append [where x = "()"])
      (simp_all add: x [unfolded bind_p_def] y [unfolded bind_p_def] d rest_ok_delimited [OF assms(2)] return_p_def)
qed

lemma number_not_prefixed:
  assumes "number_ok n" "rest_ok r"
  shows "literal_p ''0x'' (n @ r) = None" "literal_p ''0X'' (n @ r) = None"
    "literal_p ''true'' (n @ r) = None" "literal_p ''false'' (n @ r) = None"
    "one_of_p (\<lambda>c. c = single_quote \<or> c = double_quote) (n @ r) = None"
    "stops is_blank (n @ r)"
proof -
  obtain sg i f where n: "n = sg @ i @ f" "sg \<in> {[], ''+'', ''-''}" "is_digits i"
    and f: "f = [] \<or> (\<exists>d. f = CHR ''.'' # d \<and> is_digits d)" using assms(1) number_parts by blast
  obtain c cs where i: "i = c # cs" "is_digit c" "list_all is_digit cs"
    using n(3) by (cases i) (auto simp: is_digits_def)
  have c: "c \<noteq> CHR ''t''" "c \<noteq> CHR ''f''" "c \<noteq> single_quote" "c \<noteq> double_quote" "\<not> is_blank c"
    using i(2) by (auto simp: char_classes is_blank_def is_digit_def char_code_def)
  show "literal_p ''true'' (n @ r) = None" "literal_p ''false'' (n @ r) = None"
    "one_of_p (\<lambda>c. c = single_quote \<or> c = double_quote) (n @ r) = None" "stops is_blank (n @ r)"
    using n i c by (auto simp: parser_simps is_blank_def)
  have x: "\<exists>d s. cs @ f @ r = d # s \<and> d \<noteq> CHR ''x'' \<and> d \<noteq> CHR ''X'' \<or> cs @ f @ r = []"
    using i(3) f assms(2) by (cases cs) (auto simp: char_classes elim!: rest_ok_cases)
  then show "literal_p ''0x'' (n @ r) = None" "literal_p ''0X'' (n @ r) = None"
    using n i by (auto simp: parser_simps)
qed

lemma repeat_fold_stop:
  assumes "p s = None"
  shows "repeat_fold p f acc s = Some (acc, s)"
  using assms by (simp add: repeat_fold.simps)

lemma repeat_fold_step:
  assumes "p s = Some (x, r)" "length r < length s"
  shows "repeat_fold p f acc s = repeat_fold p f (f acc x) r"
  using assms by (simp add: repeat_fold.simps)

lemma quotable_dropWhile:
  assumes "quotable q s"
  shows "quotable q (dropWhile (\<lambda>c. c \<noteq> q \<and> c \<noteq> backslash) s)"
  using assms by (induction s) auto

lemma quoted_content:
  assumes "quotable q s" "q \<noteq> backslash"
  shows "repeat_fold (character_or_escape q) (\<lambda>_ _. ()) () (s @ q # r) = Some ((), q # r)"
  using assms(1)
proof (induction "length s" arbitrary: s rule: less_induct)
  case less
  let ?P = "\<lambda>c. c \<noteq> q \<and> c \<noteq> backslash"
  show ?case
  proof (cases s)
    case Nil
    then show ?thesis
      using assms(2)
      by (simp add: repeat_fold_stop character_or_escape_def parser_simps take_while1_none [where P = ?P])
  next
    case (Cons c cs)
    show ?thesis
    proof (cases "c = backslash")
      case True
      then obtain d ds where d: "cs = d # ds" "d = q \<or> d = backslash" "quotable q ds"
        using less.prems Cons by (cases cs) auto
      have "character_or_escape q (s @ q # r) = Some ((), ds @ q # r)"
        using Cons True d by (simp add: character_or_escape_def parser_simps)
      then show ?thesis
        using less.hyps [of ds] d Cons by (subst repeat_fold_step) auto
    next
      case False
      let ?t = "takeWhile ?P s" and ?u = "dropWhile ?P s"
      have t: "?t \<noteq> []" "list_all ?P ?t" using less.prems Cons False
        by (auto simp: list_all_iff dest: set_takeWhileD)
      have u: "?u = [] \<or> \<not> ?P (hd ?u)" using hd_dropWhile [of ?P s] by blast
      have "stops ?P (u @ q # r)" if "u = [] \<or> \<not> ?P (hd u)" for u
        using that by (cases u) auto
      then have "stops ?P (?u @ q # r)" using u by blast
      then have "take_while1 ?P (?t @ (?u @ q # r)) = Some (?t, ?u @ q # r)"
        using t by (intro take_while1_append) auto
      moreover have e: "?t @ (?u @ q # r) = s @ q # r" by (simp flip: append_assoc)
      ultimately have "take_while1 ?P (s @ q # r) = Some (?t, ?u @ q # r)" by (simp only: e)
      then have "character_or_escape q (s @ q # r) = Some ((), ?u @ q # r)"
        using Cons False by (simp add: character_or_escape_def parser_simps)
      moreover have "length ?u < length s"
        using t(1) by (metis length_append length_greater_0_conv less_add_same_cancel2 takeWhile_dropWhile_id)
      ultimately show ?thesis
        using less.hyps [of ?u] quotable_dropWhile [OF less.prems] by (subst repeat_fold_step) auto
    qed
  qed
qed

lemma parse_printed_string:
  assumes "quotable q s" "q = single_quote \<or> q = double_quote"
  shows "parse_quoted_string (q # s @ q # r) = Some (LStr s, r)"
proof -
  have "q \<noteq> backslash" using assms(2) by auto
  then have "taken (repeat_fold (character_or_escape q) (\<lambda>_ _. ()) ()) (s @ q # r) = Some (s, q # r)"
    using quoted_content [OF assms(1)] by (intro taken_append)
  then show ?thesis using assms(2) by (simp add: parse_quoted_string_def parser_simps)
qed

lemma parse_printed_value:
  assumes "value_ok v" "rest_ok r"
  shows "parse_value (print_value v @ r) = Some (v, skip_blanks r)" "stops is_blank (print_value v @ r)"
proof -
  have "stops is_blank (print_value v @ r) \<and> parse_value (print_value v @ r) = Some (v, skip_blanks r)"
  proof (cases v)
    case (LBool b)
    have "stops is_blank (show_bool b @ r)" by (simp add: show_bool_def is_blank_def)
    moreover have "parse_quoted_string (show_bool b @ r) = None"
      by (cases b) (simp_all add: parse_quoted_string_def parser_simps show_bool_def)
    ultimately show ?thesis
      using LBool parse_printed_bool [OF assms(2), of b]
      by (simp add: parse_value_def parser_simps skip_blanks_none)
  next
    case (LNumber n)
    then have n: "number_ok n" using assms(1) by simp
    note no = number_not_prefixed [OF n assms(2)]
    have "parse_quoted_string (n @ r) = None" "parse_boolean (n @ r) = None" "parse_hex_string (n @ r) = None"
      using no by (simp_all add: parse_quoted_string_def parse_boolean_def parse_hex_string_def taken_def parser_simps)
    then show ?thesis
      using LNumber no(6) parse_printed_number [OF n assms(2)]
      by (simp add: parse_value_def parser_simps skip_blanks_none)
  next
    case (LStr s)
    have q: "quotable (quote_for s) s" "quote_for s = single_quote \<or> quote_for s = double_quote"
      using assms(1) LStr by (auto simp: quote_for_def)
    moreover have "\<not> is_blank (quote_for s)" using q(2) by (auto simp: is_blank_def)
    ultimately show ?thesis
      using LStr parse_printed_string [OF q, of r]
      by (simp add: parse_value_def parser_simps skip_blanks_none)
  qed
  then show "parse_value (print_value v @ r) = Some (v, skip_blanks r)" "stops is_blank (print_value v @ r)"
    by simp_all
qed

section \<open>Variables\<close>

lemma parse_ident:
  assumes "is_ident s" "stops name_char r"
  shows "identifier_p (s @ r) = Some (s, r)"
proof -
  obtain c cs where s: "s = c # cs" "is_alpha c \<or> c = CHR ''_''" "list_all name_char cs"
    using assms(1) by (auto simp: is_ident_def split: list.splits)
  have "take_while0 name_char (cs @ r) = Some (cs, r)" using s(3) assms(2) by (rule take_while0_append)
  then have "take_while0 (\<lambda>c. is_alphanum c \<or> c = CHR ''_'') (cs @ r) = Some (cs, r)"
    by (simp add: name_char_def [abs_def])
  then show ?thesis
    unfolding identifier_p_def using s by (intro taken_append [where x = cs]) (simp add: parser_simps)
qed

lemma digits_not_ident:
  assumes "is_digits s"
  shows "identifier_p (s @ r) = None"
proof -
  obtain c cs where "s = c # cs" "is_digit c" using assms by (rule digits_head)
  moreover have "\<not> is_alpha c \<and> c \<noteq> CHR ''_''"
    using \<open>is_digit c\<close> by (auto simp: is_alpha_def is_upper_def is_lower_def is_digit_def char_code_def)
  ultimately show ?thesis by (simp add: identifier_p_def taken_def parser_simps)
qed

lemma parse_digits:
  assumes "is_digits s" "stops is_digit r"
  shows "take_while1 is_digit (s @ r) = Some (s, r)"
  using assms by (intro take_while1_append) (auto simp: is_digits_def)

text \<open>What may follow the base and every accessor of a printed variable.\<close>

definition path_rest :: "string \<Rightarrow> bool" where
  "path_rest r \<longleftrightarrow> (case r of [] \<Rightarrow> False | c # _ \<Rightarrow> c = CHR '' '' \<or> c = CHR ''['' \<or> c = CHR ''.'')"

lemma path_rest_facts:
  assumes "path_rest r"
  shows "stops name_char r" "stops is_digit r" "peek_after_key r = Some ((), r)"
    "peek_after_numeric_base r = Some ((), r)"
  using assms by (cases r; auto simp: path_rest_def name_char_def char_classes peek_after_key_def
      peek_after_numeric_base_def is_blank_def)+

lemma path_rest_accessors:
  "path_rest (concat (map print_accessor as) @ CHR '' '' # r)"
proof (cases as)
  case (Cons a as')
  then show ?thesis by (cases a) (simp_all add: path_rest_def)
qed (simp add: path_rest_def)

lemma digits_value_int: "foldl (\<lambda>a c. 10 * a + int (digit_val c)) (int n) ds = int (foldl (\<lambda>a c. 10 * a + digit_val c) n ds)"
proof (induction ds arbitrary: n)
  case (Cons d ds)
  have "10 * int n + int (digit_val d) = int (10 * n + digit_val d)" by simp
  then show ?case using Cons.IH [of "10 * n + digit_val d"] by simp
qed simp

lemma usize_show_nat:
  assumes "int n < 2 ^ 64"
  shows "usize_of_digits (show_nat n) = Some n"
  using assms digits_value_int [of 0 "show_nat n"]
  by (simp add: usize_of_digits_def Let_def flip: digits_value_def)

lemma show_nat_is_digits: "is_digits (show_nat n)"
  by (simp add: is_digits_def show_nat_nonempty show_nat_digits)

lemma parse_printed_accessor:
  assumes "accessor_ok a" "path_rest r"
  shows "parse_accessor (print_accessor a @ r) = Some (a, r)"
proof (cases a)
  case (AIndex n)
  have "take_while1 is_digit (show_nat n @ CHR '']'' # r) = Some (show_nat n, CHR '']'' # r)"
    using show_nat_is_digits by (intro parse_digits) (simp_all add: char_classes)
  then show ?thesis
    using AIndex assms(1) usize_show_nat [of n] by (simp add: parse_accessor_def index_parser_def parser_simps)
next
  case (AKey k)
  have "alt_p identifier_p (take_while1 is_digit) (k @ r) = Some (k, r)"
    using assms AKey parse_ident [of k r] digits_not_ident [of k r] parse_digits [of k r] path_rest_facts [OF assms(2)]
    by (auto simp: parser_simps)
  then show ?thesis
    using AKey path_rest_facts(3) [OF assms(2)]
    by (simp add: parse_accessor_def index_parser_def key_parser_def parser_simps)
qed

lemma accessor_nonempty: "length r < length (print_accessor a @ r)"
  by (cases a) simp_all

lemma parse_printed_accessors:
  assumes "list_all accessor_ok as"
  shows "repeat_fold parse_accessor (\<lambda>as a. as @ [a]) acc (concat (map print_accessor as) @ CHR '' '' # r)
    = Some (acc @ as, CHR '' '' # r)"
  using assms
proof (induction as arbitrary: acc)
  case Nil
  have "parse_accessor (CHR '' '' # r) = None"
    by (simp add: parse_accessor_def index_parser_def key_parser_def parser_simps)
  then show ?case by (simp add: repeat_fold_stop)
next
  case (Cons a as)
  let ?r = "concat (map print_accessor as) @ CHR '' '' # r"
  have "parse_accessor (print_accessor a @ ?r) = Some (a, ?r)"
    using Cons.prems path_rest_accessors by (intro parse_printed_accessor) auto
  then show ?case
    using Cons accessor_nonempty [of ?r a] by (simp add: repeat_fold_step [where r = ?r])
qed

lemma parse_printed_base:
  assumes "base_ok b" "path_rest r"
  shows "parse_base_variable_name (b @ r) = Some (b, r)"
proof -
  have "taken (bind_p (take_while1 is_digit) (\<lambda>_. peek_after_numeric_base)) (b @ r) = Some (b, r)" if "is_digits b"
    using parse_digits [OF that path_rest_facts(2) [OF assms(2)]] path_rest_facts(4) [OF assms(2)]
    by (intro taken_append [where x = "()"]) (simp add: parser_simps)
  then show ?thesis
    using assms parse_ident [of b r] digits_not_ident [of b r] path_rest_facts(1) [OF assms(2)]
    by (auto simp: parse_base_variable_name_def parser_simps base_ok_def)
qed

lemma parse_printed_left:
  assumes "left_ok l"
  shows "parse_condition_lhs (print_left l @ CHR '' '' # r) = Some (l, CHR '' '' # r)"
proof (cases l)
  case (Simple b)
  have "parse_base_variable_name (b @ CHR '' '' # r) = Some (b, CHR '' '' # r)"
    using assms Simple by (intro parse_printed_base) (auto simp: path_rest_def)
  then show ?thesis
    using Simple parse_printed_accessors [of "[]" "[]" r]
    by (simp add: parse_condition_lhs_def parser_simps print_left_def)
next
  case (Path p)
  let ?r = "concat (map print_accessor (vp_accessors p)) @ CHR '' '' # r"
  have "parse_base_variable_name (vp_base p @ ?r) = Some (vp_base p, ?r)"
    using assms Path path_rest_accessors by (intro parse_printed_base) auto
  then show ?thesis
    using Path assms parse_printed_accessors [of "vp_accessors p" "[]" r]
    by (simp add: parse_condition_lhs_def parser_simps print_left_def)
qed

lemma left_first_char:
  assumes "left_ok l"
  obtains c cs where "print_left l = c # cs" "\<not> is_blank c" "c \<noteq> CHR ''(''"
proof -
  have "base_ok (base_name l)" using assms by (cases l) auto
  then obtain c cs where "base_name l = c # cs" "name_char c"
    by (cases "base_name l") (auto simp: base_ok_def is_ident_def is_digits_def name_char_def is_alphanum_def)
  moreover have "\<not> is_blank c \<and> c \<noteq> CHR ''(''"
    using \<open>name_char c\<close>
    by (auto simp: name_char_def is_alphanum_def is_alpha_def is_upper_def is_lower_def is_digit_def is_blank_def char_code_def)
  ultimately show ?thesis using that by (simp add: print_left_def)
qed

section \<open>Conditions\<close>

lemma lower_chars:
  "lower_char CHR ''>'' = CHR ''>''" "lower_char CHR ''<'' = CHR ''<''" "lower_char CHR ''='' = CHR ''=''"
  "lower_char CHR ''!'' = CHR ''!''" "lower_char CHR '')'' = CHR '')''" "lower_char CHR ''c'' = CHR ''c''" "lower_char CHR ''s'' = CHR ''s''"
  "lower_char CHR ''e'' = CHR ''e''"
  by (simp_all add: lower_char_def is_upper_def char_code_def)

lemma upper_chars:
  "lower_char CHR ''A'' = CHR ''a''" "lower_char CHR ''O'' = CHR ''o''"
  by code_simp+

lemma parse_printed_operator:
  assumes "stops is_blank r"
  shows "parse_comparison_operator (CHR '' '' # print_operator op @ CHR '' '' # r) = Some (op, r)"
proof -
  have "first_of operator_table (print_operator op @ CHR '' '' # r) = Some (op, CHR '' '' # r)"
    by (cases op) (simp_all add: operator_table_def parser_simps lower_chars)
  moreover have "skip_blanks (print_operator op @ CHR '' '' # r) = print_operator op @ CHR '' '' # r"
    by (cases op) (simp_all add: skip_blanks_none is_blank_def)
  ultimately show ?thesis
    using assms by (simp add: parse_comparison_operator_def spaced_def skip_blanks_none)
qed

lemma parse_printed_condition:
  assumes "left_ok (cond_left c)" "value_ok (cond_right c)" "rest_ok r"
  shows "parse_condition (print_condition c @ r) = Some (Condition c, skip_blanks r)"
  using parse_printed_left [OF assms(1)] parse_printed_value [OF assms(2,3)]
    parse_printed_operator [of "print_value (cond_right c) @ r" "cond_operator c"]
  by (simp add: parse_condition_def print_condition_def parser_simps)

section \<open>Chains of operands\<close>

definition operand :: "expression \<Rightarrow> string" where
  "operand e = parens e (print_expression e)"

definition chain_of :: "logical_operator \<Rightarrow> expression list \<Rightarrow> expression" where
  "chain_of op es = foldl (\<lambda>a e. Logical a op e) (hd es) (tl es)"

definition chain_text :: "logical_operator \<Rightarrow> string list \<Rightarrow> string" where
  "chain_text op ts = join_with ('' '' @ print_logical op @ '' '') ts"

lemma join_with_Cons: "join_with sep (t # ts) = t @ concat (map (\<lambda>u. sep @ u) ts)"
  by (induction ts arbitrary: t) simp_all

lemma logical_operator_next:
  assumes "stops is_blank r"
  shows "logical_operator_p (print_logical op) op (print_logical op @ CHR '' '' # r) = Some (op, r)"
  using assms
  by (cases op) (simp_all add: logical_operator_p_def parser_simps skip_blanks_none is_blank_def)

lemma rest_ok_space: "rest_ok (CHR '' '' # r)"
  by (simp add: rest_ok_def)

text \<open>An operand parser \<open>p\<close> that reads every text \<open>f x\<close> reads chains of them, up to what follows.\<close>

lemma parse_chain_texts:
  assumes p: "\<And>x r. x \<in> set (x0 # xs) \<Longrightarrow> follow r \<Longrightarrow> p (f x @ r) = Some (g x, skip_blanks r)"
    and follow: "\<And>x r. x \<in> set xs \<Longrightarrow> follow (CHR '' '' # print_logical op @ CHR '' '' # f x @ r)"
    and first: "\<And>x r. x \<in> set xs \<Longrightarrow> stops is_blank (f x @ r)"
    and r: "follow r" and stop: "logical_operator_p (print_logical op) op (skip_blanks r) = None"
  shows "parse_chain p (logical_operator_p (print_logical op) op) (chain_text op (map f (x0 # xs)) @ r)
    = Some (chain_of op (map g (x0 # xs)), skip_blanks r)"
proof -
  let ?sep = "CHR '' '' # print_logical op @ '' ''"
  let ?step = "bind_p (logical_operator_p (print_logical op) op) (\<lambda>o'. map_p (Pair o') p)"
  let ?f = "\<lambda>acc (o', right). Logical acc o' right"
  have first_op: "stops is_blank (print_logical op @ s)" for s by (cases op) (simp_all add: is_blank_def)
  have tail: "repeat_fold ?step ?f acc (skip_blanks (concat (map (\<lambda>x. ?sep @ f x) ys) @ r))
      = Some (foldl (\<lambda>a e. Logical a op e) acc (map g ys), skip_blanks r)"
    if "set ys \<subseteq> set xs" for acc ys
    using that
  proof (induction ys arbitrary: acc)
    case Nil
    have "?step (skip_blanks r) = None" using stop by (simp add: parser_simps)
    then show ?case by (simp add: repeat_fold_stop)
  next
    case (Cons y ys)
    let ?rest = "concat (map (\<lambda>x. ?sep @ f x) ys) @ r"
    have y: "y \<in> set xs" using Cons.prems by simp
    have "follow ?rest" using r follow Cons.prems by (cases ys) auto
    then have py: "p (f y @ ?rest) = Some (g y, skip_blanks ?rest)" using p y by simp
    have "?step (print_logical op @ CHR '' '' # f y @ ?rest) = Some ((op, g y), skip_blanks ?rest)"
      using logical_operator_next [OF first [OF y]] py by (simp add: parser_simps)
    moreover have "length (skip_blanks ?rest) < length (print_logical op @ CHR '' '' # f y @ ?rest)"
      using length_dropWhile_le [of is_blank ?rest] by (simp add: skip_blanks_def)
    ultimately show ?case
      using Cons skip_blanks_none [OF first_op] by (simp add: repeat_fold_step)
  qed
  let ?rest = "concat (map (\<lambda>x. ?sep @ f x) xs) @ r"
  have "follow ?rest" using r follow by (cases xs) auto
  then have "p (f x0 @ ?rest) = Some (g x0, skip_blanks ?rest)" using p by simp
  then show ?thesis
    using tail [of xs "g x0"]
    by (simp add: parse_chain_def bind_p_def chain_text_def join_with_Cons chain_of_def comp_def)
qed

section \<open>Terms and expressions\<close>

fun depth :: "expression \<Rightarrow> nat" where
  "depth (Condition c) = 0"
| "depth (Logical l op r) = Suc (max (depth l) (depth r))"

lemma operand_first:
  assumes "expression_ok e"
  shows "stops is_blank (operand e @ r)"
proof (cases e)
  case (Condition c)
  obtain d ds where "print_left (cond_left c) = d # ds" "\<not> is_blank d"
    using assms Condition by (metis expression_ok.simps(1) left_first_char)
  then show ?thesis using Condition by (simp add: operand_def parens_def print_condition_def)
next
  case (Logical l op r)
  then show ?thesis by (simp add: operand_def parens_def is_blank_def)
qed

text \<open>Nested expressions are read by \<open>pe\<close>, up to their closing parenthesis.\<close>

lemma parse_printed_term:
  assumes "expression_ok e" "rest_ok r"
    and "\<And>l op r' s. e = Logical l op r' \<Longrightarrow> pe (print_expression e @ CHR '')'' # s) = Some (e, CHR '')'' # s)"
    and "\<And>l op r' s. e = Logical l op r' \<Longrightarrow> stops is_blank (print_expression e @ CHR '')'' # s)"
  shows "parse_term pe (operand e @ r) = Some (e, skip_blanks r)"
proof (cases e)
  case (Condition c)
  obtain d ds where d: "print_left (cond_left c) = d # ds" "\<not> is_blank d" "d \<noteq> CHR ''(''"
    using assms(1) Condition by (metis expression_ok.simps(1) left_first_char)
  have "parse_parenthesised pe (print_condition c @ r) = None"
    using d by (simp add: parse_parenthesised_def parser_simps print_condition_def)
  moreover have "stops is_blank (print_condition c @ r)" using d by (simp add: print_condition_def)
  ultimately show ?thesis
    using Condition assms(1) parse_printed_condition [OF _ _ assms(2), of c]
    by (simp add: parse_term_def operand_def parens_def parser_simps skip_blanks_none)
next
  case (Logical l op r')
  have "parse_parenthesised pe (operand e @ r) = Some (e, r)"
    using assms(3,4) [OF Logical] Logical
    by (simp add: parse_parenthesised_def operand_def parens_def parser_simps skip_blanks_none is_blank_def)
  moreover have "stops is_blank (operand e @ r)" using assms(1) by (rule operand_first)
  ultimately show ?thesis by (simp add: parse_term_def parser_simps skip_blanks_none)
qed

definition and_text :: "expression list \<Rightarrow> string" where
  "and_text es = chain_text LAnd (map operand es)"

definition or_text :: "expression list list \<Rightarrow> string" where
  "or_text ess = chain_text LOr (map and_text ess)"

definition or_of_ands :: "expression list list \<Rightarrow> expression" where
  "or_of_ands ess = chain_of LOr (map (chain_of LAnd) ess)"

definition ends_group :: "string \<Rightarrow> bool" where
  "ends_group r \<longleftrightarrow> (case r of [] \<Rightarrow> True | c # _ \<Rightarrow> c = CHR '')'')"

lemma closed_facts:
  assumes "ends_group r"
  shows "rest_ok r" "skip_blanks r = r" "logical_operator_p (print_logical op) op r = None"
proof -
  have none: "logical_operator_p (print_logical op) op [] = None" 
    "logical_operator_p (print_logical op) op (CHR '')'' # s) = None" for s
    by (cases op; simp add: logical_operator_p_def parser_simps skip_blanks_none is_blank_def lower_chars upper_chars)+
  show "rest_ok r" "skip_blanks r = r" "logical_operator_p (print_logical op) op r = None"
    using assms none by (cases r; simp add: ends_group_def rest_ok_def skip_blanks_none is_blank_def)+
qed

lemma parse_or_text:
  assumes terms: "\<And>e r. e \<in> set (concat ess) \<Longrightarrow> rest_ok r \<Longrightarrow> parse_term pe (operand e @ r) = Some (e, skip_blanks r)"
    and ok: "\<And>e. e \<in> set (concat ess) \<Longrightarrow> expression_ok e"
    and ne: "ess \<noteq> []" "[] \<notin> set ess" and r: "ends_group r"
  shows "parse_or_expression pe (or_text ess @ r) = Some (or_of_ands ess, r)"
proof -
  define follow where "follow s \<longleftrightarrow> rest_ok s \<and> logical_operator_p (print_logical LAnd) LAnd (skip_blanks s) = None" for s
  have ands: "parse_and_expression pe (and_text es @ s) = Some (chain_of LAnd es, skip_blanks s)"
    if es_in: "es \<in> set ess" and s: "follow s" for es s
  proof -
    obtain e0 es' where es: "es = e0 # es'" using es_in ne(2) by (metis list.exhaust)
    have "parse_chain (parse_term pe) (logical_operator_p (print_logical LAnd) LAnd)
        (chain_text LAnd (map operand (e0 # es')) @ s) = Some (chain_of LAnd (map (\<lambda>e. e) (e0 # es')), skip_blanks s)"
    proof (rule parse_chain_texts [where follow = rest_ok])
      have member: "x \<in> set (concat ess)" if "x \<in> set (e0 # es')" for x
        unfolding set_concat using that es_in es by blast
      then show "parse_term pe (operand x @ r) = Some (x, skip_blanks r)"
        if "x \<in> set (e0 # es')" "rest_ok r" for x r using that terms by blast
      show "stops is_blank (operand x @ r)" if "x \<in> set es'" for x r
        using that member ok by (intro operand_first) simp
    qed (use s in \<open>auto simp: follow_def rest_ok_space\<close>)
    then show ?thesis by (simp add: parse_and_expression_def and_text_def es)
  qed
  obtain es0 ess' where ess: "ess = es0 # ess'" using ne(1) by (cases ess) auto
  have follow_op: "follow (CHR '' '' # print_logical LOr @ CHR '' '' # s)" for s
    by (simp add: follow_def rest_ok_def logical_operator_p_def parser_simps skip_blanks_none is_blank_def
        lower_chars upper_chars)
  have first: "stops is_blank (and_text es @ s)" if es_in: "es \<in> set ess" for es s
  proof -
    obtain e0 es' where es: "es = e0 # es'" using es_in ne(2) by (metis list.exhaust)
    have "e0 \<in> set (concat ess)" unfolding set_concat using es_in es by (metis UN_I list.set_intros(1))
    then have "expression_ok e0" by (rule ok)
    then show ?thesis using operand_first [of e0] by (simp add: es and_text_def chain_text_def join_with_Cons)
  qed
  have "parse_chain (parse_and_expression pe) (logical_operator_p (print_logical LOr) LOr)
      (chain_text LOr (map and_text (es0 # ess')) @ r) = Some (chain_of LOr (map (chain_of LAnd) (es0 # ess')), skip_blanks r)"
    using ands follow_op first closed_facts(1,2) [OF r] closed_facts(3) [OF r, of LAnd] closed_facts(3) [OF r, of LOr] ess
    by (intro parse_chain_texts [where follow = follow]) (auto simp: follow_def)
  then show ?thesis
    using closed_facts(2) [OF r] by (simp add: parse_or_expression_def or_text_def or_of_ands_def ess)
qed

lemma parse_expression_to_or_text:
  assumes "\<And>e r. e \<in> set (concat ess) \<Longrightarrow> rest_ok r
      \<Longrightarrow> parse_term (parse_expression_to n) (operand e @ r) = Some (e, skip_blanks r)"
    and "\<And>e. e \<in> set (concat ess) \<Longrightarrow> expression_ok e" and "ess \<noteq> []" "[] \<notin> set ess" "ends_group r"
  shows "parse_expression_to (Suc n) (or_text ess @ r) = Some (or_of_ands ess, r) \<and> stops is_blank (or_text ess @ r)"
proof -
  obtain es0 ess' where ess: "ess = es0 # ess'" using assms(3) by (cases ess) auto
  obtain e0 es' where es: "es0 = e0 # es'" using assms(4) ess by (metis list.exhaust list.set_intros(1))
  have "expression_ok e0" using assms(2) ess es by simp
  then have "stops is_blank (or_text ess @ r)"
    using operand_first [of e0] by (simp add: ess es or_text_def and_text_def chain_text_def join_with_Cons)
  then show ?thesis
    using parse_or_text [OF assms] closed_facts(2) [OF assms(5)] by (simp add: parser_simps skip_blanks_none)
qed

lemma print_as_or_text:
  "\<exists>ess. print_expression e = or_text ess \<and> or_of_ands ess = e \<and> ess \<noteq> [] \<and> [] \<notin> set ess
     \<and> set (concat ess) = (case e of Condition c \<Rightarrow> {e} | Logical l op r \<Rightarrow> {l, r})"
proof (cases e)
  case (Condition c)
  then show ?thesis
    by (intro exI [of _ "[[e]]"])
      (simp add: or_text_def and_text_def chain_text_def or_of_ands_def chain_of_def operand_def parens_def)
next
  case (Logical l op r)
  show ?thesis
  proof (cases op)
    case LAnd
    then show ?thesis using Logical
      by (intro exI [of _ "[[l, r]]"])
        (auto simp: or_text_def and_text_def chain_text_def or_of_ands_def chain_of_def operand_def)
  next
    case LOr
    then show ?thesis using Logical
      by (intro exI [of _ "[[l], [r]]"])
        (auto simp: or_text_def and_text_def chain_text_def or_of_ands_def chain_of_def operand_def)
  qed
qed

lemma parse_printed_to:
  assumes "expression_ok e" "depth e \<le> n" "ends_group r"
  shows "parse_expression_to (Suc n) (print_expression e @ r) = Some (e, r)
    \<and> stops is_blank (print_expression e @ r)"
  using assms
proof (induction e arbitrary: n r)
  case (Condition c)
  obtain ess where ess: "print_expression (Condition c) = or_text ess" "or_of_ands ess = Condition c" "ess \<noteq> []"
      "[] \<notin> set ess" "set (concat ess) = {Condition c}"
    using print_as_or_text [of "Condition c"] by auto
  have "parse_term (parse_expression_to n) (operand (Condition c) @ s) = Some (Condition c, skip_blanks s)"
    if "rest_ok s" for s
    using Condition.prems(1) that by (intro parse_printed_term) auto
  then have "parse_expression_to (Suc n) (or_text ess @ r) = Some (or_of_ands ess, r) \<and> stops is_blank (or_text ess @ r)"
    using ess(3,4) Condition.prems by (intro parse_expression_to_or_text) (auto simp only: ess(5))
  then show ?case by (simp only: ess(1,2))
next
  case (Logical l op r')
  obtain ess where ess: "print_expression (Logical l op r') = or_text ess" "or_of_ands ess = Logical l op r'" "ess \<noteq> []"
      "[] \<notin> set ess" "set (concat ess) = {l, r'}"
    using print_as_or_text [of "Logical l op r'"] by auto
  obtain m where n: "n = Suc m" "depth l \<le> m" "depth r' \<le> m" using Logical.prems(2) by (cases n) auto
  have t: "parse_term (parse_expression_to n) (operand e @ s) = Some (e, skip_blanks s)"
    if e: "e \<in> {l, r'}" and s: "rest_ok s" for e s
  proof (rule parse_printed_term)
    show "expression_ok e" using e Logical.prems(1) by auto
    show "parse_expression_to n (print_expression e @ CHR '')'' # s) = Some (e, CHR '')'' # s)" for s
      using e Logical.IH [of m "CHR '')'' # s"] Logical.prems(1) n by (auto simp: ends_group_def)
    show "stops is_blank (print_expression e @ CHR '')'' # s)" for s
      using e Logical.IH [of m "CHR '')'' # s"] Logical.prems(1) n by (auto simp: ends_group_def)
  qed (rule s)
  then have "parse_expression_to (Suc n) (or_text ess @ r) = Some (or_of_ands ess, r) \<and> stops is_blank (or_text ess @ r)"
    using ess(3,4) Logical.prems by (intro parse_expression_to_or_text) (auto simp only: ess(5) expression_ok.simps)
  then show ?case by (simp only: ess(1,2))
qed

section \<open>The bound on the nesting\<close>

lemma depth_length: "depth e < length (print_expression e)"
proof (induction e)
  case (Condition c)
  then show ?case by (simp add: print_condition_def)
next
  case (Logical l op r)
  have "length (print_expression e) \<le> length (parens e (print_expression e))" for e
    by (cases e) (simp_all add: parens_def)
  then have "depth l < length (parens l (print_expression l))" "depth r < length (parens r (print_expression r))"
    using Logical by (meson order_less_le_trans)+
  then show ?case by (cases op) auto
qed

definition shrinks :: "'a parser \<Rightarrow> bool" where
  "shrinks p \<longleftrightarrow> (\<forall>s x r. p s = Some (x, r) \<longrightarrow> length r \<le> length s)"

lemma shrinksI: "(\<And>s x r. p s = Some (x, r) \<Longrightarrow> length r \<le> length s) \<Longrightarrow> shrinks p"
  by (simp add: shrinks_def)

lemma shrinksD: "shrinks p \<Longrightarrow> p s = Some (x, r) \<Longrightarrow> length r \<le> length s"
  by (simp add: shrinks_def)

named_theorems shrinking

lemma length_skip_blanks: "length (skip_blanks s) \<le> length s"
  by (simp add: skip_blanks_def length_dropWhile_le)

lemma shrinks_basic [shrinking]:
  "shrinks (literal_p t)" "shrinks (caseless_p t)" "shrinks (one_of_p P)" "shrinks (take_while0 P)"
  "shrinks (return_p y)" "shrinks fail_p" "shrinks peek_delimiter" "shrinks peek_after_key" "shrinks peek_after_numeric_base"
  by (auto simp: shrinks_def literal_p_def caseless_p_def one_of_p_def take_while0_def return_p_def fail_p_def
      peek_delimiter_def peek_after_key_def peek_after_numeric_base_def length_dropWhile_le
      split: if_splits list.splits)

lemma shrinks_bind [shrinking]:
  assumes "shrinks p" "\<And>x. shrinks (f x)"
  shows "shrinks (bind_p p f)"
  using assms by (fastforce simp: shrinks_def bind_p_def split: option.splits intro: order_trans)

lemma shrinks_combinators [shrinking]:
  "shrinks p \<Longrightarrow> shrinks (map_p h p)" "shrinks p \<Longrightarrow> shrinks q \<Longrightarrow> shrinks (alt_p p q)"
  "shrinks p \<Longrightarrow> shrinks (verify_p P p)" "shrinks p \<Longrightarrow> shrinks (taken p)"
proof -
  show "shrinks p \<Longrightarrow> shrinks (map_p h p)"
    unfolding map_p_def by (intro shrinks_bind shrinks_basic)
  show "shrinks p \<Longrightarrow> shrinks q \<Longrightarrow> shrinks (alt_p p q)"
    by (auto simp: shrinks_def alt_p_def split: option.splits)
  show "shrinks p \<Longrightarrow> shrinks (verify_p P p)"
    by (auto simp: shrinks_def verify_p_def bind_p_def split: option.splits if_splits)
  show "shrinks p \<Longrightarrow> shrinks (taken p)"
    by (auto simp: shrinks_def taken_def split: option.splits)
qed

lemma shrinks_blanks [shrinking]:
  assumes "shrinks p"
  shows "shrinks (blanks_then p)" "shrinks (spaced p)"
proof -
  have p: "length r \<le> length s" if "p (skip_blanks s) = Some (x, r)" for s x r
    using shrinksD [OF assms that] length_skip_blanks [of s] by (rule order_trans)
  then show "shrinks (blanks_then p)" by (simp add: shrinks_def blanks_then_def)
  show "shrinks (spaced p)"
  proof (rule shrinksI)
    fix s x r
    assume "spaced p s = Some (x, r)"
    then obtain t where "p (skip_blanks s) = Some (x, t)" "r = skip_blanks t"
      by (auto simp: spaced_def split: option.splits)
    then show "length r \<le> length s" using p length_skip_blanks order_trans by metis
  qed
qed

lemma shrinks_repeat [shrinking]: "shrinks (repeat_fold p f acc)"
proof (rule shrinksI)
  show "repeat_fold p f acc s = Some (x, r) \<Longrightarrow> length r \<le> length s" for s x r
  proof (induction p f acc s rule: repeat_fold.induct)
    case (1 p f acc s)
    show ?case
    proof (cases "p s")
      case None
      then show ?thesis using "1.prems" by (simp add: repeat_fold.simps)
    next
      case (Some yt)
      obtain y t where yt: "p s = Some (y, t)" using Some by (cases yt) auto
      then have "length t < length s" "repeat_fold p f (f acc y) t = Some (x, r)"
        using "1.prems" by (auto simp: repeat_fold.simps split: if_splits)
      then show ?thesis using "1.IH" [OF yt refl] by simp
    qed
  qed
qed

lemma shrinks_take_while1 [shrinking]: "shrinks (take_while1 P)"
  unfolding take_while1_def by (intro shrinking)

lemma shrinks_values [shrinking]:
  "shrinks parse_value" "shrinks parse_condition_lhs" "shrinks (first_of operator_table)"
proof -
  show "shrinks parse_value"
    unfolding parse_value_def parse_quoted_string_def parse_boolean_def parse_hex_string_def
      parse_number_or_fixed_str_def parse_unquoted_string_def opt_p_def
    by (intro shrinking)
  have "shrinks index_parser"
    unfolding index_parser_def by (intro shrinking) (auto split: option.split intro!: shrinking)
  then show "shrinks parse_condition_lhs"
    unfolding parse_condition_lhs_def parse_base_variable_name_def parse_accessor_def key_parser_def identifier_p_def
    by (intro shrinking)
  have "shrinks (first_of ps)" if "list_all (\<lambda>(p, x). shrinks p) ps" for ps :: "(unit parser \<times> comparison_operator) list"
    using that
  proof (induction ps)
    case (Cons px ps)
    obtain p x where px: "px = (p, x)" by fastforce
    have "first_of (px # ps) = alt_p (map_p (\<lambda>_. x) p) (first_of ps)" by (simp add: px fun_eq_iff)
    then show ?case using Cons px by (auto intro!: shrinking)
  qed (auto simp: shrinks_def)
  then show "shrinks (first_of operator_table)" by (simp add: operator_table_def shrinks_basic)
qed

lemma shrinks_condition [shrinking]: "shrinks parse_condition"
  unfolding parse_condition_def parse_comparison_operator_def by (intro shrinking)

lemma shrinks_levels [shrinking]:
  assumes "shrinks pe"
  shows "shrinks (parse_term pe)" "shrinks (parse_and_expression pe)" "shrinks (parse_or_expression pe)"
  using assms
  unfolding parse_or_expression_def parse_and_expression_def parse_chain_def parse_term_def
    parse_parenthesised_def logical_operator_p_def
  by (auto intro!: shrinking)

text \<open>The levels of the grammar call the parser of nested expressions on shorter inputs only.\<close>

lemma parenthesised_cong:
  assumes "\<And>t. length t < length s \<Longrightarrow> pe t = pe' t"
  shows "parse_parenthesised pe s = parse_parenthesised pe' s"
proof (cases s)
  case (Cons c t)
  have "length (skip_blanks t) < length s" using length_skip_blanks [of t] Cons by simp
  then show ?thesis using assms Cons by (simp add: parse_parenthesised_def parser_simps)
qed (simp add: parse_parenthesised_def parser_simps)

lemma term_cong:
  assumes "\<And>t. length t < length s \<Longrightarrow> pe t = pe' t"
  shows "parse_term pe s = parse_term pe' s"
proof -
  have "parse_parenthesised pe (skip_blanks s) = parse_parenthesised pe' (skip_blanks s)"
    using assms length_skip_blanks [of s] by (intro parenthesised_cong) simp
  then show ?thesis by (simp add: parse_term_def parser_simps)
qed

lemma repeat_cong:
  assumes "\<And>t. length t \<le> length s \<Longrightarrow> p t = p' t"
  shows "repeat_fold p f acc s = repeat_fold p' f acc s"
  using assms
proof (induction p f acc s rule: repeat_fold.induct)
  case (1 p f acc s)
  have e: "p s = p' s" using "1.prems" by simp
  show ?case
  proof (cases "p s")
    case None
    then show ?thesis using e by (simp add: repeat_fold.simps)
  next
    case (Some yt)
    obtain y t where yt: "p s = Some (y, t)" using Some by (cases yt) auto
    then show ?thesis
      using e "1.IH" [OF yt refl] "1.prems" by (simp add: repeat_fold.simps [of _ _ acc s])
  qed
qed

lemma chain_cong:
  assumes "\<And>t. length t \<le> length s \<Longrightarrow> p t = p' t" "shrinks p" "shrinks op"
  shows "parse_chain p op s = parse_chain p' op s"
proof -
  let ?step = "\<lambda>p. bind_p op (\<lambda>x. map_p (Pair x) p)"
  have e: "p s = p' s" using assms(1) by simp
  have step: "?step p t = ?step p' t" if "length t \<le> length s" for t
    using assms(1) shrinksD [OF assms(3), of t] that
    by (auto simp: parser_simps split: option.splits intro: order_trans)
  show ?thesis
  proof (cases "p s")
    case None
    then show ?thesis using e by (simp add: parse_chain_def bind_p_def)
  next
    case (Some yt)
    obtain y t where yt: "p s = Some (y, t)" using Some by (cases yt) auto
    have "length t \<le> length s" using shrinksD [OF assms(2) yt] .
    then have "repeat_fold (?step p) f acc t = repeat_fold (?step p') f acc t" for f acc
      using step by (intro repeat_cong) simp
    moreover have "p' s = Some (y, t)" using e yt by simp
    ultimately show ?thesis using yt by (simp add: parse_chain_def bind_p_def [of p] bind_p_def [of p'])
  qed
qed

lemma expression_cong:
  assumes "\<And>t. length t < length s \<Longrightarrow> pe t = pe' t" "shrinks pe"
  shows "spaced (parse_or_expression pe) s = spaced (parse_or_expression pe') s"
proof -
  have "shrinks (logical_operator_p t op)" for t op unfolding logical_operator_p_def by (intro shrinking)
  then have "parse_and_expression pe t = parse_and_expression pe' t" if "length t \<le> length s" for t
    using that assms unfolding parse_and_expression_def
    by (intro chain_cong term_cong shrinks_levels) auto
  then have "parse_or_expression pe t = parse_or_expression pe' t" if "length t \<le> length s" for t
    using that assms \<open>\<And>t op. shrinks (logical_operator_p t op)\<close> unfolding parse_or_expression_def
    by (intro chain_cong shrinks_levels) auto
  then show ?thesis using length_skip_blanks [of s] by (simp add: spaced_def)
qed

lemma shrinks_expression_to [shrinking]: "shrinks (parse_expression_to n)"
proof (induction n)
  case (Suc n)
  then have "shrinks (spaced (parse_or_expression (parse_expression_to n)))" by (intro shrinking)
  then show ?case by (simp add: shrinks_def)
qed (simp add: shrinks_def)

lemma enough_nesting:
  assumes "length s < n" "length s < m"
  shows "parse_expression_to n s = parse_expression_to m s"
  using assms
proof (induction "length s" arbitrary: s n m rule: less_induct)
  case less
  obtain n' m' where nm: "n = Suc n'" "m = Suc m'" using less.prems by (cases n; cases m) auto
  have "parse_expression_to n' t = parse_expression_to m' t" if "length t < length s" for t
    by (rule less.hyps [OF that]) (use that less.prems nm in simp_all)
  then have "spaced (parse_or_expression (parse_expression_to n')) s = spaced (parse_or_expression (parse_expression_to m')) s"
    by (intro expression_cong shrinks_expression_to)
  then show ?case by (simp add: nm)
qed

section \<open>What the parsers yield\<close>

definition yields :: "('a \<Rightarrow> bool) \<Rightarrow> 'a parser \<Rightarrow> bool" where
  "yields P p \<longleftrightarrow> (\<forall>s x r. p s = Some (x, r) \<longrightarrow> P x)"

definition consumes :: "(string \<Rightarrow> bool) \<Rightarrow> 'a parser \<Rightarrow> bool" where
  "consumes Q p \<longleftrightarrow> (\<forall>s x r. p s = Some (x, r) \<longrightarrow> (\<exists>t. s = t @ r \<and> Q t))"

lemma yieldsD: "yields P p \<Longrightarrow> p s = Some (x, r) \<Longrightarrow> P x"
  by (auto simp: yields_def)

lemma yields_map: "yields (\<lambda>x. P (h x)) p \<Longrightarrow> yields P (map_p h p)"
  by (auto simp: yields_def map_p_def bind_p_def return_p_def split: option.splits)

lemma yields_alt: "yields P p \<Longrightarrow> yields P q \<Longrightarrow> yields P (alt_p p q)"
  by (auto simp: yields_def alt_p_def split: option.splits)

lemma yields_bind: "yields Q p \<Longrightarrow> (\<And>x. Q x \<Longrightarrow> yields P (f x)) \<Longrightarrow> yields P (bind_p p f)"
  by (fastforce simp: yields_def bind_p_def split: option.splits)

lemma yields_verify: "yields (\<lambda>x. V x \<longrightarrow> P x) p \<Longrightarrow> yields P (verify_p V p)"
  by (auto simp: yields_def verify_p_def bind_p_def split: option.splits if_splits)

lemma yields_spaced: "yields P p \<Longrightarrow> yields P (spaced p)"
  by (auto simp: yields_def spaced_def split: option.splits)

lemma yields_blanks_then: "yields P p \<Longrightarrow> yields P (blanks_then p)"
  by (auto simp: yields_def blanks_then_def)

lemma yields_const: "P y \<Longrightarrow> yields P (map_p (\<lambda>_. y) p)"
  by (rule yields_map) (simp add: yields_def)

lemma yields_any: "(\<And>x. P x) \<Longrightarrow> yields P p"
  by (simp add: yields_def)

lemma yields_taken: "consumes Q p \<Longrightarrow> yields Q (taken p)"
  by (fastforce simp: yields_def consumes_def taken_def split: option.splits)

lemma yields_repeat:
  assumes "yields P p" "\<And>a x. I a \<Longrightarrow> P x \<Longrightarrow> I (f a x)" "I acc"
  shows "yields I (repeat_fold p f acc)"
proof -
  have "repeat_fold p f acc s = Some (y, r) \<Longrightarrow> I y" for s y r
    using assms
  proof (induction p f acc s rule: repeat_fold.induct)
    case (1 p f acc s)
    show ?case
    proof (cases "p s")
      case None
      then show ?thesis using "1.prems" by (simp add: repeat_fold.simps)
    next
      case (Some xt)
      obtain x t where xt: "p s = Some (x, t)" using Some by (cases xt) auto
      then have "length t < length s" "repeat_fold p f (f acc x) t = Some (y, r)"
        using "1.prems"(1) by (auto simp: repeat_fold.simps split: if_splits)
      then show ?thesis using "1.IH" [OF xt refl] "1.prems" yieldsD [OF "1.prems"(2) xt] by blast
    qed
  qed
  then show ?thesis by (auto simp: yields_def)
qed

lemma reads_bind:
  assumes "consumes Q1 p" "\<And>x. consumes Q2 (f x)" "\<And>a b. Q1 a \<Longrightarrow> Q2 b \<Longrightarrow> Q (a @ b)"
  shows "consumes Q (bind_p p f)"
  unfolding consumes_def
proof (intro allI impI)
  fix s y r
  assume "bind_p p f s = Some (y, r)"
  then obtain x t where x: "p s = Some (x, t)" "f x t = Some (y, r)"
    by (auto simp: bind_p_def split: option.splits)
  obtain a b where "s = a @ t" "Q1 a" "t = b @ r" "Q2 b"
    using assms(1,2) x unfolding consumes_def by blast
  then show "\<exists>t. s = t @ r \<and> Q t" using assms(3) by auto
qed

lemma reads_alt: "consumes Q p \<Longrightarrow> consumes Q q \<Longrightarrow> consumes Q (alt_p p q)"
  by (auto simp: consumes_def alt_p_def split: option.splits)

lemma reads_map_p: "consumes Q p \<Longrightarrow> consumes Q (map_p h p)"
  by (auto simp: consumes_def map_p_def bind_p_def return_p_def split: option.splits)

lemma reads_basic:
  "consumes (\<lambda>t. t = l) (literal_p l)" "consumes (\<lambda>t. \<exists>c. t = [c] \<and> P c) (one_of_p P)"
  "consumes (\<lambda>t. t = []) peek_delimiter" "consumes (\<lambda>t. t = []) peek_after_numeric_base" "consumes (\<lambda>t. t = []) (return_p y)"
  by (auto simp: consumes_def literal_p_def prefix_def one_of_p_def peek_delimiter_def peek_after_numeric_base_def
      return_p_def split: if_splits list.splits)

lemma list_all_takeWhile: "list_all P (takeWhile P s)"
  by (induction s) auto

lemma reads_take_while0: "consumes (list_all P) (take_while0 P)"
proof -
  have "s = takeWhile P s @ dropWhile P s \<and> list_all P (takeWhile P s)" for s
    by (simp add: list_all_takeWhile)
  then show ?thesis unfolding consumes_def take_while0_def by blast
qed

lemma reads_take_while1: "consumes (\<lambda>t. t \<noteq> [] \<and> list_all P t) (take_while1 P)"
  unfolding consumes_def take_while1_def verify_p_def bind_p_def take_while0_def
  by (auto split: if_splits) (metis takeWhile_dropWhile_id list_all_takeWhile)

lemma reads_opt: "consumes Q p \<Longrightarrow> Q [] \<Longrightarrow> consumes Q (opt_p p)"
  unfolding opt_p_def by (intro reads_alt reads_map_p) (auto simp: consumes_def return_p_def)

lemma reads_weaken: "consumes Q p \<Longrightarrow> (\<And>t. Q t \<Longrightarrow> Q' t) \<Longrightarrow> consumes Q' p"
  unfolding consumes_def by blast

lemma yields_take_while1: "yields (\<lambda>t. t \<noteq> [] \<and> list_all P t) (take_while1 P)"
proof -
  show ?thesis
    by (auto simp: yields_def take_while1_def verify_p_def bind_p_def take_while0_def list_all_takeWhile split: if_splits)
qed

subsection \<open>Literals\<close>

lemma plain_quotable:
  assumes "list_all (\<lambda>c. c \<noteq> q \<and> c \<noteq> backslash) s"
  shows "quotable q s"
  using assms by (induction s) auto

lemma quotable_append:
  assumes "quotable q a" "quotable q b"
  shows "quotable q (a @ b)"
  using assms
proof (induction q a rule: quotable.induct)
  case (2 q c cs)
  then show ?case by (cases cs) (auto split: if_splits)
qed simp

lemma reads_content: "consumes (quotable q) (repeat_fold (character_or_escape q) (\<lambda>_ _. ()) ())"
proof -
  have "consumes (quotable q) (bind_p (literal_p [backslash]) (\<lambda>_. map_p (\<lambda>_. ()) (one_of_p (\<lambda>c. c = q \<or> c = backslash))))"
    by (rule reads_bind [OF reads_basic(1) reads_map_p [OF reads_basic(2)]]) auto
  moreover have "consumes (quotable q) (map_p (\<lambda>_. ()) (take_while1 (\<lambda>c. c \<noteq> q \<and> c \<noteq> backslash)))"
    by (rule reads_map_p, rule reads_weaken [OF reads_take_while1]) (simp add: plain_quotable)
  ultimately have step: "consumes (quotable q) (character_or_escape q)"
    unfolding character_or_escape_def by (rule reads_alt)
  have "repeat_fold (character_or_escape q) (\<lambda>_ _. ()) () s = Some (x, r) \<Longrightarrow> \<exists>t. s = t @ r \<and> quotable q t" for s x r
  proof (induction "length s" arbitrary: s rule: less_induct)
    case less
    show ?case
    proof (cases "character_or_escape q s")
      case None
      then show ?thesis using less.prems by (simp add: repeat_fold.simps)
    next
      case (Some yt)
      obtain y t where yt: "character_or_escape q s = Some (y, t)" using Some by (cases yt) auto
      then have "length t < length s" "repeat_fold (character_or_escape q) (\<lambda>_ _. ()) () t = Some (x, r)"
        using less.prems by (auto simp: repeat_fold.simps [of _ _ _ s] split: if_splits)
      then obtain b where "t = b @ r" "quotable q b" using less.hyps by blast
      moreover obtain a where "s = a @ t" "quotable q a" using step yt unfolding consumes_def by blast
      ultimately show ?thesis by (auto intro: quotable_append)
    qed
  qed
  then show ?thesis by (auto simp: consumes_def)
qed

lemma yields_quoted: "yields value_ok parse_quoted_string"
  unfolding parse_quoted_string_def
proof (rule yields_bind [where Q = "\<lambda>q. q = single_quote \<or> q = double_quote"])
  show "yields (\<lambda>q. q = single_quote \<or> q = double_quote) (one_of_p (\<lambda>c. c = single_quote \<or> c = double_quote))"
    by (auto simp: yields_def one_of_p_def split: list.splits if_splits)
  fix q assume "q = single_quote \<or> q = double_quote"
  then show "yields value_ok (bind_p (taken (repeat_fold (character_or_escape q) (\<lambda>_ _. ()) ()))
      (\<lambda>content. map_p (\<lambda>_. LStr content) (literal_p [q])))"
    by (intro yields_bind [OF yields_taken [OF reads_content]] yields_const) auto
qed

lemma plain_string_ok:
  assumes "list_all (\<lambda>c. is_alphanum c \<or> c = CHR ''_'' \<or> c = CHR ''-'') s"
  shows "value_ok (LStr s)"
proof -
  have "\<not> is_alphanum single_quote" "\<not> is_alphanum backslash"
    by (auto simp: is_alphanum_def is_alpha_def is_upper_def is_lower_def is_digit_def char_code_def)
  then have "list_all (\<lambda>c. c \<noteq> single_quote \<and> c \<noteq> backslash) s"
    using assms by (auto simp: list_all_iff)
  then show ?thesis by (simp add: plain_quotable)
qed

lemma yields_unquoted: "yields value_ok parse_unquoted_string"
proof -
  have "yields (\<lambda>t. t \<noteq> [] \<and> list_all (\<lambda>c. is_alphanum c \<or> c = CHR ''_'' \<or> c = CHR ''-'') t)
      (take_while1 (\<lambda>c. is_alphanum c \<or> c = CHR ''_'' \<or> c = CHR ''-''))" by (rule yields_take_while1)
  then have "yields (\<lambda>t. unquoted_ok t \<longrightarrow> value_ok (LStr t))
      (take_while1 (\<lambda>c. is_alphanum c \<or> c = CHR ''_'' \<or> c = CHR ''-''))"
    unfolding yields_def using plain_string_ok by blast
  then show ?thesis unfolding parse_unquoted_string_def by (intro yields_map yields_verify)
qed

lemma yields_hex: "yields value_ok parse_hex_string"
proof -
  have h: "is_hexdigit c \<Longrightarrow> is_alphanum c" for c
    by (auto simp: is_hexdigit_def is_alphanum_def is_alpha_def is_upper_def is_lower_def)
  have x: "is_alphanum CHR ''x''" "is_alphanum CHR ''X''" "is_alphanum CHR ''0''"
    by (auto simp: is_alphanum_def is_alpha_def is_upper_def is_lower_def is_digit_def char_code_def)
  let ?Q = "\<lambda>s. list_all (\<lambda>c. is_alphanum c \<or> c = CHR ''_'' \<or> c = CHR ''-'') s"
  have tail: "consumes ?Q (bind_p (take_while1 is_hexdigit) (\<lambda>_. peek_delimiter))"
    by (rule reads_bind [OF reads_take_while1 reads_basic(3)]) (auto simp: list_all_iff h)
  have "consumes ?Q (literal_p ''0x'')" "consumes ?Q (literal_p ''0X'')"
    by (rule reads_weaken [OF reads_basic(1)]; simp add: x)+
  then have "consumes ?Q (bind_p (alt_p (literal_p ''0x'') (literal_p ''0X''))
      (\<lambda>_. bind_p (take_while1 is_hexdigit) (\<lambda>_. peek_delimiter)))"
    by (intro reads_bind [OF reads_alt tail]) auto
  from yields_taken [OF this] show ?thesis
    unfolding parse_hex_string_def using plain_string_ok by (intro yields_map) (auto simp: yields_def)
qed

lemma yields_number: "yields value_ok parse_number_or_fixed_str"
proof -
  have sign: "consumes (\<lambda>t. t \<in> {[], ''+'', ''-''}) (opt_p (one_of_p (\<lambda>c. c = CHR ''+'' \<or> c = CHR ''-'')))"
    by (rule reads_opt [OF reads_weaken [OF reads_basic(2)]]) auto
  have digits: "consumes is_digits (take_while1 is_digit)"
    by (rule reads_weaken [OF reads_take_while1]) (simp add: is_digits_def)
  let ?F = "\<lambda>f. f = [] \<or> (\<exists>d. f = CHR ''.'' # d \<and> is_digits d)"
  have "consumes ?F (bind_p (literal_p ''.'') (\<lambda>_. take_while1 is_digit))"
    by (rule reads_bind [OF reads_basic(1) digits]) simp
  then have frac: "consumes ?F (opt_p (bind_p (literal_p ''.'') (\<lambda>_. take_while1 is_digit)))"
    by (rule reads_opt) simp
  have "consumes number_ok (bind_p (opt_p (one_of_p (\<lambda>c. c = CHR ''+'' \<or> c = CHR ''-''))) (\<lambda>_.
      bind_p (take_while1 is_digit) (\<lambda>_.
      bind_p (opt_p (bind_p (literal_p ''.'') (\<lambda>_. take_while1 is_digit))) (\<lambda>_. peek_delimiter))))"
  proof (rule reads_bind [OF sign])
    show "consumes (\<lambda>t. \<exists>i f. t = i @ f \<and> is_digits i \<and> ?F f) (bind_p (take_while1 is_digit) (\<lambda>_.
        bind_p (opt_p (bind_p (literal_p ''.'') (\<lambda>_. take_while1 is_digit))) (\<lambda>_. peek_delimiter)))"
    proof (rule reads_bind [OF digits])
      show "consumes ?F (bind_p (opt_p (bind_p (literal_p ''.'') (\<lambda>_. take_while1 is_digit))) (\<lambda>_. peek_delimiter))"
        by (rule reads_bind [OF frac reads_basic(3)]) simp
    qed blast
  qed (use number_parts in blast)
  from yields_taken [OF this] show ?thesis
    unfolding parse_number_or_fixed_str_def by (intro yields_map) simp
qed

lemma yields_value: "yields value_ok parse_value"
  unfolding parse_value_def parse_boolean_def
  by (intro yields_spaced yields_alt yields_quoted yields_unquoted yields_hex yields_number
      yields_bind [where Q = "\<lambda>_. True"] yields_const) (simp_all add: yields_def)

subsection \<open>Variables and expressions\<close>

lemma yields_ident: "yields is_ident identifier_p"
  unfolding identifier_p_def
proof (intro yields_taken)
  show "consumes is_ident (bind_p (one_of_p (\<lambda>c. is_alpha c \<or> c = CHR ''_'')) (\<lambda>_.
      take_while0 (\<lambda>c. is_alphanum c \<or> c = CHR ''_'')))"
  proof (rule reads_bind [OF reads_basic(2)])
    show "consumes (list_all name_char) (take_while0 (\<lambda>c. is_alphanum c \<or> c = CHR ''_''))"
      using reads_take_while0 [of name_char] by (simp add: name_char_def [abs_def])
  qed (auto simp: is_ident_def)
qed

lemma yields_digits: "yields is_digits (take_while1 is_digit)"
  using yields_take_while1 [of is_digit] by (simp add: is_digits_def [abs_def])

lemma yields_base: "yields base_ok parse_base_variable_name"
proof -
  have "consumes is_digits (bind_p (take_while1 is_digit) (\<lambda>_. peek_after_numeric_base))"
    by (rule reads_bind [OF reads_take_while1 reads_basic(4)]) (simp add: is_digits_def)
  then have "yields is_digits (taken (bind_p (take_while1 is_digit) (\<lambda>_. peek_after_numeric_base)))"
    by (rule yields_taken)
  then have "yields (\<lambda>t. is_ident t \<or> is_digits t) (alt_p identifier_p
      (taken (bind_p (take_while1 is_digit) (\<lambda>_. peek_after_numeric_base))))"
    using yields_ident by (intro yields_alt) (auto simp: yields_def)
  then show ?thesis
    unfolding parse_base_variable_name_def by (intro yields_verify) (auto simp: yields_def base_ok_def)
qed

lemma yields_accessor: "yields accessor_ok parse_accessor"
  unfolding parse_accessor_def
proof (rule yields_alt)
  show "yields accessor_ok index_parser"
    unfolding index_parser_def
  proof (intro yields_bind [where Q = "\<lambda>_. True"])
    show "yields accessor_ok (case usize_of_digits ds of None \<Rightarrow> fail_p
        | Some n \<Rightarrow> map_p (\<lambda>_. AIndex n) (literal_p '']''))" for ds
    proof (cases "usize_of_digits ds")
      case None
      then show ?thesis by (simp add: yields_def fail_p_def)
    next
      case (Some n)
      then have "int n < 2 ^ 64" by (auto simp: usize_of_digits_def Let_def split: if_splits)
      then show ?thesis using Some by (simp add: yields_const)
    qed
  qed (simp_all add: yields_def)
  have "yields (\<lambda>k. is_ident k \<or> is_digits k) (alt_p identifier_p (take_while1 is_digit))"
    using yields_ident yields_digits by (intro yields_alt) (auto simp: yields_def)
  then have "yields accessor_ok (bind_p (alt_p identifier_p (take_while1 is_digit)) (\<lambda>k. map_p (\<lambda>_. AKey k) peek_after_key))"
    by (rule yields_bind) (simp add: yields_const)
  then show "yields accessor_ok key_parser"
    unfolding key_parser_def by (rule yields_bind [where Q = "\<lambda>_. True", rotated]) (simp add: yields_def)
qed

lemma yields_left: "yields left_ok parse_condition_lhs"
  unfolding parse_condition_lhs_def
proof (rule yields_bind [OF yields_base])
  fix b assume "base_ok b"
  have "yields (list_all accessor_ok) (repeat_fold parse_accessor (\<lambda>as a. as @ [a]) [])"
    by (rule yields_repeat [OF yields_accessor]) simp_all
  then show "yields left_ok (bind_p (repeat_fold parse_accessor (\<lambda>as a. as @ [a]) []) (\<lambda>as.
      return_p (if as = [] then Simple b else Path \<lparr>vp_base = b, vp_accessors = as\<rparr>)))"
    by (rule yields_bind) (use \<open>base_ok b\<close> in \<open>simp add: yields_def return_p_def\<close>)
qed

lemma yields_condition: "yields expression_ok parse_condition"
  unfolding parse_condition_def
  by (intro yields_bind [OF yields_left] yields_bind [where Q = "\<lambda>_. True"] yields_any [where P = "\<lambda>_. True"] yields_map)
    (use yields_value in \<open>simp_all add: yields_def\<close>)

lemma yields_chain:
  assumes "yields expression_ok p"
  shows "yields expression_ok (parse_chain p op)"
  unfolding parse_chain_def
proof (rule yields_bind [OF assms])
  fix e assume "expression_ok e"
  have "yields (\<lambda>(o', x). expression_ok x) (bind_p op (\<lambda>o'. map_p (Pair o') p))"
    using assms by (intro yields_bind [where Q = "\<lambda>_. True"] yields_map) (simp_all add: yields_def)
  then show "yields expression_ok (repeat_fold (bind_p op (\<lambda>x. map_p (Pair x) p))
      (\<lambda>acc (x, right). Logical acc x right) e)"
    by (rule yields_repeat) (use \<open>expression_ok e\<close> in auto)
qed

lemma yields_expression: "yields expression_ok (parse_expression_to n)"
proof (induction n)
  case (Suc n)
  have "yields expression_ok (parse_parenthesised (parse_expression_to n))"
    unfolding parse_parenthesised_def
    using Suc by (intro yields_bind [where Q = "\<lambda>_. True"] yields_any [where P = "\<lambda>_. True"] yields_blanks_then
        yields_bind [OF Suc] yields_const) simp_all
  then have "yields expression_ok (spaced (parse_or_expression (parse_expression_to n)))"
    unfolding parse_or_expression_def parse_and_expression_def parse_term_def
    by (intro yields_spaced yields_chain yields_alt yields_condition)
  then show ?case by (simp add: yields_def)
qed (simp add: yields_def)

section \<open>The properties\<close>


text \<open>C28. A syntax tree that the grammar allows is read back from its printed text.\<close>

lemma expression_roundtrip:
  assumes "expression_ok e"
  shows "parse_filter_expression (print_expression e) = Some e"
  using parse_printed_to [OF assms, of "length (print_expression e)" "[]"] depth_length [of e]
  by (simp add: parse_filter_expression_def parse_expression_def ends_group_def)

definition path_condition :: expression where
  "path_condition = Condition \<lparr>cond_left = Path \<lparr>vp_base = ''log'', vp_accessors = [AIndex 10, AKey ''0'', AKey ''to'']\<rparr>,
     cond_operator = OpStartsWith, cond_right = LStr [single_quote, backslash, double_quote]\<rparr>"

definition sample_number :: expression where
  "sample_number = Condition \<lparr>cond_left = Simple ''value'', cond_operator = OpGte, cond_right = LNumber ''-1.50''\<rparr>"

definition sample_expression :: expression where
  "sample_expression = Logical (Logical path_condition LOr sample_number) LAnd sample_number"

lemma sample_expressions_ok:
  "expression_ok sample_expression" "expression_ok path_condition" "expression_ok sample_number"
  by code_simp+

lemma expression_roundtrip_witness:
  "parse_filter_expression (print_expression sample_expression) = Some sample_expression"
  by (rule expression_roundtrip [OF sample_expressions_ok(1)])

text \<open>Every expression that the parser accepts is one that the grammar allows: names that are
  identifiers or numerals and no keywords, indices below 2^64, numbers of digits with a sign and a
  fraction, strings that can stand between quotes. So it can be printed and read back.\<close>

lemma parsed_expressions_ok:
  assumes "parse_filter_expression s = Some e"
  shows "expression_ok e"
proof -
  have "parse_expression_to (Suc (length s)) s = Some (e, [])"
    using assms unfolding parse_filter_expression_def parse_expression_def
    by (auto split: option.splits list.splits)
  then show ?thesis by (rule yieldsD [OF yields_expression])
qed

lemma parse_sample_text:
  "parse_filter_expression ''(a==1 or b.c contains 0xAf)and 0[1]!=x-y'' = Some
    (Logical (Logical (Condition \<lparr>cond_left = Simple ''a'', cond_operator = OpEq, cond_right = LNumber ''1''\<rparr>) LOr
        (Condition \<lparr>cond_left = Path \<lparr>vp_base = ''b'', vp_accessors = [AKey ''c'']\<rparr>,
           cond_operator = OpContains, cond_right = LStr ''0xAf''\<rparr>)) LAnd
      (Condition \<lparr>cond_left = Path \<lparr>vp_base = ''0'', vp_accessors = [AIndex 1]\<rparr>,
         cond_operator = OpNe, cond_right = LStr ''x-y''\<rparr>))"
  by code_simp

lemma parsed_expressions_ok_witness:
  "case parse_filter_expression ''(a==1 or b.c contains 0xAf)and 0[1]!=x-y'' of
     Some e \<Rightarrow> expression_ok e | None \<Rightarrow> False"
  using parsed_expressions_ok [OF parse_sample_text] parse_sample_text by (simp del: expression_ok.simps)

lemma length_join_with:
  assumes "t \<in> set ts"
  shows "length t \<le> length (join_with sep ts)"
  using assms by (induction sep ts rule: join_with.induct) auto

lemma parse_operand_within:
  assumes "expression_ok e" "rest_ok r" "length (operand e) \<le> n"
  shows "parse_term (parse_expression_to n) (operand e @ r) = Some (e, skip_blanks r)"
proof (rule parse_printed_term [OF assms(1,2)])
  fix l op r' s
  assume e: "e = Logical l op r'"
  then obtain m where m: "n = Suc m" "depth e \<le> m"
    using assms(3) depth_length [of e] by (cases n) (auto simp: operand_def parens_def)
  show "parse_expression_to n (print_expression e @ CHR '')'' # s) = Some (e, CHR '')'' # s)"
    "stops is_blank (print_expression e @ CHR '')'' # s)"
    using parse_printed_to [OF assms(1) m(2), of "CHR '')'' # s"] m(1) by (simp_all add: ends_group_def)
qed

text \<open>AND binds tighter than OR and both group to the left: terms (conditions or parenthesised
  expressions) joined by AND, joined by OR, are read as the alternatives of the conjunctions.\<close>

lemma operators_precedence:
  assumes "ess \<noteq> []" "[] \<notin> set ess" "\<forall>es\<in>set ess. \<forall>e\<in>set es. expression_ok e"
  shows "parse_filter_expression
      (join_with '' OR '' (map (\<lambda>es. join_with '' AND '' (map operand es)) ess))
    = Some (chain_of LOr (map (chain_of LAnd) ess))"
proof -
  define n where "n = length (or_text ess)"
  have ok: "expression_ok e" if "e \<in> set (concat ess)" for e using that assms(3) by auto
  have "length (operand e) \<le> n" if e: "e \<in> set (concat ess)" for e
  proof -
    obtain es where "es \<in> set ess" "e \<in> set es" using e by auto
    then have "length (operand e) \<le> length (and_text es)" "length (and_text es) \<le> n"
      by (auto simp: and_text_def n_def or_text_def chain_text_def intro!: length_join_with)
    then show ?thesis by simp
  qed
  then have "parse_expression_to (Suc n) (or_text ess @ []) = Some (or_of_ands ess, [])"
    using parse_expression_to_or_text [where r = "[]" and ess = ess and n = n] parse_operand_within ok assms(1,2)
    by (metis ends_group_def list.simps(4))
  moreover have "or_text ess = join_with '' OR '' (map (\<lambda>es. join_with '' AND '' (map operand es)) ess)"
    by (simp add: or_text_def and_text_def [abs_def] chain_text_def)
  ultimately show ?thesis
    by (simp add: parse_filter_expression_def parse_expression_def n_def or_of_ands_def)
qed

lemma operators_precedence_witness:
  "parse_filter_expression (operand sample_number @ '' OR '' @ operand path_condition @ '' AND '' @ operand sample_number
      @ '' AND '' @ operand sample_expression)
    = Some (Logical sample_number LOr (Logical (Logical path_condition LAnd sample_number) LAnd sample_expression))"
  using operators_precedence [of "[[sample_number], [path_condition, sample_number, sample_expression]]"]
    sample_expressions_ok by (simp add: chain_of_def)

end
