(* ===== verification/Solana_Values.thy ===== *)
theory Solana_Values imports Expression begin

text \<open>
  The Solana helpers (src/src/services/filter/filters/solana/helpers.rs): base58 and hexadecimal
  codecs, comparison of addresses and signatures, discriminators, program logs. SHA-256 and
  base64 are parameters. The two conversions between lamports and SOL compute in floating point
  and are left out.
\<close>

section \<open>Base58\<close>

definition base58_alphabet :: string where
  "base58_alphabet = ''123456789ABCDEFGHJKLMNPQRSTUVWXYZabcdefghijkmnopqrstuvwxyz''"

definition base58_char_to_index :: "char \<Rightarrow> nat option" where
  "base58_char_to_index c =
    (let n = char_code c; within = (\<lambda>a b. char_code a \<le> n \<and> n \<le> char_code b) in
     if within CHR ''1'' CHR ''9'' then Some (n - char_code CHR ''1'')
     else if within CHR ''A'' CHR ''H'' then Some (n - char_code CHR ''A'' + 9)
     else if within CHR ''J'' CHR ''N'' then Some (n - char_code CHR ''J'' + 17)
     else if within CHR ''P'' CHR ''Z'' then Some (n - char_code CHR ''P'' + 22)
     else if within CHR ''a'' CHR ''k'' then Some (n - char_code CHR ''a'' + 33)
     else if within CHR ''m'' CHR ''z'' then Some (n - char_code CHR ''m'' + 44)
     else None)"

text \<open>The inner loops work on bytes with a carry of 32 bits. Both pass over the digits from the
  least significant one and append the digits of the last carry; the decoder keeps its digits,
  bytes, most significant first, the encoder least significant first.\<close>

fun decode_pass :: "u32 \<Rightarrow> byte list \<Rightarrow> byte list \<times> u32" where
  "decode_pass carry [] = ([], carry)"
| "decode_pass carry (b # bs) =
    (let c = carry + ucast b * 58; (rest, last_carry) = decode_pass (drop_bit 8 c) bs in
     (ucast (and c 0xff) # rest, last_carry))"

function carry_bytes :: "u32 \<Rightarrow> byte list" where
  "carry_bytes carry = (if carry > 0 then ucast (and carry 0xff) # carry_bytes (drop_bit 8 carry) else [])"
  by auto
termination
proof (relation "measure unat")
  fix carry :: u32
  assume "carry > 0"
  then have "unat carry > 0" by (simp add: word_less_nat_alt)
  then show "(drop_bit 8 carry, carry) \<in> measure unat" by (simp add: unat_drop_bit_eq drop_bit_eq_div unat_div)
qed simp

declare carry_bytes.simps [simp del]

definition decode_char :: "nat \<Rightarrow> byte list \<Rightarrow> byte list" where
  "decode_char index result =
    (let (low, carry) = decode_pass (word_of_nat index) (rev result) in rev (low @ carry_bytes carry))"

fun decode_chars :: "string \<Rightarrow> byte list \<Rightarrow> string + byte list" where
  "decode_chars [] result = Inr result"
| "decode_chars (c # cs) result = (case base58_char_to_index c of
     None \<Rightarrow> Inl (''Invalid base58 character: '' @ [c])
   | Some index \<Rightarrow> decode_chars cs (decode_char index result))"

definition decode_base58 :: "string \<Rightarrow> string + byte list" where
  "decode_base58 data =
    (let leading_zeros = length (takeWhile (\<lambda>c. c = CHR ''1'') data) in
     res_bind (decode_chars (drop leading_zeros data) []) (\<lambda>result.
       Inr (replicate leading_zeros 0 @ result)))"

fun encode_pass :: "u32 \<Rightarrow> byte list \<Rightarrow> byte list \<times> u32" where
  "encode_pass carry [] = ([], carry)"
| "encode_pass carry (d # ds) =
    (let c = carry + push_bit 8 (ucast d); (rest, last_carry) = encode_pass (c div 58) ds in
     (ucast (c mod 58) # rest, last_carry))"

function carry_digits :: "u32 \<Rightarrow> byte list" where
  "carry_digits carry = (if carry > 0 then ucast (carry mod 58) # carry_digits (carry div 58) else [])"
  by auto
termination
proof (relation "measure unat")
  fix carry :: u32
  assume "carry > 0"
  then have "unat carry > 0" by (simp add: word_less_nat_alt)
  then show "(carry div 58, carry) \<in> measure unat" by (simp add: unat_div)
qed simp

declare carry_digits.simps [simp del]

definition encode_byte :: "byte \<Rightarrow> byte list \<Rightarrow> byte list" where
  "encode_byte b digits = (let (low, carry) = encode_pass (ucast b) digits in low @ carry_digits carry)"

definition encode_base58 :: "byte list \<Rightarrow> string" where
  "encode_base58 data =
    (if data = [] then []
     else let leading_zeros = length (takeWhile (\<lambda>b. b = 0) data);
              digits = fold encode_byte (drop leading_zeros data) [] in
       replicate leading_zeros CHR ''1'' @ map (\<lambda>d. base58_alphabet ! unat d) (rev digits))"

section \<open>Hexadecimal, addresses and signatures\<close>

definition hex_chars :: string where
  "hex_chars = ''0123456789abcdef''"

definition encode_hex :: "byte list \<Rightarrow> string" where
  "encode_hex data = concat (map (\<lambda>b. [hex_chars ! unat (drop_bit 4 b), hex_chars ! unat (and b 0x0f)]) data)"

definition solana_normalize_address :: "string \<Rightarrow> string" where
  "solana_normalize_address address = trim address"

definition solana_same_address :: "string \<Rightarrow> string \<Rightarrow> bool" where
  "solana_same_address a b \<longleftrightarrow> solana_normalize_address a = solana_normalize_address b"

definition solana_same_signature :: "string \<Rightarrow> string \<Rightarrow> bool" where
  "solana_same_signature a b \<longleftrightarrow> trim a = trim b"

definition is_valid_pubkey :: "string \<Rightarrow> bool" where
  "is_valid_pubkey address \<longleftrightarrow> (case decode_base58 address of Inr bytes \<Rightarrow> length bytes = 32 | Inl _ \<Rightarrow> False)"

definition is_valid_signature :: "string \<Rightarrow> bool" where
  "is_valid_signature s \<longleftrightarrow> (case decode_base58 s of Inr bytes \<Rightarrow> length bytes = 64 | Inl _ \<Rightarrow> False)"

section \<open>Discriminators and logs\<close>

definition calculate_discriminator :: "(string \<Rightarrow> byte list) \<Rightarrow> string \<Rightarrow> byte list" where
  "calculate_discriminator sha256 instruction_name = take 8 (sha256 (''global:'' @ instruction_name))"

definition calculate_event_discriminator :: "(string \<Rightarrow> byte list) \<Rightarrow> string \<Rightarrow> byte list" where
  "calculate_event_discriminator sha256 event_name = take 8 (sha256 (''event:'' @ event_name))"

definition extract_discriminator :: "byte list \<Rightarrow> byte list option" where
  "extract_discriminator data = (if length data \<ge> 8 then Some (take 8 data) else None)"

definition parse_program_data_log :: "(string \<Rightarrow> byte list option) \<Rightarrow> string \<Rightarrow> byte list option" where
  "parse_program_data_log base64_decode log = (case strip_prefix ''Program data: '' log of
     Some data \<Rightarrow> base64_decode data
   | None \<Rightarrow> None)"

text \<open>\<open>split_whitespace\<close>: the maximal runs without white space.\<close>

function split_whitespace :: "string \<Rightarrow> string list" where
  "split_whitespace s = (let t = dropWhile is_ws s in
     if t = [] then [] else takeWhile (\<lambda>c. \<not> is_ws c) t # split_whitespace (dropWhile (\<lambda>c. \<not> is_ws c) t))"
  by auto
termination
proof (relation "measure length")
  fix s t :: string
  assume t: "t = dropWhile is_ws s" "t \<noteq> []"
  then have "\<not> is_ws (hd t)" by (metis hd_dropWhile)
  then have "length (dropWhile (\<lambda>c. \<not> is_ws c) t) < length t"
    using t(2) by (cases t) (auto simp: length_dropWhile_le le_imp_less_Suc)
  also have "\<dots> \<le> length s" unfolding t(1) by (rule length_dropWhile_le)
  finally show "(dropWhile (\<lambda>c. \<not> is_ws c) t, s) \<in> measure length" by simp
qed simp

declare split_whitespace.simps [simp del]

definition extract_program_invoke :: "string \<Rightarrow> string option" where
  "extract_program_invoke log =
    (if prefix ''Program '' log \<and> sublist '' invoke ['' log
     then (let parts = split_whitespace log in if length parts \<ge> 2 then Some (parts ! 1) else None)
     else None)"

definition is_program_success :: "string \<Rightarrow> string \<Rightarrow> bool" where
  "is_program_success log program_id \<longleftrightarrow> log = ''Program '' @ program_id @ '' success''"

definition is_program_failure :: "string \<Rightarrow> string \<Rightarrow> bool" where
  "is_program_failure log program_id \<longleftrightarrow> prefix (''Program '' @ program_id @ '' failed'') log"

end
