(* ===== verification/Base58_Properties.thy ===== *)
theory Base58_Properties imports Solana_Values begin

text \<open>
  The base58 codec of the Solana helpers against positional numerals: both of its passes multiply a
  number by the other base and add a digit, their results have no leading zeros, and decoding gives
  back the bytes that were encoded.
\<close>

section \<open>Positional numerals\<close>

lemma byte_less: "unat (b :: byte) < 256"
  using unsigned_less [of b] by simp

lemma bytes_less: "list_all (\<lambda>d. d < 256) (map unat (bs :: byte list))"
  by (simp add: list_all_iff byte_less)

text \<open>The value of digits, the least significant first.\<close>

fun numeral_value :: "nat \<Rightarrow> nat list \<Rightarrow> nat" where
  "numeral_value B [] = 0"
| "numeral_value B (d # ds) = d + B * numeral_value B ds"

definition canonical :: "nat \<Rightarrow> nat list \<Rightarrow> bool" where
  "canonical B ds \<longleftrightarrow> list_all (\<lambda>d. d < B) ds \<and> (ds = [] \<or> B ^ (length ds - 1) \<le> numeral_value B ds)"

lemma numeral_value_append: "numeral_value B (as @ bs) = numeral_value B as + B ^ length as * numeral_value B bs"
  by (induction as) (simp_all add: algebra_simps)

lemma numeral_value_less:
  assumes "list_all (\<lambda>d. d < B) ds"
  shows "numeral_value B ds < B ^ length ds"
  using assms
proof (induction ds)
  case (Cons d ds)
  have "Suc (numeral_value B ds) \<le> B ^ length ds" using Cons by simp
  then have "B * Suc (numeral_value B ds) \<le> B * B ^ length ds" by (rule mult_le_mono2)
  then show ?case using Cons.prems by simp
qed simp

lemma same_length_value:
  assumes "list_all (\<lambda>d. d < B) as" "list_all (\<lambda>d. d < B) bs" "length as = length bs"
    and "numeral_value B as = numeral_value B bs"
  shows "as = bs"
  using assms(3,1,2,4)
proof (induction as bs rule: list_induct2)
  case (Cons a as b bs)
  have "(a + B * numeral_value B as) mod B = (b + B * numeral_value B bs) mod B"
    using Cons.prems(3) by simp
  then have "a = b" using Cons.prems(1,2) by simp
  then show ?case using Cons by simp
qed simp

lemma canonical_unique:
  assumes "canonical B as" "canonical B bs" "numeral_value B as = numeral_value B bs" "1 < B"
  shows "as = bs"
proof -
  have le: "length xs \<le> length ys"
    if "canonical B xs" "canonical B ys" "numeral_value B xs = numeral_value B ys" for xs ys
  proof (cases "xs = []")
    case False
    then have "B ^ (length xs - 1) < B ^ length ys"
      using that numeral_value_less [of B ys] by (auto simp: canonical_def)
    then have "length xs - 1 < length ys" using assms(4) by simp
    then show ?thesis by simp
  qed simp
  show ?thesis
  proof (rule same_length_value)
    show "length as = length bs"
      using le [OF assms(1,2,3)] le [OF assms(2,1) assms(3) [symmetric]] by simp
  qed (use assms in \<open>auto simp: canonical_def\<close>)
qed

lemma numeral_value_last:
  assumes "ds \<noteq> []"
  shows "numeral_value B ds = numeral_value B (butlast ds) + B ^ (length ds - 1) * last ds"
proof -
  have "numeral_value B (butlast ds @ [last ds]) = numeral_value B (butlast ds) + B ^ (length ds - 1) * last ds"
    by (simp add: numeral_value_append del: append_butlast_last_id)
  then show ?thesis using assms by simp
qed

lemma canonical_last:
  assumes "canonical B ds" "ds \<noteq> []"
  shows "last ds \<noteq> 0"
proof
  assume "last ds = 0"
  then have "numeral_value B ds = numeral_value B (butlast ds)"
    using numeral_value_last [OF assms(2)] by simp
  moreover have "list_all (\<lambda>d. d < B) (butlast ds)"
    using assms(1) by (auto simp: canonical_def list_all_iff dest: in_set_butlastD)
  ultimately have "numeral_value B ds < B ^ (length ds - 1)"
    using numeral_value_less [of B "butlast ds"] by simp
  then show False using assms by (simp add: canonical_def)
qed

lemma canonical_of_last:
  assumes "list_all (\<lambda>d. d < B) ds" "ds \<noteq> []" "last ds \<noteq> 0"
  shows "canonical B ds"
proof -
  have "B ^ (length ds - 1) \<le> numeral_value B ds"
    using assms(3) numeral_value_last [OF assms(2)] by (simp add: trans_le_add2)
  then show ?thesis using assms(1) by (simp add: canonical_def)
qed

text \<open>A pass over \<open>ds\<close> that gives the digits \<open>low\<close> and a carry, whose digits are appended.\<close>

lemma canonical_pass:
  assumes "numeral_value B low + B ^ length low * carry = numeral_value B ds * m + c"
    and "length low = length ds" "canonical B ds" "list_all (\<lambda>d. d < B) low" "1 \<le> m"
    and "numeral_value B hi = carry" "canonical B hi"
  shows "canonical B (low @ hi) \<and> numeral_value B (low @ hi) = numeral_value B ds * m + c"
proof -
  have v: "numeral_value B (low @ hi) = numeral_value B ds * m + c"
    using assms(1,6) by (simp add: numeral_value_append)
  have d: "list_all (\<lambda>d. d < B) (low @ hi)" using assms(4,7) by (simp add: canonical_def)
  have "low @ hi = [] \<or> B ^ (length (low @ hi) - 1) \<le> numeral_value B (low @ hi)"
  proof (cases "hi = []")
    case True
    show ?thesis
    proof (cases "ds = []")
      case False
      then have "B ^ (length ds - 1) \<le> numeral_value B ds" using assms(3) by (simp add: canonical_def)
      also have "\<dots> \<le> numeral_value B ds * m" using assms(5) by simp
      finally show ?thesis using v True assms(2) by simp
    qed (use True assms(2) in simp)
  next
    case False
    then have "B ^ (length hi - 1) \<le> numeral_value B hi" using assms(7) by (simp add: canonical_def)
    then have "B ^ length low * B ^ (length hi - 1) \<le> numeral_value B low + B ^ length low * numeral_value B hi"
      by (intro trans_le_add2 mult_le_mono2)
    moreover have "length (low @ hi) - 1 = length low + (length hi - 1)" using False by (cases hi) auto
    ultimately show ?thesis by (simp only: numeral_value_append power_add) simp
  qed
  then show ?thesis using v d by (simp add: canonical_def)
qed

section \<open>The decoder multiplies by 58\<close>

lemma unat_small_sum:
  fixes c :: u32 and b :: byte
  assumes "unat c < 58"
  shows "unat (c + ucast b * 58) = unat c + unat b * 58"
proof -
  have b: "unat b < 256" by (rule byte_less)
  then have u: "unat (ucast b :: u32) = unat b" by (simp add: unsigned_ucast_eq take_bit_eq_mod)
  have "unat (ucast b * 58 :: u32) = unat b * 58"
    using b u by (subst unat_mult_lem [THEN iffD1]) auto
  then show ?thesis using assms b by (subst unat_add_lem [THEN iffD1]) auto
qed

lemma unat_low_byte: "unat (ucast (and c 0xff :: u32) :: byte) = unat c mod 256"
proof -
  have "and c 0xff = take_bit 8 c" by (simp add: take_bit_eq_mask mask_eq_exp_minus_1)
  then show ?thesis by (simp add: unsigned_ucast_eq take_bit_eq_mod unat_mod)
qed

lemma decode_pass_value:
  assumes "unat c < 58" "decode_pass c bs = (low, carry)"
  shows "unat carry < 58 \<and> length low = length bs \<and>
    numeral_value 256 (map unat low) + 256 ^ length bs * unat carry = numeral_value 256 (map unat bs) * 58 + unat c"
  using assms
proof (induction bs arbitrary: c low)
  case (Cons b bs)
  define c' where "c' = c + ucast b * 58"
  have c': "unat c' = unat c + unat b * 58" unfolding c'_def using Cons.prems(1) by (rule unat_small_sum)
  obtain rest where rest: "decode_pass (drop_bit 8 c') bs = (rest, carry)" "low = ucast (and c' 0xff) # rest"
    using Cons.prems(2) by (auto simp: Let_def c'_def split: prod.splits)
  have q: "unat (drop_bit 8 c') = unat c' div 256" by (simp add: drop_bit_eq_div unat_div)
  have "unat b \<le> 255" using byte_less [of b] by simp
  then have "unat (drop_bit 8 c') < 58" using q c' Cons.prems(1) by simp
  from Cons.IH [OF this rest(1)] have ih: "unat carry < 58" "length rest = length bs"
    "numeral_value 256 (map unat rest) + 256 ^ length bs * unat carry
      = numeral_value 256 (map unat bs) * 58 + unat c' div 256" using q by auto
  have "numeral_value 256 (map unat low) + 256 ^ length (b # bs) * unat carry
      = unat c' mod 256 + 256 * (numeral_value 256 (map unat rest) + 256 ^ length bs * unat carry)"
    by (simp add: rest(2) unat_low_byte algebra_simps)
  also have "\<dots> = unat c' mod 256 + 256 * (numeral_value 256 (map unat bs) * 58 + unat c' div 256)"
    by (simp only: ih(3))
  also have "\<dots> = unat c' + 256 * (numeral_value 256 (map unat bs) * 58)" by simp
  finally show ?case using ih rest(2) c' by simp
qed simp

lemma carry_bytes_canonical: "canonical 256 (map unat (carry_bytes c)) \<and> numeral_value 256 (map unat (carry_bytes c)) = unat c"
proof (induction c rule: carry_bytes.induct)
  case (1 c)
  show ?case
  proof (cases "c > 0")
    case True
    have q: "unat (drop_bit 8 c) = unat c div 256" by (simp add: drop_bit_eq_div unat_div)
    have v: "numeral_value 256 (map unat (carry_bytes c)) = unat c"
      using 1 True q by (subst carry_bytes.simps) (simp add: unat_low_byte)
    have "carry_bytes c \<noteq> []" using True by (subst carry_bytes.simps) simp
    moreover have "last (map unat (carry_bytes c)) \<noteq> 0"
    proof (cases "carry_bytes (drop_bit 8 c) = []")
      case True
      then have "unat c div 256 = 0" using 1 \<open>c > 0\<close> q by simp
      then have "unat c mod 256 = unat c" by simp
      then show ?thesis using True \<open>c > 0\<close>
        by (subst carry_bytes.simps) (simp add: unat_low_byte word_less_nat_alt)
    next
      case False
      then show ?thesis using 1 canonical_last [of 256 "map unat (carry_bytes (drop_bit 8 c))"] True
        by (subst carry_bytes.simps) simp
    qed
    moreover have "list_all (\<lambda>d. d < 256) (map unat (carry_bytes c))"
      by (rule bytes_less)
    ultimately show ?thesis using v canonical_of_last by simp
  next
    case False
    then have "carry_bytes c = []" "c = 0" by (simp_all add: carry_bytes.simps word_gt_0)
    then show ?thesis by (simp add: canonical_def)
  qed
qed

lemma decode_char_value:
  assumes "index < 58" "canonical 256 (map unat (rev result))"
  shows "canonical 256 (map unat (rev (decode_char index result)))
    \<and> numeral_value 256 (map unat (rev (decode_char index result)))
      = numeral_value 256 (map unat (rev result)) * 58 + index"
proof -
  obtain low carry where p: "decode_pass (word_of_nat index) (rev result) = (low, carry)" by fastforce
  have u: "unat (word_of_nat index :: u32) = index" using assms(1) by (simp add: unat_of_nat take_bit_eq_mod)
  have "list_all (\<lambda>d. d < 256) (map unat low)"
    by (rule bytes_less)
  then show ?thesis
    using decode_pass_value [OF _ p] u assms carry_bytes_canonical [of carry]
      canonical_pass [of 256 "map unat low" "unat carry" "map unat (rev result)" 58 index "map unat (carry_bytes carry)"]
    by (simp add: decode_char_def p)
qed

section \<open>The encoder multiplies by 256\<close>

lemma unat_shifted_sum:
  fixes c :: u32 and d :: byte
  assumes "unat c < 256"
  shows "unat (c + push_bit 8 (ucast d)) = unat c + unat d * 256"
proof -
  have b: "unat d < 256" by (rule byte_less)
  then have u: "unat (ucast d :: u32) = unat d" by (simp add: unsigned_ucast_eq take_bit_eq_mod)
  have "unat (ucast d * 256 :: u32) = unat d * 256"
    using b u by (subst unat_mult_lem [THEN iffD1]) auto
  then show ?thesis using assms b by (subst unat_add_lem [THEN iffD1]) (auto simp: push_bit_eq_mult)
qed

lemma unat_digit: "unat (ucast (c mod 58 :: u32) :: byte) = unat c mod 58"
proof -
  have "unat (c mod 58) = unat c mod 58" by (simp add: unat_mod)
  moreover have "unat c mod 58 < 256" by (rule less_trans [of _ 58]) simp_all
  ultimately show ?thesis by (simp add: unsigned_ucast_eq take_bit_eq_mod)
qed

lemma encode_pass_value:
  assumes "unat c < 256" "encode_pass c ds = (low, carry)" "list_all (\<lambda>d. d < 58) (map unat ds)"
  shows "unat carry < 256 \<and> length low = length ds \<and> list_all (\<lambda>d. d < 58) (map unat low) \<and>
    numeral_value 58 (map unat low) + 58 ^ length ds * unat carry = numeral_value 58 (map unat ds) * 256 + unat c"
  using assms
proof (induction ds arbitrary: c low)
  case (Cons d ds)
  define c' where "c' = c + push_bit 8 (ucast d)"
  have c': "unat c' = unat c + unat d * 256" unfolding c'_def using Cons.prems(1) by (rule unat_shifted_sum)
  obtain rest where rest: "encode_pass (c' div 58) ds = (rest, carry)" "low = ucast (c' mod 58) # rest"
    using Cons.prems(2) by (auto simp: Let_def c'_def split: prod.splits)
  have q: "unat (c' div 58) = unat c' div 58" by (simp add: unat_div)
  have "unat d < 58" using Cons.prems(3) by simp
  then have "unat (c' div 58) < 256" using q c' Cons.prems(1) by simp
  from Cons.IH [OF this rest(1)] have ih: "unat carry < 256" "length rest = length ds"
    "list_all (\<lambda>d. d < 58) (map unat rest)"
    "numeral_value 58 (map unat rest) + 58 ^ length ds * unat carry
      = numeral_value 58 (map unat ds) * 256 + unat c' div 58" using q Cons.prems(3) by auto
  have "numeral_value 58 (map unat low) + 58 ^ length (d # ds) * unat carry
      = unat c' mod 58 + 58 * (numeral_value 58 (map unat rest) + 58 ^ length ds * unat carry)"
    by (simp add: rest(2) unat_digit algebra_simps)
  also have "\<dots> = unat c' mod 58 + 58 * (numeral_value 58 (map unat ds) * 256 + unat c' div 58)"
    by (simp only: ih(4))
  also have "\<dots> = unat c' + 58 * (numeral_value 58 (map unat ds) * 256)" by simp
  finally show ?case using ih rest(2) c' by (simp add: unat_digit)
qed simp

lemma carry_digits_canonical: "canonical 58 (map unat (carry_digits c)) \<and> numeral_value 58 (map unat (carry_digits c)) = unat c"
proof (induction c rule: carry_digits.induct)
  case (1 c)
  show ?case
  proof (cases "c > 0")
    case True
    have q: "unat (c div 58) = unat c div 58" by (simp add: unat_div)
    have ds: "carry_digits c = ucast (c mod 58) # carry_digits (c div 58)"
      using True by (subst carry_digits.simps) simp
    have ih: "canonical 58 (map unat (carry_digits (c div 58)))"
      "numeral_value 58 (map unat (carry_digits (c div 58))) = unat c div 58" using 1 True q by auto
    have "last (map unat (carry_digits c)) \<noteq> 0"
    proof (cases "carry_digits (c div 58) = []")
      case True
      then have "unat c div 58 = 0" using ih(2) by simp
      then have "unat c mod 58 = unat c" by simp
      then show ?thesis using True \<open>c > 0\<close> by (simp add: ds unat_digit word_less_nat_alt)
    next
      case False
      then show ?thesis using canonical_last [OF ih(1)] by (simp add: ds)
    qed
    moreover have "list_all (\<lambda>d. d < 58) (map unat (carry_digits c))"
      using ih(1) by (simp add: ds unat_digit canonical_def)
    ultimately have "canonical 58 (map unat (carry_digits c))"
      using canonical_of_last by (simp add: ds)
    then show ?thesis by (simp add: ds unat_digit ih(2))
  next
    case False
    then have "carry_digits c = []" "c = 0" by (simp_all add: carry_digits.simps word_gt_0)
    then show ?thesis by (simp add: canonical_def)
  qed
qed

lemma encode_byte_value:
  assumes "canonical 58 (map unat digits)"
  shows "canonical 58 (map unat (encode_byte b digits))
    \<and> numeral_value 58 (map unat (encode_byte b digits)) = numeral_value 58 (map unat digits) * 256 + unat b"
proof -
  obtain low carry where p: "encode_pass (ucast b) digits = (low, carry)" by fastforce
  have u: "unat (ucast b :: u32) = unat b" using byte_less [of b] by (simp add: unsigned_ucast_eq take_bit_eq_mod)
  have "list_all (\<lambda>d. d < 58) (map unat digits)" using assms by (simp add: canonical_def)
  from encode_pass_value [OF _ p this] u byte_less [of b]
  have "length low = length digits" "list_all (\<lambda>d. d < 58) (map unat low)"
    "numeral_value 58 (map unat low) + 58 ^ length digits * unat carry
      = numeral_value 58 (map unat digits) * 256 + unat b"
    by simp_all
  then show ?thesis
    using assms carry_digits_canonical [of carry]
      canonical_pass [of 58 "map unat low" "unat carry" "map unat digits" 256 "unat b" "map unat (carry_digits carry)"]
    by (simp add: encode_byte_def p)
qed

section \<open>Decoding what was encoded\<close>

lemma alphabet_indices: "map base58_char_to_index base58_alphabet = map Some [0..<58]"
  by (simp add: base58_alphabet_def base58_char_to_index_def char_code_def upt_conv_Cons)

lemma alphabet_digit:
  assumes "unat (d :: byte) < 58"
  shows "base58_char_to_index (base58_alphabet ! unat d) = Some (unat d)"
    and "base58_alphabet ! unat d = CHR ''1'' \<longleftrightarrow> d = 0"
proof -
  have len: "length base58_alphabet = 58" by (simp add: base58_alphabet_def)
  show index: "base58_char_to_index (base58_alphabet ! unat d) = Some (unat d)"
    using arg_cong [OF alphabet_indices, of "\<lambda>l. l ! unat d"] assms by (simp add: len)
  have one: "base58_char_to_index CHR ''1'' = Some 0" "base58_alphabet ! 0 = CHR ''1''"
    by (simp_all add: base58_char_to_index_def base58_alphabet_def char_code_def)
  show "base58_alphabet ! unat d = CHR ''1'' \<longleftrightarrow> d = 0"
    using index one by (auto simp: unat_eq_0)
qed

lemma fold_encode_value:
  assumes "canonical 58 (map unat digits)"
  shows "canonical 58 (map unat (fold encode_byte bs digits))
    \<and> numeral_value 58 (map unat (fold encode_byte bs digits))
      = numeral_value 58 (map unat digits) * 256 ^ length bs + numeral_value 256 (map unat (rev bs))"
  using assms
proof (induction bs arbitrary: digits)
  case (Cons b bs)
  show ?case
    using Cons.IH [of "encode_byte b digits"] encode_byte_value [OF Cons.prems, of b]
    by (simp add: numeral_value_append algebra_simps)
qed simp

lemma decode_chars_value:
  assumes "list_all (\<lambda>d. unat d < 58) ds" "canonical 256 (map unat (rev result))"
  shows "\<exists>bs. decode_chars (map (\<lambda>d. base58_alphabet ! unat (d :: byte)) ds) result = Inr bs
    \<and> canonical 256 (map unat (rev bs))
    \<and> numeral_value 256 (map unat (rev bs))
      = numeral_value 256 (map unat (rev result)) * 58 ^ length ds + numeral_value 58 (map unat (rev ds))"
  using assms
proof (induction ds arbitrary: result)
  case (Cons d ds)
  from Cons.prems have d: "unat d < 58" "list_all (\<lambda>d. unat d < 58) ds" by simp_all
  note step = decode_char_value [OF d(1) Cons.prems(2)]
  from Cons.IH [OF d(2) step [THEN conjunct1]] obtain bs where
    "decode_chars (map (\<lambda>d. base58_alphabet ! unat d) ds) (decode_char (unat d) result) = Inr bs"
    "canonical 256 (map unat (rev bs))"
    "numeral_value 256 (map unat (rev bs))
      = (numeral_value 256 (map unat (rev result)) * 58 + unat d) * 58 ^ length ds + numeral_value 58 (map unat (rev ds))"
    unfolding step [THEN conjunct2] by blast
  then show ?case
    by (simp add: alphabet_digit(1) [OF d(1)] numeral_value_append algebra_simps)
qed simp

lemma canonical_bytes:
  assumes "bs = [] \<or> hd bs \<noteq> (0 :: byte)"
  shows "canonical 256 (map unat (rev bs))"
proof (cases "bs = []")
  case False
  then have "last (map unat (rev bs)) \<noteq> 0" using assms by (simp add: last_map last_rev unat_eq_0)
  then show ?thesis using canonical_of_last [OF bytes_less [of "rev bs"]] False by simp
qed (simp add: canonical_def)

lemma takeWhile_replicate:
  assumes "xs = [] \<or> hd xs \<noteq> a"
  shows "takeWhile (\<lambda>c. c = a) (replicate n a @ xs) = replicate n a"
  using assms by (cases xs) (auto simp: takeWhile_append)

lemma decode_base58_encode: "decode_base58 (encode_base58 bs) = Inr bs"
proof (cases "bs = []")
  case False
  define n where "n = length (takeWhile (\<lambda>b. b = 0) bs)"
  define body where "body = drop n bs"
  define digits where "digits = fold encode_byte body []"
  define text_of where "text_of = map (\<lambda>d :: byte. base58_alphabet ! unat d) (rev digits)"
  have body: "body = dropWhile (\<lambda>b. b = 0) bs" by (simp add: body_def n_def dropWhile_eq_drop)
  have zeros: "bs = replicate n 0 @ body"
  proof -
    have "takeWhile (\<lambda>b. b = 0) bs = replicate n 0"
      unfolding n_def by (rule replicate_length_same [symmetric]) (auto dest: set_takeWhileD)
    then show ?thesis unfolding body by (metis takeWhile_dropWhile_id)
  qed
  have nz: "body = [] \<or> hd body \<noteq> 0" unfolding body using hd_dropWhile [of "\<lambda>b. b = 0" bs] by blast
  have "canonical 58 (map unat ([] :: byte list))" by (simp add: canonical_def)
  from fold_encode_value [OF this, of body]
  have c: "canonical 58 (map unat digits)"
    and v: "numeral_value 58 (map unat digits) = numeral_value 256 (map unat (rev body))"
    by (simp_all add: digits_def)
  have small: "list_all (\<lambda>d. unat d < 58) digits" using c by (simp add: canonical_def list_all_iff)
  have "text_of = [] \<or> hd text_of \<noteq> CHR ''1''"
  proof (cases "digits = []")
    case False
    then have "last digits \<noteq> 0" using canonical_last [OF c] by (simp add: last_map unat_eq_0)
    moreover have "unat (last digits) < 58" using small False by (simp add: list_all_iff)
    ultimately show ?thesis using False alphabet_digit(2) [of "last digits"]
      by (simp add: text_of_def hd_map hd_rev)
  qed (simp add: text_of_def)
  from takeWhile_replicate [OF this]
  have lead: "takeWhile (\<lambda>c. c = CHR ''1'') (replicate n CHR ''1'' @ text_of) = replicate n CHR ''1''" .
  have "list_all (\<lambda>d. unat d < 58) (rev digits)" using small by (simp add: list_all_iff)
  from decode_chars_value [OF this, of "[]"] obtain out where
    out: "decode_chars text_of [] = Inr out" "canonical 256 (map unat (rev out))"
      "numeral_value 256 (map unat (rev out)) = numeral_value 58 (map unat digits)"
    by (auto simp: text_of_def canonical_def)
  have "map unat (rev out) = map unat (rev body)"
    by (rule canonical_unique [OF out(2) canonical_bytes [OF nz]]) (simp_all add: out(3) v)
  then have "out = body" by (simp add: inj_map_eq_map rev_map [symmetric])
  moreover have "encode_base58 bs = replicate n CHR ''1'' @ text_of"
    using False by (simp add: encode_base58_def Let_def n_def body_def digits_def text_of_def)
  ultimately show ?thesis
    using zeros by (simp add: decode_base58_def Let_def lead out(1))
qed (simp add: encode_base58_def decode_base58_def)

lemma alphabet_codes:
  "map char_code base58_alphabet = [49..<58] @ [65..<73] @ [74..<79] @ [80..<91] @ [97..<108] @ [109..<123]"
  by (simp add: base58_alphabet_def char_code_def upt_conv_Cons)

lemma index_alphabet:
  assumes "base58_char_to_index c = Some i"
  shows "i < 58 \<and> base58_alphabet ! i = c"
proof -
  define n where "n = char_code c"
  have ends: "char_code CHR ''1'' = 49" "char_code CHR ''9'' = 57" "char_code CHR ''A'' = 65" "char_code CHR ''H'' = 72"
    "char_code CHR ''J'' = 74" "char_code CHR ''N'' = 78" "char_code CHR ''P'' = 80" "char_code CHR ''Z'' = 90"
    "char_code CHR ''a'' = 97" "char_code CHR ''k'' = 107" "char_code CHR ''m'' = 109" "char_code CHR ''z'' = 122"
    by (simp_all add: char_code_def)
  have "i < 58 \<and> map char_code base58_alphabet ! i = n"
    using assms unfolding base58_char_to_index_def Let_def n_def [symmetric] alphabet_codes ends
    by (auto simp: nth_append simp del: upt_rec_numeral split: if_splits)
  moreover have "length base58_alphabet = 58" by (simp add: base58_alphabet_def)
  ultimately show ?thesis by (metis char_code_inj n_def nth_map)
qed

lemma decode_chars_digits:
  assumes "decode_chars cs result = Inr out"
  shows "\<exists>ds. cs = map (\<lambda>d. base58_alphabet ! unat (d :: byte)) ds \<and> list_all (\<lambda>d. unat d < 58) ds"
  using assms
proof (induction cs result rule: decode_chars.induct)
  case (2 c cs result)
  then obtain i where i: "base58_char_to_index c = Some i" "decode_chars cs (decode_char i result) = Inr out"
    by (auto split: option.splits)
  from "2.IH" [OF i] obtain ds where
    ds: "cs = map (\<lambda>d. base58_alphabet ! unat (d :: byte)) ds" "list_all (\<lambda>d. unat d < 58) ds" by blast
  have "unat (word_of_nat i :: byte) = i" "i < 58" "base58_alphabet ! i = c"
    using index_alphabet [OF i(1)] by (simp_all add: unat_of_nat take_bit_eq_mod)
  with ds show ?case by (intro exI [of _ "word_of_nat i # ds"]) simp
qed simp

lemma encode_base58_decode:
  assumes "decode_base58 s = Inr bs"
  shows "encode_base58 bs = s"
proof -
  define n where "n = length (takeWhile (\<lambda>c. c = CHR ''1'') s)"
  obtain out where out: "decode_chars (drop n s) [] = Inr out" "bs = replicate n 0 @ out"
    using assms by (auto simp: decode_base58_def Let_def n_def res_bind_Inr_iff)
  obtain ds where ds: "drop n s = map (\<lambda>d. base58_alphabet ! unat (d :: byte)) ds" "list_all (\<lambda>d. unat d < 58) ds"
    using decode_chars_digits [OF out(1)] by blast
  have start: "drop n s = dropWhile (\<lambda>c. c = CHR ''1'') s" by (simp add: n_def dropWhile_eq_drop)
  have "takeWhile (\<lambda>c. c = CHR ''1'') s = replicate n CHR ''1''"
    unfolding n_def by (rule replicate_length_same [symmetric]) (auto dest: set_takeWhileD)
  then have s: "s = replicate n CHR ''1'' @ drop n s" unfolding start by (metis takeWhile_dropWhile_id)
  from decode_chars_value [OF ds(2), of "[]"] out(1) ds(1)
  have v: "canonical 256 (map unat (rev out))"
    "numeral_value 256 (map unat (rev out)) = numeral_value 58 (map unat (rev ds))"
    by (auto simp: canonical_def)
  have "canonical 58 (map unat ([] :: byte list))" by (simp add: canonical_def)
  from fold_encode_value [OF this, of out] v(2)
  have e: "canonical 58 (map unat (fold encode_byte out []))"
    "numeral_value 58 (map unat (fold encode_byte out [])) = numeral_value 58 (map unat (rev ds))" by simp_all
  have digits: "fold encode_byte out [] = rev ds"
  proof -
    have "canonical 58 (map unat (rev ds))"
    proof (cases "ds = []")
      case False
      then have "unat (hd ds) < 58" using ds(2) by (cases ds) auto
      moreover have "base58_alphabet ! unat (hd ds) \<noteq> CHR ''1''"
        using False ds(1) start hd_dropWhile [of "\<lambda>c. c = CHR ''1''" s] by (cases ds) auto
      ultimately have "hd ds \<noteq> 0" using alphabet_digit(2) by blast
      then have "last (map unat (rev ds)) \<noteq> 0" using False by (simp add: last_map last_rev unat_eq_0)
      then show ?thesis using canonical_of_last [of 58 "map unat (rev ds)"] False ds(2) by (simp add: list_all_iff)
    qed (simp add: canonical_def)
    from canonical_unique [OF e(1) this e(2)] show ?thesis by (simp add: inj_map_eq_map)
  qed
  have "out = [] \<or> hd out \<noteq> 0"
    using canonical_last [OF v(1)] by (cases "out = []") (auto simp: last_map last_rev unat_eq_0)
  then have zeros: "takeWhile (\<lambda>b. b = 0) bs = replicate n 0" unfolding out(2) by (rule takeWhile_replicate)
  show ?thesis
  proof (cases "bs = []")
    case True
    then show ?thesis using out(2) digits s ds(1) by (simp add: encode_base58_def)
  next
    case False
    then have "encode_base58 bs = replicate n CHR ''1'' @ drop n s"
      by (simp add: encode_base58_def Let_def zeros) (simp add: out(2) digits ds(1) rev_map)
    then show ?thesis using s by simp
  qed
qed

text \<open>C26. The base58 codec is a bijection between sequences of bytes and the texts it accepts: a text
  decodes to a sequence of bytes exactly when that sequence is encoded as the text, leading zeros
  included, so no text is accepted that encoding would not give.\<close>

theorem base58_inverse: "decode_base58 s = Inr bs \<longleftrightarrow> encode_base58 bs = s"
  using decode_base58_encode encode_base58_decode by blast

end
