(* ===== verification/Chain_Models.thy ===== *)
theory Chain_Models imports Models begin

text \<open>
  Blocks and transactions of Solana and Midnight (src/src/models/blockchain/solana and
  src/src/models/blockchain/midnight) with the methods that read them. The newtypes around the
  structures of the RPC answers are the structures themselves.
\<close>

section \<open>Solana\<close>

record sol_parsed_instruction =
  spi_type :: string
  spi_info :: json

record sol_instruction =
  si_program_id_index :: byte
  si_accounts :: "byte list"
  si_data :: string
  si_parsed :: "sol_parsed_instruction option"
  si_program :: "string option"
  si_program_id :: "string option"

record sol_lookup =
  sl_account_key :: string
  sl_writable_indexes :: "byte list"
  sl_readonly_indexes :: "byte list"

record sol_message =
  sm_account_keys :: "string list"
  sm_recent_blockhash :: string
  sm_instructions :: "sol_instruction list"
  sm_address_table_lookups :: "sol_lookup list"

record sol_loaded_addresses =
  la_writable :: "string list"
  la_readonly :: "string list"

text \<open>A floating point amount is its printed form.\<close>

record sol_token_amount =
  ta_amount :: string
  ta_decimals :: byte
  ta_ui_amount :: "string option"
  ta_ui_amount_string :: string

record sol_token_balance =
  tb_account_index :: byte
  tb_mint :: string
  tb_owner :: "string option"
  tb_program_id :: "string option"
  tb_ui_token_amount :: sol_token_amount

record sol_inner_instruction =
  ii_index :: byte
  ii_instructions :: "sol_instruction list"

record sol_meta =
  sx_err :: "json option"
  sx_fee :: u64
  sx_pre_balances :: "u64 list"
  sx_post_balances :: "u64 list"
  sx_pre_token_balances :: "sol_token_balance list"
  sx_post_token_balances :: "sol_token_balance list"
  sx_inner_instructions :: "sol_inner_instruction list"
  sx_log_messages :: "string list"
  sx_compute_units_consumed :: "u64 option"
  sx_loaded_addresses :: "sol_loaded_addresses option"

record sol_transaction =
  st_signature :: string
  st_slot :: u64
  st_block_time :: "64 word option"
  st_transaction :: sol_message
  st_meta :: "sol_meta option"

definition sol_is_success :: "sol_transaction \<Rightarrow> bool" where
  "sol_is_success tx = (case st_meta tx of None \<Rightarrow> False | Some m \<Rightarrow> sx_err m = None)"

definition sol_logs :: "sol_transaction \<Rightarrow> string list" where
  "sol_logs tx = (case st_meta tx of None \<Rightarrow> [] | Some m \<Rightarrow> sx_log_messages m)"

definition sol_fee :: "sol_transaction \<Rightarrow> u64" where
  "sol_fee tx = (case st_meta tx of None \<Rightarrow> 0 | Some m \<Rightarrow> sx_fee m)"

definition sol_program_ids :: "sol_transaction \<Rightarrow> string list" where
  "sol_program_ids tx = (let account_keys = sm_account_keys (st_transaction tx) in
     List.map_filter (\<lambda>ix. case si_program_id ix of
         Some program_id \<Rightarrow> Some program_id
       | None \<Rightarrow> (let idx = unat (si_program_id_index ix) in
           if idx < length account_keys then Some (account_keys ! idx) else None))
       (sm_instructions (st_transaction tx)))"

definition sol_fee_payer :: "sol_transaction \<Rightarrow> string option" where
  "sol_fee_payer tx = (case sm_account_keys (st_transaction tx) of
       [] \<Rightarrow> None
     | s # _ \<Rightarrow> if s = [] then None else Some s)"

definition sol_accounts :: "sol_transaction \<Rightarrow> string list" where
  "sol_accounts tx = sm_account_keys (st_transaction tx) @
     (case st_meta tx of None \<Rightarrow> [] | Some m \<Rightarrow> (case sx_loaded_addresses m of
         None \<Rightarrow> []
       | Some loaded \<Rightarrow> la_writable loaded @ la_readonly loaded))"

record sol_block =
  sb_slot :: u64
  sb_blockhash :: string
  sb_previous_blockhash :: string
  sb_parent_slot :: u64
  sb_block_time :: "64 word option"
  sb_block_height :: "u64 option"
  sb_transactions :: "sol_transaction list"

definition sol_block_number :: "sol_block \<Rightarrow> u64 option" where
  "sol_block_number b = Some (sb_slot b)"

section \<open>Midnight\<close>

datatype mid_operation =
    OpCall string string
  | OpDeploy string
  | OpFallibleCoins
  | OpGuaranteedCoins
  | OpMaintain string
  | OpClaimMint "128 word" string

record mid_transaction =
  mt_tx_hash :: string
  mt_operations :: "mid_operation list"
  mt_identifiers :: "string list"

datatype mid_rpc_transaction =
    MidnightTransaction string mid_transaction
  | MalformedMidnightTransaction
  | Timestamp u64
  | RuntimeUpgrade
  | UnknownTransaction

record mid_header =
  mh_parent_hash :: string
  mh_number :: string
  mh_state_root :: string
  mh_extrinsics_root :: string
  mh_digest_logs :: "string list"

record mid_block =
  mb_header :: mid_header
  mb_body :: "mid_rpc_transaction list"
  mb_transactions_index :: "(string \<times> string) list"

text \<open>\<open>trim_start_matches("0x")\<close> and \<open>u64::from_str_radix(_, 16)\<close>, which takes a plus sign and
  fails on an empty text, on other characters and on overflow.\<close>

fun trim_0x :: "string \<Rightarrow> string" where
  "trim_0x (CHR ''0'' # CHR ''x'' # cs) = trim_0x cs"
| "trim_0x cs = cs"

definition hex_val :: "char \<Rightarrow> nat" where
  "hex_val c = (let n = char_code c in if n \<le> 57 then n - 48 else if n \<le> 70 then n - 55 else n - 87)"

definition hex_value :: "string \<Rightarrow> nat" where
  "hex_value s = foldl (\<lambda>a c. 16 * a + hex_val c) 0 s"

definition u64_from_hex :: "string \<Rightarrow> u64 option" where
  "u64_from_hex s = (let t = strip_plus s in
     if t = [] \<or> \<not> list_all is_hexdigit t then None
     else if hex_value t < 18446744073709551616 then Some (word_of_nat (hex_value t)) else None)"

definition mid_block_number :: "mid_block \<Rightarrow> u64 option" where
  "mid_block_number b = Some (case u64_from_hex (trim_0x (mh_number (mb_header b))) of None \<Rightarrow> 0 | Some n \<Rightarrow> n)"

definition mid_contract_addresses :: "mid_transaction \<Rightarrow> string list" where
  "mid_contract_addresses tx = List.map_filter (\<lambda>op. case op of
     OpCall address _ \<Rightarrow> Some address | OpDeploy address \<Rightarrow> Some address | OpMaintain address \<Rightarrow> Some address
     | _ \<Rightarrow> None) (mt_operations tx)"

text \<open>\<open>String::from_utf8\<close>: well-formed byte sequences as in table 3-7 of the Unicode standard. Text
  being bytes, a string that decodes is its bytes.\<close>

definition within :: "nat \<Rightarrow> nat \<Rightarrow> byte \<Rightarrow> bool" where
  "within lo hi b \<longleftrightarrow> lo \<le> unat b \<and> unat b \<le> hi"

fun utf8_valid :: "byte list \<Rightarrow> bool" where
  "utf8_valid [] = True"
| "utf8_valid (a # bs) =
     (if within 0 127 a then utf8_valid bs
      else if within 194 223 a then (case bs of b # cs \<Rightarrow> within 128 191 b \<and> utf8_valid cs | _ \<Rightarrow> False)
      else if within 224 239 a then (case bs of
          b # c # cs \<Rightarrow> within (if a = 224 then 160 else 128) (if a = 237 then 159 else 191) b \<and> within 128 191 c
            \<and> utf8_valid cs
        | _ \<Rightarrow> False)
      else if within 240 244 a then (case bs of
          b # c # d # cs \<Rightarrow> within (if a = 240 then 144 else 128) (if a = 244 then 143 else 191) b \<and> within 128 191 c
            \<and> within 128 191 d \<and> utf8_valid cs
        | _ \<Rightarrow> False)
      else False)"

definition string_from_utf8 :: "byte list \<Rightarrow> string option" where
  "string_from_utf8 bs = (if utf8_valid bs then Some (map (\<lambda>b. char_of (unat b)) bs) else None)"

text \<open>Entry points are hexadecimal; one that does not decode is empty. The decoder is the library's.\<close>

definition decode_entry_point :: "(string \<Rightarrow> byte list option) \<Rightarrow> string \<Rightarrow> string" where
  "decode_entry_point hex_decode entry_point =
     (let bytes = (case hex_decode entry_point of None \<Rightarrow> [] | Some bs \<Rightarrow> bs)
      in case string_from_utf8 bytes of None \<Rightarrow> [] | Some s \<Rightarrow> s)"

definition mid_entry_points :: "(string \<Rightarrow> byte list option) \<Rightarrow> mid_transaction \<Rightarrow> string list" where
  "mid_entry_points hex_decode tx = List.map_filter (\<lambda>op. case op of
     OpCall _ entry_point \<Rightarrow> Some (decode_entry_point hex_decode entry_point) | _ \<Rightarrow> None) (mt_operations tx)"

definition mid_addresses_and_entry_points :: "(string \<Rightarrow> byte list option) \<Rightarrow> mid_transaction \<Rightarrow> (string \<times> string) list" where
  "mid_addresses_and_entry_points hex_decode tx =
     filter (\<lambda>(addr, entry_point). addr \<noteq> [] \<and> entry_point \<noteq> []) (map (\<lambda>op. case op of
         OpCall address entry_point \<Rightarrow> (address, decode_entry_point hex_decode entry_point)
       | OpDeploy address \<Rightarrow> (address, [])
       | OpMaintain address \<Rightarrow> (address, [])
       | _ \<Rightarrow> ([], [])) (mt_operations tx))"

subsection \<open>Events\<close>

datatype mid_phase = ApplyExtrinsic u32 | Finalization | Initialization

text \<open>The details of the kinds of events: phase, topics, then the fields of the kind.\<close>

record mid_details =
  md_phase :: mid_phase
  md_topics :: "string list"

record mid_tx_details = mid_details +
  md_tx_hash :: string

record mid_contract_details = mid_tx_details +
  md_address :: string

record mid_claim_details = mid_tx_details +
  md_coin_type :: string
  md_value :: "128 word"

record mid_payout_details = mid_details +
  md_amount :: "128 word"
  md_receiver :: string

datatype mid_event =
    MidnightCallContract mid_contract_details
  | MidnightDeployContract mid_contract_details
  | MidnightTxApplied mid_tx_details
  | MidnightOnlyGuaranteedTxApplied mid_tx_details
  | MidnightMaintainContract mid_contract_details
  | MidnightPayoutMinted mid_payout_details
  | MidnightClaimMint mid_claim_details
  | UnknownEvent string

fun mid_is_tx_applied :: "mid_event \<Rightarrow> bool" where
  "mid_is_tx_applied (MidnightTxApplied _) = True"
| "mid_is_tx_applied _ = False"

fun mid_is_only_guaranteed_tx_applied :: "mid_event \<Rightarrow> bool" where
  "mid_is_only_guaranteed_tx_applied (MidnightOnlyGuaranteedTxApplied _) = True"
| "mid_is_only_guaranteed_tx_applied _ = False"

definition mid_is_success :: "mid_event \<Rightarrow> bool" where
  "mid_is_success e \<longleftrightarrow> mid_is_tx_applied e \<or> mid_is_only_guaranteed_tx_applied e"

fun mid_event_tx_hash :: "mid_event \<Rightarrow> string option" where
  "mid_event_tx_hash (MidnightTxApplied d) = Some (md_tx_hash d)"
| "mid_event_tx_hash (MidnightOnlyGuaranteedTxApplied d) = Some (md_tx_hash d)"
| "mid_event_tx_hash (MidnightCallContract d) = Some (md_tx_hash d)"
| "mid_event_tx_hash (MidnightDeployContract d) = Some (md_tx_hash d)"
| "mid_event_tx_hash (MidnightMaintainContract d) = Some (md_tx_hash d)"
| "mid_event_tx_hash (MidnightClaimMint d) = Some (md_tx_hash d)"
| "mid_event_tx_hash (MidnightPayoutMinted _) = None"
| "mid_event_tx_hash (UnknownEvent _) = None"

fun mid_event_topics :: "mid_event \<Rightarrow> string list option" where
  "mid_event_topics (MidnightTxApplied d) = Some (md_topics d)"
| "mid_event_topics (MidnightOnlyGuaranteedTxApplied d) = Some (md_topics d)"
| "mid_event_topics (MidnightCallContract d) = Some (md_topics d)"
| "mid_event_topics (MidnightDeployContract d) = Some (md_topics d)"
| "mid_event_topics (MidnightMaintainContract d) = Some (md_topics d)"
| "mid_event_topics (MidnightPayoutMinted d) = Some (md_topics d)"
| "mid_event_topics (MidnightClaimMint d) = Some (md_topics d)"
| "mid_event_topics (UnknownEvent _) = None"

fun mid_event_phase :: "mid_event \<Rightarrow> mid_phase option" where
  "mid_event_phase (MidnightTxApplied d) = Some (md_phase d)"
| "mid_event_phase (MidnightOnlyGuaranteedTxApplied d) = Some (md_phase d)"
| "mid_event_phase (MidnightCallContract d) = Some (md_phase d)"
| "mid_event_phase (MidnightDeployContract d) = Some (md_phase d)"
| "mid_event_phase (MidnightMaintainContract d) = Some (md_phase d)"
| "mid_event_phase (MidnightPayoutMinted d) = Some (md_phase d)"
| "mid_event_phase (MidnightClaimMint d) = Some (md_phase d)"
| "mid_event_phase (UnknownEvent _) = None"

section \<open>Blocks of the chains other than EVM\<close>

text \<open>\<open>'s\<close> is the type of Stellar blocks.\<close>

datatype 's chain_block = BlockSolana sol_block | BlockMidnight mid_block | BlockStellar 's

end
