(* ===== verification/Solana_Filter.thy ===== *)
theory Solana_Filter imports Evm_Filter Chain_Models Solana_Values begin

text \<open>
  The Solana condition evaluator and block filter (src/src/services/filter/filters/solana):
  comparison of parameters with literals by kind, and which transactions of a block match which
  monitors. The JSON library is a parameter, as for the other chains.
\<close>

section \<open>The evaluator\<close>

text \<open>\<open>str::parse\<close> for the 128-bit integers: the signed one takes either sign.\<close>

definition parse_u128 :: "string \<Rightarrow> 128 word option" where
  "parse_u128 s = (let t = strip_plus s in
     if t = [] \<or> \<not> list_all is_digit t then None
     else let n = int (digits_value t) in
       if n < 340282366920938463463374607431768211456 then Some (word_of_int n) else None)"

definition parse_i128 :: "string \<Rightarrow> int option" where
  "parse_i128 s =
     (let negative = (s \<noteq> [] \<and> hd s = CHR ''-''); t = (if negative then tl s else strip_plus s) in
      if t = [] \<or> \<not> list_all is_digit t then None
      else let n = int (digits_value t); v = (if negative then - n else n) in
        if - 170141183460469231731687303715884105728 \<le> v \<and> v < 170141183460469231731687303715884105728
        then Some v else None)"

definition sol_unsigned_kinds :: "string list" where
  "sol_unsigned_kinds = [''u8'', ''u16'', ''u32'', ''u64'', ''u128'']"

definition sol_signed_kinds :: "string list" where
  "sol_signed_kinds = [''i8'', ''i16'', ''i32'', ''i64'', ''i128'']"

definition sol_compare_string :: "string \<Rightarrow> comparison_operator \<Rightarrow> literal_value \<Rightarrow> evaluation_error + bool" where
  "sol_compare_string lhs op lit = res_bind
     (case lit of
        LStr s \<Rightarrow> Inr s
      | LNumber n \<Rightarrow> Inr n
      | LBool _ \<Rightarrow> Inl (TypeMismatch ''Expected string for comparison''))
     (\<lambda>rhs. case op of
        OpEq \<Rightarrow> Inr (lhs = rhs)
      | OpNe \<Rightarrow> Inr (lhs \<noteq> rhs)
      | OpContains \<Rightarrow> Inr (sublist rhs lhs)
      | _ \<Rightarrow> Inl (TypeMismatch ''Operator not supported for string comparison''))"

definition sol_parse_bool :: "string \<Rightarrow> evaluation_error + bool" where
  "sol_parse_bool s = (case parse_bool s of
     Some b \<Rightarrow> Inr b | None \<Rightarrow> Inl (TypeMismatch (''Cannot parse '' @ s @ '' as boolean'')))"

definition sol_compare_bool :: "string \<Rightarrow> comparison_operator \<Rightarrow> literal_value \<Rightarrow> evaluation_error + bool" where
  "sol_compare_bool lhs op lit = res_bind (sol_parse_bool lhs) (\<lambda>l. res_bind
     (case lit of
        LBool b \<Rightarrow> Inr b
      | LStr s \<Rightarrow> sol_parse_bool s
      | LNumber _ \<Rightarrow> Inl (TypeMismatch ''Expected boolean for comparison''))
     (\<lambda>r. case op of
        OpEq \<Rightarrow> Inr (l = r)
      | OpNe \<Rightarrow> Inr (l \<noteq> r)
      | _ \<Rightarrow> Inl (TypeMismatch ''Operator not supported for boolean comparison'')))"

text \<open>The integer branches: the literal's text, then both sides parsed, the left one first.\<close>

definition sol_compare_integer :: "string \<Rightarrow> string \<Rightarrow> (string \<Rightarrow> 'n::linorder option) \<Rightarrow> string \<Rightarrow>
  comparison_operator \<Rightarrow> literal_value \<Rightarrow> evaluation_error + bool" where
  "sol_compare_integer what ty parse lhs op lit = res_bind
     (case lit of
        LNumber n \<Rightarrow> Inr n
      | LStr s \<Rightarrow> Inr s
      | LBool _ \<Rightarrow> Inl (TypeMismatch ''Expected number for comparison''))
     (\<lambda>rhs. case parse lhs of
        None \<Rightarrow> Inl (TypeMismatch (''Cannot parse '' @ lhs @ '' as '' @ what))
      | Some l \<Rightarrow> (case parse rhs of
          None \<Rightarrow> Inl (TypeMismatch (''Cannot parse '' @ rhs @ '' as '' @ what))
        | Some r \<Rightarrow> compare_ordered_values ty l op r))"

definition sol_compare_final_values :: "string \<Rightarrow> string \<Rightarrow> comparison_operator \<Rightarrow> literal_value \<Rightarrow> evaluation_error + bool" where
  "sol_compare_final_values left_kind val op lit =
     (let kind = to_lowercase left_kind in
      if kind \<in> set sol_unsigned_kinds then sol_compare_integer ''unsigned integer'' ''u128'' parse_u128 val op lit
      else if kind \<in> set sol_signed_kinds then sol_compare_integer ''signed integer'' ''i128'' parse_i128 val op lit
      else if kind = ''bool'' then sol_compare_bool val op lit
      else sol_compare_string val op lit)"

definition sol_get_base_param :: "match_param_entry list \<Rightarrow> string \<Rightarrow> evaluation_error + string \<times> string" where
  "sol_get_base_param args name = (case find (\<lambda>p. pe_name p = name) args of
       Some p \<Rightarrow> Inr (pe_value p, pe_kind p)
     | None \<Rightarrow> Inl (TypeMismatch (''Unknown parameter: '' @ name)))"

text \<open>\<open>Number::is_i64\<close>: an integer below the bound of the signed type.\<close>

definition sol_kind_from_json_value :: "json \<Rightarrow> string" where
  "sol_kind_from_json_value j = (case j of
       JBool _ \<Rightarrow> ''bool''
     | JNumber n \<Rightarrow> (case n of
         PosInt u \<Rightarrow> if u < 9223372036854775808 then ''i64'' else ''u64''
       | NegInt _ \<Rightarrow> ''i64''
       | Float _ \<Rightarrow> ''f64'')
     | JString _ \<Rightarrow> ''string''
     | JArray _ \<Rightarrow> ''vec''
     | JObject _ \<Rightarrow> ''object''
     | JNull \<Rightarrow> ''null'')"

definition sol_evaluator :: "match_param_entry list \<Rightarrow> condition_evaluator" where
  "sol_evaluator args = \<lparr>
     get_base_param = sol_get_base_param args,
     compare_final_values = sol_compare_final_values,
     get_kind_from_json_value = sol_kind_from_json_value\<rparr>"

section \<open>Matches\<close>

record sol_params_map =
  sp_signature :: string
  sp_args :: "match_param_entry list option"

record sol_match_arguments =
  sa_functions :: "sol_params_map list option"
  sa_events :: "sol_params_map list option"

record 'abi sol_monitor_match =
  so_monitor :: "'abi monitor"
  so_transaction :: sol_transaction
  so_block :: sol_block
  so_network_slug :: string
  so_matched_on :: match_conditions
  so_matched_on_args :: "sol_match_arguments option"

section \<open>Transactions\<close>

definition sol_evaluate_expression :: "json_lib \<Rightarrow> string \<Rightarrow> match_param_entry list \<Rightarrow> evaluation_error + bool" where
  "sol_evaluate_expression jl expr args =
     (if trim expr = [] then Inl (ParseError ''Expression cannot be empty'')
      else case parse_filter_expression expr of
          None \<Rightarrow> Inl (ParseError (''Failed to parse expression: '' @ expr))
        | Some ast \<Rightarrow> evaluate jl (sol_evaluator args) ast)"

definition sol_transaction_params :: "sol_transaction \<Rightarrow> match_param_entry list" where
  "sol_transaction_params tx =
     [entry ''signature'' (st_signature tx) ''string'',
      entry ''slot'' (show_word (st_slot tx)) ''u64'',
      entry ''fee'' (show_word (sol_fee tx)) ''u64'',
      entry ''is_success'' (show_bool (sol_is_success tx)) ''bool'']
     @ (case sol_fee_payer tx of None \<Rightarrow> [] | Some p \<Rightarrow> [entry ''fee_payer'' p ''pubkey''])
     @ (let accounts = sol_accounts tx in
        if accounts = [] then [] else [entry ''accounts'' (''|'' @ join_with ''|'' accounts @ ''|'') ''string''])"

fun sol_transaction_conditions :: "json_lib \<Rightarrow> transaction_status \<Rightarrow> sol_transaction \<Rightarrow> transaction_condition list \<Rightarrow>
  transaction_condition list" where
  "sol_transaction_conditions jl st tx [] = []"
| "sol_transaction_conditions jl st tx (c # cs) =
     (if tc_status c = AnyStatus \<or> tc_status c = st then
        (case tc_expression c of
           Some expr \<Rightarrow> (case sol_evaluate_expression jl expr (sol_transaction_params tx) of
               Inr True \<Rightarrow> [\<lparr>tc_status = st, tc_expression = Some expr\<rparr>]
             | _ \<Rightarrow> sol_transaction_conditions jl st tx cs)
         | None \<Rightarrow> c # sol_transaction_conditions jl st tx cs)
      else sol_transaction_conditions jl st tx cs)"

definition sol_find_matching_transaction :: "json_lib \<Rightarrow> sol_transaction \<Rightarrow> 'abi monitor \<Rightarrow> transaction_condition list" where
  "sol_find_matching_transaction jl tx m =
     (let tx_status = (if sol_is_success tx then Success else Failure);
          conds = mc_transactions (mon_match_conditions m) in
      if conds = [] then [\<lparr>tc_status = AnyStatus, tc_expression = None\<rparr>]
      else sol_transaction_conditions jl tx_status tx conds)"

section \<open>Events\<close>

text \<open>\<open>split('(').next()\<close>: the signature up to its first parenthesis.\<close>

definition before_parenthesis :: "string \<Rightarrow> string" where
  "before_parenthesis s = takeWhile (\<lambda>c. c \<noteq> CHR ''('') s"

text \<open>A condition matches the first log that contains its pattern; its entry in the arguments is that log.\<close>

definition sol_event_condition :: "string list \<Rightarrow> event_condition \<Rightarrow> (event_condition \<times> sol_params_map) option" where
  "sol_event_condition logs c = map_option (\<lambda>log.
      (\<lparr>ec_signature = ec_signature c, ec_expression = None\<rparr>,
       \<lparr>sp_signature = ec_signature c, sp_args = Some [entry ''log'' log ''string'']\<rparr>))
     (find (\<lambda>log. sublist (before_parenthesis (ec_signature c)) log) logs)"

definition sol_find_matching_events :: "sol_transaction \<Rightarrow> 'abi monitor \<Rightarrow> (event_condition \<times> sol_params_map) list" where
  "sol_find_matching_events tx m =
     (let conds = mc_events (mon_match_conditions m); logs = sol_logs tx in
      if conds = [] then [] else if logs = [] then []
      else List.map_filter (sol_event_condition logs) conds)"

section \<open>The block\<close>

definition eq_ignore_ascii_case :: "string \<Rightarrow> string \<Rightarrow> bool" where
  "eq_ignore_ascii_case a b \<longleftrightarrow> to_lowercase a = to_lowercase b"

definition get_solana_spec :: "(string \<times> 'abi contract_spec) list option \<Rightarrow> string \<Rightarrow> json option" where
  "get_solana_spec specs address = (case specs of
       None \<Rightarrow> None
     | Some l \<Rightarrow> (case find (\<lambda>(addr, _). eq_ignore_ascii_case addr address) l of
         Some (_, SpecSolana s) \<Rightarrow> Some s
       | _ \<Rightarrow> None))"

definition sol_involves :: "'abi monitor \<Rightarrow> sol_transaction \<Rightarrow> bool" where
  "sol_involves m tx \<longleftrightarrow> list_ex (\<lambda>program_id. list_ex (\<lambda>a. eq_ignore_ascii_case (aw_address a) program_id)
     (mon_addresses m)) (sol_program_ids tx)"

text \<open>One monitor and one transaction. The contract specification that the code looks up is passed to
  the matching of events, which does not use it.\<close>

definition sol_match_transaction :: "json_lib \<Rightarrow> network \<Rightarrow> sol_block \<Rightarrow> 'abi monitor \<Rightarrow> sol_transaction \<Rightarrow>
  'abi sol_monitor_match list" where
  "sol_match_transaction jl net b m tx =
     (if \<not> sol_involves m tx then []
      else let txs = sol_find_matching_transaction jl tx m;
               evs = sol_find_matching_events tx m;
               has_transaction_match = (txs \<noteq> []);
               has_event_match = (evs \<noteq> []);
               should = (if mc_events (mon_match_conditions m) = [] then has_transaction_match
                 else has_event_match \<and> has_transaction_match)
           in if \<not> should then []
              else [\<lparr>so_monitor = m, so_transaction = tx, so_block = b, so_network_slug = slug net,
                     so_matched_on = \<lparr>mc_functions = [], mc_events = map fst evs, mc_transactions = txs\<rparr>,
                     so_matched_on_args = Some \<lparr>sa_functions = Some [], sa_events = Some (map snd evs)\<rparr>\<rparr>])"

definition sol_filter_block :: "json_lib \<Rightarrow> network \<Rightarrow> 's chain_block block_type \<Rightarrow> 'abi monitor list \<Rightarrow>
  (string \<times> 'abi contract_spec) list option \<Rightarrow> filter_error + 'abi sol_monitor_match list" where
  "sol_filter_block jl net block monitors specs = (case block of
       BlockOther (BlockSolana b) \<Rightarrow>
         Inr (concat (map (\<lambda>m. concat (map (sol_match_transaction jl net b m) (sb_transactions b))) monitors))
     | _ \<Rightarrow> Inl (Filter_internal_error ''Expected Solana block type''))"

end
