(* ===== verification/Solana_Filter_Properties.thy ===== *)
theory Solana_Filter_Properties imports Solana_Filter Evm_Evaluator_Properties begin

text \<open>
  What the Solana filter guarantees: exactly which transactions match a monitor, which parts of a
  monitor have no influence, the exact search for accounts, and what ignoring the case of
  addresses conflates.
\<close>

section \<open>The evaluator interface\<close>

lemma sol_compare_string_ne: "sol_compare_string v OpNe lit = negate_result (sol_compare_string v OpEq lit)"
  by (simp add: sol_compare_string_def negate_result_bind)

lemma sol_compare_bool_ne: "sol_compare_bool v OpNe lit = negate_result (sol_compare_bool v OpEq lit)"
  by (simp add: sol_compare_bool_def negate_result_bind)

lemma sol_compare_integer_ne:
  "sol_compare_integer what ty parse v OpNe lit = negate_result (sol_compare_integer what ty parse v OpEq lit)"
  by (auto simp: sol_compare_integer_def negate_result_bind compare_ordered_ne intro!: arg_cong2 [where f = res_bind]
      split: option.splits)

lemmas sol_compare_ne = sol_compare_string_ne sol_compare_bool_ne sol_compare_integer_ne

interpretation solana_chain: chain_evaluator "sol_evaluator args" for args
  by standard (simp add: sol_evaluator_def sol_compare_final_values_def Let_def sol_compare_ne)

section \<open>What matches\<close>

text \<open>When a condition accepts a transaction.\<close>

definition sol_accepts :: "json_lib \<Rightarrow> sol_transaction \<Rightarrow> transaction_condition \<Rightarrow> bool" where
  "sol_accepts jl tx c \<longleftrightarrow>
     (tc_status c = AnyStatus \<or> tc_status c = (if sol_is_success tx then Success else Failure))
     \<and> (case tc_expression c of None \<Rightarrow> True
        | Some e \<Rightarrow> sol_evaluate_expression jl e (sol_transaction_params tx) = Inr True)"

definition sol_event_found :: "sol_transaction \<Rightarrow> event_condition \<Rightarrow> bool" where
  "sol_event_found tx c \<longleftrightarrow> list_ex (sublist (before_parenthesis (ec_signature c))) (sol_logs tx)"

text \<open>The monitors' decision, without an order of its parts.\<close>

definition sol_decides :: "json_lib \<Rightarrow> 'abi monitor \<Rightarrow> sol_transaction \<Rightarrow> bool" where
  "sol_decides jl m tx \<longleftrightarrow> sol_involves m tx
     \<and> (mc_transactions (mon_match_conditions m) = [] \<or> list_ex (sol_accepts jl tx) (mc_transactions (mon_match_conditions m)))
     \<and> (mc_events (mon_match_conditions m) = [] \<or> list_ex (sol_event_found tx) (mc_events (mon_match_conditions m)))"

lemma sol_transaction_conditions_empty:
  "sol_transaction_conditions jl (if sol_is_success tx then Success else Failure) tx conds = [] \<longleftrightarrow>
     \<not> list_ex (sol_accepts jl tx) conds"
proof (induction conds)
  case (Cons c cs)
  let ?st = "if sol_is_success tx then Success else Failure"
  have "sol_transaction_conditions jl ?st tx (c # cs) = [] \<longleftrightarrow>
      \<not> sol_accepts jl tx c \<and> sol_transaction_conditions jl ?st tx cs = []"
    by (auto simp: sol_accepts_def [of jl tx c] split: option.splits sum.splits bool.splits)
  with Cons.IH show ?case by simp
qed simp

lemma sol_transactions_found:
  "sol_find_matching_transaction jl tx m \<noteq> [] \<longleftrightarrow>
     mc_transactions (mon_match_conditions m) = [] \<or> list_ex (sol_accepts jl tx) (mc_transactions (mon_match_conditions m))"
  by (simp add: sol_find_matching_transaction_def Let_def sol_transaction_conditions_empty)

lemma sol_find_matching_events_eq:
  "sol_find_matching_events tx m = List.map_filter (sol_event_condition (sol_logs tx)) (mc_events (mon_match_conditions m))"
proof -
  have "List.map_filter (sol_event_condition []) conds = []" for conds
    by (simp add: map_filter_empty sol_event_condition_def)
  then show ?thesis by (simp add: sol_find_matching_events_def Let_def List.map_filter_simps)
qed

lemma sol_events_found:
  "sol_find_matching_events tx m \<noteq> [] \<longleftrightarrow> list_ex (sol_event_found tx) (mc_events (mon_match_conditions m))"
  by (simp add: sol_find_matching_events_eq map_filter_empty sol_event_condition_def find_none_ex)
    (auto simp: sol_event_found_def list_ex_iff)

lemma sol_match_transaction_iff:
  "sol_match_transaction jl net b m tx = (if sol_decides jl m tx
     then [\<lparr>so_monitor = m, so_transaction = tx, so_block = b, so_network_slug = slug net,
            so_matched_on = \<lparr>mc_functions = [], mc_events = map fst (sol_find_matching_events tx m),
              mc_transactions = sol_find_matching_transaction jl tx m\<rparr>,
            so_matched_on_args = Some \<lparr>sa_functions = Some [], sa_events = Some (map snd (sol_find_matching_events tx m))\<rparr>\<rparr>]
     else [])"
  unfolding sol_match_transaction_def Let_def sol_transactions_found sol_events_found sol_decides_def by auto

lemma sol_events_named:
  "map ec_signature (map fst (sol_find_matching_events tx m))
    = map ec_signature (filter (sol_event_found tx) (mc_events (mon_match_conditions m)))"
proof -
  have one: "(case sol_event_condition (sol_logs tx) c of None \<Rightarrow> [] | Some p \<Rightarrow> [ec_signature (fst p)])
      = (if sol_event_found tx c then [ec_signature c] else [])" for c
    using find_none_ex [of "sublist (before_parenthesis (ec_signature c))" "sol_logs tx"]
    by (auto simp: sol_event_condition_def sol_event_found_def split: option.splits)
  have "map ec_signature (map fst (List.map_filter (sol_event_condition (sol_logs tx)) cs))
      = map ec_signature (filter (sol_event_found tx) cs)" for cs
  proof (induction cs)
    case (Cons c cs)
    then show ?case using one [of c] by (auto simp: List.map_filter_simps split: option.splits if_splits)
  qed (simp add: List.map_filter_simps)
  then show ?thesis by (simp add: sol_find_matching_events_eq)
qed

text \<open>C25. The Solana filter fails only on a block of another chain, and otherwise its matches are, in the
  order of the monitors and then of the transactions, exactly the transactions that invoke a
  monitored program, satisfy one of the transaction conditions if there are any, and have a log
  with the pattern of one of the event conditions if there are any; a match names the events and
  conditions found.\<close>

theorem sol_filter_exact:
  "(case block of
      BlockOther (BlockSolana b) \<Rightarrow> (\<exists>ms. sol_filter_block jl net block monitors specs = Inr ms
        \<and> map (\<lambda>r. (so_monitor r, so_transaction r)) ms
          = concat (map (\<lambda>m. map (\<lambda>tx. (m, tx)) (filter (sol_decides jl m) (sb_transactions b))) monitors)
        \<and> list_all (\<lambda>r. so_network_slug r = slug net \<and> so_block r = b
            \<and> mc_transactions (so_matched_on r) = sol_find_matching_transaction jl (so_transaction r) (so_monitor r)
            \<and> map ec_signature (mc_events (so_matched_on r))
              = map ec_signature (filter (sol_event_found (so_transaction r)) (mc_events (mon_match_conditions (so_monitor r))))) ms)
    | _ \<Rightarrow> \<not> is_ok (sol_filter_block jl net block monitors specs))"
proof (cases "\<exists>b. block = BlockOther (BlockSolana b)")
  case True
  then obtain b where b: "block = BlockOther (BlockSolana b)" by blast
  let ?ms = "\<lambda>m. concat (map (sol_match_transaction jl net b m) (sb_transactions b))"
  have pairs: "map (\<lambda>r. (so_monitor r, so_transaction r)) (?ms m)
      = map (\<lambda>tx. (m, tx)) (filter (sol_decides jl m) (sb_transactions b))" for m
    by (rule map_concat_filter) (simp add: sol_match_transaction_iff)
  have all: "map (\<lambda>r. (so_monitor r, so_transaction r)) (concat (map ?ms monitors))
      = concat (map (\<lambda>m. map (\<lambda>tx. (m, tx)) (filter (sol_decides jl m) (sb_transactions b))) monitors)"
    by (induction monitors) (simp_all add: pairs)
  show ?thesis
    by (simp add: b sol_filter_block_def all del: map_map)
      (simp add: list_all_iff sol_match_transaction_iff sol_events_named del: map_map)
next
  case False
  then show ?thesis by (auto simp: sol_filter_block_def split: block_type.splits chain_block.splits)
qed

text \<open>Function conditions, the expressions of event conditions and the contract specifications have
  no influence: removing them from every monitor changes nothing but the monitor that a match
  records, so a monitor with function conditions alone matches every transaction of its program.\<close>

definition sol_erase :: "'abi monitor \<Rightarrow> 'abi monitor" where
  "sol_erase m = m\<lparr>mon_match_conditions := (mon_match_conditions m)
     \<lparr>mc_functions := [], mc_events := map (\<lambda>c. c\<lparr>ec_expression := None\<rparr>) (mc_events (mon_match_conditions m))\<rparr>\<rparr>"

lemma sol_erase_conditions:
  "mc_events (mon_match_conditions (sol_erase m)) = map (\<lambda>c. c\<lparr>ec_expression := None\<rparr>) (mc_events (mon_match_conditions m))"
  "mc_transactions (mon_match_conditions (sol_erase m)) = mc_transactions (mon_match_conditions m)"
  "mon_addresses (sol_erase m) = mon_addresses m"
  by (simp_all add: sol_erase_def)

lemma sol_erase_events: "sol_find_matching_events tx (sol_erase m) = sol_find_matching_events tx m"
proof -
  have "sol_event_condition logs (c\<lparr>ec_expression := None\<rparr>) = sol_event_condition logs c" for logs c
    by (simp add: sol_event_condition_def)
  then have "List.map_filter (sol_event_condition logs) (map (\<lambda>c. c\<lparr>ec_expression := None\<rparr>) cs)
      = List.map_filter (sol_event_condition logs) cs" for logs cs
    by (induction cs) (simp_all add: List.map_filter_simps split: option.split)
  then show ?thesis by (simp add: sol_find_matching_events_eq sol_erase_conditions)
qed

lemma sol_erase_match:
  "sol_match_transaction jl net b (sol_erase m)
    = (\<lambda>tx. map (\<lambda>r. r\<lparr>so_monitor := sol_erase (so_monitor r)\<rparr>) (sol_match_transaction jl net b m tx))"
proof
  fix tx
  have "sol_involves (sol_erase m) tx = sol_involves m tx"
    "sol_find_matching_transaction jl tx (sol_erase m) = sol_find_matching_transaction jl tx m"
    by (simp_all add: sol_involves_def sol_find_matching_transaction_def sol_erase_conditions)
  then show "sol_match_transaction jl net b (sol_erase m) tx
      = map (\<lambda>r. r\<lparr>so_monitor := sol_erase (so_monitor r)\<rparr>) (sol_match_transaction jl net b m tx)"
    by (simp add: sol_match_transaction_def Let_def sol_erase_events sol_erase_conditions)
qed

theorem sol_unused_conditions:
  "sol_filter_block jl net block (map sol_erase monitors) specs'
    = map_sum id (map (\<lambda>r. r\<lparr>so_monitor := sol_erase (so_monitor r)\<rparr>)) (sol_filter_block jl net block monitors specs)"
  by (simp add: sol_filter_block_def map_concat comp_def sol_erase_match split: block_type.split chain_block.split)

section \<open>Accounts\<close>

lemma takeWhile_delimited: "d \<notin> set x \<Longrightarrow> takeWhile (\<lambda>c. c \<noteq> d) (x @ d # s) = x"
  by (induction x) auto

lemma delimited_inside:
  assumes "d \<notin> set x" "\<forall>a \<in> set as. d \<notin> set a"
    and "d # concat (map (\<lambda>a. a @ [d]) as) = p @ d # x @ d # s"
  shows "x \<in> set as"
  using assms(2,3)
proof (induction as arbitrary: p)
  case Nil
  then show ?case by (auto simp: Cons_eq_append_conv)
next
  case (Cons a as)
  let ?rest = "concat (map (\<lambda>a. a @ [d]) as)"
  have da: "d \<notin> set a" using Cons.prems(1) by simp
  show ?case
  proof (cases p)
    case Nil
    then have "a @ d # ?rest = x @ d # s" using Cons.prems(2) by simp
    then have "a = x" using takeWhile_delimited [OF da] takeWhile_delimited [OF assms(1)] by metis
    then show ?thesis by simp
  next
    case (Cons c p')
    then have eq: "a @ d # ?rest = p' @ d # x @ d # s" using Cons.prems(2) by auto
    then obtain q where "p' = a @ q \<and> d # ?rest = q @ d # x @ d # s"
      using da by (auto simp: append_eq_append_conv2 Cons_eq_append_conv append_eq_Cons_conv)
    then show ?thesis using Cons.IH Cons.prems(1) by auto
  qed
qed

lemma joined_delimited: "as \<noteq> [] \<Longrightarrow> [d] @ join_with [d] as @ [d] = d # concat (map (\<lambda>a. a @ [d]) as)"
proof (induction as)
  case (Cons a as)
  then show ?case by (cases as) auto
qed simp

lemma sublist_joined_iff:
  assumes "d \<notin> set x" "\<forall>a \<in> set as. d \<notin> set a" "as \<noteq> []"
  shows "sublist ([d] @ x @ [d]) ([d] @ join_with [d] as @ [d]) \<longleftrightarrow> x \<in> set as"
proof
  assume "sublist ([d] @ x @ [d]) ([d] @ join_with [d] as @ [d])"
  then obtain p s where "d # concat (map (\<lambda>a. a @ [d]) as) = p @ d # x @ d # s"
    unfolding joined_delimited [OF assms(3)] sublist_def by auto
  then show "x \<in> set as" by (rule delimited_inside [OF assms(1,2)])
next
  assume "x \<in> set as"
  then obtain us vs where as: "as = us @ x # vs" by (auto dest: split_list)
  let ?c = "\<lambda>as. concat (map (\<lambda>a. a @ [d]) as)"
  have "last (d # ?c us) = d" by (induction us) auto
  then have "d # ?c us = butlast (d # ?c us) @ [d]" by (metis append_butlast_last_id list.distinct(1))
  then have "d # ?c as = butlast (d # ?c us) @ ([d] @ x @ [d]) @ ?c vs"
    by (simp add: as)
  then show "sublist ([d] @ x @ [d]) ([d] @ join_with [d] as @ [d])"
    unfolding joined_delimited [OF assms(3)] sublist_def by blast
qed

text \<open>The search for an account between bars is exact: on a transaction with accounts, the condition
  that the variable \<open>accounts\<close> contains the address between bars holds exactly when the address is
  one of the accounts, static or loaded, since addresses have no bars.\<close>

theorem accounts_search_exact:
  assumes "CHR ''|'' \<notin> set x" "\<forall>a \<in> set (sol_accounts tx). CHR ''|'' \<notin> set a" "sol_accounts tx \<noteq> []"
  shows "evaluate jl (sol_evaluator (sol_transaction_params tx))
      (Condition \<lparr>cond_left = Simple ''accounts'', cond_operator = OpContains, cond_right = LStr (''|'' @ x @ ''|'')\<rparr>)
    = Inr (x \<in> set (sol_accounts tx))"
proof -
  have "find (\<lambda>p. pe_name p = ''accounts'') (sol_transaction_params tx)
      = Some (entry ''accounts'' (''|'' @ join_with ''|'' (sol_accounts tx) @ ''|'') ''string'')"
    using assms(3) by (simp add: sol_transaction_params_def entry_def Let_def split: option.split)
  moreover have "to_lowercase ''string'' = ''string''" by code_simp
  ultimately show ?thesis
    using sublist_joined_iff [OF assms]
    by (simp add: evaluate_condition_def sol_evaluator_def sol_get_base_param_def sol_compare_final_values_def
        sol_compare_string_def sol_unsigned_kinds_def sol_signed_kinds_def entry_def)
qed

definition sample_sol_tx :: sol_transaction where
  "sample_sol_tx = \<lparr>st_signature = ''s'', st_slot = 7, st_block_time = None,
     st_transaction = \<lparr>sm_account_keys = [''Ab'', ''c''], sm_recent_blockhash = ''h'', sm_instructions = [],
       sm_address_table_lookups = []\<rparr>, st_meta = None\<rparr>"

lemma sample_sol_accounts: "sol_accounts sample_sol_tx = [''Ab'', ''c'']"
  by (simp add: sol_accounts_def sample_sol_tx_def)

theorem accounts_search_exact_witness:
  "evaluate sample_json_lib (sol_evaluator (sol_transaction_params sample_sol_tx))
      (Condition \<lparr>cond_left = Simple ''accounts'', cond_operator = OpContains, cond_right = LStr ''|b|''\<rparr>)
    = Inr False"
  using accounts_search_exact [of "''b''" sample_sol_tx sample_json_lib] by (simp add: sample_sol_accounts)

text \<open>Ignoring case conflates programs: two valid public keys that differ only in case are
  different keys, and different addresses for the helpers, but a monitor of one involves exactly the
  transactions that a monitor of the other does.\<close>

theorem sol_case_conflates:
  "\<exists>a b. is_valid_pubkey a \<and> is_valid_pubkey b \<and> decode_base58 a \<noteq> decode_base58 b \<and> \<not> solana_same_address a b
    \<and> (\<forall>m tx s. sol_involves (m\<lparr>mon_addresses := [\<lparr>aw_address = a, aw_contract_spec = s\<rparr>]\<rparr>) tx
        = sol_involves (m\<lparr>mon_addresses := [\<lparr>aw_address = b, aw_contract_spec = s\<rparr>]\<rparr>) tx)"
proof (intro exI conjI)
  let ?a = "replicate 31 CHR ''1'' @ ''A''" and ?b = "replicate 31 CHR ''1'' @ ''a''"
  have split: "takeWhile (\<lambda>c. c = CHR ''1'') (replicate 31 CHR ''1'' @ [c]) = replicate 31 CHR ''1''"
    if "c \<noteq> CHR ''1''" for c using that by (simp add: takeWhile_append)
  have chars: "decode_chars ''A'' [] = Inr [9]" "decode_chars ''a'' [] = Inr [33]" by code_simp+
  have dec: "decode_base58 ?a = Inr (replicate 31 0 @ [9])" "decode_base58 ?b = Inr (replicate 31 0 @ [33])"
    unfolding decode_base58_def Let_def
    by (simp_all add: split chars del: decode_chars.simps)
  show "is_valid_pubkey ?a" "is_valid_pubkey ?b" by (simp_all add: is_valid_pubkey_def dec)
  show "decode_base58 ?a \<noteq> decode_base58 ?b" by (simp add: dec)
  show "\<not> solana_same_address ?a ?b" by code_simp
  have "to_lowercase ?a = to_lowercase ?b" by code_simp
  then show "\<forall>m tx s. sol_involves (m\<lparr>mon_addresses := [\<lparr>aw_address = ?a, aw_contract_spec = s\<rparr>]\<rparr>) tx
        = sol_involves (m\<lparr>mon_addresses := [\<lparr>aw_address = ?b, aw_contract_spec = s\<rparr>]\<rparr>) tx"
    by (simp add: sol_involves_def eq_ignore_ascii_case_def)
qed

end
