(* ===== verification/Solana_Idl.thy ===== *)
theory Solana_Idl imports Models begin

text \<open>
  Solana program interfaces (src/src/models/blockchain/solana/monitor.rs): the interface
  definition of a program, the signatures of its instructions and events, and the formatted
  specification.
\<close>

section \<open>Interface definitions\<close>

text \<open>An array's size is a \<open>usize\<close>.\<close>

datatype idl_type = Primitive string | Complex idl_type_complex
and idl_type_complex =
    ArrayType idl_type u64
  | VecType idl_type
  | OptionType idl_type
  | DefinedType string
  | TupleType "idl_type list"

record idl_field =
  if_name :: string
  if_type :: idl_type
  if_docs :: "string list"

datatype idl_seed = SeedConst json | SeedAccount string | SeedArg string

record idl_pda =
  pda_seeds :: "idl_seed list"
  pda_program_id :: "string option"

record idl_instruction_account =
  ia_name :: string
  ia_is_mut :: bool
  ia_is_signer :: bool
  ia_is_optional :: bool
  ia_docs :: "string list"
  ia_pda :: "idl_pda option"

datatype idl_account_item = SingleAccount idl_instruction_account | CompositeAccounts string "idl_account_item list"

record idl_instruction =
  in_name :: string
  in_discriminator :: "byte list option"
  in_accounts :: "idl_account_item list"
  in_args :: "idl_field list"
  in_docs :: "string list"

record idl_event_field =
  ef_name :: string
  ef_type :: idl_type
  ef_index :: bool

record idl_event =
  ev_name :: string
  ev_discriminator :: "byte list option"
  ev_fields :: "idl_event_field list"

record idl_account =
  ac_name :: string
  ac_discriminator :: "byte list option"
  ac_docs :: "string list"

record idl_enum_variant =
  va_name :: string
  va_fields :: "idl_field list option"

datatype idl_type_def_ty = StructType "idl_field list" | EnumType "idl_enum_variant list"

record idl_type_def =
  td_name :: string
  td_type :: idl_type_def_ty
  td_docs :: "string list"

record idl_error =
  er_code :: u32
  er_name :: string
  er_msg :: string

text \<open>The metadata of a program is its address.\<close>

record sol_contract_spec =
  cs_version :: string
  cs_name :: string
  cs_instructions :: "idl_instruction list"
  cs_accounts :: "idl_account list"
  cs_events :: "idl_event list"
  cs_types :: "idl_type_def list"
  cs_errors :: "idl_error list"
  cs_metadata :: "string option"

section \<open>Signatures\<close>

fun idl_type_to_string :: "idl_type \<Rightarrow> string" where
  "idl_type_to_string (Primitive s) = s"
| "idl_type_to_string (Complex (ArrayType inner n)) =
     ''['' @ idl_type_to_string inner @ '';'' @ show_word n @ '']''"
| "idl_type_to_string (Complex (VecType inner)) = ''Vec<'' @ idl_type_to_string inner @ ''>''"
| "idl_type_to_string (Complex (OptionType inner)) = ''Option<'' @ idl_type_to_string inner @ ''>''"
| "idl_type_to_string (Complex (DefinedType name)) = name"
| "idl_type_to_string (Complex (TupleType types)) = ''('' @ join_with '','' (map idl_type_to_string types) @ '')''"

definition get_instruction :: "sol_contract_spec \<Rightarrow> string \<Rightarrow> idl_instruction option" where
  "get_instruction spec name = find (\<lambda>i. in_name i = name) (cs_instructions spec)"

definition get_event :: "sol_contract_spec \<Rightarrow> string \<Rightarrow> idl_event option" where
  "get_event spec name = find (\<lambda>e. ev_name e = name) (cs_events spec)"

definition get_instruction_signature :: "sol_contract_spec \<Rightarrow> string \<Rightarrow> string option" where
  "get_instruction_signature spec name = map_option (\<lambda>i.
     in_name i @ ''('' @ join_with '','' (map (\<lambda>a. idl_type_to_string (if_type a)) (in_args i)) @ '')'') (get_instruction spec name)"

definition get_event_signature :: "sol_contract_spec \<Rightarrow> string \<Rightarrow> string option" where
  "get_event_signature spec name = map_option (\<lambda>e.
     ev_name e @ ''('' @ join_with '','' (map (\<lambda>f. idl_type_to_string (ef_type f)) (ev_fields e)) @ '')'') (get_event spec name)"

section \<open>The formatted specification\<close>

record sol_contract_input =
  ci_index :: u32
  ci_name :: string
  ci_kind :: string

record sol_contract_function =
  cf_name :: string
  cf_inputs :: "sol_contract_input list"
  cf_signature :: string

record sol_event_param =
  ep_name :: string
  ep_kind :: string
  ep_indexed :: bool

record sol_contract_event =
  ce_name :: string
  ce_params :: "sol_event_param list"
  ce_signature :: string

record sol_formatted_spec =
  fs_functions :: "sol_contract_function list"
  fs_events :: "sol_contract_event list"

definition format_instruction :: "idl_instruction \<Rightarrow> sol_contract_function" where
  "format_instruction i =
     (let inputs = map (\<lambda>(idx, arg). \<lparr>ci_index = word_of_nat idx, ci_name = if_name arg, ci_kind = idl_type_to_string (if_type arg)\<rparr>)
            (enumerate 0 (in_args i))
      in \<lparr>cf_name = in_name i, cf_inputs = inputs,
          cf_signature = in_name i @ ''('' @ join_with '','' (map ci_kind inputs) @ '')''\<rparr>)"

definition format_event :: "idl_event \<Rightarrow> sol_contract_event" where
  "format_event e =
     (let params = map (\<lambda>f. \<lparr>ep_name = ef_name f, ep_kind = idl_type_to_string (ef_type f), ep_indexed = ef_index f\<rparr>) (ev_fields e)
      in \<lparr>ce_name = ev_name e, ce_params = params,
          ce_signature = ev_name e @ ''('' @ join_with '','' (map ep_kind params) @ '')''\<rparr>)"

definition format_sol_spec :: "sol_contract_spec \<Rightarrow> sol_formatted_spec" where
  "format_sol_spec spec = \<lparr>fs_functions = map format_instruction (cs_instructions spec),
     fs_events = map format_event (cs_events spec)\<rparr>"

section \<open>Properties\<close>

lemma format_instruction_sel:
  "cf_name (format_instruction i) = in_name i"
  "cf_signature (format_instruction i) = in_name i @ ''('' @ join_with '','' (map (\<lambda>a. idl_type_to_string (if_type a)) (in_args i)) @ '')''"
proof -
  have "map (ci_kind \<circ> (\<lambda>(idx, arg). \<lparr>ci_index = word_of_nat idx, ci_name = if_name arg, ci_kind = idl_type_to_string (if_type arg)\<rparr>))
      (enumerate n args) = map (\<lambda>a. idl_type_to_string (if_type a)) args" for n and args :: "idl_field list"
    by (induction args arbitrary: n) auto
  then show "cf_signature (format_instruction i)
      = in_name i @ ''('' @ join_with '','' (map (\<lambda>a. idl_type_to_string (if_type a)) (in_args i)) @ '')''"
    by (simp add: format_instruction_def Let_def)
qed (simp add: format_instruction_def Let_def)

text \<open>The formatted specification gives the same signatures as the interface definition: looking up
  an instruction or an event by name and taking its signature is the same in both, and an
  instruction's inputs are numbered from zero in the order of its arguments.\<close>

theorem formatted_signatures_agree:
  "map_option cf_signature (find (\<lambda>f. cf_name f = name) (fs_functions (format_sol_spec spec))) = get_instruction_signature spec name
   \<and> map_option ce_signature (find (\<lambda>e. ce_name e = name) (fs_events (format_sol_spec spec))) = get_event_signature spec name
   \<and> list_all (\<lambda>f. map ci_index (cf_inputs f) = map word_of_nat [0..<length (cf_inputs f)]) (fs_functions (format_sol_spec spec))"
proof -
  have "map (\<lambda>(idx, arg). word_of_nat idx :: u32) (enumerate n args) = map word_of_nat [n..<n + length args]" for n and args :: "idl_field list"
    by (simp add: enumerate_eq_zip zip_map_fst_snd [symmetric] split_def) (simp add: map_fst_zip flip: map_map [of word_of_nat fst, unfolded comp_def])
  then have "map ci_index (cf_inputs (format_instruction i)) = map word_of_nat [0..<length (cf_inputs (format_instruction i))]" for i
    by (simp add: format_instruction_def Let_def comp_def split_def)
  then show ?thesis
    by (simp add: format_sol_spec_def find_map get_instruction_signature_def get_event_signature_def get_instruction_def
        get_event_def option.map_comp comp_def format_instruction_sel list_all_iff)
      (simp add: format_event_def Let_def comp_def)
qed

end
