(* ===== verification/Midnight_Filter.thy ===== *)
theory Midnight_Filter imports Evm_Filter Chain_Models begin

text \<open>
  The Midnight block filter (src/src/services/filter/filters/midnight): which transactions of a
  block match which monitors. Arguments of calls are private on this chain, so functions match by
  name. The hexadecimal codec, the number of bytes of a hash and the deserialisation of ledger
  transactions are the libraries' and are parameters.
\<close>

section \<open>Helpers\<close>

record 'ltx mid_env =
  mid_hex_decode :: "string \<Rightarrow> byte list option"
  mid_hex_encode :: "byte list \<Rightarrow> string"
  mid_hash_bytes :: nat
  mid_deserialize :: "byte list \<Rightarrow> 'ltx option"

definition mid_normalize_hash :: "string \<Rightarrow> string" where
  "mid_normalize_hash h = to_lowercase (remove_ws (case strip_prefix ''0x'' h of Some t \<Rightarrow> t | None \<Rightarrow> h))"

definition mid_same_hash :: "string \<Rightarrow> string \<Rightarrow> bool" where
  "mid_same_hash h1 h2 \<longleftrightarrow> mid_normalize_hash h1 = mid_normalize_hash h2"

text \<open>Addresses of 35 bytes carry the network in their first three bytes.\<close>

definition normalize_address_size :: "'ltx mid_env \<Rightarrow> string \<Rightarrow> string" where
  "normalize_address_size env address = (case mid_hex_decode env address of
       None \<Rightarrow> address
     | Some bytes \<Rightarrow> if length bytes = 35 then mid_hex_encode env (drop 3 bytes) else mid_hex_encode env bytes)"

definition mid_normalize_address :: "'ltx mid_env \<Rightarrow> string \<Rightarrow> string" where
  "mid_normalize_address env a =
     normalize_address_size env (to_lowercase (remove_ws (case strip_prefix ''0x'' a of Some t \<Rightarrow> t | None \<Rightarrow> a)))"

definition mid_same_address :: "'ltx mid_env \<Rightarrow> string \<Rightarrow> string \<Rightarrow> bool" where
  "mid_same_address env a b \<longleftrightarrow> mid_normalize_address env a = mid_normalize_address env b"

definition mid_normalize_signature :: "string \<Rightarrow> string" where
  "mid_normalize_signature s = to_lowercase (remove_ws s)"

definition remove_parentheses :: "string \<Rightarrow> string" where
  "remove_parentheses v = trim (takeWhile (\<lambda>c. c \<noteq> CHR ''('') v)"

definition mid_same_signature :: "string \<Rightarrow> string \<Rightarrow> bool" where
  "mid_same_signature s1 s2 \<longleftrightarrow>
     remove_parentheses (mid_normalize_signature s1) = remove_parentheses (mid_normalize_signature s2)"

datatype network_id = TestNet | MainNet | DevNet | Undeployed

definition map_chain_type :: "string \<Rightarrow> network_id" where
  "map_chain_type chain_type =
     (if sublist ''testnet'' chain_type then TestNet
      else if sublist ''mainnet'' chain_type then MainNet
      else if sublist ''devnet'' chain_type then DevNet
      else Undeployed)"

text \<open>The hash and the ledger transaction of an entry of the index. The network is not used.\<close>

definition parse_tx_index_item :: "'ltx mid_env \<Rightarrow> string \<Rightarrow> string \<Rightarrow> network_id \<Rightarrow> string + byte list \<times> 'ltx option" where
  "parse_tx_index_item env hash_without_prefix raw_tx_data network =
     (case mid_hex_decode env hash_without_prefix of
        None \<Rightarrow> Inl ''TransactionHashDecodeError''
      | Some hash \<Rightarrow>
        if raw_tx_data = [] then (if length hash = mid_hash_bytes env then Inr (hash, None) else Inl ''Invalid hash length'')
        else if length hash \<noteq> mid_hash_bytes env then Inl (''hash length'' @ show_nat (length hash))
        else (let body_str = (if length raw_tx_data \<ge> 2 then drop 2 raw_tx_data else raw_tx_data) in
          Inr (hash, case mid_hex_decode env body_str of None \<Rightarrow> None | Some body \<Rightarrow> mid_deserialize env body)))"

section \<open>Transactions\<close>

text \<open>The transactions of a block. Decrypting the coins of a ledger transaction with the monitors' viewing
  keys has no result: the transaction is that of the block's body.\<close>

fun mid_deserialize_transactions :: "'ltx mid_env \<Rightarrow> network_id \<Rightarrow> (string \<times> string) list \<Rightarrow> mid_rpc_transaction list \<Rightarrow>
  filter_error + mid_transaction list" where
  "mid_deserialize_transactions env network index [] = Inr []"
| "mid_deserialize_transactions env network index (MidnightTransaction _ tx # body) =
     (let hash = mid_normalize_hash (mt_tx_hash tx);
          raw_tx_data = (case find (\<lambda>(h, _). mid_normalize_hash h = hash) index of None \<Rightarrow> [] | Some (_, raw) \<Rightarrow> raw)
      in case parse_tx_index_item env hash raw_tx_data network of
        Inl _ \<Rightarrow> Inl (Filter_network_error ''Error deserializing transaction'')
      | Inr _ \<Rightarrow> res_bind (mid_deserialize_transactions env network index body) (\<lambda>txs. Inr (tx # txs)))"
| "mid_deserialize_transactions env network index (_ # body) = mid_deserialize_transactions env network index body"

definition mid_tx_status :: "mid_event list \<Rightarrow> mid_transaction \<Rightarrow> transaction_status" where
  "mid_tx_status events tx = (case find (\<lambda>e. mid_is_success e
       \<and> mid_same_hash (case mid_event_tx_hash e of None \<Rightarrow> [] | Some h \<Rightarrow> h) (mt_tx_hash tx)) events of
     Some _ \<Rightarrow> Success | None \<Rightarrow> Failure)"

definition mid_find_matching_transaction :: "mid_event list \<Rightarrow> mid_transaction \<Rightarrow> 'abi monitor \<Rightarrow> transaction_condition list" where
  "mid_find_matching_transaction events tx m =
     (let conds = mc_transactions (mon_match_conditions m) in
      if conds = [] then [\<lparr>tc_status = AnyStatus, tc_expression = None\<rparr>]
      else let st = mid_tx_status events tx in
        (case find (\<lambda>c. tc_status c = AnyStatus \<or> tc_status c = st) conds of
           None \<Rightarrow> []
         | Some _ \<Rightarrow> [\<lparr>tc_status = st, tc_expression = None\<rparr>]))"

section \<open>Functions\<close>

definition mid_function_condition :: "'ltx mid_env \<Rightarrow> string list \<Rightarrow> (string \<times> string) list \<Rightarrow> function_condition \<Rightarrow>
  (function_condition \<times> match_params_map) option" where
  "mid_function_condition env monitored_addresses entries c =
     (case find (\<lambda>(addr, entry_point). list_ex (mid_same_address env addr) monitored_addresses
         \<and> mid_same_signature entry_point (fc_signature c)) entries of
        None \<Rightarrow> None
      | Some (_, entry_point) \<Rightarrow> (let sig = remove_parentheses (fc_signature c) in
          Some (\<lparr>fc_signature = sig, fc_expression = fc_expression c\<rparr>,
            \<lparr>pm_signature = sig, pm_args = None, pm_hex_signature = Some entry_point\<rparr>)))"

definition mid_find_matching_functions :: "'ltx mid_env \<Rightarrow> string list \<Rightarrow> mid_transaction \<Rightarrow> 'abi monitor \<Rightarrow>
  (function_condition \<times> match_params_map) list" where
  "mid_find_matching_functions env monitored_addresses tx m =
     (let conds = mc_functions (mon_match_conditions m) in
      if conds = [] then []
      else List.map_filter (mid_function_condition env monitored_addresses
        (mid_addresses_and_entry_points (mid_hex_decode env) tx)) conds)"

section \<open>The block\<close>

record 'abi mid_monitor_match =
  mi_monitor :: "'abi monitor"
  mi_transaction :: mid_transaction
  mi_network_slug :: string
  mi_matched_on :: match_conditions
  mi_matched_on_args :: "match_arguments option"

text \<open>One monitor and one transaction. Events are never matched on this chain.\<close>

definition mid_match_transaction :: "'ltx mid_env \<Rightarrow> network \<Rightarrow> mid_event list \<Rightarrow> 'abi monitor \<Rightarrow> mid_transaction \<Rightarrow>
  'abi mid_monitor_match list" where
  "mid_match_transaction env net events m tx =
     (let mc = mon_match_conditions m;
          txs = mid_find_matching_transaction events tx m;
          fns = mid_find_matching_functions env (map aw_address (mon_addresses m)) tx m;
          evs = ([] :: event_condition list);
          has_event = (mc_events mc \<noteq> [] \<and> evs \<noteq> []);
          has_function = (mc_functions mc \<noteq> [] \<and> fns \<noteq> []);
          has_transaction = (mc_transactions mc \<noteq> [] \<and> txs \<noteq> [])
      in if should_match mc has_event has_function has_transaction
         then [\<lparr>mi_monitor = m, mi_transaction = tx, mi_network_slug = slug net,
                mi_matched_on = \<lparr>
                  mc_functions = (if has_function then map fst fns else []),
                  mc_events = (if has_event then evs else []),
                  mc_transactions = (if has_transaction then txs else [])\<rparr>,
                mi_matched_on_args = Some \<lparr>
                  ma_functions = (if has_function then Some (map snd fns) else None),
                  ma_events = (if has_event then Some [] else None)\<rparr>\<rparr>]
         else [])"

record mid_node =
  get_chain_type :: "string + string"
  get_events :: "u64 \<Rightarrow> string + mid_event list"

definition mid_filter_block :: "'ltx mid_env \<Rightarrow> mid_node \<Rightarrow> network \<Rightarrow> 's chain_block block_type \<Rightarrow> 'abi monitor list \<Rightarrow>
  (string \<times> 'abi contract_spec) list option \<Rightarrow> filter_error + 'abi mid_monitor_match list" where
  "mid_filter_block env node net block monitors specs = (case block of
       BlockOther (BlockMidnight b) \<Rightarrow>
         (case get_chain_type node of
            Inl e \<Rightarrow> Inl (Node_error e)
          | Inr chain_type \<Rightarrow>
            (case get_events node (case mid_block_number b of None \<Rightarrow> 0 | Some n \<Rightarrow> n) of
               Inl e \<Rightarrow> Inl (Node_error e)
             | Inr events \<Rightarrow>
               res_bind (mid_deserialize_transactions env (map_chain_type chain_type) (mb_transactions_index b) (mb_body b))
                 (\<lambda>txs. if txs = [] then Inr []
                    else Inr (concat (map (\<lambda>m. concat (map (mid_match_transaction env net events m) txs)) monitors)))))
     | _ \<Rightarrow> Inl (Block_type_mismatch ''Expected Midnight block''))"

end
