(* ===== verification/Midnight_Filter_Properties.thy ===== *)
theory Midnight_Filter_Properties imports Midnight_Filter Evm_Filter_Properties begin

text \<open>
  What the Midnight filter guarantees: exactly when it fails and which transactions match, which
  calls justify a matched function, and which parts of a monitor have no influence.
\<close>

section \<open>What matches\<close>

definition mid_hash_ok :: "'ltx mid_env \<Rightarrow> mid_transaction \<Rightarrow> bool" where
  "mid_hash_ok env tx \<longleftrightarrow> (case mid_hex_decode env (mid_normalize_hash (mt_tx_hash tx)) of
     None \<Rightarrow> False | Some h \<Rightarrow> length h = mid_hash_bytes env)"

definition mid_block_txs :: "mid_rpc_transaction list \<Rightarrow> mid_transaction list" where
  "mid_block_txs body = List.map_filter (\<lambda>t. case t of MidnightTransaction _ tx \<Rightarrow> Some tx | _ \<Rightarrow> None) body"

definition mid_call_found :: "'ltx mid_env \<Rightarrow> 'abi monitor \<Rightarrow> mid_transaction \<Rightarrow> function_condition \<Rightarrow> bool" where
  "mid_call_found env m tx c \<longleftrightarrow> list_ex (\<lambda>(addr, entry_point).
     list_ex (\<lambda>a. mid_same_address env addr (aw_address a)) (mon_addresses m) \<and> mid_same_signature entry_point (fc_signature c))
     (mid_addresses_and_entry_points (mid_hex_decode env) tx)"

definition mid_decides :: "'ltx mid_env \<Rightarrow> mid_event list \<Rightarrow> 'abi monitor \<Rightarrow> mid_transaction \<Rightarrow> bool" where
  "mid_decides env events m tx \<longleftrightarrow>
     (let mc = mon_match_conditions m in
       (mc_transactions mc = [] \<or> list_ex (\<lambda>c. tc_status c = AnyStatus \<or> tc_status c = mid_tx_status events tx) (mc_transactions mc))
     \<and> ((mc_events mc = [] \<and> mc_functions mc = []) \<or> list_ex (mid_call_found env m tx) (mc_functions mc)))"

lemma parse_tx_index_ok: "is_ok (parse_tx_index_item env (mid_normalize_hash (mt_tx_hash tx)) raw net) \<longleftrightarrow> mid_hash_ok env tx"
  by (simp add: parse_tx_index_item_def mid_hash_ok_def Let_def split: option.split)

lemma mid_deserialize_all:
  "mid_deserialize_transactions env net index body =
     (if list_all (mid_hash_ok env) (mid_block_txs body) then Inr (mid_block_txs body)
      else Inl (Filter_network_error ''Error deserializing transaction''))"
proof (induction env net index body rule: mid_deserialize_transactions.induct)
  case (2 env net index raw tx body)
  define raw_tx_data where "raw_tx_data = (case find (\<lambda>(h, _). mid_normalize_hash h = mid_normalize_hash (mt_tx_hash tx)) index of
    None \<Rightarrow> [] | Some (_, raw) \<Rightarrow> raw)"
  show ?case
  proof (cases "parse_tx_index_item env (mid_normalize_hash (mt_tx_hash tx)) raw_tx_data net")
    case (Inl e)
    then have "\<not> mid_hash_ok env tx" using parse_tx_index_ok [of env tx raw_tx_data net] by simp
    then show ?thesis using Inl
      by (simp add: Let_def raw_tx_data_def mid_block_txs_def List.map_filter_simps)
  next
    case (Inr p)
    then have "mid_hash_ok env tx" using parse_tx_index_ok [of env tx raw_tx_data net] by simp
    then show ?thesis using Inr "2.IH" [OF refl raw_tx_data_def Inr]
      by (simp add: Let_def raw_tx_data_def mid_block_txs_def List.map_filter_simps)
  qed
qed (simp_all add: mid_block_txs_def List.map_filter_simps)

lemma mid_function_condition_none:
  "mid_function_condition env (map aw_address (mon_addresses m)) (mid_addresses_and_entry_points (mid_hex_decode env) tx) c = None
    \<longleftrightarrow> \<not> mid_call_found env m tx c"
proof -
  have "list_ex (mid_same_address env addr) (map aw_address (mon_addresses m))
      = list_ex (\<lambda>a. mid_same_address env addr (aw_address a)) (mon_addresses m)" for addr
    by (simp add: list_ex_iff)
  then show ?thesis
    unfolding mid_function_condition_def mid_call_found_def find_none_ex [symmetric]
    by (simp add: Let_def split: option.split)
qed

lemma mid_functions_empty:
  "mid_find_matching_functions env (map aw_address (mon_addresses m)) tx m \<noteq> [] \<longleftrightarrow>
     list_ex (mid_call_found env m tx) (mc_functions (mon_match_conditions m))"
  by (simp add: mid_find_matching_functions_def Let_def map_filter_empty mid_function_condition_none) (auto simp: list_ex_iff)

lemma mid_transactions_empty:
  "mid_find_matching_transaction events tx m \<noteq> [] \<longleftrightarrow> mc_transactions (mon_match_conditions m) = []
     \<or> list_ex (\<lambda>c. tc_status c = AnyStatus \<or> tc_status c = mid_tx_status events tx) (mc_transactions (mon_match_conditions m))"
  using find_none_ex [of "\<lambda>c. tc_status c = AnyStatus \<or> tc_status c = mid_tx_status events tx" "mc_transactions (mon_match_conditions m)"]
  by (auto simp: mid_find_matching_transaction_def Let_def split: option.splits)

lemma mid_should_match:
  "should_match (mon_match_conditions m) False
      (mc_functions (mon_match_conditions m) \<noteq> [] \<and> mid_find_matching_functions env (map aw_address (mon_addresses m)) tx m \<noteq> [])
      (mc_transactions (mon_match_conditions m) \<noteq> [] \<and> mid_find_matching_transaction events tx m \<noteq> [])
    \<longleftrightarrow> mid_decides env events m tx"
  unfolding should_match_iff mid_functions_empty mid_transactions_empty mid_decides_def Let_def by auto

lemma mid_match_pairs:
  "map (\<lambda>r. (mi_monitor r, mi_transaction r)) (mid_match_transaction env net events m tx)
     = (if mid_decides env events m tx then [(m, tx)] else [])"
  using mid_should_match [of m env tx events] by (simp add: mid_match_transaction_def Let_def)

definition mid_decided :: "'ltx mid_env \<Rightarrow> mid_event list \<Rightarrow> 'abi monitor list \<Rightarrow> mid_transaction list \<Rightarrow>
  ('abi monitor \<times> mid_transaction) list" where
  "mid_decided env events monitors txs =
     concat (map (\<lambda>m. map (\<lambda>tx. (m, tx)) (filter (mid_decides env events m) txs)) monitors)"

lemma mid_match_monitor:
  "map (\<lambda>r. (mi_monitor r, mi_transaction r)) (concat (map (mid_match_transaction env net events m) txs))
      = map (\<lambda>tx. (m, tx)) (filter (mid_decides env events m) txs)"
  by (rule map_concat_filter) (rule mid_match_pairs)

lemma mid_match_all:
  "map (\<lambda>r. (mi_monitor r, mi_transaction r))
      (concat (map (\<lambda>m. concat (map (mid_match_transaction env net events m) txs)) monitors))
    = mid_decided env events monitors txs"
  by (induction monitors) (simp_all add: mid_decided_def mid_match_monitor)

text \<open>C27. The Midnight filter returns exactly when the block is a Midnight block, the node answers both
  requests and the hash of every transaction decodes to the right number of bytes: a single
  malformed hash loses the matches of the whole block. When it returns, its matches are, in the
  order of the monitors and then of the transactions, the transactions that have the status of
  one of the transaction conditions if there are any, and call one of the functions at one of the
  addresses if there are function or event conditions; only then do the addresses matter.\<close>

theorem mid_filter_exact:
  "case (block, get_chain_type node) of
     (BlockOther (BlockMidnight b), Inr _) \<Rightarrow>
       (case get_events node (case mid_block_number b of None \<Rightarrow> 0 | Some n \<Rightarrow> n) of
          Inl e \<Rightarrow> mid_filter_block env node net block monitors specs = Inl (Node_error e)
        | Inr events \<Rightarrow>
          (if list_all (mid_hash_ok env) (mid_block_txs (mb_body b))
           then \<exists>ms. mid_filter_block env node net block monitors specs = Inr ms
             \<and> map (\<lambda>r. (mi_monitor r, mi_transaction r)) ms = mid_decided env events monitors (mid_block_txs (mb_body b))
           else mid_filter_block env node net block monitors specs = Inl (Filter_network_error ''Error deserializing transaction'')))
   | _ \<Rightarrow> \<not> is_ok (mid_filter_block env node net block monitors specs)"
  by (auto simp: mid_filter_block_def mid_deserialize_all mid_match_all [simplified] mid_decided_def
      split: block_type.split chain_block.split sum.split)

section \<open>Parts without influence\<close>

text \<open>A monitor without its expressions, without its event conditions' contents, and without its
  addresses when it has no function condition.\<close>

definition mid_erase :: "'abi monitor \<Rightarrow> 'abi monitor" where
  "mid_erase m = (let mc = mon_match_conditions m in
     m\<lparr>mon_match_conditions := \<lparr>mc_functions = map (\<lambda>c. c\<lparr>fc_expression := None\<rparr>) (mc_functions mc),
         mc_events = map (\<lambda>_. \<lparr>ec_signature = [], ec_expression = None\<rparr>) (mc_events mc),
         mc_transactions = map (\<lambda>c. c\<lparr>tc_expression := None\<rparr>) (mc_transactions mc)\<rparr>,
       mon_addresses := (if mc_functions mc = [] then [] else mon_addresses m)\<rparr>)"

lemma list_ex_map_iff: "list_ex P (map f xs) \<longleftrightarrow> list_ex (\<lambda>x. P (f x)) xs"
  by (induction xs) auto

lemma mid_erase_decides: "mid_decides env events (mid_erase m) tx = mid_decides env events m tx"
proof (cases "mc_functions (mon_match_conditions m) = []")
  case True
  then show ?thesis by (simp add: mid_decides_def mid_erase_def Let_def list_ex_map_iff)
next
  case False
  then have "mon_addresses (mid_erase m) = mon_addresses m" by (simp add: mid_erase_def Let_def)
  then have "mid_call_found env (mid_erase m) tx (c\<lparr>fc_expression := None\<rparr>) = mid_call_found env m tx c" for c
    by (simp add: mid_call_found_def)
  then show ?thesis by (simp add: mid_decides_def mid_erase_def [of m] Let_def list_ex_map_iff)
qed

lemma mid_match_names:
  "map (\<lambda>r. (mon_name (mi_monitor r), mi_transaction r)) (concat (map (mid_match_transaction env net events m) txs))
      = map (\<lambda>tx. (mon_name m, tx)) (filter (mid_decides env events m) txs)"
proof (rule map_concat_filter)
  fix tx
  show "map (\<lambda>r. (mon_name (mi_monitor r), mi_transaction r)) (mid_match_transaction env net events m tx)
      = (if mid_decides env events m tx then [(mon_name m, tx)] else [])"
    using mid_should_match [of m env tx events] by (simp add: mid_match_transaction_def Let_def)
qed

lemma mid_erase_names:
  "map (\<lambda>r. (mon_name (mi_monitor r), mi_transaction r))
      (concat (map (\<lambda>m. concat (map (mid_match_transaction env net events m) txs)) (map mid_erase monitors)))
    = map (\<lambda>r. (mon_name (mi_monitor r), mi_transaction r))
      (concat (map (\<lambda>m. concat (map (mid_match_transaction env net events m) txs)) monitors))"
proof (induction monitors)
  case (Cons m monitors)
  have "mon_name (mid_erase m) = mon_name m" by (simp add: mid_erase_def Let_def)
  with Cons show ?case by (simp add: mid_match_names mid_erase_decides [abs_def])
qed simp

text \<open>The expressions of transaction and function conditions have no influence on what matches, nor
  what the event conditions say, nor the addresses of a monitor without function conditions: the
  same monitors match the same transactions when all that is removed.\<close>

theorem mid_unused_conditions:
  "map_sum id (map (\<lambda>r. (mon_name (mi_monitor r), mi_transaction r))) (mid_filter_block env node net block (map mid_erase monitors) specs)
    = map_sum id (map (\<lambda>r. (mon_name (mi_monitor r), mi_transaction r))) (mid_filter_block env node net block monitors specs)"
  by (auto simp: mid_filter_block_def mid_deserialize_all mid_erase_names [simplified]
      split: block_type.split chain_block.split sum.split)

section \<open>Matched functions\<close>

lemma mid_entry_from_call:
  assumes "(addr, entry_point) \<in> set (mid_addresses_and_entry_points dec tx)"
  shows "\<exists>raw. OpCall addr raw \<in> set (mt_operations tx) \<and> decode_entry_point dec raw = entry_point \<and> entry_point \<noteq> []"
  using assms unfolding mid_addresses_and_entry_points_def by (auto split: mid_operation.splits)

lemma mid_function_condition_sound:
  assumes "mid_function_condition env addrs entries c = Some (f, p)"
  shows "\<exists>addr entry_point. (addr, entry_point) \<in> set entries \<and> list_ex (mid_same_address env addr) addrs
    \<and> mid_same_signature entry_point (fc_signature c) \<and> pm_hex_signature p = Some entry_point
    \<and> fc_signature f = remove_parentheses (fc_signature c) \<and> pm_signature p = fc_signature f"
  using assms by (auto simp: mid_function_condition_def Let_def find_Some_iff split: option.splits) (metis nth_mem)

lemma set_map_filter_in: "y \<in> set (List.map_filter f xs) \<Longrightarrow> \<exists>x \<in> set xs. f x = Some y"
  by (induction xs) (auto simp: List.map_filter_simps split: option.splits)

lemma mid_result_member:
  assumes "mid_filter_block env node net block monitors specs = Inr ms" "r \<in> set ms"
  shows "\<exists>events m tx. m \<in> set monitors \<and> r \<in> set (mid_match_transaction env net events m tx)"
  using assms by (auto simp: mid_filter_block_def res_bind_Inr_iff split: block_type.splits chain_block.splits sum.splits if_splits) blast

text \<open>A function that a match records was called: for every recorded entry there is a function
  condition of the monitor and a call in the transaction to one of the monitor's addresses whose
  decoded entry point has the condition's name, up to case, white space and what follows the
  first parenthesis. The field for the hexadecimal signature holds the decoded entry point.\<close>

theorem mid_function_justified:
  assumes "mid_filter_block env node net block monitors specs = Inr ms" "r \<in> set ms"
    and "mi_matched_on_args r = Some a" "ma_functions a = Some fs" "p \<in> set fs"
  shows "\<exists>c \<in> set (mc_functions (mon_match_conditions (mi_monitor r))). \<exists>addr raw entry_point.
    OpCall addr raw \<in> set (mt_operations (mi_transaction r)) \<and> entry_point = decode_entry_point (mid_hex_decode env) raw
    \<and> (\<exists>ad \<in> set (mon_addresses (mi_monitor r)). mid_same_address env addr (aw_address ad))
    \<and> mid_same_signature entry_point (fc_signature c)
    \<and> pm_signature p = remove_parentheses (fc_signature c) \<and> pm_hex_signature p = Some entry_point"
proof -
  obtain events m tx where r: "r \<in> set (mid_match_transaction env net events m tx)"
    using mid_result_member [OF assms(1,2)] by blast
  then have sel: "mi_monitor r = m" "mi_transaction r = tx"
    and fs: "fs = map snd (mid_find_matching_functions env (map aw_address (mon_addresses m)) tx m)"
    using assms(3,4) by (auto simp: mid_match_transaction_def Let_def split: if_splits)
  then obtain f where "(f, p) \<in> set (mid_find_matching_functions env (map aw_address (mon_addresses m)) tx m)"
    using assms(5) by auto
  then obtain c where c: "c \<in> set (mc_functions (mon_match_conditions m))"
    "mid_function_condition env (map aw_address (mon_addresses m)) (mid_addresses_and_entry_points (mid_hex_decode env) tx) c = Some (f, p)"
    by (auto simp: mid_find_matching_functions_def Let_def dest: set_map_filter_in split: if_splits)
  from mid_function_condition_sound [OF c(2)] obtain addr entry_point where
    e: "(addr, entry_point) \<in> set (mid_addresses_and_entry_points (mid_hex_decode env) tx)"
      "list_ex (mid_same_address env addr) (map aw_address (mon_addresses m))" "mid_same_signature entry_point (fc_signature c)"
      "pm_hex_signature p = Some entry_point" "pm_signature p = remove_parentheses (fc_signature c)" by auto
  from mid_entry_from_call [OF e(1)] e(2-5) c(1) show ?thesis
    unfolding sel by (intro bexI [of _ c]) (auto simp: list_ex_iff)
qed

definition sample_mid_env :: "unit mid_env" where
  "sample_mid_env = \<lparr>mid_hex_decode = (\<lambda>s. if s = ''6d'' then Some [0x6d] else if s = ''ab'' then Some [0xab] else None),
     mid_hex_encode = (\<lambda>bs. if bs = [0xab] then ''ab'' else ''6d''), mid_hash_bytes = 1, mid_deserialize = (\<lambda>_. None)\<rparr>"

definition sample_mid_monitor :: "unit monitor" where
  "sample_mid_monitor = \<lparr>mon_name = ''m'', mon_networks = [''mid''], mon_paused = False,
     mon_addresses = [\<lparr>aw_address = ''0xAB'', aw_contract_spec = None\<rparr>],
     mon_match_conditions = \<lparr>mc_functions = [\<lparr>fc_signature = ''M(x)'', fc_expression = None\<rparr>], mc_events = [], mc_transactions = []\<rparr>,
     mon_trigger_conditions = [], mon_triggers = [], mon_chain_configurations = []\<rparr>"

definition sample_mid_tx :: mid_transaction where
  "sample_mid_tx = \<lparr>mt_tx_hash = ''0x6D'', mt_operations = [OpCall ''ab'' ''6d''], mt_identifiers = []\<rparr>"

definition sample_mid_block :: mid_block where
  "sample_mid_block = \<lparr>mb_header = \<lparr>mh_parent_hash = [], mh_number = ''0x1'', mh_state_root = [], mh_extrinsics_root = [],
     mh_digest_logs = []\<rparr>, mb_body = [Timestamp 5, MidnightTransaction [] sample_mid_tx], mb_transactions_index = []\<rparr>"

definition sample_mid_node :: mid_node where
  "sample_mid_node = \<lparr>get_chain_type = Inr ''testnet'', get_events = (\<lambda>_. Inr [])\<rparr>"

lemma sample_mid_run:
  "mid_filter_block sample_mid_env sample_mid_node net (BlockOther (BlockMidnight sample_mid_block)) [sample_mid_monitor] None
    = Inr [\<lparr>mi_monitor = sample_mid_monitor, mi_transaction = sample_mid_tx, mi_network_slug = slug net,
        mi_matched_on = \<lparr>mc_functions = [\<lparr>fc_signature = ''M'', fc_expression = None\<rparr>], mc_events = [], mc_transactions = []\<rparr>,
        mi_matched_on_args = Some \<lparr>ma_functions = Some [\<lparr>pm_signature = ''M'', pm_args = None, pm_hex_signature = Some ''m''\<rparr>],
          ma_events = None\<rparr>\<rparr>]"
proof -
  have d: "mid_deserialize_transactions sample_mid_env n [] [Timestamp 5, MidnightTransaction [] sample_mid_tx] = Inr [sample_mid_tx]" for n
    by code_simp
  have "mid_addresses_and_entry_points (mid_hex_decode sample_mid_env) sample_mid_tx = [(''ab'', ''m'')]" by code_simp
  moreover have "mid_same_address sample_mid_env ''ab'' ''0xAB''" "mid_same_signature ''m'' ''M(x)''"
    "remove_parentheses ''M(x)'' = ''M''" by code_simp+
  ultimately show ?thesis using d
    by (simp add: mid_filter_block_def sample_mid_node_def mid_match_transaction_def mid_find_matching_functions_def
        mid_function_condition_def mid_find_matching_transaction_def should_match_def sample_mid_monitor_def
        sample_mid_block_def Let_def List.map_filter_simps del: mid_deserialize_transactions.simps)
qed

theorem mid_function_justified_witness:
  "\<exists>addr raw. OpCall addr raw \<in> set (mt_operations sample_mid_tx) \<and> decode_entry_point (mid_hex_decode sample_mid_env) raw = ''m''"
proof -
  note f = mid_function_justified [OF sample_mid_run [of sample_network] list.set_intros(1), simplified, OF refl, simplified, OF refl, simplified]
  show ?thesis using f by clarsimp (metis (full_types))
qed

end
