(* ===== verification/Stellar_Evaluator.thy ===== *)
theory Stellar_Evaluator imports Solana_Filter Stellar_Values begin

text \<open>
  The condition evaluator of Stellar (src/src/services/filter/filters/stellar/evaluator.rs):
  comparison of decoded values, by kind, with the literals of filter expressions. Error texts keep
  their fixed part.
\<close>

section \<open>Searching JSON values\<close>

text \<open>\<open>trim_matches('"')\<close>.\<close>

definition trim_quotes :: "string \<Rightarrow> string" where
  "trim_quotes s = (let q = (\<lambda>c. char_code c = 34) in rev (dropWhile q (rev (dropWhile q s))))"

definition stellar_value_matches_str :: "json_lib \<Rightarrow> json \<Rightarrow> string \<Rightarrow> bool" where
  "stellar_value_matches_str jl j target = (case j of
       JString s \<Rightarrow> eq_ignore_ascii_case s target
     | JObject m \<Rightarrow> (case map_of m ''value'' of
         None \<Rightarrow> False
       | Some (JString s) \<Rightarrow> s = target
       | Some v \<Rightarrow> trim_quotes (json_print jl v) = target)
     | _ \<Rightarrow> trim_quotes (json_print jl j) = target)"

section \<open>Comparison by kind\<close>

definition normalize_csv :: "string \<Rightarrow> string list" where
  "normalize_csv s = map (\<lambda>part. to_lowercase (trim part)) (split_at_char CHR '','' [] s)"

definition vec_equal :: "json_lib \<Rightarrow> string \<Rightarrow> string \<Rightarrow> bool" where
  "vec_equal jl lhs rhs = (case (json_parse jl lhs, json_parse jl rhs) of
       (Some l, Some r) \<Rightarrow>
         (if json_is_array l \<and> json_is_array r then l = r
          else if json_is_array l \<or> json_is_array r then False
          else normalize_csv lhs = normalize_csv rhs)
     | (None, None) \<Rightarrow> normalize_csv lhs = normalize_csv rhs
     | _ \<Rightarrow> False)"

definition vec_item_matches :: "json_lib \<Rightarrow> string \<Rightarrow> json \<Rightarrow> bool" where
  "vec_item_matches jl target item = (case item of
       JObject m \<Rightarrow> list_ex (\<lambda>p. stellar_value_matches_str jl (snd p) target) m
     | _ \<Rightarrow> stellar_value_matches_str jl item target)"

definition strip_brackets :: "string \<Rightarrow> string" where
  "strip_brackets s = (let t = trim s in
     if t \<noteq> [] \<and> hd t = CHR ''['' \<and> last t = CHR '']'' then butlast (tl t) else t)"

definition vec_contains :: "json_lib \<Rightarrow> string \<Rightarrow> string \<Rightarrow> bool" where
  "vec_contains jl lhs target = (case json_parse jl lhs of
       Some (JArray items) \<Rightarrow> list_ex (vec_item_matches jl target) items
     | _ \<Rightarrow> target \<in> set (map trim (split_at_char CHR '','' [] (strip_brackets lhs))))"

definition stellar_compare_vec :: "json_lib \<Rightarrow> string \<Rightarrow> comparison_operator \<Rightarrow> literal_value \<Rightarrow> evaluation_error + bool" where
  "stellar_compare_vec jl lhs op lit = res_bind
     (case lit of
        LStr s \<Rightarrow> Inr s
      | LNumber s \<Rightarrow> Inr s
      | LBool _ \<Rightarrow> Inl (TypeMismatch ''Expected string or number literal for 'vec' comparison''))
     (\<lambda>target. case op of
        OpEq \<Rightarrow> Inr (vec_equal jl lhs target)
      | OpNe \<Rightarrow> Inr (\<not> vec_equal jl lhs target)
      | OpContains \<Rightarrow> Inr (vec_contains jl lhs target)
      | _ \<Rightarrow> Inl (UnsupportedOperator ''Operator not supported for 'vec' type. Supported: Eq, Ne, Contains.''))"

definition stellar_compare_boolean :: "string \<Rightarrow> comparison_operator \<Rightarrow> literal_value \<Rightarrow> evaluation_error + bool" where
  "stellar_compare_boolean lhs op lit = (case parse_bool lhs of
       None \<Rightarrow> Inl (ParseError (''Failed to parse bool parameter value: '' @ lhs))
     | Some l \<Rightarrow> (case lit of
         LBool r \<Rightarrow> (case op of
             OpEq \<Rightarrow> Inr (l = r)
           | OpNe \<Rightarrow> Inr (l \<noteq> r)
           | _ \<Rightarrow> Inl (UnsupportedOperator ''Unsupported operator for Stellar bool comparison''))
       | _ \<Rightarrow> Inl (TypeMismatch ''Expected bool literal for comparison'')))"

text \<open>\<open>str::parse\<close> of an integer type with values from \<open>lo\<close> to \<open>hi\<close>; a minus sign only for signed types.\<close>

definition parse_integer :: "int \<Rightarrow> int \<Rightarrow> string \<Rightarrow> int option" where
  "parse_integer lo hi s =
     (let negative = (lo < 0 \<and> s \<noteq> [] \<and> hd s = CHR ''-''); t = (if negative then tl s else strip_plus s) in
      if t = [] \<or> \<not> list_all is_digit t then None
      else let n = int (digits_value t); v = (if negative then - n else n) in
        if lo \<le> v \<and> v \<le> hi then Some v else None)"

definition compare_numeric :: "string \<Rightarrow> int \<Rightarrow> int \<Rightarrow> string \<Rightarrow> comparison_operator \<Rightarrow> literal_value \<Rightarrow> evaluation_error + bool" where
  "compare_numeric ty lo hi lhs op lit = (case parse_integer lo hi lhs of
       None \<Rightarrow> Inl (ParseError (''Failed to parse numeric parameter value: '' @ lhs))
     | Some l \<Rightarrow> (case lit of
         LNumber s \<Rightarrow> (case parse_integer lo hi s of
             None \<Rightarrow> Inl (ParseError (''Failed to parse comparison value '' @ s @ '' as '' @ ty))
           | Some r \<Rightarrow> compare_ordered_values ty l op r)
       | _ \<Rightarrow> Inl (TypeMismatch (''Expected number literal for '' @ ty @ '' comparison''))))"

definition compare_large_int_as_string :: "string \<Rightarrow> comparison_operator \<Rightarrow> literal_value \<Rightarrow> evaluation_error + bool" where
  "compare_large_int_as_string lhs op lit = res_bind
     (case lit of
        LNumber s \<Rightarrow> Inr s
      | LStr s \<Rightarrow> Inr s
      | LBool _ \<Rightarrow> Inl (TypeMismatch ''Expected number or string literal for i256 comparison''))
     (\<lambda>r. case op of
       OpEq \<Rightarrow> Inr (lhs = r)
     | OpNe \<Rightarrow> Inr (lhs \<noteq> r)
     | _ \<Rightarrow> Inl (UnsupportedOperator ''Operator not supported for i256 string comparison''))"

definition stellar_compare_string :: "string \<Rightarrow> string \<Rightarrow> comparison_operator \<Rightarrow> literal_value \<Rightarrow> evaluation_error + bool" where
  "stellar_compare_string kind lhs op lit = (case lit of
       LStr rhs \<Rightarrow>
         (let normalize = (if kind = ''address'' \<and> (op = OpEq \<or> op = OpNe) then stellar_normalize_address else to_lowercase);
              l = normalize lhs; r = normalize rhs
          in case op of
              OpEq \<Rightarrow> Inr (l = r)
            | OpNe \<Rightarrow> Inr (l \<noteq> r)
            | OpStartsWith \<Rightarrow> Inr (prefix r l)
            | OpEndsWith \<Rightarrow> Inr (suffix r l)
            | OpContains \<Rightarrow> Inr (sublist r l)
            | _ \<Rightarrow> Inl (UnsupportedOperator (''Operator not supported for type '' @ kind)))
     | _ \<Rightarrow> Inl (TypeMismatch (''Expected string literal for '' @ kind @ '' comparison'')))"

fun json_is_object :: "json \<Rightarrow> bool" where
  "json_is_object (JObject _) = True"
| "json_is_object _ = False"

definition map_target :: "comparison_operator \<Rightarrow> literal_value \<Rightarrow> evaluation_error + string" where
  "map_target op lit = (case lit of
       LStr s \<Rightarrow> Inr s
     | LNumber s \<Rightarrow> if op = OpContains then Inr s
         else Inl (TypeMismatch ''Expected string literal (representing a JSON map) for EVM 'map' Eq/Ne comparison, found number'')
     | LBool _ \<Rightarrow> Inl (TypeMismatch ''Expected string literal for EVM 'map' comparison''))"

definition stellar_compare_map :: "json_lib \<Rightarrow> string \<Rightarrow> comparison_operator \<Rightarrow> literal_value \<Rightarrow> evaluation_error + bool" where
  "stellar_compare_map jl lhs op lit = res_bind (map_target op lit) (\<lambda>target.
     if op = OpEq \<or> op = OpNe then
       (case json_parse jl lhs of
          None \<Rightarrow> Inl (ParseError (''Failed to parse LHS value '' @ lhs @ '' as JSON map for 'Eq/Ne' operator''))
        | Some l \<Rightarrow> (case json_parse jl target of
            None \<Rightarrow> Inl (ParseError (''Failed to parse RHS value '' @ target @ '' as JSON map for 'Eq/Ne' operator''))
          | Some r \<Rightarrow>
            if \<not> json_is_object l \<or> \<not> json_is_object r
            then Inl (TypeMismatch ''For 'map' Eq/Ne comparison, both sides must resolve to JSON objects.'')
            else Inr (if op = OpEq then l = r else l \<noteq> r)))
     else if op = OpContains then
       (case json_parse jl lhs of
          Some (JObject m) \<Rightarrow> Inr (list_ex (\<lambda>p. stellar_value_matches_str jl (snd p) target) m)
        | _ \<Rightarrow> Inl (ParseError (''Failed to parse LHS value '' @ lhs @ '' as JSON map for 'contains' operator'')))
     else Inl (UnsupportedOperator ''Operator not supported for EVM 'map' type. Supported: Eq, Ne, Contains.''))"

section \<open>The evaluator\<close>

definition stellar_get_base_param :: "match_param_entry list \<Rightarrow> string \<Rightarrow> evaluation_error + string \<times> string" where
  "stellar_get_base_param args name = (case find (\<lambda>p. pe_name p = name) args of
       Some p \<Rightarrow> Inr (pe_value p, pe_kind p)
     | None \<Rightarrow> Inl (VariableNotFound (''Base parameter not found: '' @ name)))"

text \<open>The kind up to its first angle bracket.\<close>

definition base_kind :: "string \<Rightarrow> string" where
  "base_kind kind = to_lowercase (takeWhile (\<lambda>c. c \<noteq> CHR ''<'') kind)"

definition stellar_compare_final_values :: "json_lib \<Rightarrow> string \<Rightarrow> string \<Rightarrow> comparison_operator \<Rightarrow> literal_value \<Rightarrow>
  evaluation_error + bool" where
  "stellar_compare_final_values jl lhs_kind val op lit =
     (let base_type = base_kind lhs_kind in
      if base_type = ''bool'' then stellar_compare_boolean val op lit
      else if base_type = ''u32'' then compare_numeric ''u32'' 0 4294967295 val op lit
      else if base_type \<in> {''u64'', ''timepoint'', ''duration''} then compare_numeric ''u64'' 0 18446744073709551615 val op lit
      else if base_type = ''i32'' then compare_numeric ''i32'' (- 2147483648) 2147483647 val op lit
      else if base_type = ''i64''
        then compare_numeric ''i64'' (- 9223372036854775808) 9223372036854775807 val op lit
      else if base_type = ''u128''
        then compare_numeric ''u128'' 0 340282366920938463463374607431768211455 val op lit
      else if base_type = ''i128'' then compare_numeric ''i128'' (- 170141183460469231731687303715884105728)
        170141183460469231731687303715884105727 val op lit
      else if base_type \<in> {''u256'', ''i256''} then compare_large_int_as_string val op lit
      else if base_type \<in> {''string'', ''symbol'', ''address'', ''bytes''} then stellar_compare_string base_type val op lit
      else if base_type = ''vec'' then stellar_compare_vec jl val op lit
      else if base_type = ''map'' then stellar_compare_map jl val op lit
      else Inl (TypeMismatch (''Unknown parameter type: '' @ base_type)))"

definition stellar_evaluator :: "json_lib \<Rightarrow> xdr_lib \<Rightarrow> match_param_entry list \<Rightarrow> condition_evaluator" where
  "stellar_evaluator jl xl args = \<lparr>
     get_base_param = stellar_get_base_param args,
     compare_final_values = stellar_compare_final_values jl,
     get_kind_from_json_value = get_kind_from_value xl\<rparr>"

section \<open>The contract of evaluators\<close>

lemma stellar_simple_ne:
  "stellar_compare_boolean v OpNe lit = negate_result (stellar_compare_boolean v OpEq lit)"
  "compare_large_int_as_string v OpNe lit = negate_result (compare_large_int_as_string v OpEq lit)"
  "stellar_compare_string k v OpNe lit = negate_result (stellar_compare_string k v OpEq lit)"
  "stellar_compare_vec jl v OpNe lit = negate_result (stellar_compare_vec jl v OpEq lit)"
  by (auto simp: stellar_compare_boolean_def compare_large_int_as_string_def stellar_compare_string_def
      stellar_compare_vec_def Let_def split: option.split literal_value.split)

lemma compare_numeric_ne: "compare_numeric ty lo hi v OpNe lit = negate_result (compare_numeric ty lo hi v OpEq lit)"
  by (auto simp: compare_numeric_def compare_ordered_values_def split: option.split literal_value.split)

lemma stellar_compare_map_ne: "stellar_compare_map jl v OpNe lit = negate_result (stellar_compare_map jl v OpEq lit)"
  by (auto simp: stellar_compare_map_def map_target_def split: option.split literal_value.split)

interpretation stellar_chain: chain_evaluator "stellar_evaluator jl xl args" for jl xl args
proof
  show "compare_final_values (stellar_evaluator jl xl args) kind val OpNe lit
      = negate_result (compare_final_values (stellar_evaluator jl xl args) kind val OpEq lit)" for kind val lit
    unfolding stellar_evaluator_def
    by (simp add: stellar_compare_final_values_def Let_def stellar_simple_ne compare_numeric_ne stellar_compare_map_ne)
qed

end
