(* ===== verification/Stellar_Filter.thy ===== *)
theory Stellar_Filter imports Evm_Filter Stellar_Evaluator begin

text \<open>
  The Stellar block filter (src/src/services/filter/filters/stellar/filter.rs) over the ledgers,
  transactions and events of src/src/models/blockchain/stellar. Transactions and events of a
  ledger are the node's answers. Accounts, amounts and hashes are their texts; the library's
  envelope of a transaction is what the code matches on.
\<close>

section \<open>Ledgers, transactions and events\<close>

datatype operation_body =
    Payment string string
  | InvokeHostFunction host_function
  | OtherOperation

record envelope_tx =
  et_source_account :: string
  et_operations :: "operation_body list"

datatype tx_envelope = EnvelopeTxV0 | EnvelopeTx envelope_tx | EnvelopeFeeBump envelope_tx

text \<open>Result and metadata are decoded and kept, but not read; they are the bytes they are decoded from.\<close>

record decoded_transaction =
  dt_envelope :: "tx_envelope option"
  dt_result :: "byte list option"
  dt_meta :: "byte list option"

record xlm_transaction =
  xt_status :: string
  xt_hash :: string
  xt_application_order :: u32
  xt_fee_bump :: bool
  xt_envelope_xdr :: "string option"
  xt_envelope_json :: "json option"
  xt_result_xdr :: "string option"
  xt_result_json :: "json option"
  xt_result_meta_xdr :: "string option"
  xt_result_meta_json :: "json option"
  xt_diagnostic_events_xdr :: "string list option"
  xt_diagnostic_events_json :: "json list option"
  xt_ledger :: u32
  xt_ledger_close_time :: u64
  xt_decoded :: "decoded_transaction option"

text \<open>The decoders of the library.\<close>

record envelope_lib =
  el_envelope :: "byte list \<Rightarrow> tx_envelope option"
  el_result_ok :: "byte list \<Rightarrow> bool"
  el_meta_ok :: "byte list \<Rightarrow> bool"

definition decode_with :: "xdr_lib \<Rightarrow> (byte list \<Rightarrow> 'x option) \<Rightarrow> string option \<Rightarrow> 'x option" where
  "decode_with xl from_xdr xdr = (case xdr of None \<Rightarrow> None
     | Some s \<Rightarrow> (case xl_base64 xl s of None \<Rightarrow> None | Some bytes \<Rightarrow> from_xdr bytes))"

definition transaction_from_info :: "xdr_lib \<Rightarrow> envelope_lib \<Rightarrow> xlm_transaction \<Rightarrow> xlm_transaction" where
  "transaction_from_info xl el tx = tx\<lparr>xt_decoded := Some \<lparr>
     dt_envelope = decode_with xl (el_envelope el) (xt_envelope_xdr tx),
     dt_result = decode_with xl (\<lambda>b. if el_result_ok el b then Some b else None) (xt_result_xdr tx),
     dt_meta = decode_with xl (\<lambda>b. if el_meta_ok el b then Some b else None) (xt_result_meta_xdr tx)\<rparr>\<rparr>"

record xlm_event =
  xv_type :: string
  xv_ledger :: u32
  xv_ledger_closed_at :: string
  xv_contract_id :: string
  xv_id :: string
  xv_paging_token :: "string option"
  xv_in_successful_contract_call :: bool
  xv_transaction_hash :: string
  xv_topic_xdr :: "string list option"
  xv_topic_json :: "json list option"
  xv_value_xdr :: "string option"
  xv_value_json :: "json option"

record xlm_ledger =
  xg_hash :: string
  xg_sequence :: u32
  xg_ledger_close_time :: string
  xg_ledger_header :: string
  xg_ledger_header_json :: "json option"
  xg_ledger_metadata :: string
  xg_ledger_metadata_json :: "json option"

definition xlm_block_number :: "xlm_ledger \<Rightarrow> u64 option" where
  "xlm_block_number b = Some (ucast (xg_sequence b))"

section \<open>Matches\<close>

record xlm_params_map =
  xp_signature :: string
  xp_args :: "match_param_entry list option"

record xlm_match_arguments =
  xa_functions :: "xlm_params_map list option"
  xa_events :: "xlm_params_map list option"

record 'abi xlm_monitor_match =
  xm_monitor :: "'abi monitor"
  xm_transaction :: xlm_transaction
  xm_ledger :: xlm_ledger
  xm_network_slug :: string
  xm_matched_on :: match_conditions
  xm_matched_on_args :: "xlm_match_arguments option"

record event_map =
  ev_event :: xlm_params_map
  ev_tx_hash :: string

section \<open>Transactions\<close>

definition xlm_evaluate_expression :: "json_lib \<Rightarrow> xdr_lib \<Rightarrow> string \<Rightarrow> match_param_entry list \<Rightarrow> evaluation_error + bool" where
  "xlm_evaluate_expression jl xl expr args =
     (if trim expr = [] then Inl (ParseError ''Expression cannot be empty'')
      else case parse_filter_expression expr of
          None \<Rightarrow> Inl (ParseError (''Failed to parse expression '' @ expr))
        | Some ast \<Rightarrow> evaluate jl (stellar_evaluator jl xl args) ast)"

definition xlm_tx_status :: "string \<Rightarrow> transaction_status" where
  "xlm_tx_status s = (if s = ''SUCCESS'' then Success else if s = ''FAILED'' then Failure
     else if s = ''NOT FOUND'' then Failure else AnyStatus)"

record tx_operation =
  to_sender :: string
  to_receiver :: string
  to_value :: "string option"

definition xlm_operation :: "xdr_lib \<Rightarrow> string \<Rightarrow> operation_body \<Rightarrow> tx_operation option" where
  "xlm_operation xl sender body = (case body of
       Payment destination amount \<Rightarrow> Some \<lparr>to_sender = sender, to_receiver = destination, to_value = Some amount\<rparr>
     | InvokeHostFunction hf \<Rightarrow> Some \<lparr>to_sender = sender,
         to_receiver = op_contract_address (fst (process_invoke_host_function xl hf None)), to_value = None\<rparr>
     | OtherOperation \<Rightarrow> None)"

definition xlm_tx_operations :: "xdr_lib \<Rightarrow> xlm_transaction \<Rightarrow> tx_operation list" where
  "xlm_tx_operations xl tx = (case xt_decoded tx of
       None \<Rightarrow> []
     | Some d \<Rightarrow> (case dt_envelope d of
         Some (EnvelopeTx t) \<Rightarrow> List.map_filter (xlm_operation xl (et_source_account t)) (et_operations t)
       | _ \<Rightarrow> []))"

definition xlm_base_params :: "xlm_transaction \<Rightarrow> match_param_entry list" where
  "xlm_base_params tx =
     [entry ''hash'' (xt_hash tx) ''string'', entry ''ledger'' (show_word (xt_ledger tx)) ''i64'', entry ''value'' ''0'' ''i64'']"

definition xlm_operation_params :: "xlm_transaction \<Rightarrow> tx_operation \<Rightarrow> match_param_entry list" where
  "xlm_operation_params tx o' = butlast (xlm_base_params tx) @
     [entry ''value'' (case to_value o' of None \<Rightarrow> ''0'' | Some v \<Rightarrow> v) ''i64'',
      entry ''from'' (to_sender o') ''address'', entry ''to'' (to_receiver o') ''address'']"

text \<open>A condition that holds for an operation only ends the loop over the operations; one without
  expression, or evaluated without operations, ends the loop over the conditions.\<close>

fun xlm_transaction_conditions :: "json_lib \<Rightarrow> xdr_lib \<Rightarrow> xlm_transaction \<Rightarrow> transaction_condition list \<Rightarrow>
  transaction_condition list" where
  "xlm_transaction_conditions jl xl tx [] = []"
| "xlm_transaction_conditions jl xl tx (c # cs) =
     (let st = xlm_tx_status (xt_status tx); ops = xlm_tx_operations xl tx in
      if \<not> (tc_status c = AnyStatus \<or> tc_status c = st) then xlm_transaction_conditions jl xl tx cs
      else case tc_expression c of
          None \<Rightarrow> [\<lparr>tc_status = st, tc_expression = None\<rparr>]
        | Some expr \<Rightarrow>
          if ops \<noteq> [] then
            (if list_ex (\<lambda>o'. xlm_evaluate_expression jl xl expr (xlm_operation_params tx o') = Inr True) ops
             then \<lparr>tc_status = st, tc_expression = Some expr\<rparr> # xlm_transaction_conditions jl xl tx cs
             else xlm_transaction_conditions jl xl tx cs)
          else if xlm_evaluate_expression jl xl expr (xlm_base_params tx) = Inr True
          then [\<lparr>tc_status = st, tc_expression = Some expr\<rparr>]
          else xlm_transaction_conditions jl xl tx cs)"

definition xlm_find_matching_transaction :: "json_lib \<Rightarrow> xdr_lib \<Rightarrow> xlm_transaction \<Rightarrow> 'abi monitor \<Rightarrow> transaction_condition list" where
  "xlm_find_matching_transaction jl xl tx m =
     (let conds = mc_transactions (mon_match_conditions m) in
      if conds = [] then [\<lparr>tc_status = AnyStatus, tc_expression = None\<rparr>]
      else xlm_transaction_conditions jl xl tx conds)"

section \<open>Functions\<close>

definition argument_entry :: "json_lib \<Rightarrow> string \<Rightarrow> string \<Rightarrow> json \<Rightarrow> match_param_entry" where
  "argument_entry jl name kind arg = (case arg of
       JArray xs \<Rightarrow> entry name (json_print jl arg) ''Vec''
     | JObject m \<Rightarrow> (case (map_of m ''type'', map_of m ''value'') of
         (Some (JString ty), Some (JString v)) \<Rightarrow> entry name v ty
       | _ \<Rightarrow> entry name (json_print jl arg) ''Map'')
     | JString s \<Rightarrow> entry name s kind
     | JNumber n \<Rightarrow> entry name (number_print jl n) kind
     | JBool b \<Rightarrow> entry name (show_bool b) kind
     | JNull \<Rightarrow> entry name [] kind)"

definition convert_arguments :: "json_lib \<Rightarrow> xdr_lib \<Rightarrow> json list \<Rightarrow> contract_function option \<Rightarrow> match_param_entry list" where
  "convert_arguments jl xl arguments spec = map (\<lambda>(i, arg).
     case (case spec of None \<Rightarrow> None
           | Some f \<Rightarrow> if i < length (cu_inputs f) then Some (cu_inputs f ! i) else None) of
       Some input \<Rightarrow> argument_entry jl (cn_name input) (cn_kind input) arg
     | None \<Rightarrow> argument_entry jl (show_nat i) (get_kind_from_value xl arg) arg) (enumerate 0 arguments)"

text \<open>The first condition with the signature of the call whose expression, if any, holds.\<close>

fun xlm_function_conditions :: "json_lib \<Rightarrow> xdr_lib \<Rightarrow> string \<Rightarrow> match_param_entry list \<Rightarrow> function_condition list \<Rightarrow>
  (function_condition \<times> xlm_params_map) option" where
  "xlm_function_conditions jl xl sig params [] = None"
| "xlm_function_conditions jl xl sig params (c # cs) =
     (if \<not> stellar_same_signature (fc_signature c) sig then xlm_function_conditions jl xl sig params cs
      else case fc_expression c of
          None \<Rightarrow> Some (\<lparr>fc_signature = sig, fc_expression = None\<rparr>, \<lparr>xp_signature = sig, xp_args = Some params\<rparr>)
        | Some expr \<Rightarrow>
          if xlm_evaluate_expression jl xl expr params = Inr True
          then Some (\<lparr>fc_signature = sig, fc_expression = Some expr\<rparr>, \<lparr>xp_signature = sig, xp_args = Some params\<rparr>)
          else xlm_function_conditions jl xl sig params cs)"

definition xlm_match_call :: "json_lib \<Rightarrow> xdr_lib \<Rightarrow> string list \<Rightarrow> (string \<times> formatted_spec) list \<Rightarrow> 'abi monitor \<Rightarrow>
  operation_body \<Rightarrow> (function_condition \<times> xlm_params_map) option" where
  "xlm_match_call jl xl monitored specs m body = (case body of
       InvokeHostFunction hf \<Rightarrow>
         (let (op, spec) = process_invoke_host_function xl hf (Some specs); sig = op_function_signature op;
              conds = mc_functions (mon_match_conditions m)
          in if stellar_normalize_address (op_contract_address op) \<notin> set monitored then None
             else (case spec of
                 None \<Rightarrow> None
               | Some sp \<Rightarrow> (case find (\<lambda>f. stellar_same_signature (cu_signature f) sig) (ff_functions sp) of
                   None \<Rightarrow> None
                 | Some f \<Rightarrow> (let params = convert_arguments jl xl (op_arguments op) (Some f) in
                     if conds = []
                     then Some (\<lparr>fc_signature = sig, fc_expression = None\<rparr>, \<lparr>xp_signature = sig, xp_args = Some params\<rparr>)
                     else xlm_function_conditions jl xl sig params conds))))
     | _ \<Rightarrow> None)"

definition xlm_calls :: "xlm_transaction \<Rightarrow> operation_body list" where
  "xlm_calls tx = (case xt_decoded tx of
       None \<Rightarrow> []
     | Some d \<Rightarrow> (case dt_envelope d of
         Some (EnvelopeTx t) \<Rightarrow> et_operations t
       | Some (EnvelopeFeeBump t) \<Rightarrow> et_operations t
       | _ \<Rightarrow> []))"

definition xlm_find_matching_functions :: "json_lib \<Rightarrow> xdr_lib \<Rightarrow> string list \<Rightarrow> (string \<times> formatted_spec) list \<Rightarrow>
  xlm_transaction \<Rightarrow> 'abi monitor \<Rightarrow> (function_condition \<times> xlm_params_map) list" where
  "xlm_find_matching_functions jl xl monitored specs tx m =
     List.map_filter (xlm_match_call jl xl monitored specs m) (xlm_calls tx)"

section \<open>Events\<close>

text \<open>What a condition with the signature of the event adds to the matched conditions and to their
  arguments: one without expression adds no arguments.\<close>

definition xlm_event_condition :: "json_lib \<Rightarrow> xdr_lib \<Rightarrow> xlm_params_map \<Rightarrow> event_condition \<Rightarrow>
  event_condition list \<times> xlm_params_map list" where
  "xlm_event_condition jl xl event c = (case ec_expression c of
       None \<Rightarrow> ([\<lparr>ec_signature = xp_signature event, ec_expression = None\<rparr>], [])
     | Some expr \<Rightarrow> (case xp_args event of
         None \<Rightarrow> ([], [])
       | Some args \<Rightarrow>
         if xlm_evaluate_expression jl xl expr args = Inr True
         then ([\<lparr>ec_signature = xp_signature event, ec_expression = Some expr\<rparr>], [event])
         else ([], [])))"

definition append_pair :: "'a list \<times> 'b list \<Rightarrow> 'a list \<times> 'b list \<Rightarrow> 'a list \<times> 'b list" where
  "append_pair p q = (fst p @ fst q, snd p @ snd q)"

definition xlm_match_event :: "json_lib \<Rightarrow> xdr_lib \<Rightarrow> 'abi monitor \<Rightarrow> xlm_params_map \<Rightarrow>
  event_condition list \<times> xlm_params_map list" where
  "xlm_match_event jl xl m event =
     (let conds = mc_events (mon_match_conditions m) in
      if conds = [] then ([\<lparr>ec_signature = xp_signature event, ec_expression = None\<rparr>], [event])
      else foldr (\<lambda>c. append_pair (xlm_event_condition jl xl event c))
        (filter (\<lambda>c. stellar_same_signature (ec_signature c) (xp_signature event)) conds) ([], []))"

definition xlm_find_matching_events :: "json_lib \<Rightarrow> xdr_lib \<Rightarrow> event_map list \<Rightarrow> xlm_transaction \<Rightarrow> 'abi monitor \<Rightarrow>
  event_condition list \<times> xlm_params_map list" where
  "xlm_find_matching_events jl xl events tx m =
     foldr (\<lambda>e. append_pair (xlm_match_event jl xl m (ev_event e)))
       (filter (\<lambda>e. ev_tx_hash e = xt_hash tx) events) ([], [])"

text \<open>The text of a topic, behind its size and type.\<close>

definition topic_text :: "xdr_lib \<Rightarrow> string \<Rightarrow> string option" where
  "topic_text xl topic = (case xl_base64 xl topic of
       None \<Rightarrow> None
     | Some bytes \<Rightarrow> if length bytes < 8 then None
         else map_option (\<lambda>s. let nul = (\<lambda>c. c = char_of (0::nat)) in rev (dropWhile nul (rev (dropWhile nul s))))
           (string_from_utf8 (drop 8 bytes)))"

text \<open>The topics up to the first that is no text.\<close>

fun decode_topics :: "xdr_lib \<Rightarrow> string list \<Rightarrow> string list" where
  "decode_topics xl [] = []"
| "decode_topics xl (t # ts) = (case topic_text xl t of None \<Rightarrow> [] | Some s \<Rightarrow> s # decode_topics xl ts)"

definition spec_of_event :: "string list \<Rightarrow> contract_event \<Rightarrow> bool" where
  "spec_of_event topics e \<longleftrightarrow>
     (if cv_prefix_topics e \<noteq> [] then prefix (cv_prefix_topics e) topics
      else topics \<noteq> [] \<and> hd topics = cv_name e)"

definition find_event_spec :: "(string \<times> formatted_spec) list \<Rightarrow> string \<Rightarrow> string list \<Rightarrow> contract_event option" where
  "find_event_spec specs contract_id topics =
     (case find (\<lambda>(addr, _). stellar_normalize_address addr = stellar_normalize_address contract_id) specs of
        None \<Rightarrow> None
      | Some (_, spec) \<Rightarrow> find (spec_of_event topics) (ff_events spec))"

definition indexed_entry :: "decoded_param_entry \<Rightarrow> match_param_entry" where
  "indexed_entry d = \<lparr>pe_name = [], pe_value = de_value d, pe_indexed = de_indexed d, pe_kind = de_kind d\<rparr>"

definition xlm_indexed_args :: "xdr_lib \<Rightarrow> string list \<Rightarrow> match_param_entry list" where
  "xlm_indexed_args xl topics = List.map_filter (\<lambda>t. case xl_base64 xl t of
       None \<Rightarrow> None
     | Some bytes \<Rightarrow> map_option indexed_entry (parse_xdr_value xl bytes True)) topics"

text \<open>\<open>None\<close>: the event is skipped.\<close>

definition xlm_value_args :: "xdr_lib \<Rightarrow> contract_event option \<Rightarrow> string option \<Rightarrow> match_param_entry list option" where
  "xlm_value_args xl spec value_xdr = (case value_xdr of
       None \<Rightarrow> Some []
     | Some x \<Rightarrow> (case xl_base64 xl x of
         None \<Rightarrow> None
       | Some bytes \<Rightarrow> (case parse_xdr_value_with_stellar_value xl bytes False of
           None \<Rightarrow> None
         | Some (d, v) \<Rightarrow> (case spec of
             Some sp \<Rightarrow> (let unpacked = unpack_stellar_value xl v (filter (\<lambda>p. cp_location p = Data) (cv_params sp))
                         in if unpacked = [] then None else Some unpacked)
           | None \<Rightarrow> Some [indexed_entry d]))))"

definition event_signature_text :: "string \<Rightarrow> match_param_entry list \<Rightarrow> match_param_entry list \<Rightarrow> string" where
  "event_signature_text name indexed vals =
     (let kinds = (\<lambda>es. join_with '','' (map pe_kind es)) in
      name @ ''('' @ kinds indexed
        @ (if vals \<noteq> [] then (if indexed \<noteq> [] then '','' @ kinds vals else kinds vals) else []) @ '')'')"

definition name_args :: "contract_event option \<Rightarrow> match_param_entry list \<Rightarrow> match_param_entry list" where
  "name_args spec args = map (\<lambda>(i, a).
     if pe_name a = []
     then a\<lparr>pe_name := (case spec of
         None \<Rightarrow> show_nat i
       | Some sp \<Rightarrow> if i < length (cv_params sp) then cp_name (cv_params sp ! i) else show_nat i)\<rparr>
     else a) (enumerate 0 args)"

definition decode_stellar_event :: "xdr_lib \<Rightarrow> string list \<Rightarrow> (string \<times> formatted_spec) list \<Rightarrow> xlm_event \<Rightarrow> event_map option" where
  "decode_stellar_event xl monitored specs event =
     (if stellar_normalize_address (xv_contract_id event) \<notin> set monitored then None
      else case xv_topic_xdr event of
          None \<Rightarrow> None
        | Some topics \<Rightarrow>
          (let decoded = decode_topics xl topics in
           if decoded = [] then None
           else let spec = find_event_spec specs (xv_contract_id event) decoded;
                    name = (case spec of Some sp \<Rightarrow> cv_name sp | None \<Rightarrow> hd decoded);
                    skip = (case spec of Some sp \<Rightarrow> length (cv_prefix_topics sp) | None \<Rightarrow> 1);
                    indexed = xlm_indexed_args xl (drop skip topics)
                in case xlm_value_args xl spec (xv_value_xdr event) of
                    None \<Rightarrow> None
                  | Some vals \<Rightarrow> Some \<lparr>
                      ev_event = \<lparr>xp_signature = event_signature_text name indexed vals,
                        xp_args = Some (name_args spec (indexed @ vals))\<rparr>,
                      ev_tx_hash = xv_transaction_hash event\<rparr>))"

definition decode_stellar_events :: "xdr_lib \<Rightarrow> xlm_event list \<Rightarrow> string list \<Rightarrow> (string \<times> formatted_spec) list \<Rightarrow> event_map list" where
  "decode_stellar_events xl events monitored specs = List.map_filter (decode_stellar_event xl monitored specs) events"

section \<open>The filter of a block\<close>

text \<open>What the node answers for the sequence number of a ledger.\<close>

record xlm_node =
  xn_transactions :: "u32 \<Rightarrow> string + xlm_transaction list"
  xn_events :: "u32 \<Rightarrow> string + xlm_event list"

definition stellar_formatted_specs :: "xdr_lib \<Rightarrow> (string \<times> 'abi contract_spec) list option \<Rightarrow> (string \<times> formatted_spec) list" where
  "stellar_formatted_specs xl specs = List.map_filter (\<lambda>(addr, spec). case spec of
       SpecStellar j \<Rightarrow> Some (addr, format_stellar_spec (stellar_spec_of_json xl j)) | _ \<Rightarrow> None)
     (case specs of None \<Rightarrow> [] | Some l \<Rightarrow> l)"

definition monitored_addresses :: "'abi monitor \<Rightarrow> string list" where
  "monitored_addresses m = map (\<lambda>a. stellar_normalize_address (aw_address a)) (mon_addresses m)"

definition xlm_build_match :: "network \<Rightarrow> xlm_ledger \<Rightarrow> 'abi monitor \<Rightarrow> xlm_transaction \<Rightarrow> transaction_condition list \<Rightarrow>
  (function_condition \<times> xlm_params_map) list \<Rightarrow> event_condition list \<times> xlm_params_map list \<Rightarrow> 'abi xlm_monitor_match list" where
  "xlm_build_match net b m tx txs fs es =
     (let mc = mon_match_conditions m;
          has_event = (mc_events mc \<noteq> [] \<and> fst es \<noteq> []);
          has_function = (mc_functions mc \<noteq> [] \<and> fs \<noteq> []);
          has_transaction = (mc_transactions mc \<noteq> [] \<and> txs \<noteq> [])
      in if should_match mc has_event has_function has_transaction
         then [\<lparr>xm_monitor = m, xm_transaction = tx, xm_ledger = b, xm_network_slug = slug net,
                xm_matched_on = \<lparr>mc_functions = (if has_function then map fst fs else []),
                  mc_events = (if has_event then fst es else []),
                  mc_transactions = (if has_transaction then txs else [])\<rparr>,
                xm_matched_on_args = Some \<lparr>xa_functions = (if has_function then Some (map snd fs) else None),
                  xa_events = (if has_event then Some (snd es) else None)\<rparr>\<rparr>]
         else [])"

definition xlm_match_transaction :: "json_lib \<Rightarrow> xdr_lib \<Rightarrow> network \<Rightarrow> xlm_ledger \<Rightarrow> (string \<times> formatted_spec) list \<Rightarrow>
  event_map list \<Rightarrow> 'abi monitor \<Rightarrow> xlm_transaction \<Rightarrow> 'abi xlm_monitor_match list" where
  "xlm_match_transaction jl xl net b specs events m tx = xlm_build_match net b m tx
     (xlm_find_matching_transaction jl xl tx m)
     (xlm_find_matching_functions jl xl (monitored_addresses m) specs tx m)
     (xlm_find_matching_events jl xl events tx m)"

definition xlm_filter_block :: "json_lib \<Rightarrow> xdr_lib \<Rightarrow> xlm_node \<Rightarrow> network \<Rightarrow> xlm_ledger chain_block block_type \<Rightarrow> 'abi monitor list \<Rightarrow>
  (string \<times> 'abi contract_spec) list option \<Rightarrow> filter_error + 'abi xlm_monitor_match list" where
  "xlm_filter_block jl xl node net block monitors specs = (case block of
       BlockOther (BlockStellar b) \<Rightarrow>
         (case xn_transactions node (xg_sequence b) of
            Inl _ \<Rightarrow> Inl (Filter_network_error (''Failed to get transactions for block '' @ show_word (xg_sequence b)))
          | Inr txs \<Rightarrow>
            if txs = [] then Inr []
            else (case xn_events node (xg_sequence b) of
                Inl _ \<Rightarrow> Inl (Filter_network_error (''Failed to get events for block '' @ show_word (xg_sequence b)))
              | Inr events \<Rightarrow>
                (let fspecs = stellar_formatted_specs xl specs in
                 Inr (concat (map (\<lambda>m.
                   let decoded = decode_stellar_events xl events (monitored_addresses m) fspecs
                   in concat (map (xlm_match_transaction jl xl net b fspecs decoded m) txs)) monitors)))))
     | _ \<Rightarrow> Inl (Block_type_mismatch ''Expected Stellar block''))"

end
