(* ===== verification/Stellar_Values_Properties.thy ===== *)
theory Stellar_Values_Properties imports Stellar_Evaluator begin

text \<open>
  Integers of Stellar contracts: what their parts stand for, how they are printed, and how
  filter expressions compare them.
\<close>

section \<open>A sample library\<close>

text \<open>One contract with a function and an event; the topic and the data of the event are its name.\<close>

definition sample_contract_event :: sc_spec_entry where
  "sample_contract_event = EventV0 ''e'' [] [\<lparr>scp_name = ''n'', scp_type = TyU32, scp_location = DataField\<rparr>]"

definition sample_xl :: xdr_lib where
  "sample_xl = \<lparr>xl_contract = (\<lambda>_. ''CA''), xl_account = (\<lambda>_. ''GA''), xl_is_contract = (\<lambda>_. False), xl_is_account = (\<lambda>_. False),
     xl_hex = (\<lambda>_. []), xl_unhex = (\<lambda>_. None), xl_base64 = (\<lambda>_. Some (replicate 8 0 @ [0x65])),
     xl_sc_val = (\<lambda>_. Some (ScSymbol ''e'')), xl_json_vec = (\<lambda>_. []), xl_json_map = (\<lambda>_. []),
     xl_spec_entries = (\<lambda>_. Some [FunctionV0 ''f'' [\<lparr>scp_name = ''n'', scp_type = TySymbol\<rparr>], sample_contract_event]),
     xl_wasm_spec = (\<lambda>_. None)\<rparr>"

section \<open>Parts\<close>

lemma uint_u64: "0 \<le> uint (x :: u64)" "uint (x :: u64) \<le> 18446744073709551615"
  using uint_lt2p [of x] by simp_all

lemma sint_u64: "- 9223372036854775808 \<le> sint (x :: u64)" "sint (x :: u64) \<le> 9223372036854775807"
  using sint_ge [of x] sint_less [of x] by simp_all

definition limbs :: "u64 \<Rightarrow> u64 \<Rightarrow> u64 \<Rightarrow> u64 \<Rightarrow> int" where
  "limbs lo_lo lo_hi hi_lo hi_hi = uint lo_lo + 2 ^ 64 * uint lo_hi + 2 ^ 128 * uint hi_lo + 2 ^ 192 * uint hi_hi"

text \<open>A signed integer from its limbs.\<close>

definition signed_limbs :: "u64 \<Rightarrow> u64 \<Rightarrow> u64 \<Rightarrow> u64 \<Rightarrow> int" where
  "signed_limbs lo_lo lo_hi hi_lo hi_hi = uint lo_lo + 2 ^ 64 * uint lo_hi + 2 ^ 128 * uint hi_lo + 2 ^ 192 * sint hi_hi"

lemma u256_from_limbs_int: "u256_from_limbs a b c d = word_of_int (limbs a b c d)"
proof -
  have u: "(ucast x :: u256) = word_of_int (uint x)" for x :: u64 by transfer (simp add: take_bit_eq_mod)
  show ?thesis unfolding u256_from_limbs_def u push_bit_eq_mult limbs_def
    by (simp add: wi_hom_syms)
qed

lemma limbs_range:
  fixes a b c d :: int
  assumes "0 \<le> a" "a \<le> 18446744073709551615" "0 \<le> b" "b \<le> 18446744073709551615" "0 \<le> c" "c \<le> 18446744073709551615"
    and "l \<le> d" "d \<le> u"
  shows "2 ^ 192 * l \<le> a + 2 ^ 64 * b + 2 ^ 128 * c + 2 ^ 192 * d"
    and "a + 2 ^ 64 * b + 2 ^ 128 * c + 2 ^ 192 * d < 2 ^ 192 * (u + 1)"
  using assms by simp_all

lemma limbs_bounds: "0 \<le> limbs a b c d" "limbs a b c d < 2 ^ 256"
  using limbs_range [OF uint_u64 [of a] uint_u64 [of b] uint_u64 [of c] uint_u64 [of d]] by (simp_all add: limbs_def)

lemma uint_u256_from_limbs: "uint (u256_from_limbs a b c d) = limbs a b c d"
  using limbs_bounds [of a b c d] unfolding u256_from_limbs_int
  by (simp add: uint_word_of_int)

lemma signed_limbs_bounds: "- (2 ^ 255) \<le> signed_limbs a b c d" "signed_limbs a b c d < 2 ^ 255"
  using limbs_range [OF uint_u64 [of a] uint_u64 [of b] uint_u64 [of c] sint_u64 [of d]] by (simp_all add: signed_limbs_def)

lemma pair_range:
  fixes a b :: int
  assumes "0 \<le> a" "a \<le> 18446744073709551615" "l \<le> b" "b \<le> u"
  shows "2 ^ 64 * l \<le> 2 ^ 64 * b + a" and "2 ^ 64 * b + a < 2 ^ 64 * (u + 1)"
  using assms by simp_all

lemma uint_word_of_int_id: "0 \<le> i \<Longrightarrow> i < 2 ^ LENGTH('a) \<Longrightarrow> uint (word_of_int i :: 'a::len word) = i"
  by (simp add: uint_word_of_int)

lemma sint_word_of_int_id:
  assumes "- (2 ^ (LENGTH('a) - 1)) \<le> i" "i < 2 ^ (LENGTH('a) - 1)"
  shows "sint (word_of_int i :: 'a::len word) = i"
  using assms by (simp add: sint_sbintrunc' signed_take_bit_int_eq_self)

lemma uint_mod_sint: "\<exists>k. uint (d :: u64) = sint d + 2 ^ 64 * k"
proof -
  have "uint d = sint d mod 2 ^ 64" by (simp add: uint_sint [of d] take_bit_eq_mod)
  then show ?thesis using mult_div_mod_eq [of "2 ^ 64" "sint d"]
    by (intro exI [of _ "- (sint d div 2 ^ 64)"]) (simp add: algebra_simps)
qed

lemma u256_signed_limbs: "u256_from_limbs a b c d = word_of_int (signed_limbs a b c d)"
proof -
  obtain k where "uint d = sint d + 2 ^ 64 * k" using uint_mod_sint by blast
  then have "limbs a b c d = signed_limbs a b c d + 2 ^ 256 * k" by (simp add: limbs_def signed_limbs_def algebra_simps)
  then show ?thesis unfolding u256_from_limbs_int by (subst word_of_int_eq_iff) (simp add: take_bit_eq_mod)
qed

lemma sint_u256_from_limbs: "sint (u256_from_limbs a b c d) = signed_limbs a b c d"
  using signed_limbs_bounds [of a b c d] unfolding u256_signed_limbs
  by (intro sint_word_of_int_id) simp_all

lemma signed_limbs_sign: "signed_limbs a b c d < 0 \<longleftrightarrow> sint d < 0"
proof (cases "sint d < 0")
  case True
  then have "sint d \<le> - 1" by simp
  from limbs_range(2) [OF uint_u64 [of a] uint_u64 [of b] uint_u64 [of c] order_refl this] True
  show ?thesis by (simp add: signed_limbs_def)
next
  case False
  then have "0 \<le> sint d" by simp
  from limbs_range(1) [OF uint_u64 [of a] uint_u64 [of b] uint_u64 [of c] this order_refl] False
  show ?thesis by (simp only: signed_limbs_def mult_zero_right not_less [symmetric] simp_thms)
qed

lemma join_limbs_128: "(or (push_bit 64 x) (ucast (lo :: u64)) :: 128 word) = push_bit 64 x + ucast lo"
proof -
  have "and (push_bit 64 x) (ucast lo :: 128 word) = 0"
    by (rule bit_word_eqI) (auto simp: bit_simps dest: bit_imp_le_length)
  then show ?thesis by (simp only: disjunctive_add_eq_or)
qed

lemma combine_u128_value: "combine_u128 hi lo = show_int (2 ^ 64 * uint hi + uint lo)"
proof -
  have u: "(ucast x :: 128 word) = word_of_int (uint x)" for x :: u64 by transfer (simp add: take_bit_eq_mod)
  have "push_bit 64 (ucast hi) + ucast lo = (word_of_int (2 ^ 64 * uint hi + uint lo) :: 128 word)"
    unfolding u push_bit_eq_mult by (simp add: wi_hom_syms)
  moreover have "uint (word_of_int (2 ^ 64 * uint hi + uint lo) :: 128 word) = 2 ^ 64 * uint hi + uint lo"
    using pair_range [OF uint_u64 [of lo] uint_u64 [of hi]] by (intro uint_word_of_int_id) simp_all
  moreover have "\<not> 2 ^ 64 * uint hi + uint lo < 0"
    using pair_range(1) [OF uint_u64 [of lo] uint_u64 [of hi]] by (simp only: mult_zero_right not_less)
  ultimately show ?thesis
    by (simp only: combine_u128_def join_limbs_128 show_word_def show_int_def nat_uint_eq [symmetric] if_False)
qed

lemma combine_i128_value: "combine_i128 hi lo = show_int (2 ^ 64 * sint hi + uint lo)"
proof -
  have u: "(ucast lo :: 128 word) = word_of_int (uint lo)" by transfer (simp add: take_bit_eq_mod)
  have s: "(scast hi :: 128 word) = word_of_int (sint hi)" by transfer simp
  have "push_bit 64 (scast hi) + ucast lo = (word_of_int (2 ^ 64 * sint hi + uint lo) :: 128 word)"
    unfolding u s push_bit_eq_mult by (simp add: wi_hom_syms)
  moreover have "sint (word_of_int (2 ^ 64 * sint hi + uint lo) :: 128 word) = 2 ^ 64 * sint hi + uint lo"
    using pair_range [OF uint_u64 [of lo] sint_u64 [of hi]] by (intro sint_word_of_int_id) simp_all
  ultimately show ?thesis by (simp only: combine_i128_def join_limbs_128)
qed

lemma combine_u256_value: "combine_u256 hi_hi hi_lo lo_hi lo_lo = show_int (limbs lo_lo lo_hi hi_lo hi_hi)"
  using limbs_bounds(1) [of lo_lo lo_hi hi_lo hi_hi]
  by (simp add: combine_u256_def show_word_def show_int_def uint_u256_from_limbs nat_uint_eq [symmetric])

lemma sint_uminus_word:
  fixes w :: "'a::len word"
  assumes "sint w \<noteq> - (2 ^ (LENGTH('a) - 1))"
  shows "sint (- w) = - sint w"
proof -
  have "- w = word_of_int (- sint w)" by simp
  moreover have "- (2 ^ (LENGTH('a) - 1)) < sint w" "sint w < 2 ^ (LENGTH('a) - 1)"
    using assms sint_ge [of w] sint_less [of w] by simp_all
  ultimately show ?thesis by (simp only:) (rule sint_word_of_int_id; linarith)
qed

lemma combine_i256_value:
  assumes "signed_limbs lo_lo lo_hi hi_lo hi_hi \<noteq> - (2 ^ 255)"
  shows "combine_i256 hi_hi hi_lo lo_hi lo_lo = show_int \<bar>signed_limbs lo_lo lo_hi hi_lo hi_hi\<bar>"
proof -
  let ?w = "u256_from_limbs lo_lo lo_hi hi_lo hi_hi"
  have "sint (- ?w) = - sint ?w"
    using assms by (intro sint_uminus_word) (simp add: sint_u256_from_limbs)
  then show ?thesis
    using signed_limbs_sign [of lo_lo lo_hi hi_lo hi_hi]
    by (auto simp: combine_i256_def Let_def sint_u256_from_limbs)
qed

section \<open>Numerals\<close>

lemma parse_integer_show_int [simp]:
  assumes "lo \<le> n" "n \<le> hi"
  shows "parse_integer lo hi (show_int n) = Some n"
proof -
  have "hd (show_nat k) \<noteq> CHR ''-''" for k
    using show_nat_digits [of k] show_nat_nonempty [of k] is_digit_not_sign by (cases "show_nat k") auto
  with assms show ?thesis
    by (auto simp: parse_integer_def Let_def show_int_def show_nat_digits)
qed

lemma compare_numeric_ints:
  assumes "lo \<le> n" "n \<le> hi" "lo \<le> m" "m \<le> hi"
  shows "compare_numeric ty lo hi (show_int n) op (LNumber (show_int m)) = compare_ordered_values ty n op m"
  using assms by (simp add: compare_numeric_def)

lemma show_int_inj: "show_int m = show_int n \<longleftrightarrow> m = n"
proof -
  have "hd (show_nat k) \<noteq> CHR ''-''" for k
    using show_nat_digits [of k] show_nat_nonempty [of k] is_digit_not_sign by (cases "show_nat k") auto
  then have "show_nat k \<noteq> CHR ''-'' # show_nat l" for k l by (metis list.sel(1))
  then show ?thesis by (auto simp: show_int_def show_nat_inj dest: sym)
qed

lemma compare_numeric_lit:
  assumes "lo \<le> n" "n \<le> hi"
  shows "compare_numeric ty lo hi (show_int n) op (LNumber (show_int m)) = (if lo \<le> m \<and> m \<le> hi
    then compare_ordered_values ty n op m else Inl (ParseError (''Failed to parse comparison value '' @ show_int m @ '' as '' @ ty)))"
proof (cases "lo \<le> m \<and> m \<le> hi")
  case True
  with assms show ?thesis by (simp add: compare_numeric_ints)
next
  case False
  have "strip_plus (CHR ''-'' # show_nat k) = CHR ''-'' # show_nat k" for k by (simp add: strip_plus_def)
  moreover have "hd (show_nat k) \<noteq> CHR ''-''" for k
    using show_nat_digits [of k] show_nat_nonempty [of k] is_digit_not_sign by (cases "show_nat k") auto
  ultimately have "parse_integer lo hi (show_int m) = None" using False
    by (auto simp: parse_integer_def Let_def show_int_def show_nat_digits is_digit_def char_code_def)
  then show ?thesis unfolding if_not_P [OF False] using assms by (simp add: compare_numeric_def)
qed

section \<open>Integers of a contract\<close>

text \<open>The type, its bounds and the value of an integer of at most 128 bits.\<close>

fun sc_integer :: "sc_val \<Rightarrow> (string \<times> int \<times> int \<times> int) option" where
  "sc_integer (ScU32 w) = Some (''u32'', 0, 2 ^ 32 - 1, uint w)"
| "sc_integer (ScI32 w) = Some (''i32'', - (2 ^ 31), 2 ^ 31 - 1, sint w)"
| "sc_integer (ScU64 w) = Some (''u64'', 0, 2 ^ 64 - 1, uint w)"
| "sc_integer (ScTimepoint w) = Some (''u64'', 0, 2 ^ 64 - 1, uint w)"
| "sc_integer (ScDuration w) = Some (''u64'', 0, 2 ^ 64 - 1, uint w)"
| "sc_integer (ScI64 w) = Some (''i64'', - (2 ^ 63), 2 ^ 63 - 1, sint w)"
| "sc_integer (ScU128 hi lo) = Some (''u128'', 0, 2 ^ 128 - 1, 2 ^ 64 * uint hi + uint lo)"
| "sc_integer (ScI128 hi lo) = Some (''i128'', - (2 ^ 127), 2 ^ 127 - 1, 2 ^ 64 * sint hi + uint lo)"
| "sc_integer _ = None"

lemma sc_integer_bounds: "sc_integer v = Some (ty, lo, hi, n) \<Longrightarrow> lo \<le> n \<and> n \<le> hi"
proof (induction v rule: sc_integer.induct)
  case (1 w) then show ?case using uint_lt2p [of w] by auto
next
  case (2 w) then show ?case using sint_ge [of w] sint_less [of w] by auto
next
  case (3 w) then show ?case using uint_u64 [of w] by auto
next
  case (4 w) then show ?case using uint_u64 [of w] by auto
next
  case (5 w) then show ?case using uint_u64 [of w] by auto
next
  case (6 w) then show ?case using sint_u64 [of w] by auto
next
  case (7 hi lo) then show ?case using pair_range [OF uint_u64 [of lo] uint_u64 [of hi]] by auto
next
  case (8 hi lo) then show ?case using pair_range [OF uint_u64 [of lo] sint_u64 [of hi]] by auto
qed simp_all

lemma show_word_int: "show_word w = show_int (uint w)"
  by (simp add: show_word_def show_int_def nat_uint_eq)

definition printed :: "xdr_lib \<Rightarrow> sc_val \<Rightarrow> decoded_param_entry" where
  "printed xl v = to_param_entry xl False (value_of_sc_val xl v)"

lemma printed_integer:
  assumes "sc_integer v = Some (ty, lo, hi, n)"
  shows "de_value (printed xl v) = show_int n"
  using assms by (cases v) (auto simp: printed_def to_param_entry_def show_word_int combine_u128_value combine_i128_value)

lemma compare_printed_integer:
  assumes "sc_integer v = Some (ty, lo, hi, n)"
  shows "stellar_compare_final_values jl (de_kind (printed xl v)) s op lit = compare_numeric ty lo hi s op lit"
proof -
  have k: "base_kind ''U32'' = ''u32''" "base_kind ''I32'' = ''i32''" "base_kind ''U64'' = ''u64''" "base_kind ''I64'' = ''i64''"
    "base_kind ''Timepoint'' = ''timepoint''" "base_kind ''Duration'' = ''duration''" "base_kind ''U128'' = ''u128''"
    "base_kind ''I128'' = ''i128''" by code_simp+
  show ?thesis using assms
    by (cases v) (auto simp: printed_def to_param_entry_def stellar_compare_final_values_def Let_def k)
qed

text \<open>C14. The integers of a contract are compared as the numbers they are: for every integer type of at
  most 128 bits the parameter decoded from the parts of the value compares with the literal of a
  number as the two numbers do, if the number is in the range of the type, and is an error
  otherwise. Nothing is lost in joining the parts, printing and parsing.\<close>

theorem contract_integers_compared:
  assumes "sc_integer v = Some (ty, lo, hi, n)"
  shows "stellar_compare_final_values jl (de_kind (to_param_entry xl False (value_of_sc_val xl v)))
      (de_value (to_param_entry xl False (value_of_sc_val xl v))) op (LNumber (show_int m))
    = (if lo \<le> m \<and> m \<le> hi then compare_ordered_values ty n op m
       else Inl (ParseError (''Failed to parse comparison value '' @ show_int m @ '' as '' @ ty)))"
  using compare_printed_integer [OF assms] printed_integer [OF assms] sc_integer_bounds [OF assms]
  unfolding printed_def by (simp add: compare_numeric_lit)

theorem contract_integers_compared_witness:
  "stellar_compare_final_values sample_json_lib (de_kind (to_param_entry sample_xl False (value_of_sc_val sample_xl (ScI128 (- 1) 5))))
      (de_value (to_param_entry sample_xl False (value_of_sc_val sample_xl (ScI128 (- 1) 5)))) OpLt (LNumber (show_int 7)) = Inr True"
  using contract_integers_compared [of "ScI128 (- 1) 5" "''i128''" _ _ "- 18446744073709551611" sample_json_lib sample_xl OpLt 7]
  by (simp add: compare_ordered_values_def)

lemma show_type_show_value_i256:
  "de_kind (to_param_entry xl False (value_of_sc_val xl (ScI256 d c b a))) = ''I256''"
  "de_value (to_param_entry xl False (value_of_sc_val xl (ScI256 d c b a))) = combine_i256 d c b a"
  "de_kind (to_param_entry xl False (value_of_sc_val xl (ScU256 d c b a))) = ''U256''"
  "de_value (to_param_entry xl False (value_of_sc_val xl (ScU256 d c b a))) = combine_u256 d c b a"
  by (simp_all add: to_param_entry_def)

lemma base_kind_256: "base_kind ''I256'' = ''i256''" "base_kind ''U256'' = ''u256''"
  by code_simp+

text \<open>C15. Integers of 256 bits are compared by their texts, and the text of a signed one is that of its
  magnitude: an unsigned one equals the literal of its number, but a negative one equals the
  literal of its absolute value and never its own (\<open>combine_i256\<close> prints the negation of a
  negative number).\<close>

theorem i256_compared_by_magnitude:
  assumes "signed_limbs a b c d \<noteq> - (2 ^ 255)"
  shows "stellar_compare_final_values jl (de_kind (to_param_entry xl False (value_of_sc_val xl (ScI256 d c b a))))
      (de_value (to_param_entry xl False (value_of_sc_val xl (ScI256 d c b a)))) OpEq (LNumber (show_int m))
    = Inr (m = \<bar>signed_limbs a b c d\<bar>)
   \<and> stellar_compare_final_values jl (de_kind (to_param_entry xl False (value_of_sc_val xl (ScU256 d c b a))))
      (de_value (to_param_entry xl False (value_of_sc_val xl (ScU256 d c b a)))) OpEq (LNumber (show_int m))
    = Inr (m = limbs a b c d)"
  unfolding show_type_show_value_i256 stellar_compare_final_values_def base_kind_256
  using combine_i256_value [OF assms]
  by (auto simp: Let_def compare_large_int_as_string_def combine_u256_value show_int_inj)

text \<open>Minus five.\<close>

theorem i256_compared_by_magnitude_witness:
  "signed_limbs (- 5) (- 1) (- 1) (- 1) = - 5
   \<and> stellar_compare_final_values sample_json_lib (de_kind (to_param_entry sample_xl False (value_of_sc_val sample_xl (ScI256 (- 1) (- 1) (- 1) (- 5)))))
      (de_value (to_param_entry sample_xl False (value_of_sc_val sample_xl (ScI256 (- 1) (- 1) (- 1) (- 5))))) OpEq (LNumber (show_int (- 5))) = Inr False"
proof -
  have five: "signed_limbs (- 5) (- 1) (- 1) (- 1) = - 5" by code_simp
  have "signed_limbs (- 5) (- 1) (- 1) (- 1) \<noteq> - (2 ^ 255)" unfolding five by simp
  from i256_compared_by_magnitude [OF this, of sample_json_lib sample_xl "- 5", unfolded five] show ?thesis using five by simp
qed

section \<open>Bytes\<close>

lemma lower_digit: "is_digit c \<Longrightarrow> lower_char c = c"
  by (auto simp: lower_char_def is_upper_def is_digit_def)

lemma to_lowercase_show_nat [simp]: "to_lowercase (show_nat n) = show_nat n"
  using show_nat_digits [of n] by (simp add: to_lowercase_def list_all_iff lower_digit map_idI)

lemma base_kind_bytes: "base_kind (''Bytes'' @ show_word n) = ''bytes'' @ show_word n"
proof -
  have "list_all (\<lambda>c. c \<noteq> CHR ''<'') (show_nat k)" for k
    using show_nat_digits [of k] by (auto simp: list_all_iff is_digit_def char_code_def)
  then have "takeWhile (\<lambda>c. c \<noteq> CHR ''<'') (''Bytes'' @ show_word n) = ''Bytes'' @ show_word n"
    by (simp add: show_word_def list_all_iff takeWhile_eq_all_conv)
  moreover have "to_lowercase ''Bytes'' = ''bytes''" by code_simp
  ultimately show ?thesis by (simp only: base_kind_def to_lowercase_append) (simp add: show_word_def)
qed

text \<open>Bytes cannot be compared: the kind of every non-empty value of bytes has its length attached,
  which the evaluator, that knows the kind \<open>bytes\<close> only, takes for an unknown type, so that every
  comparison is an error, whatever the operator and the literal.\<close>

theorem bytes_never_comparable:
  "stellar_compare_final_values jl (de_kind (to_param_entry xl indexed (value_of_sc_val xl (ScBytes (x # xs)))))
      (de_value (to_param_entry xl indexed (value_of_sc_val xl (ScBytes (x # xs))))) op lit
    = Inl (TypeMismatch (''Unknown parameter type: bytes'' @ show_word (word_of_nat (Suc (length xs)) :: u32)))"
proof -
  have "de_kind (to_param_entry xl indexed (value_of_sc_val xl (ScBytes (x # xs))))
      = ''Bytes'' @ show_word (word_of_nat (Suc (length xs)) :: u32)" by (simp add: to_param_entry_def)
  moreover have "show_word (w :: u32) \<noteq> []" for w by (simp add: show_word_def)
  ultimately show ?thesis unfolding stellar_compare_final_values_def base_kind_bytes Let_def
    by (simp only: base_kind_bytes) simp
qed

end
