(* ===== verification/Stellar_Filter_Properties.thy ===== *)
theory Stellar_Filter_Properties imports Stellar_Filter Stellar_Values_Properties Midnight_Filter_Properties begin

text \<open>
  What the Stellar filter guarantees: exactly which transactions of a ledger match, what
  justifies a matched function, and which calls and events are never seen as they are.
\<close>

section \<open>What matches\<close>

definition xlm_expression_holds :: "json_lib \<Rightarrow> xdr_lib \<Rightarrow> string option \<Rightarrow> match_param_entry list \<Rightarrow> bool" where
  "xlm_expression_holds jl xl expr args \<longleftrightarrow>
     (case expr of None \<Rightarrow> True | Some e \<Rightarrow> xlm_evaluate_expression jl xl e args = Inr True)"

definition xlm_event_found :: "json_lib \<Rightarrow> xdr_lib \<Rightarrow> event_map list \<Rightarrow> xlm_transaction \<Rightarrow> event_condition \<Rightarrow> bool" where
  "xlm_event_found jl xl events tx c \<longleftrightarrow> list_ex (\<lambda>e. ev_tx_hash e = xt_hash tx
     \<and> stellar_same_signature (ec_signature c) (xp_signature (ev_event e))
     \<and> (case xp_args (ev_event e) of
          None \<Rightarrow> ec_expression c = None
        | Some args \<Rightarrow> xlm_expression_holds jl xl (ec_expression c) args)) events"

text \<open>The signature and the named arguments of a call of a watched contract whose specification has
  the function.\<close>

definition xlm_known_call :: "json_lib \<Rightarrow> xdr_lib \<Rightarrow> string list \<Rightarrow> (string \<times> formatted_spec) list \<Rightarrow> operation_body \<Rightarrow>
  (string \<times> match_param_entry list) option" where
  "xlm_known_call jl xl monitored specs body = (case body of
       InvokeHostFunction hf \<Rightarrow> (case process_invoke_host_function xl hf (Some specs) of
           (op, None) \<Rightarrow> None
         | (op, Some sp) \<Rightarrow>
           if stellar_normalize_address (op_contract_address op) \<in> set monitored
           then map_option (\<lambda>f. (op_function_signature op, convert_arguments jl xl (op_arguments op) (Some f)))
             (find (\<lambda>f. stellar_same_signature (cu_signature f) (op_function_signature op)) (ff_functions sp))
           else None)
     | _ \<Rightarrow> None)"

definition xlm_function_found :: "json_lib \<Rightarrow> xdr_lib \<Rightarrow> (string \<times> formatted_spec) list \<Rightarrow> 'abi monitor \<Rightarrow> xlm_transaction \<Rightarrow>
  function_condition \<Rightarrow> bool" where
  "xlm_function_found jl xl specs m tx c \<longleftrightarrow> list_ex (\<lambda>body.
     (case xlm_known_call jl xl (monitored_addresses m) specs body of
        None \<Rightarrow> False
      | Some (sig, params) \<Rightarrow> stellar_same_signature (fc_signature c) sig \<and> xlm_expression_holds jl xl (fc_expression c) params))
     (xlm_calls tx)"

definition xlm_transaction_found :: "json_lib \<Rightarrow> xdr_lib \<Rightarrow> xlm_transaction \<Rightarrow> transaction_condition \<Rightarrow> bool" where
  "xlm_transaction_found jl xl tx c \<longleftrightarrow> (tc_status c = AnyStatus \<or> tc_status c = xlm_tx_status (xt_status tx))
     \<and> list_ex (xlm_expression_holds jl xl (tc_expression c))
         (if xlm_tx_operations xl tx = [] then [xlm_base_params tx]
          else map (xlm_operation_params tx) (xlm_tx_operations xl tx))"

definition xlm_decides :: "json_lib \<Rightarrow> xdr_lib \<Rightarrow> (string \<times> formatted_spec) list \<Rightarrow> event_map list \<Rightarrow> 'abi monitor \<Rightarrow>
  xlm_transaction \<Rightarrow> bool" where
  "xlm_decides jl xl specs events m tx \<longleftrightarrow> (let mc = mon_match_conditions m in
       (mc_transactions mc = [] \<or> list_ex (xlm_transaction_found jl xl tx) (mc_transactions mc))
     \<and> ((mc_events mc = [] \<and> mc_functions mc = []) \<or> list_ex (xlm_event_found jl xl events tx) (mc_events mc)
        \<or> list_ex (xlm_function_found jl xl specs m tx) (mc_functions mc)))"

lemma foldr_append_pair:
  "foldr (\<lambda>c. append_pair (f c)) cs ([], []) = (concat (map (\<lambda>c. fst (f c)) cs), concat (map (\<lambda>c. snd (f c)) cs))"
  by (induction cs) (simp_all add: append_pair_def)

lemma xlm_transactions_empty:
  "xlm_transaction_conditions jl xl tx cs \<noteq> [] \<longleftrightarrow> list_ex (xlm_transaction_found jl xl tx) cs"
proof (induction cs)
  case (Cons c cs)
  have ops: "list_ex P (map f os) \<longleftrightarrow> list_ex (\<lambda>x. P (f x)) os" for P :: "match_param_entry list \<Rightarrow> bool" and f and os :: "tx_operation list"
    by (rule list_ex_map_iff)
  show ?case
  proof (cases "tc_expression c")
    case None
    then have "xlm_transaction_found jl xl tx c \<longleftrightarrow> tc_status c = AnyStatus \<or> tc_status c = xlm_tx_status (xt_status tx)"
      by (cases "xlm_tx_operations xl tx") (auto simp: xlm_transaction_found_def xlm_expression_holds_def)
    with None Cons.IH show ?thesis by (simp add: Let_def del: split_paired_All)
  next
    case (Some e)
    then show ?thesis using Cons.IH
      by (auto simp: xlm_transaction_found_def xlm_expression_holds_def Let_def ops)
  qed
qed simp

lemma xlm_event_condition_empty:
  "fst (xlm_event_condition jl xl ev c) \<noteq> [] \<longleftrightarrow> (case xp_args ev of
      None \<Rightarrow> ec_expression c = None
    | Some args \<Rightarrow> xlm_expression_holds jl xl (ec_expression c) args)"
  by (auto simp: xlm_event_condition_def xlm_expression_holds_def split: option.split)

lemma xlm_events_empty:
  assumes "mc_events (mon_match_conditions m) \<noteq> []"
  shows "fst (xlm_find_matching_events jl xl events tx m) \<noteq> [] \<longleftrightarrow>
    list_ex (xlm_event_found jl xl events tx) (mc_events (mon_match_conditions m))"
proof -
  have "fst (xlm_find_matching_events jl xl events tx m) \<noteq> [] \<longleftrightarrow>
    (\<exists>e \<in> set events. ev_tx_hash e = xt_hash tx \<and> (\<exists>c \<in> set (mc_events (mon_match_conditions m)).
       stellar_same_signature (ec_signature c) (xp_signature (ev_event e)) \<and> fst (xlm_event_condition jl xl (ev_event e) c) \<noteq> []))"
    using assms by (auto simp: xlm_find_matching_events_def xlm_match_event_def foldr_append_pair Let_def concat_eq_Nil_conv)
  then show ?thesis
    unfolding xlm_event_condition_empty list_ex_iff xlm_event_found_def by blast
qed

lemma xlm_function_conditions_none:
  "xlm_function_conditions jl xl sig params cs \<noteq> None \<longleftrightarrow>
     list_ex (\<lambda>c. stellar_same_signature (fc_signature c) sig \<and> xlm_expression_holds jl xl (fc_expression c) params) cs"
  by (induction cs) (auto simp: xlm_expression_holds_def split: option.split)

lemma xlm_match_call_known:
  "xlm_match_call jl xl monitored specs m body = (case xlm_known_call jl xl monitored specs body of
     None \<Rightarrow> None
   | Some (sig, params) \<Rightarrow>
       if mc_functions (mon_match_conditions m) = []
       then Some (\<lparr>fc_signature = sig, fc_expression = None\<rparr>, \<lparr>xp_signature = sig, xp_args = Some params\<rparr>)
       else xlm_function_conditions jl xl sig params (mc_functions (mon_match_conditions m)))"
  by (auto simp: xlm_match_call_def xlm_known_call_def Let_def split: operation_body.split prod.split option.split)

lemma xlm_match_call_found:
  assumes "mc_functions (mon_match_conditions m) \<noteq> []"
  shows "xlm_match_call jl xl monitored specs m body \<noteq> None \<longleftrightarrow>
    (\<exists>sig params. xlm_known_call jl xl monitored specs body = Some (sig, params)
       \<and> xlm_function_conditions jl xl sig params (mc_functions (mon_match_conditions m)) \<noteq> None)"
  using assms by (cases "xlm_known_call jl xl monitored specs body") (auto simp: xlm_match_call_known)

lemma xlm_functions_empty:
  assumes "mc_functions (mon_match_conditions m) \<noteq> []"
  shows "xlm_find_matching_functions jl xl (monitored_addresses m) specs tx m \<noteq> [] \<longleftrightarrow>
    list_ex (xlm_function_found jl xl specs m tx) (mc_functions (mon_match_conditions m))"
proof -
  have "xlm_find_matching_functions jl xl (monitored_addresses m) specs tx m \<noteq> [] \<longleftrightarrow>
    (\<exists>body \<in> set (xlm_calls tx). \<exists>sig params. xlm_known_call jl xl (monitored_addresses m) specs body = Some (sig, params)
       \<and> xlm_function_conditions jl xl sig params (mc_functions (mon_match_conditions m)) \<noteq> None)"
    unfolding xlm_find_matching_functions_def map_filter_empty xlm_match_call_found [OF assms, symmetric] by simp
  also have "\<dots> \<longleftrightarrow> list_ex (xlm_function_found jl xl specs m tx) (mc_functions (mon_match_conditions m))"
    unfolding xlm_function_conditions_none list_ex_iff xlm_function_found_def
    by (fastforce split: option.splits)
  finally show ?thesis .
qed

lemma xlm_should_match:
  "should_match (mon_match_conditions m)
      (mc_events (mon_match_conditions m) \<noteq> [] \<and> fst (xlm_find_matching_events jl xl events tx m) \<noteq> [])
      (mc_functions (mon_match_conditions m) \<noteq> [] \<and> xlm_find_matching_functions jl xl (monitored_addresses m) specs tx m \<noteq> [])
      (mc_transactions (mon_match_conditions m) \<noteq> [] \<and> xlm_find_matching_transaction jl xl tx m \<noteq> [])
    \<longleftrightarrow> xlm_decides jl xl specs events m tx"
proof -
  have "mc_transactions (mon_match_conditions m) \<noteq> [] \<and> xlm_find_matching_transaction jl xl tx m \<noteq> [] \<longleftrightarrow>
      list_ex (xlm_transaction_found jl xl tx) (mc_transactions (mon_match_conditions m))"
    by (auto simp: xlm_find_matching_transaction_def Let_def xlm_transactions_empty)
  moreover have "mc_events (mon_match_conditions m) \<noteq> [] \<and> fst (xlm_find_matching_events jl xl events tx m) \<noteq> [] \<longleftrightarrow>
      list_ex (xlm_event_found jl xl events tx) (mc_events (mon_match_conditions m))"
    using xlm_events_empty [of m jl xl events tx] by (cases "mc_events (mon_match_conditions m) = []") auto
  moreover have "mc_functions (mon_match_conditions m) \<noteq> []
      \<and> xlm_find_matching_functions jl xl (monitored_addresses m) specs tx m \<noteq> [] \<longleftrightarrow>
      list_ex (xlm_function_found jl xl specs m tx) (mc_functions (mon_match_conditions m))"
    using xlm_functions_empty [of m jl xl specs tx] by (cases "mc_functions (mon_match_conditions m) = []") auto
  ultimately show ?thesis unfolding should_match_iff xlm_decides_def Let_def by auto
qed

lemma xlm_match_pairs:
  "map (\<lambda>r. (xm_monitor r, xm_transaction r)) (xlm_match_transaction jl xl net b specs events m tx)
     = (if xlm_decides jl xl specs events m tx then [(m, tx)] else [])"
  using xlm_should_match [of m jl xl events tx specs] by (simp add: xlm_match_transaction_def xlm_build_match_def Let_def)

definition xlm_decided :: "json_lib \<Rightarrow> xdr_lib \<Rightarrow> (string \<times> formatted_spec) list \<Rightarrow> xlm_event list \<Rightarrow> 'abi monitor list \<Rightarrow>
  xlm_transaction list \<Rightarrow> ('abi monitor \<times> xlm_transaction) list" where
  "xlm_decided jl xl specs events monitors txs = concat (map (\<lambda>m. map (\<lambda>tx. (m, tx))
     (filter (xlm_decides jl xl specs (decode_stellar_events xl events (monitored_addresses m) specs) m) txs)) monitors)"

lemma xlm_match_monitor:
  "map (\<lambda>r. (xm_monitor r, xm_transaction r)) (concat (map (xlm_match_transaction jl xl net b specs events m) txs))
      = map (\<lambda>tx. (m, tx)) (filter (xlm_decides jl xl specs events m) txs)"
  by (rule map_concat_filter) (rule xlm_match_pairs)

lemma xlm_match_all:
  "map (\<lambda>r. (xm_monitor r, xm_transaction r)) (concat (map (\<lambda>m.
      concat (map (xlm_match_transaction jl xl net b specs (decode_stellar_events xl events (monitored_addresses m) specs) m) txs))
      monitors))
    = xlm_decided jl xl specs events monitors txs"
  by (induction monitors) (simp_all add: xlm_decided_def xlm_match_monitor)

text \<open>C12. The Stellar filter fails for a block of another chain and when the node gives no transactions, or
  no events for a ledger with transactions. Otherwise its matches are, in the order of the
  monitors and then of the transactions, exactly the transactions that satisfy one of the
  transaction conditions if there are any, and one of the event or function conditions if there
  are any: an event condition by a decoded event of a watched contract in the transaction, a
  function condition by a call of a watched contract with a known specification, each with the
  signature of the condition and with its expression, if any, true of the decoded arguments.\<close>

theorem xlm_filter_exact:
  "case block of
     BlockOther (BlockStellar b) \<Rightarrow>
       (case xn_transactions node (xg_sequence b) of
          Inl _ \<Rightarrow> \<not> is_ok (xlm_filter_block jl xl node net block monitors specs)
        | Inr txs \<Rightarrow>
          (if txs = [] then xlm_filter_block jl xl node net block monitors specs = Inr []
           else case xn_events node (xg_sequence b) of
              Inl _ \<Rightarrow> \<not> is_ok (xlm_filter_block jl xl node net block monitors specs)
            | Inr events \<Rightarrow> \<exists>ms. xlm_filter_block jl xl node net block monitors specs = Inr ms
                \<and> map (\<lambda>r. (xm_monitor r, xm_transaction r)) ms
                  = xlm_decided jl xl (stellar_formatted_specs xl specs) events monitors txs))
   | _ \<Rightarrow> \<not> is_ok (xlm_filter_block jl xl node net block monitors specs)"
  by (simp add: xlm_filter_block_def Let_def xlm_match_all split: block_type.split chain_block.split sum.split)

section \<open>A sample setting\<close>

definition sample_xlm_tx :: xlm_transaction where
  "sample_xlm_tx = \<lparr>xt_status = ''SUCCESS'', xt_hash = ''h'', xt_application_order = 1, xt_fee_bump = False, xt_envelope_xdr = None,
     xt_envelope_json = None, xt_result_xdr = None, xt_result_json = None, xt_result_meta_xdr = None, xt_result_meta_json = None,
     xt_diagnostic_events_xdr = None, xt_diagnostic_events_json = None, xt_ledger = 5, xt_ledger_close_time = 0,
     xt_decoded = Some \<lparr>dt_envelope = Some (EnvelopeTx \<lparr>et_source_account = ''GB'',
         et_operations = [InvokeHostFunction (InvokeContract (ScContract [1]) ''f'' [ScSymbol ''hi''])]\<rparr>),
       dt_result = None, dt_meta = None\<rparr>\<rparr>"

definition sample_xlm_event :: xlm_event where
  "sample_xlm_event = \<lparr>xv_type = ''contract'', xv_ledger = 5, xv_ledger_closed_at = [], xv_contract_id = ''ca'', xv_id = [],
     xv_paging_token = None, xv_in_successful_contract_call = True, xv_transaction_hash = ''h'', xv_topic_xdr = Some [''t''],
     xv_topic_json = None, xv_value_xdr = Some ''v'', xv_value_json = None\<rparr>"

definition sample_ledger :: xlm_ledger where
  "sample_ledger = \<lparr>xg_hash = [], xg_sequence = 5, xg_ledger_close_time = [], xg_ledger_header = [], xg_ledger_header_json = None,
     xg_ledger_metadata = [], xg_ledger_metadata_json = None\<rparr>"

definition sample_xlm_node :: xlm_node where
  "sample_xlm_node = \<lparr>xn_transactions = (\<lambda>_. Inr [sample_xlm_tx]), xn_events = (\<lambda>_. Inr [sample_xlm_event])\<rparr>"

definition sample_xlm_monitor :: "unit monitor" where
  "sample_xlm_monitor = \<lparr>mon_name = ''m'', mon_networks = [''xlm''], mon_paused = False,
     mon_addresses = [\<lparr>aw_address = ''CA'', aw_contract_spec = None\<rparr>],
     mon_match_conditions = \<lparr>mc_functions = [\<lparr>fc_signature = ''F(symbol)'', fc_expression = None\<rparr>],
       mc_events = [\<lparr>ec_signature = ''e(Symbol,Symbol)'', ec_expression = None\<rparr>], mc_transactions = []\<rparr>,
     mon_trigger_conditions = [], mon_triggers = [], mon_chain_configurations = []\<rparr>"

definition sample_xlm_specs :: "(string \<times> unit contract_spec) list option" where
  "sample_xlm_specs = Some [(''CA'', SpecStellar JNull)]"

definition sample_xlm_run :: "filter_error + unit xlm_monitor_match list" where
  "sample_xlm_run = xlm_filter_block sample_json_lib sample_xl sample_xlm_node sample_network (BlockOther (BlockStellar sample_ledger))
     [sample_xlm_monitor] sample_xlm_specs"

lemma sample_xlm_functions:
  "xlm_find_matching_functions sample_json_lib sample_xl (monitored_addresses sample_xlm_monitor)
     (stellar_formatted_specs sample_xl sample_xlm_specs) sample_xlm_tx sample_xlm_monitor
   = [(\<lparr>fc_signature = ''f(Symbol)'', fc_expression = None\<rparr>, \<lparr>xp_signature = ''f(Symbol)'',
       xp_args = Some [\<lparr>pe_name = ''n'', pe_value = ''hi'', pe_indexed = False, pe_kind = ''Symbol''\<rparr>]\<rparr>)]"
  by code_simp

lemma sample_xlm_events:
  "xlm_find_matching_events sample_json_lib sample_xl (decode_stellar_events sample_xl [sample_xlm_event]
     (monitored_addresses sample_xlm_monitor) (stellar_formatted_specs sample_xl sample_xlm_specs)) sample_xlm_tx sample_xlm_monitor
   = ([\<lparr>ec_signature = ''e(Symbol,Symbol)'', ec_expression = None\<rparr>], [])"
  by code_simp

lemma sample_xlm_result:
  "\<exists>r a. sample_xlm_run = Inr [r] \<and> xm_matched_on_args r = Some a \<and> xa_functions a = Some [\<lparr>xp_signature = ''f(Symbol)'',
       xp_args = Some [\<lparr>pe_name = ''n'', pe_value = ''hi'', pe_indexed = False, pe_kind = ''Symbol''\<rparr>]\<rparr>]
     \<and> mc_events (xm_matched_on r) = [\<lparr>ec_signature = ''e(Symbol,Symbol)'', ec_expression = None\<rparr>]
     \<and> xm_monitor r = sample_xlm_monitor"
proof -
  have conds: "mc_functions (mon_match_conditions sample_xlm_monitor) \<noteq> []" "mc_events (mon_match_conditions sample_xlm_monitor) \<noteq> []"
    "mc_transactions (mon_match_conditions sample_xlm_monitor) = []" by (simp_all add: sample_xlm_monitor_def)
  then show ?thesis
    by (simp add: sample_xlm_run_def xlm_filter_block_def sample_xlm_node_def sample_xlm_functions sample_xlm_events Let_def
        xlm_match_transaction_def xlm_build_match_def should_match_iff)
qed

section \<open>Matched functions\<close>

lemma xlm_function_conditions_sound:
  assumes "xlm_function_conditions jl xl sig params cs = Some (f, p)"
  shows "p = \<lparr>xp_signature = sig, xp_args = Some params\<rparr> \<and> fc_signature f = sig \<and> (\<exists>c \<in> set cs.
    stellar_same_signature (fc_signature c) sig \<and> fc_expression f = fc_expression c
    \<and> xlm_expression_holds jl xl (fc_expression c) params)"
  using assms by (induction cs) (auto simp: xlm_expression_holds_def split: option.splits if_splits)

lemma xlm_result_member:
  assumes "xlm_filter_block jl xl node net block monitors specs = Inr ms" "r \<in> set ms"
  shows "\<exists>b events m tx. block = BlockOther (BlockStellar b) \<and> m \<in> set monitors
    \<and> r \<in> set (xlm_match_transaction jl xl net b (stellar_formatted_specs xl specs) events m tx)"
  using assms by (auto simp: xlm_filter_block_def Let_def split: block_type.splits chain_block.splits sum.splits if_splits) blast

lemma xlm_recorded_functions:
  assumes "r \<in> set (xlm_match_transaction jl xl net b specs events m tx)" "xm_matched_on_args r = Some a" "xa_functions a = Some fs"
  shows "xm_monitor r = m \<and> xm_transaction r = tx \<and> mc_functions (mon_match_conditions m) \<noteq> []
    \<and> fs = map snd (xlm_find_matching_functions jl xl (monitored_addresses m) specs tx m)
    \<and> mc_functions (xm_matched_on r) = map fst (xlm_find_matching_functions jl xl (monitored_addresses m) specs tx m)"
  using assms by (auto simp: xlm_match_transaction_def xlm_build_match_def Let_def split: if_splits)

text \<open>C13. Every function a match records was called: the recorded condition and the recorded arguments
  correspond one to one, and each pair comes from an operation of the transaction that calls a
  watched contract with a known specification. The recorded signature is that of the call, the
  recorded arguments are those of the call, and one of the monitor's function conditions has the
  signature and an expression, if any, that is true of them.\<close>

theorem xlm_functions_justified:
  assumes "xlm_filter_block jl xl node net block monitors specs = Inr ms" "r \<in> set ms"
    and "xm_matched_on_args r = Some a" "xa_functions a = Some fs" "i < length fs"
  shows "length fs = length (mc_functions (xm_matched_on r)) \<and> (\<exists>body \<in> set (xlm_calls (xm_transaction r)). \<exists>params.
    \<exists>c \<in> set (mc_functions (mon_match_conditions (xm_monitor r))).
      xlm_known_call jl xl (monitored_addresses (xm_monitor r)) (stellar_formatted_specs xl specs) body
        = Some (xp_signature (fs ! i), params)
    \<and> xp_args (fs ! i) = Some params
    \<and> fc_signature (mc_functions (xm_matched_on r) ! i) = xp_signature (fs ! i)
    \<and> fc_expression (mc_functions (xm_matched_on r) ! i) = fc_expression c
    \<and> stellar_same_signature (fc_signature c) (xp_signature (fs ! i))
    \<and> xlm_expression_holds jl xl (fc_expression c) params)"
proof -
  obtain b events m tx where "r \<in> set (xlm_match_transaction jl xl net b (stellar_formatted_specs xl specs) events m tx)"
    using xlm_result_member [OF assms(1,2)] by blast
  from xlm_recorded_functions [OF this assms(3,4)] have sel: "xm_monitor r = m" "xm_transaction r = tx"
    and conds: "mc_functions (mon_match_conditions m) \<noteq> []"
    and fs: "fs = map snd (xlm_find_matching_functions jl xl (monitored_addresses m) (stellar_formatted_specs xl specs) tx m)"
      "mc_functions (xm_matched_on r) = map fst (xlm_find_matching_functions jl xl (monitored_addresses m) (stellar_formatted_specs xl specs) tx m)"
    by blast+
  let ?found = "xlm_find_matching_functions jl xl (monitored_addresses m) (stellar_formatted_specs xl specs) tx m"
  obtain f p where fp: "?found ! i = (f, p)" by (cases "?found ! i")
  with fs assms(5) have i: "fs ! i = p" "mc_functions (xm_matched_on r) ! i = f" by simp_all
  from fp fs assms(5) have "(f, p) \<in> set ?found" by (metis length_map nth_mem)
  then obtain body where body: "body \<in> set (xlm_calls tx)"
    "xlm_match_call jl xl (monitored_addresses m) (stellar_formatted_specs xl specs) m body = Some (f, p)"
    unfolding xlm_find_matching_functions_def by (auto dest: set_map_filter_in)
  then obtain sig params where known:
    "xlm_known_call jl xl (monitored_addresses m) (stellar_formatted_specs xl specs) body = Some (sig, params)"
    "xlm_function_conditions jl xl sig params (mc_functions (mon_match_conditions m)) = Some (f, p)"
    using conds by (auto simp: xlm_match_call_known split: option.splits)
  from xlm_function_conditions_sound [OF known(2)] known(1) body(1) fs show ?thesis
    unfolding sel i by auto
qed

theorem xlm_functions_justified_witness:
  "\<exists>r a. sample_xlm_run = Inr [r] \<and> xm_matched_on_args r = Some a \<and> xa_functions a \<noteq> None
    \<and> (\<exists>c. stellar_same_signature (fc_signature c) ''f(Symbol)'' \<and> c \<in> set (mc_functions (mon_match_conditions (xm_monitor r))))"
proof -
  obtain r a where r: "sample_xlm_run = Inr [r]" "xm_matched_on_args r = Some a" "xa_functions a = Some [\<lparr>xp_signature = ''f(Symbol)'',
       xp_args = Some [\<lparr>pe_name = ''n'', pe_value = ''hi'', pe_indexed = False, pe_kind = ''Symbol''\<rparr>]\<rparr>]"
    using sample_xlm_result by blast
  from xlm_functions_justified [OF r(1) [unfolded sample_xlm_run_def] _ r(2,3), of 0] r show ?thesis by auto
qed

section \<open>Arguments that are never recognised\<close>

lemma remove_ws_dropWhile [simp]: "remove_ws (dropWhile is_ws s) = remove_ws s"
  by (induction s) (simp_all add: remove_ws_def)

lemma remove_ws_rev: "remove_ws (rev s) = rev (remove_ws s)"
  by (simp add: remove_ws_def rev_filter)

lemma remove_ws_trim: "remove_ws (trim s) = remove_ws s"
  by (simp add: trim_def remove_ws_rev)

lemma normalize_append:
  "stellar_normalize_signature (a @ b) = stellar_normalize_signature a @ stellar_normalize_signature b"
  by (simp add: stellar_normalize_signature_def remove_ws_trim) (simp add: remove_ws_def)

lemma normalize_names:
  "stellar_normalize_signature ''('' = ''(''" "stellar_normalize_signature '')'' = '')''"
  "stellar_normalize_signature ''Bytes'' = ''bytes''" "stellar_normalize_signature ''Void'' = ''void''"
  "stellar_normalize_signature ''U32'' = ''u32''" "stellar_normalize_signature ''Tuple<'' = ''tuple<''"
  "stellar_normalize_signature ''Vec<'' = ''vec<''" "stellar_normalize_signature ''Map<'' = ''map<''"
  by code_simp+

lemma same_signature_call:
  "stellar_same_signature (call_text f [a]) (call_text f [b]) \<longleftrightarrow> stellar_normalize_signature a = stellar_normalize_signature b"
  by (simp only: stellar_same_signature_def call_text_def join_with.simps normalize_append) simp

lemma normalize_digits: "stellar_normalize_signature (show_nat n) = show_nat n"
  using show_nat_digits [of n] by (simp add: stellar_normalize_signature_def remove_ws_trim)
    (simp add: remove_ws_def list_all_iff is_digit_not_ws)

lemma normalize_keeps: "CHR ''<'' \<notin> set s \<Longrightarrow> CHR ''<'' \<notin> set (stellar_normalize_signature s)"
proof -
  have lower: "c = CHR ''<''" if "lower_char c = CHR ''<''" for c
  proof (cases "is_upper c")
    case True
    from that have "char_code (lower_char c) = 60" by (simp add: char_code_def)
    with True show ?thesis by (simp add: lower_char_def is_upper_def char_code_char_of)
  qed (use that in \<open>simp add: lower_char_def\<close>)
  have "\<exists>c \<in> set s. CHR ''<'' = lower_char c" if "CHR ''<'' \<in> set (to_lowercase (remove_ws s))"
    using that by (auto simp: to_lowercase_def remove_ws_def)
  then show "CHR ''<'' \<notin> set s \<Longrightarrow> CHR ''<'' \<notin> set (stellar_normalize_signature s)"
    unfolding stellar_normalize_signature_def remove_ws_trim using lower by metis
qed

text \<open>Types and values of arguments whose kinds differ: bytes of any length, an optional value that is
  there, a tuple, and a structure.\<close>

definition mismatched :: "sc_type \<Rightarrow> sc_val \<Rightarrow> bool" where
  "mismatched t v = (case (t, v) of
       (TyBytes, ScBytes bs) \<Rightarrow> bs \<noteq> []
     | (TyOther, ScU32 _) \<Rightarrow> True
     | (TyTuple _, ScVec (Some _)) \<Rightarrow> True
     | (TyUdt u, ScMap (Some _)) \<Rightarrow> CHR ''<'' \<notin> set u
     | _ \<Rightarrow> False)"

definition kinds_differ :: "string \<Rightarrow> string \<Rightarrow> bool" where
  "kinds_differ k a \<longleftrightarrow> \<not> kind_matches k a \<and> stellar_normalize_signature k \<noteq> stellar_normalize_signature a"

lemma mismatched_kinds:
  assumes "mismatched t v"
  shows "kinds_differ (show_type (type_of_sc_type t)) (show_type (get_type (value_of_sc_val xl v)))"
proof -
  consider bs where "t = TyBytes" "v = ScBytes bs" "bs \<noteq> []" | w where "t = TyOther" "v = ScU32 w"
    | ts vs where "t = TyTuple ts" "v = ScVec (Some vs)" | u m where "t = TyUdt u" "v = ScMap (Some m)" "CHR ''<'' \<notin> set u"
    using assms by (auto simp: mismatched_def split: sc_type.splits sc_val.splits option.splits)
  then show ?thesis
  proof cases
    case 1
    obtain k where k: "show_type (get_type (value_of_sc_val xl v)) = ''Bytes'' @ show_nat k"
      using 1 by (auto simp: show_word_def)
    show ?thesis unfolding k unfolding kinds_differ_def normalize_append normalize_digits normalize_names
      using 1 show_nat_nonempty [of k, symmetric] by (simp add: normalize_names kind_matches_def lenient_types_def)
  next
    case 2
    then show ?thesis by (simp add: kinds_differ_def normalize_names kind_matches_def lenient_types_def)
  next
    case 3
    then obtain x y where k: "show_type (type_of_sc_type t) = ''Tuple<'' @ x" "show_type (get_type (value_of_sc_val xl v)) = ''Vec<'' @ y"
      by (simp del: append.simps)
    show ?thesis unfolding k unfolding kinds_differ_def normalize_append normalize_names
      by (simp add: kind_matches_def lenient_types_def)
  next
    case 4
    then obtain y where k: "show_type (type_of_sc_type t) = u" "show_type (get_type (value_of_sc_val xl v)) = ''Map<'' @ y"
      by (simp del: append.simps)
    have "CHR ''<'' \<in> set (''map<'' @ stellar_normalize_signature y)" by simp
    then have "stellar_normalize_signature u \<noteq> ''map<'' @ stellar_normalize_signature y" using normalize_keeps [OF 4(3)] by metis
    moreover have "CHR ''<'' \<in> set (''Map<'' @ y)" by simp
    then have "u \<noteq> ''Map<'' @ y" "\<not> prefix ''Map<'' u" using 4(3) by (metis, auto simp: prefix_def)
    ultimately show ?thesis unfolding k unfolding kinds_differ_def normalize_append normalize_names
      by (auto simp: kind_matches_def lenient_types_def)
  qed
qed



section \<open>Fee-bump transactions\<close>

text \<open>The operations of a fee-bump transaction are hidden from transaction conditions: although its
  calls are matched like those of any other transaction, its transaction conditions are
  evaluated as if it had no operations at all, with no sender, no receiver and the value 0.\<close>

theorem fee_bump_operations_unseen:
  "xlm_find_matching_transaction jl xl (tx\<lparr>xt_decoded := Some \<lparr>dt_envelope = Some (EnvelopeFeeBump inner), dt_result = res, dt_meta = meta\<rparr>\<rparr>) m
     = xlm_find_matching_transaction jl xl (tx\<lparr>xt_decoded := None\<rparr>) m
   \<and> xlm_find_matching_functions jl xl monitored specs
       (tx\<lparr>xt_decoded := Some \<lparr>dt_envelope = Some (EnvelopeFeeBump inner), dt_result = res, dt_meta = meta\<rparr>\<rparr>) m
     = xlm_find_matching_functions jl xl monitored specs
       (tx\<lparr>xt_decoded := Some \<lparr>dt_envelope = Some (EnvelopeTx inner), dt_result = res, dt_meta = meta\<rparr>\<rparr>) m"
proof -
  let ?bumped = "tx\<lparr>xt_decoded := Some \<lparr>dt_envelope = Some (EnvelopeFeeBump inner), dt_result = res, dt_meta = meta\<rparr>\<rparr>"
  have "xlm_transaction_conditions jl xl ?bumped cs = xlm_transaction_conditions jl xl (tx\<lparr>xt_decoded := None\<rparr>) cs" for cs
    by (induction cs) (simp_all add: xlm_tx_operations_def xlm_base_params_def Let_def split: option.split)
  then show ?thesis
    by (simp add: xlm_find_matching_transaction_def xlm_find_matching_functions_def xlm_calls_def Let_def)
qed

section \<open>Events\<close>

lemma xlm_recorded_events:
  assumes "r \<in> set (xlm_match_transaction jl xl net b specs events m tx)" "mc_events (xm_matched_on r) \<noteq> []"
  shows "xm_monitor r = m \<and> mc_events (mon_match_conditions m) \<noteq> []
    \<and> map_option xa_events (xm_matched_on_args r) = Some (Some (snd (xlm_find_matching_events jl xl events tx m)))"
  using assms by (auto simp: xlm_match_transaction_def xlm_build_match_def Let_def split: if_splits)

text \<open>The arguments of events are lost when their conditions have no expression: a match of a monitor
  whose event conditions have no expressions names the events, but the list of their arguments
  is empty, so the templates of its notifications find none of them. For function conditions
  without expression the arguments are kept.\<close>

theorem event_arguments_lost:
  assumes "xlm_filter_block jl xl node net block monitors specs = Inr ms" "r \<in> set ms"
    and "mc_events (xm_matched_on r) \<noteq> []"
    and "list_all (\<lambda>c. ec_expression c = None) (mc_events (mon_match_conditions (xm_monitor r)))"
  shows "map_option xa_events (xm_matched_on_args r) = Some (Some [])"
proof -
  obtain b events m tx where "r \<in> set (xlm_match_transaction jl xl net b (stellar_formatted_specs xl specs) events m tx)"
    using xlm_result_member [OF assms(1,2)] by blast
  from xlm_recorded_events [OF this assms(3)] have m: "xm_monitor r = m" "mc_events (mon_match_conditions m) \<noteq> []"
    and args: "map_option xa_events (xm_matched_on_args r) = Some (Some (snd (xlm_find_matching_events jl xl events tx m)))" by blast+
  have "snd (xlm_find_matching_events jl xl events tx m) = []"
    using m assms(4) by (auto simp: xlm_find_matching_events_def xlm_match_event_def foldr_append_pair Let_def
        xlm_event_condition_def list_all_iff split: option.splits)
  with args show ?thesis by simp
qed

theorem event_arguments_lost_witness:
  "\<exists>r. sample_xlm_run = Inr [r] \<and> mc_events (xm_matched_on r) \<noteq> [] \<and> map_option xa_events (xm_matched_on_args r) = Some (Some [])"
proof -
  obtain r where r: "sample_xlm_run = Inr [r]" "mc_events (xm_matched_on r) \<noteq> []"
    "xm_monitor r = sample_xlm_monitor"
    using sample_xlm_result by auto
  from r(3) have "list_all (\<lambda>c. ec_expression c = None) (mc_events (mon_match_conditions (xm_monitor r)))"
    by (simp add: sample_xlm_monitor_def)
  from event_arguments_lost [OF r(1) [unfolded sample_xlm_run_def] _ r(2) this] r(1,2) show ?thesis by auto
qed

text \<open>C17. Events declared without prefix topics are decoded with their arguments shifted: the event is
  found by its name in the first topic, but that topic is not skipped, so the name of the event
  becomes its first argument, under the name of the first declared parameter, and its kind the
  first type of the signature, which therefore is not the declared one.\<close>

theorem unprefixed_event_shifted:
  assumes "decode_stellar_event xl monitored specs event = Some ev"
    and "xv_topic_xdr event = Some (t # ts)"
    and "find_event_spec specs (xv_contract_id event) (decode_topics xl (t # ts)) = Some sp" "cv_prefix_topics sp = []"
    and "xl_base64 xl t = Some bytes" "xl_sc_val xl bytes = Some (ScSymbol name)"
  shows "\<exists>args rest. xp_args (ev_event ev) = Some (\<lparr>pe_name = (if cv_params sp = [] then ''0'' else cp_name (hd (cv_params sp))),
      pe_value = name, pe_indexed = True, pe_kind = ''Symbol''\<rparr> # args)
    \<and> xp_signature (ev_event ev) = cv_name sp @ ''(Symbol'' @ rest"
proof -
  have first: "xlm_indexed_args xl (t # ts) = \<lparr>pe_name = [], pe_value = name, pe_indexed = True, pe_kind = ''Symbol''\<rparr>
      # xlm_indexed_args xl ts"
    using assms(5,6) by (simp add: xlm_indexed_args_def List.map_filter_simps parse_xdr_value_def to_param_entry_def indexed_entry_def)
  obtain vals where "xlm_value_args xl (Some sp) (xv_value_xdr event) = Some vals"
    "ev = \<lparr>ev_event = \<lparr>xp_signature = event_signature_text (cv_name sp) (xlm_indexed_args xl (t # ts)) vals,
        xp_args = Some (name_args (Some sp) (xlm_indexed_args xl (t # ts) @ vals))\<rparr>, ev_tx_hash = xv_transaction_hash event\<rparr>"
    using assms(1-4) by (auto simp: decode_stellar_event_def Let_def split: option.splits if_splits)
  moreover have "join_with '','' (''Symbol'' # ks) = ''Symbol'' @ (if ks = [] then [] else '','' @ join_with '','' ks)" for ks
    by (cases ks) simp_all
  moreover have "show_nat 0 = ''0''" by code_simp
  ultimately show ?thesis unfolding first
    by (cases "cv_params sp") (auto simp: name_args_def event_signature_text_def Let_def)
qed

definition sample_event_spec :: contract_event where
  "sample_event_spec = \<lparr>cv_name = ''e'', cv_prefix_topics = [],
     cv_params = [\<lparr>cp_name = ''n'', cp_kind = ''U32'', cp_location = Data\<rparr>], cv_signature = ''e(U32)''\<rparr>"

lemma sample_event_found:
  "find_event_spec [(''CA'', \<lparr>ff_functions = [], ff_events = [sample_event_spec]\<rparr>)] (xv_contract_id sample_xlm_event)
     (decode_topics sample_xl [''t'']) = Some sample_event_spec"
  by code_simp

lemma sample_event_decoded:
  "decode_stellar_event sample_xl [''ca''] [(''CA'', \<lparr>ff_functions = [], ff_events = [sample_event_spec]\<rparr>)] sample_xlm_event \<noteq> None"
  by code_simp

text \<open>The event is decoded with two arguments, the first of which is its own name.\<close>

theorem unprefixed_event_shifted_witness:
  "\<exists>ev args. decode_stellar_event sample_xl [''ca''] [(''CA'', \<lparr>ff_functions = [], ff_events = [sample_event_spec]\<rparr>)] sample_xlm_event
      = Some ev
    \<and> xp_args (ev_event ev) = Some (\<lparr>pe_name = ''n'', pe_value = ''e'', pe_indexed = True, pe_kind = ''Symbol''\<rparr> # args)"
proof -
  obtain ev where ev: "decode_stellar_event sample_xl [''ca''] [(''CA'', \<lparr>ff_functions = [], ff_events = [sample_event_spec]\<rparr>)]
      sample_xlm_event = Some ev" using sample_event_decoded by blast
  from unprefixed_event_shifted [OF this _ sample_event_found, of "replicate 8 0 @ [0x65]" "''e''"] show ?thesis
    using ev by (simp add: sample_xlm_event_def sample_event_spec_def sample_xl_def)
qed

end
