(* ===== verification/Config.thy ===== *)
theory Config imports Trigger_Execution Watcher begin

text \<open>
  Loading and validating the configuration (src/src/models/config, src/src/models/security):
  secrets, networks, monitors and triggers. Files are read once, in the order in which the
  directory lists them; parsing JSON into the configuration's types, the cron, email and vault
  libraries are parameters. Warnings are left out, and so are the details of messages.
\<close>

section \<open>Secrets\<close>

text \<open>The environment variables and, for the credentials of a client, the answers of the vault.\<close>

record secret_env =
  en_var :: "string \<Rightarrow> string option"
  en_vault :: "string list \<Rightarrow> string \<Rightarrow> string + string"

definition get_env_var :: "secret_env \<Rightarrow> string \<Rightarrow> string + string" where
  "get_env_var env name = (case en_var env name of
     None \<Rightarrow> Inl (''Missing '' @ name @ '' environment variable'') | Some v \<Rightarrow> Inr v)"

fun get_env_vars :: "secret_env \<Rightarrow> string list \<Rightarrow> string + string list" where
  "get_env_vars env [] = Inr []"
| "get_env_vars env (n # ns) = res_bind (get_env_var env n) (\<lambda>v. res_bind (get_env_vars env ns) (\<lambda>vs. Inr (v # vs)))"

definition vault_from_env :: "secret_env \<Rightarrow> string + string list" where
  "vault_from_env env =
     get_env_vars env [''HCP_CLIENT_ID'', ''HCP_CLIENT_SECRET'', ''HCP_ORG_ID'', ''HCP_PROJECT_ID'', ''HCP_APP_NAME'']"

text \<open>The process has one vault client, made at its first use that succeeds; the state is its credentials.\<close>

definition get_vault_client :: "secret_env \<Rightarrow> string list option \<Rightarrow> (string + string list) \<times> string list option" where
  "get_vault_client env cell = (case cell of
       Some c \<Rightarrow> (Inr c, cell)
     | None \<Rightarrow> (case vault_from_env env of
         Inl e \<Rightarrow> (Inl ''Failed to get vault client'', None)
       | Inr c \<Rightarrow> (Inr c, Some c)))"

definition resolve_secret :: "secret_env \<Rightarrow> secret_value \<Rightarrow> string list option \<Rightarrow> (string + string) \<times> string list option" where
  "resolve_secret env s cell = (case s of
       Plain v \<Rightarrow> (Inr v, cell)
     | Environment name \<Rightarrow> (case en_var env name of
         None \<Rightarrow> (Inl (''Failed to get environment variable '' @ name), cell)
       | Some v \<Rightarrow> (Inr v, cell))
     | HashicorpCloudVault name \<Rightarrow> (case get_vault_client env cell of
         (Inl e, cell') \<Rightarrow> (Inl e, cell')
       | (Inr client, cell') \<Rightarrow> (case en_vault env client name of
           Inl e \<Rightarrow> (Inl (''Failed to get secret from Hashicorp Cloud Vault '' @ name), cell')
         | Inr v \<Rightarrow> (Inr v, cell'))))"

definition secret_is_empty :: "secret_value \<Rightarrow> bool" where
  "secret_is_empty s \<longleftrightarrow> secret_as_str s = []"

definition secret_trim :: "secret_value \<Rightarrow> string" where
  "secret_trim s = trim (secret_as_str s)"

section \<open>Errors and files\<close>

datatype config_error = Validation_error string | Parse_error string | File_error string

text \<open>\<open>Path::file_name\<close>, \<open>extension\<close> and \<open>file_stem\<close>.\<close>

definition file_name :: "string \<Rightarrow> string option" where
  "file_name p = (case rev (filter (\<lambda>c. c \<noteq> [] \<and> c \<noteq> ''.'') (split_at_char CHR ''/'' [] p)) of
     [] \<Rightarrow> None | c # _ \<Rightarrow> if c = ''..'' then None else Some c)"

text \<open>The name before and after its last dot, if it has one that does not start the name.\<close>

definition split_extension :: "string \<Rightarrow> string \<times> string option" where
  "split_extension n =
     (let ext = rev (takeWhile (\<lambda>c. c \<noteq> CHR ''.'') (rev n)); before = take (length n - length ext - 1) n in
      if length ext = length n \<or> before = [] then (n, None) else (before, Some ext))"

definition path_extension :: "string \<Rightarrow> string option" where
  "path_extension p = (case file_name p of None \<Rightarrow> None | Some n \<Rightarrow> snd (split_extension n))"

definition path_stem :: "string \<Rightarrow> string" where
  "path_stem p = (case file_name p of None \<Rightarrow> ''unknown'' | Some n \<Rightarrow> fst (split_extension n))"

definition is_json_file :: "string \<Rightarrow> bool" where
  "is_json_file p \<longleftrightarrow> (case path_extension p of None \<Rightarrow> False | Some e \<Rightarrow> to_lowercase e = ''json'')"

text \<open>Directories list paths or errors of single entries; a file's content or the error of opening it.\<close>

record config_fs =
  cf_exists :: "string \<Rightarrow> bool"
  cf_read_dir :: "string \<Rightarrow> string + (string + string) list"
  cf_open :: "string \<Rightarrow> string + string"

record 'abi config_env =
  ce_fs :: config_fs
  ce_resolve :: "secret_value \<Rightarrow> string + string"
  ce_parse_network :: "string \<Rightarrow> string + network"
  ce_parse_monitor :: "string \<Rightarrow> string + 'abi monitor"
  ce_parse_triggers :: "string \<Rightarrow> string + (string \<times> trigger) list"
  ce_parse_trigger :: "string \<Rightarrow> string + trigger"
  ce_cron_ok :: "string \<Rightarrow> string + unit"
  ce_cron_interval :: "string \<Rightarrow> int option"
  ce_email_ok :: "string \<Rightarrow> bool"

definition resolve_plain :: "'abi config_env \<Rightarrow> string \<Rightarrow> secret_value \<Rightarrow> config_error + secret_value" where
  "resolve_plain env what s = (case ce_resolve env s of
     Inl e \<Rightarrow> Inl (Parse_error (''failed to resolve '' @ what)) | Inr v \<Rightarrow> Inr (Plain v))"

fun map_result :: "('x \<Rightarrow> 'e + 'y) \<Rightarrow> 'x list \<Rightarrow> 'e + 'y list" where
  "map_result f [] = Inr []"
| "map_result f (x # xs) = res_bind (f x) (\<lambda>y. res_bind (map_result f xs) (\<lambda>ys. Inr (y # ys)))"

section \<open>Loading\<close>

text \<open>The loop of the loaders: an item is skipped, fails, or gives an instance with its name, which is
  checked against those loaded before and added to them.\<close>

fun push_instances :: "('i \<Rightarrow> config_error + (string \<times> 'x) option) \<Rightarrow> ('x list \<Rightarrow> 'x \<Rightarrow> config_error + unit) \<Rightarrow>
  'i list \<Rightarrow> (string \<times> 'x) list \<Rightarrow> config_error + (string \<times> 'x) list" where
  "push_instances step unique [] pairs = Inr pairs"
| "push_instances step unique (i # is) pairs = res_bind (step i) (\<lambda>r. case r of
       None \<Rightarrow> push_instances step unique is pairs
     | Some (name, x) \<Rightarrow> res_bind (unique (map snd pairs) x) (\<lambda>_. push_instances step unique is (pairs @ [(name, x)])))"

definition load_file :: "(string \<Rightarrow> config_error + 'x) \<Rightarrow> string + string \<Rightarrow> config_error + (string \<times> 'x) option" where
  "load_file load_path dir_entry = (case dir_entry of
       Inl e \<Rightarrow> Inl (File_error ''failed to read directory entry'')
     | Inr path \<Rightarrow> if \<not> is_json_file path then Inr None
         else res_bind (load_path path) (\<lambda>x. Inr (Some (path_stem path, x))))"

definition directory_entries :: "config_fs \<Rightarrow> string \<Rightarrow> string \<Rightarrow> config_error + (string + string) list" where
  "directory_entries fs what dir =
     (if \<not> cf_exists fs dir then Inl (File_error (what @ '' directory not found''))
      else case cf_read_dir fs dir of
          Inl e \<Rightarrow> Inl (File_error (''failed to read '' @ what @ '' directory''))
        | Inr entries \<Rightarrow> Inr entries)"

text \<open>Collecting pairs into a hash map: of two pairs with one key the later one stays.\<close>

definition hash_map_of :: "(string \<times> 'x) list \<Rightarrow> (string \<rightharpoonup> 'x)" where
  "hash_map_of pairs = fold (\<lambda>(k, v) m. m(k \<mapsto> v)) pairs Map.empty"

definition open_and_parse :: "config_fs \<Rightarrow> (string \<Rightarrow> string + 'x) \<Rightarrow> string \<Rightarrow> string \<Rightarrow> config_error + 'x" where
  "open_and_parse fs parse what path = (case cf_open fs path of
       Inl e \<Rightarrow> Inl (File_error (''failed to open '' @ what @ '' config file''))
     | Inr content \<Rightarrow> (case parse content of
         Inl e \<Rightarrow> Inl (Parse_error (''failed to parse '' @ what @ '' config''))
       | Inr x \<Rightarrow> Inr x))"

section \<open>Scripts\<close>

definition validate_script_config :: "config_fs \<Rightarrow> string \<Rightarrow> script_language \<Rightarrow> u32 \<Rightarrow> config_error + unit" where
  "validate_script_config fs script_path language timeout_ms =
     (if \<not> cf_exists fs script_path then Inl (Validation_error (''Script path does not exist: '' @ script_path))
      else let extension = (case path_extension script_path of None \<Rightarrow> [] | Some e \<Rightarrow> e);
               valid_extension = (case language of
                   Python \<Rightarrow> extension = ''py'' | JavaScript \<Rightarrow> extension = ''js'' | Bash \<Rightarrow> extension = ''sh'')
           in if \<not> valid_extension then Inl (Validation_error ''Script file extension does not match specified language'')
              else if timeout_ms = 0 then Inl (Validation_error ''Timeout must be greater than 0'')
              else Inr ())"

section \<open>Networks\<close>

definition resolve_network_secrets :: "'abi config_env \<Rightarrow> network \<Rightarrow> config_error + network" where
  "resolve_network_secrets env net = res_bind
     (map_result (\<lambda>u. res_bind (resolve_plain env ''RPC URL'' (rpc_location u)) (\<lambda>s. Inr (u\<lparr>rpc_location := s\<rparr>))) (rpc_urls net))
     (\<lambda>urls. Inr (net\<lparr>rpc_urls := urls\<rparr>))"

definition is_slug_char :: "char \<Rightarrow> bool" where
  "is_slug_char c \<longleftrightarrow> is_lower c \<or> is_digit c \<or> c = CHR ''_''"

definition rpc_url_ok :: "blockchain_type \<Rightarrow> rpc_url \<Rightarrow> bool" where
  "rpc_url_ok ty u \<longleftrightarrow>
     (let (supported_types, supported_protocols) = (case ty of
          Midnight \<Rightarrow> ([''ws_rpc''], [''wss://'', ''ws://''])
        | _ \<Rightarrow> ([''rpc''], [''http://'', ''https://'', ''wss://'', ''ws://'']))
      in rpc_type u \<in> set supported_types \<and> list_ex (secret_starts_with (rpc_location u)) supported_protocols
         \<and> rpc_weight u \<le> 100)"

text \<open>When \<open>max_past_blocks\<close> is set the code also computes the recommended number, for a warning.\<close>

definition validate_network :: "'abi config_env \<Rightarrow> network \<Rightarrow> config_error + unit" where
  "validate_network env net =
     (if network_name net = [] then Inl (Validation_error ''Network name is required'')
      else if \<not> list_all is_slug_char (slug net)
        then Inl (Validation_error ''Slug must contain only lowercase letters, numbers, and underscores'')
      else if \<not> list_all (rpc_url_ok (network_type net)) (rpc_urls net) then Inl (Validation_error ''Invalid RPC URL configuration'')
      else if block_time_ms net < 100 then Inl (Validation_error ''Block time must be at least 100ms'')
      else if confirmation_blocks net = 0 then Inl (Validation_error ''Confirmation blocks must be greater than 0'')
      else if cron_schedule net = [] then Inl (Validation_error ''Cron schedule must be provided'')
      else case ce_cron_ok env (cron_schedule net) of
          Inl e \<Rightarrow> Inl (Validation_error e)
        | Inr _ \<Rightarrow> if max_past_blocks net = Some 0 then Inl (Validation_error ''max_past_blocks must be greater than 0'')
            else Inr ())"

definition load_network_path :: "'abi config_env \<Rightarrow> string \<Rightarrow> config_error + network" where
  "load_network_path env path = res_bind (open_and_parse (ce_fs env) (ce_parse_network env) ''network'' path) (\<lambda>parsed.
     res_bind (resolve_network_secrets env parsed) (\<lambda>config.
     res_bind (validate_network env config) (\<lambda>_. Inr config)))"

definition network_uniqueness :: "network list \<Rightarrow> network \<Rightarrow> config_error + unit" where
  "network_uniqueness instances current =
     (if list_ex (\<lambda>e. normalize_string (network_name e) = normalize_string (network_name current)) instances
      then Inl (Validation_error (''Duplicate network name found: '' @ network_name current))
      else if list_ex (\<lambda>e. normalize_string (slug e) = normalize_string (slug current)) instances
      then Inl (Validation_error (''Duplicate network slug found: '' @ slug current))
      else Inr ())"

definition load_networks :: "'abi config_env \<Rightarrow> string option \<Rightarrow> config_error + (string \<times> network) list" where
  "load_networks env path = res_bind
     (directory_entries (ce_fs env) ''networks'' (case path of None \<Rightarrow> ''config/networks'' | Some p \<Rightarrow> p))
     (\<lambda>entries. push_instances (load_file (load_network_path env)) network_uniqueness entries [])"

section \<open>Monitors\<close>

text \<open>The viewing keys of a monitor are resolved concurrently and stored in the order of completion,
  here the order of the list.\<close>

definition resolve_monitor_secrets :: "'abi config_env \<Rightarrow> 'abi monitor \<Rightarrow> config_error + 'abi monitor" where
  "resolve_monitor_secrets env m = res_bind
     (map_result (\<lambda>c. case cc_midnight_viewing_keys c of
          None \<Rightarrow> Inr c
        | Some keys \<Rightarrow> res_bind (map_result (resolve_plain env ''viewing key'') keys) (\<lambda>ks.
            Inr (c\<lparr>cc_midnight_viewing_keys := Some ks\<rparr>))) (mon_chain_configurations m))
     (\<lambda>cs. Inr (m\<lparr>mon_chain_configurations := cs\<rparr>))"

definition validate_monitor :: "'abi config_env \<Rightarrow> 'abi monitor \<Rightarrow> config_error + unit" where
  "validate_monitor env m =
     (if mon_name m = [] then Inl (Validation_error ''Monitor name is required'')
      else if mon_networks m = [] then Inl (Validation_error ''At least one network must be specified'')
      else res_bind (map_result (\<lambda>c. validate_script_config (ce_fs env) (tr_script_path c) (tr_language c) (tr_timeout_ms c))
        (mon_trigger_conditions m)) (\<lambda>_. Inr ()))"

definition load_monitor_path :: "'abi config_env \<Rightarrow> string \<Rightarrow> config_error + 'abi monitor" where
  "load_monitor_path env path = res_bind (open_and_parse (ce_fs env) (ce_parse_monitor env) ''monitor'' path) (\<lambda>parsed.
     res_bind (resolve_monitor_secrets env parsed) (\<lambda>config. case validate_monitor env config of
       Inl e \<Rightarrow> Inl (Validation_error ''monitor validation failed'')
     | Inr _ \<Rightarrow> Inr config))"

definition monitor_uniqueness :: "'abi monitor list \<Rightarrow> 'abi monitor \<Rightarrow> config_error + unit" where
  "monitor_uniqueness instances current =
     (if list_ex (\<lambda>e. normalize_string (mon_name e) = normalize_string (mon_name current)) instances
      then Inl (Validation_error (''Duplicate monitor name found: '' @ mon_name current))
      else Inr ())"

definition load_monitors :: "'abi config_env \<Rightarrow> string option \<Rightarrow> config_error + (string \<times> 'abi monitor) list" where
  "load_monitors env path = res_bind
     (directory_entries (ce_fs env) ''monitors'' (case path of None \<Rightarrow> ''config/monitors'' | Some p \<Rightarrow> p))
     (\<lambda>entries. push_instances (load_file (load_monitor_path env)) monitor_uniqueness entries [])"

section \<open>Triggers\<close>

definition resolve_config_secrets :: "'abi config_env \<Rightarrow> trigger_config \<Rightarrow> config_error + trigger_config" where
  "resolve_config_secrets env cfg = (case cfg of
       CfgSlack url msg retry \<Rightarrow> res_bind (resolve_plain env ''Slack URL'' url) (\<lambda>u. Inr (CfgSlack u msg retry))
     | CfgEmail host port username password msg sender recipients retry \<Rightarrow>
         res_bind (resolve_plain env ''SMTP username'' username) (\<lambda>u.
         res_bind (resolve_plain env ''SMTP password'' password) (\<lambda>p.
           Inr (CfgEmail host port u p msg sender recipients retry)))
     | CfgWebhook url method_name secret headers msg mode retry \<Rightarrow>
         res_bind (resolve_plain env ''webhook URL'' url) (\<lambda>u.
         res_bind (case secret of
             None \<Rightarrow> Inr None
           | Some s \<Rightarrow> res_bind (resolve_plain env ''webhook secret'' s) (\<lambda>s'. Inr (Some s')))
           (\<lambda>s. Inr (CfgWebhook u method_name s headers msg mode retry)))
     | CfgTelegram token chat_id preview msg retry \<Rightarrow>
         res_bind (resolve_plain env ''Telegram token'' token) (\<lambda>t. Inr (CfgTelegram t chat_id preview msg retry))
     | CfgDiscord url msg retry \<Rightarrow> res_bind (resolve_plain env ''Discord URL'' url) (\<lambda>u. Inr (CfgDiscord u msg retry))
     | CfgScript language path args timeout_ms \<Rightarrow> Inr (CfgScript language path args timeout_ms))"

definition resolve_trigger_secrets :: "'abi config_env \<Rightarrow> trigger \<Rightarrow> config_error + trigger" where
  "resolve_trigger_secrets env t = res_bind (resolve_config_secrets env (tg_config t)) (\<lambda>cfg. Inr (t\<lparr>tg_config := cfg\<rparr>))"

definition is_control :: "char \<Rightarrow> bool" where
  "is_control c \<longleftrightarrow> char_code c < 32 \<or> char_code c = 127"

text \<open>The checks of a message, in the order of the code.\<close>

definition validate_message :: "notification_message \<Rightarrow> config_error + unit" where
  "validate_message msg =
     (if trim (nm_title msg) = [] then Inl (Validation_error ''Title cannot be empty'')
      else if trim (nm_body msg) = [] then Inl (Validation_error ''Body cannot be empty'')
      else Inr ())"

definition validate_slack :: "secret_value \<Rightarrow> notification_message \<Rightarrow> config_error + unit" where
  "validate_slack url msg =
     (if \<not> secret_starts_with url ''https://hooks.slack.com/'' then Inl (Validation_error ''Invalid Slack webhook URL format'')
      else validate_message msg)"

definition smtp_host_ok :: "string \<Rightarrow> bool" where
  "smtp_host_ok host \<longleftrightarrow> CHR ''.'' \<in> set host \<and> list_all (\<lambda>c. is_alphanum c \<or> c = CHR ''.'' \<or> c = CHR ''-'') host"

definition validate_email :: "'abi config_env \<Rightarrow> string \<Rightarrow> secret_value \<Rightarrow> secret_value \<Rightarrow> notification_message \<Rightarrow> string \<Rightarrow>
  string list \<Rightarrow> config_error + unit" where
  "validate_email env host username password msg sender recipients =
     (if trim host = [] then Inl (Validation_error ''Host cannot be empty'')
      else if \<not> smtp_host_ok host then Inl (Validation_error ''Invalid SMTP host format'')
      else if secret_is_empty username then Inl (Validation_error ''SMTP username cannot be empty'')
      else if list_ex is_control (secret_as_str username)
        then Inl (Validation_error ''SMTP username contains invalid control characters'')
      else if secret_trim password = [] then Inl (Validation_error ''Password cannot be empty'')
      else res_bind (validate_message msg) (\<lambda>_.
        if length (nm_title msg) > 998 then Inl (Validation_error ''Subject exceeds maximum length of 998 characters'')
        else if list_ex (\<lambda>c. is_control c \<and> \<not> is_ws c) (nm_title msg)
          then Inl (Validation_error ''Subject contains invalid control characters'')
        else if trim (nm_title msg) = [] then Inl (Validation_error ''Subject must contain at least 1 character'')
        else if list_ex (\<lambda>c. is_control c \<and> char_code c \<notin> {13, 10, 9, 32}) (nm_body msg)
          then Inl (Validation_error ''Body contains invalid control characters'')
        else if \<not> ce_email_ok env sender then Inl (Validation_error (''Invalid sender email address: '' @ sender))
        else if recipients = [] then Inl (Validation_error ''Recipients cannot be empty'')
        else (case find (\<lambda>r. \<not> ce_email_ok env r) recipients of
            Some r \<Rightarrow> Inl (Validation_error (''Invalid recipient email address: '' @ r))
          | None \<Rightarrow> Inr ())))"

definition validate_webhook :: "secret_value \<Rightarrow> string option \<Rightarrow> notification_message \<Rightarrow> payload_mode \<Rightarrow> config_error + unit" where
  "validate_webhook url method_name msg mode =
     (if \<not> secret_starts_with url ''http://'' \<and> \<not> secret_starts_with url ''https://''
        then Inl (Validation_error ''Invalid webhook URL format'')
      else if (case method_name of None \<Rightarrow> False
          | Some m \<Rightarrow> map upper_char m \<notin> {''GET'', ''POST'', ''PUT'', ''DELETE''})
        then Inl (Validation_error ''Invalid HTTP method'')
      else if mode = TemplateMode then validate_message msg else Inr ())"

text \<open>The regular expression \<open>^[0-9]{8,10}:[a-zA-Z0-9_-]{35}$\<close>.\<close>

definition telegram_token_ok :: "string \<Rightarrow> bool" where
  "telegram_token_ok s \<longleftrightarrow>
     (let ds = takeWhile is_digit s; rest = dropWhile is_digit s in
      8 \<le> length ds \<and> length ds \<le> 10 \<and> rest \<noteq> [] \<and> hd rest = CHR '':'' \<and> length (tl rest) = 35
      \<and> list_all (\<lambda>c. is_alphanum c \<or> c = CHR ''_'' \<or> c = CHR ''-'') (tl rest))"

definition telegram_max_body_length :: nat where "telegram_max_body_length = 4096"

definition discord_max_body_length :: nat where "discord_max_body_length = 2000"

definition validate_telegram :: "secret_value \<Rightarrow> string \<Rightarrow> notification_message \<Rightarrow> config_error + unit" where
  "validate_telegram token chat_id msg =
     (if secret_trim token = [] then Inl (Validation_error ''Token cannot be empty'')
      else if \<not> telegram_token_ok (secret_as_str token) then Inl (Validation_error ''Invalid token format'')
      else if trim chat_id = [] then Inl (Validation_error ''Chat ID cannot be empty'')
      else res_bind (validate_message msg) (\<lambda>_.
        if length (nm_body msg) > telegram_max_body_length then Inl (Validation_error ''Message body should not exceed 4096 characters'')
        else Inr ()))"

definition validate_discord :: "secret_value \<Rightarrow> notification_message \<Rightarrow> config_error + unit" where
  "validate_discord url msg =
     (if \<not> secret_starts_with url ''https://discord.com/api/webhooks/'' then Inl (Validation_error ''Invalid Discord webhook URL format'')
      else res_bind (validate_message msg) (\<lambda>_.
        if length (nm_body msg) > discord_max_body_length then Inl (Validation_error ''Message body should not exceed 2000 characters'')
        else Inr ()))"

definition validate_trigger :: "'abi config_env \<Rightarrow> trigger \<Rightarrow> config_error + unit" where
  "validate_trigger env t =
     (if tg_name t = [] then Inl (Validation_error ''Trigger cannot be empty'')
      else case (tg_type t, tg_config t) of
          (Slack, CfgSlack url msg _) \<Rightarrow> validate_slack url msg
        | (Email, CfgEmail host _ username password msg sender recipients _) \<Rightarrow>
            validate_email env host username password msg sender recipients
        | (Webhook, CfgWebhook url method_name _ _ msg mode _) \<Rightarrow> validate_webhook url method_name msg mode
        | (Telegram, CfgTelegram token chat_id _ msg _) \<Rightarrow> validate_telegram token chat_id msg
        | (Discord, CfgDiscord url msg _) \<Rightarrow> validate_discord url msg
        | (Script, CfgScript language path _ timeout_ms) \<Rightarrow> validate_script_config (ce_fs env) path language timeout_ms
        | _ \<Rightarrow> Inr ())"

definition load_trigger_path :: "'abi config_env \<Rightarrow> string \<Rightarrow> config_error + trigger" where
  "load_trigger_path env path = res_bind (open_and_parse (ce_fs env) (ce_parse_trigger env) ''trigger'' path) (\<lambda>parsed.
     res_bind (resolve_trigger_secrets env parsed) (\<lambda>config.
     res_bind (validate_trigger env config) (\<lambda>_. Inr config)))"

definition trigger_uniqueness :: "trigger list \<Rightarrow> trigger \<Rightarrow> config_error + unit" where
  "trigger_uniqueness instances current =
     (if list_ex (\<lambda>e. normalize_string (tg_name e) = normalize_string (tg_name current)) instances
      then Inl (Validation_error (''Duplicate trigger name found: '' @ tg_name current))
      else Inr ())"

definition load_named_trigger :: "'abi config_env \<Rightarrow> string \<times> trigger \<Rightarrow> config_error + (string \<times> trigger) option" where
  "load_named_trigger env p = (case p of (name, parsed) \<Rightarrow> res_bind (resolve_trigger_secrets env parsed) (\<lambda>t.
     case validate_trigger env t of
       Inl e \<Rightarrow> Inl (Validation_error (''Validation failed for trigger '' @ name))
     | Inr _ \<Rightarrow> Inr (Some (name, t))))"

text \<open>A file holds several triggers by name, in the order of the hash map's iteration.\<close>

fun load_trigger_files :: "'abi config_env \<Rightarrow> (string + string) list \<Rightarrow> (string \<times> trigger) list \<Rightarrow>
  config_error + (string \<times> trigger) list" where
  "load_trigger_files env [] pairs = Inr pairs"
| "load_trigger_files env (Inl e # es) pairs = Inl (File_error ''failed to read directory entry'')"
| "load_trigger_files env (Inr path # es) pairs =
     (if \<not> is_json_file path then load_trigger_files env es pairs
      else res_bind (open_and_parse (ce_fs env) (ce_parse_triggers env) ''trigger'' path) (\<lambda>file_triggers.
           res_bind (push_instances (load_named_trigger env) trigger_uniqueness file_triggers pairs)
             (load_trigger_files env es)))"

definition load_triggers :: "'abi config_env \<Rightarrow> string option \<Rightarrow> config_error + (string \<times> trigger) list" where
  "load_triggers env path = res_bind
     (directory_entries (ce_fs env) ''triggers'' (case path of None \<Rightarrow> ''config/triggers'' | Some p \<Rightarrow> p))
     (\<lambda>entries. load_trigger_files env entries [])"

end
