(* ===== verification/Repositories.thy ===== *)
theory Repositories imports Config begin

text \<open>
  The repositories of the configuration (src/src/repositories): networks and triggers by name, and
  the monitors with the validation of what they refer to. The loaded configuration is a hash map
  from names to instances; \<open>order\<close> is the order in which a map of monitors is iterated. The
  metadata of errors is left out.
\<close>

section \<open>Networks and triggers\<close>

datatype repository_error = Repo_validation "string list" | Repo_load string

text \<open>The services' traits: a repository is its map; a service is a repository.\<close>

definition load_network_repository :: "'abi config_env \<Rightarrow> string option \<Rightarrow> repository_error + (string \<rightharpoonup> network)" where
  "load_network_repository env path = (case load_networks env path of
     Inl e \<Rightarrow> Inl (Repo_load ''Failed to load networks'') | Inr pairs \<Rightarrow> Inr (hash_map_of pairs))"

definition load_trigger_repository :: "'abi config_env \<Rightarrow> string option \<Rightarrow> repository_error + (string \<rightharpoonup> trigger)" where
  "load_trigger_repository env path = (case load_triggers env path of
     Inl e \<Rightarrow> Inl (Repo_load ''Failed to load triggers'') | Inr pairs \<Rightarrow> Inr (hash_map_of pairs))"

section \<open>What monitors refer to\<close>

text \<open>The first opening parenthesis is before the last closing one, which ends the trimmed signature.\<close>

fun find_index :: "('x \<Rightarrow> bool) \<Rightarrow> 'x list \<Rightarrow> nat option" where
  "find_index P [] = None"
| "find_index P (x # xs) = (if P x then Some 0 else map_option Suc (find_index P xs))"

definition find_char :: "char \<Rightarrow> string \<Rightarrow> nat option" where
  "find_char c s = find_index (\<lambda>d. d = c) s"

definition rfind_char :: "char \<Rightarrow> string \<Rightarrow> nat option" where
  "rfind_char c s = map_option (\<lambda>i. length s - 1 - i) (find_char c (rev s))"

definition has_parens :: "string \<Rightarrow> bool" where
  "has_parens sig = (let s = trim sig in
     case (find_char CHR ''('' s, rfind_char CHR '')'' s) of
       (Some open_at, Some close_at) \<Rightarrow> open_at < close_at \<and> close_at = length s - 1
     | _ \<Rightarrow> False)"

definition signature_error :: "string \<Rightarrow> string \<Rightarrow> string \<Rightarrow> network \<Rightarrow> string \<Rightarrow> string" where
  "signature_error what name sig net network_slug =
     ''Monitor '' @ name @ '' has invalid '' @ what @ '' signature '' @ sig @ '' for '' @ show_blockchain_type (network_type net)
     @ '' network '' @ network_slug"

definition validate_monitor_signatures :: "string \<Rightarrow> 'abi monitor \<Rightarrow> (string \<rightharpoonup> network) \<Rightarrow> string list" where
  "validate_monitor_signatures name m networks = concat (map (\<lambda>network_slug. case networks network_slug of
       None \<Rightarrow> []
     | Some net \<Rightarrow>
       if \<not> requires_parentheses (signature_rules_of (network_type net)) then []
       else map (\<lambda>c. signature_error ''function'' name (fc_signature c) net network_slug)
              (filter (\<lambda>c. \<not> has_parens (fc_signature c)) (mc_functions (mon_match_conditions m)))
          @ map (\<lambda>c. signature_error ''event'' name (ec_signature c) net network_slug)
              (filter (\<lambda>c. \<not> has_parens (ec_signature c)) (mc_events (mon_match_conditions m))))
     (mon_networks m))"

definition validate_condition :: "config_fs \<Rightarrow> string \<Rightarrow> trigger_condition \<Rightarrow> string list" where
  "validate_condition fs name c =
     (if cf_exists fs (tr_script_path c) then []
      else [''Monitor '' @ name @ '' has a custom filter script that does not exist: '' @ tr_script_path c])
     @ (case find (\<lambda>p. fst p = tr_language c) script_language_extensions of
          None \<Rightarrow> [''Monitor '' @ name @ '' uses unsupported script language'']
        | Some (_, expected_extension) \<Rightarrow>
          (if path_extension (tr_script_path c) = Some expected_extension then []
           else [''Monitor '' @ name @ '' has a custom filter script with invalid extension: '' @ tr_script_path c])
          @ (if tr_timeout_ms c = 0 then [''Monitor '' @ name @ '' should have a custom filter timeout_ms greater than 0''] else []))"

definition validate_references :: "config_fs \<Rightarrow> (string \<rightharpoonup> trigger) \<Rightarrow> (string \<rightharpoonup> network) \<Rightarrow> string \<times> 'abi monitor \<Rightarrow> string list" where
  "validate_references fs triggers networks p = (case p of (name, m) \<Rightarrow>
     map (\<lambda>t. ''Monitor '' @ name @ '' references non-existent trigger '' @ t) (filter (\<lambda>t. triggers t = None) (mon_triggers m))
     @ map (\<lambda>n. ''Monitor '' @ name @ '' references non-existent network '' @ n) (filter (\<lambda>n. networks n = None) (mon_networks m))
     @ validate_monitor_signatures name m networks
     @ concat (map (validate_condition fs name) (mon_trigger_conditions m)))"

definition validate_monitor_references :: "config_fs \<Rightarrow> (string \<times> 'abi monitor) list \<Rightarrow> (string \<rightharpoonup> trigger) \<Rightarrow>
  (string \<rightharpoonup> network) \<Rightarrow> repository_error + unit" where
  "validate_monitor_references fs monitors triggers networks =
     (let validation_errors = concat (map (validate_references fs triggers networks) monitors) in
      if validation_errors \<noteq> [] then Inl (Repo_validation validation_errors) else Inr ())"

section \<open>Monitors\<close>

text \<open>The networks and triggers of the services given, or loaded from the default directories.\<close>

definition networks_or_default :: "'abi config_env \<Rightarrow> (string \<rightharpoonup> network) option \<Rightarrow> repository_error + (string \<rightharpoonup> network)" where
  "networks_or_default env service = (case service of
     Some networks \<Rightarrow> Inr networks | None \<Rightarrow> load_network_repository env None)"

definition triggers_or_default :: "'abi config_env \<Rightarrow> (string \<rightharpoonup> trigger) option \<Rightarrow> repository_error + (string \<rightharpoonup> trigger)" where
  "triggers_or_default env service = (case service of
     Some triggers \<Rightarrow> Inr triggers | None \<Rightarrow> load_trigger_repository env None)"

definition load_error :: "string \<Rightarrow> repository_error + 'x \<Rightarrow> repository_error + 'x" where
  "load_error msg r = (case r of Inl _ \<Rightarrow> Inl (Repo_load msg) | Inr x \<Rightarrow> Inr x)"

definition load_monitor_repository :: "'abi config_env \<Rightarrow> ((string \<rightharpoonup> 'abi monitor) \<Rightarrow> (string \<times> 'abi monitor) list) \<Rightarrow>
  string option \<Rightarrow> (string \<rightharpoonup> network) option \<Rightarrow> (string \<rightharpoonup> trigger) option \<Rightarrow> repository_error + (string \<rightharpoonup> 'abi monitor)" where
  "load_monitor_repository env order path network_service trigger_service = (case load_monitors env path of
       Inl e \<Rightarrow> Inl (Repo_load ''Failed to load monitors'')
     | Inr pairs \<Rightarrow> (let monitors = hash_map_of pairs in
         res_bind (load_error ''Failed to load networks for monitor validation'' (networks_or_default env network_service)) (\<lambda>networks.
         res_bind (load_error ''Failed to load triggers for monitor validation'' (triggers_or_default env trigger_service)) (\<lambda>triggers.
         res_bind (validate_monitor_references (ce_fs env) (order monitors) triggers networks) (\<lambda>_. Inr monitors)))))"

definition load_monitor_from_path :: "'abi config_env \<Rightarrow> string option \<Rightarrow> (string \<rightharpoonup> network) option \<Rightarrow>
  (string \<rightharpoonup> trigger) option \<Rightarrow> repository_error + 'abi monitor" where
  "load_monitor_from_path env path network_service trigger_service = (case path of
       None \<Rightarrow> Inl (Repo_load ''Failed to load monitors'')
     | Some p \<Rightarrow> (case load_monitor_path env p of
         Inl e \<Rightarrow> Inl (Repo_load ''Failed to load monitors'')
       | Inr m \<Rightarrow>
         res_bind (networks_or_default env network_service) (\<lambda>networks.
         res_bind (triggers_or_default env trigger_service) (\<lambda>triggers.
         res_bind (validate_monitor_references (ce_fs env) [(mon_name m, m)] triggers networks) (\<lambda>_. Inr m)))))"

end
