(* ===== verification/Config_Properties.thy ===== *)
theory Config_Properties imports Repositories Bootstrap begin

text \<open>
  What loading the configuration guarantees: the contract of the loaders and what they load, the
  exact meaning of a valid set of monitors, and that a loaded configuration can load its scripts;
  and where the checks fall short.
\<close>

section \<open>The contract of the loaders\<close>

definition loaded :: "('x \<Rightarrow> bool) \<Rightarrow> ('x \<Rightarrow> 'x \<Rightarrow> bool) \<Rightarrow> (string \<times> 'x) list \<Rightarrow> bool" where
  "loaded valid clash pairs \<longleftrightarrow> list_all (\<lambda>p. valid (snd p)) pairs \<and> sorted_wrt (\<lambda>p q. \<not> clash (snd p) (snd q)) pairs"

lemma loaded_Nil: "loaded valid clash []"
  by (simp add: loaded_def)

text \<open>What the loader of a kind of configuration promises of its step and its check of uniqueness.\<close>

locale config_loader =
  fixes step :: "'i \<Rightarrow> config_error + (string \<times> 'x) option"
    and unique :: "'x list \<Rightarrow> 'x \<Rightarrow> config_error + unit"
    and valid :: "'x \<Rightarrow> bool"
    and clash :: "'x \<Rightarrow> 'x \<Rightarrow> bool"
  assumes step_valid: "step i = Inr (Some (n, x)) \<Longrightarrow> valid x"
    and unique_no_clash: "unique xs x = Inr () \<Longrightarrow> y \<in> set xs \<Longrightarrow> \<not> clash y x"
begin

lemma push_loaded:
  "push_instances step unique is pairs = Inr out \<Longrightarrow> loaded valid clash pairs \<Longrightarrow> loaded valid clash out"
proof (induction "is" arbitrary: pairs)
  case (Cons i "is")
  then obtain r where r: "step i = Inr r" by (auto simp: res_bind_Inr_iff)
  show ?case
  proof (cases r)
    case None
    with Cons r show ?thesis by simp
  next
    case (Some p)
    obtain n x where p: "p = (n, x)" by (cases p)
    have u: "unique (map snd pairs) x = Inr ()" and next_: "push_instances step unique is (pairs @ [(n, x)]) = Inr out"
      using Cons.prems(1) r Some p by (auto simp: res_bind_Inr_iff)
    have "loaded valid clash (pairs @ [(n, x)])"
      using Cons.prems(2) step_valid [of i n x] unique_no_clash [OF u] r Some p
      by (auto simp: loaded_def sorted_wrt_append list_all_iff)
    with Cons.IH next_ show ?thesis by blast
  qed
qed simp

lemma push_from_items:
  "push_instances step unique is pairs = Inr out \<Longrightarrow> p \<in> set out \<Longrightarrow> p \<in> set pairs \<or> (\<exists>i \<in> set is. step i = Inr (Some p))"
proof (induction "is" arbitrary: pairs)
  case (Cons i "is")
  then obtain r where r: "step i = Inr r" by (auto simp: res_bind_Inr_iff)
  show ?case
  proof (cases r)
    case None
    with Cons r show ?thesis by auto
  next
    case (Some q)
    obtain n x where q: "q = (n, x)" by (cases q)
    have "push_instances step unique is (pairs @ [(n, x)]) = Inr out"
      using Cons.prems(1) r Some q by (auto simp: res_bind_Inr_iff)
    from Cons.IH [OF this Cons.prems(2)] show ?thesis using r Some q by auto
  qed
qed simp

end

subsection \<open>The loaders of the program\<close>

lemma map_result_list_all2: "map_result f xs = Inr ys \<longleftrightarrow> list_all2 (\<lambda>x y. f x = Inr y) xs ys"
  by (induction xs arbitrary: ys) (auto simp: res_bind_Inr_iff list_all2_Cons1)

lemma map_result_elem: "map_result f xs = Inr ys \<Longrightarrow> y \<in> set ys \<Longrightarrow> \<exists>x \<in> set xs. f x = Inr y"
  by (fastforce simp: map_result_list_all2 list_all2_conv_all_nth in_set_conv_nth)

lemma unit_result: "r = Inr () \<longleftrightarrow> (\<forall>e. r \<noteq> Inl e)" for r :: "'e + unit"
  by (cases r) auto

fun is_plain :: "secret_value \<Rightarrow> bool" where
  "is_plain (Plain _) = True"
| "is_plain _ = False"

lemma resolve_plain_plain: "resolve_plain env what s = Inr s' \<Longrightarrow> is_plain s'"
  by (auto simp: resolve_plain_def split: sum.splits)

definition network_ok :: "'abi config_env \<Rightarrow> network \<Rightarrow> bool" where
  "network_ok env net \<longleftrightarrow> validate_network env net = Inr () \<and> (\<forall>u \<in> set (rpc_urls net). is_plain (rpc_location u))"

definition network_clash :: "network \<Rightarrow> network \<Rightarrow> bool" where
  "network_clash a b \<longleftrightarrow> normalize_string (network_name a) = normalize_string (network_name b)
     \<or> normalize_string (slug a) = normalize_string (slug b)"

lemma load_network_path_ok: "load_network_path env path = Inr net \<Longrightarrow> network_ok env net"
  by (auto simp: load_network_path_def res_bind_Inr_iff network_ok_def resolve_network_secrets_def)
    (drule (1) map_result_elem, auto simp: res_bind_Inr_iff dest: resolve_plain_plain)

lemma load_file_some:
  "load_file load_path i = Inr (Some (n, x)) \<Longrightarrow> \<exists>path. i = Inr path \<and> is_json_file path \<and> n = path_stem path \<and> load_path path = Inr x"
  by (auto simp: load_file_def res_bind_Inr_iff split: sum.splits if_splits)

lemma list_ex_none: "\<not> list_ex P xs \<Longrightarrow> y \<in> set xs \<Longrightarrow> \<not> P y"
  by (auto simp: list_ex_iff)

interpretation network_loader: config_loader "load_file (load_network_path env)" network_uniqueness "network_ok env" network_clash for env
proof
  show "network_ok env x" if "load_file (load_network_path env) i = Inr (Some (n, x))" for i n x
    using load_file_some [OF that] load_network_path_ok by blast
  show "\<not> network_clash y x" if "network_uniqueness xs x = Inr ()" "y \<in> set xs" for xs x y
    using that by (auto simp: network_uniqueness_def network_clash_def dest: list_ex_none split: if_splits)
qed

definition monitor_clash :: "'abi monitor \<Rightarrow> 'abi monitor \<Rightarrow> bool" where
  "monitor_clash a b \<longleftrightarrow> normalize_string (mon_name a) = normalize_string (mon_name b)"

interpretation monitor_loader: config_loader "load_file (load_monitor_path env)" monitor_uniqueness
    "\<lambda>m. validate_monitor env m = Inr ()" monitor_clash for env
proof
  show "validate_monitor env x = Inr ()" if "load_file (load_monitor_path env) i = Inr (Some (n, x))" for i n x
    using load_file_some [OF that] by (auto simp: load_monitor_path_def res_bind_Inr_iff unit_result split: sum.splits)
  show "\<not> monitor_clash y x" if "monitor_uniqueness xs x = Inr ()" "y \<in> set xs" for xs x y
    using that by (auto simp: monitor_uniqueness_def monitor_clash_def dest: list_ex_none split: if_splits)
qed

definition trigger_clash :: "trigger \<Rightarrow> trigger \<Rightarrow> bool" where
  "trigger_clash a b \<longleftrightarrow> normalize_string (tg_name a) = normalize_string (tg_name b)"

interpretation trigger_loader: config_loader "load_named_trigger env" trigger_uniqueness
    "\<lambda>t. validate_trigger env t = Inr ()" trigger_clash for env
proof
  show "validate_trigger env x = Inr ()" if "load_named_trigger env i = Inr (Some (n, x))" for i n x
    using that by (auto simp: load_named_trigger_def res_bind_Inr_iff unit_result split: prod.splits sum.splits)
  show "\<not> trigger_clash y x" if "trigger_uniqueness xs x = Inr ()" "y \<in> set xs" for xs x y
    using that by (auto simp: trigger_uniqueness_def trigger_clash_def dest: list_ex_none split: if_splits)
qed

section \<open>Loading and references\<close>

lemma load_networks_loaded: "load_networks env path = Inr pairs \<Longrightarrow> loaded (network_ok env) network_clash pairs"
  by (auto simp: load_networks_def res_bind_Inr_iff dest: network_loader.push_loaded [OF _ loaded_Nil])

lemma load_networks_from:
  "load_networks env path = Inr pairs \<Longrightarrow> (n, net) \<in> set pairs \<Longrightarrow> \<exists>file. is_json_file file \<and> n = path_stem file"
  by (auto simp: load_networks_def res_bind_Inr_iff dest!: network_loader.push_from_items load_file_some)

lemma load_monitors_loaded: "load_monitors env path = Inr pairs \<Longrightarrow> loaded (\<lambda>m. validate_monitor env m = Inr ()) monitor_clash pairs"
  by (auto simp: load_monitors_def res_bind_Inr_iff dest: monitor_loader.push_loaded [OF _ loaded_Nil])

lemma load_trigger_files_loaded:
  "load_trigger_files env es pairs = Inr out \<Longrightarrow> loaded (\<lambda>t. validate_trigger env t = Inr ()) trigger_clash pairs \<Longrightarrow> loaded (\<lambda>t. validate_trigger env t = Inr ()) trigger_clash out"
  by (induction env es pairs rule: load_trigger_files.induct)
    (auto simp: res_bind_Inr_iff split: if_splits dest: trigger_loader.push_loaded)

lemma load_triggers_loaded: "load_triggers env path = Inr pairs \<Longrightarrow> loaded (\<lambda>t. validate_trigger env t = Inr ()) trigger_clash pairs"
  by (auto simp: load_triggers_def res_bind_Inr_iff dest: load_trigger_files_loaded [OF _ loaded_Nil])

lemma hash_map_of_fold: "fold (\<lambda>(k, v) m. m(k \<mapsto> v)) pairs m = m ++ map_of (rev pairs)"
  by (induction pairs arbitrary: m) (auto simp: map_add_def fun_eq_iff split: option.splits)

lemma hash_map_of_some: "hash_map_of pairs k = Some v \<Longrightarrow> (k, v) \<in> set pairs"
  by (auto simp: hash_map_of_def hash_map_of_fold dest: map_of_SomeD)

subsection \<open>Signatures with parentheses\<close>

lemma find_index_append: "\<forall>x \<in> set xs. \<not> P x \<Longrightarrow> P y \<Longrightarrow> find_index P (xs @ y # ys) = Some (length xs)"
  by (induction xs) auto

lemma find_index_some: "find_index P xs = Some i \<Longrightarrow> i < length xs \<and> P (xs ! i) \<and> (\<forall>j < i. \<not> P (xs ! j))"
proof (induction xs arbitrary: i)
  case (Cons x xs)
  then show ?case by (cases i) (auto simp: less_Suc_eq_0_disj split: if_splits)
qed simp

lemma find_index_none: "find_index P xs = None \<longleftrightarrow> (\<forall>x \<in> set xs. \<not> P x)"
  by (induction xs) auto

lemma find_index_le: "P (xs ! i) \<Longrightarrow> i < length xs \<Longrightarrow> \<exists>j \<le> i. find_index P xs = Some j"
  by (cases "find_index P xs") (auto simp: find_index_none dest!: find_index_some, meson not_le)

lemma parens_core:
  "(case (find_char CHR ''('' s, rfind_char CHR '')'' s) of
       (Some a, Some b) \<Rightarrow> a < b \<and> b = length s - 1 | _ \<Rightarrow> False)
   \<longleftrightarrow> (\<exists>u v. s = u @ CHR ''('' # v @ [CHR '')''])" (is "?l \<longleftrightarrow> ?r")
proof
  assume ?l
  then obtain a i where a: "find_char CHR ''('' s = Some a" and i: "find_char CHR '')'' (rev s) = Some i"
    "a < length s - 1 - i" "length s - 1 - i = length s - 1"
    by (auto simp: rfind_char_def split: option.splits)
  have "i = 0" using i by auto
  with i(1) obtain t where t: "rev s = CHR '')'' # t"
    by (cases "rev s") (auto simp: find_char_def split: if_splits)
  then have s: "s = rev t @ [CHR '')'']" by (metis rev.simps(2) rev_rev_ident)
  have "a < length (rev t)" "s ! a = CHR ''(''"
    using i(2) s find_index_some [OF a [unfolded find_char_def]] by auto
  then have "rev t = take a (rev t) @ CHR ''('' # drop (Suc a) (rev t)"
    using id_take_nth_drop [of a "rev t"] s by (simp add: nth_append)
  with s show ?r by (metis append.assoc append_Cons)
next
  assume ?r
  then obtain u v where s: "s = u @ CHR ''('' # v @ [CHR '')'']" by blast
  then have "s ! length u = CHR ''(''" "length u < length s" by auto
  with find_index_le [of "\<lambda>d. d = CHR ''(''" s "length u"] obtain a where
    "a \<le> length u" "find_char CHR ''('' s = Some a" by (auto simp: find_char_def)
  with s show ?l by (auto simp: rfind_char_def find_char_def)
qed

lemma has_parens_iff: "has_parens sig \<longleftrightarrow> (\<exists>u v. trim sig = u @ CHR ''('' # v @ [CHR '')''])"
  unfolding has_parens_def Let_def by (rule parens_core)

subsection \<open>Valid monitors\<close>

text \<open>What a monitor may refer to: triggers and networks that exist, signatures with parentheses where
  the chain of a network asks for them, and scripts that exist, have the extension of their
  language and a time limit.\<close>

definition well_formed_signature :: "string \<Rightarrow> bool" where
  "well_formed_signature sig \<longleftrightarrow> (\<exists>u v. trim sig = u @ CHR ''('' # v @ [CHR '')''])"

fun expected_extension :: "script_language \<Rightarrow> string" where
  "expected_extension Python = ''py''"
| "expected_extension JavaScript = ''js''"
| "expected_extension Bash = ''sh''"

definition condition_ok :: "config_fs \<Rightarrow> trigger_condition \<Rightarrow> bool" where
  "condition_ok fs c \<longleftrightarrow> cf_exists fs (tr_script_path c) \<and> tr_timeout_ms c \<noteq> 0
     \<and> path_extension (tr_script_path c) = Some (expected_extension (tr_language c))"

definition signatures_ok :: "'abi monitor \<Rightarrow> network \<Rightarrow> bool" where
  "signatures_ok m net \<longleftrightarrow> network_type net = Solana
     \<or> (\<forall>c \<in> set (mc_functions (mon_match_conditions m)). well_formed_signature (fc_signature c))
       \<and> (\<forall>c \<in> set (mc_events (mon_match_conditions m)). well_formed_signature (ec_signature c))"

definition references_ok :: "config_fs \<Rightarrow> (string \<rightharpoonup> trigger) \<Rightarrow> (string \<rightharpoonup> network) \<Rightarrow> 'abi monitor \<Rightarrow> bool" where
  "references_ok fs triggers networks m \<longleftrightarrow>
     set (mon_triggers m) \<subseteq> dom triggers \<and> set (mon_networks m) \<subseteq> dom networks
     \<and> (\<forall>n \<in> set (mon_networks m). \<forall>net. networks n = Some net \<longrightarrow> signatures_ok m net)
     \<and> (\<forall>c \<in> set (mon_trigger_conditions m). condition_ok fs c)"

lemma requires_parentheses_iff: "requires_parentheses (signature_rules_of ty) \<longleftrightarrow> ty \<noteq> Solana"
  by (cases ty) auto

lemma validate_condition_iff: "validate_condition fs name c = [] \<longleftrightarrow> condition_ok fs c"
  by (cases "tr_language c") (auto simp: validate_condition_def condition_ok_def script_language_extensions_def)

lemma filter_empty: "filter P xs = [] \<longleftrightarrow> (\<forall>x \<in> set xs. \<not> P x)"
  by (rule filter_empty_conv)

lemma validate_monitor_signatures_iff: "validate_monitor_signatures name m networks = [] \<longleftrightarrow>
   (\<forall>n \<in> set (mon_networks m). \<forall>net. networks n = Some net \<longrightarrow> signatures_ok m net)"
  by (auto simp: validate_monitor_signatures_def filter_empty requires_parentheses_iff has_parens_iff signatures_ok_def
      well_formed_signature_def split: option.splits if_splits)

lemma validate_references_iff: "validate_references fs triggers networks (name, m) = [] \<longleftrightarrow> references_ok fs triggers networks m"
  by (auto simp: validate_references_def references_ok_def validate_monitor_signatures_iff validate_condition_iff
      filter_empty subset_iff dom_def)

lemma validate_references_snd:
  "validate_references fs triggers networks p = [] \<longleftrightarrow> references_ok fs triggers networks (snd p)"
  by (cases p) (simp add: validate_references_iff)

lemma references_valid:
  "validate_monitor_references fs monitors triggers networks = Inr ()
   \<longleftrightarrow> (\<forall>p \<in> set monitors. references_ok fs triggers networks (snd p))"
  by (simp add: validate_monitor_references_def Let_def validate_references_snd)

lemma load_monitor_repository_some:
  assumes "load_monitor_repository env order path (Some networks) (Some triggers) = Inr monitors"
    "map_of (order monitors) = monitors" "monitors name = Some m"
  shows "references_ok (ce_fs env) triggers networks m"
proof -
  have "validate_monitor_references (ce_fs env) (order monitors) triggers networks = Inr ()"
    using assms(1) by (auto simp: load_monitor_repository_def Let_def res_bind_Inr_iff load_error_def
        networks_or_default_def triggers_or_default_def split: sum.splits)
  moreover have "(name, m) \<in> set (order monitors)"
    using map_of_SomeD [of "order monitors" name m] assms(2,3) by simp
  ultimately show ?thesis by (force simp: references_valid)
qed

subsection \<open>Scripts of a loaded configuration\<close>

lemma load_condition_scripts_ok:
  "\<forall>c \<in> set cs. read (tr_script_path c) \<noteq> None \<Longrightarrow> \<exists>s'. load_condition_scripts read name cs s = Inr s'"
  by (induction cs arbitrary: s) auto

definition trigger_readable :: "(string \<Rightarrow> string option) \<Rightarrow> trigger \<Rightarrow> bool" where
  "trigger_readable read t \<longleftrightarrow> (\<forall>l p a tm. tg_config t = CfgScript l p a tm \<longrightarrow> read p \<noteq> None)"

lemma load_trigger_scripts_ok:
  "\<forall>tid \<in> set tids. \<exists>t. triggers tid = Some t \<and> trigger_readable read t \<Longrightarrow>
   \<exists>s'. load_trigger_scripts read triggers name tids s = Inr s'"
proof (induction tids arbitrary: s)
  case (Cons tid tids)
  then obtain t where "triggers tid = Some t" "trigger_readable read t" by auto
  with Cons show ?case by (cases "tg_config t") (auto simp: trigger_readable_def)
qed simp

lemma load_scripts_from_ok:
  assumes "\<forall>m \<in> set ms. (\<forall>c \<in> set (mon_trigger_conditions m). read (tr_script_path c) \<noteq> None)
     \<and> (\<forall>tid \<in> set (mon_triggers m). \<exists>t. triggers tid = Some t \<and> trigger_readable read t)"
  shows "\<exists>s'. load_scripts_from read triggers ms s = Inr s'"
  using assms
proof (induction ms arbitrary: s)
  case (Cons m ms)
  obtain s1 where s1: "load_condition_scripts read (mon_name m) (mon_trigger_conditions m) s = Inr s1"
    using load_condition_scripts_ok Cons.prems by (metis list.set_intros(1))
  obtain s2 where s2: "load_trigger_scripts read triggers (mon_name m) (mon_triggers m) s1 = Inr s2"
    using load_trigger_scripts_ok Cons.prems by (metis list.set_intros(1))
  show ?case using Cons s1 s2 by simp
qed simp

lemma validated_script_exists:
  "validate_trigger env t = Inr () \<Longrightarrow> tg_type t = Script \<Longrightarrow> tg_config t = CfgScript l p a tm \<Longrightarrow> cf_exists (ce_fs env) p"
  by (auto simp: validate_trigger_def validate_script_config_def split: if_splits)

section \<open>A sample configuration\<close>

text \<open>Files that all exist and hold one network, one monitor and one trigger; \<open>net.json\<close> is called by
  the slug of its network or not.\<close>

definition sample_config :: "network \<Rightarrow> abi_contract monitor \<Rightarrow> trigger \<Rightarrow> abi_contract config_env" where
  "sample_config net m t = \<lparr>ce_fs = \<lparr>cf_exists = (\<lambda>_. True),
       cf_read_dir = (\<lambda>d. Inr (if d = ''networks'' then [Inr ''networks/eth.json'', Inr ''networks/notes.txt'']
         else [Inr ''d/big.json''])),
       cf_open = Inr\<rparr>,
     ce_resolve = (\<lambda>s. Inr (secret_as_str s)), ce_parse_network = (\<lambda>_. Inr net), ce_parse_monitor = (\<lambda>_. Inr m),
     ce_parse_triggers = (\<lambda>_. Inr [(''notify'', t)]), ce_parse_trigger = (\<lambda>_. Inr t), ce_cron_ok = (\<lambda>_. Inr ()),
     ce_cron_interval = (\<lambda>_. Some 60000), ce_email_ok = (\<lambda>_. True)\<rparr>"

definition config_network :: network where
  "config_network = sample_network\<lparr>rpc_urls := [\<lparr>rpc_type = ''rpc'', rpc_location = Plain ''https://node.org'', rpc_weight = 100\<rparr>]\<rparr>"

definition config_monitor :: "abi_contract monitor" where
  "config_monitor = (sample_monitor ''0xA'' no_conditions)\<lparr>mon_triggers := [''notify''],
     mon_trigger_conditions := [\<lparr>tr_script_path = ''c.py'', tr_arguments = None, tr_language = Python, tr_timeout_ms = 1000\<rparr>]\<rparr>"

lemmas sample_config_defs = sample_config_def config_network_def config_monitor_def sample_network_def sample_monitor_def
  no_conditions_def script_trigger_def

lemma sample_networks_load: "load_networks (sample_config config_network m t) (Some ''networks'') = Inr [(''eth'', config_network)]"
  by code_simp

lemma sample_monitors_load:
  "load_monitors (sample_config net config_monitor t) (Some ''monitors'') = Inr [(''big'', config_monitor)]"
  by code_simp

lemma sample_triggers_load:
  "load_triggers (sample_config net m script_trigger) (Some ''triggers'') = Inr [(''notify'', script_trigger)]"
  by code_simp

section \<open>Properties\<close>

fun is_email :: "trigger_config \<Rightarrow> bool" where
  "is_email (CfgEmail _ _ _ _ _ _ _ _) = True"
| "is_email _ = False"

fun is_script :: "trigger_config \<Rightarrow> bool" where
  "is_script (CfgScript _ _ _ _) = True"
| "is_script _ = False"

lemma distinct_sorted_wrt: "distinct (map f xs) \<longleftrightarrow> sorted_wrt (\<lambda>x y. f x \<noteq> f y) xs"
  by (induction xs) auto

lemma rpc_url_weight: "rpc_url_ok ty u \<Longrightarrow> rpc_weight u \<le> 100"
  by (simp add: rpc_url_ok_def split: prod.splits)

lemma validate_network_ok:
  "validate_network env net = Inr () \<Longrightarrow> network_name net \<noteq> [] \<and> list_all is_slug_char (slug net)
     \<and> list_all (\<lambda>u. rpc_weight u \<le> 100) (rpc_urls net) \<and> 100 \<le> block_time_ms net
     \<and> confirmation_blocks net \<noteq> 0 \<and> max_past_blocks net \<noteq> Some 0"
  by (simp add: validate_network_def not_less split: if_splits sum.splits) (auto simp: list_all_iff dest: rpc_url_weight)

text \<open>C9. A configuration of networks that loads is sound: names and slugs are pairwise distinct up to
  case and surrounding white space, and every network has a name, a slug of lower-case letters, digits and
  underscores, resolved URLs of weight at most 100, and numbers with which the watcher can
  compute its window without dividing by zero.\<close>

theorem loaded_networks_sound:
  assumes "load_networks env path = Inr pairs"
  shows "distinct (map (\<lambda>p. normalize_string (network_name (snd p))) pairs)
    \<and> distinct (map (\<lambda>p. normalize_string (slug (snd p))) pairs)
    \<and> list_all (\<lambda>p. network_name (snd p) \<noteq> [] \<and> list_all is_slug_char (slug (snd p))
        \<and> list_all (\<lambda>u. is_plain (rpc_location u) \<and> rpc_weight u \<le> 100) (rpc_urls (snd p))
        \<and> 100 \<le> block_time_ms (snd p) \<and> confirmation_blocks (snd p) \<noteq> 0 \<and> max_past_blocks (snd p) \<noteq> Some 0
        \<and> get_recommended_past_blocks interval (snd p) \<noteq> None) pairs"
proof -
  have l: "loaded (network_ok env) network_clash pairs" using assms by (rule load_networks_loaded)
  have "sorted_wrt (\<lambda>p q. normalize_string (network_name (snd p)) \<noteq> normalize_string (network_name (snd q))) pairs"
    "sorted_wrt (\<lambda>p q. normalize_string (slug (snd p)) \<noteq> normalize_string (slug (snd q))) pairs"
    using l by (auto simp: loaded_def network_clash_def elim!: sorted_wrt_mono_rel [rotated])
  moreover have "network_name net \<noteq> [] \<and> list_all is_slug_char (slug net)
        \<and> list_all (\<lambda>u. is_plain (rpc_location u) \<and> rpc_weight u \<le> 100) (rpc_urls net)
        \<and> 100 \<le> block_time_ms net \<and> confirmation_blocks net \<noteq> 0 \<and> max_past_blocks net \<noteq> Some 0
        \<and> get_recommended_past_blocks interval net \<noteq> None" if "network_ok env net" for net
    using validate_network_ok [of env net] that by (auto simp: network_ok_def list_all_iff get_recommended_past_blocks_def Let_def)
  ultimately show ?thesis using l unfolding distinct_sorted_wrt loaded_def list_all_iff by blast
qed

theorem loaded_networks_sound_witness:
  "load_networks (sample_config config_network config_monitor script_trigger) (Some ''networks'') = Inr [(''eth'', config_network)]
   \<and> get_recommended_past_blocks (\<lambda>_. Some 60000) config_network \<noteq> None"
  using loaded_networks_sound [OF sample_networks_load, of "\<lambda>_. Some 60000"] sample_networks_load by simp

text \<open>C10. The monitors are accepted exactly if each refers to triggers and networks that exist, has
  signatures of functions and events with an opening parenthesis before a closing one at their
  end, unless all its networks are Solana's, and scripts that exist, have the extension of their
  language and a time limit.\<close>

theorem monitors_accepted_exact:
  "validate_monitor_references fs monitors triggers networks = Inr ()
   \<longleftrightarrow> list_all (\<lambda>p. references_ok fs triggers networks (snd p)) monitors"
  by (simp add: references_valid list_all_iff)

text \<open>C11. A configuration that loads can start: if every file that exists can be read and triggers with a
  script are of the type of scripts, the scripts of all monitors of a repository that was accepted can be
  loaded. (Neither type is checked against the other; see the findings.)\<close>

theorem configuration_loads_scripts:
  assumes "load_trigger_repository env tpath = Inr triggers"
    "load_monitor_repository env order path (Some networks) (Some triggers) = Inr monitors"
    "map_of (order monitors) = monitors" "set ms \<subseteq> ran monitors"
    "\<And>p. cf_exists (ce_fs env) p \<Longrightarrow> read p \<noteq> None"
    "\<And>t l p a tm. t \<in> ran triggers \<Longrightarrow> tg_config t = CfgScript l p a tm \<Longrightarrow> tg_type t = Script"
  shows "\<exists>scripts. load_scripts read triggers ms = Inr scripts"
proof -
  obtain pairs where pairs: "load_triggers env tpath = Inr pairs" "triggers = hash_map_of pairs"
    using assms(1) by (auto simp: load_trigger_repository_def split: sum.splits)
  have valid: "validate_trigger env t = Inr ()" if "triggers tid = Some t" for tid t
    using load_triggers_loaded [OF pairs(1)] hash_map_of_some [of pairs tid t] that pairs(2)
    by (force simp: loaded_def list_all_iff)
  have readable: "trigger_readable read t" if "triggers tid = Some t" for tid t
    using validated_script_exists [OF valid [OF that]] assms(5) assms(6) [OF ranI [of triggers tid t, OF that]]
    by (auto simp: trigger_readable_def)
  have "(\<forall>c \<in> set (mon_trigger_conditions m). read (tr_script_path c) \<noteq> None)
     \<and> (\<forall>tid \<in> set (mon_triggers m). \<exists>t. triggers tid = Some t \<and> trigger_readable read t)" if m: "m \<in> set ms" for m
  proof -
    obtain name where "monitors name = Some m" using m assms(4) by (auto simp: ran_def)
    from load_monitor_repository_some [OF assms(2,3) this] show ?thesis
      using assms(5) readable by (auto simp: references_ok_def condition_ok_def subset_iff dom_def)
  qed
  then show ?thesis unfolding load_scripts_def by (intro load_scripts_from_ok) blast
qed

lemma sample_trigger_repository:
  "load_trigger_repository (sample_config net m script_trigger) (Some ''triggers'') = Inr [''notify'' \<mapsto> script_trigger]"
  by (simp add: load_trigger_repository_def sample_triggers_load hash_map_of_def)

definition one_monitor :: "(string \<rightharpoonup> abi_contract monitor) \<Rightarrow> (string \<times> abi_contract monitor) list" where
  "one_monitor ms = (case ms ''big'' of None \<Rightarrow> [] | Some m \<Rightarrow> [(''big'', m)])"

lemma sample_references: "validate_monitor_references (ce_fs (sample_config net config_monitor t)) [(''big'', config_monitor)]
    [''notify'' \<mapsto> script_trigger] [''eth'' \<mapsto> config_network] = Inr ()"
  by code_simp

lemma sample_monitor_repository:
  "load_monitor_repository (sample_config net config_monitor script_trigger) one_monitor (Some ''monitors'')
     (Some [''eth'' \<mapsto> config_network]) (Some [''notify'' \<mapsto> script_trigger]) = Inr [''big'' \<mapsto> config_monitor]"
  by (simp add: load_monitor_repository_def sample_monitors_load hash_map_of_def networks_or_default_def triggers_or_default_def
      load_error_def one_monitor_def sample_references Let_def)

theorem configuration_loads_scripts_witness:
  "\<exists>scripts. load_scripts (\<lambda>p. Some ''exit 0'') [''notify'' \<mapsto> script_trigger] [config_monitor] = Inr scripts"
  by (rule configuration_loads_scripts [OF sample_trigger_repository sample_monitor_repository])
    (auto simp: one_monitor_def script_trigger_def)

text \<open>Monitors name networks by their files: if no file of a network is called like the slug of a
  network, no monitor that was accepted ever applies to that network, since the validation looks
  networks up by the name of their file and the watcher's handler compares with the slug.\<close>

theorem network_named_by_file:
  assumes "load_monitor_repository env order path (Some networks) (Some triggers) = Inr monitors"
    "map_of (order monitors) = monitors" "set ms \<subseteq> ran monitors" "networks (slug net) = None"
  shows "filter_network_monitors ms (slug net) = [] \<and> \<not> has_active_monitors ms (slug net)"
proof -
  have "slug net \<notin> set (mon_networks m)" if m: "m \<in> set ms" for m
  proof -
    obtain name where "monitors name = Some m" using m assms(3) by (auto simp: ran_def)
    from load_monitor_repository_some [OF assms(1,2) this] assms(4) show ?thesis by (auto simp: references_ok_def)
  qed
  then show ?thesis by (auto simp: filter_network_monitors_def has_active_monitors_def list_ex_iff filter_empty_conv)
qed

theorem network_named_by_file_witness:
  "load_networks (sample_config (config_network\<lparr>slug := ''ethereum''\<rparr>) config_monitor script_trigger) (Some ''networks'')
     = Inr [(''eth'', config_network\<lparr>slug := ''ethereum''\<rparr>)]
   \<and> \<not> has_active_monitors [config_monitor] ''ethereum''"
proof -
  have "load_networks (sample_config (config_network\<lparr>slug := ''ethereum''\<rparr>) config_monitor script_trigger) (Some ''networks'')
     = Inr [(''eth'', config_network\<lparr>slug := ''ethereum''\<rparr>)]" by code_simp
  with network_named_by_file [OF sample_monitor_repository, of "[config_monitor]" "config_network\<lparr>slug := ''ethereum''\<rparr>"]
  show ?thesis by (simp add: one_monitor_def)
qed

text \<open>The type of a trigger is not checked against its configuration: a trigger of the type of emails or
  scripts with the configuration of another type passes the validation unchecked, and each of
  its notifications fails.\<close>

theorem trigger_type_unchecked:
  assumes "tg_name t \<noteq> []" "tg_type t = Email \<and> \<not> is_email (tg_config t) \<or> tg_type t = Script \<and> \<not> is_script (tg_config t)"
  shows "validate_trigger env t = Inr ()
    \<and> (\<exists>e. execute_notification nenv t vars m scripts st = Some (Inl (Config_error e), st))"
  using assms by (cases "tg_config t")
    (auto simp: validate_trigger_def execute_notification_def execute_email_def execute_script_trigger_def)

theorem trigger_type_unchecked_witness:
  "validate_trigger (sample_config config_network config_monitor script_trigger)
     (script_trigger\<lparr>tg_config := CfgSlack (Plain ''ftp'') \<lparr>nm_title = [], nm_body = []\<rparr> \<lparr>rt_max_retries = 0,
       rt_base_for_backoff = 0, rt_initial_backoff = 0, rt_max_backoff = 0, rt_full_jitter = False\<rparr>\<rparr>) = Inr ()"
  by (rule trigger_type_unchecked [THEN conjunct1]) (simp_all add: script_trigger_def)

end
