(* ===== verification/Rpc_Client.thy ===== *)
theory Rpc_Client imports Chain_Models Tracker begin

text \<open>
  What the blockchain clients (src/src/services/blockchain/clients) share: access to JSON
  answers and calls over a transport. A call passes the state of the transport along, answers
  with an error or a result, and is \<open>None\<close> when the transport never returns. Requests that the
  code joins run one after the other here, all of them, whatever their answers.
\<close>

section \<open>Access to JSON\<close>

definition json_get :: "string \<Rightarrow> json \<Rightarrow> json option" where
  "json_get k j = (case j of JObject m \<Rightarrow> map_of m k | _ \<Rightarrow> None)"

definition json_elem :: "nat \<Rightarrow> json \<Rightarrow> json option" where
  "json_elem i j = (case j of JArray xs \<Rightarrow> if i < length xs then Some (xs ! i) else None | _ \<Rightarrow> None)"

text \<open>\<open>value[k]\<close>: null if there is no such entry.\<close>

definition json_index :: "string \<Rightarrow> json \<Rightarrow> json" where
  "json_index k j = (case json_get k j of None \<Rightarrow> JNull | Some v \<Rightarrow> v)"

definition json_index_elem :: "nat \<Rightarrow> json \<Rightarrow> json" where
  "json_index_elem i j = (case json_elem i j of None \<Rightarrow> JNull | Some v \<Rightarrow> v)"

fun json_as_str :: "json \<Rightarrow> string option" where
  "json_as_str (JString s) = Some s"
| "json_as_str _ = None"

fun json_as_u64 :: "json \<Rightarrow> u64 option" where
  "json_as_u64 (JNumber (PosInt n)) = Some n"
| "json_as_u64 _ = None"

fun json_as_i64 :: "json \<Rightarrow> u64 option" where
  "json_as_i64 (JNumber (PosInt n)) = (if n \<le> 9223372036854775807 then Some n else None)"
| "json_as_i64 (JNumber (NegInt n)) = Some n"
| "json_as_i64 _ = None"

fun json_as_array :: "json \<Rightarrow> json list option" where
  "json_as_array (JArray xs) = Some xs"
| "json_as_array _ = None"

definition json_nat :: "nat \<Rightarrow> json" where
  "json_nat n = JNumber (PosInt (word_of_nat n))"

definition json_u64 :: "u64 \<Rightarrow> json" where
  "json_u64 n = JNumber (PosInt n)"

text \<open>\<open>unwrap_or_default\<close> on texts.\<close>

definition str_or_empty :: "json option \<Rightarrow> string" where
  "str_or_empty v = (case Option.bind v json_as_str of None \<Rightarrow> [] | Some s \<Rightarrow> s)"

definition get_str :: "string \<Rightarrow> json \<Rightarrow> string option" where
  "get_str k j = Option.bind (json_get k j) json_as_str"

definition get_u64 :: "string \<Rightarrow> json \<Rightarrow> u64 option" where
  "get_u64 k j = Option.bind (json_get k j) json_as_u64"

definition get_i64 :: "string \<Rightarrow> json \<Rightarrow> u64 option" where
  "get_i64 k j = Option.bind (json_get k j) json_as_i64"

definition get_array :: "string \<Rightarrow> json \<Rightarrow> json list option" where
  "get_array k j = Option.bind (json_get k j) json_as_array"

text \<open>\<open>{:x}\<close>.\<close>

definition hex_digit :: "nat \<Rightarrow> char" where
  "hex_digit d = char_of (if d < 10 then 48 + d else 87 + d)"

fun hex_text :: "nat \<Rightarrow> string" where
  "hex_text n = (if n < 16 then [hex_digit n] else hex_text (n div 16) @ [hex_digit (n mod 16)])"

declare hex_text.simps [simp del]

definition hex_number :: "u64 \<Rightarrow> string" where
  "hex_number n = ''0x'' @ hex_text (unat n)"

section \<open>Calls\<close>

type_synonym ('e, 't, 'a) call = "'t \<Rightarrow> (('e + 'a) \<times> 't) option"

type_synonym ('e, 't) transport = "string \<Rightarrow> json option \<Rightarrow> ('e, 't, json) call"

definition answer :: "'e + 'a \<Rightarrow> ('e, 't, 'a) call" where
  "answer r t = Some (r, t)"

definition call_bind :: "('e, 't, 'a) call \<Rightarrow> ('a \<Rightarrow> ('e, 't, 'b) call) \<Rightarrow> ('e, 't, 'b) call" where
  "call_bind c f t = (case c t of
       None \<Rightarrow> None
     | Some (Inl e, t') \<Rightarrow> Some (Inl e, t')
     | Some (Inr x, t') \<Rightarrow> f x t')"

definition call_then :: "('e, 't, 'a) call \<Rightarrow> ('a \<Rightarrow> 'e + 'b) \<Rightarrow> ('e, 't, 'b) call" where
  "call_then c f = call_bind c (\<lambda>x. answer (f x))"

definition map_call_error :: "('e \<Rightarrow> 'f) \<Rightarrow> ('e, 't, 'a) call \<Rightarrow> ('f, 't, 'a) call" where
  "map_call_error f c t = map_option (map_prod (map_sum f id) id) (c t)"

text \<open>\<open>with_context\<close>: another error.\<close>

definition call_context :: "'f \<Rightarrow> ('e, 't, 'a) call \<Rightarrow> ('f, 't, 'a) call" where
  "call_context e c = map_call_error (\<lambda>_. e) c"

text \<open>\<open>ok_or_else\<close>.\<close>

definition require :: "'e \<Rightarrow> 'a option \<Rightarrow> 'e + 'a" where
  "require e v = (case v of None \<Rightarrow> Inl e | Some x \<Rightarrow> Inr x)"

text \<open>\<open>join_all\<close>: every call runs; then the first error, or all results.\<close>

fun call_all :: "('e, 't, 'a) call list \<Rightarrow> 't \<Rightarrow> (('e + 'a) list \<times> 't) option" where
  "call_all [] t = Some ([], t)"
| "call_all (c # cs) t = (case c t of
       None \<Rightarrow> None
     | Some (r, t') \<Rightarrow> map_option (map_prod (\<lambda>rs. r # rs) id) (call_all cs t'))"

fun collect_results :: "('e + 'a) list \<Rightarrow> 'e + 'a list" where
  "collect_results [] = Inr []"
| "collect_results (Inl e # rs) = Inl e"
| "collect_results (Inr x # rs) = map_sum id (\<lambda>xs. x # xs) (collect_results rs)"

definition join_calls :: "('e, 't, 'a) call list \<Rightarrow> ('e, 't, 'a list) call" where
  "join_calls cs t = map_option (map_prod collect_results id) (call_all cs t)"

section \<open>Lemmas\<close>

text \<open>A node without state that always answers.\<close>

definition node_transport :: "(string \<Rightarrow> json option \<Rightarrow> 'e + json) \<Rightarrow> ('e, 't) transport" where
  "node_transport node m p t = Some (node m p, t)"

lemma call_bind_answer [simp]: "call_bind (answer r) f t = (case r of Inl e \<Rightarrow> Some (Inl e, t) | Inr x \<Rightarrow> f x t)"
  by (simp add: call_bind_def answer_def split: sum.split)

lemma call_then_answer [simp]: "call_then (answer r) f = answer (res_bind r f)"
  by (rule ext) (cases r; simp add: call_then_def; simp add: answer_def)

lemma call_context_answer [simp]: "call_context e (answer r) = answer (map_sum (\<lambda>_. e) id r)"
  by (rule ext) (simp add: call_context_def map_call_error_def answer_def)

lemma node_transport_answer [simp]: "node_transport node m p = answer (node m p)"
  by (rule ext) (simp add: node_transport_def answer_def)

lemma call_all_answers: "call_all (map (\<lambda>x. answer (f x)) xs) t = Some (map f xs, t)"
  by (induction xs arbitrary: t) (simp_all add: answer_def)

lemma join_answers: "join_calls (map (\<lambda>x. answer (f x)) xs) = answer (collect_results (map f xs))"
  by (rule ext) (simp add: join_calls_def call_all_answers, simp add: answer_def)

lemma collect_results_cases:
  "collect_results rs = (case find (\<lambda>r. \<not> is_ok r) rs of
     Some (Inl e) \<Rightarrow> Inl e | _ \<Rightarrow> Inr (List.map_filter (\<lambda>r. case r of Inr x \<Rightarrow> Some x | Inl _ \<Rightarrow> None) rs))"
  by (induction rs rule: collect_results.induct) (auto split: option.splits sum.splits)

lemma collect_results_ok: "collect_results (map (\<lambda>x. Inr (g x)) xs) = Inr (map g xs)"
  by (induction xs) simp_all

lemma collect_results_bad: "r \<in> set rs \<Longrightarrow> \<not> is_ok r \<Longrightarrow> \<exists>e. collect_results rs = Inl e \<and> Inl e \<in> set rs"
proof (induction rs rule: collect_results.induct)
  case (3 x rs)
  then obtain e where "collect_results rs = Inl e" "Inl e \<in> set rs" by auto
  then show ?case by simp
qed auto

section \<open>Clients that fetch the blocks of a range one by one\<close>

locale range_fetch =
  fixes fetch :: "u64 \<Rightarrow> u64 option \<Rightarrow> ('e, 't, 'b list) call"
    and per_block :: "u64 \<Rightarrow> 'e + 'b"
  assumes fetch_range: "s \<le> e \<Longrightarrow> fetch s (Some e) t = Some (collect_results (map per_block (inclusive_range s e)), t)"
    and fetch_one: "fetch s None t = fetch s (Some s) t"
begin

lemma whole_or_error:
  assumes "s \<le> e"
  shows "(\<exists>blocks. fetch s (Some e) t = Some (Inr blocks, t) \<and> map Inr blocks = map per_block (inclusive_range s e)) \<or>
    (\<exists>err n. fetch s (Some e) t = Some (Inl err, t) \<and> n \<in> {s..e} \<and> per_block n = Inl err)"
proof (cases "\<exists>n \<in> {s..e}. \<not> is_ok (per_block n)")
  case True
  then obtain r where "r \<in> set (map per_block (inclusive_range s e))" "\<not> is_ok r"
    by (auto simp: set_inclusive_range)
  from collect_results_bad [OF this] assms show ?thesis
    by (auto simp: fetch_range set_inclusive_range image_iff)
next
  case False
  define g where "g n = (case per_block n of Inr b \<Rightarrow> b | Inl _ \<Rightarrow> undefined)" for n
  have "per_block n = Inr (g n)" if "n \<in> {s..e}" for n
  proof -
    have "is_ok (per_block n)" using False that by blast
    then show ?thesis by (cases "per_block n") (simp_all add: g_def)
  qed
  then have g: "map per_block (inclusive_range s e) = map (\<lambda>n. Inr (g n)) (inclusive_range s e)"
    by (intro map_cong refl) (simp add: set_inclusive_range)
  have "fetch s (Some e) t = Some (Inr (map g (inclusive_range s e)), t)"
    using assms by (simp add: fetch_range g collect_results_ok)
  then show ?thesis by (simp add: g)
qed

lemma single: "fetch s None t = Some (map_sum id (\<lambda>b. [b]) (per_block s), t)"
proof -
  have "inclusive_range s s = [s]" by (simp add: inclusive_range_def)
  then show ?thesis by (cases "per_block s") (simp_all add: fetch_one fetch_range)
qed

end

end
