(* ===== verification/Evm_Client.thy ===== *)
theory Evm_Client imports Rpc_Client Evm_Filter begin

text \<open>
  The client of EVM chains (src/src/services/blockchain/clients/evm/client.rs): the requests it
  sends and what it makes of the answers. The deserialisation of receipts, logs and blocks is
  derived and is a parameter, as are hashes from and to text. An error is its context.
\<close>

record evm_decoders =
  ed_h256 :: "string \<Rightarrow> byte list option"
  ed_h256_print :: "byte list \<Rightarrow> string"
  ed_receipt :: "json \<Rightarrow> evm_receipt option"
  ed_logs :: "json \<Rightarrow> evm_log list option"
  ed_block :: "json \<Rightarrow> evm_block option"

definition evm_read_receipt :: "evm_decoders \<Rightarrow> json \<Rightarrow> string + evm_receipt" where
  "evm_read_receipt ed response = res_bind (require ''Missing 'result' field'' (json_get ''result'' response)) (\<lambda>data.
     if data = JNull then Inl ''Transaction receipt not found''
     else require ''Failed to parse transaction receipt'' (ed_receipt ed data))"

definition evm_get_transaction_receipt :: "evm_decoders \<Rightarrow> ('e, 't) transport \<Rightarrow> string \<Rightarrow> (string, 't, evm_receipt) call" where
  "evm_get_transaction_receipt ed rpc transaction_hash = (case ed_h256 ed transaction_hash of
       None \<Rightarrow> answer (Inl ''Invalid transaction hash'')
     | Some h \<Rightarrow> call_then (call_context (''Failed to get transaction receipt: '' @ transaction_hash)
         (rpc ''eth_getTransactionReceipt'' (Some (JArray [JString (''0x'' @ ed_h256_print ed h)])))) (evm_read_receipt ed))"

definition evm_get_logs_for_blocks :: "evm_decoders \<Rightarrow> ('e, 't) transport \<Rightarrow> u64 \<Rightarrow> u64 \<Rightarrow> string list option \<Rightarrow>
  (string, 't, evm_log list) call" where
  "evm_get_logs_for_blocks ed rpc from_block to_block addresses =
     call_then (call_context (''Failed to get logs for blocks: '' @ show_word from_block @ '' - '' @ show_word to_block)
       (rpc ''eth_getLogs'' (Some (JArray [JObject [
          (''address'', case addresses of None \<Rightarrow> JNull | Some l \<Rightarrow> JArray (map JString l)),
          (''fromBlock'', JString (hex_number from_block)),
          (''toBlock'', JString (hex_number to_block))]]))))
     (\<lambda>response. res_bind (require ''Missing 'result' field'' (json_get ''result'' response))
       (\<lambda>data. require ''Failed to parse logs'' (ed_logs ed data)))"

definition evm_get_latest_block_number :: "('e, 't) transport \<Rightarrow> (string, 't, u64) call" where
  "evm_get_latest_block_number rpc = call_then (call_context ''Failed to get latest block number'' (rpc ''eth_blockNumber'' None))
     (\<lambda>response. res_bind (require ''Missing 'result' field'' (get_str ''result'' response))
       (\<lambda>hex_str. require ''Failed to parse block number'' (u64_from_hex (trim_0x hex_str))))"

definition evm_read_block :: "evm_decoders \<Rightarrow> json \<Rightarrow> string + evm_block" where
  "evm_read_block ed response = res_bind (require ''Missing 'result' field'' (json_get ''result'' response)) (\<lambda>data.
     if data = JNull then Inl ''Block not found''
     else require ''Failed to parse block'' (ed_block ed data))"

definition evm_get_block :: "evm_decoders \<Rightarrow> ('e, 't) transport \<Rightarrow> u64 \<Rightarrow> (string, 't, evm_block) call" where
  "evm_get_block ed rpc n = call_then (call_context (''Failed to get block: '' @ show_word n)
     (rpc ''eth_getBlockByNumber'' (Some (JArray [JString (hex_number n), JBool True])))) (evm_read_block ed)"

definition evm_get_blocks :: "evm_decoders \<Rightarrow> ('e, 't) transport \<Rightarrow> u64 \<Rightarrow> u64 option \<Rightarrow> (string, 't, evm_block list) call" where
  "evm_get_blocks ed rpc start_block end_block =
     join_calls (map (evm_get_block ed rpc) (inclusive_range start_block (case end_block of None \<Rightarrow> start_block | Some e \<Rightarrow> e)))"

section \<open>Fetching a range\<close>

text \<open>The block a node gives for a number.\<close>

definition node_block :: "evm_decoders \<Rightarrow> (string \<Rightarrow> json option \<Rightarrow> 'e + json) \<Rightarrow> u64 \<Rightarrow> string + evm_block" where
  "node_block ed node n = res_bind (map_sum (\<lambda>_. ''Failed to get block: '' @ show_word n) id
     (node ''eth_getBlockByNumber'' (Some (JArray [JString (hex_number n), JBool True])))) (evm_read_block ed)"

lemma evm_get_block_node: "evm_get_block ed (node_transport node) n = answer (node_block ed node n)"
  by (simp add: evm_get_block_def node_block_def)

lemma evm_get_blocks_node:
  "evm_get_blocks ed (node_transport node) s e t =
     Some (collect_results (map (node_block ed node) (inclusive_range s (case e of None \<Rightarrow> s | Some e \<Rightarrow> e))), t)"
proof -
  have eq: "evm_get_block ed (node_transport node) = (\<lambda>n. answer (node_block ed node n))"
    by (rule ext) (rule evm_get_block_node)
  show ?thesis unfolding evm_get_blocks_def eq join_answers by (simp add: answer_def)
qed

interpretation evm_range: range_fetch "evm_get_blocks ed (node_transport node)" "node_block ed node"
  for ed :: evm_decoders and node :: "string \<Rightarrow> json option \<Rightarrow> 'e + json"
  by unfold_locales (simp_all add: evm_get_blocks_node)

text \<open>A range is fetched whole or not at all: if the node has every block of the range, the
  client gives them in ascending order of their numbers; if one is missing or unreadable, it gives
  the error of one of these and no block at all.\<close>

lemma evm_blocks_all_or_nothing:
  "(\<exists>blocks. evm_get_blocks ed (node_transport node) s (Some e) t = Some (Inr blocks, t)
      \<and> map Inr blocks = map (node_block ed node) (inclusive_range s e)) \<or>
   (\<exists>msg n. evm_get_blocks ed (node_transport node) s (Some e) t = Some (Inl msg, t)
      \<and> n \<in> {s..e} \<and> node_block ed node n = Inl msg)"
proof (cases "s \<le> e")
  case True
  then show ?thesis by (rule evm_range.whole_or_error)
next
  case False
  then have "set (inclusive_range s e) = {}" by (simp add: set_inclusive_range)
  then show ?thesis by (simp add: evm_get_blocks_node)
qed

end
