(* ===== verification/Midnight_Client.thy ===== *)
theory Midnight_Client imports Rpc_Client Evm_Client begin

text \<open>
  The client of Midnight (src/src/services/blockchain/clients/midnight/client.rs). The JSON
  parser, the deserialisation of blocks and events, the hash type of the Substrate library and
  its events at a block are parameters. An error is its context, or its text.
\<close>

record midnight_decoders =
  nd_json :: "string \<Rightarrow> json option"
  nd_block :: "json \<Rightarrow> mid_block option"
  nd_event :: "json \<Rightarrow> mid_event"
  nd_h256 :: "string \<Rightarrow> byte list option"
  nd_hex :: "byte list \<Rightarrow> string"

definition missing_result :: string where "missing_result = ''Missing 'result' field''"

definition mid_get_latest_block_number :: "('e, 't) transport \<Rightarrow> (string, 't, u64) call" where
  "mid_get_latest_block_number rpc =
     call_bind (call_then (call_context ''Failed to get latest block number'' (rpc ''chain_getFinalisedHead'' None))
         (\<lambda>response. require missing_result (get_str ''result'' response)))
       (\<lambda>hash. call_then (call_context ''Failed to get latest block number'' (rpc ''chain_getHeader'' (Some (JArray [JString hash]))))
         (\<lambda>response. res_bind (require ''Missing block number in response''
             (Option.bind (json_get ''result'' response) (get_str ''number'')))
           (\<lambda>hex_str. require ''Failed to parse block number'' (u64_from_hex (trim_0x hex_str)))))"

definition mid_get_block_hash :: "('e, 't) transport \<Rightarrow> u64 \<Rightarrow> (string, 't, string) call" where
  "mid_get_block_hash rpc n =
     call_then (call_context (''Failed to get block hash for: '' @ show_word n) (rpc ''chain_getBlockHash'' (Some (JArray [JString (hex_number n)]))))
       (\<lambda>response. require missing_result (get_str ''result'' response))"

definition mid_read_block :: "midnight_decoders \<Rightarrow> json \<Rightarrow> string + mid_block" where
  "mid_read_block nd response =
     res_bind (require missing_result (json_get ''result'' response)) (\<lambda>block_data.
     res_bind (require ''Result is not a string'' (json_as_str block_data)) (\<lambda>s.
     res_bind (require ''Failed to parse block JSON string'' (nd_json nd s)) (\<lambda>block_value.
       if block_value = JNull then Inl ''Block not found'' else require ''Failed to parse block'' (nd_block nd block_value))))"

definition mid_get_block :: "midnight_decoders \<Rightarrow> ('e, 't) transport \<Rightarrow> u64 \<Rightarrow> (string, 't, mid_block) call" where
  "mid_get_block nd rpc n = call_bind (mid_get_block_hash rpc n)
     (\<lambda>hash. call_then (call_context (''Failed to get block: '' @ show_word n) (rpc ''midnight_jsonBlock'' (Some (JArray [JString hash]))))
       (mid_read_block nd))"

definition mid_invalid_range :: "u64 \<Rightarrow> u64 \<Rightarrow> string" where
  "mid_invalid_range s e = ''start_block '' @ show_word s @ '' cannot be greater than end_block '' @ show_word e"

definition mid_get_blocks :: "midnight_decoders \<Rightarrow> ('e, 't) transport \<Rightarrow> u64 \<Rightarrow> u64 option \<Rightarrow> (string, 't, mid_block list) call" where
  "mid_get_blocks nd rpc start_block end_block =
     (let e = (case end_block of None \<Rightarrow> start_block | Some e \<Rightarrow> e) in
      if e < start_block then answer (Inl (mid_invalid_range start_block e))
      else join_calls (map (mid_get_block nd rpc) (inclusive_range start_block e)))"

text \<open>The events of a range: the hashes of its blocks, their events from the Substrate client, and
  their decoding by the node; each step for all blocks before the next.\<close>

definition mid_get_events :: "midnight_decoders \<Rightarrow> ('e \<Rightarrow> string) \<Rightarrow> ('e, 't) transport \<Rightarrow> (byte list \<Rightarrow> (string, 't, byte list) call) \<Rightarrow>
  u64 \<Rightarrow> u64 option \<Rightarrow> (string, 't, mid_event list) call" where
  "mid_get_events nd error_text rpc events_at start_block end_block =
     (let e = (case end_block of None \<Rightarrow> start_block | Some e \<Rightarrow> e) in
      if e < start_block then answer (Inl (mid_invalid_range start_block e))
      else call_bind (join_calls (map (\<lambda>n. call_then (mid_get_block_hash rpc n)
             (\<lambda>h. require ''Failed to parse block hash'' (nd_h256 nd h))) (inclusive_range start_block e))) (\<lambda>hashes.
           call_bind (join_calls (map (\<lambda>h. call_context ''Failed to get events'' (events_at h)) hashes)) (\<lambda>raw_events.
           call_then (join_calls (map (\<lambda>bytes. call_then
                (map_call_error error_text (rpc ''midnight_decodeEvents'' (Some (JArray [JString (nd_hex nd bytes)]))))
                (\<lambda>response. map_sum id (map (nd_event nd)) (require missing_result (get_array ''result'' response)))) raw_events))
             (\<lambda>events. Inr (concat events)))))"

definition mid_get_chain_type :: "('e, 't) transport \<Rightarrow> (string, 't, string) call" where
  "mid_get_chain_type rpc = call_then (call_context ''Failed to get chain type'' (rpc ''system_chain'' None))
     (\<lambda>response. require ''Missing or invalid 'result' field'' (get_str ''result'' response))"

section \<open>Fetching a range\<close>

text \<open>The block a node gives for a number: by its hash.\<close>

definition mid_node_block :: "midnight_decoders \<Rightarrow> (string \<Rightarrow> json option \<Rightarrow> 'e + json) \<Rightarrow> u64 \<Rightarrow> string + mid_block" where
  "mid_node_block nd node n =
     res_bind (res_bind (map_sum (\<lambda>_. ''Failed to get block hash for: '' @ show_word n) id
         (node ''chain_getBlockHash'' (Some (JArray [JString (hex_number n)]))))
       (\<lambda>response. require missing_result (get_str ''result'' response)))
     (\<lambda>hash. res_bind (map_sum (\<lambda>_. ''Failed to get block: '' @ show_word n) id
         (node ''midnight_jsonBlock'' (Some (JArray [JString hash])))) (mid_read_block nd))"

lemma mid_get_block_node: "mid_get_block nd (node_transport node) = (\<lambda>n. answer (mid_node_block nd node n))"
  by (rule ext, rule ext) (simp add: mid_get_block_def mid_get_block_hash_def mid_node_block_def call_bind_def answer_def split: sum.split)

lemma mid_get_blocks_node:
  "s \<le> e \<Longrightarrow> mid_get_blocks nd (node_transport node) s (Some e) t =
     Some (collect_results (map (mid_node_block nd node) (inclusive_range s e)), t)"
  unfolding mid_get_blocks_def mid_get_block_node join_answers by (auto simp: answer_def)

interpretation mid_range: range_fetch "mid_get_blocks nd (node_transport node)" "mid_node_block nd node"
  for nd :: midnight_decoders and node :: "string \<Rightarrow> json option \<Rightarrow> 'e + json"
  by unfold_locales (simp add: mid_get_blocks_node, simp add: mid_get_blocks_def)

text \<open>The blocks of Midnight are fetched by their hashes, all of the range or none: a hash or a
  block that the node does not have makes the request fail with the error of one such block, and a
  range that ends before it starts is an error too.\<close>

lemma midnight_blocks_all_or_nothing:
  "(\<exists>blocks. mid_get_blocks nd (node_transport node) s (Some e) t = Some (Inr blocks, t)
      \<and> s \<le> e \<and> map Inr blocks = map (mid_node_block nd node) (inclusive_range s e)) \<or>
   (\<exists>msg. mid_get_blocks nd (node_transport node) s (Some e) t = Some (Inl msg, t)
      \<and> (e < s \<or> (\<exists>n \<in> {s..e}. mid_node_block nd node n = Inl msg)))"
proof (cases "s \<le> e")
  case True
  from mid_range.whole_or_error [OF this, of nd node t] True show ?thesis by blast
next
  case False
  then show ?thesis by (auto simp: mid_get_blocks_def answer_def not_le)
qed

end
