(* ===== verification/Stellar_Client.thy ===== *)
theory Stellar_Client imports Rpc_Client Stellar_Filter begin

text \<open>
  The client of Stellar (src/src/services/blockchain/clients/stellar): the errors of RPC answers,
  the three paged requests (transactions, events, ledgers), the latest ledger and the fetching of
  a contract's specification. The deserialisation of the items and the ledger keys of the XDR
  library are parameters.
\<close>

section \<open>Errors\<close>

text \<open>An error of the transport is its context.\<close>

datatype xlm_client_error =
    Outside_retention_window u64 string string
  | Xlm_rpc_error string
  | Xlm_response_parse_error string
  | Xlm_invalid_input string
  | Xlm_unexpected_response string
  | Xlm_transport_error string
  | Xlm_other string

definition retention_messages :: "string list" where
  "retention_messages = [''must be within the ledger range'', ''must be between the oldest ledger'']"

definition stellar_error_code :: "json \<Rightarrow> u64" where
  "stellar_error_code e = (case get_i64 ''code'' e of None \<Rightarrow> 0 | Some c \<Rightarrow> c)"

definition rpc_error_message :: "json \<Rightarrow> string" where
  "rpc_error_message e = (case get_str ''message'' e of None \<Rightarrow> ''Unknown RPC error'' | Some m \<Rightarrow> m)"

text \<open>The error of an answer, if it has one.\<close>

definition stellar_rpc_error :: "json \<Rightarrow> u32 \<Rightarrow> u32 \<Rightarrow> string \<Rightarrow> xlm_client_error option" where
  "stellar_rpc_error response start target method_name = (case json_get ''error'' response of
       None \<Rightarrow> None
     | Some e \<Rightarrow>
       (let code = stellar_error_code e; msg = rpc_error_message e in
        if code = - 32600 \<and> (\<exists>m \<in> set retention_messages. sublist m (to_lowercase msg))
        then Some (Outside_retention_window code msg
          (''start_sequence: '' @ show_word start @ '', target_sequence: '' @ show_word target))
        else Some (Xlm_rpc_error (''Stellar RPC request failed for method '' @ CHR 0x27 # method_name @ CHR 0x27 # '': ''
          @ msg @ '' (code '' @ show_int (sint code) @ '')''))))"

section \<open>Paged requests\<close>

text \<open>What the three loops differ in: the method, the field of the items, the parameters of the
  first and of a later request, the items and their ledgers, whether an empty page ends the loop,
  the cursor that ends it, and the texts of errors.\<close>

record 'a paging =
  pg_method :: string
  pg_field :: string
  pg_first :: json
  pg_next :: "string \<Rightarrow> json"
  pg_decode :: "json \<Rightarrow> string + 'a list"
  pg_ledger :: "'a \<Rightarrow> u64"
  pg_stop_on_empty :: bool
  pg_last_cursor :: "string option"
  pg_start :: u64
  pg_target :: u64
  pg_range_text :: string

definition page_limit :: nat where
  "page_limit = 200"

definition page_params :: "'a paging \<Rightarrow> string option \<Rightarrow> json" where
  "page_params pg cursor = (case cursor of None \<Rightarrow> pg_first pg | Some c \<Rightarrow> pg_next pg c)"

text \<open>The items of an answer.\<close>

definition page_items :: "'a paging \<Rightarrow> json \<Rightarrow> xlm_client_error + 'a list" where
  "page_items pg response =
     (case stellar_rpc_error response (ucast (pg_start pg)) (ucast (pg_target pg)) (pg_method pg) of
        Some e \<Rightarrow> Inl e
      | None \<Rightarrow> (case Option.bind (json_get ''result'' response) (json_get (pg_field pg)) of
          None \<Rightarrow> Inl (Xlm_unexpected_response
            (''Unexpected response structure for method '' @ CHR 0x27 # pg_method pg @ [CHR 0x27]))
        | Some raw \<Rightarrow> (case pg_decode pg raw of
            Inl e \<Rightarrow> Inl (Xlm_response_parse_error
              (''Failed to parse '' @ pg_field pg @ '' from response for method '' @ CHR 0x27 # pg_method pg @ CHR 0x27 # '': '' @ e))
          | Inr items \<Rightarrow> Inr items)))"

definition page_cursor :: "json \<Rightarrow> string option" where
  "page_cursor response = json_as_str (json_index ''cursor'' (json_index ''result'' response))"

text \<open>An item beyond the target ends the request; the items before it are kept.\<close>

fun add_items :: "'a paging \<Rightarrow> 'a list \<Rightarrow> 'a list \<Rightarrow> bool \<times> 'a list" where
  "add_items pg acc [] = (False, acc)"
| "add_items pg acc (x # xs) = (if pg_target pg < pg_ledger pg x then (True, acc) else add_items pg (acc @ [x]) xs)"

text \<open>One turn of the loop: the result of the request, or the next cursor and the items so far.\<close>

definition page_turn :: "'a paging \<Rightarrow> 'a list \<Rightarrow> 'e + json \<Rightarrow> (xlm_client_error + 'a list) + string \<times> 'a list" where
  "page_turn pg acc r = (case r of
       Inl _ \<Rightarrow> Inl (Inl (Xlm_transport_error
         (''Failed to '' @ pg_method pg @ '' from Stellar RPC for ledger: '' @ pg_range_text pg)))
     | Inr response \<Rightarrow> (case page_items pg response of
         Inl e \<Rightarrow> Inl (Inl e)
       | Inr items \<Rightarrow>
         if items = [] \<and> pg_stop_on_empty pg then Inl (Inr acc)
         else (case add_items pg acc items of
             (True, acc') \<Rightarrow> Inl (Inr acc')
           | (False, acc') \<Rightarrow> (case page_cursor response of
               None \<Rightarrow> Inl (Inr acc')
             | Some c \<Rightarrow> if pg_last_cursor pg = Some c then Inl (Inr acc') else Inr (c, acc')))))"

partial_function (option) fetch_pages :: "'a paging \<Rightarrow> ('e, 't) transport \<Rightarrow> string option \<Rightarrow> 'a list \<Rightarrow>
  't \<Rightarrow> ((xlm_client_error + 'a list) \<times> 't) option" where
  "fetch_pages pg rpc cursor acc t = (case rpc (pg_method pg) (Some (page_params pg cursor)) t of
       None \<Rightarrow> None
     | Some (r, t') \<Rightarrow> (case page_turn pg acc r of
         Inl result \<Rightarrow> Some (result, t')
       | Inr (c, acc') \<Rightarrow> fetch_pages pg rpc (Some c) acc' t'))"

section \<open>The requests\<close>

definition invalid_range :: "u64 \<Rightarrow> u64 \<Rightarrow> string \<Rightarrow> string" where
  "invalid_range s e what = ''start_'' @ what @ '' '' @ show_word s @ '' cannot be greater than end_'' @ what @ '' '' @ show_word e"

definition pagination_first :: "json" where
  "pagination_first = JObject [(''limit'', json_nat page_limit)]"

definition pagination_next :: "string \<Rightarrow> json" where
  "pagination_next c = JObject [(''cursor'', JString c), (''limit'', json_nat page_limit)]"

definition show_some_end :: "u64 option \<Rightarrow> string" where
  "show_some_end e = (case e of None \<Rightarrow> ''None'' | Some n \<Rightarrow> ''Some('' @ show_word n @ '')'')"

definition transactions_paging :: "(json \<Rightarrow> string + xlm_transaction list) \<Rightarrow> u32 \<Rightarrow> u32 option \<Rightarrow> xlm_transaction paging" where
  "transactions_paging decode s e = \<lparr>
     pg_method = ''getTransactions'', pg_field = ''transactions'',
     pg_first = JObject [(''pagination'', pagination_first), (''startLedger'', json_u64 (ucast s))],
     pg_next = (\<lambda>c. JObject [(''pagination'', pagination_next c)]),
     pg_decode = decode, pg_ledger = (\<lambda>x. ucast (xt_ledger x)),
     pg_stop_on_empty = True, pg_last_cursor = None,
     pg_start = ucast s, pg_target = ucast (case e of None \<Rightarrow> s | Some n \<Rightarrow> n),
     pg_range_text = ''start_sequence: '' @ show_word s @ '', end_sequence: '' @ show_some_end (map_option ucast e)\<rparr>"

definition event_filters :: json where
  "event_filters = JArray [JObject [(''type'', JString ''contract'')]]"

definition events_paging :: "(json \<Rightarrow> string + xlm_event list) \<Rightarrow> u32 \<Rightarrow> u32 option \<Rightarrow> xlm_event paging" where
  "events_paging decode s e = \<lparr>
     pg_method = ''getEvents'', pg_field = ''events'',
     pg_first = JObject [(''filters'', event_filters), (''pagination'', pagination_first), (''startLedger'', json_u64 (ucast s))],
     pg_next = (\<lambda>c. JObject [(''filters'', event_filters), (''pagination'', pagination_next c)]),
     pg_decode = decode, pg_ledger = (\<lambda>x. ucast (xv_ledger x)),
     pg_stop_on_empty = False, pg_last_cursor = None,
     pg_start = ucast s, pg_target = ucast (case e of None \<Rightarrow> s | Some n \<Rightarrow> n),
     pg_range_text = ''start_sequence: '' @ show_word s @ '', end_sequence: '' @ show_some_end (map_option ucast e)\<rparr>"

definition ledgers_paging :: "(json \<Rightarrow> string + xlm_ledger list) \<Rightarrow> u64 \<Rightarrow> u64 option \<Rightarrow> xlm_ledger paging" where
  "ledgers_paging decode s e = \<lparr>
     pg_method = ''getLedgers'', pg_field = ''ledgers'',
     pg_first = JObject [(''pagination'', JObject [(''limit'', json_nat (if e = None then 1 else page_limit))]), (''startLedger'', json_u64 s)],
     pg_next = (\<lambda>c. JObject [(''pagination'', pagination_next c)]),
     pg_decode = decode, pg_ledger = (\<lambda>x. ucast (xg_sequence x)),
     pg_stop_on_empty = True, pg_last_cursor = Some (show_word s),
     pg_start = s, pg_target = (case e of None \<Rightarrow> s | Some n \<Rightarrow> n),
     pg_range_text = ''start_block: '' @ show_word s @ '', end_block: '' @ show_some_end e\<rparr>"

definition xlm_get_transactions :: "xdr_lib \<Rightarrow> envelope_lib \<Rightarrow> (json \<Rightarrow> string + xlm_transaction list) \<Rightarrow> ('e, 't) transport \<Rightarrow>
  u32 \<Rightarrow> u32 option \<Rightarrow> (xlm_client_error, 't, xlm_transaction list) call" where
  "xlm_get_transactions xl el decode rpc s e =
     (if \<exists>n. e = Some n \<and> n < s then answer (Inl (Xlm_invalid_input (invalid_range (ucast s) (ucast (the e)) ''sequence'')))
      else call_then (fetch_pages (transactions_paging decode s e) rpc None [])
        (\<lambda>infos. Inr (map (transaction_from_info xl el) infos)))"

definition xlm_get_events :: "(json \<Rightarrow> string + xlm_event list) \<Rightarrow> ('e, 't) transport \<Rightarrow>
  u32 \<Rightarrow> u32 option \<Rightarrow> (xlm_client_error, 't, xlm_event list) call" where
  "xlm_get_events decode rpc s e =
     (if \<exists>n. e = Some n \<and> n < s then answer (Inl (Xlm_invalid_input (invalid_range (ucast s) (ucast (the e)) ''sequence'')))
      else fetch_pages (events_paging decode s e) rpc None [])"

definition xlm_get_blocks :: "(json \<Rightarrow> string + xlm_ledger list) \<Rightarrow> ('e, 't) transport \<Rightarrow>
  u64 \<Rightarrow> u64 option \<Rightarrow> (xlm_client_error, 't, xlm_ledger list) call" where
  "xlm_get_blocks decode rpc s e =
     (if \<exists>n. e = Some n \<and> n < s then answer (Inl (Xlm_invalid_input (invalid_range s (the e) ''block'')))
      else fetch_pages (ledgers_paging decode s e) rpc None [])"

definition xlm_get_latest_block_number :: "('e, 't) transport \<Rightarrow> (xlm_client_error, 't, u64) call" where
  "xlm_get_latest_block_number rpc =
     call_then (call_context (Xlm_transport_error ''Failed to get latest ledger'') (rpc ''getLatestLedger'' None))
       (\<lambda>response. require (Xlm_other ''Invalid sequence number'')
          (json_as_u64 (json_index ''sequence'' (json_index ''result'' response))))"

section \<open>Contract specifications\<close>

text \<open>Ledger keys and entries as the XDR library has them: the key of an instance is that of a
  contract's data, the encoding to XDR and its base64 text are the library's.\<close>

datatype xlm_executable = Wasm_executable "byte list" | Stellar_asset

datatype xlm_entry_data =
    Contract_data_instance xlm_executable
  | Contract_data_other
  | Contract_code "byte list"
  | Other_entry

record ledger_lib =
  ll_contract_id :: "string \<Rightarrow> string + byte list"
  ll_hash :: "string \<Rightarrow> string + byte list"
  ll_instance_key :: "byte list \<Rightarrow> string"
  ll_code_key :: "byte list \<Rightarrow> string"
  ll_entry_data :: "byte list \<Rightarrow> xlm_entry_data option"

text \<open>The id is upper-cased, its letters being ASCII.\<close>

definition to_uppercase :: "string \<Rightarrow> string" where
  "to_uppercase s = map (\<lambda>c. let n = char_code c in if 97 \<le> n \<and> n \<le> 122 then char_of (n - 32) else c) s"

definition contract_instance_key :: "ledger_lib \<Rightarrow> string \<Rightarrow> string + string" where
  "contract_instance_key ll contract_id = (case ll_contract_id ll (to_uppercase contract_id) of
       Inl err \<Rightarrow> Inl (''Failed to decode contract ID: '' @ err)
     | Inr h \<Rightarrow> Inr (ll_instance_key ll h))"

definition contract_code_key :: "ledger_lib \<Rightarrow> string \<Rightarrow> string + string" where
  "contract_code_key ll wasm_hash = map_sum id (ll_code_key ll) (ll_hash ll wasm_hash)"

definition entry_data :: "xdr_lib \<Rightarrow> ledger_lib \<Rightarrow> string \<Rightarrow> string + xlm_entry_data" where
  "entry_data xl ll s = (case xl_base64 xl s of
       None \<Rightarrow> Inl ''Failed to decode base64''
     | Some bytes \<Rightarrow> require ''Failed to parse contract data XDR'' (ll_entry_data ll bytes))"

definition wasm_code_of_entry :: "xdr_lib \<Rightarrow> ledger_lib \<Rightarrow> string \<Rightarrow> string + string" where
  "wasm_code_of_entry xl ll s = res_bind (entry_data xl ll s) (\<lambda>d. case d of
       Contract_code code \<Rightarrow> Inr (xl_hex xl code) | _ \<Rightarrow> Inl ''XDR value is not a contract code entry'')"

definition wasm_hash_of_entry :: "xdr_lib \<Rightarrow> ledger_lib \<Rightarrow> string \<Rightarrow> string + string" where
  "wasm_hash_of_entry xl ll s = res_bind (entry_data xl ll s) (\<lambda>d. case d of
       Contract_data_instance (Wasm_executable h) \<Rightarrow> Inr (xl_hex xl h)
     | Contract_data_instance Stellar_asset \<Rightarrow> Inl ''Contract executable is not WASM''
     | Contract_data_other \<Rightarrow> Inl ''XDR value is not a contract instance''
     | _ \<Rightarrow> Inl ''XDR value is not a contract data entry'')"

definition other_error :: "string \<Rightarrow> string + 'a \<Rightarrow> xlm_client_error + 'a" where
  "other_error what r = map_sum (\<lambda>e. Xlm_other (what @ '': '' @ e)) id r"

definition xlm_get_entry :: "('e, 't) transport \<Rightarrow> string \<Rightarrow> string \<Rightarrow> string \<Rightarrow> (xlm_client_error, 't, string) call" where
  "xlm_get_entry rpc contract_id key missing = call_then
     (call_context (Xlm_transport_error (''Failed to get contract wasm code for '' @ contract_id))
       (rpc ''getLedgerEntries'' (Some (JObject [(''keys'', JArray [JString key]), (''xdrFormat'', JString ''base64'')]))))
     (\<lambda>response. require (Xlm_other missing)
       (json_as_str (json_index ''xdr'' (json_index_elem 0 (json_index ''entries'' (json_index ''result'' response))))))"

definition xlm_get_contract_spec :: "xdr_lib \<Rightarrow> ledger_lib \<Rightarrow> ('e, 't) transport \<Rightarrow> string \<Rightarrow>
  (xlm_client_error, 't, sc_spec_entry list) call" where
  "xlm_get_contract_spec xl ll rpc contract_id =
     call_bind (answer (other_error ''Failed to get contract instance ledger key'' (contract_instance_key ll contract_id))) (\<lambda>key.
     call_bind (xlm_get_entry rpc contract_id key ''Failed to get contract data XDR'') (\<lambda>data_xdr.
     call_bind (answer (other_error ''Failed to get wasm hash'' (wasm_hash_of_entry xl ll data_xdr))) (\<lambda>wasm_hash.
     call_bind (answer (other_error ''Failed to get contract code ledger key'' (contract_code_key ll wasm_hash))) (\<lambda>code_key.
     call_bind (xlm_get_entry rpc contract_id code_key ''Failed to get contract code XDR'') (\<lambda>code_xdr.
     call_bind (answer (other_error ''Failed to get wasm code'' (wasm_code_of_entry xl ll code_xdr))) (\<lambda>wasm_code.
     answer (other_error ''Failed to get contract spec'' (get_contract_spec xl wasm_code))))))))"

end
