(* ===== verification/Stellar_Client_Properties.thy ===== *)
theory Stellar_Client_Properties imports Stellar_Client Stellar_Values_Properties begin

text \<open>
  Paged requests to Stellar nodes: what they give does not depend on how the node cuts its items
  into pages, and when they do not end.
\<close>

section \<open>Pages\<close>

lemma add_items_eq:
  "add_items pg acc xs = (\<exists>x \<in> set xs. pg_target pg < pg_ledger pg x, acc @ takeWhile (\<lambda>x. pg_ledger pg x \<le> pg_target pg) xs)"
  by (induction xs arbitrary: acc) (auto simp: not_less)

text \<open>A node whose pages, from a cursor on, hold the given items: the pages follow one another by
  their cursors until one has none, has the last one, or is empty where that ends the loop.\<close>

inductive serves :: "'a paging \<Rightarrow> (string option \<Rightarrow> json) \<Rightarrow> string option \<Rightarrow> 'a list \<Rightarrow> bool" for pg node where
  empty_page: "page_items pg (node c) = Inr [] \<Longrightarrow> pg_stop_on_empty pg \<Longrightarrow> serves pg node c []"
| last_page: "page_items pg (node c) = Inr xs \<Longrightarrow> page_cursor (node c) = None \<Longrightarrow> serves pg node c xs"
| end_page: "page_items pg (node c) = Inr xs \<Longrightarrow> page_cursor (node c) = Some c' \<Longrightarrow> pg_last_cursor pg = Some c' \<Longrightarrow>
    serves pg node c xs"
| next_page: "page_items pg (node c) = Inr xs \<Longrightarrow> xs \<noteq> [] \<or> \<not> pg_stop_on_empty pg \<Longrightarrow> page_cursor (node c) = Some c' \<Longrightarrow>
    pg_last_cursor pg \<noteq> Some c' \<Longrightarrow> serves pg node (Some c') ys \<Longrightarrow> serves pg node c (xs @ ys)"

text \<open>A transport over such a node; it answers every cursor as the node does.\<close>

definition answers_pages :: "'a paging \<Rightarrow> (string option \<Rightarrow> json) \<Rightarrow> ('e, 't) transport \<Rightarrow> bool" where
  "answers_pages pg node rpc \<longleftrightarrow> (\<forall>c t. rpc (pg_method pg) (Some (page_params pg c)) t = Some (Inr (node c), t))"

lemma fetch_pages_serves:
  assumes "serves pg node c items" and rpc: "answers_pages pg node rpc"
  shows "fetch_pages pg rpc c acc t = Some (Inr (acc @ takeWhile (\<lambda>x. pg_ledger pg x \<le> pg_target pg) items), t)"
  using assms(1)
proof (induction arbitrary: acc)
  case (empty_page c)
  then show ?case using rpc by (subst fetch_pages.simps) (simp add: answers_pages_def page_turn_def)
next
  case (last_page c xs)
  then show ?case using rpc
    by (subst fetch_pages.simps) (auto simp: answers_pages_def page_turn_def add_items_eq split: bool.split)
next
  case (end_page c xs c')
  then show ?case using rpc
    by (subst fetch_pages.simps) (auto simp: answers_pages_def page_turn_def add_items_eq split: bool.split)
next
  case (next_page c xs c' ys)
  have stop: "\<not> (xs = [] \<and> pg_stop_on_empty pg)" using next_page.hyps by auto
  show ?case
  proof (cases "\<exists>x \<in> set xs. pg_target pg < pg_ledger pg x")
    case True
    then have "takeWhile (\<lambda>x. pg_ledger pg x \<le> pg_target pg) (xs @ ys) = takeWhile (\<lambda>x. pg_ledger pg x \<le> pg_target pg) xs"
      by (auto simp: takeWhile_append not_le)
    then show ?thesis using next_page.hyps rpc stop True
      by (subst fetch_pages.simps) (simp add: answers_pages_def page_turn_def add_items_eq)
  next
    case False
    then have tw: "takeWhile (\<lambda>x. pg_ledger pg x \<le> pg_target pg) (xs @ ys) = xs @ takeWhile (\<lambda>x. pg_ledger pg x \<le> pg_target pg) ys"
      "takeWhile (\<lambda>x. pg_ledger pg x \<le> pg_target pg) xs = xs"
      by (auto simp: takeWhile_append not_less)
    show ?thesis using next_page.hyps next_page.IH rpc stop False
      by (subst fetch_pages.simps) (auto simp: answers_pages_def page_turn_def add_items_eq tw)
  qed
qed

lemma takeWhile_sorted: "sorted (map f xs) \<Longrightarrow> takeWhile (\<lambda>x. f x \<le> (b :: 'b::linorder)) xs = filter (\<lambda>x. f x \<le> b) xs"
  by (induction xs) (auto simp: filter_empty_conv eq_commute [of "[]"] dest: order_trans)

lemma fetch_pages_exact:
  "serves pg node None items \<Longrightarrow> answers_pages pg node rpc \<Longrightarrow> sorted (map (pg_ledger pg) items) \<Longrightarrow>
   fetch_pages pg rpc None [] t = Some (Inr (filter (\<lambda>x. pg_ledger pg x \<le> pg_target pg) items), t)"
  by (simp add: fetch_pages_serves takeWhile_sorted)

lemma page_turn_next:
  assumes "page_items pg r = Inr xs" "\<forall>x \<in> set xs. pg_ledger pg x \<le> pg_target pg" "page_cursor r = Some c"
    and "\<not> pg_stop_on_empty pg" "pg_last_cursor pg = None"
  shows "page_turn pg acc (Inr r) = Inr (c, acc @ takeWhile (\<lambda>x. pg_ledger pg x \<le> pg_target pg) xs)"
  using assms by (auto simp: page_turn_def add_items_eq not_less [symmetric])

text \<open>A node that always has another page, and nothing beyond the target.\<close>

lemma fetch_pages_endless:
  assumes pages: "\<And>c t. I t \<Longrightarrow> \<exists>r t' xs c'. rpc (pg_method pg) (Some (page_params pg c)) t = Some (Inr r, t') \<and> I t'
      \<and> page_items pg r = Inr xs \<and> (\<forall>x \<in> set xs. pg_ledger pg x \<le> pg_target pg) \<and> page_cursor r = Some c'"
    and pg: "\<not> pg_stop_on_empty pg" "pg_last_cursor pg = None"
    and I: "I t"
  shows "fetch_pages pg rpc c acc t = None"
proof -
  have "pg' = pg \<and> rpc' = rpc \<longrightarrow> \<not> I t" if "fetch_pages pg' rpc' c acc t = Some y" for pg' rpc' c acc t y
  proof (rule fetch_pages.raw_induct [where P = "\<lambda>pg' rpc' c acc t y. pg' = pg \<and> rpc' = rpc \<longrightarrow> \<not> I t", OF _ that])
    fix fetch pg' rpc' c acc t y
    assume IH: "\<And>pg' rpc' c acc t y. fetch pg' rpc' c acc t = Some y \<Longrightarrow> pg' = pg \<and> rpc' = rpc \<longrightarrow> \<not> I t"
      and run: "(case rpc' (pg_method pg') (Some (page_params pg' c)) t of None \<Rightarrow> None
        | Some (r, t') \<Rightarrow> (case page_turn pg' acc r of Inl result \<Rightarrow> Some (result, t')
          | Inr (c, acc') \<Rightarrow> fetch pg' rpc' (Some c) acc' t')) = Some y"
    show "pg' = pg \<and> rpc' = rpc \<longrightarrow> \<not> I t"
    proof (intro impI notI)
      assume eq: "pg' = pg \<and> rpc' = rpc" and "I t"
      from pages [OF this(2), of c] obtain r t' xs c' where r: "rpc (pg_method pg) (Some (page_params pg c)) t = Some (Inr r, t')"
        "I t'" "page_items pg r = Inr xs" "\<forall>x \<in> set xs. pg_ledger pg x \<le> pg_target pg" "page_cursor r = Some c'" by blast
      note turn = page_turn_next [OF r(3-5) pg]
      have "pg' = pg" "rpc' = rpc" using eq by auto
      then have "fetch pg rpc (Some c') (acc @ takeWhile (\<lambda>x. pg_ledger pg x \<le> pg_target pg) xs) t' = Some y"
        using run unfolding \<open>pg' = pg\<close> \<open>rpc' = rpc\<close> r(1) by (simp add: turn)
      from IH [OF this] r(2) show False by simp
    qed
  qed
  with I show ?thesis by (cases "fetch_pages pg rpc c acc t") auto
qed

section \<open>Properties of the requests\<close>

lemma ucast_le_u32: "(ucast (a :: u32) :: u64) \<le> ucast b \<longleftrightarrow> a \<le> b"
proof -
  have "uint (ucast x :: u64) = uint x" for x :: u32
  proof -
    have "uint x < 2 ^ LENGTH(32)" by (rule unsigned_less)
    then show ?thesis by (simp add: unsigned_ucast_eq take_bit_eq_mod)
  qed
  then show ?thesis by (simp add: word_le_def)
qed

lemma sorted_ucast: "sorted (map f xs) \<Longrightarrow> sorted (map (\<lambda>x. ucast (f x :: u32) :: u64) xs)"
  by (simp add: sorted_map ucast_le_u32)

text \<open>C22. However a node cuts the transactions of its ledgers, in ledger order, into pages, the
  client gives exactly those of the ledgers up to the requested last one, each decoded: no
  transaction is lost or repeated at a page boundary, and the request ends.\<close>

lemma stellar_transactions_exact:
  assumes "serves (transactions_paging decode s (Some e)) node None infos"
    and "answers_pages (transactions_paging decode s (Some e)) node rpc"
    and "sorted (map xt_ledger infos)" and "s \<le> e"
  shows "xlm_get_transactions xl el decode rpc s (Some e) t =
    Some (Inr (map (transaction_from_info xl el) (filter (\<lambda>x. xt_ledger x \<le> e) infos)), t)"
proof -
  have "fetch_pages (transactions_paging decode s (Some e)) rpc None [] t = Some (Inr (filter (\<lambda>x. xt_ledger x \<le> e) infos), t)"
    using fetch_pages_exact [OF assms(1,2)] sorted_ucast [OF assms(3)] by (simp add: transactions_paging_def ucast_le_u32)
  then show ?thesis using assms(4) by (simp add: xlm_get_transactions_def call_then_def call_bind_def answer_def not_less)
qed

text \<open>A node with four transactions in two pages and an empty one.\<close>

definition sample_info :: "json \<Rightarrow> xlm_transaction option" where
  "sample_info j = map_option (\<lambda>n. \<lparr>xt_status = [], xt_hash = [], xt_application_order = 1, xt_fee_bump = False,
     xt_envelope_xdr = None, xt_envelope_json = None, xt_result_xdr = None, xt_result_json = None,
     xt_result_meta_xdr = None, xt_result_meta_json = None, xt_diagnostic_events_xdr = None, xt_diagnostic_events_json = None,
     xt_ledger = ucast n, xt_ledger_close_time = 0, xt_decoded = None\<rparr>) (json_as_u64 j)"

definition sample_infos :: "json \<Rightarrow> string + xlm_transaction list" where
  "sample_infos j = Inr (case j of JArray xs \<Rightarrow> List.map_filter sample_info xs | _ \<Rightarrow> [])"

definition sample_page :: "u64 list \<Rightarrow> string \<Rightarrow> json" where
  "sample_page ns cursor = JObject [(''result'', JObject [(''cursor'', JString cursor), (''transactions'', JArray (map json_u64 ns))])]"

definition sample_pages :: "string option \<Rightarrow> json" where
  "sample_pages c = (if c = None then sample_page [10, 10, 11] ''a'' else if c = Some ''a'' then sample_page [11, 12] ''b''
     else sample_page [] ''b'')"

definition sample_page_transport :: "(string, unit) transport" where
  "sample_page_transport m p t = Some (Inr (sample_pages (get_str ''cursor'' (json_index ''pagination'' (the p)))), t)"

lemma sample_pages_read:
  "page_items (transactions_paging sample_infos 10 (Some 11)) (sample_page ns c) = Inr (List.map_filter sample_info (map json_u64 ns))"
  "page_cursor (sample_page ns c) = Some c"
  by (simp_all add: page_items_def sample_page_def stellar_rpc_error_def json_get_def transactions_paging_def sample_infos_def
      page_cursor_def json_index_def)

lemma transactions_paging_ends:
  "pg_stop_on_empty (transactions_paging decode s e)" "pg_last_cursor (transactions_paging decode s e) = None"
  by (simp_all add: transactions_paging_def)

lemma sample_pages_serve:
  "serves (transactions_paging sample_infos 10 (Some 11)) sample_pages None
     (List.map_filter sample_info (map json_u64 [10, 10, 11]) @ List.map_filter sample_info (map json_u64 [11, 12]) @ [])"
  by (intro serves.next_page [where c' = "''a''"] serves.next_page [where c' = "''b''"] serves.empty_page)
    (simp_all add: sample_pages_def sample_pages_read transactions_paging_ends sample_info_def json_u64_def map_filter_simps)

lemma stellar_transactions_exact_witness:
  "\<exists>txs. xlm_get_transactions sample_xl \<lparr>el_envelope = (\<lambda>_. None), el_result_ok = (\<lambda>_. False), el_meta_ok = (\<lambda>_. False)\<rparr>
      sample_infos sample_page_transport 10 (Some 11) () = Some (Inr txs, ()) \<and> map xt_ledger txs = [10, 10, 11, 11]"
proof -
  have "answers_pages (transactions_paging sample_infos 10 (Some 11)) sample_pages sample_page_transport"
    unfolding answers_pages_def
  proof (intro allI)
    fix c t
    show "sample_page_transport (pg_method (transactions_paging sample_infos 10 (Some 11)))
        (Some (page_params (transactions_paging sample_infos 10 (Some 11)) c)) t = Some (Inr (sample_pages c), t)"
      by (cases c) (simp_all add: sample_page_transport_def page_params_def transactions_paging_def get_str_def json_get_def
          json_index_def pagination_first_def pagination_next_def)
  qed
  from stellar_transactions_exact [OF sample_pages_serve this, of sample_xl
      "\<lparr>el_envelope = (\<lambda>_. None), el_result_ok = (\<lambda>_. False), el_meta_ok = (\<lambda>_. False)\<rparr>" "()"]
  show ?thesis by (simp add: sample_info_def json_u64_def map_filter_simps transaction_from_info_def)
qed

text \<open>The same for ledgers, over a range of blocks.\<close>

lemma stellar_blocks_exact:
  assumes "serves (ledgers_paging decode s (Some e)) node None ledgers"
    and "answers_pages (ledgers_paging decode s (Some e)) node rpc"
    and "sorted (map xg_sequence ledgers)" and "s \<le> e"
  shows "xlm_get_blocks decode rpc s (Some e) t = Some (Inr (filter (\<lambda>l. ucast (xg_sequence l) \<le> e) ledgers), t)"
proof -
  have "fetch_pages (ledgers_paging decode s (Some e)) rpc None [] t = Some (Inr (filter (\<lambda>l. ucast (xg_sequence l) \<le> e) ledgers), t)"
    using fetch_pages_exact [OF assms(1,2)] sorted_ucast [OF assms(3)] by (simp add: ledgers_paging_def)
  moreover have "\<not> e < s" using assms(4) by simp
  ultimately show ?thesis by (simp only: xlm_get_blocks_def) simp
qed

text \<open>C23. The request for events does not stop at an empty page, unlike the ones for transactions
  and ledgers: as long as the node answers each request with a cursor and no event beyond the last
  requested ledger, as it does at the end of its ledgers, the client asks again and again and
  never returns.\<close>

lemma stellar_events_request_endless:
  assumes "\<forall>c t. I t \<longrightarrow> (\<exists>r t' xs c'. rpc ''getEvents'' (Some (page_params (events_paging decode s e) c)) t = Some (Inr r, t') \<and> I t'
      \<and> page_items (events_paging decode s e) r = Inr xs \<and> (\<forall>x \<in> set xs. xv_ledger x \<le> (case e of None \<Rightarrow> s | Some n \<Rightarrow> n))
      \<and> page_cursor r = Some c')"
    and "\<forall>n. e = Some n \<longrightarrow> s \<le> n" and "I t"
  shows "xlm_get_events decode rpc s e t = None"
proof -
  have "fetch_pages (events_paging decode s e) rpc None [] t = None"
    by (rule fetch_pages_endless [where I = I])
      (use assms(1,3) in \<open>simp_all add: events_paging_def ucast_le_u32\<close>)
  then show ?thesis using assms(2) by (auto simp: xlm_get_events_def not_less)
qed

text \<open>A node without events that always gives a cursor.\<close>

definition quiet_node :: "(string, unit) transport" where
  "quiet_node m p t = Some (Inr (JObject [(''result'', JObject [(''cursor'', JString ''7''), (''events'', JArray [])])]), t)"

lemma stellar_events_request_endless_witness:
  "xlm_get_events (\<lambda>_. Inr []) quiet_node 7 None () = None"
  by (rule stellar_events_request_endless [where I = "\<lambda>_. True"])
    (simp_all add: quiet_node_def page_items_def page_cursor_def stellar_rpc_error_def json_get_def json_index_def events_paging_def)

end
