(* ===== verification/Solana_Client.thy ===== *)
theory Solana_Client imports Rpc_Client Recovery begin

text \<open>
  The client of Solana (src/src/services/blockchain/clients/solana): the errors of RPC answers,
  the reading of blocks and transactions, the search by addresses and the fetching of a range of
  slots. The order in which a hash set is walked and the order in which concurrent requests
  complete are parameters.
\<close>

section \<open>Errors\<close>

datatype sol_client_error =
    Slot_not_available u64 string
  | Block_not_available u64 string
  | Transaction_not_found string
  | Sol_rpc_error string
  | Sol_response_parse_error string
  | Sol_invalid_input string
  | Sol_unexpected_response string
  | Idl_not_found string
  | Instruction_decode_error string
  | Sol_transport_error string
  | Sol_other string

fun is_slot_not_available :: "sol_client_error \<Rightarrow> bool" where
  "is_slot_not_available (Slot_not_available _ _) = True"
| "is_slot_not_available _ = False"

fun is_block_not_available :: "sol_client_error \<Rightarrow> bool" where
  "is_block_not_available (Block_not_available _ _) = True"
| "is_block_not_available _ = False"

definition block_not_available_code :: u64 where "block_not_available_code = - 32004"
definition slot_skipped_code :: u64 where "slot_skipped_code = - 32007"
definition long_term_storage_slot_skipped_code :: u64 where "long_term_storage_slot_skipped_code = - 32009"

definition is_slot_unavailable_error :: "u64 \<Rightarrow> bool" where
  "is_slot_unavailable_error code \<longleftrightarrow>
     code \<in> {block_not_available_code, slot_skipped_code, long_term_storage_slot_skipped_code}"

definition sol_error_code :: "json \<Rightarrow> u64" where
  "sol_error_code e = (case get_i64 ''code'' e of None \<Rightarrow> 0 | Some c \<Rightarrow> c)"

definition sol_error_message :: "json \<Rightarrow> string" where
  "sol_error_message e = (case get_str ''message'' e of None \<Rightarrow> ''Unknown RPC error'' | Some m \<Rightarrow> m)"

definition sol_rpc_error :: "json \<Rightarrow> u64 \<Rightarrow> string \<Rightarrow> sol_client_error option" where
  "sol_rpc_error response slot_number method_name = (case json_get ''error'' response of
       None \<Rightarrow> None
     | Some e \<Rightarrow> (let code = sol_error_code e; msg = sol_error_message e in Some
        (if is_slot_unavailable_error code then Slot_not_available slot_number msg
         else if code = block_not_available_code then Block_not_available slot_number msg
         else Sol_rpc_error (''Solana RPC request failed for method '' @ CHR 0x27 # method_name @ CHR 0x27 # '': ''
           @ msg @ '' (code '' @ show_int (sint code) @ '')''))))"

section \<open>Reading answers\<close>

definition u64_list :: "json option \<Rightarrow> u64 list" where
  "u64_list v = (case Option.bind v json_as_array of None \<Rightarrow> [] | Some xs \<Rightarrow> List.map_filter json_as_u64 xs)"

definition text_list :: "(json \<Rightarrow> string option) \<Rightarrow> json option \<Rightarrow> string list" where
  "text_list f v = (case Option.bind v json_as_array of None \<Rightarrow> [] | Some xs \<Rightarrow> List.map_filter f xs)"

definition u64_or_zero :: "u64 option \<Rightarrow> u64" where
  "u64_or_zero v = (case v of None \<Rightarrow> 0 | Some n \<Rightarrow> n)"

definition parse_parsed_instruction :: "json \<Rightarrow> sol_parsed_instruction" where
  "parse_parsed_instruction p = \<lparr>spi_type = str_or_empty (json_get ''type'' p), spi_info = json_index ''info'' p\<rparr>"

text \<open>Indexes are cut to a byte.\<close>

definition parse_instruction :: "json \<Rightarrow> sol_instruction" where
  "parse_instruction raw = \<lparr>
     si_program_id_index = ucast (u64_or_zero (get_u64 ''programIdIndex'' raw)),
     si_accounts = map ucast (u64_list (json_get ''accounts'' raw)),
     si_data = str_or_empty (json_get ''data'' raw),
     si_parsed = map_option parse_parsed_instruction (json_get ''parsed'' raw),
     si_program = get_str ''program'' raw,
     si_program_id = get_str ''programId'' raw\<rparr>"

definition parse_instructions :: "json option \<Rightarrow> sol_instruction list" where
  "parse_instructions message = (case Option.bind message (get_array ''instructions'') of
       None \<Rightarrow> [] | Some raw \<Rightarrow> map parse_instruction raw)"

definition parse_account_key :: "json \<Rightarrow> string option" where
  "parse_account_key k = (case json_as_str k of Some s \<Rightarrow> Some s | None \<Rightarrow> get_str ''pubkey'' k)"

definition not_null :: "json option \<Rightarrow> json option" where
  "not_null v = (case v of None \<Rightarrow> None | Some e \<Rightarrow> if e = JNull then None else Some e)"

definition parse_meta :: "json \<Rightarrow> sol_meta" where
  "parse_meta m = \<lparr>
     sx_err = not_null (json_get ''err'' m),
     sx_fee = u64_or_zero (get_u64 ''fee'' m),
     sx_pre_balances = u64_list (json_get ''preBalances'' m),
     sx_post_balances = u64_list (json_get ''postBalances'' m),
     sx_pre_token_balances = [],
     sx_post_token_balances = [],
     sx_inner_instructions = [],
     sx_log_messages = text_list json_as_str (json_get ''logMessages'' m),
     sx_compute_units_consumed = get_u64 ''computeUnitsConsumed'' m,
     sx_loaded_addresses = None\<rparr>"

definition parse_single_transaction :: "u64 \<Rightarrow> json \<Rightarrow> sol_transaction option" where
  "parse_single_transaction slot_number raw_tx = (case json_get ''transaction'' raw_tx of
       None \<Rightarrow> None
     | Some transaction \<Rightarrow>
       (let message = json_get ''message'' transaction in Some \<lparr>
          st_signature = str_or_empty (Option.bind (json_get ''signatures'' transaction) (json_elem 0)),
          st_slot = slot_number,
          st_block_time = None,
          st_transaction = \<lparr>
            sm_account_keys = text_list parse_account_key (Option.bind message (json_get ''accountKeys'')),
            sm_recent_blockhash = str_or_empty (Option.bind message (json_get ''recentBlockhash'')),
            sm_instructions = parse_instructions message,
            sm_address_table_lookups = []\<rparr>,
          st_meta = map_option parse_meta (json_get ''meta'' raw_tx)\<rparr>))"

definition parse_transactions_from_block :: "u64 \<Rightarrow> json \<Rightarrow> sol_transaction list" where
  "parse_transactions_from_block slot_number block_result = (case get_array ''transactions'' block_result of
       None \<Rightarrow> [] | Some raw \<Rightarrow> List.map_filter (parse_single_transaction slot_number) raw)"

definition parse_block_response :: "u64 \<Rightarrow> json \<Rightarrow> sol_client_error + sol_block" where
  "parse_block_response slot_number response = (case json_get ''result'' response of
       None \<Rightarrow> Inl (Sol_unexpected_response ''Missing 'result' field in block response'')
     | Some result \<Rightarrow>
       if result = JNull then Inl (Block_not_available slot_number ''Block data is null (slot may have been skipped)'')
       else Inr \<lparr>
         sb_slot = slot_number,
         sb_blockhash = str_or_empty (json_get ''blockhash'' result),
         sb_previous_blockhash = str_or_empty (json_get ''previousBlockhash'' result),
         sb_parent_slot = u64_or_zero (get_u64 ''parentSlot'' result),
         sb_block_time = get_i64 ''blockTime'' result,
         sb_block_height = get_u64 ''blockHeight'' result,
         sb_transactions = parse_transactions_from_block slot_number result\<rparr>)"

section \<open>Requests for blocks\<close>

definition commitment_config :: json where
  "commitment_config = JObject [(''commitment'', JString ''finalized'')]"

definition full_block_config :: json where
  "full_block_config = JObject [(''commitment'', JString ''finalized''), (''encoding'', JString ''json''),
     (''maxSupportedTransactionVersion'', json_nat 0), (''rewards'', JBool True), (''transactionDetails'', JString ''full'')]"

definition sol_get_latest_block_number :: "('e, 't) transport \<Rightarrow> (sol_client_error, 't, u64) call" where
  "sol_get_latest_block_number rpc =
     call_then (call_context (Sol_transport_error ''Failed to get latest slot'') (rpc ''getSlot'' (Some (JArray [commitment_config]))))
       (\<lambda>response. require (Sol_other ''Invalid slot number in response'') (json_as_u64 (json_index ''result'' response)))"

definition sol_get_transactions :: "('e, 't) transport \<Rightarrow> u64 \<Rightarrow> (sol_client_error, 't, sol_transaction list) call" where
  "sol_get_transactions rpc slot_number =
     call_then (call_context (Sol_transport_error (''Failed to get block for slot '' @ show_word slot_number))
         (rpc ''getBlock'' (Some (JArray [json_u64 slot_number, full_block_config]))))
       (\<lambda>response. case sol_rpc_error response slot_number ''getBlock'' of
          Some e \<Rightarrow> Inl e | None \<Rightarrow> map_sum id sb_transactions (parse_block_response slot_number response))"

text \<open>The answer for a slot: a block, none where the slot was skipped or is not available, or an error.\<close>

definition read_slot :: "u64 \<Rightarrow> json \<Rightarrow> sol_client_error + sol_block option" where
  "read_slot slot_number response = (case sol_rpc_error response slot_number ''getBlock'' of
       Some e \<Rightarrow> if is_slot_not_available e \<or> is_block_not_available e then Inr None else Inl e
     | None \<Rightarrow> (case parse_block_response slot_number response of
         Inr b \<Rightarrow> Inr (Some b)
       | Inl e \<Rightarrow> if is_block_not_available e then Inr None else Inl e))"

fun fetch_slots :: "('e, 't) transport \<Rightarrow> u64 list \<Rightarrow> (sol_client_error, 't, sol_block list) call" where
  "fetch_slots rpc [] = answer (Inr [])"
| "fetch_slots rpc (n # ns) =
     call_bind (call_then (call_context (Sol_transport_error (''Failed to fetch block from Solana RPC for slot: '' @ show_word n))
       (rpc ''getBlock'' (Some (JArray [json_u64 n, full_block_config])))) (read_slot n))
     (\<lambda>b. call_then (fetch_slots rpc ns) (\<lambda>bs. Inr (case b of None \<Rightarrow> bs | Some b \<Rightarrow> b # bs)))"

text \<open>The slots of a range: the first one alone, or those the node lists.\<close>

definition list_slots :: "('e, 't) transport \<Rightarrow> u64 \<Rightarrow> u64 \<Rightarrow> (sol_client_error, 't, u64 list) call" where
  "list_slots rpc start target =
     (if start = target then answer (Inr [start])
      else call_then (call_context (Sol_transport_error
            (''Failed to get blocks list from '' @ show_word start @ '' to '' @ show_word target))
          (rpc ''getBlocks'' (Some (JArray [json_u64 start, json_u64 target, commitment_config]))))
        (\<lambda>response. map_sum id (List.map_filter json_as_u64)
           (require (Sol_other ''Invalid blocks list response'') (json_as_array (json_index ''result'' response)))))"

section \<open>Search by addresses\<close>

record signature_info =
  si_signature :: string
  si_slot :: u64
  si_err :: "json option"
  si_block_time :: "u64 option"

definition parse_signature_info :: "json \<Rightarrow> signature_info option" where
  "parse_signature_info item = (case (get_str ''signature'' item, get_u64 ''slot'' item) of
       (Some signature, Some slot_number) \<Rightarrow> Some \<lparr>si_signature = signature, si_slot = slot_number,
          si_err = not_null (json_get ''err'' item), si_block_time = get_i64 ''blockTime'' item\<rparr>
     | _ \<Rightarrow> None)"

definition signatures_config :: "nat option \<Rightarrow> u64 option \<Rightarrow> string option \<Rightarrow> json" where
  "signatures_config limit min_slot until_signature = JObject
     ([(''commitment'', JString ''finalized''), (''limit'', json_nat (case limit of None \<Rightarrow> 1000 | Some n \<Rightarrow> n))]
      @ (case min_slot of None \<Rightarrow> [] | Some n \<Rightarrow> [(''minContextSlot'', json_u64 n)])
      @ (case until_signature of None \<Rightarrow> [] | Some s \<Rightarrow> [(''until'', JString s)]))"

definition get_signatures_for_address :: "('e, 't) transport \<Rightarrow> string \<Rightarrow> nat option \<Rightarrow> u64 option \<Rightarrow> string option \<Rightarrow>
  (sol_client_error, 't, signature_info list) call" where
  "get_signatures_for_address rpc address limit min_slot until_signature =
     call_then (call_context (Sol_transport_error (''Failed to get signatures for address '' @ address))
         (rpc ''getSignaturesForAddress'' (Some (JArray [JString address, signatures_config limit min_slot until_signature]))))
       (\<lambda>response. map_sum id (List.map_filter parse_signature_info)
          (require (Sol_other ''Invalid response structure'') (get_array ''result'' response)))"

definition signature_page_limit :: nat where "signature_page_limit = 1000"
definition max_signatures :: nat where "max_signatures = 100000"

definition in_slots :: "u64 \<Rightarrow> u64 \<Rightarrow> signature_info \<Rightarrow> bool" where
  "in_slots start_slot end_slot x \<longleftrightarrow> start_slot \<le> si_slot x \<and> si_slot x \<le> end_slot"

text \<open>One batch: the signatures so far with those of the batch, and the one to go on from, if the
  loop goes on.\<close>

definition signature_turn :: "u64 \<Rightarrow> u64 \<Rightarrow> signature_info list \<Rightarrow> signature_info list \<Rightarrow> signature_info list \<times> string option" where
  "signature_turn start_slot end_slot acc batch =
     (if batch = [] then (acc, None)
      else let filtered = filter (in_slots start_slot end_slot) batch; acc' = acc @ filtered in
        (acc', if length filtered < signature_page_limit \<or> max_signatures \<le> length acc' then None
               else Some (si_signature (last filtered))))"

lemma signature_turn_progress:
  "signature_turn s e acc batch = (acc', Some u) \<Longrightarrow> max_signatures - length acc' < max_signatures - length acc"
  by (auto simp: signature_turn_def Let_def max_signatures_def signature_page_limit_def split: if_splits)

function collect_signatures :: "('e, 't) transport \<Rightarrow> string \<Rightarrow> u64 \<Rightarrow> u64 \<Rightarrow> string option \<Rightarrow> signature_info list \<Rightarrow>
  't \<Rightarrow> ((sol_client_error + signature_info list) \<times> 't) option" where
  "collect_signatures rpc address start_slot end_slot until_signature acc t =
     (case get_signatures_for_address rpc address (Some signature_page_limit) (Some start_slot) until_signature t of
        None \<Rightarrow> None
      | Some (Inl e, t') \<Rightarrow> Some (Inl e, t')
      | Some (Inr batch, t') \<Rightarrow> (case signature_turn start_slot end_slot acc batch of
          (acc', None) \<Rightarrow> Some (Inr acc', t')
        | (acc', Some u) \<Rightarrow> collect_signatures rpc address start_slot end_slot (Some u) acc' t'))"
  by pat_completeness auto
termination
  by (relation "measure (\<lambda>(_, _, _, _, _, acc, _). max_signatures - length acc)") (auto dest: signature_turn_progress [OF sym])

declare collect_signatures.simps [simp del]

definition get_all_signatures_for_address :: "('e, 't) transport \<Rightarrow> string \<Rightarrow> u64 \<Rightarrow> u64 \<Rightarrow>
  (sol_client_error, 't, signature_info list) call" where
  "get_all_signatures_for_address rpc address start_slot end_slot = collect_signatures rpc address start_slot end_slot None []"

definition transaction_config :: json where
  "transaction_config = JObject [(''commitment'', JString ''finalized''), (''encoding'', JString ''json''),
     (''maxSupportedTransactionVersion'', json_nat 0)]"

definition read_transaction :: "json \<Rightarrow> sol_transaction option" where
  "read_transaction response = (case not_null (json_get ''result'' response) of
       None \<Rightarrow> None
     | Some result \<Rightarrow> map_option (\<lambda>tx. case get_i64 ''blockTime'' result of None \<Rightarrow> tx | Some bt \<Rightarrow> tx\<lparr>st_block_time := Some bt\<rparr>)
         (parse_single_transaction (u64_or_zero (get_u64 ''slot'' result))
            (JObject [(''meta'', json_index ''meta'' result), (''transaction'', json_index ''transaction'' result)])))"

definition sol_get_transaction :: "('e, 't) transport \<Rightarrow> string \<Rightarrow> (sol_client_error, 't, sol_transaction option) call" where
  "sol_get_transaction rpc signature =
     call_then (call_context (Sol_transport_error (''Failed to get transaction '' @ signature))
         (rpc ''getTransaction'' (Some (JArray [JString signature, transaction_config]))))
       (\<lambda>response. Inr (read_transaction response))"

record sol_order =
  so_walk :: "string list \<Rightarrow> string list"
  so_arrival :: "sol_transaction list \<Rightarrow> sol_transaction list"

fun signatures_of_addresses :: "('e, 't) transport \<Rightarrow> string list \<Rightarrow> u64 \<Rightarrow> u64 \<Rightarrow> (sol_client_error, 't, string list) call" where
  "signatures_of_addresses rpc [] s e = answer (Inr [])"
| "signatures_of_addresses rpc (a # as') s e =
     call_bind (get_all_signatures_for_address rpc a s e)
       (\<lambda>sigs. call_then (signatures_of_addresses rpc as' s e) (\<lambda>rest. Inr (map si_signature sigs @ rest)))"

definition found_transactions :: "(sol_client_error + sol_transaction option) list \<Rightarrow> sol_transaction list" where
  "found_transactions rs = List.map_filter (\<lambda>r. case r of Inr (Some tx) \<Rightarrow> Some tx | _ \<Rightarrow> None) rs"

definition fetch_transactions :: "sol_order \<Rightarrow> ('e, 't) transport \<Rightarrow> string list \<Rightarrow> (sol_client_error, 't, sol_transaction list) call" where
  "fetch_transactions ord rpc signatures t =
     map_option (map_prod (\<lambda>rs. Inr (so_arrival ord (found_transactions rs))) id)
       (call_all (map (sol_get_transaction rpc) (so_walk ord (remdups signatures))) t)"

definition get_transactions_for_addresses :: "sol_order \<Rightarrow> ('e, 't) transport \<Rightarrow> string list \<Rightarrow> u64 \<Rightarrow> u64 option \<Rightarrow>
  (sol_client_error, 't, sol_transaction list) call" where
  "get_transactions_for_addresses ord rpc addresses start_slot end_slot =
     (if addresses = [] then answer (Inr [])
      else call_bind (signatures_of_addresses rpc addresses start_slot (case end_slot of None \<Rightarrow> start_slot | Some e \<Rightarrow> e))
        (fetch_transactions ord rpc))"

text \<open>One block for each slot with a transaction, in the order of the slots.\<close>

definition virtual_block :: "u64 \<Rightarrow> sol_transaction list \<Rightarrow> sol_block" where
  "virtual_block slot_number txs = \<lparr>
     sb_slot = slot_number, sb_blockhash = [], sb_previous_blockhash = [],
     sb_parent_slot = saturating_sub slot_number 1,
     sb_block_time = (case txs of [] \<Rightarrow> None | tx # _ \<Rightarrow> st_block_time tx),
     sb_block_height = None, sb_transactions = txs\<rparr>"

definition virtual_blocks :: "sol_transaction list \<Rightarrow> sol_block list" where
  "virtual_blocks txs = map (\<lambda>n. virtual_block n (filter (\<lambda>tx. st_slot tx = n) txs)) (sort (remdups (map st_slot txs)))"

definition sol_get_blocks_for_addresses :: "sol_order \<Rightarrow> ('e, 't) transport \<Rightarrow> string list \<Rightarrow> u64 \<Rightarrow> u64 option \<Rightarrow>
  (sol_client_error, 't, sol_block list) call" where
  "sol_get_blocks_for_addresses ord rpc addresses start_slot end_slot =
     call_then (get_transactions_for_addresses ord rpc addresses start_slot end_slot) (\<lambda>txs. Inr (virtual_blocks txs))"

section \<open>Blocks of a range\<close>

definition sol_get_blocks :: "sol_order \<Rightarrow> ('e, 't) transport \<Rightarrow> string list \<Rightarrow> u64 \<Rightarrow> u64 option \<Rightarrow>
  (sol_client_error, 't, sol_block list) call" where
  "sol_get_blocks ord rpc monitored start_block end_block =
     (if monitored \<noteq> [] then sol_get_blocks_for_addresses ord rpc monitored start_block end_block
      else if \<exists>n. end_block = Some n \<and> n < start_block then answer (Inl (Sol_invalid_input
        (''start_block '' @ show_word start_block @ '' cannot be greater than end_block '' @ show_word (the end_block))))
      else call_bind (list_slots rpc start_block (case end_block of None \<Rightarrow> start_block | Some e \<Rightarrow> e)) (fetch_slots rpc))"

section \<open>Accounts\<close>

definition account_config :: json where
  "account_config = JObject [(''commitment'', JString ''finalized''), (''encoding'', JString ''jsonParsed'')]"

definition sol_get_account_info :: "('e, 't) transport \<Rightarrow> string \<Rightarrow> (sol_client_error, 't, json) call" where
  "sol_get_account_info rpc pubkey =
     call_then (call_context (Sol_transport_error (''Failed to get account info for '' @ pubkey))
         (rpc ''getAccountInfo'' (Some (JArray [JString pubkey, account_config]))))
       (\<lambda>response. require (Sol_other ''Invalid response structure'') (json_get ''result'' response))"

definition sol_get_program_accounts :: "('e, 't) transport \<Rightarrow> string \<Rightarrow> (sol_client_error, 't, json list) call" where
  "sol_get_program_accounts rpc program_id =
     call_then (call_context (Sol_transport_error (''Failed to get program accounts for '' @ program_id))
         (rpc ''getProgramAccounts'' (Some (JArray [JString program_id, account_config]))))
       (\<lambda>response. require (Sol_other ''Invalid response structure'') (get_array ''result'' response))"

end
