(* ===== verification/Solana_Client_Properties.thy ===== *)
theory Solana_Client_Properties imports Solana_Client begin

text \<open>
  What the requests of the Solana client give: the signatures of an address, the blocks of a
  range of slots, and the blocks made of the transactions of monitored addresses.
\<close>

section \<open>The signatures of an address\<close>

definition json_i64 :: "u64 \<Rightarrow> json" where
  "json_i64 n = JNumber (if n \<le> 9223372036854775807 then PosInt n else NegInt n)"

definition signature_json :: "signature_info \<Rightarrow> json" where
  "signature_json x = JObject [
     (''blockTime'', case si_block_time x of None \<Rightarrow> JNull | Some n \<Rightarrow> json_i64 n),
     (''err'', case si_err x of None \<Rightarrow> JNull | Some e \<Rightarrow> e),
     (''signature'', JString (si_signature x)), (''slot'', json_u64 (si_slot x))]"

lemma parse_signature_json: "si_err x \<noteq> Some JNull \<Longrightarrow> parse_signature_info (signature_json x) = Some x"
  by (cases x) (auto simp: parse_signature_info_def signature_json_def get_str_def get_u64_def get_i64_def json_get_def
      json_u64_def json_i64_def not_null_def split: option.splits)

lemma parse_signatures_json:
  "\<forall>x \<in> set xs. si_err x \<noteq> Some JNull \<Longrightarrow> List.map_filter parse_signature_info (map signature_json xs) = xs"
  by (induction xs) (simp_all add: parse_signature_json map_filter_simps)

text \<open>The documented answer of a node: the signatures of the address, the newest first, those after
  \<open>until\<close>, and at most \<open>limit\<close> of them.\<close>

definition signatures_page :: "nat \<Rightarrow> string option \<Rightarrow> signature_info list \<Rightarrow> signature_info list" where
  "signatures_page limit until_signature history =
     take limit (takeWhile (\<lambda>x. Some (si_signature x) \<noteq> until_signature) history)"

definition serves_history :: "('e, 't) transport \<Rightarrow> string \<Rightarrow> u64 \<Rightarrow> signature_info list \<Rightarrow> bool" where
  "serves_history rpc address start_slot history \<longleftrightarrow> (\<forall>u t.
     rpc ''getSignaturesForAddress'' (Some (JArray [JString address, signatures_config (Some signature_page_limit) (Some start_slot) u])) t =
       Some (Inr (JObject [(''result'', JArray (map signature_json (signatures_page signature_page_limit u history)))]), t))"

lemma get_signatures_served:
  assumes "serves_history rpc address s history" "\<forall>x \<in> set history. si_err x \<noteq> Some JNull"
  shows "get_signatures_for_address rpc address (Some signature_page_limit) (Some s) u t =
    Some (Inr (signatures_page signature_page_limit u history), t)"
proof -
  have "set (signatures_page signature_page_limit u history) \<subseteq> set history"
    by (auto simp: signatures_page_def dest: in_set_takeD set_takeWhileD)
  then have "List.map_filter parse_signature_info (map signature_json (signatures_page signature_page_limit u history))
      = signatures_page signature_page_limit u history"
    using assms(2) by (intro parse_signatures_json) blast
  then show ?thesis using assms(1)
    by (simp add: get_signatures_for_address_def serves_history_def call_then_def call_bind_def call_context_def map_call_error_def
        get_array_def json_get_def require_def answer_def)
qed

lemma takeWhile_until:
  "distinct (map f xs) \<Longrightarrow> n < length xs \<Longrightarrow> takeWhile (\<lambda>x. f x \<noteq> f (xs ! n)) xs = take n xs"
proof (intro takeWhile_eq_take_P_nth)
  fix i assume "distinct (map f xs)" "n < length xs" "i < n" "i < length xs"
  then show "f (xs ! i) \<noteq> f (xs ! n)" using nth_eq_iff_index_eq [of "map f xs" i n] by simp
qed auto

text \<open>A first page all of whose thousand entries are in the range, and the page that follows: the
  search for the older ones ends before the oldest of the first page, so it brings the first page
  again.\<close>

lemma full_filter: "length xs \<le> n \<Longrightarrow> \<not> length (filter P xs) < n \<Longrightarrow> length xs = n \<and> filter P xs = xs"
proof -
  assume len: "length xs \<le> n" "\<not> length (filter P xs) < n"
  then have "\<not> length (filter P xs) < length xs" by linarith
  then have "\<forall>x \<in> set xs. P x" using length_filter_less [of _ xs P] by blast
  then have all: "filter P xs = xs" by (simp add: filter_id_conv)
  then show ?thesis using len by simp
qed

lemma full_first_page:
  assumes "\<not> length (filter P (take n history)) < n"
  shows "length (take n history) = n" "filter P (take n history) = take n history" "n \<le> length history"
    "filter P (take (n - 1) history) = take (n - 1) history" "0 < n \<Longrightarrow> last (take n history) = history ! (n - 1)"
proof -
  show full: "length (take n history) = n" "filter P (take n history) = take n history"
    using full_filter [of "take n history" n P] assms by simp_all
  then show long: "n \<le> length history" by simp
  have "set (take (n - 1) history) \<subseteq> set (take n history)" by (rule set_take_subset_set_take) simp
  then show "filter P (take (n - 1) history) = take (n - 1) history" using full(2) by (auto simp: filter_id_conv)
  show "last (take n history) = history ! (n - 1)" if "0 < n"
    using that long by (subst last_conv_nth) auto
qed

text \<open>C18. Of an address's signatures the client finds those of the requested slots among the newest
  thousand, and no other: its second request asks for the signatures newer than the oldest one it
  has, which it has already, so older ones are never reached, however many there are.\<close>

lemma solana_newest_thousand:
  assumes "serves_history rpc address s history"
    and "distinct (map si_signature history)" and "\<forall>x \<in> set history. si_err x \<noteq> Some JNull"
  shows "\<exists>sigs. get_all_signatures_for_address rpc address s e t = Some (Inr sigs, t)
    \<and> set sigs = {x \<in> set (take 1000 history). s \<le> si_slot x \<and> si_slot x \<le> e}"
proof -
  note served = get_signatures_served [OF assms(1,3)]
  define first where "first = take 1000 history"
  have page1: "signatures_page signature_page_limit None history = first"
    by (simp add: signatures_page_def signature_page_limit_def first_def takeWhile_eq_all_conv [THEN iffD2])
  have served1: "get_signatures_for_address rpc address (Some 1000) (Some s) None t = Some (Inr first, t)"
    using served [of None t] unfolding page1 by (simp add: signature_page_limit_def)
  show ?thesis
  proof (cases "length (filter (in_slots s e) first) < 1000")
    case True
    then have "get_all_signatures_for_address rpc address s e t = Some (Inr (filter (in_slots s e) first), t)"
      unfolding get_all_signatures_for_address_def
      by (subst collect_signatures.simps) (auto simp: served1 signature_turn_def Let_def signature_page_limit_def)
    then show ?thesis by (auto simp: in_slots_def first_def)
  next
    case False
    note full = full_first_page [of "in_slots s e" 1000 history, folded first_def, OF False, simplified]
    have page2: "signatures_page signature_page_limit (Some (si_signature (history ! 999))) history = take 999 history"
      using takeWhile_until [OF assms(2), of 999] full(3) by (simp add: signatures_page_def signature_page_limit_def)
    have served2: "get_signatures_for_address rpc address (Some 1000) (Some s) (Some (si_signature (history ! 999))) t = Some (Inr (take 999 history), t)"
      using served [of "Some (si_signature (history ! 999))" t] unfolding page2 by (simp add: signature_page_limit_def)
    have nonempty: "first \<noteq> []" "take 999 history \<noteq> []" using full(1,3) by auto
    then have "collect_signatures rpc address s e (Some (si_signature (history ! 999))) first t = Some (Inr (first @ take 999 history), t)"
      by (subst collect_signatures.simps) (auto simp: served2 signature_turn_def Let_def signature_page_limit_def full(4) min_def)
    then have "get_all_signatures_for_address rpc address s e t = Some (Inr (first @ take 999 history), t)"
      unfolding get_all_signatures_for_address_def using full nonempty(1)
      by (subst collect_signatures.simps)
        (simp add: served1 signature_turn_def Let_def signature_page_limit_def max_signatures_def)
    moreover have "set (take 999 history) \<subseteq> set first" unfolding first_def by (rule set_take_subset_set_take) simp
    moreover have "\<forall>x \<in> set first. in_slots s e x" using full(2) by (auto simp: filter_id_conv)
    ultimately show ?thesis by (intro exI [of _ "first @ take 999 history"]) (auto simp: in_slots_def first_def)
  qed
qed

text \<open>An address with twelve hundred signatures, one for each slot.\<close>

definition sample_history :: "signature_info list" where
  "sample_history = map (\<lambda>i. \<lparr>si_signature = replicate i (CHR ''x''), si_slot = word_of_nat (1200 - i), si_err = None,
     si_block_time = None\<rparr>) [0..<1200]"

definition sample_history_transport :: "(string, unit) transport" where
  "sample_history_transport m p t = Some (Inr (case p of
     Some (JArray [_, config]) \<Rightarrow> JObject [(''result'', JArray (map signature_json
       (signatures_page signature_page_limit (get_str ''until'' config) sample_history)))]
   | _ \<Rightarrow> JNull), t)"

lemma solana_newest_thousand_witness:
  "\<exists>sigs. get_all_signatures_for_address sample_history_transport ''address'' 1 1200 () = Some (Inr sigs, ())
    \<and> set sigs = {x \<in> set (take 1000 sample_history). 1 \<le> si_slot x \<and> si_slot x \<le> 1200}"
proof (rule solana_newest_thousand)
  show "serves_history sample_history_transport ''address'' 1 sample_history"
    unfolding serves_history_def
  proof (intro allI)
    fix u :: "string option" and t :: unit
    have "get_str ''until'' (signatures_config (Some signature_page_limit) (Some 1) u) = u"
      by (cases u) (simp_all add: get_str_def json_get_def signatures_config_def)
    then show "sample_history_transport ''getSignaturesForAddress''
        (Some (JArray [JString ''address'', signatures_config (Some signature_page_limit) (Some 1) u])) t =
      Some (Inr (JObject [(''result'', JArray (map signature_json (signatures_page signature_page_limit u sample_history)))]), t)"
      by (simp add: sample_history_transport_def)
  qed
  have "inj_on (\<lambda>i. replicate i (CHR ''x'')) A" for A by (rule inj_onI) (metis length_replicate)
  then show "distinct (map si_signature sample_history)"
    by (simp add: sample_history_def comp_def distinct_map del: upt.simps upt_rec_numeral)
  show "\<forall>x \<in> set sample_history. si_err x \<noteq> Some JNull" by (simp add: sample_history_def del: upt_rec_numeral)
qed

section \<open>Transactions of addresses\<close>

lemma call_all_failures:
  "call_all (map (\<lambda>x. answer (f x)) xs) t = Some (map f xs, t)" by (rule call_all_answers)

text \<open>The transaction a node without state gives for a signature.\<close>

definition node_transaction :: "(string \<Rightarrow> json option \<Rightarrow> 'e + json) \<Rightarrow> string \<Rightarrow> sol_transaction option" where
  "node_transaction node signature = (case node ''getTransaction'' (Some (JArray [JString signature, transaction_config])) of
     Inl _ \<Rightarrow> None | Inr response \<Rightarrow> read_transaction response)"

text \<open>C20. The transactions of a set of signatures are those the node gives; a request that fails is
  dropped like a transaction that does not exist, and the result is never an error, so the caller
  cannot tell a complete result from one with holes.\<close>

lemma solana_failed_requests_dropped:
  "fetch_transactions ord (node_transport node) signatures t =
     Some (Inr (so_arrival ord (List.map_filter (node_transaction node) (so_walk ord (remdups signatures)))), t)"
proof -
  have get: "sol_get_transaction (node_transport node) = (\<lambda>sg. answer (case node ''getTransaction''
      (Some (JArray [JString sg, transaction_config])) of
        Inl _ \<Rightarrow> Inl (Sol_transport_error (''Failed to get transaction '' @ sg)) | Inr r \<Rightarrow> Inr (read_transaction r)))"
    by (rule ext) (simp add: sol_get_transaction_def split: sum.split)
  have "found_transactions (map (\<lambda>sg. case node ''getTransaction'' (Some (JArray [JString sg, transaction_config])) of
        Inl _ \<Rightarrow> Inl (Sol_transport_error (''Failed to get transaction '' @ sg)) | Inr r \<Rightarrow> Inr (read_transaction r)) xs)
      = List.map_filter (node_transaction node) xs" for xs
    by (induction xs) (auto simp: found_transactions_def node_transaction_def map_filter_simps split: sum.splits option.splits)
  then show ?thesis by (simp add: fetch_transactions_def get call_all_answers)
qed

lemma virtual_block_slots: "map sb_slot (virtual_blocks txs) = sorted_list_of_set (st_slot ` set txs)"
  by (simp add: virtual_blocks_def virtual_block_def comp_def sorted_list_of_set_sort_remdups flip: set_map)

lemma set_virtual_block_numbers: "set (List.map_filter sol_block_number (virtual_blocks txs)) = st_slot ` set txs"
proof -
  have "List.map_filter sol_block_number (virtual_blocks txs) = map sb_slot (virtual_blocks txs)"
    by (simp add: sol_block_number_def map_filter_def comp_def)
  then show ?thesis by (simp add: virtual_block_slots)
qed

text \<open>C19. The blocks made of monitored transactions are one for each slot with one, in ascending
  order, and hold every transaction of their slot; the watcher, which knows only these, counts as
  missed every slot between them in which nothing monitored happened.\<close>

lemma solana_quiet_slots_missed:
  "map (\<lambda>b. (sb_slot b, sb_transactions b)) (virtual_blocks txs) =
     map (\<lambda>n. (n, filter (\<lambda>tx. st_slot tx = n) txs)) (sorted_list_of_set (st_slot ` set txs)) \<and>
   set (detect_missing_blocks sol_block_number (virtual_blocks txs)) =
     {n. (\<exists>a \<in> set txs. st_slot a < n) \<and> (\<exists>b \<in> set txs. n < st_slot b) \<and> n \<notin> st_slot ` set txs}"
proof
  show "map (\<lambda>b. (sb_slot b, sb_transactions b)) (virtual_blocks txs) =
      map (\<lambda>n. (n, filter (\<lambda>tx. st_slot tx = n) txs)) (sorted_list_of_set (st_slot ` set txs))"
    by (simp add: virtual_blocks_def virtual_block_def comp_def sorted_list_of_set_sort_remdups flip: set_map)
  show "set (detect_missing_blocks sol_block_number (virtual_blocks txs)) =
      {n. (\<exists>a \<in> set txs. st_slot a < n) \<and> (\<exists>b \<in> set txs. n < st_slot b) \<and> n \<notin> st_slot ` set txs}"
    unfolding set_detect set_virtual_block_numbers by auto
qed

text \<open>A transaction whose metadata is null counts as successful, unlike one without metadata.\<close>

lemma null_meta_successful:
  "json_get ''meta'' raw = Some JNull \<Longrightarrow> parse_single_transaction n raw = Some tx \<Longrightarrow> sol_is_success tx"
  by (auto simp: parse_single_transaction_def Let_def sol_is_success_def parse_meta_def json_get_def not_null_def split: option.splits)

section \<open>Blocks of a range\<close>

definition node_slot :: "(string \<Rightarrow> json option \<Rightarrow> 'e + json) \<Rightarrow> u64 \<Rightarrow> sol_client_error + sol_block option" where
  "node_slot node n = (case node ''getBlock'' (Some (JArray [json_u64 n, full_block_config])) of
     Inl _ \<Rightarrow> Inl (Sol_transport_error (''Failed to fetch block from Solana RPC for slot: '' @ show_word n))
   | Inr response \<Rightarrow> read_slot n response)"

lemma fetch_slots_node:
  fixes node :: "string \<Rightarrow> json option \<Rightarrow> 'e + json"
  shows "fetch_slots (node_transport node :: ('e, 't) transport) ns = answer (map_sum id (List.map_filter id) (collect_results (map (node_slot node) ns)))"
proof (induction ns)
  case (Cons n ns)
  have first: "call_then (call_context (Sol_transport_error (''Failed to fetch block from Solana RPC for slot: '' @ show_word n))
      (node_transport node ''getBlock'' (Some (JArray [json_u64 n, full_block_config])))) (read_slot n) = answer (node_slot node n)"
    by (simp add: node_slot_def split: sum.split)
  show ?case
  proof (rule ext)
    fix t :: 't
    show "fetch_slots (node_transport node) (n # ns) t = answer (map_sum id (List.map_filter id) (collect_results (map (node_slot node) (n # ns)))) t"
      unfolding fetch_slots.simps first Cons.IH call_then_answer call_bind_answer
      by (cases "node_slot node n"; cases "collect_results (map (node_slot node) ns)")
        (auto simp: answer_def map_filter_simps split: option.split)
  qed
qed (simp add: map_filter_simps)


text \<open>A node with a skipped slot among three.\<close>

definition sample_sol_node :: "string \<Rightarrow> json option \<Rightarrow> string + json" where
  "sample_sol_node m p =
     (if m = ''getBlocks'' then Inr (JObject [(''result'', JArray (map json_u64 [5, 6, 7]))])
      else if p = Some (JArray [json_u64 6, full_block_config])
      then Inr (JObject [(''error'', JObject [(''code'', JNumber (NegInt (- 32007)))])])
      else Inr (JObject [(''result'', JObject [])]))"


lemma sample_sol_slots: "map_sum (\<lambda>_. ()) (map sb_slot) (map_sum id (List.map_filter id)
    (collect_results (map (node_slot sample_sol_node) [5, 6, 7]))) = Inr [5, 7]"
  by code_simp

end
