(* ===== verification/Client_Pool.thy ===== *)
theory Client_Pool imports Models begin

text \<open>
  The pool of clients (src/src/services/blockchain/pool.rs): the storage of one kind of chain,
  shared by concurrent callers. A caller looks under the read lock, and if there is no client
  waits for the write lock, looks again and creates one while it holds the lock; what it does
  under a lock is one step. Which caller goes next is a schedule.
\<close>

datatype 'c pool_phase = Calling | Waiting_for_lock | Got_client 'c | Creation_failed

record 'c client_pool =
  cp_clients :: "(string \<times> 'c) list"
  cp_created :: "(string \<times> 'c) list"
  cp_phase :: "nat \<Rightarrow> 'c pool_phase"

definition new_pool :: "'c client_pool" where
  "new_pool = \<lparr>cp_clients = [], cp_created = [], cp_phase = (\<lambda>_. Calling)\<rparr>"

definition pool_insert :: "string \<Rightarrow> 'c \<Rightarrow> (string \<times> 'c) list \<Rightarrow> (string \<times> 'c) list" where
  "pool_insert k c m = (k, c) # filter (\<lambda>(k', _). k' \<noteq> k) m"

definition client_count :: "'c client_pool \<Rightarrow> nat" where
  "client_count s = length (cp_clients s)"

text \<open>The next step of caller \<open>i\<close>, who asks for the network \<open>net i\<close>; \<open>create\<close> gets the number of
  clients created before.\<close>

definition pool_step :: "(nat \<Rightarrow> network \<Rightarrow> 'c option) \<Rightarrow> (nat \<Rightarrow> network) \<Rightarrow> nat \<Rightarrow> 'c client_pool \<Rightarrow> 'c client_pool" where
  "pool_step create net i s = (case cp_phase s i of
       Calling \<Rightarrow> (case map_of (cp_clients s) (slug (net i)) of
           Some c \<Rightarrow> s\<lparr>cp_phase := (cp_phase s)(i := Got_client c)\<rparr>
         | None \<Rightarrow> s\<lparr>cp_phase := (cp_phase s)(i := Waiting_for_lock)\<rparr>)
     | Waiting_for_lock \<Rightarrow> (case map_of (cp_clients s) (slug (net i)) of
           Some c \<Rightarrow> s\<lparr>cp_phase := (cp_phase s)(i := Got_client c)\<rparr>
         | None \<Rightarrow> (case create (length (cp_created s)) (net i) of
             None \<Rightarrow> s\<lparr>cp_phase := (cp_phase s)(i := Creation_failed)\<rparr>
           | Some c \<Rightarrow> s\<lparr>cp_clients := pool_insert (slug (net i)) c (cp_clients s),
               cp_created := cp_created s @ [(slug (net i), c)],
               cp_phase := (cp_phase s)(i := Got_client c)\<rparr>))
     | _ \<Rightarrow> s)"

definition run_pool :: "(nat \<Rightarrow> network \<Rightarrow> 'c option) \<Rightarrow> (nat \<Rightarrow> network) \<Rightarrow> nat list \<Rightarrow> 'c client_pool \<Rightarrow> 'c client_pool" where
  "run_pool create net schedule s = fold (pool_step create net) schedule s"

section \<open>The invariant\<close>

definition pool_inv :: "(nat \<Rightarrow> network) \<Rightarrow> 'c client_pool \<Rightarrow> bool" where
  "pool_inv net s \<longleftrightarrow> distinct (map fst (cp_created s)) \<and> cp_clients s = rev (cp_created s) \<and>
     (\<forall>i c. cp_phase s i = Got_client c \<longrightarrow> (slug (net i), c) \<in> set (cp_created s))"

lemma pool_inv_new: "pool_inv net new_pool"
  by (simp add: pool_inv_def new_pool_def)

lemma pool_insert_fresh: "map_of m k = None \<Longrightarrow> pool_insert k c m = (k, c) # m"
  by (force simp: pool_insert_def filter_id_conv map_of_eq_None_iff)

lemma pool_inv_step:
  assumes inv: "pool_inv net s" shows "pool_inv net (pool_step create net i s)"
proof (cases "map_of (cp_clients s) (slug (net i))")
  case None
  then have "slug (net i) \<notin> fst ` set (cp_created s)" "pool_insert (slug (net i)) c (cp_clients s) = (slug (net i), c) # cp_clients s" for c
    using inv by (auto simp: pool_inv_def map_of_eq_None_iff pool_insert_fresh)
  with inv None show ?thesis
    by (auto simp: pool_inv_def pool_step_def split: pool_phase.splits option.splits)
next
  case (Some c)
  then have "(slug (net i), c) \<in> set (cp_created s)" using inv by (auto simp: pool_inv_def dest: map_of_SomeD)
  with inv Some show ?thesis
    by (auto simp: pool_inv_def pool_step_def split: pool_phase.splits)
qed

lemma pool_inv_run: "pool_inv net s \<Longrightarrow> pool_inv net (run_pool create net schedule s)"
  unfolding run_pool_def by (induction schedule arbitrary: s) (simp_all add: pool_inv_step)

text \<open>C24. Whatever the order in which concurrent callers take the locks, at most one client is created
  for each network's slug, and all callers that ask for networks of the same slug get the same
  client; so two networks with one slug share the client of the first.\<close>

lemma one_client_per_slug:
  "let s = run_pool create net schedule new_pool in
     distinct (map fst (cp_created s)) \<and> client_count s = length (cp_created s) \<and>
     (\<forall>i j c d. \<not> (cp_phase s i = Got_client c \<and> cp_phase s j = Got_client d \<and> slug (net i) = slug (net j) \<and> c \<noteq> d))"
proof -
  have "pool_inv net (run_pool create net schedule new_pool)" by (rule pool_inv_run [OF pool_inv_new])
  then show ?thesis
    unfolding pool_inv_def Let_def client_count_def by (metis eq_key_imp_eq_value length_rev)
qed

section \<open>The kinds of clients\<close>

text \<open>The pool has a storage for each chain, made for one type of clients; \<open>sg_type\<close> is the chain of
  that type, which a downcast compares. These are the calls of one caller at a time.\<close>

record 'c client_storage =
  sg_type :: blockchain_type
  sg_clients :: "(string \<times> 'c) list"

type_synonym 'c pool_storages = "blockchain_type \<rightharpoonup> 'c client_storage"

definition register_client_type :: "blockchain_type \<Rightarrow> blockchain_type \<Rightarrow> 'c pool_storages \<Rightarrow> 'c pool_storages" where
  "register_client_type client_of client_type pool = pool(client_type \<mapsto> \<lparr>sg_type = client_of, sg_clients = []\<rparr>)"

definition client_pool_new :: "'c pool_storages" where
  "client_pool_new = register_client_type Solana Solana (register_client_type Midnight Midnight
     (register_client_type Stellar Stellar (register_client_type EVM EVM Map.empty)))"

definition storage_of :: "blockchain_type \<Rightarrow> blockchain_type \<Rightarrow> 'c pool_storages \<Rightarrow> 'c client_storage option" where
  "storage_of client_of client_type pool = Option.bind (pool client_type) (\<lambda>s. if sg_type s = client_of then Some s else None)"

definition pool_get_or_create :: "blockchain_type \<Rightarrow> (network \<Rightarrow> string + 'c) \<Rightarrow> blockchain_type \<Rightarrow> network \<Rightarrow> 'c pool_storages
    \<Rightarrow> (string + 'c) \<times> 'c pool_storages" where
  "pool_get_or_create client_of create client_type net pool = (case storage_of client_of client_type pool of
       None \<Rightarrow> (Inl ''Invalid client type'', pool)
     | Some storage \<Rightarrow> (case map_of (sg_clients storage) (slug net) of
         Some client \<Rightarrow> (Inr client, pool)
       | None \<Rightarrow> (case create net of
           Inl e \<Rightarrow> (Inl e, pool)
         | Inr client \<Rightarrow> (Inr client,
             pool(client_type \<mapsto> storage\<lparr>sg_clients := pool_insert (slug net) client (sg_clients storage)\<rparr>)))))"

definition named_failure :: "string \<Rightarrow> (string + 'c) \<times> 'p \<Rightarrow> (string + 'c) \<times> 'p" where
  "named_failure context_text = map_prod (map_sum (\<lambda>_. context_text) id) id"

definition get_evm_client :: "(network \<Rightarrow> string + 'c) \<Rightarrow> network \<Rightarrow> 'c pool_storages \<Rightarrow> (string + 'c) \<times> 'c pool_storages" where
  "get_evm_client create net pool =
     named_failure ''Failed to get or create EVM client'' (pool_get_or_create EVM create EVM net pool)"

definition get_stellar_client :: "(network \<Rightarrow> string + 'c) \<Rightarrow> network \<Rightarrow> 'c pool_storages \<Rightarrow> (string + 'c) \<times> 'c pool_storages" where
  "get_stellar_client create net pool =
     named_failure ''Failed to get or create Stellar client'' (pool_get_or_create Stellar create Stellar net pool)"

definition get_midnight_client :: "(network \<Rightarrow> string + 'c) \<Rightarrow> network \<Rightarrow> 'c pool_storages \<Rightarrow> (string + 'c) \<times> 'c pool_storages" where
  "get_midnight_client create net pool =
     named_failure ''Failed to get or create Midnight client'' (pool_get_or_create Midnight create Midnight net pool)"

definition get_solana_client :: "(network \<Rightarrow> string + 'c) \<Rightarrow> network \<Rightarrow> 'c pool_storages \<Rightarrow> (string + 'c) \<times> 'c pool_storages" where
  "get_solana_client create net pool =
     named_failure ''Failed to get or create Solana client'' (pool_get_or_create Solana create Solana net pool)"

text \<open>A client of its own, with the addresses that it watches.\<close>

definition get_solana_client_with_addresses :: "(network \<Rightarrow> string + 'c) \<Rightarrow> (string list \<Rightarrow> 'c \<Rightarrow> 'c) \<Rightarrow> network \<Rightarrow> string list
    \<Rightarrow> 'c pool_storages \<Rightarrow> (string + 'c) \<times> 'c pool_storages" where
  "get_solana_client_with_addresses create with_monitored_addresses net addresses pool =
     (map_sum (\<lambda>_. ''Failed to create Solana client'') (with_monitored_addresses addresses) (create net), pool)"

definition get_client_count :: "blockchain_type \<Rightarrow> blockchain_type \<Rightarrow> 'c pool_storages \<Rightarrow> nat" where
  "get_client_count client_of client_type pool = (case storage_of client_of client_type pool of
       Some storage \<Rightarrow> length (sg_clients storage) | None \<Rightarrow> 0)"

text \<open>Each chain has its storage, for clients of the chain: so the type is never invalid.\<close>

definition storages_ok :: "'c pool_storages \<Rightarrow> bool" where
  "storages_ok pool \<longleftrightarrow> (\<forall>k. map_option sg_type (pool k) = Some k)"

lemma storages_ok_new: "storages_ok client_pool_new"
  unfolding storages_ok_def
proof
  fix k
  show "map_option sg_type (client_pool_new k) = Some k"
    by (cases k) (simp_all add: client_pool_new_def register_client_type_def)
qed

lemma storage_registered:
  assumes "storages_ok pool"
  obtains s where "pool k = Some s" "sg_type s = k"
proof -
  have "map_option sg_type (pool k) = Some k" using assms by (simp add: storages_ok_def)
  then show ?thesis using that by auto
qed

lemma storage_of_ok: "storages_ok pool \<Longrightarrow> storage_of k k pool = pool k"
  by (erule storage_registered [where k = k]) (simp add: storage_of_def)

lemma storages_ok_get:
  assumes ok: "storages_ok pool" shows "storages_ok (snd (pool_get_or_create k create k net pool))"
  unfolding storages_ok_def
proof
  fix l
  obtain s where s: "pool k = Some s" "sg_type s = k" by (rule storage_registered [OF ok])
  obtain r where "pool l = Some r" "sg_type r = l" by (rule storage_registered [OF ok])
  then show "map_option sg_type (snd (pool_get_or_create k create k net pool) l) = Some l"
    using s by (simp add: pool_get_or_create_def storage_of_def split: option.split sum.split)
qed

lemma get_fails_iff:
  assumes "storages_ok pool"
  shows "(\<exists>e. fst (pool_get_or_create k create k net pool) = Inl e) \<longleftrightarrow>
    map_of (sg_clients (the (pool k))) (slug net) = None \<and> (\<exists>e. create net = Inl e)"
proof -
  obtain s where "pool k = Some s" using storage_registered [OF assms] by blast
  then show ?thesis by (auto simp: pool_get_or_create_def storage_of_ok [OF assms] split: option.split sum.split)
qed

text \<open>A client that was got is got again, whatever would be created now, for every network of the slug;
  the storages of the other chains stay as they are.\<close>

lemma get_again:
  assumes "storages_ok pool" "pool_get_or_create k create k net pool = (Inr client, pool')" "slug net' = slug net"
  shows "pool_get_or_create k create' k net' pool' = (Inr client, pool')"
proof -
  obtain s where "pool k = Some s" using storage_registered [OF assms(1)] by blast
  moreover have "storage_of k k pool' = pool' k" using storage_of_ok storages_ok_get [OF assms(1), of k create net] assms(2) by simp
  ultimately show ?thesis
    using assms by (auto simp: pool_get_or_create_def storage_of_ok pool_insert_def split: option.split_asm sum.split_asm)
qed

lemma get_other_storage: "k' \<noteq> k \<Longrightarrow> snd (pool_get_or_create k create k net pool) k' = pool k'"
  by (auto simp: pool_get_or_create_def split: option.split sum.split)

text \<open>One call is the two steps of a caller that no other interrupts.\<close>

lemma call_is_two_steps:
  fixes net :: "nat \<Rightarrow> network"
  assumes "pool k = Some \<lparr>sg_type = k, sg_clients = cp_clients s\<rparr>" "cp_phase s i = Calling"
    and "\<And>n. create n = (\<lambda>x. case mk_client x of Inr c \<Rightarrow> Some c | Inl _ \<Rightarrow> None)"
  defines "s' \<equiv> run_pool create net [i, i] s" and "call \<equiv> pool_get_or_create k mk_client k (net i) pool"
  shows "cp_phase s' i = (case fst call of Inr c \<Rightarrow> Got_client c | Inl _ \<Rightarrow> Creation_failed)"
    and "snd call k = Some \<lparr>sg_type = k, sg_clients = cp_clients s'\<rparr>"
  using assms(1,2) by (auto simp: s'_def call_def run_pool_def pool_step_def pool_get_or_create_def storage_of_def assms(3)
      split: option.split sum.split)

end
