(* ===== verification/Chains.thy ===== *)
theory Chains imports Bootstrap Solana_Filter_Properties Midnight_Filter_Properties Stellar_Filter_Properties begin

text \<open>
  The filter service over all chains (src/src/services/filter/filters/mod.rs and the number of a
  block, src/src/models/blockchain/mod.rs): the environment of the block handler completed by the
  filters of Stellar, Midnight and Solana, whose matches are turned into what the match handler
  reads of them. The nodes behind the clients stay parameters.
\<close>

section \<open>Matches of the other chains\<close>

definition xlm_params :: "xlm_params_map \<Rightarrow> match_params_map" where
  "xlm_params p = \<lparr>pm_signature = xp_signature p, pm_args = xp_args p, pm_hex_signature = None\<rparr>"

definition xlm_chain_match :: "'abi xlm_monitor_match \<Rightarrow> 'abi chain_match" where
  "xlm_chain_match m = \<lparr>cm_monitor = xm_monitor m, cm_transaction = xt_hash (xm_transaction m),
     cm_network_slug = xm_network_slug m, cm_matched_on = xm_matched_on m,
     cm_matched_on_args = map_option (\<lambda>a. \<lparr>ma_functions = map_option (map xlm_params) (xa_functions a),
       ma_events = map_option (map xlm_params) (xa_events a)\<rparr>) (xm_matched_on_args m)\<rparr>"

definition mid_chain_match :: "'abi mid_monitor_match \<Rightarrow> 'abi chain_match" where
  "mid_chain_match m = \<lparr>cm_monitor = mi_monitor m, cm_transaction = mt_tx_hash (mi_transaction m),
     cm_network_slug = mi_network_slug m, cm_matched_on = mi_matched_on m, cm_matched_on_args = mi_matched_on_args m\<rparr>"

definition sol_params :: "sol_params_map \<Rightarrow> match_params_map" where
  "sol_params p = \<lparr>pm_signature = sp_signature p, pm_args = sp_args p, pm_hex_signature = None\<rparr>"

definition sol_chain_match :: "'abi sol_monitor_match \<Rightarrow> 'abi chain_match" where
  "sol_chain_match m = \<lparr>cm_monitor = so_monitor m, cm_transaction = st_signature (so_transaction m),
     cm_network_slug = so_network_slug m, cm_matched_on = so_matched_on m,
     cm_matched_on_args = map_option (\<lambda>a. \<lparr>ma_functions = map_option (map sol_params) (sa_functions a),
       ma_events = map_option (map sol_params) (sa_events a)\<rparr>) (so_matched_on_args m)\<rparr>"

section \<open>The filters\<close>

type_synonym other_block = "xlm_ledger chain_block"

record 'ltx other_chains =
  oc_json :: json_lib
  oc_xdr :: xdr_lib
  oc_mid :: "'ltx mid_env"
  oc_xlm_node :: "network \<Rightarrow> xlm_node"
  oc_mid_node :: "network \<Rightarrow> mid_node"

definition other_number :: "other_block \<Rightarrow> u64 option" where
  "other_number b = (case b of BlockStellar l \<Rightarrow> xlm_block_number l | BlockMidnight m \<Rightarrow> mid_block_number m
     | BlockSolana s \<Rightarrow> sol_block_number s)"

text \<open>The filter that the type of the client selects; EVM is selected by \<open>filter_service_block\<close>.\<close>

definition other_filter :: "'ltx other_chains \<Rightarrow> network \<Rightarrow> other_block block_type \<Rightarrow> 'abi monitor list \<Rightarrow>
  (string \<times> 'abi contract_spec) list option \<Rightarrow> (filter_error + 'abi monitor_match list) option" where
  "other_filter oc net block monitors specs = (case network_type net of
       EVM \<Rightarrow> None
     | Stellar \<Rightarrow> Some (map_sum id (map (MatchStellar \<circ> xlm_chain_match))
         (xlm_filter_block (oc_json oc) (oc_xdr oc) (oc_xlm_node oc net) net block monitors specs))
     | Midnight \<Rightarrow> Some (map_sum id (map (MatchMidnight \<circ> mid_chain_match))
         (mid_filter_block (oc_mid oc) (oc_mid_node oc net) net block monitors specs))
     | Solana \<Rightarrow> Some (map_sum id (map (MatchSolana \<circ> sol_chain_match))
         (sol_filter_block (oc_json oc) net block monitors specs)))"

definition all_chains :: "'abi evm_env \<Rightarrow> (network \<Rightarrow> bool) \<Rightarrow> (network \<Rightarrow> evm_node) \<Rightarrow> 'ltx other_chains \<Rightarrow>
  ('abi, other_block) chain_env" where
  "all_chains evm client_ok node oc = \<lparr>ch_evm = evm, ch_client_ok = client_ok, ch_node = node,
     ch_other_number = other_number, ch_other_filter = other_filter oc\<rparr>"

section \<open>Where a match comes from\<close>

text \<open>The chain of a block and of a match, and the network a match names.\<close>

fun block_chain :: "other_block block_type \<Rightarrow> blockchain_type" where
  "block_chain (BlockEVM b) = EVM"
| "block_chain (BlockOther (BlockStellar b)) = Stellar"
| "block_chain (BlockOther (BlockMidnight b)) = Midnight"
| "block_chain (BlockOther (BlockSolana b)) = Solana"

fun match_chain :: "'abi monitor_match \<Rightarrow> blockchain_type" where
  "match_chain (MatchEVM m) = EVM"
| "match_chain (MatchStellar m) = Stellar"
| "match_chain (MatchMidnight m) = Midnight"
| "match_chain (MatchSolana m) = Solana"

fun match_network :: "'abi monitor_match \<Rightarrow> string" where
  "match_network (MatchEVM m) = em_network_slug m"
| "match_network (MatchStellar m) = cm_network_slug m"
| "match_network (MatchMidnight m) = cm_network_slug m"
| "match_network (MatchSolana m) = cm_network_slug m"

text \<open>The monitor that a match records: the EVM filter removes the contract specifications.\<close>

definition recorded_monitor :: "blockchain_type \<Rightarrow> 'abi monitor \<Rightarrow> 'abi monitor" where
  "recorded_monitor chain m = (if chain = EVM then strip_specs m else m)"

definition match_of :: "network \<Rightarrow> 'abi monitor list \<Rightarrow> 'abi monitor_match \<Rightarrow> bool" where
  "match_of net monitors r \<longleftrightarrow> match_chain r = network_type net \<and> match_network r = slug net
     \<and> list_ex (\<lambda>m. match_monitor r = recorded_monitor (network_type net) m) monitors"

lemma xlm_filter_origin:
  assumes "xlm_filter_block jl xl node net block monitors specs = Inr ms" "r \<in> set ms"
  shows "\<exists>b. block = BlockOther (BlockStellar b) \<and> xm_monitor r \<in> set monitors \<and> xm_network_slug r = slug net"
  using xlm_result_member [OF assms]
  by (auto simp: xlm_match_transaction_def xlm_build_match_def Let_def split: if_split_asm)

lemma mid_filter_origin:
  assumes "mid_filter_block env node net block monitors specs = Inr ms" "r \<in> set ms"
  shows "\<exists>b. block = BlockOther (BlockMidnight b) \<and> mi_monitor r \<in> set monitors \<and> mi_network_slug r = slug net"
proof -
  from mid_result_member [OF assms] have "mi_monitor r \<in> set monitors \<and> mi_network_slug r = slug net"
    by (auto simp: mid_match_transaction_def Let_def split: if_split_asm)
  moreover have "\<exists>b. block = BlockOther (BlockMidnight b)"
    using assms(1) by (auto simp: mid_filter_block_def split: block_type.split_asm chain_block.split_asm)
  ultimately show ?thesis by simp
qed

lemma sol_filter_origin:
  assumes "sol_filter_block jl net block monitors specs = Inr ms" "r \<in> set ms"
  shows "\<exists>b. block = BlockOther (BlockSolana b) \<and> so_monitor r \<in> set monitors \<and> so_network_slug r = slug net"
  using assms by (auto simp: sol_filter_block_def sol_match_transaction_def Let_def
      split: block_type.split_asm chain_block.split_asm if_split_asm)

lemma evm_filter_chain:
  "evm_filter_block env node net block monitors specs = Some (Inr ms) \<Longrightarrow> \<exists>b. block = BlockEVM b"
  by (auto simp: evm_filter_block_def split: block_type.split_asm)

lemma filter_service_typed:
  assumes "filter_service_block (all_chains evm client_ok node oc) net block monitors specs = Some (Inr ms)" "r \<in> set ms"
  shows "block_chain block = network_type net \<and> match_of net monitors r"
proof (cases "network_type net")
  case EVM
  then obtain es where es: "evm_filter_block evm (node net) net block monitors specs = Some (Inr es)" "ms = map MatchEVM es"
    using assms(1) by (auto simp: filter_service_block_def all_chains_def elim!: map_sum_InrE)
  obtain b where b: "block = BlockEVM b" using evm_filter_chain [OF es(1)] by blast
  from assms(2) es(2) obtain e where e: "e \<in> set es" "r = MatchEVM e" by auto
  from evm_filter_origin [OF es(1) [unfolded b] e(1)] e(2) b EVM show ?thesis
    by (auto simp: match_of_def recorded_monitor_def list_ex_iff)
next
  case Stellar
  then obtain es where es: "xlm_filter_block (oc_json oc) (oc_xdr oc) (oc_xlm_node oc net) net block monitors specs = Inr es"
    "ms = map (MatchStellar \<circ> xlm_chain_match) es"
    using assms(1) by (auto simp: filter_service_block_def all_chains_def other_filter_def elim!: map_sum_InrE)
  from assms(2) es(2) obtain e where e: "e \<in> set es" "r = MatchStellar (xlm_chain_match e)" by auto
  from xlm_filter_origin [OF es(1) e(1)] e(2) Stellar show ?thesis
    by (auto simp: match_of_def recorded_monitor_def xlm_chain_match_def list_ex_iff)
next
  case Midnight
  then obtain es where es: "mid_filter_block (oc_mid oc) (oc_mid_node oc net) net block monitors specs = Inr es"
    "ms = map (MatchMidnight \<circ> mid_chain_match) es"
    using assms(1) by (auto simp: filter_service_block_def all_chains_def other_filter_def elim!: map_sum_InrE)
  from assms(2) es(2) obtain e where e: "e \<in> set es" "r = MatchMidnight (mid_chain_match e)" by auto
  from mid_filter_origin [OF es(1) e(1)] e(2) Midnight show ?thesis
    by (auto simp: match_of_def recorded_monitor_def mid_chain_match_def list_ex_iff)
next
  case Solana
  then obtain es where es: "sol_filter_block (oc_json oc) net block monitors specs = Inr es"
    "ms = map (MatchSolana \<circ> sol_chain_match) es"
    using assms(1) by (auto simp: filter_service_block_def all_chains_def other_filter_def elim!: map_sum_InrE)
  from assms(2) es(2) obtain e where e: "e \<in> set es" "r = MatchSolana (sol_chain_match e)" by auto
  from sol_filter_origin [OF es(1) e(1)] e(2) Solana show ?thesis
    by (auto simp: match_of_def recorded_monitor_def sol_chain_match_def list_ex_iff)
qed

section \<open>Properties\<close>

text \<open>C4. The matches of a processed block are well typed, on every chain: if the handler reports any, the
  block is one of the network's chain, and every match has the constructor of that chain, names
  the network, and records a monitor that is active and lists the network.\<close>

theorem processed_matches_typed:
  assumes "block_handler (all_chains evm client_ok node oc) shutdown (filter_active_monitors monitors) specs block net = Some pb"
    "r \<in> set (pb_results pb)"
  shows "block_chain block = network_type net
    \<and> match_of net (filter (\<lambda>m. \<not> mon_paused m \<and> slug net \<in> set (mon_networks m)) monitors) r"
proof -
  obtain ms where "filter_service_block (all_chains evm client_ok node oc) net block
      (filter_network_monitors (filter_active_monitors monitors) (slug net)) (Some specs) = Some (Inr ms)" "r \<in> set ms"
    using block_handler_result [OF assms] by blast
  from filter_service_typed [OF this] show ?thesis
    by (auto simp: match_of_def filter_network_monitors_def filter_active_monitors_def list_ex_iff)
qed

definition sample_other_chains :: "unit other_chains" where
  "sample_other_chains = \<lparr>oc_json = sample_json_lib, oc_xdr = sample_xl, oc_mid = sample_mid_env,
     oc_xlm_node = (\<lambda>_. sample_xlm_node), oc_mid_node = (\<lambda>_. \<lparr>get_chain_type = Inl [], get_events = (\<lambda>_. Inl [])\<rparr>)\<rparr>"

definition sample_chains :: "(abi_contract, other_block) chain_env" where
  "sample_chains = all_chains sample_env (\<lambda>_. True) (\<lambda>_. sample_node []) sample_other_chains"

definition sample_sol_network :: network where
  "sample_sol_network = sample_network\<lparr>network_type := Solana\<rparr>"

text \<open>A block whose one transaction calls the program of its first account.\<close>

definition sample_sol_block :: "other_block block_type" where
  "sample_sol_block = BlockOther (BlockSolana \<lparr>sb_slot = 7, sb_blockhash = [], sb_previous_blockhash = [], sb_parent_slot = 6,
     sb_block_time = None, sb_block_height = None, sb_transactions = [sample_sol_tx\<lparr>st_transaction := (st_transaction sample_sol_tx)
     \<lparr>sm_instructions := [\<lparr>si_program_id_index = 0, si_accounts = [], si_data = [], si_parsed = None,
        si_program = None, si_program_id = None\<rparr>]\<rparr>\<rparr>]\<rparr>)"

theorem processed_matches_typed_witness:
  "\<exists>pb r. block_handler sample_chains False (filter_active_monitors [sample_monitor ''aB'' no_conditions])
      [] sample_sol_block sample_sol_network = Some pb
    \<and> pb_block_number pb = 7 \<and> pb_results pb = [r] \<and> match_chain r = Solana \<and> match_network r = ''eth''"
proof -
  let ?h = "block_handler sample_chains False (filter_active_monitors [sample_monitor ''aB'' no_conditions])
      [] sample_sol_block sample_sol_network"
  have "(case ?h of Some pb \<Rightarrow> pb_block_number pb = 7 \<and> (case pb_results pb of [r] \<Rightarrow> True | _ \<Rightarrow> False) | None \<Rightarrow> False)"
    by code_simp
  then obtain pb r where pb: "?h = Some pb" "pb_block_number pb = 7" "pb_results pb = [r]"
    by (auto split: option.split_asm list.split_asm)
  from processed_matches_typed [OF pb(1) [unfolded sample_chains_def], of r] pb show ?thesis
    by (auto simp: match_of_def sample_sol_network_def sample_network_def)
qed

end
