(* ===== verification/Block_To_Trigger.thy ===== *)
theory Block_To_Trigger imports Watcher Bootstrap begin

text \<open>
  From the blocks of a run to the executed triggers: the block watcher
  (src/src/services/blockwatcher/service.rs) composed with the block handler and the trigger
  handler of src/src/bootstrap/mod.rs. The watcher calls the trigger handler on the blocks in
  order; the handler spawns a task for each block and returns without waiting for it, so the tasks
  run concurrently. The calls of the trigger service are the steps of a task.
\<close>

section \<open>The block handler as the watcher calls it\<close>

text \<open>A panic ends the program; the value given for it is not used.\<close>

definition service_handler :: "('abi, 'o) chain_env \<Rightarrow> bool \<Rightarrow> 'abi monitor list \<Rightarrow> (string \<times> 'abi contract_spec) list \<Rightarrow>
  'o block_type \<Rightarrow> network \<Rightarrow> 'abi monitor_match processed_block" where
  "service_handler env shutdown active specs block net = (case block_handler env shutdown active specs block net of
       Some pb \<Rightarrow> pb
     | None \<Rightarrow> \<lparr>pb_block_number = (case block_number env block of None \<Rightarrow> 0 | Some n \<Rightarrow> n),
         pb_network_slug = slug net, pb_results = []\<rparr>)"

lemma service_handler_number:
  "pb_block_number (service_handler env shutdown active specs block net) = (case block_number env block of None \<Rightarrow> 0 | Some n \<Rightarrow> n)"
  by (auto simp: service_handler_def block_handler_def Let_def split: option.split)

lemma service_handler_keeps: "handler_keeps_number (block_number env) net (service_handler env shutdown active specs)"
  by (simp add: handler_keeps_number_def service_handler_number)

text \<open>The matches of a block: those that the filter finds for the monitors of the network, none if it
  fails.\<close>

definition block_matches :: "('abi, 'o) chain_env \<Rightarrow> 'abi monitor list \<Rightarrow> (string \<times> 'abi contract_spec) list \<Rightarrow>
  network \<Rightarrow> 'o block_type \<Rightarrow> 'abi monitor_match list" where
  "block_matches env active specs net block =
     (if filter_network_monitors active (slug net) = [] \<or> \<not> ch_client_ok env net then []
      else case filter_service_block env net block (filter_network_monitors active (slug net)) (Some specs) of
          Some (Inr ms) \<Rightarrow> ms | _ \<Rightarrow> [])"

lemma service_handler_results:
  "block_handler env False active specs block net \<noteq> None \<Longrightarrow>
    pb_results (service_handler env False active specs block net) = block_matches env active specs net block"
  by (auto simp: service_handler_def block_handler_def block_matches_def process_block_def Let_def
      split: option.splits sum.splits if_splits)

section \<open>Trigger tasks\<close>

type_synonym 'abi trigger_call = "string list \<times> (string \<rightharpoonup> string) \<times> 'abi monitor_match"

definition kept_matches :: "'abi script_env \<Rightarrow> scripts \<Rightarrow> 'abi monitor_match list \<Rightarrow> 'abi monitor_match list" where
  "kept_matches senv trigger_scripts ms =
     filter (\<lambda>m. \<not> list_ex (condition_holds senv trigger_scripts m) (mon_trigger_conditions (match_monitor m))) ms"

definition trigger_call :: "json_lib \<Rightarrow> evm_lib \<Rightarrow> 'abi monitor_match \<Rightarrow> 'abi trigger_call" where
  "trigger_call jl el m = (mon_triggers (match_monitor m), json_to_hashmap jl (match_data el m), m)"

definition trigger_task :: "json_lib \<Rightarrow> evm_lib \<Rightarrow> 'abi script_env \<Rightarrow> scripts \<Rightarrow> 'abi monitor_match processed_block \<Rightarrow>
  'abi trigger_call list" where
  "trigger_task jl el senv trigger_scripts pb = map (trigger_call jl el) (kept_matches senv trigger_scripts (pb_results pb))"

text \<open>The calls of a task are those of the trigger handler, if the condition scripts return.\<close>

lemma trigger_handler_task:
  assumes "\<And>m lang content t args. execute_script senv lang content m t args False \<noteq> None"
    "\<And>tids vars m sc s. exec tids vars m sc s = Some (answer tids m s, s @ [(tids, vars, m)])"
  shows "trigger_handler jl el senv exec trigger_scripts None pb s = Some (s @ trigger_task jl el senv trigger_scripts pb)"
  using assms by (simp add: trigger_handler_def run_trigger_filters_returns handle_matches_calls trigger_task_def
      trigger_call_def [abs_def] kept_matches_def)

text \<open>A configuration is the rest of every task and the calls made so far; one step is the next
  call of any task.\<close>

inductive task_step :: "'c list list \<times> 'c list \<Rightarrow> 'c list list \<times> 'c list \<Rightarrow> bool" where
  call: "i < length tasks \<Longrightarrow> tasks ! i = c # cs \<Longrightarrow> task_step (tasks, trace) (tasks[i := cs], trace @ [c])"

inductive_cases task_stepE: "task_step (tasks, trace) st"

definition tasks_finish :: "'c list list \<Rightarrow> 'c list \<Rightarrow> bool" where
  "tasks_finish tasks trace \<longleftrightarrow> (\<exists>rest. task_step\<^sup>*\<^sup>* (tasks, []) (rest, trace) \<and> concat rest = [])"

text \<open>Invariant: nothing is lost or doubled, and every task has made its calls in order.\<close>

definition task_inv :: "'c list list \<Rightarrow> 'c list list \<times> 'c list \<Rightarrow> bool" where
  "task_inv tasks0 st \<longleftrightarrow> mset (snd st) + mset (concat (fst st)) = mset (concat tasks0)
     \<and> length (fst st) = length tasks0
     \<and> (\<forall>i < length tasks0. \<exists>made. tasks0 ! i = made @ fst st ! i \<and> subseq made (snd st))"

lemma mset_concat_update:
  "i < length tasks \<Longrightarrow> tasks ! i = c # cs \<Longrightarrow> mset (concat tasks) = add_mset c (mset (concat (tasks[i := cs])))"
  by (induction tasks arbitrary: i) (auto split: nat.split)

lemma task_inv_step: "task_inv tasks0 st \<Longrightarrow> task_step st st' \<Longrightarrow> task_inv tasks0 st'"
proof -
  assume inv: "task_inv tasks0 st" and "task_step st st'"
  then obtain tasks trace i c cs where st: "st = (tasks, trace)" "st' = (tasks[i := cs], trace @ [c])"
    and i: "i < length tasks" "tasks ! i = c # cs" by (auto elim: task_step.cases)
  have "\<exists>made. tasks0 ! j = made @ tasks[i := cs] ! j \<and> subseq made (trace @ [c])" if j: "j < length tasks0" for j
  proof -
    obtain made where made: "tasks0 ! j = made @ tasks ! j" "subseq made trace"
      using inv j st by (auto simp: task_inv_def)
    show ?thesis
    proof (cases "j = i")
      case True
      with made i have "tasks0 ! j = (made @ [c]) @ tasks[i := cs] ! j" by simp
      moreover have "subseq (made @ [c]) (trace @ [c])" using made(2) by (simp add: list_emb_append_mono)
      ultimately show ?thesis by blast
    next
      case False
      then show ?thesis using made by (auto intro: list_emb_append2)
    qed
  qed
  with inv st i mset_concat_update [OF i] show ?thesis by (simp add: task_inv_def)
qed

lemma task_inv_reach: "task_step\<^sup>*\<^sup>* st st' \<Longrightarrow> task_inv tasks0 st \<Longrightarrow> task_inv tasks0 st'"
  by (induction rule: rtranclp_induct) (blast intro: task_inv_step)+

lemma tasks_finish_calls:
  assumes "tasks_finish tasks trace"
  shows "mset trace = mset (concat tasks)" "t \<in> set tasks \<Longrightarrow> subseq t trace"
proof -
  obtain rest where rest: "task_step\<^sup>*\<^sup>* (tasks, []) (rest, trace)" "concat rest = []"
    using assms by (auto simp: tasks_finish_def)
  have "task_inv tasks (tasks, [])" by (simp add: task_inv_def)
  from task_inv_reach [OF rest(1) this] have inv: "task_inv tasks (rest, trace)" .
  then show "mset trace = mset (concat tasks)" by (simp add: task_inv_def rest(2) del: concat_eq_Nil_conv)
  assume "t \<in> set tasks"
  then obtain i where i: "i < length tasks" "t = tasks ! i" by (auto simp: in_set_conv_nth)
  with inv obtain made where made: "t = made @ rest ! i" "subseq made trace" "length rest = length tasks"
    by (auto simp: task_inv_def)
  moreover have "rest ! i = []" using rest(2) i(1) made(3) by simp
  ultimately show "subseq t trace" by simp
qed

lemma mset_concat_map: "mset (concat (map f xs)) = (\<Sum>x \<in># mset xs. mset (f x))"
  by (induction xs) simp_all

text \<open>Every configuration can finish, in any order of the tasks.\<close>

lemma tasks_can_finish: "\<exists>rest more. task_step\<^sup>*\<^sup>* (tasks, trace) (rest, trace @ more) \<and> concat rest = []"
proof (induction "length (concat tasks)" arbitrary: tasks trace)
  case 0
  then show ?case by (metis append_Nil2 length_0_conv rtranclp.rtrancl_refl)
next
  case (Suc n)
  then obtain t where "t \<in> set tasks" "t \<noteq> []" by (metis Zero_not_Suc concat_eq_Nil_conv length_0_conv)
  then obtain i c cs where i: "i < length tasks" "tasks ! i = c # cs" by (metis in_set_conv_nth neq_Nil_conv)
  have "n = length (concat (tasks[i := cs]))"
    using Suc.hyps(2) arg_cong [OF mset_concat_update [OF i], of size] by simp
  from Suc.hyps(1) [OF this, of "trace @ [c]"] obtain rest more
    where "task_step\<^sup>*\<^sup>* (tasks[i := cs], trace @ [c]) (rest, trace @ [c] @ more)" "concat rest = []" by auto
  with task_step.call [OF i] show ?case by (metis converse_rtranclp_into_rtranclp)
qed

lemma tasks_finish_first:
  assumes "i < length tasks" "tasks ! i = c # cs"
  shows "\<exists>more. tasks_finish tasks (c # more)"
proof -
  obtain rest more where "task_step\<^sup>*\<^sup>* (tasks[i := cs], [] @ [c]) (rest, ([] @ [c]) @ more)" "concat rest = []"
    using tasks_can_finish by blast
  with task_step.call [OF assms, of "[]"] show ?thesis
    unfolding tasks_finish_def by (metis append_Cons append_Nil converse_rtranclp_into_rtranclp)
qed

section \<open>Properties\<close>


text \<open>The order of the blocks is lost at the end: the task of a later block may make its first call before
  any call of an earlier one, although the watcher hands the blocks on in order.\<close>

theorem later_block_triggered_first:
  assumes "pb \<in> set fired" "trigger_task jl el senv trigger_scripts pb = c # cs"
  shows "\<exists>more. tasks_finish (map (trigger_task jl el senv trigger_scripts) fired) (c # more)"
proof -
  obtain i where "i < length fired" "fired ! i = pb" using assms(1) by (auto simp: in_set_conv_nth)
  then show ?thesis using assms(2) by (intro tasks_finish_first [of i]) auto
qed

section \<open>A sample run\<close>

definition chain_codec :: "'b codec" where
  "chain_codec = \<lparr>enc_entries = enc_entries sample_codec, dec_entries = dec_entries sample_codec, enc_blocks = (\<lambda>_. Some ''[]'')\<rparr>"

lemma chain_codec_ready: "file_ready chain_codec sl (sample_net_fs sl n es)"
  using sample_net_ready(1) [of sl n es] by (simp add: file_ready_def codec_ok_def chain_codec_def decode_missed_def file_entries_def
      cong: option.case_cong if_cong)

definition one_block_client :: "unit block_type rpc_client" where
  "one_block_client = \<lparr>rpc_latest = (\<lambda>_. Inr 102), rpc_blocks = (\<lambda>_ _ _. Inr [sample_block])\<rparr>"

definition sample_handler_env :: "(abi_contract, unit) chain_env" where
  "sample_handler_env = sample_chain (sample_node [])"

lemma sample_block_handled:
  "case block_handler sample_handler_env False [sample_monitor ''0xA'' no_conditions] [] sample_block recovering_network of
     Some pb \<Rightarrow> length (pb_results pb) = 1 \<and> list_all (\<lambda>m. mon_trigger_conditions (match_monitor m) = []) (pb_results pb) | None \<Rightarrow> False"
  by code_simp


end
