(* ===== verification/Monitor_Execution.thy ===== *)
theory Monitor_Execution imports Block_To_Trigger Repositories Rpc_Client begin

text \<open>
  The execution of a single monitor for testing (src/src/utils/monitor/execution.rs): one block of
  one network, or the latest block of every network of the monitor, is filtered and the matches
  are handed to the triggers and returned as JSON. The clients are a parameter.
\<close>

section \<open>Execution\<close>

datatype execution_error = Not_found string | Execution_error string

record ('abi, 'o) exec_env =
  ex_chain :: "('abi, 'o) chain_env"
  ex_client :: "network \<Rightarrow> string + 'o block_type rpc_client"
  ex_specs :: "'abi spec_clients"

text \<open>The networks of a run: the one named, or those the monitor is active on, in the order of the hash map.
  The texts of the errors of the filter and of loading are left out.\<close>

definition execution_networks :: "((string \<rightharpoonup> network) \<Rightarrow> network list) \<Rightarrow> (string \<rightharpoonup> network) \<Rightarrow> string option \<Rightarrow>
  'abi monitor \<Rightarrow> execution_error + network list" where
  "execution_networks vals networks network_slug m = (case network_slug of
       Some name \<Rightarrow> (case networks name of
           None \<Rightarrow> Inl (Not_found (''Network '' @ name @ '' not found'')) | Some net \<Rightarrow> Inr [net])
     | None \<Rightarrow> Inr (filter (\<lambda>net. has_active_monitors [m] (slug net)) (vals networks)))"

definition block_word :: "network \<Rightarrow> string" where
  "block_word net = (if network_type net = Solana then ''slot'' else ''block'')"

definition block_not_found :: "network \<Rightarrow> u64 \<Rightarrow> execution_error" where
  "block_not_found net n = Not_found ((if network_type net = Solana then ''Slot '' else ''Block '') @ show_word n @ '' not found'')"

definition execution_block :: "('abi, 'o) exec_env \<Rightarrow> network \<Rightarrow> u64 option \<Rightarrow> execution_error + 'o block_type" where
  "execution_block env net block_no =
     (case ex_client env net of
        Inl e \<Rightarrow> Inl (Execution_error (''Failed to get '' @ show_blockchain_type (network_type net) @ '' client: '' @ e))
      | Inr client \<Rightarrow>
        res_bind (case block_no of
            Some n \<Rightarrow> Inr n
          | None \<Rightarrow> (case rpc_latest client 0 of Inl e \<Rightarrow> Inl (Execution_error e) | Inr n \<Rightarrow> Inr n)) (\<lambda>n.
        (case rpc_blocks client 1 n None of
           Inl e \<Rightarrow> Inl (Execution_error (''Failed to get '' @ block_word net @ '' '' @ show_word n @ '': '' @ e))
         | Inr [] \<Rightarrow> Inl (block_not_found net n)
         | Inr (b # _) \<Rightarrow> Inr b)))"

text \<open>\<open>None\<close> is a panic of the filter, as in the block handler.\<close>

definition execute_on_network :: "('abi, 'o) exec_env \<Rightarrow> 'abi monitor \<Rightarrow> u64 option \<Rightarrow> network \<Rightarrow>
  (execution_error + 'abi monitor_match list) option" where
  "execute_on_network env m block_no net =
     (case execution_block env net block_no of
        Inl e \<Rightarrow> Some (Inl e)
      | Inr b \<Rightarrow> map_option (\<lambda>r. case r of Inl _ \<Rightarrow> Inl (Execution_error ''Failed to filter block'') | Inr ms \<Rightarrow> Inr ms)
          (filter_service_block (ex_chain env) net b [m] (Some (get_contract_specs (ex_specs env) [(net, [m])]))))"

fun execute_on_networks :: "('abi, 'o) exec_env \<Rightarrow> 'abi monitor \<Rightarrow> u64 option \<Rightarrow> network list \<Rightarrow>
  (execution_error + 'abi monitor_match list) option" where
  "execute_on_networks env m block_no [] = Some (Inr [])"
| "execute_on_networks env m block_no (net # nets) = (case execute_on_network env m block_no net of
       None \<Rightarrow> None
     | Some (Inl e) \<Rightarrow> Some (Inl e)
     | Some (Inr ms) \<Rightarrow> map_option (\<lambda>r. res_bind r (\<lambda>rest. Inr (ms @ rest))) (execute_on_networks env m block_no nets))"

definition execution_matches :: "('abi, 'o) exec_env \<Rightarrow> ((string \<rightharpoonup> network) \<Rightarrow> network list) \<Rightarrow> (string \<rightharpoonup> network) \<Rightarrow>
  string option \<Rightarrow> u64 option \<Rightarrow> 'abi monitor \<Rightarrow> (execution_error + 'abi monitor_match list) option" where
  "execution_matches env vals networks network_slug block_no m =
     (case execution_networks vals networks network_slug m of
        Inl e \<Rightarrow> Some (Inl e) | Inr nets \<Rightarrow> execute_on_networks env m block_no nets)"

text \<open>The result, the matches as JSON, comes with the state of the trigger service.\<close>

definition execute_monitor :: "'abi config_env \<Rightarrow> ('abi, 'o) exec_env \<Rightarrow> json_lib \<Rightarrow> evm_lib \<Rightarrow>
  ('abi monitor_match list \<Rightarrow> string + string) \<Rightarrow> ('e, 'abi, 's) trigger_exec \<Rightarrow> scripts \<Rightarrow>
  ((string \<rightharpoonup> network) \<Rightarrow> network list) \<Rightarrow> (string \<rightharpoonup> network) \<Rightarrow> string \<Rightarrow> string option \<Rightarrow> u64 option \<Rightarrow> 's \<Rightarrow>
  ((execution_error + string) \<times> 's) option" where
  "execute_monitor cfg env jl el to_json exec trigger_scripts vals networks path network_slug block_no s =
     (case load_monitor_from_path cfg (Some path) None None of
        Inl _ \<Rightarrow> Some (Inl (Execution_error ''Failed to load monitor''), s)
      | Inr m \<Rightarrow> (case execution_matches env vals networks network_slug block_no m of
          None \<Rightarrow> None
        | Some (Inl e) \<Rightarrow> Some (Inl e, s)
        | Some (Inr ms) \<Rightarrow> map_option (\<lambda>s'. (case to_json ms of
              Inl e \<Rightarrow> Inl (Execution_error (''Failed to serialize matches: '' @ e)) | Inr t \<Rightarrow> Inr t, s'))
            (handle_matches jl el exec trigger_scripts ms s)))"

section \<open>The test run of the command line\<close>

text \<open>The report (src/src/main.rs): the logged lines for the JSON of the matches.\<close>

definition printed_condition :: "string \<Rightarrow> json \<Rightarrow> string list" where
  "printed_condition what c =
     (let sig = (case get_str ''signature'' c of None \<Rightarrow> [] | Some t \<Rightarrow> t);
          expr = (case get_str ''expression'' c of None \<Rightarrow> [] | Some e \<Rightarrow> if e = [] then [] else '' where '' @ e)
      in if sig @ expr = [] then [] else [''  - '' @ what @ '': '' @ sig @ expr])"

definition array_lines :: "string \<Rightarrow> (json \<Rightarrow> string list) \<Rightarrow> json \<Rightarrow> string list" where
  "array_lines key f j = (case get_array key j of None \<Rightarrow> [] | Some l \<Rightarrow> concat (map f l))"

definition printed_conditions :: "json \<Rightarrow> string list" where
  "printed_conditions details = (case json_get ''matched_on'' details of
       None \<Rightarrow> []
     | Some on \<Rightarrow> ''Matched Conditions:'' # array_lines ''events'' (printed_condition ''Event'') on
         @ array_lines ''functions'' (printed_condition ''Function'') on
         @ array_lines ''transactions'' (\<lambda>tx. case get_str ''status'' tx of
              None \<Rightarrow> [] | Some st \<Rightarrow> [''  - Transaction Status: '' @ st]) on)"

definition printed_block_number :: "json \<Rightarrow> string" where
  "printed_block_number block = (case json_as_str block of
       None \<Rightarrow> []
     | Some hex \<Rightarrow> if prefix ''0x'' hex
         then (case u64_from_hex (trim_0x hex) of Some n \<Rightarrow> show_word n | None \<Rightarrow> hex) else hex)"

definition line_of :: "string \<Rightarrow> string option \<Rightarrow> string list" where
  "line_of label v = (case v of None \<Rightarrow> [] | Some t \<Rightarrow> [label @ t])"

definition printed_transaction :: "string \<Rightarrow> json \<Rightarrow> string list" where
  "printed_transaction chain details =
     (if chain = ''EVM'' then (case json_get ''receipt'' details of
          None \<Rightarrow> []
        | Some r \<Rightarrow> line_of ''Block: '' (map_option printed_block_number (json_get ''blockNumber'' r))
            @ line_of ''Transaction: '' (get_str ''transactionHash'' r))
      else if chain = ''Stellar'' then
        line_of ''Ledger: '' (map_option show_word (Option.bind (json_get ''ledger'' details) (get_u64 ''sequence'')))
        @ line_of ''Transaction: '' (Option.bind (json_get ''transaction'' details) (get_str ''txHash''))
      else if chain = ''Solana'' then
        line_of ''Slot: '' (map_option show_word (Option.bind (json_get ''block'' details) (get_u64 ''slot'')))
        @ line_of ''Transaction: '' (Option.bind (json_get ''transaction'' details) (get_str ''signature''))
      else [])"

text \<open>A match is an object whose key is its chain; \<open>print\<close> prints a JSON value.\<close>

definition printed_match :: "(json \<Rightarrow> string) \<Rightarrow> nat \<Rightarrow> json \<Rightarrow> string list" where
  "printed_match print idx m =
     [''Match #'' @ show_nat (idx + 1), ''-------------'']
     @ concat (map (\<lambda>(chain, details).
         line_of ''Monitor: '' (Option.bind (json_get ''monitor'' details) (get_str ''name''))
         @ [''Network: '' @ print (case json_get ''network_slug'' details of None \<Rightarrow> JNull | Some n \<Rightarrow> n)]
         @ printed_transaction chain details @ printed_conditions details)
       (case m of JObject obj \<Rightarrow> obj | _ \<Rightarrow> []))
     @ [''-------------'' @ [char_of (10 :: nat)]]"

definition execution_report :: "(string \<Rightarrow> json option) \<Rightarrow> (json \<Rightarrow> string) \<Rightarrow> bool \<Rightarrow> string \<Rightarrow> string list" where
  "execution_report parse print raw_output matches =
     (if matches = [] then [''No matches found'']
      else ''=========== Execution Results ==========='' #
        (if raw_output then [''Raw execution results'']
         else case parse matches of
             Some (JArray l) \<Rightarrow> ''Found matches'' # concat (map (\<lambda>(i, m). printed_match print i m) (List.enumerate 0 l))
           | Some _ \<Rightarrow> []
           | None \<Rightarrow> [''Failed to parse JSON output, falling back to raw output'', ''Raw execution results''])
        @ [''========================================='']) "

text \<open>\<open>test_monitor_execution\<close>: a block number needs a network.\<close>

definition test_monitor_execution :: "(string option \<Rightarrow> u64 option \<Rightarrow> 's \<Rightarrow> ((execution_error + string) \<times> 's) option) \<Rightarrow>
  (string \<Rightarrow> string list) \<Rightarrow> string option \<Rightarrow> u64 option \<Rightarrow> 's \<Rightarrow> ((execution_error + string list) \<times> 's) option" where
  "test_monitor_execution execute report network_slug block_no s =
     (if block_no \<noteq> None \<and> network_slug = None
      then Some (Inl (Execution_error ''Network name is required when executing a monitor for a specific block''), s)
      else map_option (\<lambda>(r, s'). (case r of
            Inl _ \<Rightarrow> Inl (Execution_error ''Monitor execution failed'') | Inr matches \<Rightarrow> Inr (report matches), s'))
          (execute network_slug block_no s))"

section \<open>Lemmas\<close>

lemma get_specs_single: "get_contract_specs sc [(net, [m])] = monitor_specs sc net m"
  by (simp add: get_contract_specs_def)

lemma execute_on_network_block:
  assumes "execution_block env net block_no = Inr b" "ch_client_ok (ex_chain env) net" "slug net \<in> set (mon_networks m)"
  shows "execute_on_network env m block_no net =
    map_option (\<lambda>r. case r of Inl _ \<Rightarrow> Inl (Execution_error ''Failed to filter block'') | Inr ms \<Rightarrow> Inr ms)
      (filter_service_block (ex_chain env) net b (filter_network_monitors [m] (slug net)) (Some (monitor_specs (ex_specs env) net m)))"
  using assms(1,3) by (simp add: execute_on_network_def get_specs_single filter_network_monitors_def)

section \<open>Properties\<close>


definition sample_exec_env :: "(abi_contract, unit) exec_env" where
  "sample_exec_env = \<lparr>ex_chain = sample_handler_env, ex_client = (\<lambda>_. Inr one_block_client), ex_specs = \<lparr>sc_stellar = (\<lambda>_. None)\<rparr>\<rparr>"


text \<open>A test run sends every match: the condition scripts of the monitor are not asked, so a match that
  the service drops is triggered, as the documentation says of matches found.\<close>

lemma execution_triggers_all:
  assumes "load_monitor_from_path cfg (Some path) None None = Inr m"
    "execution_matches env vals networks network_slug block_no m = Some (Inr ms)"
    "\<And>tids vars m sc s. exec tids vars m sc s = Some (ans tids m s, s @ [(tids, vars, m)])"
  shows "map_option snd (execute_monitor cfg env jl el to_json exec trigger_scripts vals networks path network_slug block_no s)
    = Some (s @ map (trigger_call jl el) ms)"
  using assms by (simp add: execute_monitor_def handle_matches_calls trigger_call_def [abs_def])

text \<open>The line for a run without matches is never printed: the JSON of no matches is not empty.\<close>

lemma no_matches_line_dead:
  "parse ''[]'' = Some (JArray []) \<Longrightarrow> ''No matches found'' \<notin> set (execution_report parse print raw_output ''[]'')"
  by (simp add: execution_report_def)

end
