(* ===== verification/Logging.thy ===== *)
theory Logging imports Prelude begin

text \<open>
  Log files and errors (src/src/utils/logging): what the environment says about logging, the
  choice of the log file, the removal of escape sequences, and the error contexts with their
  trace identifiers. Environment variables are a map; the size of a file is \<open>None\<close> if it cannot be
  read; the clock and fresh identifiers are parameters. A panic is \<open>None\<close>.
\<close>

type_synonym environment = "string \<rightharpoonup> string"

definition var_or :: "environment \<Rightarrow> string \<Rightarrow> string \<Rightarrow> string" where
  "var_or env name dflt = (case env name of None \<Rightarrow> dflt | Some v \<Rightarrow> v)"

section \<open>The log file\<close>

definition compute_rolled_file_path :: "string \<Rightarrow> string \<Rightarrow> u32 \<Rightarrow> string" where
  "compute_rolled_file_path base_file_path date_str index =
     (let trimmed = (case strip_suffix ''.log'' base_file_path of None \<Rightarrow> base_file_path | Some t \<Rightarrow> t)
      in trimmed @ ''-'' @ date_str @ ''.'' @ show_word index @ ''.log'')"

text \<open>The loop of \<open>space_based_rolling\<close>: \<open>index\<close> is the number of the next candidate.\<close>

partial_function (option) roll_from :: "(string \<Rightarrow> u64 option) \<Rightarrow> string \<Rightarrow> string \<Rightarrow> u64 \<Rightarrow> u32 \<Rightarrow> string \<Rightarrow> string option" where
  "roll_from file_size base_file_path date_str max_size index final_path = (case file_size final_path of
       None \<Rightarrow> Some final_path
     | Some len \<Rightarrow> if max_size < len
         then roll_from file_size base_file_path date_str max_size (index + 1) (compute_rolled_file_path base_file_path date_str index)
         else Some final_path)"

definition space_based_rolling :: "(string \<Rightarrow> u64 option) \<Rightarrow> string \<Rightarrow> string \<Rightarrow> string \<Rightarrow> u64 \<Rightarrow> string option" where
  "space_based_rolling file_size file_path base_file_path date_str max_size =
     roll_from file_size base_file_path date_str max_size 1 file_path"

definition parse_log_max_size :: "environment \<Rightarrow> u64 option" where
  "parse_log_max_size env = (case env ''LOG_MAX_SIZE'' of None \<Rightarrow> Some 1073741824 | Some s \<Rightarrow> parse_u64 s)"

datatype log_level = Trace | Debug | Info | Warn | Error

definition parse_level :: "string \<Rightarrow> log_level" where
  "parse_level s = (let l = to_lowercase s in
     if l = ''trace'' then Trace else if l = ''debug'' then Debug else if l = ''info'' then Info
     else if l = ''warn'' then Warn else if l = ''error'' then Error else Info)"

text \<open>What \<open>setup_logging\<close> installs: the level, whether colours are used, and the file, if any. The
  outer \<open>None\<close> is the panic on a malformed size.\<close>

record log_setup =
  ls_level :: log_level
  ls_ansi :: bool
  ls_file :: "string option"

definition log_directory :: "environment \<Rightarrow> string" where
  "log_directory env =
     (let dir = (if env ''IN_DOCKER'' = Some ''true'' then ''logs/'' else var_or env ''LOG_DATA_DIR'' ''logs/'')
      in rev (dropWhile (\<lambda>c. c = CHR ''/'') (rev dir)) @ ''/'')"

definition setup_logging :: "environment \<Rightarrow> (string \<Rightarrow> u64 option) \<Rightarrow> string \<Rightarrow> log_setup option" where
  "setup_logging env file_size date_str =
     (let level = parse_level (var_or env ''LOG_LEVEL'' ''info'');
          to_file = (to_lowercase (var_or env ''LOG_MODE'' ''stdout'') = ''file'')
      in if \<not> to_file then Some \<lparr>ls_level = level, ls_ansi = True, ls_file = None\<rparr>
         else let base_file_path = log_directory env @ ''monitor.log'';
                  time_based_path = compute_rolled_file_path base_file_path date_str 1
              in case parse_log_max_size env of
                  None \<Rightarrow> None
                | Some max_size \<Rightarrow> map_option (\<lambda>path. \<lparr>ls_level = level, ls_ansi = False, ls_file = Some path\<rparr>)
                    (space_based_rolling file_size time_based_path base_file_path date_str max_size))"

text \<open>Whether the log may be continued in a file: it is not there, or not above the limit.\<close>

definition has_room :: "(string \<Rightarrow> u64 option) \<Rightarrow> u64 \<Rightarrow> string \<Rightarrow> bool" where
  "has_room file_size max_size path \<longleftrightarrow> (case file_size path of None \<Rightarrow> True | Some len \<Rightarrow> len \<le> max_size)"

lemma roll_from_step:
  "roll_from file_size base date max_size index path =
     (if has_room file_size max_size path then Some path
      else roll_from file_size base date max_size (index + 1) (compute_rolled_file_path base date index))"
  by (subst roll_from.simps) (auto simp: has_room_def split: option.split)

lemma roll_from_first:
  assumes "has_room file_size max_size (compute_rolled_file_path base date (of_nat (j + n)))"
    "\<And>i. i < n \<Longrightarrow> \<not> has_room file_size max_size (compute_rolled_file_path base date (of_nat (j + i)))"
  shows "roll_from file_size base date max_size (of_nat j + 1) (compute_rolled_file_path base date (of_nat j))
    = Some (compute_rolled_file_path base date (of_nat (j + n)))"
  using assms
proof (induction n arbitrary: j)
  case 0
  then show ?case by (subst roll_from_step) simp
next
  case (Suc n)
  have "\<not> has_room file_size max_size (compute_rolled_file_path base date (of_nat j))" using Suc.prems(2) [of 0] by simp
  moreover have "roll_from file_size base date max_size (of_nat (Suc j) + 1) (compute_rolled_file_path base date (of_nat (Suc j)))
      = Some (compute_rolled_file_path base date (of_nat (Suc j + n)))"
  proof (rule Suc.IH)
    show "has_room file_size max_size (compute_rolled_file_path base date (of_nat (Suc j + n)))" using Suc.prems(1) by simp
    show "\<not> has_room file_size max_size (compute_rolled_file_path base date (of_nat (Suc j + i)))" if "i < n" for i
      using Suc.prems(2) [of "Suc i"] that by simp
  qed
  ultimately show ?case by (subst roll_from_step) (simp add: add_ac)
qed

section \<open>Escape sequences\<close>

text \<open>The regular expression \<open>\x1b\[[0-9;]*[a-zA-Z]\<close>: the rest after a match at the start.\<close>

definition escape_at :: "string \<Rightarrow> string option" where
  "escape_at s = (case s of
       c # d # rest \<Rightarrow>
         if char_code c = 27 \<and> d = CHR ''['' then
           (case dropWhile (\<lambda>c. is_digit c \<or> c = CHR '';'') rest of
              e # r \<Rightarrow> if is_alpha e then Some r else None
            | [] \<Rightarrow> None)
         else None
     | _ \<Rightarrow> None)"

lemma length_escape_at: "escape_at s = Some r \<Longrightarrow> length r < length s"
  using length_dropWhile_le [of "\<lambda>c. is_digit c \<or> c = CHR '';''" "tl (tl s)"]
  by (auto simp: escape_at_def split: list.split_asm if_split_asm)

function strip_ansi_escapes :: "string \<Rightarrow> string" where
  "strip_ansi_escapes [] = []"
| "strip_ansi_escapes (c # s) = (case escape_at (c # s) of
       Some r \<Rightarrow> strip_ansi_escapes r
     | None \<Rightarrow> c # strip_ansi_escapes s)"
  by pat_completeness auto
termination by (relation "measure length") (auto dest: length_escape_at)

text \<open>Removing the sequences once may form a new one, so a text can carry a colour into the log file.\<close>

definition esc_char :: char where "esc_char = char_of (27 :: nat)"

lemma escapes_can_remain:
  "strip_ansi_escapes (esc_char # ''['' @ [esc_char] @ ''[0m31mred'') = esc_char # ''[31mred''"
  by code_simp

section \<open>Errors\<close>

text \<open>An error value: its text, its type, the identifier that its own \<open>trace_id\<close> gives, and its
  source. Foreign errors come from libraries.\<close>

datatype error_kind = Error_context_kind | Notification_kind | Trigger_kind | Filter_kind | Block_watcher_kind
  | Block_chain_kind | Repository_kind | Script_kind | Config_kind | Transport_kind | Solana_client_kind
  | Stellar_client_kind | Evaluation_kind | Security_kind | Monitor_execution_kind | Foreign_kind

datatype error_value = Error_value (er_text: string) (er_kind: error_kind) (er_own_trace: string) (er_source: "error_value option")

text \<open>The types that the downcasts try.\<close>

definition try_extract_trace_id :: "error_value \<Rightarrow> string option" where
  "try_extract_trace_id err =
     (if er_kind err \<in> {Error_context_kind, Notification_kind, Trigger_kind, Filter_kind, Block_watcher_kind, Block_chain_kind,
        Repository_kind, Script_kind, Config_kind}
      then Some (er_own_trace err) else None)"

record error_context =
  ec_message :: string
  ec_source :: "error_value option"
  ec_metadata :: "(string \<times> string) list option"
  ec_trace_id :: string

fun trace_in_chain :: "nat \<Rightarrow> error_value option \<Rightarrow> string option" where
  "trace_in_chain 0 source = None"
| "trace_in_chain (Suc depth) source = (case source of
       None \<Rightarrow> None
     | Some err \<Rightarrow> (case try_extract_trace_id err of Some i \<Rightarrow> Some i | None \<Rightarrow> trace_in_chain depth (er_source err)))"

definition max_depth :: nat where "max_depth = 3"

definition trace_id_of :: "string \<Rightarrow> error_value \<Rightarrow> string" where
  "trace_id_of fresh err = (case try_extract_trace_id err of
       Some i \<Rightarrow> i
     | None \<Rightarrow> (case trace_in_chain max_depth (er_source err) of Some i \<Rightarrow> i | None \<Rightarrow> fresh))"

definition new_error_context :: "string \<Rightarrow> string \<Rightarrow> error_value option \<Rightarrow> (string \<times> string) list option \<Rightarrow> error_context" where
  "new_error_context fresh message source metadata =
     \<lparr>ec_message = message, ec_source = source, ec_metadata = metadata,
      ec_trace_id = (case source of Some src \<Rightarrow> trace_id_of fresh src | None \<Rightarrow> fresh)\<rparr>"

text \<open>Metadata is a hash map: a list of distinct keys in the order of the iteration.\<close>

definition with_metadata :: "string \<Rightarrow> string \<Rightarrow> error_context \<Rightarrow> error_context" where
  "with_metadata key val ctx = ctx\<lparr>ec_metadata :=
     Some (AList.update key val (case ec_metadata ctx of None \<Rightarrow> [] | Some m \<Rightarrow> m))\<rparr>"

definition format_with_metadata :: "error_context \<Rightarrow> string" where
  "format_with_metadata ctx = (case ec_metadata ctx of
       None \<Rightarrow> ec_message ctx
     | Some m \<Rightarrow> if m = [] then ec_message ctx
         else ec_message ctx @ '' ['' @ join_with '', '' (map (\<lambda>(k, v). k @ ''='' @ v) (sort_key fst m)) @ '']'')"

text \<open>An error context as the source of another error, and an error type of the program made from a
  context, whose source is not passed on.\<close>

definition error_of_context :: "error_context \<Rightarrow> error_value" where
  "error_of_context ctx = Error_value (format_with_metadata ctx) Error_context_kind (ec_trace_id ctx) (ec_source ctx)"

definition typed_error :: "error_kind \<Rightarrow> string \<Rightarrow> error_context \<Rightarrow> error_value" where
  "typed_error kind title ctx = Error_value (title @ '': '' @ format_with_metadata ctx) kind (ec_trace_id ctx) None"

definition sanitize_error_message :: "string \<Rightarrow> string" where
  "sanitize_error_message message =
     (if sublist ''<html>'' message \<or> sublist ''<head>'' message \<or> sublist ''<body>'' message
      then trim (takeWhile (\<lambda>c. c \<noteq> CHR ''<'') message) else message)"

fun error_causes :: "error_value option \<Rightarrow> string" where
  "error_causes None = []"
| "error_causes (Some (Error_value txt kind tr src)) = char_of (10 :: nat) # char_of (9 :: nat) # ''Caused by: ''
     @ sanitize_error_message txt @ error_causes src"

definition format_error_chain :: "error_value \<Rightarrow> string" where
  "format_error_chain err = sanitize_error_message (er_text err) @ error_causes (er_source err)"

section \<open>Properties\<close>

text \<open>Rolling ends and picks the first file with room: if a numbered log file of the day is missing
  or not above the limit, logging goes to the first such file, counted from one.\<close>

theorem first_log_file_with_room:
  assumes "1 \<le> n" "has_room file_size max_size (compute_rolled_file_path base date (of_nat n))"
    "\<forall>i \<in> {1..<n}. \<not> has_room file_size max_size (compute_rolled_file_path base date (of_nat i))"
  shows "space_based_rolling file_size (compute_rolled_file_path base date 1) base date max_size
    = Some (compute_rolled_file_path base date (of_nat n))"
proof -
  let ?path = "\<lambda>i. compute_rolled_file_path base date i"
  have again: "roll_from file_size base date max_size (of_nat 1 + 1) (?path (of_nat 1)) = Some (?path (of_nat (1 + (n - 1))))"
  proof (rule roll_from_first)
    show "has_room file_size max_size (?path (of_nat (1 + (n - 1))))" using assms(1,2) by simp
    show "\<not> has_room file_size max_size (?path (of_nat (1 + i)))" if "i < n - 1" for i
      using bspec [OF assms(3), of "1 + i"] that by simp
  qed
  show ?thesis
  proof (cases "has_room file_size max_size (?path 1)")
    case True
    then have "n = 1" using bspec [OF assms(3), of 1] assms(1) by (cases "n = 1") auto
    then show ?thesis using True by (simp add: space_based_rolling_def roll_from_step [of _ _ _ _ 1])
  next
    case False
    then show ?thesis using again assms(1)
      by (subst space_based_rolling_def, subst roll_from_step) (simp add: add_ac)
  qed
qed

theorem first_log_file_with_room_witness:
  "space_based_rolling (\<lambda>p. if p = ''logs/monitor-2025-01-01.1.log'' then Some 100 else if p = ''logs/monitor-2025-01-01.2.log''
      then Some 20 else None) ''logs/monitor-2025-01-01.1.log'' ''logs/monitor.log'' ''2025-01-01'' 50 = Some ''logs/monitor-2025-01-01.2.log''"
proof -
  have c: "compute_rolled_file_path ''logs/monitor.log'' ''2025-01-01'' 1 = ''logs/monitor-2025-01-01.1.log''"
    "compute_rolled_file_path ''logs/monitor.log'' ''2025-01-01'' 2 = ''logs/monitor-2025-01-01.2.log''"
    by code_simp+
  have "{1..<2} = {1::nat}" by auto
  then show ?thesis
    using first_log_file_with_room [of 2 "\<lambda>p. if p = ''logs/monitor-2025-01-01.1.log'' then Some 100 else
        if p = ''logs/monitor-2025-01-01.2.log'' then Some 20 else None" 50 "''logs/monitor.log''" "''2025-01-01''"]
    by (simp add: c has_room_def)
qed

text \<open>The documented sizes stop the program: with \<open>LOG_MAX_SIZE\<close> in the human-readable form of the
  documentation and a log file, logging panics.\<close>

lemma documented_size_panics:
  "env ''LOG_MODE'' = Some ''file'' \<Longrightarrow> env ''LOG_MAX_SIZE'' = Some ''1GB'' \<Longrightarrow> setup_logging env file_size date_str = None"
proof -
  assume env: "env ''LOG_MODE'' = Some ''file''" "env ''LOG_MAX_SIZE'' = Some ''1GB''"
  have "parse_u64 ''1GB'' = None" "to_lowercase ''file'' = ''file''" by code_simp+
  with env show ?thesis by (simp add: setup_logging_def Let_def var_or_def parse_log_max_size_def)
qed

text \<open>Errors of libraries around an error.\<close>

fun wrapped :: "string list \<Rightarrow> error_value \<Rightarrow> error_value" where
  "wrapped [] err = err"
| "wrapped (txt # txts) err = Error_value txt Foreign_kind [] (Some (wrapped txts err))"

lemma trace_in_wrapped:
  "try_extract_trace_id err = Some i \<Longrightarrow> trace_in_chain depth (Some (wrapped txts err)) = (if length txts < depth then Some i else None)"
  by (induction txts arbitrary: depth; case_tac depth) (auto simp: try_extract_trace_id_def)



text \<open>Six error types of the program are not known to the extraction: an error of one of them loses its
  identifier in the context around it.\<close>

lemma unknown_type_loses_trace:
  assumes "kind \<in> {Transport_kind, Solana_client_kind, Stellar_client_kind, Evaluation_kind, Security_kind, Monitor_execution_kind}"
  shows "ec_trace_id (new_error_context fresh message (Some (typed_error kind title ctx)) metadata) = fresh"
  using assms by (auto simp: new_error_context_def trace_id_of_def try_extract_trace_id_def typed_error_def max_depth_def
      eval_nat_numeral)

text \<open>The printed metadata does not depend on the order of the hash map.\<close>

lemma metadata_order_irrelevant:
  assumes "mset m = mset m'" "distinct (map fst m)"
  shows "format_with_metadata (ctx\<lparr>ec_metadata := Some m\<rparr>) = format_with_metadata (ctx\<lparr>ec_metadata := Some m'\<rparr>)"
proof -
  have "sort_key fst m = sort_key fst m'"
    using assms by (intro sorted_key_unique [where key = fst])
      (simp_all add: distinct_map distinct_map_sort_key)
  then show ?thesis using assms(1) by (auto simp: format_with_metadata_def)
qed

end
