(* ===== verification/Program.thy ===== *)
theory Program imports Monitor_Execution Logging Config_Properties begin

text \<open>
  The program (src/src/main.rs and the construction of the services in src/src/bootstrap/mod.rs):
  command line and environment, initialisation, the watchers of the networks with active
  monitors, shutdown, the validation of the configuration and the test run. What the loop of
  \<open>start_network_watcher\<close> needs of a client is whether it can be made. A hash map is listed by a
  function that gives its entries in the order of the iteration.
\<close>

section \<open>Command line and environment\<close>

record cli =
  cli_log_file :: bool
  cli_log_level :: "string option"
  cli_log_path :: "string option"
  cli_log_max_size :: "u64 option"
  cli_metrics_address :: "string option"
  cli_metrics :: bool
  cli_monitor_path :: "string option"
  cli_network :: "string option"
  cli_block :: "u64 option"
  cli_check :: bool

definition set_opt :: "string \<Rightarrow> string option \<Rightarrow> environment \<Rightarrow> environment" where
  "set_opt name v env = (case v of None \<Rightarrow> env | Some x \<Rightarrow> env(name \<mapsto> x))"

text \<open>\<open>split(':').nth(1)\<close>\<close>

definition port_of :: "string \<Rightarrow> string option" where
  "port_of address = (case split_at_char CHR '':'' [] address of _ # port # _ \<Rightarrow> Some port | _ \<Rightarrow> None)"

text \<open>\<open>dotenv\<close>: the variables of the file \<open>.env\<close>, which override those of the environment.\<close>

definition apply_to_env :: "cli \<Rightarrow> environment \<Rightarrow> environment \<Rightarrow> environment" where
  "apply_to_env c dotenv env0 =
     (let env1 = env0 ++ dotenv;
          env2 = set_opt ''LOG_MODE'' (if cli_log_file c then Some ''file'' else None) env1;
          env3 = set_opt ''LOG_LEVEL'' (env2 ''RUST_LOG'') env2;
          env4 = set_opt ''RUST_LOG'' (cli_log_level c) (set_opt ''LOG_LEVEL'' (cli_log_level c) env3);
          env5 = set_opt ''LOG_DATA_DIR'' (cli_log_path c) env4;
          env6 = set_opt ''LOG_MAX_SIZE'' (map_option show_word (cli_log_max_size c)) env5;
          env7 = set_opt ''METRICS_ENABLED'' (if cli_metrics c then Some ''true'' else None) env6
      in set_opt ''METRICS_PORT'' (Option.bind (cli_metrics_address c) port_of) env7)"

definition metrics_enabled :: "cli \<Rightarrow> environment \<Rightarrow> bool" where
  "metrics_enabled c env \<longleftrightarrow> cli_metrics c \<or> env ''METRICS_ENABLED'' = Some ''true''"

definition metrics_address :: "cli \<Rightarrow> environment \<Rightarrow> string" where
  "metrics_address c env =
     (if env ''IN_DOCKER'' = Some ''true'' then ''0.0.0.0:'' @ var_or env ''METRICS_PORT'' ''8081''
      else case cli_metrics_address c of None \<Rightarrow> ''127.0.0.1:8081'' | Some a \<Rightarrow> a)"

text \<open>The address that \<open>create_metrics_server\<close> binds.\<close>

definition metrics_bind_address :: "environment \<Rightarrow> string \<Rightarrow> string" where
  "metrics_bind_address env bind_address =
     (if env ''IN_DOCKER'' = Some ''true''
      then (case port_of bind_address of Some port \<Rightarrow> ''0.0.0.0:'' @ port | None \<Rightarrow> ''0.0.0.0:8081'')
      else bind_address)"

section \<open>Services\<close>

record 'abi services =
  sv_active_monitors :: "'abi monitor list"
  sv_monitors :: "string \<rightharpoonup> 'abi monitor"
  sv_networks :: "string \<rightharpoonup> network"
  sv_triggers :: "string \<rightharpoonup> trigger"

definition initialize_services :: "'abi config_env \<Rightarrow> ((string \<rightharpoonup> 'abi monitor) \<Rightarrow> (string \<times> 'abi monitor) list) \<Rightarrow>
  (string \<rightharpoonup> 'abi monitor) option \<Rightarrow> (string \<rightharpoonup> network) option \<Rightarrow> (string \<rightharpoonup> trigger) option \<Rightarrow>
  repository_error + 'abi services" where
  "initialize_services env order monitor_service network_service trigger_service =
     res_bind (networks_or_default env network_service) (\<lambda>networks.
     res_bind (triggers_or_default env trigger_service) (\<lambda>triggers.
     res_bind (case monitor_service of
         Some monitors \<Rightarrow> Inr monitors
       | None \<Rightarrow> load_monitor_repository env order None (Some networks) (Some triggers)) (\<lambda>monitors.
     Inr \<lparr>sv_active_monitors = filter_active_monitors (map snd (order monitors)), sv_monitors = monitors,
          sv_networks = networks, sv_triggers = triggers\<rparr>)))"

definition networks_with_monitors :: "'abi monitor list \<Rightarrow> network list \<Rightarrow> network list" where
  "networks_with_monitors active nets = filter (\<lambda>net. has_active_monitors active (slug net)) nets"

definition network_monitors :: "'abi monitor list \<Rightarrow> network list \<Rightarrow> (network \<times> 'abi monitor list) list" where
  "network_monitors active nets = map (\<lambda>net. (net, filter (\<lambda>m. slug net \<in> set (mon_networks m)) active)) nets"

section \<open>Watchers\<close>

text \<open>The client of a network: on Solana restricted to the addresses of the monitors, if there are any.\<close>

datatype client_request = Plain_client network | Client_for_addresses network "string list"

definition program_addresses :: "(network \<times> 'abi monitor list) list \<Rightarrow> network \<Rightarrow> string list" where
  "program_addresses nms net = remdups (concat (map (\<lambda>(n, ms). concat (map (\<lambda>m. map aw_address (mon_addresses m)) ms))
     (filter (\<lambda>(n, _). slug n = slug net) nms)))"

definition watcher_client :: "(network \<times> 'abi monitor list) list \<Rightarrow> network \<Rightarrow> client_request" where
  "watcher_client nms net =
     (if network_type net = Solana \<and> program_addresses nms net \<noteq> []
      then Client_for_addresses net (program_addresses nms net) else Plain_client net)"

definition start_network :: "'j job_scheduler \<Rightarrow> (client_request \<Rightarrow> bool) \<Rightarrow> (network \<times> 'abi monitor list) list \<Rightarrow>
  network \<Rightarrow> 'j watchers \<Rightarrow> 'j watchers" where
  "start_network js client_ok nms net ws =
     (if client_ok (watcher_client nms net) then snd (start_network_watcher js net ws) else ws)"

definition start_networks :: "'j job_scheduler \<Rightarrow> (client_request \<Rightarrow> bool) \<Rightarrow> 'abi monitor list \<Rightarrow> network list \<Rightarrow>
  'j watchers \<Rightarrow> 'j watchers" where
  "start_networks js client_ok active nets ws =
     fold (start_network js client_ok (network_monitors active nets)) nets ws"

definition stop_networks :: "'j job_scheduler \<Rightarrow> network list \<Rightarrow> 'j watchers \<Rightarrow> 'j watchers" where
  "stop_networks js nets ws = fold (\<lambda>net ws. snd (stop_network_watcher js (slug net) ws)) nets ws"

section \<open>Running\<close>

text \<open>The lines of \<open>validate_configuration\<close>: all went well, or what is missing. Its caller succeeds in
  any case.\<close>

datatype check_report = Check_ok nat nat | No_active_monitors | No_networks_with_monitors | Check_failed repository_error

definition validate_configuration :: "((string \<rightharpoonup> network) \<Rightarrow> network list) \<Rightarrow> repository_error + 'abi services \<Rightarrow> check_report" where
  "validate_configuration vals init = (case init of
       Inl e \<Rightarrow> Check_failed e
     | Inr sv \<Rightarrow>
       if sv_active_monitors sv = [] then No_active_monitors
       else let nets = networks_with_monitors (sv_active_monitors sv) (vals (sv_networks sv)) in
         if nets = [] then No_networks_with_monitors
         else Check_ok (length (sv_active_monitors sv)) (length nets))"

text \<open>How a run of the program ends; a service that ran has its watchers while it served and after the
  shutdown.\<close>

datatype ('j, 's) main_outcome =
    Failed_to_start
  | Configuration_checked check_report
  | Monitor_executed "((execution_error + string list) \<times> 's) option"
  | Nothing_to_watch
  | Served "'j watchers" "'j watchers"

definition run_main :: "cli \<Rightarrow> 'abi config_env \<Rightarrow> ((string \<rightharpoonup> 'abi monitor) \<Rightarrow> (string \<times> 'abi monitor) list) \<Rightarrow>
  ((string \<rightharpoonup> network) \<Rightarrow> network list) \<Rightarrow> (string \<Rightarrow> string option) \<Rightarrow> 'j job_scheduler \<Rightarrow> (client_request \<Rightarrow> bool) \<Rightarrow>
  ('abi services \<Rightarrow> scripts \<Rightarrow> string \<Rightarrow> string option \<Rightarrow> u64 option \<Rightarrow> 's \<Rightarrow> ((execution_error + string) \<times> 's) option) \<Rightarrow>
  (string \<Rightarrow> string list) \<Rightarrow> 's \<Rightarrow> ('j, 's) main_outcome" where
  "run_main c env order vals read js client_ok execute report s =
     (let init = initialize_services env order None None None in
      if cli_check c then Configuration_checked (validate_configuration vals init)
      else case init of
        Inl _ \<Rightarrow> Failed_to_start
      | Inr sv \<Rightarrow> (case load_scripts read (sv_triggers sv) (sv_active_monitors sv) of
          Inl _ \<Rightarrow> Failed_to_start
        | Inr trigger_scripts \<Rightarrow> (case cli_monitor_path c of
            Some path \<Rightarrow> Monitor_executed
              (test_monitor_execution (execute sv trigger_scripts path) report (cli_network c) (cli_block c) s)
          | None \<Rightarrow>
            let nets = networks_with_monitors (sv_active_monitors sv) (vals (sv_networks sv)) in
            if nets = [] then Nothing_to_watch
            else let ws = start_networks js client_ok (sv_active_monitors sv) nets Map.empty
                 in Served ws (stop_networks js (vals (sv_networks sv)) ws))))"

section \<open>Lemmas\<close>

text \<open>Whether the watcher of a network can be started when none runs.\<close>

definition can_start :: "'j job_scheduler \<Rightarrow> (client_request \<Rightarrow> bool) \<Rightarrow> (network \<times> 'abi monitor list) list \<Rightarrow> network \<Rightarrow> bool" where
  "can_start js client_ok nms net \<longleftrightarrow> client_ok (watcher_client nms net)
     \<and> is_ok (res_bind (new_network_watcher js net) (start_watcher js))"

lemma start_network_dom:
  "dom (start_network js client_ok nms net ws) = dom ws \<union> (if can_start js client_ok nms net then {slug net} else {})"
  by (auto simp: start_network_def can_start_def start_network_watcher_def is_ok_iff split: sum.split)

lemma start_networks_dom:
  "dom (fold (start_network js client_ok nms) nets ws) = dom ws \<union> slug ` set (filter (can_start js client_ok nms) nets)"
  by (induction nets arbitrary: ws) (auto simp: start_network_dom)

lemma stop_networks_eq: "stop_networks js nets ws = ws |` (- slug ` set nets)"
  unfolding stop_networks_def
proof (induction nets arbitrary: ws)
  case (Cons net nets)
  have "snd (stop_network_watcher js (slug net) ws) = ws(slug net := None)"
    by (auto simp: stop_network_watcher_def fun_upd_idem_iff split: option.split sum.split)
  with Cons show ?case by (auto simp: restrict_map_def fun_eq_iff)
qed (simp add: restrict_map_def fun_eq_iff)

lemma initialize_active:
  "initialize_services env order None None None = Inr sv \<Longrightarrow>
    sv_active_monitors sv = filter_active_monitors (map snd (order (sv_monitors sv)))"
  by (auto simp: initialize_services_def res_bind_Inr_iff)

lemma has_active_iff:
  assumes "distinct (map fst (order monitors))" "map_of (order monitors) = monitors"
  shows "has_active_monitors (filter_active_monitors (map snd (order monitors))) sl \<longleftrightarrow>
    (\<exists>m \<in> ran monitors. \<not> mon_paused m \<and> sl \<in> set (mon_networks m))"
proof -
  have "ran monitors = snd ` set (order monitors)" using ran_distinct [OF assms(1)] assms(2) by simp
  then show ?thesis by (auto simp: has_active_monitors_def filter_active_monitors_def list_ex_iff)
qed

lemma set_opt_apply: "set_opt name v env k = (if k = name then (case v of None \<Rightarrow> env k | Some x \<Rightarrow> Some x) else env k)"
  by (simp add: set_opt_def split: option.split)

lemma log_size_from_cli:
  "parse_log_max_size (apply_to_env c dotenv env) = (case cli_log_max_size c of
     Some n \<Rightarrow> Some n | None \<Rightarrow> parse_log_max_size (env ++ dotenv))"
  by (cases "cli_log_max_size c") (simp_all add: apply_to_env_def Let_def set_opt_apply parse_log_max_size_def)

text \<open>The level: that of the command line, else \<open>RUST_LOG\<close>, which hides \<open>LOG_LEVEL\<close>.\<close>

lemma log_level_from_cli:
  "var_or (apply_to_env c dotenv env) ''LOG_LEVEL'' ''info'' = (case cli_log_level c of
     Some l \<Rightarrow> l
   | None \<Rightarrow> (case (env ++ dotenv) ''RUST_LOG'' of Some l \<Rightarrow> l | None \<Rightarrow> var_or (env ++ dotenv) ''LOG_LEVEL'' ''info''))"
proof -
  define e where "e = env ++ dotenv"
  show ?thesis unfolding apply_to_env_def Let_def e_def [symmetric]
    by (cases "cli_log_level c"; cases "e ''RUST_LOG''") (simp_all add: set_opt_apply var_or_def)
qed

text \<open>Outside Docker the documented \<open>METRICS_PORT\<close> has no effect.\<close>

lemma metrics_port_ignored:
  "env ''IN_DOCKER'' \<noteq> Some ''true'' \<Longrightarrow>
    metrics_bind_address (env(''METRICS_PORT'' \<mapsto> p)) (metrics_address c (env(''METRICS_PORT'' \<mapsto> p)))
      = (case cli_metrics_address c of None \<Rightarrow> ''127.0.0.1:8081'' | Some a \<Rightarrow> a)"
  by (simp add: metrics_bind_address_def metrics_address_def)

section \<open>Properties\<close>

text \<open>C5. Exactly the right networks are watched: while the service runs, the watched slugs are those of
  the configured networks that an active monitor lists, whose client can be made and whose
  watcher can be started; and after the shutdown nothing is watched any more.\<close>

theorem watched_networks_exact:
  assumes "initialize_services env order None None None = Inr sv"
    "run_main c env order vals read js client_ok execute report s = Served ws ws'"
    "distinct (map fst (order (sv_monitors sv)))" "map_of (order (sv_monitors sv)) = sv_monitors sv"
    "set (vals (sv_networks sv)) = ran (sv_networks sv)"
  shows "dom ws = slug ` {net \<in> ran (sv_networks sv).
      (\<exists>m \<in> ran (sv_monitors sv). \<not> mon_paused m \<and> slug net \<in> set (mon_networks m))
      \<and> can_start js client_ok (network_monitors (sv_active_monitors sv)
          (networks_with_monitors (sv_active_monitors sv) (vals (sv_networks sv)))) net}
    \<and> ws' = Map.empty"
proof -
  let ?active = "sv_active_monitors sv"
  let ?nets = "networks_with_monitors ?active (vals (sv_networks sv))"
  have ws: "ws = start_networks js client_ok ?active ?nets Map.empty" "ws' = stop_networks js (vals (sv_networks sv)) ws"
    using assms(1,2) by (auto simp: run_main_def Let_def split: if_split_asm sum.split_asm option.split_asm)
  have active: "has_active_monitors ?active sl \<longleftrightarrow> (\<exists>m \<in> ran (sv_monitors sv). \<not> mon_paused m \<and> sl \<in> set (mon_networks m))" for sl
    using has_active_iff [of order "sv_monitors sv", OF assms(3,4)] initialize_active [OF assms(1)] by simp
  have dom: "dom ws = slug ` set (filter (can_start js client_ok (network_monitors ?active ?nets)) ?nets)"
    unfolding ws(1) start_networks_def start_networks_dom by simp
  then have "dom ws \<subseteq> slug ` set (vals (sv_networks sv))" by (auto simp: networks_with_monitors_def)
  then have "ws' = Map.empty" unfolding ws(2) stop_networks_eq by (auto simp: restrict_map_def fun_eq_iff)
  moreover have "set (filter (can_start js client_ok (network_monitors ?active ?nets)) ?nets) =
      {net \<in> ran (sv_networks sv). (\<exists>m \<in> ran (sv_monitors sv). \<not> mon_paused m \<and> slug net \<in> set (mon_networks m))
        \<and> can_start js client_ok (network_monitors ?active ?nets) net}"
    by (auto simp: networks_with_monitors_def active assms(5))
  ultimately show ?thesis by (simp only: dom)
qed

text \<open>A scheduler that can do everything, and a client for every network.\<close>

definition sample_scheduler :: "watcher_job list job_scheduler" where
  "sample_scheduler = \<lparr>js_cron_ok = (\<lambda>_. True), js_new = Inr [], js_add = (\<lambda>job j. Inr (job # j)), js_start = Inr, js_shutdown = Inr\<rparr>"

definition listed_networks :: "(string \<rightharpoonup> network) \<Rightarrow> network list" where
  "listed_networks nets = (case nets ''eth'' of None \<Rightarrow> [] | Some net \<Rightarrow> [net])"

definition sample_services :: "abi_contract services" where
  "sample_services = \<lparr>sv_active_monitors = [config_monitor], sv_monitors = [''big'' \<mapsto> config_monitor],
     sv_networks = [''eth'' \<mapsto> config_network], sv_triggers = [''notify'' \<mapsto> script_trigger]\<rparr>"

definition sample_program_config :: "abi_contract config_env" where
  "sample_program_config = (sample_config config_network config_monitor script_trigger)\<lparr>ce_fs := \<lparr>cf_exists = (\<lambda>_. True),
     cf_read_dir = (\<lambda>d. Inr [Inr (if d = ''config/networks'' then ''networks/eth.json'' else ''d/big.json'')]), cf_open = Inr\<rparr>\<rparr>"

lemma sample_initialize: "initialize_services sample_program_config one_monitor None None None = Inr sample_services"
proof -
  have "load_networks sample_program_config None = Inr [(''eth'', config_network)]"
    "load_triggers sample_program_config None = Inr [(''notify'', script_trigger)]"
    "load_monitors sample_program_config None = Inr [(''big'', config_monitor)]"
    "validate_monitor_references (ce_fs sample_program_config) [(''big'', config_monitor)]
      [''notify'' \<mapsto> script_trigger] [''eth'' \<mapsto> config_network] = Inr ()" by code_simp+
  then show ?thesis
    by (simp add: initialize_services_def networks_or_default_def triggers_or_default_def load_network_repository_def
        load_trigger_repository_def load_monitor_repository_def load_error_def hash_map_of_def one_monitor_def
        sample_services_def filter_active_monitors_def Let_def)
      (simp add: config_monitor_def sample_monitor_def)
qed

definition sample_cli :: cli where
  "sample_cli = \<lparr>cli_log_file = False, cli_log_level = None, cli_log_path = None, cli_log_max_size = None,
     cli_metrics_address = None, cli_metrics = False, cli_monitor_path = None, cli_network = None, cli_block = None, cli_check = False\<rparr>"

text \<open>The check of the configuration predicts the start: if the scripts of the active monitors can be
  loaded, the service starts to watch exactly when \<open>--check\<close> reports success, and otherwise fails
  to start or finds nothing to watch as reported.\<close>

theorem check_predicts_start:
  assumes "cli_monitor_path c = None"
    "\<And>sv. initialize_services env order None None None = Inr sv \<Longrightarrow> is_ok (load_scripts read (sv_triggers sv) (sv_active_monitors sv))"
  shows "case run_main (c\<lparr>cli_check := True\<rparr>) env order vals read js client_ok execute report s of
      Configuration_checked (Check_ok k n) \<Rightarrow>
        \<exists>ws ws'. run_main (c\<lparr>cli_check := False\<rparr>) env order vals read js client_ok execute report s = Served ws ws'
    | Configuration_checked (Check_failed e) \<Rightarrow>
        run_main (c\<lparr>cli_check := False\<rparr>) env order vals read js client_ok execute report s = Failed_to_start
    | Configuration_checked r \<Rightarrow>
        run_main (c\<lparr>cli_check := False\<rparr>) env order vals read js client_ok execute report s = Nothing_to_watch
    | r \<Rightarrow> False"
proof (cases "initialize_services env order None None None")
  case (Inl e)
  then show ?thesis by (simp add: run_main_def validate_configuration_def)
next
  case (Inr sv)
  then obtain scr where "load_scripts read (sv_triggers sv) (sv_active_monitors sv) = Inr scr"
    using assms(2) by (auto simp: is_ok_iff)
  moreover have "networks_with_monitors [] nets = []" for nets
    by (simp add: networks_with_monitors_def has_active_monitors_def)
  ultimately show ?thesis using Inr assms(1)
    by (auto simp: run_main_def validate_configuration_def Let_def)
qed

definition read_script :: "string \<Rightarrow> string option" where "read_script p = Some ''exit 0''"

lemma sample_scripts_load: "is_ok (load_scripts read_script (sv_triggers sample_services) (sv_active_monitors sample_services))"
  by code_simp

abbreviation sample_main :: "bool \<Rightarrow> (watcher_job list, unit) main_outcome" where
  "sample_main chk \<equiv> run_main (sample_cli\<lparr>cli_check := chk\<rparr>) sample_program_config one_monitor listed_networks read_script
     sample_scheduler (\<lambda>_. True) (\<lambda>_ _ _ _ _ s. None) (\<lambda>t. [t]) ()"

lemma sample_checked: "sample_main True = Configuration_checked (Check_ok 1 1)"
proof -
  have "validate_configuration listed_networks (Inr sample_services) = Check_ok 1 1" by code_simp
  then show ?thesis by (simp add: run_main_def sample_initialize)
qed

theorem check_predicts_start_witness: "\<exists>ws ws'. sample_main False = Served ws ws'"
proof -
  have "is_ok (load_scripts read_script (sv_triggers sv) (sv_active_monitors sv))"
    if "initialize_services sample_program_config one_monitor None None None = Inr sv" for sv
    using that sample_scripts_load by (simp add: sample_initialize)
  moreover have "cli_monitor_path sample_cli = None" by (simp add: sample_cli_def)
  ultimately show ?thesis
    using check_predicts_start [of sample_cli sample_program_config one_monitor read_script listed_networks sample_scheduler
        "\<lambda>_. True" "\<lambda>_ _ _ _ _ s. None" "\<lambda>t. [t]" "()"] sample_checked by simp
qed

theorem watched_networks_exact_witness:
  "\<exists>ws ws'. sample_main False = Served ws ws' \<and> dom ws = {''eth''} \<and> ws' = Map.empty"
proof -
  let ?sv = sample_services
  let ?nms = "network_monitors (sv_active_monitors ?sv) (networks_with_monitors (sv_active_monitors ?sv) (listed_networks (sv_networks ?sv)))"
  have init: "\<exists>scr. load_scripts read_script (sv_triggers ?sv) (sv_active_monitors ?sv) = Inr scr"
    using sample_scripts_load by (simp add: is_ok_iff)
  have nets: "networks_with_monitors (sv_active_monitors ?sv) (listed_networks (sv_networks ?sv)) = [config_network]" by code_simp
  obtain ws ws' where run: "sample_main False = Served ws ws'"
    using init nets by (auto simp: run_main_def sample_initialize sample_cli_def Let_def)
  have maps: "distinct (map fst (one_monitor (sv_monitors ?sv)))" "map_of (one_monitor (sv_monitors ?sv)) = sv_monitors ?sv"
    "set (listed_networks (sv_networks ?sv)) = ran (sv_networks ?sv)" "ran (sv_networks ?sv) = {config_network}"
    "ran (sv_monitors ?sv) = {config_monitor}"
    by (auto simp: sample_services_def one_monitor_def listed_networks_def)
  have m: "slug config_network = ''eth''" "\<not> mon_paused config_monitor" "mon_networks config_monitor = [''eth'']"
    by (simp_all add: sample_config_defs)
  have start: "can_start sample_scheduler (\<lambda>_. True) ?nms config_network"
    by (simp add: can_start_def new_network_watcher_def start_watcher_def start_main_watcher_def sched_def sample_scheduler_def
        sample_config_defs)
  show ?thesis
    using watched_networks_exact [OF sample_initialize run maps(1-3)] run start m by (auto simp: maps(4,5))
qed

end
