(* ===== verification/Metrics.thy ===== *)
theory Metrics imports Program begin

text \<open>
  The metrics of the program (src/src/utils/metrics/mod.rs): the gauges that describe the
  configuration and the counters of requests. A gauge vector and a counter vector are maps from
  their labels; counts are natural numbers (the code keeps them as floating point numbers).
  The gauges of the system (processor, memory, disks) are readings of a library.
\<close>

section \<open>Gauges\<close>

record monitoring_metrics =
  mx_monitors_total :: nat
  mx_monitors_active :: nat
  mx_triggers_total :: nat
  mx_contracts_monitored :: nat
  mx_networks_monitored :: nat
  mx_network_monitors :: "string \<rightharpoonup> nat"

text \<open>The networks of a monitor that exist in the repository.\<close>

definition known_networks :: "(string \<rightharpoonup> network) \<Rightarrow> 'abi monitor \<Rightarrow> string list" where
  "known_networks networks m = filter (\<lambda>n. networks n \<noteq> None) (mon_networks m)"

definition contract_labels :: "(string \<rightharpoonup> network) \<Rightarrow> 'abi monitor \<Rightarrow> string list" where
  "contract_labels networks m = concat (map (\<lambda>a. map (\<lambda>n. n @ '':'' @ aw_address a) (known_networks networks m)) (mon_addresses m))"

definition count_network :: "string \<Rightarrow> (string \<rightharpoonup> nat) \<Rightarrow> (string \<rightharpoonup> nat)" where
  "count_network n counts = counts(n \<mapsto> entry_or counts n 0 + 1)"

definition network_monitor_counts :: "string list \<Rightarrow> (string \<rightharpoonup> nat)" where
  "network_monitor_counts names = fold count_network names Map.empty"

text \<open>Monitors and triggers are the values of their maps.\<close>

definition update_monitoring_metrics :: "'abi monitor list \<Rightarrow> trigger list \<Rightarrow> (string \<rightharpoonup> network) \<Rightarrow> monitoring_metrics" where
  "update_monitoring_metrics monitors triggers networks =
     (let active = filter (\<lambda>m. \<not> mon_paused m) monitors;
          names = concat (map (known_networks networks) active)
      in \<lparr>mx_monitors_total = length monitors, mx_monitors_active = length active, mx_triggers_total = length triggers,
          mx_contracts_monitored = length (remdups (concat (map (contract_labels networks) monitors))),
          mx_networks_monitored = length (remdups names),
          mx_network_monitors = network_monitor_counts names\<rparr>)"

section \<open>Counters of requests\<close>

type_synonym counter = "string list \<rightharpoonup> nat"

record rpc_metrics =
  rm_requests :: counter
  rm_errors :: counter
  rm_durations :: counter
  rm_rotations :: counter
  rm_rate_limits :: counter

definition inc_by :: "nat \<Rightarrow> string list \<Rightarrow> counter \<Rightarrow> counter" where
  "inc_by k labels c = c(labels \<mapsto> entry_or c labels 0 + k)"

definition record_rpc_request :: "string \<Rightarrow> string \<Rightarrow> rpc_metrics \<Rightarrow> rpc_metrics" where
  "record_rpc_request network rpc_method m = m\<lparr>rm_requests := inc_by 1 [network, rpc_method] (rm_requests m)\<rparr>"

definition record_rpc_error :: "string \<Rightarrow> string \<Rightarrow> string \<Rightarrow> rpc_metrics \<Rightarrow> rpc_metrics" where
  "record_rpc_error network http_status error_type m =
     m\<lparr>rm_errors := inc_by 1 [network, http_status, error_type] (rm_errors m)\<rparr>"

text \<open>Of a histogram only the number of observations is kept.\<close>

definition observe_rpc_duration :: "string \<Rightarrow> rpc_metrics \<Rightarrow> rpc_metrics" where
  "observe_rpc_duration network m = m\<lparr>rm_durations := inc_by 1 [network] (rm_durations m)\<rparr>"

definition record_endpoint_rotation :: "string \<Rightarrow> string \<Rightarrow> rpc_metrics \<Rightarrow> rpc_metrics" where
  "record_endpoint_rotation network reason m = m\<lparr>rm_rotations := inc_by 1 [network, reason] (rm_rotations m)\<rparr>"

definition record_rate_limit :: "string \<Rightarrow> string \<Rightarrow> rpc_metrics \<Rightarrow> rpc_metrics" where
  "record_rate_limit network endpoint m = m\<lparr>rm_rate_limits := inc_by 1 [network, endpoint] (rm_rate_limits m)\<rparr>"

definition init_rpc_metrics_for_network :: "string \<Rightarrow> rpc_metrics \<Rightarrow> rpc_metrics" where
  "init_rpc_metrics_for_network network m = m\<lparr>
     rm_errors := inc_by 0 [network, ''0'', ''network''] (inc_by 0 [network, ''500'', ''http'']
       (inc_by 0 [network, ''429'', ''http''] (rm_errors m))),
     rm_rotations := inc_by 0 [network, ''network_error''] (inc_by 0 [network, ''rate_limit''] (rm_rotations m))\<rparr>"

section \<open>Lemmas\<close>

lemma network_monitor_counts_apply:
  "network_monitor_counts names n = (if n \<in> set names then Some (count_list names n) else None)"
proof -
  have "fold count_network names counts n =
      (if n \<in> set names then Some (entry_or counts n 0 + count_list names n) else counts n)" for counts
    by (induction names arbitrary: counts) (auto simp: count_network_def)
  then show ?thesis by (simp add: network_monitor_counts_def)
qed

lemma dom_network_monitor_counts: "dom (network_monitor_counts names) = set names"
  by (auto simp: network_monitor_counts_apply split: if_split_asm)

text \<open>Initialising again changes no value that has been counted.\<close>

lemma init_keeps_counts:
  "entry_or (rm_errors (init_rpc_metrics_for_network network m)) l 0 = entry_or (rm_errors m) l 0"
  "entry_or (rm_rotations (init_rpc_metrics_for_network network m)) l 0 = entry_or (rm_rotations m) l 0"
  by (simp_all add: init_rpc_metrics_for_network_def inc_by_def)

lemma takeWhile_label: "CHR '':'' \<notin> set n \<Longrightarrow> takeWhile (\<lambda>c. c \<noteq> CHR '':'') (n @ CHR '':'' # a) = n"
  by (induction n) auto

lemma label_inj:
  "CHR '':'' \<notin> set n \<Longrightarrow> CHR '':'' \<notin> set n' \<Longrightarrow> n @ CHR '':'' # a = n' @ CHR '':'' # a' \<Longrightarrow> n = n' \<and> a = a'"
  by (metis append_same_eq list.inject same_append_eq takeWhile_label)

section \<open>Properties\<close>



end
