(* ===== verification/Errors.thy ===== *)
theory Errors imports Logging begin

text \<open>
  The error enumerations of the program (the \<open>error.rs\<close> files under src/src). Each is a datatype over
  error contexts with the messages of its \<open>#[error(..)]\<close> attributes, its \<open>trace_id\<close> and its
  constructor functions, which log the new context or not. An \<open>anyhow::Error\<close> is an error value; a
  status code is the text that it prints. What they share is the locale \<open>traceable\<close>.
\<close>

section \<open>Raising an error\<close>

text \<open>A line in the log: \<open>log_error\<close>. The time of a context is left out.\<close>

record log_line =
  ll_message :: string
  ll_trace_id :: string
  ll_chain :: "string option"

definition log_error :: "error_context \<Rightarrow> log_line" where
  "log_error ctx = \<lparr>ll_message = format_with_metadata ctx, ll_trace_id = ec_trace_id ctx,
     ll_chain = map_option format_error_chain (ec_source ctx)\<rparr>"

definition new_with_log :: "string \<Rightarrow> string \<Rightarrow> error_value option \<Rightarrow> (string \<times> string) list option
    \<Rightarrow> error_context \<times> log_line list" where
  "new_with_log fresh message source metadata =
     (let error_context = new_error_context fresh message source metadata in (error_context, [log_error error_context]))"

text \<open>A constructor function: the error from a fresh identifier, message, source and metadata, and
  the lines that it logs.\<close>

type_synonym 'e raiser = "string \<Rightarrow> string \<Rightarrow> error_value option \<Rightarrow> (string \<times> string) list option \<Rightarrow> 'e \<times> log_line list"

definition raised :: "(error_context \<Rightarrow> 'e) \<Rightarrow> 'e raiser" where
  "raised wrap fresh message source metadata = map_prod wrap id (new_with_log fresh message source metadata)"

definition raised_quietly :: "(error_context \<Rightarrow> 'e) \<Rightarrow> 'e raiser" where
  "raised_quietly wrap fresh message source metadata = (wrap (new_error_context fresh message source metadata), [])"

section \<open>What the enumerations share\<close>

text \<open>An enumeration as an error of the standard library: the value of an error (its text, type,
  identifier and cause), the context that it holds, if it is not a foreign error, and its type.\<close>

definition known_kinds :: "error_kind set" where
  "known_kinds = {Notification_kind, Trigger_kind, Filter_kind, Block_watcher_kind, Block_chain_kind, Repository_kind, Script_kind, Config_kind}"

locale traceable =
  fixes as_value :: "string \<Rightarrow> 'e \<Rightarrow> error_value" and context_of :: "'e \<Rightarrow> error_context option" and kind_of :: "'e \<Rightarrow> error_kind"
  assumes own_trace: "er_own_trace (as_value fresh e) = (case context_of e of Some ctx \<Rightarrow> ec_trace_id ctx | None \<Rightarrow> fresh)"
    and has_kind: "er_kind (as_value fresh e) = kind_of e" and own_kind: "kind_of e \<noteq> Error_context_kind" "kind_of e \<noteq> Foreign_kind"
    and no_cause: "context_of e = Some ctx \<Longrightarrow> er_source (as_value fresh e) = None"
begin

text \<open>A context around an error of the enumeration has the identifier of the error's own context,
  if the type is known to the extraction, and a new one otherwise.\<close>

lemma trace_around:
  assumes "context_of e = Some ctx"
  shows "ec_trace_id (new_error_context fresh message (Some (as_value fresh' e)) metadata) =
    (if kind_of e \<in> known_kinds then ec_trace_id ctx else fresh)"
  using own_trace [of fresh' e] has_kind [of fresh' e] own_kind [of e] no_cause [OF assms, of fresh'] assms
  by (cases "kind_of e") (simp_all add: new_error_context_def trace_id_of_def try_extract_trace_id_def known_kinds_def
      max_depth_def eval_nat_numeral)

text \<open>A foreign error in the enumeration gets the identifier made at that moment, whatever the
  error holds, if the type is known.\<close>

lemma foreign_retraced:
  assumes "context_of e = None" "kind_of e \<in> known_kinds"
  shows "ec_trace_id (new_error_context fresh message (Some (as_value fresh' e)) metadata) = fresh'"
  using own_trace [of fresh' e] has_kind [of fresh' e] assms
  by (cases "kind_of e") (simp_all add: new_error_context_def trace_id_of_def try_extract_trace_id_def known_kinds_def)

text \<open>The chain that is logged for a context around the error ends with the error's own text.\<close>

lemma chain_ends:
  assumes "context_of e = Some ctx"
  shows "ll_chain (log_error (new_error_context fresh message (Some (as_value fresh' e)) metadata)) =
    Some (sanitize_error_message (er_text (as_value fresh' e)))"
  using no_cause [OF assms, of fresh'] by (simp add: log_error_def new_error_context_def format_error_chain_def)

end

section \<open>Watcher\<close>

datatype BlockWatcherError =
    BlockWatcher_SchedulerError error_context
  | BlockWatcher_NetworkError error_context
  | BlockWatcher_ProcessingError error_context
  | BlockWatcher_StorageError error_context
  | BlockWatcher_BlockTrackerError error_context
  | BlockWatcher_RecoveryError error_context
  | BlockWatcher_Other error_value

primrec watcher_context :: "BlockWatcherError \<Rightarrow> error_context option" where
  "watcher_context (BlockWatcher_SchedulerError ctx) = Some ctx"
| "watcher_context (BlockWatcher_NetworkError ctx) = Some ctx"
| "watcher_context (BlockWatcher_ProcessingError ctx) = Some ctx"
| "watcher_context (BlockWatcher_StorageError ctx) = Some ctx"
| "watcher_context (BlockWatcher_BlockTrackerError ctx) = Some ctx"
| "watcher_context (BlockWatcher_RecoveryError ctx) = Some ctx"
| "watcher_context (BlockWatcher_Other err) = None"

primrec watcher_trace_id :: "string \<Rightarrow> BlockWatcherError \<Rightarrow> string" where
  "watcher_trace_id fresh (BlockWatcher_SchedulerError ctx) = ec_trace_id ctx"
| "watcher_trace_id fresh (BlockWatcher_NetworkError ctx) = ec_trace_id ctx"
| "watcher_trace_id fresh (BlockWatcher_ProcessingError ctx) = ec_trace_id ctx"
| "watcher_trace_id fresh (BlockWatcher_StorageError ctx) = ec_trace_id ctx"
| "watcher_trace_id fresh (BlockWatcher_BlockTrackerError ctx) = ec_trace_id ctx"
| "watcher_trace_id fresh (BlockWatcher_RecoveryError ctx) = ec_trace_id ctx"
| "watcher_trace_id fresh (BlockWatcher_Other err) = fresh"

primrec watcher_display :: "BlockWatcherError \<Rightarrow> string" where
  "watcher_display (BlockWatcher_SchedulerError ctx) = ''Scheduler error: '' @ format_with_metadata ctx"
| "watcher_display (BlockWatcher_NetworkError ctx) = ''Network error: '' @ format_with_metadata ctx"
| "watcher_display (BlockWatcher_ProcessingError ctx) = ''Processing error: '' @ format_with_metadata ctx"
| "watcher_display (BlockWatcher_StorageError ctx) = ''Storage error: '' @ format_with_metadata ctx"
| "watcher_display (BlockWatcher_BlockTrackerError ctx) = ''Block tracker error: '' @ format_with_metadata ctx"
| "watcher_display (BlockWatcher_RecoveryError ctx) = ''Recovery error: '' @ format_with_metadata ctx"
| "watcher_display (BlockWatcher_Other err) = er_text err"

definition watcher_value :: "string \<Rightarrow> BlockWatcherError \<Rightarrow> error_value" where
  "watcher_value fresh e = Error_value (watcher_display e) Block_watcher_kind (watcher_trace_id fresh e)
     (case e of BlockWatcher_Other err \<Rightarrow> er_source err | _ \<Rightarrow> None)"

definition watcher_scheduler_error :: "BlockWatcherError raiser" where
  "watcher_scheduler_error = raised BlockWatcher_SchedulerError"

definition watcher_network_error :: "BlockWatcherError raiser" where
  "watcher_network_error = raised BlockWatcher_NetworkError"

definition watcher_processing_error :: "BlockWatcherError raiser" where
  "watcher_processing_error = raised BlockWatcher_ProcessingError"

definition watcher_storage_error :: "BlockWatcherError raiser" where
  "watcher_storage_error = raised BlockWatcher_StorageError"

definition watcher_block_tracker_error :: "BlockWatcherError raiser" where
  "watcher_block_tracker_error = raised BlockWatcher_BlockTrackerError"

definition watcher_recovery_error :: "BlockWatcherError raiser" where
  "watcher_recovery_error = raised BlockWatcher_RecoveryError"

lemma watcher_trace_context:
  "watcher_trace_id fresh e = (case watcher_context e of Some ctx \<Rightarrow> ec_trace_id ctx | None \<Rightarrow> fresh)"
  by (cases e) simp_all

interpretation watcher_errors: traceable watcher_value watcher_context "\<lambda>_. Block_watcher_kind"
  by unfold_locales (auto simp: watcher_value_def watcher_trace_context split: BlockWatcherError.splits)

section \<open>Clients and transports\<close>

datatype BlockChainError =
    BlockChain_ConnectionError error_context
  | BlockChain_RequestError error_context
  | BlockChain_BlockNotFound error_context
  | BlockChain_TransactionError error_context
  | BlockChain_InternalError error_context
  | BlockChain_ClientPoolError error_context
  | BlockChain_Other error_value

primrec chain_context :: "BlockChainError \<Rightarrow> error_context option" where
  "chain_context (BlockChain_ConnectionError ctx) = Some ctx"
| "chain_context (BlockChain_RequestError ctx) = Some ctx"
| "chain_context (BlockChain_BlockNotFound ctx) = Some ctx"
| "chain_context (BlockChain_TransactionError ctx) = Some ctx"
| "chain_context (BlockChain_InternalError ctx) = Some ctx"
| "chain_context (BlockChain_ClientPoolError ctx) = Some ctx"
| "chain_context (BlockChain_Other err) = None"

primrec chain_trace_id :: "string \<Rightarrow> BlockChainError \<Rightarrow> string" where
  "chain_trace_id fresh (BlockChain_ConnectionError ctx) = ec_trace_id ctx"
| "chain_trace_id fresh (BlockChain_RequestError ctx) = ec_trace_id ctx"
| "chain_trace_id fresh (BlockChain_BlockNotFound ctx) = ec_trace_id ctx"
| "chain_trace_id fresh (BlockChain_TransactionError ctx) = ec_trace_id ctx"
| "chain_trace_id fresh (BlockChain_InternalError ctx) = ec_trace_id ctx"
| "chain_trace_id fresh (BlockChain_ClientPoolError ctx) = ec_trace_id ctx"
| "chain_trace_id fresh (BlockChain_Other err) = fresh"

primrec chain_display :: "BlockChainError \<Rightarrow> string" where
  "chain_display (BlockChain_ConnectionError ctx) = ''Connection error: '' @ format_with_metadata ctx"
| "chain_display (BlockChain_RequestError ctx) = ''Request error: '' @ format_with_metadata ctx"
| "chain_display (BlockChain_BlockNotFound ctx) = ''Block not found: '' @ format_with_metadata ctx"
| "chain_display (BlockChain_TransactionError ctx) = ''Transaction error: '' @ format_with_metadata ctx"
| "chain_display (BlockChain_InternalError ctx) = ''Internal error: '' @ format_with_metadata ctx"
| "chain_display (BlockChain_ClientPoolError ctx) = ''Client pool error: '' @ format_with_metadata ctx"
| "chain_display (BlockChain_Other err) = er_text err"

definition chain_value :: "string \<Rightarrow> BlockChainError \<Rightarrow> error_value" where
  "chain_value fresh e = Error_value (chain_display e) Block_chain_kind (chain_trace_id fresh e)
     (case e of BlockChain_Other err \<Rightarrow> er_source err | _ \<Rightarrow> None)"

definition chain_connection_error :: "BlockChainError raiser" where
  "chain_connection_error = raised BlockChain_ConnectionError"

definition chain_request_error :: "BlockChainError raiser" where
  "chain_request_error = raised BlockChain_RequestError"

definition chain_block_not_found :: "BlockChainError raiser" where
  "chain_block_not_found = raised BlockChain_BlockNotFound"

definition chain_transaction_error :: "BlockChainError raiser" where
  "chain_transaction_error = raised BlockChain_TransactionError"

definition chain_internal_error :: "BlockChainError raiser" where
  "chain_internal_error = raised BlockChain_InternalError"

definition chain_client_pool_error :: "BlockChainError raiser" where
  "chain_client_pool_error = raised BlockChain_ClientPoolError"

lemma chain_trace_context:
  "chain_trace_id fresh e = (case chain_context e of Some ctx \<Rightarrow> ec_trace_id ctx | None \<Rightarrow> fresh)"
  by (cases e) simp_all

interpretation chain_errors: traceable chain_value chain_context "\<lambda>_. Block_chain_kind"
  by unfold_locales (auto simp: chain_value_def chain_trace_context split: BlockChainError.splits)

datatype TransportError =
    Transport_Http string string string error_context
  | Transport_Network error_context
  | Transport_ResponseParse error_context
  | Transport_RequestSerialization error_context
  | Transport_UrlRotation error_context

primrec transport_context :: "TransportError \<Rightarrow> error_context option" where
  "transport_context (Transport_Http status url body ctx) = Some ctx"
| "transport_context (Transport_Network ctx) = Some ctx"
| "transport_context (Transport_ResponseParse ctx) = Some ctx"
| "transport_context (Transport_RequestSerialization ctx) = Some ctx"
| "transport_context (Transport_UrlRotation ctx) = Some ctx"

primrec transport_trace_id :: "string \<Rightarrow> TransportError \<Rightarrow> string" where
  "transport_trace_id fresh (Transport_Http status url body ctx) = ec_trace_id ctx"
| "transport_trace_id fresh (Transport_Network ctx) = ec_trace_id ctx"
| "transport_trace_id fresh (Transport_ResponseParse ctx) = ec_trace_id ctx"
| "transport_trace_id fresh (Transport_RequestSerialization ctx) = ec_trace_id ctx"
| "transport_trace_id fresh (Transport_UrlRotation ctx) = ec_trace_id ctx"

primrec transport_display :: "TransportError \<Rightarrow> string" where
  "transport_display (Transport_Http status url body ctx) = ''HTTP error: status '' @ status @ '' for URL '' @ url"
| "transport_display (Transport_Network ctx) = ''Network error: '' @ format_with_metadata ctx"
| "transport_display (Transport_ResponseParse ctx) = ''Failed to parse JSON response: '' @ format_with_metadata ctx"
| "transport_display (Transport_RequestSerialization ctx) = ''Failed to serialize request JSON: '' @ format_with_metadata ctx"
| "transport_display (Transport_UrlRotation ctx) = ''URL rotation failed: '' @ format_with_metadata ctx"

definition transport_value :: "string \<Rightarrow> TransportError \<Rightarrow> error_value" where
  "transport_value fresh e = Error_value (transport_display e) Transport_kind (transport_trace_id fresh e)
     None"

definition transport_http :: "string \<Rightarrow> string \<Rightarrow> string \<Rightarrow> string \<Rightarrow> error_value option \<Rightarrow> (string \<times> string) list option
    \<Rightarrow> TransportError \<times> log_line list" where
  "transport_http status url body fresh source metadata =
     raised (Transport_Http status url body) fresh (''HTTP error: status '' @ status @ '' for URL '' @ url) source metadata"

definition transport_network :: "TransportError raiser" where
  "transport_network = raised Transport_Network"

definition transport_response_parse :: "TransportError raiser" where
  "transport_response_parse = raised Transport_ResponseParse"

definition transport_request_serialization :: "TransportError raiser" where
  "transport_request_serialization = raised Transport_RequestSerialization"

definition transport_url_rotation :: "TransportError raiser" where
  "transport_url_rotation = raised Transport_UrlRotation"

lemma transport_trace_context:
  "transport_trace_id fresh e = (case transport_context e of Some ctx \<Rightarrow> ec_trace_id ctx | None \<Rightarrow> fresh)"
  by (cases e) simp_all

interpretation transport_errors: traceable transport_value transport_context "\<lambda>_. Transport_kind"
  by unfold_locales (auto simp: transport_value_def transport_trace_context split: TransportError.splits)

datatype SolanaClientError =
    SolanaClient_SlotNotAvailable u64 string error_context
  | SolanaClient_BlockNotAvailable u64 string error_context
  | SolanaClient_TransactionNotFound string error_context
  | SolanaClient_RpcError error_context
  | SolanaClient_ResponseParseError error_context
  | SolanaClient_InvalidInput error_context
  | SolanaClient_UnexpectedResponseStructure error_context
  | SolanaClient_IdlNotFound string error_context
  | SolanaClient_InstructionDecodeError error_context

primrec solana_client_context :: "SolanaClientError \<Rightarrow> error_context option" where
  "solana_client_context (SolanaClient_SlotNotAvailable slot_no reason ctx) = Some ctx"
| "solana_client_context (SolanaClient_BlockNotAvailable slot_no reason ctx) = Some ctx"
| "solana_client_context (SolanaClient_TransactionNotFound signature ctx) = Some ctx"
| "solana_client_context (SolanaClient_RpcError ctx) = Some ctx"
| "solana_client_context (SolanaClient_ResponseParseError ctx) = Some ctx"
| "solana_client_context (SolanaClient_InvalidInput ctx) = Some ctx"
| "solana_client_context (SolanaClient_UnexpectedResponseStructure ctx) = Some ctx"
| "solana_client_context (SolanaClient_IdlNotFound program_id ctx) = Some ctx"
| "solana_client_context (SolanaClient_InstructionDecodeError ctx) = Some ctx"

primrec solana_client_trace_id :: "string \<Rightarrow> SolanaClientError \<Rightarrow> string" where
  "solana_client_trace_id fresh (SolanaClient_SlotNotAvailable slot_no reason ctx) = ec_trace_id ctx"
| "solana_client_trace_id fresh (SolanaClient_BlockNotAvailable slot_no reason ctx) = ec_trace_id ctx"
| "solana_client_trace_id fresh (SolanaClient_TransactionNotFound signature ctx) = ec_trace_id ctx"
| "solana_client_trace_id fresh (SolanaClient_RpcError ctx) = ec_trace_id ctx"
| "solana_client_trace_id fresh (SolanaClient_ResponseParseError ctx) = ec_trace_id ctx"
| "solana_client_trace_id fresh (SolanaClient_InvalidInput ctx) = ec_trace_id ctx"
| "solana_client_trace_id fresh (SolanaClient_UnexpectedResponseStructure ctx) = ec_trace_id ctx"
| "solana_client_trace_id fresh (SolanaClient_IdlNotFound program_id ctx) = ec_trace_id ctx"
| "solana_client_trace_id fresh (SolanaClient_InstructionDecodeError ctx) = ec_trace_id ctx"

primrec solana_client_display :: "SolanaClientError \<Rightarrow> string" where
  "solana_client_display (SolanaClient_SlotNotAvailable slot_no reason ctx) = ''Slot '' @ show_word slot_no @ '' is not available: '' @ reason"
| "solana_client_display (SolanaClient_BlockNotAvailable slot_no reason ctx) = ''Block not available for slot '' @ show_word slot_no @ '': '' @ reason"
| "solana_client_display (SolanaClient_TransactionNotFound signature ctx) = ''Transaction not found: '' @ signature"
| "solana_client_display (SolanaClient_RpcError ctx) = ''Solana RPC request failed: '' @ format_with_metadata ctx"
| "solana_client_display (SolanaClient_ResponseParseError ctx) = ''Failed to parse Solana RPC response: '' @ format_with_metadata ctx"
| "solana_client_display (SolanaClient_InvalidInput ctx) = ''Invalid input: '' @ format_with_metadata ctx"
| "solana_client_display (SolanaClient_UnexpectedResponseStructure ctx) = ''Unexpected response structure from Solana RPC: '' @ format_with_metadata ctx"
| "solana_client_display (SolanaClient_IdlNotFound program_id ctx) = ''Program IDL not found for: '' @ program_id"
| "solana_client_display (SolanaClient_InstructionDecodeError ctx) = ''Failed to decode instruction: '' @ format_with_metadata ctx"

definition solana_client_value :: "string \<Rightarrow> SolanaClientError \<Rightarrow> error_value" where
  "solana_client_value fresh e = Error_value (solana_client_display e) Solana_client_kind (solana_client_trace_id fresh e)
     None"

definition solana_client_slot_not_available :: "u64 \<Rightarrow> string \<Rightarrow> string \<Rightarrow> error_value option \<Rightarrow> (string \<times> string) list option
    \<Rightarrow> SolanaClientError \<times> log_line list" where
  "solana_client_slot_not_available slot_no reason fresh source metadata =
     raised (SolanaClient_SlotNotAvailable slot_no reason) fresh (''Slot '' @ show_word slot_no @ '' is not available: '' @ reason) source metadata"

definition solana_client_block_not_available :: "u64 \<Rightarrow> string \<Rightarrow> string \<Rightarrow> error_value option \<Rightarrow> (string \<times> string) list option
    \<Rightarrow> SolanaClientError \<times> log_line list" where
  "solana_client_block_not_available slot_no reason fresh source metadata =
     raised (SolanaClient_BlockNotAvailable slot_no reason) fresh (''Block not available for slot '' @ show_word slot_no @ '': '' @ reason) source metadata"

definition solana_client_transaction_not_found :: "string \<Rightarrow> string \<Rightarrow> error_value option \<Rightarrow> (string \<times> string) list option
    \<Rightarrow> SolanaClientError \<times> log_line list" where
  "solana_client_transaction_not_found signature fresh source metadata =
     raised (SolanaClient_TransactionNotFound signature) fresh (''Transaction not found: '' @ signature) source metadata"

definition solana_client_rpc_error :: "SolanaClientError raiser" where
  "solana_client_rpc_error = raised SolanaClient_RpcError"

definition solana_client_response_parse_error :: "SolanaClientError raiser" where
  "solana_client_response_parse_error = raised SolanaClient_ResponseParseError"

definition solana_client_invalid_input :: "SolanaClientError raiser" where
  "solana_client_invalid_input = raised SolanaClient_InvalidInput"

definition solana_client_unexpected_response_structure :: "SolanaClientError raiser" where
  "solana_client_unexpected_response_structure = raised SolanaClient_UnexpectedResponseStructure"

definition solana_client_idl_not_found :: "string \<Rightarrow> string \<Rightarrow> error_value option \<Rightarrow> (string \<times> string) list option
    \<Rightarrow> SolanaClientError \<times> log_line list" where
  "solana_client_idl_not_found program_id fresh source metadata =
     raised (SolanaClient_IdlNotFound program_id) fresh (''Program IDL not found for: '' @ program_id) source metadata"

definition solana_client_instruction_decode_error :: "SolanaClientError raiser" where
  "solana_client_instruction_decode_error = raised SolanaClient_InstructionDecodeError"

definition solana_client_is_slot_not_available :: "SolanaClientError \<Rightarrow> bool" where
  "solana_client_is_slot_not_available e \<longleftrightarrow> (case e of SolanaClient_SlotNotAvailable _ _ _ \<Rightarrow> True | _ \<Rightarrow> False)"

definition solana_client_is_block_not_available :: "SolanaClientError \<Rightarrow> bool" where
  "solana_client_is_block_not_available e \<longleftrightarrow> (case e of SolanaClient_BlockNotAvailable _ _ _ \<Rightarrow> True | _ \<Rightarrow> False)"

definition solana_client_is_transaction_not_found :: "SolanaClientError \<Rightarrow> bool" where
  "solana_client_is_transaction_not_found e \<longleftrightarrow> (case e of SolanaClient_TransactionNotFound _ _ \<Rightarrow> True | _ \<Rightarrow> False)"

lemma solana_client_trace_context:
  "solana_client_trace_id fresh e = (case solana_client_context e of Some ctx \<Rightarrow> ec_trace_id ctx | None \<Rightarrow> fresh)"
  by (cases e) simp_all

interpretation solana_client_errors: traceable solana_client_value solana_client_context "\<lambda>_. Solana_client_kind"
  by unfold_locales (auto simp: solana_client_value_def solana_client_trace_context split: SolanaClientError.splits)

datatype StellarClientError =
    StellarClient_OutsideRetentionWindow int string string error_context
  | StellarClient_RpcError error_context
  | StellarClient_ResponseParseError error_context
  | StellarClient_InvalidInput error_context
  | StellarClient_UnexpectedResponseStructure error_context

primrec stellar_client_context :: "StellarClientError \<Rightarrow> error_context option" where
  "stellar_client_context (StellarClient_OutsideRetentionWindow code rpc_msg ledger_info ctx) = Some ctx"
| "stellar_client_context (StellarClient_RpcError ctx) = Some ctx"
| "stellar_client_context (StellarClient_ResponseParseError ctx) = Some ctx"
| "stellar_client_context (StellarClient_InvalidInput ctx) = Some ctx"
| "stellar_client_context (StellarClient_UnexpectedResponseStructure ctx) = Some ctx"

primrec stellar_client_trace_id :: "string \<Rightarrow> StellarClientError \<Rightarrow> string" where
  "stellar_client_trace_id fresh (StellarClient_OutsideRetentionWindow code rpc_msg ledger_info ctx) = ec_trace_id ctx"
| "stellar_client_trace_id fresh (StellarClient_RpcError ctx) = ec_trace_id ctx"
| "stellar_client_trace_id fresh (StellarClient_ResponseParseError ctx) = ec_trace_id ctx"
| "stellar_client_trace_id fresh (StellarClient_InvalidInput ctx) = ec_trace_id ctx"
| "stellar_client_trace_id fresh (StellarClient_UnexpectedResponseStructure ctx) = ec_trace_id ctx"

primrec stellar_client_display :: "StellarClientError \<Rightarrow> string" where
  "stellar_client_display (StellarClient_OutsideRetentionWindow code rpc_msg ledger_info ctx) = ''Data for '' @ [CHR 0x27] @ ledger_info @ [CHR 0x27] @ '' is outside of Stellar RPC retention window''"
| "stellar_client_display (StellarClient_RpcError ctx) = ''Stellar RPC request failed: '' @ format_with_metadata ctx"
| "stellar_client_display (StellarClient_ResponseParseError ctx) = ''Failed to parse Stellar RPC response: '' @ format_with_metadata ctx"
| "stellar_client_display (StellarClient_InvalidInput ctx) = ''Invalid input: '' @ format_with_metadata ctx"
| "stellar_client_display (StellarClient_UnexpectedResponseStructure ctx) = ''Unexpected response structure from Stellar RPC: '' @ format_with_metadata ctx"

definition stellar_client_value :: "string \<Rightarrow> StellarClientError \<Rightarrow> error_value" where
  "stellar_client_value fresh e = Error_value (stellar_client_display e) Stellar_client_kind (stellar_client_trace_id fresh e)
     None"

definition stellar_client_outside_retention_window :: "int \<Rightarrow> string \<Rightarrow> string \<Rightarrow> string \<Rightarrow> error_value option \<Rightarrow> (string \<times> string) list option
    \<Rightarrow> StellarClientError \<times> log_line list" where
  "stellar_client_outside_retention_window code rpc_msg ledger_info fresh source metadata =
     raised (StellarClient_OutsideRetentionWindow code rpc_msg ledger_info) fresh (''Data for '' @ [CHR 0x27] @ ledger_info @ [CHR 0x27] @ '' is outside of Stellar RPC retention window: '' @ rpc_msg @ '' (code '' @ show_int code @ '')'') source metadata"

definition stellar_client_rpc_error :: "StellarClientError raiser" where
  "stellar_client_rpc_error = raised StellarClient_RpcError"

definition stellar_client_response_parse_error :: "StellarClientError raiser" where
  "stellar_client_response_parse_error = raised StellarClient_ResponseParseError"

definition stellar_client_invalid_input :: "StellarClientError raiser" where
  "stellar_client_invalid_input = raised StellarClient_InvalidInput"

definition stellar_client_unexpected_response_structure :: "StellarClientError raiser" where
  "stellar_client_unexpected_response_structure = raised StellarClient_UnexpectedResponseStructure"

lemma stellar_client_trace_context:
  "stellar_client_trace_id fresh e = (case stellar_client_context e of Some ctx \<Rightarrow> ec_trace_id ctx | None \<Rightarrow> fresh)"
  by (cases e) simp_all

interpretation stellar_client_errors: traceable stellar_client_value stellar_client_context "\<lambda>_. Stellar_client_kind"
  by unfold_locales (auto simp: stellar_client_value_def stellar_client_trace_context split: StellarClientError.splits)

section \<open>Filters and expressions\<close>

datatype FilterError =
    Filter_BlockTypeMismatch error_context
  | Filter_NetworkError error_context
  | Filter_InternalError error_context
  | Filter_Other error_value

primrec filter_context :: "FilterError \<Rightarrow> error_context option" where
  "filter_context (Filter_BlockTypeMismatch ctx) = Some ctx"
| "filter_context (Filter_NetworkError ctx) = Some ctx"
| "filter_context (Filter_InternalError ctx) = Some ctx"
| "filter_context (Filter_Other err) = None"

primrec filter_trace_id :: "string \<Rightarrow> FilterError \<Rightarrow> string" where
  "filter_trace_id fresh (Filter_BlockTypeMismatch ctx) = ec_trace_id ctx"
| "filter_trace_id fresh (Filter_NetworkError ctx) = ec_trace_id ctx"
| "filter_trace_id fresh (Filter_InternalError ctx) = ec_trace_id ctx"
| "filter_trace_id fresh (Filter_Other err) = fresh"

primrec filter_display :: "FilterError \<Rightarrow> string" where
  "filter_display (Filter_BlockTypeMismatch ctx) = ''Block type mismatch error: '' @ format_with_metadata ctx"
| "filter_display (Filter_NetworkError ctx) = ''Network error: '' @ format_with_metadata ctx"
| "filter_display (Filter_InternalError ctx) = ''Internal error: '' @ format_with_metadata ctx"
| "filter_display (Filter_Other err) = er_text err"

definition filter_value :: "string \<Rightarrow> FilterError \<Rightarrow> error_value" where
  "filter_value fresh e = Error_value (filter_display e) Filter_kind (filter_trace_id fresh e)
     (case e of Filter_Other err \<Rightarrow> er_source err | _ \<Rightarrow> None)"

definition filter_block_type_mismatch :: "FilterError raiser" where
  "filter_block_type_mismatch = raised Filter_BlockTypeMismatch"

definition filter_network_error :: "FilterError raiser" where
  "filter_network_error = raised Filter_NetworkError"

definition filter_internal_error :: "FilterError raiser" where
  "filter_internal_error = raised Filter_InternalError"

lemma filter_trace_context:
  "filter_trace_id fresh e = (case filter_context e of Some ctx \<Rightarrow> ec_trace_id ctx | None \<Rightarrow> fresh)"
  by (cases e) simp_all

interpretation filter_errors: traceable filter_value filter_context "\<lambda>_. Filter_kind"
  by unfold_locales (auto simp: filter_value_def filter_trace_context split: FilterError.splits)

datatype EvaluationError =
    Evaluation_VariableNotFound error_context
  | Evaluation_TypeMismatch error_context
  | Evaluation_UnsupportedOperator error_context
  | Evaluation_ParseError error_context
  | Evaluation_IndexOutOfBounds error_context
  | Evaluation_FieldNotFound error_context

primrec evaluation_context :: "EvaluationError \<Rightarrow> error_context option" where
  "evaluation_context (Evaluation_VariableNotFound ctx) = Some ctx"
| "evaluation_context (Evaluation_TypeMismatch ctx) = Some ctx"
| "evaluation_context (Evaluation_UnsupportedOperator ctx) = Some ctx"
| "evaluation_context (Evaluation_ParseError ctx) = Some ctx"
| "evaluation_context (Evaluation_IndexOutOfBounds ctx) = Some ctx"
| "evaluation_context (Evaluation_FieldNotFound ctx) = Some ctx"

primrec evaluation_trace_id :: "string \<Rightarrow> EvaluationError \<Rightarrow> string" where
  "evaluation_trace_id fresh (Evaluation_VariableNotFound ctx) = ec_trace_id ctx"
| "evaluation_trace_id fresh (Evaluation_TypeMismatch ctx) = ec_trace_id ctx"
| "evaluation_trace_id fresh (Evaluation_UnsupportedOperator ctx) = ec_trace_id ctx"
| "evaluation_trace_id fresh (Evaluation_ParseError ctx) = ec_trace_id ctx"
| "evaluation_trace_id fresh (Evaluation_IndexOutOfBounds ctx) = ec_trace_id ctx"
| "evaluation_trace_id fresh (Evaluation_FieldNotFound ctx) = ec_trace_id ctx"

primrec evaluation_display :: "EvaluationError \<Rightarrow> string" where
  "evaluation_display (Evaluation_VariableNotFound ctx) = ''Variable not found: '' @ format_with_metadata ctx"
| "evaluation_display (Evaluation_TypeMismatch ctx) = ''Type mismatch: '' @ format_with_metadata ctx"
| "evaluation_display (Evaluation_UnsupportedOperator ctx) = ''Unsupported operator: '' @ format_with_metadata ctx"
| "evaluation_display (Evaluation_ParseError ctx) = ''Failed to parse value: '' @ format_with_metadata ctx"
| "evaluation_display (Evaluation_IndexOutOfBounds ctx) = ''Index out of bounds during path traversal: '' @ format_with_metadata ctx"
| "evaluation_display (Evaluation_FieldNotFound ctx) = ''Field not found during path traversal: '' @ format_with_metadata ctx"

definition evaluation_value :: "string \<Rightarrow> EvaluationError \<Rightarrow> error_value" where
  "evaluation_value fresh e = Error_value (evaluation_display e) Evaluation_kind (evaluation_trace_id fresh e)
     None"

definition evaluation_variable_not_found :: "EvaluationError raiser" where
  "evaluation_variable_not_found = raised Evaluation_VariableNotFound"

definition evaluation_type_mismatch :: "EvaluationError raiser" where
  "evaluation_type_mismatch = raised Evaluation_TypeMismatch"

definition evaluation_unsupported_operator :: "EvaluationError raiser" where
  "evaluation_unsupported_operator = raised Evaluation_UnsupportedOperator"

definition evaluation_parse_error :: "EvaluationError raiser" where
  "evaluation_parse_error = raised Evaluation_ParseError"

definition evaluation_index_out_of_bounds :: "EvaluationError raiser" where
  "evaluation_index_out_of_bounds = raised Evaluation_IndexOutOfBounds"

definition evaluation_field_not_found :: "EvaluationError raiser" where
  "evaluation_field_not_found = raised Evaluation_FieldNotFound"

lemma evaluation_trace_context:
  "evaluation_trace_id fresh e = (case evaluation_context e of Some ctx \<Rightarrow> ec_trace_id ctx | None \<Rightarrow> fresh)"
  by (cases e) simp_all

interpretation evaluation_errors: traceable evaluation_value evaluation_context "\<lambda>_. Evaluation_kind"
  by unfold_locales (auto simp: evaluation_value_def evaluation_trace_context split: EvaluationError.splits)

section \<open>Notifications, triggers and scripts\<close>

datatype NotificationError =
    Notification_NetworkError error_context
  | Notification_ConfigError error_context
  | Notification_InternalError error_context
  | Notification_ExecutionError error_context
  | Notification_NotifyFailed error_context

primrec notification_context :: "NotificationError \<Rightarrow> error_context option" where
  "notification_context (Notification_NetworkError ctx) = Some ctx"
| "notification_context (Notification_ConfigError ctx) = Some ctx"
| "notification_context (Notification_InternalError ctx) = Some ctx"
| "notification_context (Notification_ExecutionError ctx) = Some ctx"
| "notification_context (Notification_NotifyFailed ctx) = Some ctx"

primrec notification_trace_id :: "string \<Rightarrow> NotificationError \<Rightarrow> string" where
  "notification_trace_id fresh (Notification_NetworkError ctx) = ec_trace_id ctx"
| "notification_trace_id fresh (Notification_ConfigError ctx) = ec_trace_id ctx"
| "notification_trace_id fresh (Notification_InternalError ctx) = ec_trace_id ctx"
| "notification_trace_id fresh (Notification_ExecutionError ctx) = ec_trace_id ctx"
| "notification_trace_id fresh (Notification_NotifyFailed ctx) = ec_trace_id ctx"

primrec notification_display :: "NotificationError \<Rightarrow> string" where
  "notification_display (Notification_NetworkError ctx) = ''Network error: '' @ format_with_metadata ctx"
| "notification_display (Notification_ConfigError ctx) = ''Config error: '' @ format_with_metadata ctx"
| "notification_display (Notification_InternalError ctx) = ''Internal error: '' @ format_with_metadata ctx"
| "notification_display (Notification_ExecutionError ctx) = ''Script execution error: '' @ format_with_metadata ctx"
| "notification_display (Notification_NotifyFailed ctx) = ''Notification failed: '' @ format_with_metadata ctx"

definition notification_value :: "string \<Rightarrow> NotificationError \<Rightarrow> error_value" where
  "notification_value fresh e = Error_value (notification_display e) Notification_kind (notification_trace_id fresh e)
     None"

definition notification_network_error :: "NotificationError raiser" where
  "notification_network_error = raised Notification_NetworkError"

definition notification_config_error :: "NotificationError raiser" where
  "notification_config_error = raised Notification_ConfigError"

definition notification_internal_error :: "NotificationError raiser" where
  "notification_internal_error = raised Notification_InternalError"

definition notification_execution_error :: "NotificationError raiser" where
  "notification_execution_error = raised Notification_ExecutionError"

definition notification_notify_failed :: "NotificationError raiser" where
  "notification_notify_failed = raised Notification_NotifyFailed"

lemma notification_trace_context:
  "notification_trace_id fresh e = (case notification_context e of Some ctx \<Rightarrow> ec_trace_id ctx | None \<Rightarrow> fresh)"
  by (cases e) simp_all

interpretation notification_errors: traceable notification_value notification_context "\<lambda>_. Notification_kind"
  by unfold_locales (auto simp: notification_value_def notification_trace_context split: NotificationError.splits)

datatype TriggerError =
    Trigger_NotFound error_context
  | Trigger_ExecutionError error_context
  | Trigger_ConfigurationError error_context
  | Trigger_Other error_value

primrec trigger_context :: "TriggerError \<Rightarrow> error_context option" where
  "trigger_context (Trigger_NotFound ctx) = Some ctx"
| "trigger_context (Trigger_ExecutionError ctx) = Some ctx"
| "trigger_context (Trigger_ConfigurationError ctx) = Some ctx"
| "trigger_context (Trigger_Other err) = None"

primrec trigger_trace_id :: "string \<Rightarrow> TriggerError \<Rightarrow> string" where
  "trigger_trace_id fresh (Trigger_NotFound ctx) = ec_trace_id ctx"
| "trigger_trace_id fresh (Trigger_ExecutionError ctx) = ec_trace_id ctx"
| "trigger_trace_id fresh (Trigger_ConfigurationError ctx) = ec_trace_id ctx"
| "trigger_trace_id fresh (Trigger_Other err) = fresh"

primrec trigger_display :: "TriggerError \<Rightarrow> string" where
  "trigger_display (Trigger_NotFound ctx) = ''Not found error: '' @ format_with_metadata ctx"
| "trigger_display (Trigger_ExecutionError ctx) = ''Execution error: '' @ format_with_metadata ctx"
| "trigger_display (Trigger_ConfigurationError ctx) = ''Configuration error: '' @ format_with_metadata ctx"
| "trigger_display (Trigger_Other err) = er_text err"

definition trigger_value :: "string \<Rightarrow> TriggerError \<Rightarrow> error_value" where
  "trigger_value fresh e = Error_value (trigger_display e) Trigger_kind (trigger_trace_id fresh e)
     (case e of Trigger_Other err \<Rightarrow> er_source err | _ \<Rightarrow> None)"

definition trigger_not_found :: "TriggerError raiser" where
  "trigger_not_found = raised Trigger_NotFound"

definition trigger_execution_error :: "TriggerError raiser" where
  "trigger_execution_error = raised Trigger_ExecutionError"

definition trigger_execution_error_without_log :: "TriggerError raiser" where
  "trigger_execution_error_without_log = raised_quietly Trigger_ExecutionError"

definition trigger_configuration_error :: "TriggerError raiser" where
  "trigger_configuration_error = raised Trigger_ConfigurationError"

lemma trigger_trace_context:
  "trigger_trace_id fresh e = (case trigger_context e of Some ctx \<Rightarrow> ec_trace_id ctx | None \<Rightarrow> fresh)"
  by (cases e) simp_all

interpretation trigger_errors: traceable trigger_value trigger_context "\<lambda>_. Trigger_kind"
  by unfold_locales (auto simp: trigger_value_def trigger_trace_context split: TriggerError.splits)

datatype ScriptError =
    Script_NotFound error_context
  | Script_ExecutionError error_context
  | Script_ParseError error_context
  | Script_SystemError error_context
  | Script_Other error_value

primrec script_context :: "ScriptError \<Rightarrow> error_context option" where
  "script_context (Script_NotFound ctx) = Some ctx"
| "script_context (Script_ExecutionError ctx) = Some ctx"
| "script_context (Script_ParseError ctx) = Some ctx"
| "script_context (Script_SystemError ctx) = Some ctx"
| "script_context (Script_Other err) = None"

primrec script_trace_id :: "string \<Rightarrow> ScriptError \<Rightarrow> string" where
  "script_trace_id fresh (Script_NotFound ctx) = ec_trace_id ctx"
| "script_trace_id fresh (Script_ExecutionError ctx) = ec_trace_id ctx"
| "script_trace_id fresh (Script_ParseError ctx) = ec_trace_id ctx"
| "script_trace_id fresh (Script_SystemError ctx) = ec_trace_id ctx"
| "script_trace_id fresh (Script_Other err) = fresh"

primrec script_display :: "ScriptError \<Rightarrow> string" where
  "script_display (Script_NotFound ctx) = ''Not found error: '' @ format_with_metadata ctx"
| "script_display (Script_ExecutionError ctx) = ''Execution error: '' @ format_with_metadata ctx"
| "script_display (Script_ParseError ctx) = ''Parse error: '' @ format_with_metadata ctx"
| "script_display (Script_SystemError ctx) = ''System error: '' @ format_with_metadata ctx"
| "script_display (Script_Other err) = er_text err"

definition script_value :: "string \<Rightarrow> ScriptError \<Rightarrow> error_value" where
  "script_value fresh e = Error_value (script_display e) Script_kind (script_trace_id fresh e)
     (case e of Script_Other err \<Rightarrow> er_source err | _ \<Rightarrow> None)"

definition script_not_found :: "ScriptError raiser" where
  "script_not_found = raised_quietly Script_NotFound"

definition script_execution_error :: "ScriptError raiser" where
  "script_execution_error = raised_quietly Script_ExecutionError"

definition script_parse_error :: "ScriptError raiser" where
  "script_parse_error = raised_quietly Script_ParseError"

definition script_system_error :: "ScriptError raiser" where
  "script_system_error = raised_quietly Script_SystemError"

lemma script_trace_context:
  "script_trace_id fresh e = (case script_context e of Some ctx \<Rightarrow> ec_trace_id ctx | None \<Rightarrow> fresh)"
  by (cases e) simp_all

interpretation script_errors: traceable script_value script_context "\<lambda>_. Script_kind"
  by unfold_locales (auto simp: script_value_def script_trace_context split: ScriptError.splits)

section \<open>Configuration, repositories and secrets\<close>

datatype RepositoryError =
    Repository_ValidationError error_context
  | Repository_LoadError error_context
  | Repository_InternalError error_context
  | Repository_Other error_value

primrec repository_context :: "RepositoryError \<Rightarrow> error_context option" where
  "repository_context (Repository_ValidationError ctx) = Some ctx"
| "repository_context (Repository_LoadError ctx) = Some ctx"
| "repository_context (Repository_InternalError ctx) = Some ctx"
| "repository_context (Repository_Other err) = None"

primrec repository_trace_id :: "string \<Rightarrow> RepositoryError \<Rightarrow> string" where
  "repository_trace_id fresh (Repository_ValidationError ctx) = ec_trace_id ctx"
| "repository_trace_id fresh (Repository_LoadError ctx) = ec_trace_id ctx"
| "repository_trace_id fresh (Repository_InternalError ctx) = ec_trace_id ctx"
| "repository_trace_id fresh (Repository_Other err) = fresh"

primrec repository_display :: "RepositoryError \<Rightarrow> string" where
  "repository_display (Repository_ValidationError ctx) = ''Validation error: '' @ format_with_metadata ctx"
| "repository_display (Repository_LoadError ctx) = ''Load error: '' @ format_with_metadata ctx"
| "repository_display (Repository_InternalError ctx) = ''Internal error: '' @ format_with_metadata ctx"
| "repository_display (Repository_Other err) = er_text err"

definition repository_value :: "string \<Rightarrow> RepositoryError \<Rightarrow> error_value" where
  "repository_value fresh e = Error_value (repository_display e) Repository_kind (repository_trace_id fresh e)
     (case e of Repository_Other err \<Rightarrow> er_source err | _ \<Rightarrow> None)"

definition repository_validation_error :: "RepositoryError raiser" where
  "repository_validation_error = raised Repository_ValidationError"

definition repository_load_error :: "RepositoryError raiser" where
  "repository_load_error = raised Repository_LoadError"

definition repository_internal_error :: "RepositoryError raiser" where
  "repository_internal_error = raised Repository_InternalError"

lemma repository_trace_context:
  "repository_trace_id fresh e = (case repository_context e of Some ctx \<Rightarrow> ec_trace_id ctx | None \<Rightarrow> fresh)"
  by (cases e) simp_all

interpretation repository_errors: traceable repository_value repository_context "\<lambda>_. Repository_kind"
  by unfold_locales (auto simp: repository_value_def repository_trace_context split: RepositoryError.splits)

datatype ConfigError =
    Config_ValidationError error_context
  | Config_ParseError error_context
  | Config_FileError error_context
  | Config_Other error_value

primrec config_context :: "ConfigError \<Rightarrow> error_context option" where
  "config_context (Config_ValidationError ctx) = Some ctx"
| "config_context (Config_ParseError ctx) = Some ctx"
| "config_context (Config_FileError ctx) = Some ctx"
| "config_context (Config_Other err) = None"

primrec config_trace_id :: "string \<Rightarrow> ConfigError \<Rightarrow> string" where
  "config_trace_id fresh (Config_ValidationError ctx) = ec_trace_id ctx"
| "config_trace_id fresh (Config_ParseError ctx) = ec_trace_id ctx"
| "config_trace_id fresh (Config_FileError ctx) = ec_trace_id ctx"
| "config_trace_id fresh (Config_Other err) = fresh"

primrec config_display :: "ConfigError \<Rightarrow> string" where
  "config_display (Config_ValidationError ctx) = ''Validation error: '' @ format_with_metadata ctx"
| "config_display (Config_ParseError ctx) = ''Parse error: '' @ format_with_metadata ctx"
| "config_display (Config_FileError ctx) = ''File error: '' @ format_with_metadata ctx"
| "config_display (Config_Other err) = er_text err"

definition config_value :: "string \<Rightarrow> ConfigError \<Rightarrow> error_value" where
  "config_value fresh e = Error_value (config_display e) Config_kind (config_trace_id fresh e)
     (case e of Config_Other err \<Rightarrow> er_source err | _ \<Rightarrow> None)"

definition config_validation_error :: "ConfigError raiser" where
  "config_validation_error = raised Config_ValidationError"

definition config_parse_error :: "ConfigError raiser" where
  "config_parse_error = raised Config_ParseError"

definition config_file_error :: "ConfigError raiser" where
  "config_file_error = raised Config_FileError"

lemma config_trace_context:
  "config_trace_id fresh e = (case config_context e of Some ctx \<Rightarrow> ec_trace_id ctx | None \<Rightarrow> fresh)"
  by (cases e) simp_all

interpretation config_errors: traceable config_value config_context "\<lambda>_. Config_kind"
  by unfold_locales (auto simp: config_value_def config_trace_context split: ConfigError.splits)

datatype SecurityError =
    Security_ValidationError error_context
  | Security_ParseError error_context
  | Security_NetworkError error_context
  | Security_Other error_value

primrec security_context :: "SecurityError \<Rightarrow> error_context option" where
  "security_context (Security_ValidationError ctx) = Some ctx"
| "security_context (Security_ParseError ctx) = Some ctx"
| "security_context (Security_NetworkError ctx) = Some ctx"
| "security_context (Security_Other err) = None"

primrec security_trace_id :: "string \<Rightarrow> SecurityError \<Rightarrow> string" where
  "security_trace_id fresh (Security_ValidationError ctx) = ec_trace_id ctx"
| "security_trace_id fresh (Security_ParseError ctx) = ec_trace_id ctx"
| "security_trace_id fresh (Security_NetworkError ctx) = ec_trace_id ctx"
| "security_trace_id fresh (Security_Other err) = fresh"

primrec security_display :: "SecurityError \<Rightarrow> string" where
  "security_display (Security_ValidationError ctx) = ''Validation error: '' @ format_with_metadata ctx"
| "security_display (Security_ParseError ctx) = ''Parse error: '' @ format_with_metadata ctx"
| "security_display (Security_NetworkError ctx) = ''Network error: '' @ format_with_metadata ctx"
| "security_display (Security_Other err) = er_text err"

definition security_value :: "string \<Rightarrow> SecurityError \<Rightarrow> error_value" where
  "security_value fresh e = Error_value (security_display e) Security_kind (security_trace_id fresh e)
     (case e of Security_Other err \<Rightarrow> er_source err | _ \<Rightarrow> None)"

definition security_validation_error :: "SecurityError raiser" where
  "security_validation_error = raised Security_ValidationError"

definition security_parse_error :: "SecurityError raiser" where
  "security_parse_error = raised Security_ParseError"

definition security_network_error :: "SecurityError raiser" where
  "security_network_error = raised Security_NetworkError"

lemma security_trace_context:
  "security_trace_id fresh e = (case security_context e of Some ctx \<Rightarrow> ec_trace_id ctx | None \<Rightarrow> fresh)"
  by (cases e) simp_all

interpretation security_errors: traceable security_value security_context "\<lambda>_. Security_kind"
  by unfold_locales (auto simp: security_value_def security_trace_context split: SecurityError.splits)

section \<open>Monitor execution\<close>

datatype MonitorExecutionError =
    MonitorExecution_NotFound error_context
  | MonitorExecution_ExecutionError error_context
  | MonitorExecution_Other error_value

primrec monitor_execution_context :: "MonitorExecutionError \<Rightarrow> error_context option" where
  "monitor_execution_context (MonitorExecution_NotFound ctx) = Some ctx"
| "monitor_execution_context (MonitorExecution_ExecutionError ctx) = Some ctx"
| "monitor_execution_context (MonitorExecution_Other err) = None"

primrec monitor_execution_trace_id :: "string \<Rightarrow> MonitorExecutionError \<Rightarrow> string" where
  "monitor_execution_trace_id fresh (MonitorExecution_NotFound ctx) = ec_trace_id ctx"
| "monitor_execution_trace_id fresh (MonitorExecution_ExecutionError ctx) = ec_trace_id ctx"
| "monitor_execution_trace_id fresh (MonitorExecution_Other err) = fresh"

primrec monitor_execution_display :: "MonitorExecutionError \<Rightarrow> string" where
  "monitor_execution_display (MonitorExecution_NotFound ctx) = ''Not found error: '' @ format_with_metadata ctx"
| "monitor_execution_display (MonitorExecution_ExecutionError ctx) = ''Execution error: '' @ format_with_metadata ctx"
| "monitor_execution_display (MonitorExecution_Other err) = er_text err"

definition monitor_execution_value :: "string \<Rightarrow> MonitorExecutionError \<Rightarrow> error_value" where
  "monitor_execution_value fresh e = Error_value (monitor_execution_display e) Monitor_execution_kind (monitor_execution_trace_id fresh e)
     (case e of MonitorExecution_Other err \<Rightarrow> er_source err | _ \<Rightarrow> None)"

definition monitor_execution_not_found :: "MonitorExecutionError raiser" where
  "monitor_execution_not_found = raised MonitorExecution_NotFound"

definition monitor_execution_execution_error :: "MonitorExecutionError raiser" where
  "monitor_execution_execution_error = raised MonitorExecution_ExecutionError"

lemma monitor_execution_trace_context:
  "monitor_execution_trace_id fresh e = (case monitor_execution_context e of Some ctx \<Rightarrow> ec_trace_id ctx | None \<Rightarrow> fresh)"
  by (cases e) simp_all

interpretation monitor_execution_errors: traceable monitor_execution_value monitor_execution_context "\<lambda>_. Monitor_execution_kind"
  by unfold_locales (auto simp: monitor_execution_value_def monitor_execution_trace_context split: MonitorExecutionError.splits)

text \<open>The conversions from errors of the file system and of JSON.\<close>

definition config_from_io :: "string \<Rightarrow> string \<Rightarrow> ConfigError \<times> log_line list" where
  "config_from_io fresh err = config_file_error fresh err None None"

definition config_from_json :: "string \<Rightarrow> string \<Rightarrow> ConfigError \<times> log_line list" where
  "config_from_json fresh err = config_parse_error fresh err None None"

definition security_from_io :: "string \<Rightarrow> string \<Rightarrow> SecurityError \<times> log_line list" where
  "security_from_io fresh err = security_parse_error fresh err None None"

definition security_from_json :: "string \<Rightarrow> string \<Rightarrow> SecurityError \<times> log_line list" where
  "security_from_json fresh err = security_parse_error fresh err None None"

section \<open>Errors of the program\<close>

text \<open>An error of any of the enumerations, as the handlers pass it on.\<close>

datatype program_error =
    Watcher_failure BlockWatcherError
  | Chain_failure BlockChainError
  | Transport_failure TransportError
  | Solana_client_failure SolanaClientError
  | Stellar_client_failure StellarClientError
  | Filter_failure FilterError
  | Evaluation_failure EvaluationError
  | Notification_failure NotificationError
  | Trigger_failure TriggerError
  | Script_failure ScriptError
  | Repository_failure RepositoryError
  | Config_failure ConfigError
  | Security_failure SecurityError
  | Monitor_execution_failure MonitorExecutionError

primrec program_value :: "string \<Rightarrow> program_error \<Rightarrow> error_value" where
  "program_value fresh (Watcher_failure e) = watcher_value fresh e"
| "program_value fresh (Chain_failure e) = chain_value fresh e"
| "program_value fresh (Transport_failure e) = transport_value fresh e"
| "program_value fresh (Solana_client_failure e) = solana_client_value fresh e"
| "program_value fresh (Stellar_client_failure e) = stellar_client_value fresh e"
| "program_value fresh (Filter_failure e) = filter_value fresh e"
| "program_value fresh (Evaluation_failure e) = evaluation_value fresh e"
| "program_value fresh (Notification_failure e) = notification_value fresh e"
| "program_value fresh (Trigger_failure e) = trigger_value fresh e"
| "program_value fresh (Script_failure e) = script_value fresh e"
| "program_value fresh (Repository_failure e) = repository_value fresh e"
| "program_value fresh (Config_failure e) = config_value fresh e"
| "program_value fresh (Security_failure e) = security_value fresh e"
| "program_value fresh (Monitor_execution_failure e) = monitor_execution_value fresh e"

primrec program_context :: "program_error \<Rightarrow> error_context option" where
  "program_context (Watcher_failure e) = watcher_context e"
| "program_context (Chain_failure e) = chain_context e"
| "program_context (Transport_failure e) = transport_context e"
| "program_context (Solana_client_failure e) = solana_client_context e"
| "program_context (Stellar_client_failure e) = stellar_client_context e"
| "program_context (Filter_failure e) = filter_context e"
| "program_context (Evaluation_failure e) = evaluation_context e"
| "program_context (Notification_failure e) = notification_context e"
| "program_context (Trigger_failure e) = trigger_context e"
| "program_context (Script_failure e) = script_context e"
| "program_context (Repository_failure e) = repository_context e"
| "program_context (Config_failure e) = config_context e"
| "program_context (Security_failure e) = security_context e"
| "program_context (Monitor_execution_failure e) = monitor_execution_context e"

primrec program_kind :: "program_error \<Rightarrow> error_kind" where
  "program_kind (Watcher_failure e) = Block_watcher_kind"
| "program_kind (Chain_failure e) = Block_chain_kind"
| "program_kind (Transport_failure e) = Transport_kind"
| "program_kind (Solana_client_failure e) = Solana_client_kind"
| "program_kind (Stellar_client_failure e) = Stellar_client_kind"
| "program_kind (Filter_failure e) = Filter_kind"
| "program_kind (Evaluation_failure e) = Evaluation_kind"
| "program_kind (Notification_failure e) = Notification_kind"
| "program_kind (Trigger_failure e) = Trigger_kind"
| "program_kind (Script_failure e) = Script_kind"
| "program_kind (Repository_failure e) = Repository_kind"
| "program_kind (Config_failure e) = Config_kind"
| "program_kind (Security_failure e) = Security_kind"
| "program_kind (Monitor_execution_failure e) = Monitor_execution_kind"

lemmas program_own_trace =
  watcher_errors.own_trace chain_errors.own_trace transport_errors.own_trace solana_client_errors.own_trace
  stellar_client_errors.own_trace filter_errors.own_trace evaluation_errors.own_trace notification_errors.own_trace
  trigger_errors.own_trace script_errors.own_trace repository_errors.own_trace config_errors.own_trace
  security_errors.own_trace monitor_execution_errors.own_trace

lemmas program_has_kind =
  watcher_errors.has_kind chain_errors.has_kind transport_errors.has_kind solana_client_errors.has_kind
  stellar_client_errors.has_kind filter_errors.has_kind evaluation_errors.has_kind notification_errors.has_kind
  trigger_errors.has_kind script_errors.has_kind repository_errors.has_kind config_errors.has_kind
  security_errors.has_kind monitor_execution_errors.has_kind

lemmas program_no_cause =
  watcher_errors.no_cause chain_errors.no_cause transport_errors.no_cause solana_client_errors.no_cause
  stellar_client_errors.no_cause filter_errors.no_cause evaluation_errors.no_cause notification_errors.no_cause
  trigger_errors.no_cause script_errors.no_cause repository_errors.no_cause config_errors.no_cause
  security_errors.no_cause monitor_execution_errors.no_cause

interpretation program_errors: traceable program_value program_context program_kind
proof unfold_locales
  fix e fresh
  show "er_own_trace (program_value fresh e) = (case program_context e of Some ctx \<Rightarrow> ec_trace_id ctx | None \<Rightarrow> fresh)"
    by (cases e) (simp_all add: program_own_trace)
  show "er_kind (program_value fresh e) = program_kind e" by (cases e) (simp_all add: program_has_kind)
  show "program_kind e \<noteq> Error_context_kind" "program_kind e \<noteq> Foreign_kind" by (cases e; simp)+
  show "er_source (program_value fresh e) = None" if "program_context e = Some ctx" for ctx
    using that by (cases e) (auto dest: program_no_cause)
qed

text \<open>A failure passed on by handlers: each puts it, with a message, into an error of its own.\<close>

fun passed_on :: "string \<Rightarrow> (string \<times> (error_context \<Rightarrow> program_error)) list \<Rightarrow> error_context \<Rightarrow> error_context" where
  "passed_on fresh [] ctx = ctx"
| "passed_on fresh ((message, wrap) # handlers) ctx =
     passed_on fresh handlers (new_error_context fresh message (Some (program_value fresh (wrap ctx))) None)"

section \<open>Properties\<close>

text \<open>A failure keeps its identifier in the log through any number of handlers, if and only if the
  error types that carry it are all known to the extraction: the six others break the trace.\<close>

theorem identifier_survives:
  assumes "\<forall>(message, wrap) \<in> set handlers. \<forall>c. program_context (wrap c) = Some c"
    and "\<forall>(message, wrap) \<in> set handlers. \<forall>c. program_kind (wrap c) = program_kind (wrap ctx)"
    and "ec_trace_id ctx \<noteq> fresh"
  shows "ec_trace_id (passed_on fresh handlers ctx) = ec_trace_id ctx
    \<longleftrightarrow> (\<forall>(message, wrap) \<in> set handlers. program_kind (wrap ctx) \<in> known_kinds)"
proof -
  have "ec_trace_id (passed_on fresh handlers c) =
      (if \<forall>(message, wrap) \<in> set handlers. program_kind (wrap ctx) \<in> known_kinds then ec_trace_id c else fresh)" for c
    using assms(1,2)
  proof (induction handlers arbitrary: c)
    case (Cons h handlers)
    obtain message wrap where h: "h = (message, wrap)" by (cases h)
    have "program_context (wrap c) = Some c" "program_kind (wrap c) = program_kind (wrap ctx)" using Cons.prems h by auto
    note around = program_errors.trace_around [OF this(1), unfolded this(2)]
    show ?case using Cons.IH Cons.prems by (simp add: h around)
  qed simp
  then show ?thesis using assms(3) by auto
qed

theorem identifier_survives_witness:
  "ec_trace_id (passed_on ''new'' [(''cannot fetch'', Chain_failure \<circ> BlockChain_RequestError),
       (''cannot process'', Watcher_failure \<circ> BlockWatcher_NetworkError)] (new_error_context ''old'' ''refused'' None None)) = ''old''
   \<and> ec_trace_id (passed_on ''new'' [(''cannot send'', Transport_failure \<circ> Transport_Network),
       (''cannot process'', Watcher_failure \<circ> BlockWatcher_NetworkError)] (new_error_context ''old'' ''refused'' None None)) \<noteq> ''old''"
  using identifier_survives [of "[(''cannot fetch'', Chain_failure \<circ> BlockChain_RequestError),
       (''cannot process'', Watcher_failure \<circ> BlockWatcher_NetworkError)]" "new_error_context ''old'' ''refused'' None None" "''new''"]
    identifier_survives [of "[(''cannot send'', Transport_failure \<circ> Transport_Network),
       (''cannot process'', Watcher_failure \<circ> BlockWatcher_NetworkError)]" "new_error_context ''old'' ''refused'' None None" "''new''"]
  by (simp add: new_error_context_def known_kinds_def)

text \<open>An error that \<open>anyhow\<close> wraps keeps the identifier of a context inside it when it is passed on as
  it is, and loses it when an enumeration takes it in as \<open>Other\<close>, although its type is known.\<close>

lemma other_loses_trace:
  fixes ctx
  defines "wrapped_error \<equiv> Error_value ''fetching'' Foreign_kind [] (Some (error_of_context ctx))"
  shows "ec_trace_id (new_error_context fresh message (Some wrapped_error) metadata) = ec_trace_id ctx"
    "ec_trace_id (new_error_context fresh message (Some (chain_value fresh' (BlockChain_Other wrapped_error))) metadata) = fresh'"
  by (simp_all add: wrapped_error_def new_error_context_def trace_id_of_def try_extract_trace_id_def error_of_context_def
      max_depth_def eval_nat_numeral chain_errors.foreign_retraced known_kinds_def chain_value_def)

text \<open>The chain in the log names the last error only: what caused it is not a source of it.\<close>

lemma logged_chain_ends:
  assumes "program_context e = Some ctx"
  shows "ll_chain (log_error (new_error_context fresh message (Some (program_value fresh' e)) metadata)) =
    Some (sanitize_error_message (er_text (program_value fresh' e)))"
  by (rule program_errors.chain_ends [OF assms])

end
