(* ===== verification/Solana_Transport.thy ===== *)
theory Solana_Transport imports Solana_Client Http_Transport begin

text \<open>
  The Solana transport (src/src/services/blockchain/transports/solana/http.rs): the settings of
  its requests and the convenience methods, each over the HTTP transport \<open>rpc\<close>. The keys of a JSON
  object are sorted, as \<open>serde_json\<close> keeps them. The client (Solana_Client) builds most of its
  requests itself; the last section compares the two.
\<close>

section \<open>Settings\<close>

datatype commitment = Finalized | Confirmed | Processed

primrec commitment_as_str :: "commitment \<Rightarrow> string" where
  "commitment_as_str Finalized = ''finalized''"
| "commitment_as_str Confirmed = ''confirmed''"
| "commitment_as_str Processed = ''processed''"

definition default_commitment :: commitment where "default_commitment = Finalized"

definition commitment_or_default :: "commitment option \<Rightarrow> string" where
  "commitment_or_default c = commitment_as_str (case c of None \<Rightarrow> default_commitment | Some c \<Rightarrow> c)"

record get_block_config =
  bc_encoding :: "string option"
  bc_transaction_details :: "string option"
  bc_rewards :: "bool option"
  bc_commitment :: "string option"
  bc_max_supported_transaction_version :: "8 word option"

definition block_config_full :: get_block_config where
  "block_config_full = \<lparr>bc_encoding = Some ''json'', bc_transaction_details = Some ''full'', bc_rewards = Some True,
     bc_commitment = Some ''finalized'', bc_max_supported_transaction_version = Some 0\<rparr>"

definition block_config_signatures_only :: get_block_config where
  "block_config_signatures_only = \<lparr>bc_encoding = Some ''json'', bc_transaction_details = Some ''signatures'', bc_rewards = Some False,
     bc_commitment = Some ''finalized'', bc_max_supported_transaction_version = Some 0\<rparr>"

definition block_config_none :: get_block_config where
  "block_config_none = \<lparr>bc_encoding = Some ''json'', bc_transaction_details = Some ''none'', bc_rewards = Some False,
     bc_commitment = Some ''finalized'', bc_max_supported_transaction_version = Some 0\<rparr>"

record get_transaction_config =
  tc_encoding :: "string option"
  tc_commitment :: "string option"
  tc_max_supported_transaction_version :: "8 word option"

definition transaction_config_json :: get_transaction_config where
  "transaction_config_json = \<lparr>tc_encoding = Some ''json'', tc_commitment = Some ''finalized'',
     tc_max_supported_transaction_version = Some 0\<rparr>"

definition transaction_config_json_parsed :: get_transaction_config where
  "transaction_config_json_parsed = \<lparr>tc_encoding = Some ''jsonParsed'', tc_commitment = Some ''finalized'',
     tc_max_supported_transaction_version = Some 0\<rparr>"

text \<open>A field is left out of the object if it is not set.\<close>

definition optional_field :: "string \<Rightarrow> ('a \<Rightarrow> json) \<Rightarrow> 'a option \<Rightarrow> (string \<times> json) list" where
  "optional_field key to_value v = (case v of None \<Rightarrow> [] | Some x \<Rightarrow> [(key, to_value x)])"

definition json_u8 :: "8 word \<Rightarrow> json" where
  "json_u8 n = JNumber (PosInt (ucast n))"

definition block_config_value :: "get_block_config \<Rightarrow> json" where
  "block_config_value config = JObject
     (optional_field ''commitment'' JString (bc_commitment config) @ optional_field ''encoding'' JString (bc_encoding config)
      @ optional_field ''maxSupportedTransactionVersion'' json_u8 (bc_max_supported_transaction_version config)
      @ optional_field ''rewards'' JBool (bc_rewards config)
      @ optional_field ''transactionDetails'' JString (bc_transaction_details config))"

definition transaction_config_value :: "get_transaction_config \<Rightarrow> json" where
  "transaction_config_value config = JObject
     (optional_field ''commitment'' JString (tc_commitment config) @ optional_field ''encoding'' JString (tc_encoding config)
      @ optional_field ''maxSupportedTransactionVersion'' json_u8 (tc_max_supported_transaction_version config))"

section \<open>Requests\<close>

definition commitment_value :: "commitment \<Rightarrow> json" where
  "commitment_value c = JObject [(''commitment'', JString (commitment_as_str c))]"

definition get_slot :: "('e, 't) transport \<Rightarrow> commitment option \<Rightarrow> ('e, 't, json) call" where
  "get_slot rpc commitment = rpc ''getSlot'' (map_option (\<lambda>c. JArray [commitment_value c]) commitment)"

definition get_block :: "('e, 't) transport \<Rightarrow> u64 \<Rightarrow> get_block_config option \<Rightarrow> ('e, 't, json) call" where
  "get_block rpc slot_number config =
     (let config = (case config of None \<Rightarrow> block_config_full | Some c \<Rightarrow> c)
      in rpc ''getBlock'' (Some (JArray [json_u64 slot_number, block_config_value config])))"

definition get_blocks :: "('e, 't) transport \<Rightarrow> u64 \<Rightarrow> u64 option \<Rightarrow> commitment option \<Rightarrow> ('e, 't, json) call" where
  "get_blocks rpc start_slot end_slot commitment = rpc ''getBlocks'' (Some (case (end_slot, commitment) of
       (Some e, Some c) \<Rightarrow> JArray [json_u64 start_slot, json_u64 e, commitment_value c]
     | (Some e, None) \<Rightarrow> JArray [json_u64 start_slot, json_u64 e]
     | (None, Some c) \<Rightarrow> JArray [json_u64 start_slot, JNull, commitment_value c]
     | (None, None) \<Rightarrow> JArray [json_u64 start_slot]))"

definition get_transaction :: "('e, 't) transport \<Rightarrow> string \<Rightarrow> get_transaction_config option \<Rightarrow> ('e, 't, json) call" where
  "get_transaction rpc signature config =
     (let config = (case config of None \<Rightarrow> transaction_config_json | Some c \<Rightarrow> c)
      in rpc ''getTransaction'' (Some (JArray [JString signature, transaction_config_value config])))"

definition get_account_info :: "('e, 't) transport \<Rightarrow> string \<Rightarrow> commitment option \<Rightarrow> ('e, 't, json) call" where
  "get_account_info rpc pubkey commitment = rpc ''getAccountInfo'' (Some (JArray [JString pubkey,
     JObject [(''commitment'', JString (commitment_or_default commitment)), (''encoding'', JString ''jsonParsed'')]]))"

definition get_program_accounts :: "('e, 't) transport \<Rightarrow> string \<Rightarrow> json list option \<Rightarrow> commitment option \<Rightarrow> ('e, 't, json) call" where
  "get_program_accounts rpc program_id filters commitment = rpc ''getProgramAccounts'' (Some (JArray [JString program_id,
     JObject ([(''commitment'', JString (commitment_or_default commitment)), (''encoding'', JString ''jsonParsed'')]
       @ optional_field ''filters'' JArray filters)]))"

definition get_block_height :: "('e, 't) transport \<Rightarrow> commitment option \<Rightarrow> ('e, 't, json) call" where
  "get_block_height rpc commitment = rpc ''getBlockHeight'' (map_option (\<lambda>c. JArray [commitment_value c]) commitment)"

definition get_block_time :: "('e, 't) transport \<Rightarrow> u64 \<Rightarrow> ('e, 't, json) call" where
  "get_block_time rpc slot_number = rpc ''getBlockTime'' (Some (JArray [json_u64 slot_number]))"

definition get_first_available_block :: "('e, 't) transport \<Rightarrow> ('e, 't, json) call" where
  "get_first_available_block rpc = rpc ''getFirstAvailableBlock'' None"

definition minimum_ledger_slot :: "('e, 't) transport \<Rightarrow> ('e, 't, json) call" where
  "minimum_ledger_slot rpc = rpc ''minimumLedgerSlot'' None"

definition get_version :: "('e, 't) transport \<Rightarrow> ('e, 't, json) call" where
  "get_version rpc = rpc ''getVersion'' None"

definition get_health :: "('e, 't) transport \<Rightarrow> ('e, 't, json) call" where
  "get_health rpc = rpc ''getHealth'' None"

section \<open>Connecting\<close>

definition solana_test_payload :: string where
  "solana_test_payload = ''{\"id\":1,\"jsonrpc\":\"2.0\",\"method\":\"getHealth\"}''"

definition solana_transport_new :: "http_env \<Rightarrow> network \<Rightarrow> nat \<Rightarrow> string + http_transport" where
  "solana_transport_new env net = http_transport_new env net (Some solana_test_payload)"

definition solana_with_test_payload :: "http_env \<Rightarrow> network \<Rightarrow> string option \<Rightarrow> nat \<Rightarrow> string + http_transport" where
  "solana_with_test_payload env net test_payload = http_transport_new env net test_payload"

section \<open>The requests of the client\<close>

text \<open>The client writes the settings of its requests out; they are those of the transport.\<close>

lemma client_configs:
  "full_block_config = block_config_value block_config_full"
  "transaction_config = transaction_config_value transaction_config_json"
  "commitment_config = commitment_value Finalized"
  by (simp_all add: full_block_config_def block_config_value_def block_config_full_def transaction_config_def
      transaction_config_value_def transaction_config_json_def commitment_config_def commitment_value_def
      optional_field_def json_u8_def json_nat_def)

lemma client_requests:
  "rpc ''getSlot'' (Some (JArray [commitment_config])) = get_slot rpc (Some Finalized)"
  "rpc ''getBlock'' (Some (JArray [json_u64 n, full_block_config])) = get_block rpc n None"
  "rpc ''getBlocks'' (Some (JArray [json_u64 n, json_u64 m, commitment_config])) = get_blocks rpc n (Some m) (Some Finalized)"
  "rpc ''getTransaction'' (Some (JArray [JString signature, transaction_config])) = get_transaction rpc signature None"
  "rpc ''getAccountInfo'' (Some (JArray [JString key, account_config])) = get_account_info rpc key None"
  "rpc ''getProgramAccounts'' (Some (JArray [JString key, account_config])) = get_program_accounts rpc key None None"
  by (simp_all add: client_configs get_slot_def get_block_def get_blocks_def get_transaction_def get_account_info_def
      get_program_accounts_def account_config_def commitment_or_default_def default_commitment_def optional_field_def)

text \<open>A block of the client is what the transport's default request answers.\<close>

lemma client_block_request:
  "fetch_slots rpc [n] = call_then (call_then (call_context
       (Sol_transport_error (''Failed to fetch block from Solana RPC for slot: '' @ show_word n)) (get_block rpc n None)) (read_slot n))
     (\<lambda>b. Inr (case b of None \<Rightarrow> [] | Some b \<Rightarrow> [b]))"
  by (auto simp: client_requests call_then_def call_bind_def answer_def fun_eq_iff split: option.splits sum.splits)

text \<open>Without a commitment the request for the slot leaves the choice to the node, while the request
  for an account asks for finalized data.\<close>

lemma unset_commitment:
  "get_slot rpc None = rpc ''getSlot'' None"
  "get_account_info rpc key None = get_account_info rpc key (Some Finalized)"
  by (simp_all add: get_slot_def get_account_info_def commitment_or_default_def default_commitment_def)

end
