(* ===== verification/Secret_Syntax.thy ===== *)
theory Secret_Syntax imports Models begin

text \<open>
  Secrets in configuration files: the reader that the macro \<open>impl_case_insensitive_enum\<close> generates
  (src/src/utils/macros/deserialization.rs), its use for \<open>SecretValue\<close>, the derived writer, and
  what is printed and erased (src/src/models/security/secret.rs). An object is the list of its
  entries in the order of the file, where a key can occur again.
\<close>

section \<open>The generated reader\<close>

datatype read_error =
    Type_not_text
  | Missing_field string
  | Invalid_value string
  | Unknown_variant string "string list"

text \<open>The loop over the entries: the last type and the last value.\<close>

fun visit_entries :: "string option \<Rightarrow> json option \<Rightarrow> (string \<times> json) list \<Rightarrow> read_error + (string option \<times> json option)" where
  "visit_entries ty val [] = Inr (ty, val)"
| "visit_entries ty val ((key, x) # entries) =
     (if key = ''type'' then (case x of JString s \<Rightarrow> visit_entries (Some s) val entries | _ \<Rightarrow> Inl Type_not_text)
      else if key = ''value'' then visit_entries ty (Some x) entries
      else visit_entries ty val entries)"

definition read_enum :: "(string \<times> (string \<Rightarrow> 'a)) list \<Rightarrow> (string \<times> json) list \<Rightarrow> read_error + 'a" where
  "read_enum variants entries = (case visit_entries None None entries of
       Inl e \<Rightarrow> Inl e
     | Inr (None, _) \<Rightarrow> Inl (Missing_field ''type'')
     | Inr (Some ty, None) \<Rightarrow> Inl (Missing_field ''value'')
     | Inr (Some ty, Some val) \<Rightarrow>
         (let type_lowercase = to_lowercase ty in
          case map_of variants type_lowercase of
            Some variant \<Rightarrow> (case val of JString content \<Rightarrow> Inr (variant content) | _ \<Rightarrow> Inl (Invalid_value type_lowercase))
          | None \<Rightarrow> Inl (Unknown_variant ty (map fst variants))))"

text \<open>The last entry of a key.\<close>

definition last_entry :: "(string \<times> json) list \<Rightarrow> string \<Rightarrow> json option" where
  "last_entry entries key = map_of (rev entries) key"

lemma last_entry_simps [simp]:
  "last_entry [] key = None"
  "last_entry ((k, x) # entries) key =
    (case last_entry entries key of Some y \<Rightarrow> Some y | None \<Rightarrow> if k = key then Some x else None)"
  by (auto simp: last_entry_def map_add_def split: option.split)

lemma visit_entries_ok:
  assumes "\<forall>x. (''type'', x) \<in> set entries \<longrightarrow> (\<exists>s. x = JString s)"
  shows "visit_entries ty val entries = Inr
    (case last_entry entries ''type'' of Some (JString s) \<Rightarrow> Some s | _ \<Rightarrow> ty,
     case last_entry entries ''value'' of Some x \<Rightarrow> Some x | None \<Rightarrow> val)"
  using assms
proof (induction entries arbitrary: ty val)
  case (Cons entry entries)
  obtain key x where entry: "entry = (key, x)" by (cases entry)
  have IH: "visit_entries ty val entries = Inr
      (case last_entry entries ''type'' of Some (JString s) \<Rightarrow> Some s | _ \<Rightarrow> ty,
       case last_entry entries ''value'' of Some x \<Rightarrow> Some x | None \<Rightarrow> val)" for ty val
    using Cons.prems by (intro Cons.IH) simp
  have "last_entry entries ''type'' = None \<or> (\<exists>s. last_entry entries ''type'' = Some (JString s))"
    using Cons.prems map_of_SomeD [of "rev entries" "''type''"] by (cases "last_entry entries ''type''") (auto simp: last_entry_def)
  moreover have "key = ''type'' \<Longrightarrow> \<exists>s. x = JString s" using Cons.prems by (simp add: entry)
  ultimately show ?case
    by (cases "key = ''type''"; cases "key = ''value''"; cases "last_entry entries ''value''") (auto simp: entry IH)
qed simp

lemma visit_entries_bad:
  assumes "(''type'', x) \<in> set entries" "\<nexists>s. x = JString s"
  shows "visit_entries ty val entries = Inl Type_not_text"
  using assms by (induction ty val entries rule: visit_entries.induct) (auto split: json.splits)

text \<open>The macro's contract: the names of the variants are in lower case and distinct. Reading is then
  exact: the last type entry, in any letter case, names the variant, and the last value entry is
  its text; other entries are passed over.\<close>

locale case_insensitive_enum =
  fixes variants :: "(string \<times> (string \<Rightarrow> 'a)) list"
  assumes lower_names: "name \<in> fst ` set variants \<Longrightarrow> to_lowercase name = name"
    and distinct_names: "distinct (map fst variants)"
begin

lemma read_exact:
  "read_enum variants entries = Inr v \<longleftrightarrow>
    (\<forall>x. (''type'', x) \<in> set entries \<longrightarrow> (\<exists>s. x = JString s)) \<and>
    (\<exists>ty name variant content. last_entry entries ''type'' = Some (JString ty) \<and> (name, variant) \<in> set variants
      \<and> to_lowercase ty = to_lowercase name \<and> last_entry entries ''value'' = Some (JString content) \<and> v = variant content)"
  (is "_ \<longleftrightarrow> ?texts \<and> ?read")
proof (cases ?texts)
  case True
  have named: "(\<exists>name. (name, variant) \<in> set variants \<and> to_lowercase ty = to_lowercase name) \<longleftrightarrow> map_of variants (to_lowercase ty) = Some variant"
    for ty variant
    using lower_names distinct_names by (force simp: image_iff)
  have "read_enum variants entries = Inr v \<longleftrightarrow> (\<exists>ty variant content. last_entry entries ''type'' = Some (JString ty)
      \<and> map_of variants (to_lowercase ty) = Some variant \<and> last_entry entries ''value'' = Some (JString content) \<and> v = variant content)"
    by (auto simp: read_enum_def visit_entries_ok [OF True] Let_def split: option.splits json.splits)
  also have "\<dots> \<longleftrightarrow> ?read" unfolding named [symmetric] by blast
  finally show ?thesis using True by blast
next
  case False
  then obtain x where "(''type'', x) \<in> set entries" "\<nexists>s. x = JString s" by blast
  note bad = visit_entries_bad [OF this]
  show ?thesis using False by (simp only: read_enum_def bad sum.case) simp
qed

lemma read_written:
  assumes "(name, variant) \<in> set variants" "to_lowercase ty = name"
  shows "read_enum variants [(''type'', JString ty), (''value'', JString content)] = Inr (variant content)"
  unfolding read_exact using assms lower_names [of name]
  by (force simp: last_entry_def image_iff)

end

section \<open>Secrets\<close>

definition secret_variants :: "(string \<times> (string \<Rightarrow> secret_value)) list" where
  "secret_variants = [(''plain'', Plain), (''environment'', Environment), (''hashicorpcloudvault'', HashicorpCloudVault)]"

definition read_secret :: "(string \<times> json) list \<Rightarrow> read_error + secret_value" where
  "read_secret = read_enum secret_variants"

fun write_secret :: "secret_value \<Rightarrow> (string \<times> json) list" where
  "write_secret (Plain s) = [(''type'', JString ''Plain''), (''value'', JString s)]"
| "write_secret (Environment s) = [(''type'', JString ''Environment''), (''value'', JString s)]"
| "write_secret (HashicorpCloudVault s) = [(''type'', JString ''HashicorpCloudVault''), (''value'', JString s)]"

fun secret_eq :: "secret_value \<Rightarrow> secret_value \<Rightarrow> bool" where
  "secret_eq (Plain l) (Plain r) = (l = r)"
| "secret_eq (Environment l) (Environment r) = (l = r)"
| "secret_eq (HashicorpCloudVault l) (HashicorpCloudVault r) = (l = r)"
| "secret_eq _ _ = False"

fun secret_display :: "secret_value \<Rightarrow> string" where
  "secret_display (Plain _) = ''<secret string>''"
| "secret_display (Environment env_var) = env_var"
| "secret_display (HashicorpCloudVault name) = name"

fun secret_zeroize :: "secret_value \<Rightarrow> secret_value" where
  "secret_zeroize (Plain _) = Plain []"
| "secret_zeroize (Environment _) = Environment []"
| "secret_zeroize (HashicorpCloudVault _) = HashicorpCloudVault []"

lemma lowercase_secret_types [simp]:
  "to_lowercase ''plain'' = ''plain''" "to_lowercase ''environment'' = ''environment''"
  "to_lowercase ''hashicorpcloudvault'' = ''hashicorpcloudvault''"
  "to_lowercase ''Plain'' = ''plain''" "to_lowercase ''Environment'' = ''environment''"
  "to_lowercase ''HashicorpCloudVault'' = ''hashicorpcloudvault''"
  by code_simp+

interpretation secret_enum: case_insensitive_enum secret_variants
  by unfold_locales (auto simp: secret_variants_def)

section \<open>Properties\<close>

text \<open>A secret that is written to a file and read again is the same.\<close>

lemma secret_roundtrip: "read_secret (write_secret v) = Inr v"
  using secret_enum.read_written [of "''plain''" Plain "''Plain''"]
    secret_enum.read_written [of "''environment''" Environment "''Environment''"]
    secret_enum.read_written [of "''hashicorpcloudvault''" HashicorpCloudVault "''HashicorpCloudVault''"]
  by (cases v) (simp_all add: read_secret_def secret_variants_def [THEN arg_cong [of _ _ set]])

text \<open>A field that a secret does not have is passed over, although the type is marked
  \<open>deny_unknown_fields\<close>: the mark has no effect on the generated reader.\<close>

lemma unknown_fields_ignored:
  assumes "key \<noteq> ''type''" "key \<noteq> ''value''"
  shows "read_secret (front @ (key, x) # back) = read_secret (front @ back)"
proof -
  have "visit_entries ty val (front @ (key, x) # back) = visit_entries ty val (front @ back)" for ty val
    using assms by (induction ty val front rule: visit_entries.induct) (auto split: json.splits)
  then show ?thesis by (simp add: read_secret_def read_enum_def)
qed

text \<open>What is printed of a secret does not depend on a plain text in it, and erasing one leaves
  nothing of its text.\<close>

lemma plain_not_printed: "secret_display (Plain s) = secret_display (Plain s')"
  by simp

lemma secret_eq_iff: "secret_eq v w \<longleftrightarrow> v = w"
  by (cases v; cases w) simp_all

lemma zeroized_empty: "secret_as_str (secret_zeroize v) = []"
  by (cases v) simp_all

end
