(* ===== verification/Spec2Isabelle.thy ===== *)
theory Spec2Isabelle imports Prelude Models Tracker Pipeline Storage_Properties Watcher Bootstrap Http_Transport_Properties Ws_Transport_Properties Expression_Parser_Properties
  Base58_Properties Solana_Filter_Properties Solana_Idl Midnight_Filter_Properties Stellar_Filter_Properties Config_Properties
  Midnight_Client Stellar_Client_Properties Solana_Client_Properties Client_Pool Chains Block_To_Trigger Metrics
  Errors Solana_Transport Secret_Syntax begin

text \<open>
  OpenZeppelin Monitor: a verification library.

  The program watches block chains and runs triggers for the transactions that match its
  monitors. On the schedule of a network a block watcher asks a client for the new blocks,
  hands each to the filter of the chain, checks their order in a block tracker, records the
  numbers that are missing, and stores how far it came; a recovery job fetches missing blocks
  later. The filter finds, for every monitor, the transactions whose addresses, status,
  function calls and events match, and evaluates filter expressions on their parameters. The
  trigger handler drops matches by condition scripts and sends the others through
  notifications or scripts. Clients reach their nodes over transports that rotate through
  several endpoints. File names below are under src/src.

  Conventions. A struct is a record, an enum a datatype, a machine integer a word of its
  width (the release profile wraps), a string a list of bytes, \<open>Result\<close> is a sum with the
  error on the left. State is passed explicitly; a panic is \<open>None\<close> where the code can panic;
  a loop that may not end is a \<open>partial_function (option)\<close>, \<open>None\<close> being a call that never
  returns. What is not in the repository (serde_json, alloy, reqwest, the file system, the
  nodes, the scripts) is a parameter: a function, or a record of functions, passed to the
  definitions that use it; what a theorem needs of it is among its hypotheses, and its witness
  instantiates it. The combinators of winnow and the Rust standard library are written out
  as documented.

  Theories and what they model.

  Prelude: integers, results, strings, decimal numerals, ordered and insertion maps.
  Models: JSON values, networks, monitors, matches, blocks (models/core, models/blockchain).

  Tracker: services/blockwatcher/tracker.rs. Invariant of the histories, gap detection.
  File_System, Block_Storage: the file storage of services/blockwatcher/storage.rs over a
  file system whose operations may fail at any step. Storage_Contract states the contract of
  the trait \<open>BlockStorage\<close> as a locale and interprets it on the file storage; Sample_Codec has
  the JSON codec of the witnesses; Storage_Properties what is read back after what is saved.
  Recovery: services/blockwatcher/recovery.rs, refined by an abstract run on the cores of
  the entries (number, status, retries).
  Pipeline, Watcher: services/blockwatcher/service.rs. Pipeline is the stage that orders the
  processed blocks and fires triggers; Watcher is one run on new blocks, and the watchers'
  start and stop.

  Expression_Parser, Expression: services/filter/expression. The parser's levels nest to the
  length of the input, which is enough: the recursive equation of the source is proved from
  it. A printer of syntax trees gives the round trip.
  Evm_Values, Evm_Evaluator, Evm_Filter: services/filter/filters/evm (helpers.rs,
  evaluator.rs, filter.rs): addresses and signatures, comparison of typed values,
  the matching of a block. Their property theories show soundness and completeness of the
  filter and where it fails.
  Match_Handler: services/filter/filter_match.rs, the data of a match as template variables.

  Chain_Models: blocks, transactions and events of Solana and Midnight (models/blockchain).
  Solana_Values, Solana_Filter: services/filter/filters/solana; base58 is shown to be a bijection
  onto its texts, and the filter equal to its specification. Solana_Idl: the signatures of
  program interfaces (models/blockchain/solana/monitor.rs). Midnight_Filter:
  services/filter/filters/midnight.
  Stellar_Values, Stellar_Evaluator, Stellar_Filter: services/filter/filters/stellar (helpers.rs,
  evaluator.rs, filter.rs) and models/blockchain/stellar: values and types of contracts, their
  specifications and signatures, the decoding of events, the matching of a ledger. Their
  property theories show how integers of contracts are compared, exactly which transactions
  match, and which calls and events are missed.

  Config, Repositories: models/config, models/security and repositories. Config_Properties has
  the contract of the loaders as a locale, interpreted for networks, monitors and triggers,
  what a configuration that loads guarantees to the watcher and the trigger service, and where
  the checks fall short.

  Script_Executor, Template, Notification, Trigger_Execution: services/trigger and
  services/notification. Script output, template substitution, the notifiers with their
  requests and retries, and the loading and running of triggers.
  Bootstrap: bootstrap/mod.rs, the block handler and the trigger handler that compose them.
  Chains completes the block handler's environment by the filters of Stellar, Midnight and
  Solana: the matches of a processed block are well typed on every chain. Block_To_Trigger
  composes a run of the watcher with both handlers; the trigger tasks that the trigger handler
  spawns are an inductive step relation, and its invariant gives that every match is triggered
  exactly once under every interleaving.

  Monitor_Execution: utils/monitor/execution.rs, the test run of one monitor, compared with the
  block handler. Logging: utils/logging, log files, escape sequences and error contexts. Errors:
  the error enumerations (the files error.rs); what they share, the identifier, the type and the
  absent cause, is a locale that each of them interprets, and its lemmas say which errors keep
  their identifier through handlers. Secret_Syntax: utils/macros/deserialization.rs, the reader of
  tagged values as a locale over the names of the variants, interpreted for secrets.
  Program: main.rs, the command line, the services, the watchers that are started and stopped.
  Metrics: utils/metrics/mod.rs, the gauges of the configuration and the counters of requests.

  Endpoints: the ring of endpoints of a transport, the rotations of the HTTP and WebSocket
  managers, and the locale of the trait \<open>RotatingTransport\<close>; Http_Transport and Ws_Transport
  (services/blockchain/transports) interpret it.

  Rpc_Client, Evm_Client, Midnight_Client, Stellar_Client, Solana_Client:
  services/blockchain/clients, the requests each client sends over a transport and what it reads
  in the answers. Rpc_Client has the locale of clients that fetch a range block by block,
  interpreted for EVM and Midnight; the properties of Stellar are about its pages, those of
  Solana about signatures and skipped slots. Solana_Transport: the settings and requests of
  transports/solana/http.rs, to which the requests of the client are equal. Client_Pool:
  services/blockchain/pool.rs under concurrent callers, and its storages for the four chains.

  Groups of lemmas. Invariants: tracker histories, retry counts, the ring of endpoints.
  Functional: gap detection, new blocks of a run, matches of a block, template variables,
  substitution, accepted monitors. Refinement: the recovery run. Round trips: expressions,
  base58, the last processed block, tuples of values. Liveness and termination: requests that move past failing
  endpoints, and requests that never return. Failures the code has: named in their texts.

  Bounds. The nesting of the expression parser is bounded by the length of its input, shown
  to be enough; attempts of a WebSocket rotation by max_reconnect_attempts, as in the code.

  The watcher, the recovery job and the filters take a client or a node as a parameter, as the
  code does by its traits. Not modelled: the parsing of arguments, signals, the subscriber that
  writes log lines, the metrics HTTP server and the readings of processor, memory and disks (the
  libraries'), the deserialisation of the answers of nodes, floating point conversions; test
  builders; interleavings of concurrent requests on one transport and of several networks,
  which share no state but the storage directory and the pool of clients.
\<close>

end
